(* ===== verification/Prelude.thy ===== *)
theory Prelude
  imports Main "HOL-Library.Char_ord" "HOL-Library.List_Lexorder" "HOL-Library.AList"
begin

text \<open>
  Shared vocabulary of the development: the Python values every component uses
  (strings, bytes, timestamps, dictionaries), results that are an exception or a
  value, and the generic lemmas on lists and association lists the component
  proofs rest on.

  A Python \<open>str\<close> is a list of characters whose code points lie below 256, so
  \<open>len\<close> is \<open>length\<close> and \<open>ord\<close> is \<open>of_char\<close>. \<open>bytes\<close> are lists of the same
  256 characters. A \<open>float\<close> timestamp is a whole number of seconds: on that
  range IEEE addition, subtraction and comparison are exact. A value the code
  passes to \<open>math.isfinite\<close> is a \<open>pyfloat\<close>. A \<open>dict\<close> is an association list
  in insertion order.
\<close>

type_synonym pystr = string
type_synonym bytes = string
type_synonym time = int

named_theorems guard_defs "definitions of the guard chains, unfolded by the functional lemmas"
named_theorems inv_intros "preservation of component invariants"

subsection \<open>Floats that may fail \<open>math.isfinite\<close>\<close>

datatype pyfloat = Finite time | PosInf | NegInf | NaN

fun finite_value :: "pyfloat \<Rightarrow> time option" where
  "finite_value (Finite t) = Some t"
| "finite_value _ = None"

lemma finite_value_Some [simp]: "finite_value x = Some t \<longleftrightarrow> x = Finite t"
  by (cases x) auto

subsection \<open>Results: an exception on the left, a value on the right\<close>

definition bind_result :: "'e + 'a \<Rightarrow> ('a \<Rightarrow> 'e + 'b) \<Rightarrow> 'e + 'b" where
  "bind_result r f = (case r of Inl e \<Rightarrow> Inl e | Inr a \<Rightarrow> f a)"

lemma bind_result_simps [simp]:
  "bind_result (Inl e) f = Inl e"
  "bind_result (Inr a) f = f a"
  by (simp_all add: bind_result_def)

lemma bind_result_Inr_iff:
  "bind_result r f = Inr b \<longleftrightarrow> (\<exists>a. r = Inr a \<and> f a = Inr b)"
  by (cases r) auto

lemma bind_resultE:
  assumes "bind_result r f = Inr b"
  obtains a where "r = Inr a" "f a = Inr b"
  using assms by (auto simp: bind_result_Inr_iff)

definition map_result :: "('a \<Rightarrow> 'b) \<Rightarrow> 'e + 'a \<Rightarrow> 'e + 'b" where
  "map_result f r = (case r of Inl e \<Rightarrow> Inl e | Inr a \<Rightarrow> Inr (f a))"

lemma map_result_simps [simp]:
  "map_result f (Inl e) = Inl e"
  "map_result f (Inr a) = Inr (f a)"
  by (simp_all add: map_result_def)

lemma map_result_Inr_iff: "map_result f r = Inr b \<longleftrightarrow> (\<exists>a. r = Inr a \<and> b = f a)"
  by (cases r) auto

fun is_ok :: "'e + 'a \<Rightarrow> bool" where
  "is_ok (Inl e) = False"
| "is_ok (Inr a) = True"

lemma is_ok_iff: "is_ok r \<longleftrightarrow> (\<exists>a. r = Inr a)"
  by (cases r) auto

subsection \<open>Characters and strings\<close>

definition char_code :: "char \<Rightarrow> nat" where
  "char_code c = of_char c"

definition has_control :: "pystr \<Rightarrow> bool" where
  "has_control s = list_ex (\<lambda>c. char_code c < 32) s"

definition hex_digits :: string where
  "hex_digits = ''0123456789abcdef''"

definition all_hex :: "pystr \<Rightarrow> bool" where
  "all_hex s = list_all (\<lambda>c. c \<in> set hex_digits) s"

text \<open>
  \<open>str.upper\<close> on code points below 256: ASCII and Latin-1 lower-case letters move
  down by 32, the sharp s becomes two letters. The two characters whose upper case
  lies outside the range (micro sign, y with diaeresis) are left as they are.
\<close>

definition upper_char :: "char \<Rightarrow> string" where
  "upper_char c =
     (let n = char_code c in
      if 97 \<le> n \<and> n \<le> 122 then [char_of (n - 32)]
      else if n = 223 then ''SS''
      else if 224 \<le> n \<and> n \<le> 254 \<and> n \<noteq> 247 then [char_of (n - 32)]
      else [c])"

definition upper :: "pystr \<Rightarrow> pystr" where
  "upper s = concat (map upper_char s)"

definition startswith :: "pystr \<Rightarrow> pystr \<Rightarrow> bool" where
  "startswith s p = (take (length p) s = p)"

subsection \<open>Dictionaries\<close>

definition dict_get :: "('k \<times> 'v) list \<Rightarrow> 'k \<Rightarrow> 'v \<Rightarrow> 'v" where
  "dict_get d k dflt = (case map_of d k of None \<Rightarrow> dflt | Some v \<Rightarrow> v)"

definition wf_dict :: "('k \<times> 'v) list \<Rightarrow> bool" where
  "wf_dict d = distinct (map fst d)"

lemma wf_dict_Nil [simp]: "wf_dict []"
  by (simp add: wf_dict_def)

lemma map_of_update [simp]: "map_of (AList.update k v d) = (map_of d)(k \<mapsto> v)"
  by (rule AList.update_conv')

lemma wf_dict_update [intro, inv_intros]: "wf_dict d \<Longrightarrow> wf_dict (AList.update k v d)"
  by (simp add: wf_dict_def distinct_update)

lemma wf_dict_filter [intro, inv_intros]: "wf_dict d \<Longrightarrow> wf_dict (filter P d)"
  unfolding wf_dict_def by (induction d) auto

lemma wf_dict_map_of: "wf_dict d \<Longrightarrow> (k, v) \<in> set d \<longleftrightarrow> map_of d k = Some v"
  by (auto simp: wf_dict_def map_of_eq_Some_iff)

lemma list_all_dict:
  "wf_dict d \<Longrightarrow> list_all (\<lambda>(k, v). P k v) d \<longleftrightarrow> (\<forall>k v. map_of d k = Some v \<longrightarrow> P k v)"
  by (auto simp: list_all_iff wf_dict_map_of)

lemma keyed_values:
  assumes "wf_dict d" "\<forall>kv\<in>set d. f (snd kv) = fst kv"
  shows "(\<exists>v\<in>set (map snd d). f v = i \<and> P v) \<longleftrightarrow> (\<exists>v. map_of d i = Some v \<and> P v)"
proof
  assume "\<exists>v\<in>set (map snd d). f v = i \<and> P v"
  then obtain k v where "(k, v) \<in> set d" "f v = i" "P v" by auto
  moreover from this(1) assms(2) have "f v = k" by auto
  ultimately show "\<exists>v. map_of d i = Some v \<and> P v" using wf_dict_map_of[OF assms(1)] by auto
next
  assume "\<exists>v. map_of d i = Some v \<and> P v"
  then obtain v where v: "map_of d i = Some v" "P v" by auto
  then have "(i, v) \<in> set d" by (simp add: wf_dict_map_of[OF assms(1)])
  with assms(2) v show "\<exists>v\<in>set (map snd d). f v = i \<and> P v" by force
qed

lemma map_add_new: "m k = None \<Longrightarrow> [k \<mapsto> v] ++ m = m(k \<mapsto> v)"
  by (rule ext) (auto simp: map_add_def split: option.split)

lemma wf_dict_append: "wf_dict (d @ [(k, v)]) \<longleftrightarrow> wf_dict d \<and> map_of d k = None"
  by (auto simp: wf_dict_def map_of_eq_None_iff)

lemma map_of_append_new: "map_of d k = None \<Longrightarrow> map_of (d @ [(k, v)]) = (map_of d)(k \<mapsto> v)"
  by (simp add: map_add_new)

lemma set_update_subset: "set (AList.update k v d) \<subseteq> insert (k, v) (set d)"
  by (induction d) auto

lemma update_fresh: "k \<notin> set (map fst d) \<Longrightarrow> AList.update k v d = d @ [(k, v)]"
  by (induction d) auto

lemma map_of_filter_wf:
  "wf_dict d \<Longrightarrow> map_of (filter P d) k =
     (case map_of d k of None \<Rightarrow> None | Some v \<Rightarrow> if P (k, v) then Some v else None)"
  unfolding wf_dict_def
  by (induction d) (auto split: option.splits simp: map_of_eq_None_iff image_iff)

subsection \<open>Hexadecimal text\<close>

lemma char_code_inj [simp]: "char_code c = char_code d \<longleftrightarrow> c = d"
  by (simp add: char_code_def)

lemma char_code_less: "char_code c < 256"
  by (simp add: char_code_def)

lemma char_code_char_of: "n < 256 \<Longrightarrow> char_code (char_of n) = n"
  by (simp add: char_code_def)

lemma char_of_eq_iff: "n < 256 \<Longrightarrow> char_of n = c \<longleftrightarrow> char_code c = n"
  by (auto simp: char_code_def)

definition hex_digit :: "nat \<Rightarrow> char" where
  "hex_digit n = hex_digits ! (n mod 16)"

definition hex_value :: "char \<Rightarrow> nat" where
  "hex_value c = (if char_code c < 58 then char_code c - 48 else char_code c - 87)"

lemma hex_value_digit: "hex_value (hex_digit n) = n mod 16"
proof -
  have "\<forall>k\<in>{0..<16}. hex_value (hex_digits ! k) = k"
    by (simp add: hex_value_def hex_digits_def char_code_def atLeastLessThan_nat_numeral atLeast0_lessThan_Suc
        eval_nat_numeral lessThan_Suc)
  then show ?thesis by (simp add: hex_digit_def)
qed

lemma hex_pair_value: "char_of (16 * hex_value (hex_digit (char_code c div 16)) + hex_value (hex_digit (char_code c))) = c"
proof -
  have "char_code c div 16 < 16" using char_code_less[of c] by auto
  then have "16 * ((char_code c div 16) mod 16) + char_code c mod 16 = char_code c"
    by simp
  then show ?thesis by (simp add: hex_value_digit char_code_def)
qed

text \<open>
  \<open>bytes.hex\<close> and \<open>bytes.fromhex\<close>: the reader takes both cases and skips ASCII
  white space between bytes; \<open>None\<close> is its \<open>ValueError\<close>.
\<close>

definition is_space :: "char \<Rightarrow> bool" where
  "is_space c = (char_code c = 32 \<or> (9 \<le> char_code c \<and> char_code c \<le> 13))"

definition hex_of_char :: "char \<Rightarrow> nat option" where
  "hex_of_char c =
     (let n = char_code c in
      if 48 \<le> n \<and> n \<le> 57 then Some (n - 48)
      else if 97 \<le> n \<and> n \<le> 102 then Some (n - 87)
      else if 65 \<le> n \<and> n \<le> 70 then Some (n - 55)
      else None)"

fun fromhex :: "pystr \<Rightarrow> bytes option" where
  "fromhex [] = Some []"
| "fromhex (c # s) =
     (if is_space c then fromhex s
      else case s of
        [] \<Rightarrow> None
      | d # s' \<Rightarrow>
          (case (hex_of_char c, hex_of_char d) of
             (Some h, Some l) \<Rightarrow> map_option (Cons (char_of (16 * h + l))) (fromhex s')
           | _ \<Rightarrow> None))"

definition tohex :: "bytes \<Rightarrow> pystr" where
  "tohex b = concat (map (\<lambda>c. [hex_digit (char_code c div 16), hex_digit (char_code c)]) b)"

lemma hex_digit_cases: "\<exists>k<16. hex_digit n = hex_digits ! k \<and> k = n mod 16"
  by (simp add: hex_digit_def)

lemma hex_digits_checks: "\<forall>k\<in>{0..<16}. hex_of_char (hex_digits ! k) = Some k \<and> \<not> is_space (hex_digits ! k)"
  by (simp add: hex_of_char_def is_space_def hex_digits_def char_code_def atLeast0_lessThan_Suc
      eval_nat_numeral)

lemma hex_of_digit [simp]: "hex_of_char (hex_digit n) = Some (n mod 16)" "\<not> is_space (hex_digit n)"
  using hex_digits_checks by (simp_all add: hex_digit_def)

lemma fromhex_tohex [simp]: "fromhex (tohex b) = Some b"
proof (induction b)
  case (Cons c b)
  have "char_code c div 16 < 16" using char_code_less[of c] by auto
  then have "char_of (16 * (char_code c div 16 mod 16) + char_code c mod 16) = c"
    by (simp add: char_code_def)
  with Cons show ?case by (simp add: tohex_def)
qed (simp add: tohex_def)

lemma tohex_inject [simp]: "tohex a = tohex b \<longleftrightarrow> a = b"
  by (metis fromhex_tohex option.inject)

lemma length_tohex [simp]: "length (tohex b) = 2 * length b"
  by (induction b) (simp_all add: tohex_def)

lemma tohex_eq_Nil [simp]: "tohex b = [] \<longleftrightarrow> b = []"
  by (cases b) (simp_all add: tohex_def)

subsection \<open>Representations in messages\<close>

text \<open>\<open>repr\<close> of a string and of a list of strings, as f-strings with \<open>!r\<close> print them.\<close>

definition repr_char :: "char \<Rightarrow> char \<Rightarrow> string" where
  "repr_char q c =
     (let n = char_code c in
      if c = q \<or> n = 92 then [CHR 0x5C, c]
      else if n = 10 then [CHR 0x5C, CHR ''n'']
      else if n = 13 then [CHR 0x5C, CHR ''r'']
      else if n = 9 then [CHR 0x5C, CHR ''t'']
      else if n < 32 \<or> (127 \<le> n \<and> n \<le> 160) \<or> n = 173
        then [CHR 0x5C, CHR ''x'', hex_digit (n div 16), hex_digit n]
      else [c])"

definition py_repr :: "pystr \<Rightarrow> pystr" where
  "py_repr s =
     (let q = (if CHR 0x27 \<in> set s \<and> CHR 0x22 \<notin> set s then CHR 0x22 else CHR 0x27)
      in q # concat (map (repr_char q) s) @ [q])"

fun join_with :: "string \<Rightarrow> string list \<Rightarrow> string" where
  "join_with sep [] = []"
| "join_with sep [x] = x"
| "join_with sep (x # y # ys) = x @ sep @ join_with sep (y # ys)"

definition py_repr_list :: "pystr list \<Rightarrow> pystr" where
  "py_repr_list xs = ''['' @ join_with '', '' (map py_repr xs) @ '']''"

end
