(* ===== verification/Json.thy ===== *)
theory Json
  imports Prelude
begin

text \<open>
  The part of Python's \<open>json\<close> module the components use: JSON values, Python's
  \<open>==\<close> on them, and \<open>json.dumps(v, sort_keys=True, separators=(",", ":"))\<close> in both
  \<open>ensure_ascii\<close> settings. The main result is that the canonical text determines
  the value up to the order of dictionary keys; a signature over the text is
  therefore a signature over every field. A JSON float is a whole number of seconds
  (\<open>1.0\<close> is written \<open>1.0\<close>, distinct from the integer \<open>1\<close>).
\<close>

datatype json =
    JNull
  | JBool bool
  | JInt int
  | JFloat int
  | JStr pystr
  | JArr "json list"
  | JObj "(pystr \<times> json) list"

subsection \<open>Access and truth\<close>

fun jget :: "json \<Rightarrow> pystr \<Rightarrow> json option" where
  "jget (JObj kvs) k = map_of kvs k"
| "jget _ _ = None"

fun truthy :: "json \<Rightarrow> bool" where
  "truthy JNull = False"
| "truthy (JBool b) = b"
| "truthy (JInt n) = (n \<noteq> 0)"
| "truthy (JFloat n) = (n \<noteq> 0)"
| "truthy (JStr s) = (s \<noteq> [])"
| "truthy (JArr xs) = (xs \<noteq> [])"
| "truthy (JObj kvs) = (kvs \<noteq> [])"

subsection \<open>Key order and Python equality\<close>

text \<open>\<open>key_sorted\<close> puts the keys of every dictionary in order.\<close>

primrec key_sorted :: "json \<Rightarrow> json" where
  "key_sorted JNull = JNull"
| "key_sorted (JBool b) = JBool b"
| "key_sorted (JInt n) = JInt n"
| "key_sorted (JFloat n) = JFloat n"
| "key_sorted (JStr s) = JStr s"
| "key_sorted (JArr xs) = JArr (map key_sorted xs)"
| "key_sorted (JObj kvs) = JObj (sort_key fst (map (map_prod id key_sorted) kvs))"

text \<open>Python compares \<open>True\<close>, \<open>1\<close> and \<open>1.0\<close> equal.\<close>

primrec merge_numbers :: "json \<Rightarrow> json" where
  "merge_numbers JNull = JNull"
| "merge_numbers (JBool b) = JInt (if b then 1 else 0)"
| "merge_numbers (JInt n) = JInt n"
| "merge_numbers (JFloat n) = JInt n"
| "merge_numbers (JStr s) = JStr s"
| "merge_numbers (JArr xs) = JArr (map merge_numbers xs)"
| "merge_numbers (JObj kvs) = JObj (map (map_prod id merge_numbers) kvs)"

definition py_eq :: "json \<Rightarrow> json \<Rightarrow> bool" where
  "py_eq a b = (key_sorted (merge_numbers a) = key_sorted (merge_numbers b))"

lemma py_eq_refl [simp]: "py_eq a a"
  by (simp add: py_eq_def)

lemma py_eq_sym: "py_eq a b \<Longrightarrow> py_eq b a"
  by (simp add: py_eq_def)

lemma py_eq_trans: "py_eq a b \<Longrightarrow> py_eq b c \<Longrightarrow> py_eq a c"
  by (simp add: py_eq_def)

lemma py_eq_JStr [simp]: "py_eq (JStr s) v \<longleftrightarrow> v = JStr s"
  by (cases v) (auto simp: py_eq_def)

subsection \<open>Text\<close>

definition escape_char :: "bool \<Rightarrow> char \<Rightarrow> string" where
  "escape_char ascii c =
     (let n = char_code c in
      if n = 34 \<or> n = 92 then [CHR 0x5C, c]
      else if n = 10 then [CHR 0x5C, CHR ''n'']
      else if n = 13 then [CHR 0x5C, CHR ''r'']
      else if n = 9 then [CHR 0x5C, CHR ''t'']
      else if n = 12 then [CHR 0x5C, CHR ''f'']
      else if n = 8 then [CHR 0x5C, CHR ''b'']
      else if n < 32 \<or> (ascii \<and> 126 < n)
        then [CHR 0x5C, CHR ''u'', CHR ''0'', CHR ''0'', hex_digit (n div 16), hex_digit n]
      else [c])"

definition quoted :: "bool \<Rightarrow> pystr \<Rightarrow> string" where
  "quoted ascii s = CHR 0x22 # concat (map (escape_char ascii) s) @ [CHR 0x22]"

definition digit :: "nat \<Rightarrow> char" where
  "digit n = char_of (48 + n)"

fun show_nat :: "nat \<Rightarrow> string" where
  "show_nat n = (if n < 10 then [digit n] else show_nat (n div 10) @ [digit (n mod 10)])"

declare show_nat.simps [simp del]

definition show_int :: "int \<Rightarrow> string" where
  "show_int i = (if i < 0 then CHR ''-'' # show_nat (nat (- i)) else show_nat (nat i))"

fun join :: "string list \<Rightarrow> string" where
  "join [] = []"
| "join [x] = x"
| "join (x # y # ys) = x @ CHR '','' # join (y # ys)"

definition member_text :: "bool \<Rightarrow> pystr \<times> string \<Rightarrow> string" where
  "member_text ascii kv = quoted ascii (fst kv) @ CHR '':'' # snd kv"

primrec plain_dumps :: "bool \<Rightarrow> json \<Rightarrow> string" where
  "plain_dumps ascii JNull = ''null''"
| "plain_dumps ascii (JBool b) = (if b then ''true'' else ''false'')"
| "plain_dumps ascii (JInt n) = show_int n"
| "plain_dumps ascii (JFloat n) = show_int n @ ''.0''"
| "plain_dumps ascii (JStr s) = quoted ascii s"
| "plain_dumps ascii (JArr xs) = CHR ''['' # join (map (plain_dumps ascii) xs) @ '']''"
| "plain_dumps ascii (JObj kvs) =
     CHR ''{'' # join (map (member_text ascii) (map (map_prod id (plain_dumps ascii)) kvs)) @ ''}''"

text \<open>\<open>json.dumps(v, sort_keys=True, separators=(",", ":"), ensure_ascii=ascii)\<close>.\<close>

definition dumps :: "bool \<Rightarrow> json \<Rightarrow> string" where
  "dumps ascii v = plain_dumps ascii (key_sorted v)"

text \<open>\<open>str.encode("utf-8")\<close> on code points below 256.\<close>

definition utf8_char :: "char \<Rightarrow> bytes" where
  "utf8_char c =
     (let n = char_code c in
      if n < 128 then [c] else [char_of (192 + n div 64), char_of (128 + n mod 64)])"

definition utf8 :: "pystr \<Rightarrow> bytes" where
  "utf8 s = concat (map utf8_char s)"

subsection \<open>The text determines the value\<close>

text \<open>Every token is self-delimiting: it can be split off the front of a longer text.\<close>

text \<open>The reader of one escaped character, the inverse of \<open>escape_char\<close>.\<close>

definition short_escape :: "char \<Rightarrow> char" where
  "short_escape e =
     (if e = CHR ''n'' then char_of (10::nat) else if e = CHR ''r'' then char_of (13::nat)
      else if e = CHR ''t'' then char_of (9::nat) else if e = CHR ''f'' then char_of (12::nat)
      else if e = CHR ''b'' then char_of (8::nat) else e)"

fun read_char :: "string \<Rightarrow> (char \<times> string) option" where
  "read_char [] = None"
| "read_char (b # r) =
     (if b \<noteq> CHR 0x5C then Some (b, r)
      else case r of
        [] \<Rightarrow> None
      | e # r' \<Rightarrow>
          if e = CHR ''u'' then
            (case r' of z # z' # h # l # r'' \<Rightarrow> Some (char_of (16 * hex_value h + hex_value l), r'') | _ \<Rightarrow> None)
          else Some (short_escape e, r'))"

lemma char_code_0x5C: "char_code (CHR 0x5C) = 92" and char_code_0x22: "char_code (CHR 0x22) = 34"
  by (simp_all add: char_code_def)

lemma short_escape_special: "char_code c = 34 \<or> char_code c = 92 \<Longrightarrow> short_escape c = c \<and> c \<noteq> CHR ''u''"
  by (auto simp: short_escape_def char_code_def)

lemma read_escape_char: "read_char (escape_char a c @ s) = Some (c, s)"
proof -
  let ?n = "char_code c"
  consider (special) "?n = 34 \<or> ?n = 92" | (n) "?n = 10" | (r) "?n = 13" | (t) "?n = 9" | (f) "?n = 12"
    | (b) "?n = 8" | (u) "?n \<noteq> 34" "?n \<noteq> 92" "?n \<notin> {8, 9, 10, 12, 13}" "?n < 32 \<or> (a \<and> 126 < ?n)"
    | (plain) "?n \<noteq> 34" "?n \<noteq> 92" "?n \<notin> {8, 9, 10, 12, 13}" "\<not> (?n < 32 \<or> (a \<and> 126 < ?n))"
    by blast
  then show ?thesis
  proof cases
    case special
    then show ?thesis using short_escape_special by (auto simp: escape_char_def)
  next
    case u
    then show ?thesis by (simp add: escape_char_def Let_def hex_pair_value)
  next
    case plain
    then show ?thesis using char_code_0x5C by (auto simp: escape_char_def Let_def)
  qed (simp_all add: escape_char_def short_escape_def char_of_eq_iff)
qed

lemma escape_char_split:
  assumes "escape_char a c @ s = escape_char a d @ t" shows "c = d \<and> s = t"
proof -
  have "Some (c, s) = Some (d, t)"
    using read_escape_char[of a c s] read_escape_char[of a d t]
    by (simp only: assms)
  then show ?thesis by simp
qed

lemma escape_char_nonempty: "\<exists>c' cs. escape_char a c = c' # cs \<and> c' \<noteq> CHR 0x22"
  by (auto simp: escape_char_def Let_def char_code_def)

lemma escaped_split:
  "concat (map (escape_char a) xs) @ CHR 0x22 # s = concat (map (escape_char a) ys) @ CHR 0x22 # t
   \<Longrightarrow> xs = ys \<and> s = t"
proof (induction xs arbitrary: ys)
  case Nil
  then show ?case
    using escape_char_nonempty[of a "hd ys"] by (cases ys) auto
next
  case (Cons x xs)
  obtain x' x'' where x: "escape_char a x = x' # x''" "x' \<noteq> CHR 0x22"
    using escape_char_nonempty by blast
  with Cons.prems obtain y ys' where ys: "ys = y # ys'"
    by (cases ys) auto
  with Cons.prems have "escape_char a x @ (concat (map (escape_char a) xs) @ CHR 0x22 # s)
      = escape_char a y @ (concat (map (escape_char a) ys') @ CHR 0x22 # t)" by simp
  from escape_char_split[OF this] show ?case
    using Cons.IH[of ys'] ys by simp
qed

lemma quoted_split: "quoted a x @ s = quoted a y @ t \<Longrightarrow> x = y \<and> s = t"
  using escaped_split[of a x s y t] by (simp add: quoted_def)

subsubsection \<open>Numbers\<close>

definition is_digit :: "char \<Rightarrow> bool" where
  "is_digit c = (48 \<le> char_code c \<and> char_code c \<le> 57)"

definition no_digit :: "string \<Rightarrow> bool" where
  "no_digit s = (case s of [] \<Rightarrow> True | c # _ \<Rightarrow> \<not> is_digit c)"

lemma digit_code: "n < 10 \<Longrightarrow> char_code (digit n) = 48 + n"
  by (simp add: digit_def char_code_def)

lemma is_digit_digit: "n < 10 \<Longrightarrow> is_digit (digit n)"
  by (simp add: is_digit_def digit_code)

lemma digit_inj: "m < 10 \<Longrightarrow> n < 10 \<Longrightarrow> digit m = digit n \<Longrightarrow> m = n"
  by (metis add_left_cancel digit_code)

lemma show_nat_digits: "list_all is_digit (show_nat n)"
  by (induction n rule: show_nat.induct) (subst show_nat.simps, auto simp: is_digit_digit)

lemma show_nat_nonempty: "show_nat n \<noteq> []"
  by (subst show_nat.simps) simp

lemma digits_span:
  "list_all is_digit xs \<Longrightarrow> list_all is_digit ys \<Longrightarrow> no_digit s \<Longrightarrow> no_digit t
   \<Longrightarrow> xs @ s = ys @ t \<Longrightarrow> xs = ys \<and> s = t"
proof (induction xs arbitrary: ys)
  case Nil
  then show ?case by (cases ys) (auto simp: no_digit_def)
next
  case (Cons x xs)
  then show ?case by (cases ys) (auto simp: no_digit_def)
qed

lemma show_nat_inj: "show_nat m = show_nat n \<Longrightarrow> m = n"
proof (induction m arbitrary: n rule: show_nat.induct)
  case (1 m)
  have len: "length (show_nat k) = 1 \<longleftrightarrow> k < 10" for k
    using show_nat_nonempty[of "k div 10"] by (subst show_nat.simps) auto
  show ?case
  proof (cases "m < 10")
    case True
    then have "n < 10" using "1.prems" len by metis
    with True "1.prems" show ?thesis
      by (auto simp: show_nat.simps[of m] show_nat.simps[of n] intro: digit_inj)
  next
    case False
    then have "\<not> n < 10" using "1.prems" len by metis
    with False "1.prems" have "show_nat (m div 10) = show_nat (n div 10)"
      "digit (m mod 10) = digit (n mod 10)"
      by (auto simp: show_nat.simps[of m] show_nat.simps[of n])
    with "1.IH" False have "m div 10 = n div 10" "m mod 10 = n mod 10"
      by (auto intro: digit_inj)
    then show ?thesis by (metis div_mult_mod_eq)
  qed
qed

lemma show_int_first: "\<exists>c cs. show_int i = c # cs \<and> (c = CHR ''-'' \<or> is_digit c)"
  using show_nat_digits[of "nat i"] show_nat_nonempty[of "nat i"]
  by (cases "show_nat (nat i)") (auto simp: show_int_def)

lemma show_int_split:
  assumes "show_int i @ s = show_int j @ t" "no_digit s" "no_digit t"
  shows "i = j \<and> s = t"
proof -
  have minus: "\<not> is_digit (CHR ''-'')" by (simp add: is_digit_def char_code_def)
  have hd_digit: "show_nat n @ u \<noteq> CHR ''-'' # v" for n u v
    using show_nat_digits[of n] show_nat_nonempty[of n] minus
    by (cases "show_nat n") auto
  have span: "show_nat m @ s = show_nat n @ t \<Longrightarrow> m = n \<and> s = t" for m n
    using digits_span[OF show_nat_digits show_nat_digits assms(2,3)] show_nat_inj by blast
  show ?thesis
  proof (cases "i < 0"; cases "j < 0")
    assume "i < 0" "j < 0"
    with assms(1) have "show_nat (nat (- i)) @ s = show_nat (nat (- j)) @ t"
      by (simp add: show_int_def)
    from span[OF this] \<open>i < 0\<close> \<open>j < 0\<close> show ?thesis by auto
  next
    assume "i < 0" "\<not> j < 0"
    with assms(1) hd_digit[of "nat j" t "show_nat (nat (- i)) @ s"] show ?thesis
      by (simp add: show_int_def)
  next
    assume "\<not> i < 0" "j < 0"
    with assms(1) hd_digit[of "nat i" s "show_nat (nat (- j)) @ t"] show ?thesis
      by (simp add: show_int_def)
  next
    assume "\<not> i < 0" "\<not> j < 0"
    with assms(1) have "show_nat (nat i) @ s = show_nat (nat j) @ t"
      by (simp add: show_int_def)
    from span[OF this] \<open>\<not> i < 0\<close> \<open>\<not> j < 0\<close> show ?thesis by auto
  qed
qed

subsubsection \<open>Values\<close>

text \<open>What may follow a value: nothing, a comma or a closing bracket.\<close>

definition delimited :: "string \<Rightarrow> bool" where
  "delimited s = (case s of [] \<Rightarrow> True | c # _ \<Rightarrow> c \<in> {CHR '','', CHR '']'', CHR ''}''})"

lemma delimited_simps [simp]:
  "delimited []" "delimited (CHR '','' # s)" "delimited (CHR '']'' # s)" "delimited (CHR ''}'' # s)"
  by (simp_all add: delimited_def)

lemma delimited_no_digit: "delimited s \<Longrightarrow> no_digit s"
  by (auto simp: delimited_def no_digit_def is_digit_def char_code_def split: list.splits)

lemma delimited_no_dot: "delimited s \<Longrightarrow> s \<noteq> CHR ''.'' # t"
  by (auto simp: delimited_def)

lemma no_digit_dot: "no_digit (CHR ''.'' # s)"
  by (simp add: no_digit_def is_digit_def char_code_def)

fun joined_rest :: "string list \<Rightarrow> string" where
  "joined_rest [] = []"
| "joined_rest (x # xs) = CHR '','' # x @ joined_rest xs"

lemma join_Cons: "join (x # xs) = x @ joined_rest xs"
  by (induction xs arbitrary: x) auto

lemma delimited_rest: "delimited (joined_rest xs @ CHR '']'' # s)" "delimited (joined_rest xs @ CHR ''}'' # s)"
  by (cases xs; simp)+

text \<open>\<open>splits f A\<close>: texts of \<open>f\<close> on \<open>A\<close> can be read off unambiguously.\<close>

definition splits :: "('a \<Rightarrow> string) \<Rightarrow> 'a \<Rightarrow> bool" where
  "splits f x = (\<forall>y s t. delimited s \<longrightarrow> delimited t \<longrightarrow> f x @ s = f y @ t \<longrightarrow> x = y \<and> s = t)"

lemma splitsD: "splits f x \<Longrightarrow> f x @ s = f y @ t \<Longrightarrow> delimited s \<Longrightarrow> delimited t \<Longrightarrow> x = y \<and> s = t"
  unfolding splits_def by blast

lemma joined_rest_split:
  assumes "c = CHR '']'' \<or> c = CHR ''}''"
  shows "\<forall>x\<in>set xs. splits f x \<Longrightarrow>
    joined_rest (map f xs) @ c # s = joined_rest (map f ys) @ c # t \<Longrightarrow> xs = ys \<and> s = t"
proof (induction xs arbitrary: ys)
  case Nil
  then show ?case using assms by (cases ys) auto
next
  case (Cons x xs)
  then obtain y ys' where ys: "ys = y # ys'" using assms by (cases ys) auto
  with Cons.prems have eq: "f x @ (joined_rest (map f xs) @ c # s) = f y @ (joined_rest (map f ys') @ c # t)"
    by simp
  have "delimited (joined_rest (map f xs) @ c # s)" "delimited (joined_rest (map f ys') @ c # t)"
    using assms delimited_rest by auto
  with eq Cons.prems(1) have "x = y" "joined_rest (map f xs) @ c # s = joined_rest (map f ys') @ c # t"
    by (auto dest: splitsD)
  with Cons.IH[of ys'] Cons.prems(1) ys show ?case by simp
qed

lemma join_split:
  assumes c: "c = CHR '']'' \<or> c = CHR ''}''" and all: "\<forall>x\<in>set xs. splits f x"
    and start: "\<And>x. \<exists>d ds. f x = d # ds \<and> d \<noteq> c"
    and eq: "join (map f xs) @ c # s = join (map f ys) @ c # t"
  shows "xs = ys \<and> s = t"
proof (cases xs; cases ys)
  fix x xs' y ys'
  assume xs: "xs = x # xs'" and ys: "ys = y # ys'"
  with eq have eq': "f x @ (joined_rest (map f xs') @ c # s) = f y @ (joined_rest (map f ys') @ c # t)"
    by (simp only: list.map join_Cons append_assoc)
  have "delimited (joined_rest (map f xs') @ c # s)" "delimited (joined_rest (map f ys') @ c # t)"
    using c delimited_rest by auto
  with eq' all xs have "x = y" "joined_rest (map f xs') @ c # s = joined_rest (map f ys') @ c # t"
    by (auto dest: splitsD)
  with joined_rest_split[OF c, of xs' f s ys' t] all xs ys show ?thesis by simp
next
  fix x xs' assume "xs = x # xs'" "ys = []"
  with eq start[of x] show ?thesis by (auto simp: join_Cons)
next
  fix y ys' assume "xs = []" "ys = y # ys'"
  with eq start[of y] show ?thesis by (auto simp: join_Cons)
qed (use eq in simp)

lemma quoted_first: "\<exists>cs. quoted a s = CHR 0x22 # cs"
  by (simp add: quoted_def)

lemma member_text_split:
  assumes "splits f (snd kv)"
  shows "splits (\<lambda>kv. member_text a (map_prod id f kv)) kv"
  unfolding splits_def
proof (intro allI impI)
  fix kv' s t
  assume d: "delimited s" "delimited t"
    and "member_text a (map_prod id f kv) @ s = member_text a (map_prod id f kv') @ t"
  then have "quoted a (fst kv) @ (CHR '':'' # f (snd kv) @ s) = quoted a (fst kv') @ (CHR '':'' # f (snd kv') @ t)"
    by (simp add: member_text_def)
  from quoted_split[OF this] have "fst kv = fst kv'" "f (snd kv) @ s = f (snd kv') @ t"
    by simp_all
  with splitsD[OF assms _ d] show "kv = kv' \<and> s = t"
    by (metis prod.collapse)
qed

text \<open>The first character of a text tells the kind of its value.\<close>

fun starts_as :: "json \<Rightarrow> char \<Rightarrow> bool" where
  "starts_as JNull c = (c = CHR ''n'')"
| "starts_as (JBool b) c = (c = (if b then CHR ''t'' else CHR ''f''))"
| "starts_as (JInt _) c = (c = CHR ''-'' \<or> is_digit c)"
| "starts_as (JFloat _) c = (c = CHR ''-'' \<or> is_digit c)"
| "starts_as (JStr _) c = (c = CHR 0x22)"
| "starts_as (JArr _) c = (c = CHR ''['')"
| "starts_as (JObj _) c = (c = CHR ''{'')"

lemma plain_dumps_first: "\<exists>c cs. plain_dumps a v = c # cs \<and> starts_as v c"
  using show_int_first quoted_first[of a] by (cases v) (auto, (metis append_Cons)+)

lemma is_digit_literals [simp]:
  "\<not> is_digit (CHR ''n'')" "\<not> is_digit (CHR ''t'')" "\<not> is_digit (CHR ''f'')" "\<not> is_digit (CHR 0x22)"
  "\<not> is_digit (CHR ''['')" "\<not> is_digit (CHR ''{'')" "\<not> is_digit (CHR '']'')" "\<not> is_digit (CHR ''}'')"
  "\<not> is_digit (CHR ''-'')"
  by (simp_all add: is_digit_def char_code_def)

lemma same_start:
  assumes "plain_dumps a v @ s = plain_dumps a w @ t"
  shows "\<exists>c. starts_as v c \<and> starts_as w c"
  using plain_dumps_first[of a v] plain_dumps_first[of a w] assms by auto

lemma not_close_bracket: "\<exists>d ds. plain_dumps a x = d # ds \<and> d \<noteq> CHR '']''"
proof -
  obtain c cs where "plain_dumps a x = c # cs" "starts_as x c"
    using plain_dumps_first by blast
  then show ?thesis by (cases x) auto
qed

lemma member_not_close: "\<exists>d ds. member_text a (map_prod id (plain_dumps a) x) = d # ds \<and> d \<noteq> CHR ''}''"
  by (simp add: member_text_def quoted_def)

lemma number_split:
  assumes "delimited s" "delimited t"
  shows "show_int i @ s = show_int j @ t \<Longrightarrow> i = j \<and> s = t"
    and "show_int i @ s \<noteq> show_int j @ ''.0'' @ t"
    and "show_int i @ ''.0'' @ s = show_int j @ ''.0'' @ t \<Longrightarrow> i = j \<and> s = t"
  using show_int_split[of i s j t] show_int_split[of i s j "''.0'' @ t"]
    show_int_split[of i "''.0'' @ s" j "''.0'' @ t"] delimited_no_digit delimited_no_dot assms no_digit_dot
  by auto

lemma plain_dumps_splits: "splits (plain_dumps a) v"
proof (induction v)
  case (JArr xs)
  show ?case unfolding splits_def
  proof (intro allI impI)
    fix w s t assume eq: "plain_dumps a (JArr xs) @ s = plain_dumps a w @ t"
    then obtain ys where w: "w = JArr ys"
      using same_start[OF eq] by (cases w) (auto split: if_splits)
    with eq have "join (map (plain_dumps a) xs) @ CHR '']'' # s = join (map (plain_dumps a) ys) @ CHR '']'' # t"
      by simp
    from join_split[OF _ _ not_close_bracket this] JArr w show "JArr xs = w \<and> s = t" by simp
  qed
next
  case (JObj kvs)
  let ?f = "\<lambda>kv. member_text a (map_prod id (plain_dumps a) kv)"
  have all: "\<forall>kv\<in>set kvs. splits ?f kv"
    using JObj by (auto intro!: member_text_split)
  show ?case unfolding splits_def
  proof (intro allI impI)
    fix w s t assume eq: "plain_dumps a (JObj kvs) @ s = plain_dumps a w @ t"
    then obtain ys where w: "w = JObj ys"
      using same_start[OF eq] by (cases w) (auto split: if_splits)
    with eq have "join (map ?f kvs) @ CHR ''}'' # s = join (map ?f ys) @ CHR ''}'' # t"
      by (simp add: comp_def)
    from join_split[OF _ all member_not_close this] w show "JObj kvs = w \<and> s = t" by simp
  qed
next
  case (JStr x)
  show ?case unfolding splits_def
  proof (intro allI impI)
    fix w s t assume eq: "plain_dumps a (JStr x) @ s = plain_dumps a w @ t"
    then obtain y where "w = JStr y" using same_start[OF eq] by (cases w) (auto split: if_splits)
    with eq quoted_split[of a x s y t] show "JStr x = w \<and> s = t" by simp
  qed
next
  case (JInt i)
  show ?case unfolding splits_def
  proof (intro allI impI)
    fix w s t assume d: "delimited s" "delimited t" and eq: "plain_dumps a (JInt i) @ s = plain_dumps a w @ t"
    then show "JInt i = w \<and> s = t"
      using same_start[OF eq] number_split[OF d] by (cases w) (auto split: if_splits)
  qed
next
  case (JFloat i)
  show ?case unfolding splits_def
  proof (intro allI impI)
    fix w s t assume d: "delimited s" "delimited t" and eq: "plain_dumps a (JFloat i) @ s = plain_dumps a w @ t"
    then show "JFloat i = w \<and> s = t"
      using same_start[OF eq] number_split[OF d] number_split(2)[OF d(2,1), symmetric] by (cases w) (auto split: if_splits)
  qed
next
  case JNull
  show ?case unfolding splits_def
  proof (intro allI impI)
    fix w s t assume eq: "plain_dumps a JNull @ s = plain_dumps a w @ t"
    then show "JNull = w \<and> s = t" using same_start[OF eq] by (cases w) (auto split: if_splits)
  qed
next
  case (JBool b)
  show ?case unfolding splits_def
  proof (intro allI impI)
    fix w s t assume eq: "plain_dumps a (JBool b) @ s = plain_dumps a w @ t"
    then show "JBool b = w \<and> s = t" using same_start[OF eq] by (cases w) (auto split: if_splits)
  qed
qed

theorem dumps_inject: "dumps a v = dumps a w \<longleftrightarrow> key_sorted v = key_sorted w"
  using splitsD[OF plain_dumps_splits[of a "key_sorted v"], of "[]" "key_sorted w" "[]"]
  by (auto simp: dumps_def)

subsubsection \<open>UTF-8\<close>

lemma utf8_char_split: "utf8_char c @ s = utf8_char d @ t \<Longrightarrow> c = d \<and> s = t"
proof -
  assume eq: "utf8_char c @ s = utf8_char d @ t"
  let ?m = "char_code c" and ?n = "char_code d"
  have lt: "?m < 256" "?n < 256" by (rule char_code_less)+
  have hi: "k < 256 \<Longrightarrow> char_code (char_of (192 + k div 64)) = 192 + k div 64"
    "char_code (char_of (128 + k mod 64)) = 128 + k mod 64" for k :: nat
    by (rule char_code_char_of; use mod_less_divisor[of 64 k] in linarith)+
  show ?thesis
  proof (cases "?m < 128"; cases "?n < 128")
    assume "\<not> ?m < 128" "\<not> ?n < 128"
    with eq have "char_code (char_of (192 + ?m div 64)) = char_code (char_of (192 + ?n div 64))"
      "char_code (char_of (128 + ?m mod 64)) = char_code (char_of (128 + ?n mod 64))" "s = t"
      by (simp_all add: utf8_char_def Let_def)
    with hi lt have "?m div 64 = ?n div 64" "?m mod 64 = ?n mod 64" by simp_all
    then have "?m = ?n" by (metis div_mult_mod_eq)
    with \<open>s = t\<close> show ?thesis by simp
  next
    assume *: "?m < 128" "\<not> ?n < 128"
    with eq have "c = char_of (192 + ?n div 64)" by (simp add: utf8_char_def Let_def)
    with hi(1)[OF lt(2)] have "?m = 192 + ?n div 64" by metis
    with * show ?thesis by simp
  next
    assume *: "\<not> ?m < 128" "?n < 128"
    with eq have "d = char_of (192 + ?m div 64)" by (simp add: utf8_char_def Let_def)
    with hi(1)[OF lt(1)] have "?n = 192 + ?m div 64" by metis
    with * show ?thesis by simp
  next
    assume "?m < 128" "?n < 128"
    with eq show ?thesis by (simp add: utf8_char_def Let_def)
  qed
qed

lemma utf8_inject [simp]: "utf8 s = utf8 t \<longleftrightarrow> s = t"
proof
  show "utf8 s = utf8 t \<Longrightarrow> s = t"
  proof (induction s arbitrary: t)
    case Nil
    then show ?case by (cases t) (auto simp: utf8_def utf8_char_def Let_def split: if_splits)
  next
    case (Cons c s)
    then obtain d t' where t: "t = d # t'"
      by (cases t) (auto simp: utf8_def utf8_char_def Let_def split: if_splits)
    with Cons.prems have "utf8_char c @ utf8 s = utf8_char d @ utf8 t'" by (simp add: utf8_def)
    from utf8_char_split[OF this] Cons.IH t show ?case by simp
  qed
qed simp

text \<open>
  \<open>json.dumps(v, sort_keys=True, separators=(",", ":"), ensure_ascii=False).encode("utf-8")\<close>.
\<close>

definition canonical_bytes :: "json \<Rightarrow> bytes" where
  "canonical_bytes v = utf8 (dumps False v)"

lemma canonical_bytes_inject: "canonical_bytes v = canonical_bytes w \<longleftrightarrow> key_sorted v = key_sorted w"
  by (simp add: canonical_bytes_def dumps_inject)

subsection \<open>Reading a dictionary with sorted keys\<close>

text \<open>\<open>wf_json\<close>: no object has a key twice, as in every parsed value.\<close>

primrec wf_json :: "json \<Rightarrow> bool" where
  "wf_json JNull = True"
| "wf_json (JBool b) = True"
| "wf_json (JInt n) = True"
| "wf_json (JFloat n) = True"
| "wf_json (JStr s) = True"
| "wf_json (JArr xs) = list_all id (map wf_json xs)"
| "wf_json (JObj kvs) = (wf_dict kvs \<and> list_all snd (map (map_prod id wf_json) kvs))"

lemma wf_json_member: "wf_json (JObj kvs) \<Longrightarrow> (k, v) \<in> set kvs \<Longrightarrow> wf_json v"
  by (force simp: list_all_iff)

lemma wf_json_empty: "wf_json (JObj [])"
  by simp

lemma wf_json_filter: "wf_json (JObj kvs) \<Longrightarrow> wf_json (JObj (filter P kvs))"
  by (auto simp: list_all_iff)

lemma wf_json_get: "wf_json (JObj d) \<Longrightarrow> wf_json x \<Longrightarrow> wf_json (dict_get d k x)"
  by (auto simp: dict_get_def simp del: wf_json.simps split: option.splits dest: map_of_SomeD intro: wf_json_member)

lemma truthy_sorted: "truthy (key_sorted v) = truthy v"
proof (cases v)
  case (JObj kvs)
  have "length (sort_key fst (map (map_prod id key_sorted) kvs)) = length kvs" by simp
  then have "sort_key fst (map (map_prod id key_sorted) kvs) = [] \<longleftrightarrow> kvs = []" by (metis length_0_conv)
  then show ?thesis by (simp add: JObj)
qed simp_all

lemma map_of_map_values: "map_of (map (map_prod id f) kvs) k = map_option f (map_of kvs k)"
  by (induction kvs) auto

lemma distinct_keys_sorted: "distinct (map fst xs) \<Longrightarrow> distinct (map fst (sort_key fst xs))"
  by (simp add: distinct_map)

lemma map_of_sorted_dict:
  assumes "wf_dict kvs"
  shows "map_of (sort_key fst (map (map_prod id key_sorted) kvs)) k = map_option key_sorted (map_of kvs k)"
proof -
  let ?kvs = "map (map_prod id key_sorted) kvs"
  have "map fst ?kvs = map fst kvs" by (simp add: comp_def)
  with assms have d: "distinct (map fst ?kvs)" by (simp only: wf_dict_def)
  then have "distinct (map fst (sort_key fst ?kvs))" by (rule distinct_keys_sorted)
  with d have "map_of (sort_key fst ?kvs) = map_of ?kvs"
    by (intro map_of_inject_set[THEN iffD2]) simp_all
  then show ?thesis by (simp add: map_of_map_values)
qed

lemma map_of_sorted:
  assumes "wf_json (JObj kvs)"
  shows "map_of (sort_key fst (map (map_prod id key_sorted) kvs)) k = map_option key_sorted (map_of kvs k)"
  using assms by (intro map_of_sorted_dict) simp

lemma dict_get_sorted:
  "wf_json (JObj kvs) \<Longrightarrow>
     dict_get (sort_key fst (map (map_prod id key_sorted) kvs)) k (key_sorted x) = key_sorted (dict_get kvs k x)"
  unfolding dict_get_def by (subst map_of_sorted) (auto split: option.splits)

lemma map_insort_key: "(\<And>x. f (g x) = f x) \<Longrightarrow> map g (insort_key f x xs) = insort_key f (g x) (map g xs)"
  by (induction xs) auto

lemma map_sort_key: "(\<And>x. f (g x) = f x) \<Longrightarrow> map g (sort_key f xs) = sort_key f (map g xs)"
  by (induction xs) (simp_all add: map_insort_key)

lemma sort_key_again: "sort_key f (sort_key f xs) = sort_key f xs"
  by (rule sort_key_id_if_sorted) simp

lemma key_sorted_idem [simp]: "key_sorted (key_sorted v) = key_sorted v"
proof (induction v)
  case (JObj kvs)
  let ?g = "map_prod id key_sorted"
  have "map ?g (sort_key fst (map ?g kvs)) = sort_key fst (map ?g (map ?g kvs))" by (rule map_sort_key) simp
  also have "map ?g (map ?g kvs) = map ?g kvs" using JObj by (auto simp: map_prod_def)
  finally have "map ?g (sort_key fst (map ?g kvs)) = sort_key fst (map ?g kvs)" .
  then show ?case by (simp only: key_sorted.simps sort_key_again)
qed simp_all

lemma canonical_bytes_sorted [simp]: "canonical_bytes (key_sorted v) = canonical_bytes v"
  by (simp add: canonical_bytes_inject)

text \<open>Objects equal up to key order have the same members up to key order.\<close>

lemma key_sorted_members:
  assumes "key_sorted (JObj kvs) = key_sorted (JObj kvs')" "wf_dict kvs" "wf_dict kvs'"
  shows "map_option key_sorted (map_of kvs k) = map_option key_sorted (map_of kvs' k)"
  using assms(1) map_of_sorted_dict[OF assms(2), of k] map_of_sorted_dict[OF assms(3), of k] by simp

lemma merge_key_sorted: "merge_numbers (key_sorted v) = key_sorted (merge_numbers v)"
proof (induction v)
  case (JObj kvs)
  have "map (map_prod id merge_numbers) (sort_key fst (map (map_prod id key_sorted) kvs))
      = sort_key fst (map (map_prod id merge_numbers) (map (map_prod id key_sorted) kvs))" by (rule map_sort_key) simp
  moreover have "map (map_prod id merge_numbers) (map (map_prod id key_sorted) kvs)
      = map (map_prod id key_sorted) (map (map_prod id merge_numbers) kvs)" using JObj by (auto simp: map_prod_def)
  ultimately show ?case by (simp only: merge_numbers.simps key_sorted.simps)
qed simp_all

lemma py_eq_key_sorted: "key_sorted a = key_sorted a' \<Longrightarrow> key_sorted b = key_sorted b' \<Longrightarrow> py_eq a b = py_eq a' b'"
  unfolding py_eq_def by (metis key_sorted_idem merge_key_sorted)

end
