(* ===== verification/Labels.thy ===== *)
theory Labels
  imports Json
begin

text \<open>
  \<open>enterprise/labels.py\<close>: the classification levels, the comparators \<open>rank\<close> and
  \<open>le\<close>, and \<open>LabelEnvelope\<close> with its Bell-LaPadula dominance order. The argument of
  \<open>rank\<close> is a string, a \<open>Classification\<close> or something else; \<open>from_dict\<close> reads the
  four keys \<open>to_dict\<close> writes, each possibly absent.
\<close>

datatype classification = UNCLASSIFIED | CUI | SECRET | TOP_SECRET

fun cls_value :: "classification \<Rightarrow> int" where
  "cls_value UNCLASSIFIED = 0"
| "cls_value CUI = 1"
| "cls_value SECRET = 2"
| "cls_value TOP_SECRET = 3"

fun cls_name :: "classification \<Rightarrow> pystr" where
  "cls_name UNCLASSIFIED = ''UNCLASSIFIED''"
| "cls_name CUI = ''CUI''"
| "cls_name SECRET = ''SECRET''"
| "cls_name TOP_SECRET = ''TOP_SECRET''"

definition all_levels :: "classification list" where
  "all_levels = [UNCLASSIFIED, CUI, SECRET, TOP_SECRET]"

definition CLASSIFICATION_LEVELS :: "pystr list" where
  "CLASSIFICATION_LEVELS = map cls_name all_levels"

definition ALLOWED_CAVEATS :: "pystr set" where
  "ALLOWED_CAVEATS =
     {''NOFORN'', ''ORCON'', ''REL_TO'', ''FISA'', ''HCS'', ''SI'', ''TK'', ''GAMMA''}"

definition RANK_MAP :: "(pystr \<times> int) list" where
  "RANK_MAP = map (\<lambda>m. (cls_name m, cls_value m)) all_levels"

text \<open>An \<open>IntEnum\<close> compares by value.\<close>

lemma cls_value_inj: "cls_value a = cls_value b \<longleftrightarrow> a = b"
  by (cases a; cases b) auto

instantiation classification :: linorder
begin

definition less_eq_classification :: "classification \<Rightarrow> classification \<Rightarrow> bool" where
  "less_eq_classification a b \<longleftrightarrow> cls_value a \<le> cls_value b"

definition less_classification :: "classification \<Rightarrow> classification \<Rightarrow> bool" where
  "less_classification a b \<longleftrightarrow> cls_value a < cls_value b"

instance
  by standard (auto simp: less_eq_classification_def less_classification_def cls_value_inj)

end

datatype level = LStr pystr | LEnum classification | LOther

datatype label_error = LabelTypeError | LabelValueError

definition rank :: "level \<Rightarrow> label_error + int" where
  "rank level =
     (case level of
        LEnum c \<Rightarrow> Inr (cls_value c)
      | LOther \<Rightarrow> Inl LabelTypeError
      | LStr s \<Rightarrow>
          (let normalized = upper s in
           case map_of RANK_MAP normalized of
             None \<Rightarrow> Inl LabelValueError
           | Some r \<Rightarrow> Inr r))"

definition le :: "level \<Rightarrow> level \<Rightarrow> label_error + bool" where
  "le a b = bind_result (rank a) (\<lambda>ra. bind_result (rank b) (\<lambda>rb. Inr (ra \<le> rb)))"

text \<open>\<open>Classification[name]\<close> and \<open>Classification(value)\<close>.\<close>

definition cls_of_name :: "pystr \<Rightarrow> classification option" where
  "cls_of_name s = map_of (map (\<lambda>m. (cls_name m, m)) all_levels) s"

definition cls_of_value :: "int \<Rightarrow> classification option" where
  "cls_of_value n = map_of (map (\<lambda>m. (cls_value m, m)) all_levels) n"

subsection \<open>LabelEnvelope\<close>

record label_envelope =
  lbl_classification :: classification
  lbl_caveats :: "pystr set"
  lbl_originator :: pystr
  lbl_ts :: time

definition from_classification :: "time \<Rightarrow> level \<Rightarrow> label_error + label_envelope" where
  "from_classification now level =
     (case level of
        LStr s \<Rightarrow>
          (case cls_of_name (upper s) of
             None \<Rightarrow> Inl LabelValueError
           | Some c \<Rightarrow> Inr \<lparr>lbl_classification = c, lbl_caveats = {}, lbl_originator = [], lbl_ts = now\<rparr>)
      | LEnum c \<Rightarrow> Inr \<lparr>lbl_classification = c, lbl_caveats = {}, lbl_originator = [], lbl_ts = now\<rparr>
      | LOther \<Rightarrow> Inl LabelTypeError)"

text \<open>The value under \<open>"classification"\<close>: a string, an integer (a bool is one) or neither.\<close>

datatype raw_classification = RStr pystr | RInt int | ROther

record label_dict =
  ld_classification :: "raw_classification option"
  ld_caveats :: "pystr list option"
  ld_originator :: "pystr option"
  ld_label_ts :: "time option"

definition label_from_dict :: "label_dict \<Rightarrow> label_error + label_envelope" where
  "label_from_dict d =
     (let raw_cls = (case ld_classification d of None \<Rightarrow> RStr ''UNCLASSIFIED'' | Some r \<Rightarrow> r) in
      case (case raw_cls of
              RStr s \<Rightarrow> (case cls_of_name (upper s) of None \<Rightarrow> Inl LabelValueError | Some c \<Rightarrow> Inr c)
            | RInt n \<Rightarrow> (case cls_of_value n of None \<Rightarrow> Inl LabelValueError | Some c \<Rightarrow> Inr c)
            | ROther \<Rightarrow> Inl LabelTypeError) of
        Inl e \<Rightarrow> Inl e
      | Inr c \<Rightarrow>
          (let raw_caveats = (case ld_caveats d of None \<Rightarrow> [] | Some cs \<Rightarrow> cs) in
           Inr \<lparr>lbl_classification = c,
                lbl_caveats = set raw_caveats,
                lbl_originator = (case ld_originator d of None \<Rightarrow> [] | Some s \<Rightarrow> s),
                lbl_ts = (case ld_label_ts d of None \<Rightarrow> 0 | Some t \<Rightarrow> t)\<rparr>))"

definition label_to_dict :: "label_envelope \<Rightarrow> label_dict" where
  "label_to_dict l =
     \<lparr>ld_classification = Some (RStr (cls_name (lbl_classification l))),
      ld_caveats = Some (sorted_list_of_set (lbl_caveats l)),
      ld_originator = Some (lbl_originator l),
      ld_label_ts = Some (lbl_ts l)\<rparr>"

text \<open>The same dictionary as a JSON value, as it is merged into a ledger entry.\<close>

definition label_to_json :: "label_envelope \<Rightarrow> (pystr \<times> json) list" where
  "label_to_json l =
     [(''classification'', JStr (cls_name (lbl_classification l))),
      (''caveats'', JArr (map JStr (sorted_list_of_set (lbl_caveats l)))),
      (''originator'', JStr (lbl_originator l)),
      (''label_ts'', JFloat (lbl_ts l))]"

definition label_le :: "label_envelope \<Rightarrow> label_envelope \<Rightarrow> bool" where
  "label_le l other \<longleftrightarrow>
     lbl_classification l \<le> lbl_classification other \<and> lbl_caveats l \<subseteq> lbl_caveats other"

definition label_validate :: "label_envelope \<Rightarrow> bool" where
  "label_validate l \<longleftrightarrow> lbl_caveats l \<subseteq> ALLOWED_CAVEATS"

subsection \<open>Lemmas\<close>

lemma upper_cls_name [simp]: "upper (cls_name c) = cls_name c"
  by (cases c) (simp_all add: upper_def upper_char_def char_code_def)

lemma cls_of_name_name [simp]: "cls_of_name (cls_name c) = Some c"
  by (cases c) (simp_all add: cls_of_name_def all_levels_def)

lemma cls_of_name_Some: "cls_of_name s = Some c \<Longrightarrow> s = cls_name c"
  by (auto simp: cls_of_name_def all_levels_def split: if_splits)

lemma cls_of_value_value [simp]: "cls_of_value (cls_value c) = Some c"
  by (cases c) (simp_all add: cls_of_value_def all_levels_def)

lemma rank_map_of_name: "map_of RANK_MAP s = map_option cls_value (cls_of_name s)"
  by (simp add: RANK_MAP_def cls_of_name_def all_levels_def)

lemma rank_LEnum [simp]: "rank (LEnum c) = Inr (cls_value c)"
  by (simp add: rank_def)

lemma rank_LStr: "rank (LStr s) =
    (case cls_of_name (upper s) of None \<Rightarrow> Inl LabelValueError | Some c \<Rightarrow> Inr (cls_value c))"
  by (simp add: rank_def rank_map_of_name split: option.splits)

lemma rank_name [simp]: "rank (LStr (cls_name c)) = Inr (cls_value c)"
  by (simp add: rank_LStr)

lemma rank_unclassified [simp]: "rank (LStr ''UNCLASSIFIED'') = Inr 0"
  using rank_name[of UNCLASSIFIED] by simp

lemma rank_Inr_cases: "rank l = Inr r \<Longrightarrow> \<exists>c. r = cls_value c"
  by (cases l) (auto simp: rank_LStr rank_def[of LOther] split: option.splits)

lemma finite_allowed: "finite ALLOWED_CAVEATS"
  by (simp add: ALLOWED_CAVEATS_def)

lemma finite_validated: "label_validate l \<Longrightarrow> finite (lbl_caveats l)"
  unfolding label_validate_def by (rule finite_subset[OF _ finite_allowed])

lemma label_le_refl: "label_le a a"
  by (simp add: label_le_def)

lemma label_le_trans: "label_le a b \<Longrightarrow> label_le b c \<Longrightarrow> label_le a c"
  by (auto simp: label_le_def)

text \<open>The least upper bound of two labels in the dominance order.\<close>

definition label_join :: "label_envelope \<Rightarrow> label_envelope \<Rightarrow> label_envelope" where
  "label_join a b = a\<lparr>lbl_classification := max (lbl_classification a) (lbl_classification b),
                      lbl_caveats := lbl_caveats a \<union> lbl_caveats b\<rparr>"

lemma label_join_lub:
  "label_le a (label_join a b)" "label_le b (label_join a b)"
  "label_le a c \<Longrightarrow> label_le b c \<Longrightarrow> label_le (label_join a b) c"
  by (auto simp: label_le_def label_join_def)

end
