(* ===== verification/LogInterface.thy ===== *)
theory LogInterface
  imports Labels
begin

text \<open>
  The ledger as its callers see it: \<open>ledger.log(action, result=, metadata=, label=)\<close>
  either appends one entry and returns it or raises. Every component that writes to
  a ledger takes the logger as an argument; what they rely on is the locale
  \<open>audit_log\<close>, interpreted on the model of \<open>AgentLedger\<close> in the theory Ledger.
\<close>

type_synonym json_object = "(pystr \<times> json) list"

record log_call =
  call_action :: pystr
  call_result :: pystr
  call_metadata :: json_object
  call_label :: "label_envelope option"

definition mk_call :: "pystr \<Rightarrow> pystr \<Rightarrow> json_object \<Rightarrow> log_call" where
  "mk_call action result metadata =
     \<lparr>call_action = action, call_result = result, call_metadata = metadata, call_label = None\<rparr>"

lemma mk_call_sel [simp]:
  "call_action (mk_call a r m) = a" "call_result (mk_call a r m) = r"
  "call_metadata (mk_call a r m) = m" "call_label (mk_call a r m) = None"
  by (simp_all add: mk_call_def)

type_synonym ('l, 'e) logger = "'l \<Rightarrow> log_call \<Rightarrow> 'l \<times> ('e + json_object)"

text \<open>The \<open>if self._ledger is None: return\<close> prologue every caller shares.\<close>

definition log_opt :: "('l, 'e) logger \<Rightarrow> 'l option \<Rightarrow> log_call \<Rightarrow> 'l option \<times> ('e + unit)" where
  "log_opt log ledger c =
     (case ledger of
        None \<Rightarrow> (None, Inr ())
      | Some l \<Rightarrow> (case log l c of (l', Inl e) \<Rightarrow> (Some l', Inl e) | (l', Inr _) \<Rightarrow> (Some l', Inr ())))"

lemma log_opt_None [simp]: "log_opt log None c = (None, Inr ())"
  by (simp add: log_opt_def)

text \<open>
  Components that share one ledger object hold a reference into a store of ledgers;
  a component without a ledger logs nothing.
\<close>

type_synonym 'l ledgers = "nat \<Rightarrow> 'l"

definition log_ref :: "('l, 'e) logger \<Rightarrow> 'l ledgers \<Rightarrow> nat option \<Rightarrow> log_call \<Rightarrow> 'l ledgers \<times> ('e + unit)" where
  "log_ref log ls ref c =
     (case ref of
        None \<Rightarrow> (ls, Inr ())
      | Some h \<Rightarrow> (case log (ls h) c of (l', r) \<Rightarrow> (ls(h := l'), map_result (\<lambda>_. ()) r)))"

lemma log_ref_None [simp]: "log_ref log ls None c = (ls, Inr ())"
  by (simp add: log_ref_def)

locale audit_log =
  fixes log :: "('l, 'e) logger"
    and recorded :: "'l \<Rightarrow> (pystr \<times> pystr) list"
    and invar :: "'l \<Rightarrow> bool"
  assumes log_appends: "invar l \<Longrightarrow> log l c = (l', Inr e)
      \<Longrightarrow> recorded l' = recorded l @ [(call_action c, call_result c)]"
    and log_raises: "invar l \<Longrightarrow> log l c = (l', Inl x)
      \<Longrightarrow> recorded l' \<in> {recorded l, recorded l @ [(call_action c, call_result c)]}"
    and log_invar: "invar l \<Longrightarrow> log l c = (l', r) \<Longrightarrow> invar l'"
begin

lemma log_opt_appends:
  assumes "invar l" and "log_opt log (Some l) c = (ledger', Inr ())"
  shows "\<exists>l'. ledger' = Some l' \<and> invar l' \<and> recorded l' = recorded l @ [(call_action c, call_result c)]"
  using assms log_appends log_invar by (auto simp: log_opt_def split: prod.splits sum.splits)

lemma log_opt_grows:
  assumes "invar l" and "log_opt log (Some l) c = (ledger', r)"
  shows "\<exists>l' n. ledger' = Some l' \<and> invar l' \<and> recorded l' = recorded l @ n \<and> length n \<le> 1"
proof -
  obtain l' r' where step: "log l c = (l', r')" by (cases "log l c")
  with assms have "ledger' = Some l'" "invar l'"
    using log_invar by (auto simp: log_opt_def split: sum.splits)
  moreover have "\<exists>n. recorded l' = recorded l @ n \<and> length n \<le> 1"
    using step log_appends[OF assms(1)] log_raises[OF assms(1)] by (cases r') fastforce+
  ultimately show ?thesis by blast
qed

lemma log_ref_appends:
  assumes "\<forall>h. invar (ls h)" "log_ref log ls (Some h) c = (ls', Inr ())"
  shows "recorded (ls' h) = recorded (ls h) @ [(call_action c, call_result c)]"
  using assms log_appends[of "ls h" c] by (auto simp: log_ref_def map_result_Inr_iff split: prod.splits)

lemma log_ref_invar:
  assumes "\<forall>h. invar (ls h)" "log_ref log ls ref c = (ls', r)"
  shows "\<forall>h. invar (ls' h)"
  using assms by (auto simp: log_ref_def split: option.splits prod.splits dest: log_invar[rotated])

lemma log_ref_grows:
  assumes "\<forall>h. invar (ls h)" "log_ref log ls ref c = (ls', r)"
  shows "recorded (ls' h) \<in> {recorded (ls h), recorded (ls h) @ [(call_action c, call_result c)]}"
proof (cases "ref = Some h")
  case True
  with assms(2) obtain r' where "log (ls h) c = (ls' h, r')" by (auto simp: log_ref_def split: prod.splits)
  with assms(1) log_appends[of "ls h" c "ls' h"] log_raises[of "ls h" c "ls' h"] show ?thesis by (cases r') auto
qed (use assms(2) in \<open>auto simp: log_ref_def split: option.splits prod.splits\<close>)

lemma log_ref_other: "log_ref log ls ref c = (ls', r) \<Longrightarrow> ref \<noteq> Some h \<Longrightarrow> ls' h = ls h"
  by (auto simp: log_ref_def split: option.splits prod.splits)

end

end
