(* ===== verification/Profile.thy ===== *)
theory Profile
  imports LogInterface
begin

text \<open>
  \<open>enterprise/classified_mode.py\<close>, \<open>enterprise/egress_guard.py\<close> and
  \<open>enterprise/export_guard.py\<close>: the immutable deployment profile, its readers and
  the two hardened baselines, and the guards that gate outbound calls and evidence
  export. A frozenset is a finite set of strings; \<open>from_dict\<close> reads a dictionary
  whose values have the annotated types, each key possibly absent. Signature
  verification of a profile file takes \<open>cng_verify\<close> (Windows NCrypt) as an argument.
\<close>

subsection \<open>ClassifiedModeProfile\<close>

record profile =
  pf_max_classification :: classification
  pf_allowed_caveats :: "pystr set"
  pf_require_cng_identity :: bool
  pf_require_signed_policy :: bool
  pf_allow_cloud_egress :: bool
  pf_allowed_destinations :: "pystr set"
  pf_allow_export :: bool
  pf_require_operator_approval_for :: "pystr set"
  pf_allowed_apps :: "pystr set"
  pf_blocked_apps :: "pystr set"
  pf_profile_id :: pystr
  pf_signed_by :: pystr

text \<open>The defaults of the dataclass.\<close>

definition default_profile :: "classification \<Rightarrow> profile" where
  "default_profile c =
     \<lparr>pf_max_classification = c, pf_allowed_caveats = {}, pf_require_cng_identity = True,
      pf_require_signed_policy = True, pf_allow_cloud_egress = False, pf_allowed_destinations = {},
      pf_allow_export = False, pf_require_operator_approval_for = {}, pf_allowed_apps = {},
      pf_blocked_apps = {}, pf_profile_id = [], pf_signed_by = []\<rparr>"

datatype profile_error = UnrecognisedCaveats "pystr list"

definition profile_validate :: "profile \<Rightarrow> profile_error list" where
  "profile_validate p =
     (let bad_caveats = pf_allowed_caveats p - ALLOWED_CAVEATS in
      if bad_caveats \<noteq> {} then [UnrecognisedCaveats (sorted_list_of_set bad_caveats)] else [])"

definition profile_is_valid :: "profile \<Rightarrow> bool" where
  "profile_is_valid p \<longleftrightarrow> length (profile_validate p) = 0"

definition jstrs :: "pystr set \<Rightarrow> json" where
  "jstrs s = JArr (map JStr (sorted_list_of_set s))"

definition to_policy_constraints :: "profile \<Rightarrow> json_object" where
  "to_policy_constraints p =
     [(''max_classification'', JStr (cls_name (pf_max_classification p))),
      (''require_cng_identity'', JBool (pf_require_cng_identity p)),
      (''require_signed_policy'', JBool (pf_require_signed_policy p)),
      (''allow_cloud_egress'', JBool (pf_allow_cloud_egress p)),
      (''allowed_destinations'', jstrs (pf_allowed_destinations p)),
      (''allow_export'', JBool (pf_allow_export p)),
      (''require_operator_approval_for'', jstrs (pf_require_operator_approval_for p)),
      (''allowed_apps'', jstrs (pf_allowed_apps p)),
      (''blocked_apps'', jstrs (pf_blocked_apps p))]"

record profile_dict =
  pd_profile_id :: "pystr option"
  pd_signed_by :: "pystr option"
  pd_max_classification :: "raw_classification option"
  pd_allowed_caveats :: "pystr list option"
  pd_require_cng_identity :: "bool option"
  pd_require_signed_policy :: "bool option"
  pd_allow_cloud_egress :: "bool option"
  pd_allowed_destinations :: "pystr list option"
  pd_allow_export :: "bool option"
  pd_require_operator_approval_for :: "pystr list option"
  pd_allowed_apps :: "pystr list option"
  pd_blocked_apps :: "pystr list option"

definition profile_to_dict :: "profile \<Rightarrow> profile_dict" where
  "profile_to_dict p =
     \<lparr>pd_profile_id = Some (pf_profile_id p),
      pd_signed_by = Some (pf_signed_by p),
      pd_max_classification = Some (RStr (cls_name (pf_max_classification p))),
      pd_allowed_caveats = Some (sorted_list_of_set (pf_allowed_caveats p)),
      pd_require_cng_identity = Some (pf_require_cng_identity p),
      pd_require_signed_policy = Some (pf_require_signed_policy p),
      pd_allow_cloud_egress = Some (pf_allow_cloud_egress p),
      pd_allowed_destinations = Some (sorted_list_of_set (pf_allowed_destinations p)),
      pd_allow_export = Some (pf_allow_export p),
      pd_require_operator_approval_for = Some (sorted_list_of_set (pf_require_operator_approval_for p)),
      pd_allowed_apps = Some (sorted_list_of_set (pf_allowed_apps p)),
      pd_blocked_apps = Some (sorted_list_of_set (pf_blocked_apps p))\<rparr>"

definition opt_get :: "'a option \<Rightarrow> 'a \<Rightarrow> 'a" where
  "opt_get x d = (case x of None \<Rightarrow> d | Some v \<Rightarrow> v)"

definition profile_from_dict :: "profile_dict \<Rightarrow> label_error + profile" where
  "profile_from_dict d =
     (case (case opt_get (pd_max_classification d) (RStr ''UNCLASSIFIED'') of
              RStr s \<Rightarrow> cls_of_name (upper s) | RInt n \<Rightarrow> cls_of_value n | ROther \<Rightarrow> None) of
        None \<Rightarrow> Inl LabelValueError
      | Some max_cls \<Rightarrow> Inr
          \<lparr>pf_max_classification = max_cls,
           pf_allowed_caveats = set (opt_get (pd_allowed_caveats d) []),
           pf_require_cng_identity = opt_get (pd_require_cng_identity d) True,
           pf_require_signed_policy = opt_get (pd_require_signed_policy d) True,
           pf_allow_cloud_egress = opt_get (pd_allow_cloud_egress d) False,
           pf_allowed_destinations = set (opt_get (pd_allowed_destinations d) []),
           pf_allow_export = opt_get (pd_allow_export d) False,
           pf_require_operator_approval_for = set (opt_get (pd_require_operator_approval_for d) []),
           pf_allowed_apps = set (opt_get (pd_allowed_apps d) []),
           pf_blocked_apps = set (opt_get (pd_blocked_apps d) []),
           pf_profile_id = opt_get (pd_profile_id d) [],
           pf_signed_by = opt_get (pd_signed_by d) []\<rparr>)"

datatype profile_file_error = ProfileValueError | ProfileSignatureError

text \<open>
  The signature check of \<open>from_file\<close>. \<open>raw\<close> is the parsed file; every exception
  inside the \<open>try\<close> becomes a \<open>RuntimeError\<close>. \<open>trust_root_pub\<close> falls back to the
  embedded key when it is \<open>None\<close> or empty.
\<close>

definition jstr_of :: "json option \<Rightarrow> pystr option" where
  "jstr_of j = (case j of Some (JStr s) \<Rightarrow> Some s | _ \<Rightarrow> None)"

definition unsigned_part :: "json_object \<Rightarrow> json_object" where
  "unsigned_part raw = filter (\<lambda>kv. fst kv \<notin> {''sig'', ''signed_by_pub''}) raw"

definition profile_signature_ok ::
    "(bytes \<Rightarrow> bytes \<Rightarrow> bytes \<Rightarrow> bool) \<Rightarrow> json_object \<Rightarrow> bytes option \<Rightarrow> bool" where
  "profile_signature_ok cng_verify raw trust_root_pub =
     (let sig_hex = (case map_of raw ''sig'' of None \<Rightarrow> JStr [] | Some j \<Rightarrow> j);
          pub_hex = (case map_of raw ''signed_by_pub'' of None \<Rightarrow> JStr [] | Some j \<Rightarrow> j) in
      if \<not> truthy sig_hex then False
      else
        (let pub = (case trust_root_pub of
                      Some (b # bs) \<Rightarrow> Some (b # bs)
                    | _ \<Rightarrow> if truthy pub_hex then Option.bind (jstr_of (Some pub_hex)) fromhex else None) in
         case pub of
           None \<Rightarrow> False
         | Some key \<Rightarrow>
             (case Option.bind (jstr_of (Some sig_hex)) fromhex of
                None \<Rightarrow> False
              | Some sg \<Rightarrow> cng_verify (dumps True (JObj (unsigned_part raw))) sg key)))"

definition profile_from_file ::
    "(bytes \<Rightarrow> bytes \<Rightarrow> bytes \<Rightarrow> bool) \<Rightarrow> profile_dict \<Rightarrow> json_object \<Rightarrow> bool \<Rightarrow> bytes option
     \<Rightarrow> profile_file_error + profile" where
  "profile_from_file cng_verify d raw verify_signature trust_root_pub =
     (case profile_from_dict d of
        Inl _ \<Rightarrow> Inl ProfileValueError
      | Inr p \<Rightarrow>
          if verify_signature \<and> \<not> profile_signature_ok cng_verify raw trust_root_pub
          then Inl ProfileSignatureError else Inr p)"

definition secret_baseline :: profile where
  "secret_baseline = (default_profile SECRET)
     \<lparr>pf_profile_id := ''secret-baseline-v1'',
      pf_allowed_caveats := {''SI'', ''NOFORN''},
      pf_require_cng_identity := True,
      pf_require_signed_policy := True,
      pf_allow_cloud_egress := False,
      pf_allow_export := False,
      pf_require_operator_approval_for := {''export_content'', ''write_file''}\<rparr>"

definition cui_baseline :: profile where
  "cui_baseline = (default_profile CUI)
     \<lparr>pf_profile_id := ''cui-baseline-v1'',
      pf_allowed_caveats := {},
      pf_require_cng_identity := False,
      pf_require_signed_policy := True,
      pf_allow_cloud_egress := True,
      pf_allow_export := True\<rparr>"

end
