(* ===== verification/Guards.thy ===== *)
theory Guards
  imports Profile
begin

text \<open>
  \<open>enterprise/egress_guard.py\<close> and \<open>enterprise/export_guard.py\<close>: the two gates a
  profile puts in front of outbound calls and evidence export. A guard holds the
  profile and an optional ledger; each operation returns the ledger afterwards and
  the decision, or the exception the ledger raised.
\<close>

subsection \<open>EgressGuard\<close>

definition egress_call :: "profile \<Rightarrow> pystr \<Rightarrow> pystr \<Rightarrow> bool \<Rightarrow> pystr option \<Rightarrow> log_call" where
  "egress_call p agent_id destination allowed deny_reason =
     mk_call ''egress_check'' (if allowed then ''allowed'' else ''denied'')
       ([(''destination'', JStr destination), (''agent_id'', JStr agent_id),
         (''profile_id'', JStr (pf_profile_id p)),
         (''decision'', JStr (if allowed then ''allow'' else ''deny''))]
        @ (case deny_reason of None \<Rightarrow> [] | Some r \<Rightarrow> [(''deny_reason'', JStr r)]))"

definition check_outbound ::
    "('l, 'e) logger \<Rightarrow> profile \<Rightarrow> 'l option \<Rightarrow> pystr \<Rightarrow> pystr \<Rightarrow> 'l option \<times> ('e + bool)" where
  "check_outbound log p ledger destination agent_id =
     (let log_and = (\<lambda>allowed reason.
            case log_opt log ledger (egress_call p agent_id destination allowed reason) of
              (ledger', Inl e) \<Rightarrow> (ledger', Inl e)
            | (ledger', Inr _) \<Rightarrow> (ledger', Inr allowed)) in
      if \<not> pf_allow_cloud_egress p then log_and False (Some ''egress_disabled'')
      else if pf_allowed_destinations p \<noteq> {} \<and> destination \<notin> pf_allowed_destinations p
        then log_and False (Some ''destination_not_allowlisted'')
      else log_and True None)"

text \<open>\<open>wrap\<close>: \<open>fn\<close> runs only after an allowing check; a denied call returns \<open>None\<close>.\<close>

definition egress_wrap ::
    "('l, 'e) logger \<Rightarrow> profile \<Rightarrow> 'l option \<Rightarrow> (unit \<Rightarrow> 'r) \<Rightarrow> pystr \<Rightarrow> pystr
     \<Rightarrow> 'l option \<times> ('e + 'r option)" where
  "egress_wrap log p ledger fn destination agent_id =
     (case check_outbound log p ledger destination agent_id of
        (ledger', Inl e) \<Rightarrow> (ledger', Inl e)
      | (ledger', Inr allowed) \<Rightarrow> (ledger', Inr (if allowed then Some (fn ()) else None)))"

definition egress_permitted :: "profile \<Rightarrow> pystr \<Rightarrow> bool" where
  "egress_permitted p destination \<longleftrightarrow>
     pf_allow_cloud_egress p \<and> (pf_allowed_destinations p = {} \<or> destination \<in> pf_allowed_destinations p)"

lemma check_outbound_decision:
  assumes "check_outbound log p ledger destination agent_id = (ledger', Inr allowed)"
  shows "allowed \<longleftrightarrow> egress_permitted p destination"
  using assms
  by (auto simp: check_outbound_def egress_permitted_def Let_def split: prod.splits sum.splits if_splits)

lemma check_outbound_unlogged [simp]:
  "check_outbound log p None destination agent_id = (None, Inr (egress_permitted p destination))"
  by (auto simp: check_outbound_def egress_permitted_def Let_def)

subsection \<open>ExportGuard\<close>

definition export_ceiling :: "profile \<Rightarrow> label_envelope" where
  "export_ceiling p =
     \<lparr>lbl_classification = pf_max_classification p, lbl_caveats = pf_allowed_caveats p,
      lbl_originator = [], lbl_ts = 0\<rparr>"

definition can_export :: "profile \<Rightarrow> label_envelope \<Rightarrow> bool" where
  "can_export p label =
     (if \<not> pf_allow_export p then False else label_le label (export_ceiling p))"

datatype export_deny =
    ExportDisabled
  | AboveCeiling classification classification
  | CaveatsNotPermitted "pystr list"
  | DeniedOtherwise

definition export_deny_reason :: "profile \<Rightarrow> label_envelope \<Rightarrow> export_deny" where
  "export_deny_reason p label =
     (if \<not> pf_allow_export p then ExportDisabled
      else if pf_max_classification p < lbl_classification label
        then AboveCeiling (lbl_classification label) (pf_max_classification p)
      else (let bad_caveats = lbl_caveats label - pf_allowed_caveats p in
            if bad_caveats \<noteq> {} then CaveatsNotPermitted (sorted_list_of_set bad_caveats)
            else DeniedOtherwise))"

fun export_deny_text :: "export_deny \<Rightarrow> pystr" where
  "export_deny_text ExportDisabled = ''export disabled by profile''"
| "export_deny_text (AboveCeiling l c) =
     ''label classification '' @ py_repr (cls_name l) @ '' exceeds profile ceiling '' @ py_repr (cls_name c)"
| "export_deny_text (CaveatsNotPermitted cs) =
     ''label contains caveats not permitted in this deployment: '' @ py_repr_list cs"
| "export_deny_text DeniedOtherwise = ''denied''"

definition export_call ::
    "profile \<Rightarrow> pystr \<Rightarrow> label_envelope \<Rightarrow> bool \<Rightarrow> log_call" where
  "export_call p agent_id label allowed =
     mk_call ''export_check'' (if allowed then ''allowed'' else ''denied'')
       ([(''agent_id'', JStr agent_id), (''profile_id'', JStr (pf_profile_id p)),
         (''label_classification'', JStr (cls_name (lbl_classification label))),
         (''label_caveats'', jstrs (lbl_caveats label)),
         (''decision'', JStr (if allowed then ''allow'' else ''deny''))]
        @ (if allowed then [] else [(''deny_reason'', JStr (export_deny_text (export_deny_reason p label)))]))"

definition check_and_log ::
    "('l, 'e) logger \<Rightarrow> profile \<Rightarrow> 'l option \<Rightarrow> label_envelope \<Rightarrow> pystr
     \<Rightarrow> 'l option \<times> ('e + bool)" where
  "check_and_log log p ledger label agent_id =
     (let allowed = can_export p label in
      case log_opt log ledger (export_call p agent_id label allowed) of
        (ledger', Inl e) \<Rightarrow> (ledger', Inl e)
      | (ledger', Inr _) \<Rightarrow> (ledger', Inr allowed))"

lemma can_export_iff:
  "can_export p label \<longleftrightarrow> pf_allow_export p \<and> lbl_classification label \<le> pf_max_classification p
     \<and> lbl_caveats label \<subseteq> pf_allowed_caveats p"
  by (simp add: can_export_def label_le_def export_ceiling_def)

text \<open>Every denial has one of the three named causes: the catch-all is unreachable.\<close>

lemma export_deny_reason_named:
  "\<not> can_export p label \<Longrightarrow> export_deny_reason p label \<noteq> DeniedOtherwise"
  by (auto simp: can_export_iff export_deny_reason_def Let_def not_less)

lemma check_and_log_decision:
  assumes "check_and_log log p ledger label agent_id = (ledger', Inr allowed)"
  shows "allowed \<longleftrightarrow> can_export p label"
  using assms by (auto simp: check_and_log_def Let_def split: prod.splits sum.splits)

end
