(* ===== verification/Ledger.thy ===== *)
theory Ledger
  imports LogInterface "HOL-Library.Product_Lexorder"
begin

text \<open>
  \<open>enterprise/ledger.py\<close>: \<open>AgentLedger\<close>, the append-only signed hash chain on disk.
  The disk holds sealed segments, each under the key (first sequence number, last
  sequence number, hash prefix) its zero-padded file name spells, and the active
  file, which may be absent. A line is what \<open>str.strip\<close> and \<open>json.loads\<close> make of
  it: blank, not JSON, or a value. SHA-256 and the identity's Ed25519 key are
  arguments (\<open>crypto\<close>), as are the file sizes the operating system reports. The
  outcome of an append is an argument of \<open>ledger_log\<close>: durable; failed and truncated
  back; or failed with the previous tail lost. \<open>ThreadSafeAgentLedger\<close> runs the same
  operations under one lock.
\<close>

datatype line = Blank | NotJson | Line json

record crypto =
  sha256 :: "bytes \<Rightarrow> pystr"
  sig_sign :: "bytes \<Rightarrow> bytes"
  sig_verify :: "bytes \<Rightarrow> bytes \<Rightarrow> bool"

type_synonym segment_key = "int \<times> int \<times> pystr"

record disk =
  archives :: "(segment_key \<times> line list) list"
  active :: "line list option"

record ledger_config =
  lc_agent_id :: pystr
  lc_redact_denied :: bool
  lc_max_entries :: int
  lc_max_bytes :: int
  lc_file_size :: "line list \<Rightarrow> int"

type_synonym nested_index = "(pystr \<times> json_object list) list"

record agent_ledger =
  lg_config :: ledger_config
  lg_disk :: disk
  lg_seq :: int
  lg_prev_hash :: pystr
  lg_indexes :: "((pystr \<times> pystr) \<times> nested_index) list"

datatype verify_failure =
    JsonParseError
  | EntryNotObject
  | MissingSig
  | SequenceMismatch int
  | AgentMismatch
  | ChainBroken
  | InvalidSigHex
  | SignatureInvalid

datatype ledger_error =
    LedgerValueError
  | LedgerTypeError
  | LedgerAttributeError
  | LedgerIntegrity
  | LedgerOSError

definition RESERVED_ENTRY_FIELDS :: "pystr set" where
  "RESERVED_ENTRY_FIELDS =
     {''seq'', ''agent_id'', ''action'', ''result'', ''ts'', ''prev_hash'', ''sig'', ''algo''}"

definition GENESIS_HASH :: pystr where
  "GENESIS_HASH = replicate 64 CHR ''0''"

subsection \<open>Files\<close>

definition archive_paths :: "disk \<Rightarrow> (segment_key \<times> line list) list" where
  "archive_paths d = sort_key fst (archives d)"

definition ledger_paths :: "disk \<Rightarrow> line list list" where
  "ledger_paths d = map snd (archive_paths d) @ (case active d of None \<Rightarrow> [] | Some ls \<Rightarrow> [ls])"

definition all_lines :: "disk \<Rightarrow> line list" where
  "all_lines d = concat (ledger_paths d)"

text \<open>The entry without its signature, and the bytes that are signed and hashed.\<close>

definition unsigned_entry :: "json_object \<Rightarrow> json_object" where
  "unsigned_entry e = AList.delete ''sig'' e"

definition entry_bytes :: "json_object \<Rightarrow> bytes" where
  "entry_bytes signed_entry = dumps True (JObj signed_entry)"

definition entry_hash :: "crypto \<Rightarrow> json_object \<Rightarrow> pystr" where
  "entry_hash cr e = sha256 cr (entry_bytes (unsigned_entry e))"

subsection \<open>verify\<close>

text \<open>The checks on one parsed line, in order; the result is the first that fails.\<close>

definition check_entry :: "crypto \<Rightarrow> pystr \<Rightarrow> pystr \<Rightarrow> int \<Rightarrow> json \<Rightarrow> verify_failure + json_object" where
  "check_entry cr agent_id prev_hash expected_seq v =
     (case v of
        JObj entry \<Rightarrow>
          (let signed_entry = unsigned_entry entry in
           case map_of entry ''sig'' of
             None \<Rightarrow> Inl MissingSig
           | Some sig_hex \<Rightarrow>
               if sig_hex = JNull then Inl MissingSig
               else if \<not> (case map_of signed_entry ''seq'' of
                            None \<Rightarrow> False | Some q \<Rightarrow> py_eq q (JInt expected_seq))
                 then Inl (SequenceMismatch expected_seq)
               else if map_of signed_entry ''agent_id'' \<noteq> Some (JStr agent_id) then Inl AgentMismatch
               else if dict_get signed_entry ''prev_hash'' (JStr []) \<noteq> JStr prev_hash then Inl ChainBroken
               else (case Option.bind (case sig_hex of JStr h \<Rightarrow> Some h | _ \<Rightarrow> None) fromhex of
                       None \<Rightarrow> Inl InvalidSigHex
                     | Some sig_bytes \<Rightarrow>
                         if \<not> sig_verify cr (entry_bytes signed_entry) sig_bytes then Inl SignatureInvalid
                         else Inr entry))
      | _ \<Rightarrow> Inl EntryNotObject)"

text \<open>
  The loop of \<open>_verify_snapshot\<close> over the lines of all segments. On success the
  result holds the entries in order and the running head hash; on failure the number
  of entries accepted before it.
\<close>

fun verify_lines :: "crypto \<Rightarrow> pystr \<Rightarrow> pystr \<Rightarrow> int \<Rightarrow> json_object list \<Rightarrow> line list
    \<Rightarrow> (verify_failure \<times> nat) + (json_object list \<times> pystr)" where
  "verify_lines cr agent_id prev_hash expected acc [] = Inr (acc, prev_hash)"
| "verify_lines cr agent_id prev_hash expected acc (l # ls) =
     (case l of
        Blank \<Rightarrow> verify_lines cr agent_id prev_hash expected acc ls
      | NotJson \<Rightarrow> Inl (JsonParseError, length acc)
      | Line v \<Rightarrow>
          (case check_entry cr agent_id prev_hash expected v of
             Inl f \<Rightarrow> Inl (f, length acc)
           | Inr entry \<Rightarrow>
               verify_lines cr agent_id (entry_hash cr entry) (expected + 1) (acc @ [entry]) ls))"

definition verify_snapshot ::
    "crypto \<Rightarrow> pystr \<Rightarrow> disk \<Rightarrow> (verify_failure \<times> nat) + (json_object list \<times> pystr)" where
  "verify_snapshot cr agent_id d = verify_lines cr agent_id GENESIS_HASH 1 [] (all_lines d)"

definition ledger_verify :: "crypto \<Rightarrow> agent_ledger \<Rightarrow> bool \<times> nat" where
  "ledger_verify cr s =
     (case verify_snapshot cr (lc_agent_id (lg_config s)) (lg_disk s) of
        Inl (_, n) \<Rightarrow> (False, n)
      | Inr (es, _) \<Rightarrow> (True, length es))"

subsection \<open>Reading the tail\<close>

definition is_content :: "line \<Rightarrow> bool" where
  "is_content l \<longleftrightarrow> l \<noteq> Blank"

fun parsed :: "line \<Rightarrow> json option" where
  "parsed (Line v) = Some v"
| "parsed _ = None"

definition last_entry :: "disk \<Rightarrow> json option" where
  "last_entry d = (case rev (List.map_filter parsed (all_lines d)) of [] \<Rightarrow> None | v # _ \<Rightarrow> Some v)"

definition load_last_seq :: "disk \<Rightarrow> ledger_error + json" where
  "load_last_seq d =
     (case last_entry d of
        None \<Rightarrow> Inr (JInt 0)
      | Some v \<Rightarrow>
          if \<not> truthy v then Inr (JInt 0)
          else (case v of JObj e \<Rightarrow> Inr (dict_get e ''seq'' (JInt 0)) | _ \<Rightarrow> Inl LedgerAttributeError))"

definition load_last_hash :: "crypto \<Rightarrow> disk \<Rightarrow> ledger_error + pystr" where
  "load_last_hash cr d =
     (case last_entry d of
        None \<Rightarrow> Inr GENESIS_HASH
      | Some v \<Rightarrow>
          if \<not> truthy v then Inr GENESIS_HASH
          else (case v of JObj e \<Rightarrow> Inr (entry_hash cr e) | _ \<Rightarrow> Inl LedgerAttributeError))"

text \<open>The numeric value of a sequence field (Python's \<open>True\<close>, \<open>1\<close> and \<open>1.0\<close> are one).\<close>

definition number_of :: "json \<Rightarrow> int" where
  "number_of v = (case merge_numbers v of JInt n \<Rightarrow> n | _ \<Rightarrow> 0)"

text \<open>\<open>__init__\<close>: refuse negative limits and an invalid chain, then resume its tail.\<close>

definition ledger_open :: "crypto \<Rightarrow> ledger_config \<Rightarrow> disk \<Rightarrow> ledger_error + agent_ledger" where
  "ledger_open cr c d =
     (if lc_max_entries c < 0 \<or> lc_max_bytes c < 0 then Inl LedgerValueError
      else case verify_snapshot cr (lc_agent_id c) d of
        Inl _ \<Rightarrow> Inl LedgerIntegrity
      | Inr _ \<Rightarrow>
          bind_result (load_last_seq d) (\<lambda>q.
          bind_result (load_last_hash cr d) (\<lambda>h.
            Inr \<lparr>lg_config = c, lg_disk = d, lg_seq = number_of q, lg_prev_hash = h, lg_indexes = []\<rparr>)))"

text \<open>\<open>tail(n)\<close>, with Python's slice \<open>[-n:]\<close>; \<open>entry_count\<close>.\<close>

definition neg_slice :: "'a list \<Rightarrow> int \<Rightarrow> 'a list" where
  "neg_slice xs n =
     (if n > 0 then drop (length xs - nat n) xs else drop (nat (- n)) xs)"

definition ledger_tail :: "agent_ledger \<Rightarrow> int \<Rightarrow> json list" where
  "ledger_tail s n = List.map_filter parsed (neg_slice (filter is_content (all_lines (lg_disk s))) n)"

definition entry_count :: "agent_ledger \<Rightarrow> nat" where
  "entry_count s = length (filter is_content (all_lines (lg_disk s)))"

definition head_hash :: "crypto \<Rightarrow> agent_ledger \<Rightarrow> ledger_error + pystr" where
  "head_hash cr s = load_last_hash cr (lg_disk s)"

definition contains_verified_hash :: "crypto \<Rightarrow> agent_ledger \<Rightarrow> pystr \<Rightarrow> bool" where
  "contains_verified_hash cr s expected =
     (if length expected \<noteq> 64 then False
      else case verify_snapshot cr (lc_agent_id (lg_config s)) (lg_disk s) of
        Inl _ \<Rightarrow> False
      | Inr (es, _) \<Rightarrow>
          list_ex (\<lambda>e. entry_hash cr e = expected) es \<or> (expected = GENESIS_HASH \<and> es = []))"

subsection \<open>Rotation\<close>

definition hash_prefix :: "pystr \<Rightarrow> pystr" where
  "hash_prefix h = take 16 h"

definition current_entry_count :: "disk \<Rightarrow> int" where
  "current_entry_count d =
     (case active d of None \<Rightarrow> 0 | Some ls \<Rightarrow> int (length (filter is_content ls)))"

definition rotate_if_needed :: "crypto \<Rightarrow> agent_ledger \<Rightarrow> ledger_error + agent_ledger" where
  "rotate_if_needed cr s =
     (let c = lg_config s; d = lg_disk s in
      case active d of
        None \<Rightarrow> Inr s
      | Some ls \<Rightarrow>
          if lc_file_size c ls = 0 then Inr s
          else
            (let entry_limit_hit = (0 < lc_max_entries c \<and> lc_max_entries c \<le> current_entry_count d);
                 byte_limit_hit = (0 < lc_max_bytes c \<and> lc_max_bytes c \<le> lc_file_size c ls) in
             if \<not> entry_limit_hit \<and> \<not> byte_limit_hit then Inr s
             else case verify_snapshot cr (lc_agent_id c) d of
               Inl _ \<Rightarrow> Inl LedgerIntegrity
             | Inr _ \<Rightarrow>
                 (case List.map_filter parsed (filter is_content ls) of
                    [] \<Rightarrow> Inr s
                  | e # es \<Rightarrow>
                      (case (jget e ''seq'', jget (last (e # es)) ''seq'') of
                         (Some q0, Some q1) \<Rightarrow>
                           (let target = (number_of q0, number_of q1, hash_prefix (lg_prev_hash s)) in
                            if target \<in> fst ` set (archives d) then Inl LedgerIntegrity
                            else Inr (s\<lparr>lg_disk := d\<lparr>archives := archives d @ [(target, ls)], active := None\<rparr>\<rparr>))
                       | _ \<Rightarrow> Inl LedgerValueError))))"

subsection \<open>log\<close>

text \<open>\<open>dict.update\<close>.\<close>

definition dict_update :: "json_object \<Rightarrow> json_object \<Rightarrow> json_object" where
  "dict_update d m = fold (\<lambda>kv d. AList.update (fst kv) (snd kv) d) m d"

definition is_deny :: "log_call \<Rightarrow> bool" where
  "is_deny c \<longleftrightarrow> call_result c = ''denied'' \<or> map_of (call_metadata c) ''decision'' = Some (JStr ''deny'')"

definition build_entry :: "agent_ledger \<Rightarrow> log_call \<Rightarrow> time \<Rightarrow> json_object" where
  "build_entry s c now =
     (let entry = [(''seq'', JInt (lg_seq s + 1)), (''agent_id'', JStr (lc_agent_id (lg_config s))),
                   (''action'', JStr (call_action c)), (''result'', JStr (call_result c)),
                   (''ts'', JFloat now), (''prev_hash'', JStr (lg_prev_hash s))] in
      if lc_redact_denied (lg_config s) \<and> is_deny c
      then AList.update ''redacted'' (JBool True) (AList.update ''decision'' (JStr ''deny'') entry)
      else (let e1 = dict_update entry (call_metadata c) in
            case call_label c of None \<Rightarrow> e1 | Some l \<Rightarrow> dict_update e1 (label_to_json l)))"

text \<open>How the append ended, as the operating system decides it.\<close>

datatype append_outcome =
    AppendOk
  | AppendRestored bool        \<comment> \<open>failed; truncated back (the file exists afterwards or not)\<close>
  | AppendLost "line list option" \<comment> \<open>failed, and the truncation failed too\<close>

definition append_line :: "disk \<Rightarrow> line \<Rightarrow> disk" where
  "append_line d l = d\<lparr>active := Some ((case active d of None \<Rightarrow> [] | Some ls \<Rightarrow> ls) @ [l])\<rparr>"

definition restored_disk :: "disk \<Rightarrow> bool \<Rightarrow> disk" where
  "restored_disk d file_exists =
     (case active d of Some ls \<Rightarrow> d | None \<Rightarrow> if file_exists then d\<lparr>active := Some []\<rparr> else d)"

text \<open>Add an entry to every cached index; the first malformed container raises.\<close>

definition index_add :: "nested_index \<Rightarrow> pystr \<Rightarrow> json_object \<Rightarrow> nested_index" where
  "index_add idx v e = AList.update v (dict_get idx v [] @ [e]) idx"

fun update_nested_indexes ::
    "((pystr \<times> pystr) \<times> nested_index) list \<Rightarrow> json_object
     \<Rightarrow> ((pystr \<times> pystr) \<times> nested_index) list \<times> (ledger_error + unit)" where
  "update_nested_indexes [] e = ([], Inr ())"
| "update_nested_indexes (((container, field), idx) # rest) e =
     (let go = (\<lambda>idx'. case update_nested_indexes rest e of
                  (rest', r) \<Rightarrow> (((container, field), idx') # rest', r));
          bad = (((container, field), idx) # rest, Inl LedgerIntegrity) in
      case map_of e container of
        None \<Rightarrow> go idx
      | Some JNull \<Rightarrow> go idx
      | Some (JObj nested) \<Rightarrow>
          (case map_of nested field of Some (JStr v) \<Rightarrow> go (index_add idx v e) | _ \<Rightarrow> bad)
      | Some _ \<Rightarrow> bad)"

definition ledger_log ::
    "crypto \<Rightarrow> time \<Rightarrow> append_outcome \<Rightarrow> agent_ledger \<Rightarrow> log_call
     \<Rightarrow> agent_ledger \<times> (ledger_error + json_object)" where
  "ledger_log cr now out s0 c =
     (if RESERVED_ENTRY_FIELDS \<inter> fst ` set (call_metadata c) \<noteq> {} then (s0, Inl LedgerValueError)
      else case rotate_if_needed cr s0 of
        Inl e \<Rightarrow> (s0, Inl e)
      | Inr s \<Rightarrow>
          (let entry = build_entry s c now;
               signed = AList.update ''sig'' (JStr (tohex (sig_sign cr (entry_bytes entry)))) entry;
               candidate_hash = sha256 cr (entry_bytes entry);
               d = lg_disk s in
           case out of
             AppendOk \<Rightarrow>
               (let s1 = s\<lparr>lg_disk := append_line d (Line (JObj signed)), lg_seq := lg_seq s + 1,
                           lg_prev_hash := candidate_hash\<rparr> in
                case update_nested_indexes (lg_indexes s1) signed of
                  (ix, Inl e) \<Rightarrow> (s1\<lparr>lg_indexes := ix\<rparr>, Inl e)
                | (ix, Inr _) \<Rightarrow> (s1\<lparr>lg_indexes := ix\<rparr>, Inr signed))
           | AppendRestored ex \<Rightarrow>
               (let s1 = s\<lparr>lg_disk := restored_disk d ex\<rparr> in
                case verify_snapshot cr (lc_agent_id (lg_config s)) (lg_disk s1) of
                  Inl _ \<Rightarrow> (s1, Inl LedgerIntegrity)
                | Inr _ \<Rightarrow>
                    (case load_last_seq (lg_disk s1) of
                       Inl _ \<Rightarrow> (s1, Inl LedgerIntegrity)
                     | Inr q \<Rightarrow>
                         (case load_last_hash cr (lg_disk s1) of
                            Inl _ \<Rightarrow> (s1\<lparr>lg_seq := number_of q\<rparr>, Inl LedgerIntegrity)
                          | Inr h \<Rightarrow> (s1\<lparr>lg_seq := number_of q, lg_prev_hash := h\<rparr>, Inl LedgerOSError))))
           | AppendLost a \<Rightarrow> (s\<lparr>lg_disk := d\<lparr>active := a\<rparr>\<rparr>, Inl LedgerIntegrity)))"

subsection \<open>Lookups by nested metadata\<close>

definition nested_value :: "json_object \<Rightarrow> pystr \<Rightarrow> pystr \<Rightarrow> ledger_error + pystr option" where
  "nested_value e container field =
     (case map_of e container of
        None \<Rightarrow> Inr None
      | Some JNull \<Rightarrow> Inr None
      | Some (JObj nested) \<Rightarrow>
          (case map_of nested field of
             None \<Rightarrow> Inr None
           | Some JNull \<Rightarrow> Inr None
           | Some (JStr v) \<Rightarrow> Inr (Some v)
           | Some _ \<Rightarrow> Inl LedgerIntegrity)
      | Some _ \<Rightarrow> Inl LedgerIntegrity)"

fun build_index :: "pystr \<Rightarrow> pystr \<Rightarrow> nested_index \<Rightarrow> line list \<Rightarrow> ledger_error + nested_index" where
  "build_index container field idx [] = Inr idx"
| "build_index container field idx (l # ls) =
     (case l of
        Blank \<Rightarrow> build_index container field idx ls
      | NotJson \<Rightarrow> Inl LedgerValueError
      | Line (JObj e) \<Rightarrow>
          (case nested_value e container field of
             Inl x \<Rightarrow> Inl x
           | Inr None \<Rightarrow> build_index container field idx ls
           | Inr (Some v) \<Rightarrow> build_index container field (index_add idx v e) ls)
      | Line _ \<Rightarrow> Inl LedgerAttributeError)"

definition find_entries_by_nested_value ::
    "agent_ledger \<Rightarrow> pystr \<Rightarrow> pystr \<Rightarrow> pystr \<Rightarrow> agent_ledger \<times> (ledger_error + json_object list)" where
  "find_entries_by_nested_value s container field v =
     (if container = [] \<or> field = [] \<or> v = [] then (s, Inl LedgerTypeError)
      else case map_of (lg_indexes s) (container, field) of
        Some idx \<Rightarrow> (s, Inr (dict_get idx v []))
      | None \<Rightarrow>
          (case build_index container field [] (all_lines (lg_disk s)) of
             Inl e \<Rightarrow> (s, Inl e)
           | Inr idx \<Rightarrow>
               (s\<lparr>lg_indexes := AList.update (container, field) idx (lg_indexes s)\<rparr>,
                Inr (dict_get idx v []))))"

fun scan_entries :: "pystr \<Rightarrow> pystr \<Rightarrow> pystr \<Rightarrow> json_object list \<Rightarrow> json_object list
    \<Rightarrow> ledger_error + json_object list" where
  "scan_entries container field v matches [] = Inr matches"
| "scan_entries container field v matches (e # es) =
     (case nested_value e container field of
        Inl x \<Rightarrow> Inl x
      | Inr None \<Rightarrow> scan_entries container field v matches es
      | Inr (Some w) \<Rightarrow> scan_entries container field v (if w = v then matches @ [e] else matches) es)"

definition find_verified_entries_by_nested_value ::
    "crypto \<Rightarrow> agent_ledger \<Rightarrow> pystr \<Rightarrow> pystr \<Rightarrow> pystr \<Rightarrow> ledger_error + json_object list" where
  "find_verified_entries_by_nested_value cr s container field v =
     (if container = [] \<or> field = [] \<or> v = [] then Inl LedgerTypeError
      else case verify_snapshot cr (lc_agent_id (lg_config s)) (lg_disk s) of
        Inl _ \<Rightarrow> Inl LedgerIntegrity
      | Inr (es, _) \<Rightarrow> scan_entries container field v [] es)"

end
