(* ===== verification/LedgerChain.thy ===== *)
theory LedgerChain
  imports Ledger
begin

text \<open>
  What the operations of the theory Ledger keep: acceptance of a chain entry by
  entry (\<open>chain_from\<close>), the invariant \<open>ledger_inv\<close> of an open ledger, rotation that
  does not change the snapshot, and the interpretation of the interface \<open>audit_log\<close>.
\<close>

subsection \<open>Lines and entries\<close>

lemma is_content_simps [simp]: "\<not> is_content Blank" "is_content NotJson" "is_content (Line v)"
  by (simp_all add: is_content_def)

definition entry_lines :: "json_object list \<Rightarrow> line list" where
  "entry_lines es = map (\<lambda>e. Line (JObj e)) es"

lemma entry_lines_simps [simp]:
  "entry_lines [] = []" "entry_lines (e # es) = Line (JObj e) # entry_lines es"
  "entry_lines (es @ fs) = entry_lines es @ entry_lines fs" "length (entry_lines es) = length es"
  by (simp_all add: entry_lines_def)

lemma entry_lines_Nil_iff [simp]: "[] = entry_lines es \<longleftrightarrow> es = []" "entry_lines es = [] \<longleftrightarrow> es = []"
  by (auto simp: entry_lines_def)

lemma entry_lines_Cons_iff [simp]:
  "Line v # ls = entry_lines es \<longleftrightarrow> (\<exists>e fs. v = JObj e \<and> es = e # fs \<and> ls = entry_lines fs)"
  "NotJson # ls \<noteq> entry_lines es"
  by (cases es; auto simp: entry_lines_def)+

lemma map_filter_simps [simp]:
  "List.map_filter f [] = []"
  "List.map_filter f (x # xs) = (case f x of None \<Rightarrow> List.map_filter f xs | Some y \<Rightarrow> y # List.map_filter f xs)"
  by (simp_all add: List.map_filter_def split: option.split)

lemma map_filter_append [simp]:
  "List.map_filter f (xs @ ys) = List.map_filter f xs @ List.map_filter f ys"
  by (simp add: List.map_filter_def)

lemma parsed_entry_lines [simp]: "List.map_filter parsed (entry_lines es) = map JObj es"
  by (induction es) simp_all

lemma map_filter_content: "List.map_filter parsed (filter is_content ls) = List.map_filter parsed ls"
proof (induction ls)
  case (Cons l ls)
  then show ?case by (cases l) simp_all
qed simp

lemma parsed_contents:
  "filter is_content ls = entry_lines es \<Longrightarrow> List.map_filter parsed ls = map JObj es"
  by (metis map_filter_content parsed_entry_lines)

subsection \<open>Acceptance, entry by entry\<close>

lemma check_entry_Inr:
  assumes "check_entry cr a p n v = Inr e"
  shows "v = JObj e" "\<exists>q. map_of e ''seq'' = Some q \<and> py_eq q (JInt n)"
    "map_of e ''agent_id'' = Some (JStr a)" "dict_get e ''prev_hash'' (JStr []) = JStr p"
    "\<exists>h sg. map_of e ''sig'' = Some (JStr h) \<and> fromhex h = Some sg
        \<and> sig_verify cr (entry_bytes (unsigned_entry e)) sg"
proof -
  from assms obtain e' where v: "v = JObj e'"
    by (cases v) (auto simp: check_entry_def)
  with assms have "e' = e"
    by (auto simp: check_entry_def Let_def split: option.splits if_splits)
  with v assms show "v = JObj e" "\<exists>q. map_of e ''seq'' = Some q \<and> py_eq q (JInt n)"
    "map_of e ''agent_id'' = Some (JStr a)" "dict_get e ''prev_hash'' (JStr []) = JStr p"
    "\<exists>h sg. map_of e ''sig'' = Some (JStr h) \<and> fromhex h = Some sg
        \<and> sig_verify cr (entry_bytes (unsigned_entry e)) sg"
    by (auto simp: check_entry_def Let_def unsigned_entry_def dict_get_def bind_eq_Some_conv
        split: option.splits if_splits json.splits)
qed

fun chain_from :: "crypto \<Rightarrow> pystr \<Rightarrow> pystr \<Rightarrow> int \<Rightarrow> json_object list \<Rightarrow> pystr \<Rightarrow> bool" where
  "chain_from cr a p n [] h \<longleftrightarrow> p = h"
| "chain_from cr a p n (e # es) h \<longleftrightarrow>
     check_entry cr a p n (JObj e) = Inr e \<and> chain_from cr a (entry_hash cr e) (n + 1) es h"

lemma verify_lines_iff:
  "verify_lines cr a p n acc ls = Inr (acc', h) \<longleftrightarrow>
     (\<exists>es. acc' = acc @ es \<and> filter is_content ls = entry_lines es \<and> chain_from cr a p n es h)"
proof (induction ls arbitrary: p n acc)
  case (Cons l ls)
  show ?case
  proof (cases l)
    case (Line v)
    show ?thesis
    proof (cases "check_entry cr a p n v")
      case (Inl f)
      then have "\<not> (v = JObj e \<and> check_entry cr a p n (JObj e) = Inr e)" for e by auto
      with Inl Line show ?thesis by auto
    next
      case (Inr e)
      have v: "v = JObj e" using check_entry_Inr(1)[OF Inr] .
      show ?thesis
        using Inr by (auto simp: Line v Cons.IH)
    qed
  qed (auto simp: Cons.IH)
qed auto

lemma verify_snapshot_iff:
  "verify_snapshot cr a d = Inr (es, h) \<longleftrightarrow>
     filter is_content (all_lines d) = entry_lines es \<and> chain_from cr a GENESIS_HASH 1 es h"
  by (simp add: verify_snapshot_def verify_lines_iff)

lemma chain_from_append:
  "chain_from cr a p n (es @ fs) h \<longleftrightarrow>
     (\<exists>m. chain_from cr a p n es m \<and> chain_from cr a m (n + int (length es)) fs h)"
  by (induction es arbitrary: p n) (auto simp: algebra_simps)

lemma chain_from_head:
  "chain_from cr a p n es h \<Longrightarrow> h = (if es = [] then p else entry_hash cr (last es))"
  by (induction es arbitrary: p n) auto

lemma chain_from_nth:
  assumes "chain_from cr a p n es h" "i < length es"
  shows "\<exists>m. check_entry cr a m (n + int i) (JObj (es ! i)) = Inr (es ! i)"
proof -
  have "es = take i es @ es ! i # drop (Suc i) es" using assms(2) by (rule id_take_nth_drop)
  with assms obtain m where "chain_from cr a m (n + int (length (take i es))) (es ! i # drop (Suc i) es) h"
    by (metis chain_from_append)
  with assms(2) show ?thesis by (auto simp: min_def)
qed

lemma number_of_eq: "py_eq q (JInt n) \<Longrightarrow> number_of q = n"
  by (cases q) (auto simp: py_eq_def number_of_def split: if_splits)

lemma chain_from_seq:
  assumes "chain_from cr a p n es h" "i < length es"
  obtains q where "map_of (es ! i) ''seq'' = Some q" "number_of q = n + int i"
  using chain_from_nth[OF assms] check_entry_Inr(2) number_of_eq by metis

subsection \<open>The invariant of an open ledger\<close>

definition archived_lines :: "disk \<Rightarrow> line list" where
  "archived_lines d = concat (map snd (archive_paths d))"

text \<open>
  The disk holds an accepted chain whose tail the memory caches; the sealed segments
  are keyed below every sequence number still to be written.
\<close>

definition ledger_inv :: "crypto \<Rightarrow> agent_ledger \<Rightarrow> bool" where
  "ledger_inv cr s \<longleftrightarrow>
     (case verify_snapshot cr (lc_agent_id (lg_config s)) (lg_disk s) of
        Inl _ \<Rightarrow> False
      | Inr (es, h) \<Rightarrow> lg_seq s = int (length es) \<and> lg_prev_hash s = h)
     \<and> list_all (\<lambda>kv. fst (fst kv) \<le> int (length (filter is_content (archived_lines (lg_disk s)))))
         (archives (lg_disk s))"

definition chain_entries :: "disk \<Rightarrow> json_object list" where
  "chain_entries d = List.map_filter (\<lambda>v. case v of JObj e \<Rightarrow> Some e | _ \<Rightarrow> None)
     (List.map_filter parsed (all_lines d))"

lemma map_filter_objects [simp]:
  "List.map_filter (\<lambda>v. case v of JObj e \<Rightarrow> Some e | _ \<Rightarrow> None) (map JObj es) = es"
  by (induction es) simp_all

lemma chain_entries_eq:
  "filter is_content (all_lines d) = entry_lines es \<Longrightarrow> chain_entries d = es"
  by (simp add: chain_entries_def parsed_contents)

lemma ledger_invD:
  assumes "ledger_inv cr s"
  shows "verify_snapshot cr (lc_agent_id (lg_config s)) (lg_disk s) = Inr (chain_entries (lg_disk s), lg_prev_hash s)"
    "filter is_content (all_lines (lg_disk s)) = entry_lines (chain_entries (lg_disk s))"
    "chain_from cr (lc_agent_id (lg_config s)) GENESIS_HASH 1 (chain_entries (lg_disk s)) (lg_prev_hash s)"
    "lg_seq s = int (length (chain_entries (lg_disk s)))"
proof -
  from assms obtain es where v: "verify_snapshot cr (lc_agent_id (lg_config s)) (lg_disk s) = Inr (es, lg_prev_hash s)"
    and q: "lg_seq s = int (length es)"
    by (auto simp: ledger_inv_def split: sum.splits)
  from v have f: "filter is_content (all_lines (lg_disk s)) = entry_lines es"
    and c: "chain_from cr (lc_agent_id (lg_config s)) GENESIS_HASH 1 es (lg_prev_hash s)"
    by (simp_all add: verify_snapshot_iff)
  have "chain_entries (lg_disk s) = es" using f by (rule chain_entries_eq)
  with v q f c show "verify_snapshot cr (lc_agent_id (lg_config s)) (lg_disk s) = Inr (chain_entries (lg_disk s), lg_prev_hash s)"
    "filter is_content (all_lines (lg_disk s)) = entry_lines (chain_entries (lg_disk s))"
    "chain_from cr (lc_agent_id (lg_config s)) GENESIS_HASH 1 (chain_entries (lg_disk s)) (lg_prev_hash s)"
    "lg_seq s = int (length (chain_entries (lg_disk s)))"
    by simp_all
qed

subsection \<open>Rotation keeps the snapshot\<close>

lemma insort_key_last:
  "f a \<le> f x \<Longrightarrow> insort_key f a (ys @ [x]) = insort_key f a ys @ [x]"
  by (induction ys) auto

lemma sort_key_append_max:
  "\<forall>y\<in>set xs. f y < f x \<Longrightarrow> sort_key f (xs @ [x]) = sort_key f xs @ [x]"
proof (induction xs)
  case (Cons a xs)
  then have "f a \<le> f x" by (simp add: less_imp_le)
  with Cons show ?case by (simp add: insort_key_last)
qed simp

lemma all_lines_split:
  "all_lines d = archived_lines d @ (case active d of None \<Rightarrow> [] | Some ls \<Rightarrow> ls)"
  by (simp add: all_lines_def ledger_paths_def archived_lines_def split: option.split)

lemma archived_lines_seal:
  assumes "\<forall>kv\<in>set (archives d). fst kv < k"
  shows "archived_lines (d\<lparr>archives := archives d @ [(k, ls)], active := None\<rparr>) = archived_lines d @ ls"
  using assms by (simp add: archived_lines_def archive_paths_def sort_key_append_max)

text \<open>What a completed rotation did: nothing, or the active file sealed under a fresh key.\<close>

lemma rotate_cases:
  assumes "rotate_if_needed cr s = Inr s'"
  obtains "s' = s"
  | ls e es q0 q1 where "active (lg_disk s) = Some ls"
      "List.map_filter parsed ls = e # es"
      "jget e ''seq'' = Some q0" "jget (last (e # es)) ''seq'' = Some q1"
      "s' = s\<lparr>lg_disk := (lg_disk s)\<lparr>archives := archives (lg_disk s)
               @ [((number_of q0, number_of q1, hash_prefix (lg_prev_hash s)), ls)], active := None\<rparr>\<rparr>"
proof -
  consider "s' = s"
    | ls e es q0 q1 where "active (lg_disk s) = Some ls"
      "List.map_filter parsed (filter is_content ls) = e # es"
      "jget e ''seq'' = Some q0" "jget (last (e # es)) ''seq'' = Some q1"
      "s' = s\<lparr>lg_disk := (lg_disk s)\<lparr>archives := archives (lg_disk s)
               @ [((number_of q0, number_of q1, hash_prefix (lg_prev_hash s)), ls)], active := None\<rparr>\<rparr>"
    using assms
    by (auto simp: rotate_if_needed_def Let_def split: option.splits if_splits sum.splits list.splits)
  then show ?thesis using that by (cases) (simp_all add: map_filter_content)
qed

lemma entry_lines_append_conv:
  "xs @ ys = entry_lines es \<longleftrightarrow> (\<exists>ea eb. es = ea @ eb \<and> xs = entry_lines ea \<and> ys = entry_lines eb)"
  by (auto simp: entry_lines_def append_eq_map_conv)

lemma rotate_keeps:
  assumes inv: "ledger_inv cr s" and rot: "rotate_if_needed cr s = Inr s'"
  shows "ledger_inv cr s'" "all_lines (lg_disk s') = all_lines (lg_disk s)"
    "lg_seq s' = lg_seq s" "lg_prev_hash s' = lg_prev_hash s" "lg_config s' = lg_config s"
    "lg_indexes s' = lg_indexes s"
proof -
  have "ledger_inv cr s' \<and> all_lines (lg_disk s') = all_lines (lg_disk s) \<and> lg_seq s' = lg_seq s
      \<and> lg_prev_hash s' = lg_prev_hash s \<and> lg_config s' = lg_config s \<and> lg_indexes s' = lg_indexes s"
    using rot
  proof (cases rule: rotate_cases)
    case 1
    with inv show ?thesis by simp
  next
    case (2 ls e es q0 q1)
    let ?d = "lg_disk s"
    from ledger_invD(2)[OF inv] 2(1) obtain ea eb where split: "chain_entries ?d = ea @ eb"
      and a: "filter is_content (archived_lines ?d) = entry_lines ea"
      and b: "filter is_content ls = entry_lines eb"
      by (auto simp: all_lines_split entry_lines_append_conv)
    from 2(2) parsed_contents[OF b] obtain e0 eb' where eb: "eb = e0 # eb'" "e = JObj e0"
      by (cases eb) auto
    have "length ea < length (chain_entries ?d)" "chain_entries ?d ! length ea = e0"
      by (simp_all add: split eb)
    with chain_from_seq[OF ledger_invD(3)[OF inv], of "length ea"] obtain q where
      "map_of e0 ''seq'' = Some q" "number_of q = 1 + int (length ea)" by metis
    with 2(3) eb have q0: "number_of q0 = 1 + int (length ea)" by simp
    have keys: "\<forall>kv\<in>set (archives ?d). fst (fst kv) \<le> int (length ea)"
      using inv a by (auto simp: ledger_inv_def list_all_iff)
    then have "\<forall>kv\<in>set (archives ?d). fst kv < (number_of q0, number_of q1, hash_prefix (lg_prev_hash s))"
      using q0 by (fastforce simp: less_prod_def)
    note sealed = archived_lines_seal[OF this, of ls]
    have all: "all_lines (lg_disk s') = all_lines ?d"
      using sealed 2(1) by (simp add: all_lines_split 2(5))
    moreover have "ledger_inv cr s'"
      using inv all sealed keys a b q0 eb
      by (auto simp: ledger_inv_def list_all_iff 2(5) verify_snapshot_def split: sum.splits)
    ultimately show ?thesis by (simp add: 2(5))
  qed
  then show "ledger_inv cr s'" "all_lines (lg_disk s') = all_lines (lg_disk s)"
    "lg_seq s' = lg_seq s" "lg_prev_hash s' = lg_prev_hash s" "lg_config s' = lg_config s"
    "lg_indexes s' = lg_indexes s" by simp_all
qed

subsection \<open>The entry that is built\<close>

lemma map_of_dict_update_notin:
  "k \<notin> fst ` set m \<Longrightarrow> map_of (dict_update d m) k = map_of d k"
  unfolding dict_update_def by (induction m arbitrary: d) auto

lemma label_keys: "fst ` set (label_to_json l) = {''classification'', ''caveats'', ''originator'', ''label_ts''}"
  by (auto simp: label_to_json_def)

lemma build_entry_reserved:
  assumes "RESERVED_ENTRY_FIELDS \<inter> fst ` set (call_metadata c) = {}"
  shows "map_of (build_entry s c now) ''seq'' = Some (JInt (lg_seq s + 1))"
    "map_of (build_entry s c now) ''agent_id'' = Some (JStr (lc_agent_id (lg_config s)))"
    "map_of (build_entry s c now) ''action'' = Some (JStr (call_action c))"
    "map_of (build_entry s c now) ''result'' = Some (JStr (call_result c))"
    "map_of (build_entry s c now) ''ts'' = Some (JFloat now)"
    "map_of (build_entry s c now) ''prev_hash'' = Some (JStr (lg_prev_hash s))"
    "map_of (build_entry s c now) ''sig'' = None"
proof -
  have meta: "k \<notin> fst ` set (call_metadata c)" if "k \<in> RESERVED_ENTRY_FIELDS" for k
    using assms that by blast
  define base where "base = [(''seq'', JInt (lg_seq s + 1)), (''agent_id'', JStr (lc_agent_id (lg_config s))),
       (''action'', JStr (call_action c)), (''result'', JStr (call_result c)),
       (''ts'', JFloat now), (''prev_hash'', JStr (lg_prev_hash s))]"
  have keep: "map_of (build_entry s c now) k = map_of base k" if "k \<in> RESERVED_ENTRY_FIELDS" for k
  proof -
    from that have "k \<notin> {''decision'', ''redacted'', ''classification'', ''caveats'', ''originator'', ''label_ts''}"
      by (auto simp: RESERVED_ENTRY_FIELDS_def)
    with meta[OF that] show ?thesis unfolding build_entry_def base_def[symmetric] Let_def
      by (simp add: map_of_dict_update_notin label_keys split: option.split)
  qed
  show "map_of (build_entry s c now) ''seq'' = Some (JInt (lg_seq s + 1))"
    "map_of (build_entry s c now) ''agent_id'' = Some (JStr (lc_agent_id (lg_config s)))"
    "map_of (build_entry s c now) ''action'' = Some (JStr (call_action c))"
    "map_of (build_entry s c now) ''result'' = Some (JStr (call_result c))"
    "map_of (build_entry s c now) ''ts'' = Some (JFloat now)"
    "map_of (build_entry s c now) ''prev_hash'' = Some (JStr (lg_prev_hash s))"
    "map_of (build_entry s c now) ''sig'' = None"
    by (subst keep; simp add: RESERVED_ENTRY_FIELDS_def base_def)+
qed

definition sign_entry :: "crypto \<Rightarrow> json_object \<Rightarrow> json_object" where
  "sign_entry cr e = AList.update ''sig'' (JStr (tohex (sig_sign cr (entry_bytes e)))) e"

lemma unsigned_sign_entry:
  assumes "map_of e ''sig'' = None" shows "unsigned_entry (sign_entry cr e) = e"
proof -
  from assms have "''sig'' \<notin> set (map fst e)" by (simp add: map_of_eq_None_iff)
  moreover have "AList.delete k (e @ [(k, v)]) = e" if "k \<notin> set (map fst e)" for k and v :: json
    using that by (induction e) (auto simp: AList.delete_eq)
  ultimately show ?thesis by (simp add: unsigned_entry_def sign_entry_def update_fresh)
qed

lemma check_sign_entry:
  assumes "map_of e ''sig'' = None" "map_of e ''seq'' = Some (JInt n)"
    and "map_of e ''agent_id'' = Some (JStr a)" "map_of e ''prev_hash'' = Some (JStr p)"
    and law: "\<And>m. sig_verify cr m (sig_sign cr m)"
  shows "check_entry cr a p n (JObj (sign_entry cr e)) = Inr (sign_entry cr e)"
proof -
  have prev: "dict_get e ''prev_hash'' (JStr []) = JStr p" using assms(4) by (simp add: dict_get_def)
  have sig: "map_of (sign_entry cr e) ''sig'' = Some (JStr (tohex (sig_sign cr (entry_bytes e))))"
    by (simp add: sign_entry_def)
  show ?thesis
    by (simp add: check_entry_def Let_def unsigned_sign_entry[OF assms(1)] prev sig assms(2,3) law)
qed

lemma entry_hash_sign:
  "map_of e ''sig'' = None \<Longrightarrow> entry_hash cr (sign_entry cr e) = sha256 cr (entry_bytes e)"
  by (simp add: entry_hash_def unsigned_sign_entry)

subsection \<open>log keeps the invariant\<close>

definition signs_ok :: "crypto \<Rightarrow> bool" where
  "signs_ok cr \<longleftrightarrow> (\<forall>m. sig_verify cr m (sig_sign cr m))"

lemma ledger_inv_indexes [simp]: "ledger_inv cr (s\<lparr>lg_indexes := ix\<rparr>) = ledger_inv cr s"
  by (simp add: ledger_inv_def split: sum.split prod.split)

lemma update_nested_indexes_result:
  "snd (update_nested_indexes ix e) = Inr () \<or> snd (update_nested_indexes ix e) = Inl LedgerIntegrity"
  by (induction ix e rule: update_nested_indexes.induct)
     (auto simp: Let_def split: option.split json.split prod.splits)

lemma all_lines_append_line: "all_lines (append_line d l) = all_lines d @ [l]"
  by (simp add: append_line_def all_lines_split archived_lines_def archive_paths_def split: option.split)

lemma archived_append_line:
  "archived_lines (append_line d l) = archived_lines d" "archives (append_line d l) = archives d"
  by (simp_all add: append_line_def archived_lines_def archive_paths_def)

definition committed :: "crypto \<Rightarrow> agent_ledger \<Rightarrow> json_object \<Rightarrow> agent_ledger" where
  "committed cr s e = s\<lparr>lg_disk := append_line (lg_disk s) (Line (JObj (sign_entry cr e))),
     lg_seq := lg_seq s + 1, lg_prev_hash := sha256 cr (entry_bytes e)\<rparr>"

lemma committed_keeps:
  assumes inv: "ledger_inv cr s" and ok: "signs_ok cr"
    and fresh: "RESERVED_ENTRY_FIELDS \<inter> fst ` set (call_metadata c) = {}"
  shows "ledger_inv cr (committed cr s (build_entry s c now))"
    "chain_entries (lg_disk (committed cr s (build_entry s c now)))
       = chain_entries (lg_disk s) @ [sign_entry cr (build_entry s c now)]"
proof -
  let ?e = "build_entry s c now" and ?s' = "committed cr s (build_entry s c now)"
  let ?es = "chain_entries (lg_disk s)"
  note b = build_entry_reserved[OF fresh, of s now]
  have f: "filter is_content (all_lines (lg_disk ?s')) = entry_lines (?es @ [sign_entry cr ?e])"
    using ledger_invD(2)[OF inv] by (simp add: committed_def all_lines_append_line)
  then show entries: "chain_entries (lg_disk ?s') = ?es @ [sign_entry cr ?e]"
    by (rule chain_entries_eq)
  have "check_entry cr (lc_agent_id (lg_config s)) (lg_prev_hash s) (1 + int (length ?es))
      (JObj (sign_entry cr ?e)) = Inr (sign_entry cr ?e)"
    using b ok ledger_invD(4)[OF inv] by (intro check_sign_entry) (simp_all add: signs_ok_def)
  with ledger_invD(3)[OF inv] have
    "chain_from cr (lc_agent_id (lg_config s)) GENESIS_HASH 1 (?es @ [sign_entry cr ?e]) (sha256 cr (entry_bytes ?e))"
    using b(7) by (auto simp: chain_from_append entry_hash_sign)
  with f have "verify_snapshot cr (lc_agent_id (lg_config s)) (lg_disk ?s')
      = Inr (?es @ [sign_entry cr ?e], sha256 cr (entry_bytes ?e))"
    by (simp add: verify_snapshot_iff)
  then show "ledger_inv cr ?s'"
    using inv ledger_invD(4)[OF inv]
    by (simp add: ledger_inv_def archived_append_line committed_def split: sum.splits)
qed

lemma restored_disk_lines:
  "all_lines (restored_disk d ex) = all_lines d" "archives (restored_disk d ex) = archives d"
  "archived_lines (restored_disk d ex) = archived_lines d"
  by (simp_all add: restored_disk_def all_lines_split archived_lines_def archive_paths_def split: option.split)

text \<open>Reading the tail of an accepted chain gives the counters of the invariant.\<close>

lemma load_last:
  assumes v: "verify_snapshot cr a d = Inr (es, h)"
  shows "\<exists>q. load_last_seq d = Inr q \<and> number_of q = int (length es)" "load_last_hash cr d = Inr h"
proof -
  from v have f: "filter is_content (all_lines d) = entry_lines es"
    and c: "chain_from cr a GENESIS_HASH 1 es h" by (simp_all add: verify_snapshot_iff)
  have p: "List.map_filter parsed (all_lines d) = map JObj es" using f by (rule parsed_contents)
  show "\<exists>q. load_last_seq d = Inr q \<and> number_of q = int (length es)" "load_last_hash cr d = Inr h"
  proof -
    show "\<exists>q. load_last_seq d = Inr q \<and> number_of q = int (length es)"
    proof (cases es rule: rev_cases)
      case Nil
      with p show ?thesis by (simp add: load_last_seq_def last_entry_def number_of_def)
    next
      case (snoc es' e)
      with c obtain q where q: "map_of e ''seq'' = Some q" "number_of q = 1 + int (length es')"
        using chain_from_seq[OF c, of "length es'"] by auto
      then have "e \<noteq> []" by auto
      with p snoc q show ?thesis by (simp add: load_last_seq_def last_entry_def dict_get_def)
    qed
    show "load_last_hash cr d = Inr h"
    proof (cases es rule: rev_cases)
      case Nil
      with p c show ?thesis by (simp add: load_last_hash_def last_entry_def)
    next
      case (snoc es' e)
      with c obtain q where "map_of e ''seq'' = Some q"
        using chain_from_seq[OF c, of "length es'"] by auto
      then have "e \<noteq> []" by auto
      with p snoc chain_from_head[OF c] show ?thesis by (simp add: load_last_hash_def last_entry_def)
    qed
  qed
qed

text \<open>All ways \<open>log\<close> ends, unless the tail was lost.\<close>

lemma ledger_log_cases:
  assumes inv: "ledger_inv cr s0" and ok: "signs_ok cr"
    and run: "ledger_log cr now out s0 c = (s', r)" and kept: "\<And>a. out \<noteq> AppendLost a"
  obtains (refused) err where "s' = s0" "r = Inl err"
  | (restored) "r = Inl LedgerOSError" "ledger_inv cr s'" "chain_entries (lg_disk s') = chain_entries (lg_disk s0)"
      "lg_config s' = lg_config s0" "out \<noteq> AppendOk"
  | (appended) s e where "rotate_if_needed cr s0 = Inr s" "e = build_entry s c now"
      "chain_entries (lg_disk s') = chain_entries (lg_disk s0) @ [sign_entry cr e]"
      "ledger_inv cr s'" "r = Inr (sign_entry cr e) \<or> r = Inl LedgerIntegrity"
      "RESERVED_ENTRY_FIELDS \<inter> fst ` set (call_metadata c) = {}" "lg_config s' = lg_config s0" "out = AppendOk"
proof (cases "RESERVED_ENTRY_FIELDS \<inter> fst ` set (call_metadata c) = {}")
  case False
  with run show ?thesis by (intro refused[of LedgerValueError]) (auto simp: ledger_log_def)
next
  case fresh: True
  show ?thesis
  proof (cases "rotate_if_needed cr s0")
    case (Inl e)
    with run fresh show ?thesis by (intro refused[of e]) (auto simp: ledger_log_def)
  next
    case (Inr s)
    note keep = rotate_keeps[OF inv Inr]
    have same: "chain_entries (lg_disk s) = chain_entries (lg_disk s0)"
      by (simp add: chain_entries_def keep(2))
    show ?thesis
    proof (cases out)
      case AppendOk
      let ?s1 = "committed cr s (build_entry s c now)"
      obtain ix res where upd: "update_nested_indexes (lg_indexes ?s1) (sign_entry cr (build_entry s c now)) = (ix, res)"
        by (cases "update_nested_indexes (lg_indexes ?s1) (sign_entry cr (build_entry s c now))")
      have bad: "res = Inl LedgerIntegrity \<or> res = Inr ()"
        using update_nested_indexes_result[of "lg_indexes ?s1" "sign_entry cr (build_entry s c now)"] upd by auto
      show ?thesis
        using run fresh Inr AppendOk upd bad keep same committed_keeps[OF keep(1) ok fresh, of now]
        by (intro appended[OF Inr refl])
           (auto simp: ledger_log_def Let_def committed_def sign_entry_def)
    next
      case (AppendRestored ex)
      have v: "verify_snapshot cr (lc_agent_id (lg_config s)) (restored_disk (lg_disk s) ex)
          = Inr (chain_entries (lg_disk s), lg_prev_hash s)"
        using ledger_invD(1)[OF keep(1)] by (simp add: verify_snapshot_def restored_disk_lines)
      from load_last[OF v] obtain q where q: "load_last_seq (restored_disk (lg_disk s) ex) = Inr q"
        "number_of q = lg_seq s" and h: "load_last_hash cr (restored_disk (lg_disk s) ex) = Inr (lg_prev_hash s)"
        using ledger_invD(4)[OF keep(1)] by auto
      have s': "s' = s\<lparr>lg_disk := restored_disk (lg_disk s) ex\<rparr>" and r: "r = Inl LedgerOSError"
        using run fresh Inr AppendRestored v q h by (auto simp: ledger_log_def Let_def)
      have "ledger_inv cr s'"
        using keep(1)
        by (simp add: s' ledger_inv_def restored_disk_lines verify_snapshot_def split: sum.splits prod.splits)
      then show ?thesis using r same keep AppendRestored
        by (intro restored) (simp_all add: s' chain_entries_def restored_disk_lines)
    qed (use kept in blast)
  qed
qed

subsection \<open>The interface of the log's clients\<close>

text \<open>
  A ledger together with the operating system's answers to its next appends: the time
  and, for a failed append that was truncated back, whether the file exists. With no
  answer left an append succeeds at time 0.
\<close>

type_synonym ledger_world = "agent_ledger \<times> (time \<times> bool option) list"

definition ledger_logger :: "crypto \<Rightarrow> (ledger_world, ledger_error) logger" where
  "ledger_logger cr w c =
     (case w of (s, os) \<Rightarrow>
        (let (now, out, os') = (case os of [] \<Rightarrow> (0, AppendOk, [])
               | (t, f) # os' \<Rightarrow> (t, (case f of None \<Rightarrow> AppendOk | Some ex \<Rightarrow> AppendRestored ex), os'));
             (s', r) = ledger_log cr now out s c
         in ((s', os'), r)))"

definition entry_text :: "json_object \<Rightarrow> pystr \<Rightarrow> pystr" where
  "entry_text e k = (case map_of e k of Some (JStr s) \<Rightarrow> s | _ \<Rightarrow> [])"

definition ledger_recorded :: "ledger_world \<Rightarrow> (pystr \<times> pystr) list" where
  "ledger_recorded w = map (\<lambda>e. (entry_text e ''action'', entry_text e ''result'')) (chain_entries (lg_disk (fst w)))"

definition world_inv :: "crypto \<Rightarrow> ledger_world \<Rightarrow> bool" where
  "world_inv cr w \<longleftrightarrow> signs_ok cr \<and> ledger_inv cr (fst w)"

lemma sign_entry_text:
  assumes "RESERVED_ENTRY_FIELDS \<inter> fst ` set (call_metadata c) = {}"
  shows "entry_text (sign_entry cr (build_entry s c now)) ''action'' = call_action c"
    "entry_text (sign_entry cr (build_entry s c now)) ''result'' = call_result c"
  using build_entry_reserved(3,4)[OF assms, of s now] by (simp_all add: entry_text_def sign_entry_def)

lemma ledger_logger_step:
  assumes inv: "world_inv cr w" and run: "ledger_logger cr w c = (w', r)"
  shows "world_inv cr w'"
    "ledger_recorded w' = ledger_recorded w @ [(call_action c, call_result c)]
     \<or> ledger_recorded w' = ledger_recorded w \<and> (\<exists>x. r = Inl x)"
proof -
  obtain s os s' os' where w: "w = (s, os)" "w' = (s', os')" by (cases w, cases w') auto
  obtain now out where step: "ledger_log cr now out s c = (s', r)" and out: "\<And>a. out \<noteq> AppendLost a"
    using run by (auto simp: ledger_logger_def w split: list.splits prod.splits option.splits)
  from inv have i: "ledger_inv cr s" "signs_ok cr" by (simp_all add: world_inv_def w)
  show "world_inv cr w'" using ledger_log_cases[OF i step out] i
    by (cases) (auto simp: world_inv_def w)
  show "ledger_recorded w' = ledger_recorded w @ [(call_action c, call_result c)]
     \<or> ledger_recorded w' = ledger_recorded w \<and> (\<exists>x. r = Inl x)"
    using ledger_log_cases[OF i step out]
    by (cases) (auto simp: ledger_recorded_def w sign_entry_text)
qed

interpretation chain: audit_log "ledger_logger cr" ledger_recorded "world_inv cr" for cr
proof (unfold_locales)
  fix l c l' e
  assume "world_inv cr l" "ledger_logger cr l c = (l', Inr e)"
  then show "ledger_recorded l' = ledger_recorded l @ [(call_action c, call_result c)]"
    using ledger_logger_step(2) by fastforce
next
  fix l c l' x
  assume "world_inv cr l" "ledger_logger cr l c = (l', Inl x)"
  then show "ledger_recorded l' \<in> {ledger_recorded l, ledger_recorded l @ [(call_action c, call_result c)]}"
    using ledger_logger_step(2) by fastforce
qed (rule ledger_logger_step(1))

end
