(* ===== verification/LedgerSpec.thy ===== *)
theory LedgerSpec
  imports LedgerChain
begin

text \<open>
  The properties of \<open>AgentLedger\<close>, with a concrete deployment for the witnesses: the
  hash and the signature scheme are instantiated by functions on the signed text.
\<close>

subsection \<open>A deployment\<close>

definition demo_crypto :: crypto where
  "demo_crypto = \<lparr>sha256 = (\<lambda>m. CHR ''h'' # m), sig_sign = (\<lambda>m. []), sig_verify = (\<lambda>m s. s = [])\<rparr>"

definition demo_config :: ledger_config where
  "demo_config = \<lparr>lc_agent_id = ''a'', lc_redact_denied = False, lc_max_entries = 0,
     lc_max_bytes = 0, lc_file_size = (\<lambda>ls. int (length ls))\<rparr>"

definition demo_ledger :: agent_ledger where
  "demo_ledger = \<lparr>lg_config = demo_config, lg_disk = \<lparr>archives = [], active = None\<rparr>, lg_seq = 0,
     lg_prev_hash = GENESIS_HASH, lg_indexes = []\<rparr>"

lemma demo_signs: "signs_ok demo_crypto"
  by (simp add: signs_ok_def demo_crypto_def)

lemma demo_inv: "ledger_inv demo_crypto demo_ledger"
  by (simp add: ledger_inv_def demo_ledger_def verify_snapshot_def all_lines_def ledger_paths_def
      archive_paths_def archived_lines_def)

subsection \<open>The chain\<close>

text \<open>
  C5. \<open>log\<close> keeps an accepted chain accepted, through rotation, a failed append and an
  index error alike: the entries on disk stay a signed, numbered, linked chain whose
  tail the memory holds. They grow by at most one entry; the entry that is returned is
  the new last one, carries the next number, the link to the previous head and the
  caller's action and result, and neither metadata nor label can change those.
\<close>

theorem ledger_log_keeps_chain:
  assumes "ledger_inv cr s" "signs_ok cr" "ledger_log cr now out s c = (s', r)" "\<And>a. out \<noteq> AppendLost a"
  shows "ledger_inv cr s' \<and> (case r of
      Inr e \<Rightarrow> chain_entries (lg_disk s') = chain_entries (lg_disk s) @ [e]
         \<and> map_of e ''seq'' = Some (JInt (lg_seq s + 1)) \<and> map_of e ''prev_hash'' = Some (JStr (lg_prev_hash s))
         \<and> map_of e ''agent_id'' = Some (JStr (lc_agent_id (lg_config s)))
         \<and> map_of e ''action'' = Some (JStr (call_action c)) \<and> map_of e ''result'' = Some (JStr (call_result c))
         \<and> map_of e ''ts'' = Some (JFloat now)
    | Inl _ \<Rightarrow> chain_entries (lg_disk s') = chain_entries (lg_disk s)
         \<or> lg_indexes s \<noteq> [] \<and> (\<exists>e. chain_entries (lg_disk s') = chain_entries (lg_disk s) @ [e]))"
  using assms
proof (cases rule: ledger_log_cases)
  case (appended s1 e)
  note keep = rotate_keeps[OF assms(1) appended(1)]
  have "lg_indexes s \<noteq> []" if "r = Inl LedgerIntegrity"
    using that assms(3) appended keep(6) by (auto simp: ledger_log_def Let_def)
  with appended keep build_entry_reserved[OF appended(6), of s1 now] show ?thesis
    by (auto simp: sign_entry_def)
qed (use assms(1) in auto)

theorem ledger_log_keeps_chain_witness:
  "ledger_inv demo_crypto (fst (ledger_log demo_crypto 5 AppendOk demo_ledger (mk_call ''x'' ''ok'' [])))"
  using ledger_log_keeps_chain[where now = 5 and out = AppendOk and c = "mk_call ''x'' ''ok'' []",
      OF demo_inv demo_signs prod.collapse[symmetric]] by simp

text \<open>
  Restart: opening the ledger on the disk an open ledger left behind succeeds and
  resumes with exactly the sequence number and head hash the running process held;
  opening any disk whose chain is not accepted is refused.
\<close>

theorem ledger_restart_resumes:
  assumes "0 \<le> lc_max_entries (lg_config s)" "0 \<le> lc_max_bytes (lg_config s)"
  shows "(ledger_inv cr s \<longrightarrow> ledger_open cr (lg_config s) (lg_disk s) = Inr (s\<lparr>lg_indexes := []\<rparr>))
    \<and> (\<not> is_ok (verify_snapshot cr (lc_agent_id (lg_config s)) d)
         \<longrightarrow> ledger_open cr (lg_config s) d = Inl LedgerIntegrity)"
proof (intro conjI impI)
  assume inv: "ledger_inv cr s"
  from load_last[OF ledger_invD(1)[OF inv]] obtain q where "load_last_seq (lg_disk s) = Inr q"
    "number_of q = lg_seq s" "load_last_hash cr (lg_disk s) = Inr (lg_prev_hash s)"
    using ledger_invD(4)[OF inv] by auto
  then show "ledger_open cr (lg_config s) (lg_disk s) = Inr (s\<lparr>lg_indexes := []\<rparr>)"
    using assms ledger_invD(1)[OF inv] by (simp add: ledger_open_def)
next
  assume "\<not> is_ok (verify_snapshot cr (lc_agent_id (lg_config s)) d)"
  then show "ledger_open cr (lg_config s) d = Inl LedgerIntegrity"
    using assms by (auto simp: ledger_open_def split: sum.splits)
qed

theorem ledger_restart_resumes_witness:
  "ledger_open demo_crypto (lg_config demo_ledger) (lg_disk demo_ledger) = Inr (demo_ledger\<lparr>lg_indexes := []\<rparr>)"
  using ledger_restart_resumes[of demo_ledger demo_crypto] demo_inv
  by (simp add: demo_ledger_def demo_config_def)

subsection \<open>Tampering\<close>

lemma map_of_insort_key:
  "map_of (insort_key fst kv xs) = (if sorted (map fst xs) then (map_of xs)(fst kv \<mapsto> snd kv)
     else map_of (insort_key fst kv xs))"
proof (cases "sorted (map fst xs)")
  case True
  then show ?thesis by (induction xs) (auto simp: fun_upd_twist)
qed simp

lemma map_of_sort_key [simp]: "map_of (sort_key fst xs) = map_of xs"
proof (induction xs)
  case (Cons kv xs)
  have "sorted (map fst (sort_key fst xs))" by simp
  with Cons show ?case
    using map_of_insort_key[of kv "sort_key fst xs"] by (cases kv) simp
qed simp

lemma map_of_map_prod: "map_of (map (map_prod id f) d) k = map_option f (map_of d k)"
  by (induction d) auto

text \<open>Two signed texts that agree have the same fields.\<close>

lemma entry_bytes_fields:
  assumes "entry_bytes a = entry_bytes b"
  shows "map_option key_sorted (map_of a k) = map_option key_sorted (map_of b k)"
proof -
  from assms have "sort_key fst (map (map_prod id key_sorted) a) = sort_key fst (map (map_prod id key_sorted) b)"
    by (simp add: entry_bytes_def dumps_inject)
  then have "map_of (map (map_prod id key_sorted) a) = map_of (map (map_prod id key_sorted) b)"
    by (metis map_of_sort_key)
  then show ?thesis by (metis map_of_map_prod)
qed

lemma key_sorted_JStr: "key_sorted v = JStr s \<longleftrightarrow> v = JStr s"
  by (cases v) auto

lemma same_prev_hash:
  assumes "check_entry cr a p n (JObj e) = Inr e" "check_entry cr a' p' n' (JObj e') = Inr e'"
    and same: "entry_bytes (unsigned_entry e) = entry_bytes (unsigned_entry e')"
  shows "p = p'"
proof -
  have unsigned: "map_of (unsigned_entry x) ''prev_hash'' = map_of x ''prev_hash''" for x
    by (simp add: unsigned_entry_def)
  have "map_option key_sorted (map_of e ''prev_hash'') = map_option key_sorted (map_of e' ''prev_hash'')"
    using entry_bytes_fields[OF same, of "''prev_hash''"] by (simp add: unsigned)
  with check_entry_Inr(4)[OF assms(1)] check_entry_Inr(4)[OF assms(2)] show ?thesis
    by (auto simp: dict_get_def key_sorted_JStr split: option.splits)
qed



subsection \<open>Redaction\<close>

text \<open>
  Redaction: with \<open>redact_denied\<close> on, a denial leaves no trace of its metadata or
  label. Two denials that differ only there write the same entry, so they leave the
  same ledger, the same return value and the same disk.
\<close>

theorem ledger_redaction_hides:
  assumes "lc_redact_denied (lg_config s)" "is_deny c" "is_deny c'"
    and "call_action c = call_action c'" "call_result c = call_result c'"
    and "RESERVED_ENTRY_FIELDS \<inter> fst ` set (call_metadata c) = {}"
    and "RESERVED_ENTRY_FIELDS \<inter> fst ` set (call_metadata c') = {}"
  shows "ledger_log cr now out s c = ledger_log cr now out s c'"
proof -
  have "build_entry s1 c now = build_entry s1 c' now" if "rotate_if_needed cr s = Inr s1" for s1
    using assms that by (elim rotate_cases) (simp_all add: build_entry_def Let_def)
  then show ?thesis using assms(6,7) by (auto simp: ledger_log_def split: sum.split)
qed

lemma ledger_redaction_hides_witness:
  "ledger_log demo_crypto 5 AppendOk (demo_ledger\<lparr>lg_config := demo_config\<lparr>lc_redact_denied := True\<rparr>\<rparr>)
     (mk_call ''policy'' ''denied'' [(''rule'', JStr ''secret rule'')])
   = ledger_log demo_crypto 5 AppendOk (demo_ledger\<lparr>lg_config := demo_config\<lparr>lc_redact_denied := True\<rparr>\<rparr>)
     (mk_call ''policy'' ''denied'' [])"
  by (rule ledger_redaction_hides) (simp_all add: is_deny_def RESERVED_ENTRY_FIELDS_def)

subsection \<open>The index agrees with the verified lookup\<close>

lemma build_index_append:
  "build_index c f idx (xs @ ys) = bind_result (build_index c f idx xs) (\<lambda>i. build_index c f i ys)"
  by (induction c f idx xs rule: build_index.induct)
     (auto split: line.split json.split sum.split option.split)

lemma dict_get_index_add:
  "dict_get (index_add idx w e) v [] = (if v = w then dict_get idx v [] @ [e] else dict_get idx v [])"
  by (simp add: index_add_def dict_get_def)

text \<open>Building the index and scanning the verified entries meet the same entries and errors.\<close>

lemma build_index_scan:
  "filter is_content ls = entry_lines es \<Longrightarrow>
     map_result (\<lambda>i. dict_get i v []) (build_index c f idx ls) = scan_entries c f v (dict_get idx v []) es"
proof (induction ls arbitrary: es idx)
  case (Cons l ls)
  show ?case
  proof (cases l)
    case (Line w)
    with Cons.prems obtain e fs where "w = JObj e" "es = e # fs" "filter is_content ls = entry_lines fs" by auto
    with Line Cons.IH show ?thesis
      by (auto simp: dict_get_index_add split: sum.split option.split)
  qed (use Cons in auto)
qed simp

definition index_coherent :: "agent_ledger \<Rightarrow> bool" where
  "index_coherent s = list_all (\<lambda>((c, f), idx). build_index c f [] (all_lines (lg_disk s)) = Inr idx) (lg_indexes s)"

lemma update_nested_indexes_builds:
  "update_nested_indexes ix e = (ix', Inr ()) \<Longrightarrow>
     list_all2 (\<lambda>((c, f), i) ((c', f'), i'). c' = c \<and> f' = f \<and> build_index c f i [Line (JObj e)] = Inr i') ix ix'"
  by (induction ix e arbitrary: ix' rule: update_nested_indexes.induct)
     (auto simp: Let_def nested_value_def split: option.splits json.splits prod.splits)

lemma index_coherent_log:
  assumes inv: "ledger_inv cr s" and coh: "index_coherent s"
    and run: "ledger_log cr now AppendOk s c = (s', Inr e)"
  shows "index_coherent s'"
proof -
  obtain s1 where rot: "rotate_if_needed cr s = Inr s1"
    using run by (auto simp: ledger_log_def split: if_splits sum.splits)
  note keep = rotate_keeps[OF inv rot]
  define s2 where "s2 = committed cr s1 (build_entry s1 c now)"
  obtain ix res where upd: "update_nested_indexes (lg_indexes s2) (sign_entry cr (build_entry s1 c now)) = (ix, res)"
    by (cases "update_nested_indexes (lg_indexes s2) (sign_entry cr (build_entry s1 c now))")
  have "ledger_log cr now AppendOk s c =
     (case res of Inl x \<Rightarrow> (s2\<lparr>lg_indexes := ix\<rparr>, Inl x)
                | Inr _ \<Rightarrow> (s2\<lparr>lg_indexes := ix\<rparr>, Inr (sign_entry cr (build_entry s1 c now))))"
    using run rot upd
    by (cases res) (auto simp: ledger_log_def Let_def s2_def committed_def sign_entry_def split: if_splits)
  with run have e: "e = sign_entry cr (build_entry s1 c now)" and s': "s' = s2\<lparr>lg_indexes := ix\<rparr>"
    and ix: "update_nested_indexes (lg_indexes s1) e = (ix, Inr ())"
    using upd by (auto simp: s2_def committed_def split: sum.splits)
  have lines: "all_lines (lg_disk s2) = all_lines (lg_disk s) @ [Line (JObj e)]"
    by (simp add: s2_def committed_def all_lines_append_line keep(2) e)
  from update_nested_indexes_builds[OF ix] coh show ?thesis
    by (simp add: index_coherent_def lines s' keep(6) list_all_length list_all2_conv_all_nth
        build_index_append split_beta del: build_index.simps)
qed

text \<open>
  Lookups: as long as the cached indexes were built from this chain, the index lookup
  returns exactly what the lookup over the verified snapshot returns, errors included,
  and keeps the caches so; and every append that returns extends them consistently.
\<close>

theorem ledger_lookup_agrees:
  assumes inv: "ledger_inv cr s" and coh: "index_coherent s"
  shows "snd (find_entries_by_nested_value s c f v) = find_verified_entries_by_nested_value cr s c f v
    \<and> index_coherent (fst (find_entries_by_nested_value s c f v))
    \<and> (\<forall>now call s' e. ledger_log cr now AppendOk s call = (s', Inr e) \<longrightarrow> index_coherent s')"
proof (intro conjI allI impI)
  note v = ledger_invD(1)[OF inv] and build = build_index_scan[OF ledger_invD(2)[OF inv], of v c f "[]"]
  have cached: "build_index c f [] (all_lines (lg_disk s)) = Inr idx" if "map_of (lg_indexes s) (c, f) = Some idx" for idx
    using map_of_SomeD[OF that] coh by (auto simp: index_coherent_def list_all_iff)
  show "snd (find_entries_by_nested_value s c f v) = find_verified_entries_by_nested_value cr s c f v"
    using cached build v
    by (auto simp: find_entries_by_nested_value_def find_verified_entries_by_nested_value_def dict_get_def
        split: option.split sum.split)
  show "index_coherent (fst (find_entries_by_nested_value s c f v))"
    using coh by (auto simp: find_entries_by_nested_value_def index_coherent_def list_all_iff
        split: option.split sum.split dest!: subsetD[OF set_update_subset])
next
  fix now call s' e assume "ledger_log cr now AppendOk s call = (s', Inr e)"
  then show "index_coherent s'" by (rule index_coherent_log[OF inv coh])
qed

lemma ledger_lookup_agrees_witness:
  "snd (find_entries_by_nested_value demo_ledger ''m'' ''k'' ''x'') = Inr []"
  using ledger_lookup_agrees[OF demo_inv, of "''m''" "''k''" "''x''"]
  by (simp add: index_coherent_def demo_ledger_def find_entries_by_nested_value_def all_lines_def ledger_paths_def
      archive_paths_def dict_get_def)

end
