(* ===== verification/GuardsSpec.thy ===== *)
theory GuardsSpec
  imports Guards LedgerSpec
begin

text \<open>
  The properties of the egress and export guards over the signed ledger, and the codecs of
  labels and profiles.
\<close>

subsection \<open>Egress\<close>

text \<open>
  A guarded outbound call runs only if the profile permits the destination (egress
  enabled, and the destination listed unless the list is empty): whatever the ledger does,
  \<open>wrap\<close> returns the result of the call exactly for a permitted destination and nothing for
  any other; without a ledger it always returns.
\<close>

theorem egress_gated:
  assumes "egress_wrap log p ledger fn destination agent_id = (ledger', Inr out)"
  shows "out = (if egress_permitted p destination then Some (fn ()) else None)
    \<and> egress_wrap log p None fn destination agent_id = (None, Inr out)"
proof -
  from assms obtain allowed where c: "check_outbound log p ledger destination agent_id = (ledger', Inr allowed)"
    and out: "out = (if allowed then Some (fn ()) else None)"
    by (auto simp: egress_wrap_def split: prod.splits sum.splits)
  from check_outbound_decision[OF c] out show ?thesis by (simp add: egress_wrap_def)
qed

theorem egress_gated_witness:
  "egress_wrap (ledger_logger demo_crypto) secret_baseline None (\<lambda>_. 1 :: nat) ''cloud'' ''a'' = (None, Inr None)"
proof -
  let ?out = "if egress_permitted secret_baseline ''cloud'' then Some (1 :: nat) else None"
  have run: "egress_wrap (ledger_logger demo_crypto) secret_baseline None (\<lambda>_. 1 :: nat) ''cloud'' ''a'' = (None, Inr ?out)"
    by (simp add: egress_wrap_def)
  have "\<not> egress_permitted secret_baseline ''cloud''"
    by (simp add: egress_permitted_def secret_baseline_def default_profile_def)
  with egress_gated[OF run] run show ?thesis by simp
qed

subsection \<open>Export\<close>

text \<open>
  The export gate follows the dominance order: whatever may leave the deployment, so may
  everything it dominates and its join with anything else that may leave; nothing above the
  profile's ceiling or with a caveat outside it leaves; and every refusal has a named
  cause. The decision \<open>check_and_log\<close> returns is that of \<open>can_export\<close>.
\<close>

theorem export_respects_dominance:
  assumes "can_export p l" "label_le l' l" "can_export p k" "\<not> can_export p m"
    and "check_and_log log p ledger l agent_id = (ledger', Inr allowed)"
  shows "can_export p l' \<and> can_export p (label_join l k) \<and> allowed
    \<and> lbl_classification l \<le> pf_max_classification p \<and> lbl_caveats l \<subseteq> pf_allowed_caveats p
    \<and> export_deny_reason p m \<noteq> DeniedOtherwise"
proof -
  have "can_export p l'" "can_export p (label_join l k)"
    using assms(1-3) label_join_lub(3)[of l "export_ceiling p" k] label_le_trans[OF assms(2)]
    by (auto simp: can_export_def split: if_splits)
  with check_and_log_decision[OF assms(5)] export_deny_reason_named[OF assms(4)] assms(1) show ?thesis
    by (simp add: can_export_iff)
qed

definition demo_label :: "classification \<Rightarrow> label_envelope" where
  "demo_label c = \<lparr>lbl_classification = c, lbl_caveats = {}, lbl_originator = ''a'', lbl_ts = 1\<rparr>"

theorem export_respects_dominance_witness:
  "can_export cui_baseline (label_join (demo_label CUI) (demo_label UNCLASSIFIED))
   \<and> export_deny_reason cui_baseline (demo_label SECRET) \<noteq> DeniedOtherwise"
proof -
  have c: "can_export cui_baseline (demo_label CUI)" "can_export cui_baseline (demo_label UNCLASSIFIED)"
    "\<not> can_export cui_baseline (demo_label SECRET)"
    by (simp_all add: can_export_iff cui_baseline_def default_profile_def demo_label_def less_eq_classification_def)
  have "check_and_log (ledger_logger demo_crypto) cui_baseline None (demo_label CUI) ''a'' = (None, Inr True)"
    using c(1) by (simp add: check_and_log_def Let_def)
  from export_respects_dominance[OF c(1) label_le_refl c(2,3) this] show ?thesis by blast
qed

subsection \<open>The guards and the signed ledger\<close>

text \<open>
  C31. The guards cannot write to the signed ledger: both put \<open>agent_id\<close> into the metadata
  of their entry, \<open>AgentLedger.log\<close> reserves that field and raises \<open>ValueError\<close>, so with such
  a ledger every check, allowed or denied, ends in that exception and leaves no entry.
\<close>

theorem guards_raise_on_signed_ledger:
  "(\<exists>os. check_outbound (ledger_logger cr) p (Some (s, answers)) destination agent_id
        = (Some (s, os), Inl LedgerValueError))
   \<and> (\<exists>os. check_and_log (ledger_logger cr) p (Some (s, answers)) l agent_id = (Some (s, os), Inl LedgerValueError))"
proof -
  have log: "\<exists>os. log_opt (ledger_logger cr) (Some (s, answers)) c = (Some (s, os), Inl LedgerValueError)"
    if "''agent_id'' \<in> fst ` set (call_metadata c)" for c
  proof -
    have "RESERVED_ENTRY_FIELDS \<inter> fst ` set (call_metadata c) \<noteq> {}" using that by (auto simp: RESERVED_ENTRY_FIELDS_def)
    then show ?thesis by (auto simp: log_opt_def ledger_logger_def ledger_log_def Let_def split: prod.splits list.splits)
  qed
  have egress: "''agent_id'' \<in> fst ` set (call_metadata (egress_call p agent_id destination allowed why))" for allowed why
    by (simp add: egress_call_def)
  have export: "''agent_id'' \<in> fst ` set (call_metadata (export_call p agent_id l allowed))" for allowed
    by (simp add: export_call_def)
  have "\<exists>os. check_outbound (ledger_logger cr) p (Some (s, answers)) destination agent_id
        = (Some (s, os), Inl LedgerValueError)"
    using log[OF egress[of False "Some ''egress_disabled''"]] log[OF egress[of False "Some ''destination_not_allowlisted''"]]
      log[OF egress[of True None]]
    by (auto simp: check_outbound_def Let_def)
  moreover have "\<exists>os. check_and_log (ledger_logger cr) p (Some (s, answers)) l agent_id = (Some (s, os), Inl LedgerValueError)"
    using log[OF export[of "can_export p l"]] by (auto simp: check_and_log_def Let_def)
  ultimately show ?thesis ..
qed

subsection \<open>Codecs\<close>

text \<open>
  Labels and profiles survive their dictionaries: \<open>from_dict\<close> after \<open>to_dict\<close> gives back
  the value, for every label and profile (whose sets are finite).
\<close>

theorem label_profile_codec:
  assumes "finite (lbl_caveats l)"
    and "finite (pf_allowed_caveats p)" "finite (pf_allowed_destinations p)"
    "finite (pf_require_operator_approval_for p)" "finite (pf_allowed_apps p)" "finite (pf_blocked_apps p)"
  shows "label_from_dict (label_to_dict l) = Inr l \<and> profile_from_dict (profile_to_dict p) = Inr p"
  using assms by (simp add: label_from_dict_def label_to_dict_def profile_from_dict_def profile_to_dict_def opt_get_def Let_def)

theorem label_profile_codec_witness:
  "profile_from_dict (profile_to_dict secret_baseline) = Inr secret_baseline"
proof -
  have "finite (pf_allowed_caveats secret_baseline)" "finite (pf_allowed_destinations secret_baseline)"
    "finite (pf_require_operator_approval_for secret_baseline)" "finite (pf_allowed_apps secret_baseline)"
    "finite (pf_blocked_apps secret_baseline)" "finite (lbl_caveats (demo_label CUI))"
    by (simp_all add: secret_baseline_def default_profile_def demo_label_def)
  then show ?thesis using label_profile_codec by blast
qed

end
