(* ===== verification/Lifetime.thy ===== *)
theory Lifetime
  imports Prelude
begin

text \<open>
  \<open>enterprise/runtime_lifetime.py\<close>: the barrier that rejects new operations and
  drains the ones in flight before a runtime is unlocked. Threads are numbered; each
  critical section under the condition variable is one atomic step, so the steps of
  different threads interleave freely. \<open>depth\<close> is the thread-local nesting depth,
  \<open>leaving\<close> marks a thread between the two statements of the outermost \<open>finally\<close>,
  \<open>closing\<close> one that waits inside \<open>close_and_drain\<close> and \<open>closed\<close> one whose call
  returned.
\<close>

datatype lifetime_error = RuntimeClosed | CloseReentrant

record lifetime =
  accepting :: bool
  in_flight :: int
  revoked_event :: bool
  depth :: "nat \<Rightarrow> nat"
  leaving :: "nat \<Rightarrow> bool"
  closing :: "nat \<Rightarrow> bool"
  closed :: "nat \<Rightarrow> bool"

definition lifetime_init :: lifetime where
  "lifetime_init = \<lparr>accepting = True, in_flight = 0, revoked_event = False, depth = (\<lambda>_. 0),
     leaving = (\<lambda>_. False), closing = (\<lambda>_. False), closed = (\<lambda>_. False)\<rparr>"

text \<open>Entering \<open>operation()\<close>: nested entries only count, the outermost is admitted.\<close>

definition op_enter :: "lifetime \<Rightarrow> nat \<Rightarrow> lifetime_error + lifetime" where
  "op_enter s t =
     (if 0 < depth s t then Inr (s\<lparr>depth := (depth s)(t := depth s t + 1)\<rparr>)
      else if \<not> accepting s then Inl RuntimeClosed
      else Inr (s\<lparr>in_flight := in_flight s + 1, depth := (depth s)(t := 1)\<rparr>))"

text \<open>Leaving it: a nested exit counts down, the outermost resets the depth first.\<close>

definition op_exit :: "lifetime \<Rightarrow> nat \<Rightarrow> lifetime" where
  "op_exit s t =
     (if 1 < depth s t then s\<lparr>depth := (depth s)(t := depth s t - 1)\<rparr>
      else s\<lparr>depth := (depth s)(t := 0), leaving := (leaving s)(t := True)\<rparr>)"

definition op_release :: "lifetime \<Rightarrow> nat \<Rightarrow> lifetime" where
  "op_release s t = s\<lparr>in_flight := in_flight s - 1, leaving := (leaving s)(t := False)\<rparr>"

definition close_begin :: "lifetime \<Rightarrow> nat \<Rightarrow> lifetime_error + lifetime" where
  "close_begin s t =
     (if 0 < depth s t then Inl CloseReentrant
      else Inr (s\<lparr>accepting := False, revoked_event := True, closing := (closing s)(t := True)\<rparr>))"

definition close_return :: "lifetime \<Rightarrow> nat \<Rightarrow> lifetime" where
  "close_return s t = s\<lparr>closing := (closing s)(t := False), closed := (closed s)(t := True)\<rparr>"

text \<open>A thread is idle when it is in none of these sections.\<close>

definition idle :: "lifetime \<Rightarrow> nat \<Rightarrow> bool" where
  "idle s t \<longleftrightarrow> \<not> leaving s t \<and> \<not> closing s t"

inductive lifetime_step :: "lifetime \<Rightarrow> lifetime \<Rightarrow> bool" where
  enter: "idle s t \<Longrightarrow> op_enter s t = Inr s' \<Longrightarrow> lifetime_step s s'"
| exit: "idle s t \<Longrightarrow> 0 < depth s t \<Longrightarrow> lifetime_step s (op_exit s t)"
| release: "leaving s t \<Longrightarrow> lifetime_step s (op_release s t)"
| begin_close: "idle s t \<Longrightarrow> close_begin s t = Inr s' \<Longrightarrow> lifetime_step s s'"
| end_close: "closing s t \<Longrightarrow> in_flight s = 0 \<Longrightarrow> lifetime_step s (close_return s t)"

inductive lifetime_reach :: "lifetime \<Rightarrow> bool" where
  start: "lifetime_reach lifetime_init"
| step: "lifetime_reach s \<Longrightarrow> lifetime_step s s' \<Longrightarrow> lifetime_reach s'"

definition in_operation :: "lifetime \<Rightarrow> nat set" where
  "in_operation s = {t. 0 < depth s t \<or> leaving s t}"

text \<open>
  The counter is the number of threads inside an operation or about to release it; a
  leaving or closing thread has left every operation; and once a closer has
  returned the barrier is shut and empty.
\<close>

definition lifetime_inv :: "lifetime \<Rightarrow> bool" where
  "lifetime_inv s \<longleftrightarrow>
     finite (in_operation s) \<and> in_flight s = int (card (in_operation s))
     \<and> (\<forall>t. leaving s t \<or> closing s t \<longrightarrow> depth s t = 0)
     \<and> (\<forall>t. closing s t \<longrightarrow> \<not> leaving s t)
     \<and> ((\<exists>t. closing s t \<or> closed s t) \<longrightarrow> \<not> accepting s \<and> revoked_event s)
     \<and> ((\<exists>t. closed s t) \<longrightarrow> in_flight s = 0)"

lemma lifetime_inv_init: "lifetime_inv lifetime_init"
  by (simp add: lifetime_inv_def lifetime_init_def in_operation_def)

lemma in_operation_enter:
  "op_enter s t = Inr s' \<Longrightarrow> in_operation s' = insert t (in_operation s)"
  by (auto simp: op_enter_def in_operation_def split: if_splits)

lemma in_operation_exit: "0 < depth s t \<Longrightarrow> in_operation (op_exit s t) = in_operation s"
  by (auto simp: op_exit_def in_operation_def)

lemma in_operation_release:
  "depth s t = 0 \<Longrightarrow> in_operation (op_release s t) = in_operation s - {t}"
  by (auto simp: op_release_def in_operation_def)

lemma inv_enter:
  assumes inv: "lifetime_inv s" and "idle s t" and ok: "op_enter s t = Inr s'"
  shows "lifetime_inv s'"
proof (cases "0 < depth s t")
  case True
  then have "in_operation s' = in_operation s"
    using in_operation_enter[OF ok] by (auto simp: in_operation_def)
  with True inv ok \<open>idle s t\<close> show ?thesis
    by (auto simp: op_enter_def lifetime_inv_def idle_def)
next
  case False
  with ok have acc: "accepting s" and s': "s' = s\<lparr>in_flight := in_flight s + 1, depth := (depth s)(t := 1)\<rparr>"
    by (auto simp: op_enter_def split: if_splits)
  from False \<open>idle s t\<close> have "t \<notin> in_operation s"
    by (simp add: in_operation_def idle_def)
  with inv acc s' in_operation_enter[OF ok] \<open>idle s t\<close> show ?thesis
    by (auto simp: lifetime_inv_def idle_def)
qed

lemma inv_exit: "lifetime_inv s \<Longrightarrow> idle s t \<Longrightarrow> 0 < depth s t \<Longrightarrow> lifetime_inv (op_exit s t)"
  using in_operation_exit[of s t]
  by (auto simp: lifetime_inv_def op_exit_def idle_def split: if_splits)

lemma inv_release:
  assumes inv: "lifetime_inv s" and t: "leaving s t" shows "lifetime_inv (op_release s t)"
proof -
  from inv t have d: "depth s t = 0" by (auto simp: lifetime_inv_def)
  from t have "t \<in> in_operation s" by (simp add: in_operation_def)
  with inv have card: "card (in_operation s - {t}) = card (in_operation s) - 1" "0 < card (in_operation s)"
    by (auto simp: lifetime_inv_def card_gt_0_iff)
  then have "\<not> (\<exists>t. closed s t)" using inv by (auto simp: lifetime_inv_def)
  with inv t card show ?thesis
    unfolding lifetime_inv_def in_operation_release[OF d]
    by (auto simp: op_release_def of_nat_diff)
qed

lemma inv_begin_close: "lifetime_inv s \<Longrightarrow> idle s t \<Longrightarrow> close_begin s t = Inr s' \<Longrightarrow> lifetime_inv s'"
  by (auto simp: lifetime_inv_def close_begin_def in_operation_def idle_def split: if_splits)

lemma inv_end_close: "lifetime_inv s \<Longrightarrow> closing s t \<Longrightarrow> in_flight s = 0 \<Longrightarrow> lifetime_inv (close_return s t)"
  by (auto simp: lifetime_inv_def close_return_def in_operation_def)

lemma lifetime_step_inv: "lifetime_step s s' \<Longrightarrow> lifetime_inv s \<Longrightarrow> lifetime_inv s'"
  by (induction rule: lifetime_step.induct)
    (auto intro: inv_enter inv_exit inv_release inv_begin_close inv_end_close)

lemma lifetime_reach_inv: "lifetime_reach s \<Longrightarrow> lifetime_inv s"
  by (induction rule: lifetime_reach.induct) (auto intro: lifetime_inv_init lifetime_step_inv)

text \<open>\<open>governed_operation\<close>: a method runs inside the lifetime when there is one.\<close>

definition governed :: "lifetime option \<Rightarrow> nat \<Rightarrow> 's \<Rightarrow> ('s \<Rightarrow> 's \<times> 'r) \<Rightarrow> 's \<times> (lifetime_error + 'r)" where
  "governed lt t s method =
     (case lt of
        None \<Rightarrow> (case method s of (s', r) \<Rightarrow> (s', Inr r))
      | Some l \<Rightarrow>
          (case op_enter l t of
             Inl e \<Rightarrow> (s, Inl e)
           | Inr _ \<Rightarrow> (case method s of (s', r) \<Rightarrow> (s', Inr r))))"

lemma governed_closed: "\<not> accepting l \<Longrightarrow> depth l t = 0 \<Longrightarrow> governed (Some l) t s m = (s, Inl RuntimeClosed)"
  by (simp add: governed_def op_enter_def)

subsection \<open>Properties\<close>

text \<open>
  C30. When \<open>close_and_drain\<close> has returned in any thread, no thread is inside a
  governed operation, and every later attempt to enter one is refused, whatever the
  interleaving of entries, exits and closes that led there.
\<close>

theorem closed_runtime_is_quiet:
  assumes "lifetime_reach s" and "closed s t"
  shows "depth s u = 0 \<and> op_enter s u = Inl RuntimeClosed"
proof -
  from lifetime_reach_inv[OF assms(1)] assms(2)
  have "finite (in_operation s)" "card (in_operation s) = 0" "\<not> accepting s"
    by (auto simp: lifetime_inv_def)
  then have "in_operation s = {}" by simp
  then have "depth s u = 0" by (auto simp: in_operation_def)
  with \<open>\<not> accepting s\<close> show ?thesis by (simp add: op_enter_def)
qed

text \<open>One thread enters, a second starts to close, the first leaves, the closer returns.\<close>

definition demo_run :: "lifetime list" where
  "demo_run =
     (let s1 = lifetime_init\<lparr>in_flight := 1, depth := (\<lambda>_. 0)(0 := 1)\<rparr>;
          s2 = s1\<lparr>accepting := False, revoked_event := True, closing := (\<lambda>_. False)(1 := True)\<rparr>;
          s3 = op_exit s2 0; s4 = op_release s3 0 in
      [s1, s2, s3, s4, close_return s4 1])"

lemma demo_run_reach: "lifetime_reach (last demo_run)"
proof -
  let ?s1 = "lifetime_init\<lparr>in_flight := 1, depth := (\<lambda>_. 0)(0 := 1)\<rparr>"
  let ?s2 = "?s1\<lparr>accepting := False, revoked_event := True, closing := (\<lambda>_. False)(1 := True)\<rparr>"
  have "lifetime_step lifetime_init ?s1"
    by (rule enter[of _ 0]) (simp_all add: idle_def op_enter_def lifetime_init_def)
  with start have 1: "lifetime_reach ?s1" by (rule step)
  have "lifetime_step ?s1 ?s2"
    by (rule begin_close[of _ 1]) (simp_all add: idle_def close_begin_def lifetime_init_def)
  with 1 have 2: "lifetime_reach ?s2" by (rule step)
  have "lifetime_step ?s2 (op_exit ?s2 0)"
    by (rule exit) (simp_all add: idle_def lifetime_init_def)
  with 2 have 3: "lifetime_reach (op_exit ?s2 0)" by (rule step)
  have "lifetime_step (op_exit ?s2 0) (op_release (op_exit ?s2 0) 0)"
    by (rule release) (simp add: op_exit_def)
  with 3 have 4: "lifetime_reach (op_release (op_exit ?s2 0) 0)" by (rule step)
  have "lifetime_step (op_release (op_exit ?s2 0) 0) (close_return (op_release (op_exit ?s2 0) 0) 1)"
    by (rule end_close) (simp_all add: op_exit_def op_release_def)
  with 4 have "lifetime_reach (close_return (op_release (op_exit ?s2 0) 0) 1)" by (rule step)
  then show ?thesis by (simp add: demo_run_def Let_def)
qed

theorem closed_runtime_is_quiet_witness:
  "closed (last demo_run) 1 \<and> op_enter (last demo_run) 0 = Inl RuntimeClosed"
proof -
  have "closed (last demo_run) 1" by (simp add: demo_run_def Let_def close_return_def)
  with closed_runtime_is_quiet[OF demo_run_reach this, of 0] show ?thesis by simp
qed

end
