(* ===== verification/ApprovalAudit.thy ===== *)
theory ApprovalAudit
  imports LedgerChain
begin

text \<open>
  \<open>enterprise/approval_audit.py\<close>: the evidence of approval transitions. The digest
  envelope of an operator's decision proof (\<open>DecisionProofEnvelope\<close>), the typed
  transition event with its dictionary codec (\<open>ApprovalAuditEvent\<close>), and the sink
  that records events in a signed ledger (\<open>LedgerApprovalDecisionSink\<close>). What the
  queues rely on is the locale \<open>audit_sink\<close>, interpreted on the ledger sink.

  The numbers inside an envelope or event keep the JSON value they were read as, since
  the digest of \<open>5\<close> and of \<open>5.0\<close> differ. SHA-256 is the argument \<open>sha\<close>.
\<close>

datatype approval_error =
    ApprovalAuditError
  | AuditValueError
  | AuditTypeError
  | AuditLedgerError ledger_error
  | SqliteIntegrityError

fun is_number :: "json \<Rightarrow> bool" where
  "is_number (JBool _) = True"
| "is_number (JInt _) = True"
| "is_number (JFloat _) = True"
| "is_number _ = False"

definition canonical_digest :: "(bytes \<Rightarrow> pystr) \<Rightarrow> json_object \<Rightarrow> pystr" where
  "canonical_digest sha v = sha (canonical_bytes (JObj v))"

definition canonical_context_digest :: "(bytes \<Rightarrow> pystr) \<Rightarrow> json_object \<Rightarrow> pystr" where
  "canonical_context_digest sha context = sha (canonical_bytes (JObj context))"

definition is_digest :: "pystr \<Rightarrow> bool" where
  "is_digest s \<longleftrightarrow> length s = 64 \<and> all_hex s"

subsection \<open>Decision proofs\<close>

record proof_verification =
  pv_verifier_id :: pystr
  pv_key_id :: pystr
  pv_nonce :: pystr
  pv_verified_at :: pyfloat
  pv_operator_subject :: pystr

record proof_envelope =
  pe_verifier_id :: pystr
  pe_key_id :: pystr
  pe_nonce :: pystr
  pe_verified_at :: json
  pe_operator_subject :: pystr
  pe_proof_digest :: pystr
  pe_binding_digest :: pystr

definition bounded_text :: "pystr \<Rightarrow> bool" where
  "bounded_text s \<longleftrightarrow> s \<noteq> [] \<and> length s \<le> 256"

text \<open>\<open>DecisionProofEnvelope.__post_init__\<close>.\<close>

definition envelope_post_init :: "proof_envelope \<Rightarrow> approval_error + proof_envelope" where
  "envelope_post_init e =
     (if \<not> (bounded_text (pe_verifier_id e) \<and> bounded_text (pe_key_id e) \<and> bounded_text (pe_nonce e)
            \<and> bounded_text (pe_operator_subject e))
        then Inl AuditValueError
      else if \<not> is_number (pe_verified_at e) then Inl AuditValueError
      else if \<not> (is_digest (pe_proof_digest e) \<and> is_digest (pe_binding_digest e)) then Inl AuditValueError
      else Inr e)"

record decision_binding =
  db_approval_id :: pystr
  db_agent_id :: pystr
  db_action :: pystr
  db_context_digest :: pystr
  db_decision :: pystr
  db_operator_id :: pystr

definition binding_dict ::
    "decision_binding \<Rightarrow> pystr \<Rightarrow> pystr \<Rightarrow> pystr \<Rightarrow> json \<Rightarrow> pystr \<Rightarrow> pystr \<Rightarrow> json_object" where
  "binding_dict b verifier_id key_id nonce verified_at operator_subject proof_digest =
     [(''approval_id'', JStr (db_approval_id b)), (''agent_id'', JStr (db_agent_id b)),
      (''action'', JStr (db_action b)), (''context_digest'', JStr (db_context_digest b)),
      (''decision'', JStr (db_decision b)), (''operator_id'', JStr (db_operator_id b)),
      (''verifier_id'', JStr verifier_id), (''key_id'', JStr key_id), (''nonce'', JStr nonce),
      (''verified_at'', verified_at), (''operator_subject'', JStr operator_subject),
      (''proof_digest'', JStr proof_digest)]"

text \<open>
  \<open>DecisionProofEnvelope.create\<close>. An infinite verification time fails the 300 s
  window; NaN passes that comparison and is refused by \<open>allow_nan=False\<close>.
\<close>

definition envelope_create ::
    "(bytes \<Rightarrow> pystr) \<Rightarrow> proof_verification \<Rightarrow> bytes \<Rightarrow> decision_binding \<Rightarrow> time
     \<Rightarrow> approval_error + proof_envelope" where
  "envelope_create sha v proof b now =
     (let proof_digest = sha proof in
      if \<not> (bounded_text (pv_verifier_id v) \<and> bounded_text (pv_key_id v) \<and> bounded_text (pv_nonce v)
            \<and> bounded_text (pv_operator_subject v))
        then Inl ApprovalAuditError
      else (case pv_verified_at v of
          PosInf \<Rightarrow> Inl ApprovalAuditError
        | NegInf \<Rightarrow> Inl ApprovalAuditError
        | NaN \<Rightarrow> Inl AuditValueError
        | Finite t \<Rightarrow>
            if 300 < abs (now - t) then Inl ApprovalAuditError
            else envelope_post_init
              \<lparr>pe_verifier_id = pv_verifier_id v, pe_key_id = pv_key_id v, pe_nonce = pv_nonce v,
               pe_verified_at = JFloat t, pe_operator_subject = pv_operator_subject v,
               pe_proof_digest = proof_digest,
               pe_binding_digest = canonical_digest sha
                 (binding_dict b (pv_verifier_id v) (pv_key_id v) (pv_nonce v) (JFloat t)
                    (pv_operator_subject v) proof_digest)\<rparr>))"

definition verifies_binding :: "(bytes \<Rightarrow> pystr) \<Rightarrow> proof_envelope \<Rightarrow> decision_binding \<Rightarrow> bool" where
  "verifies_binding sha e b \<longleftrightarrow>
     canonical_digest sha
       (binding_dict b (pe_verifier_id e) (pe_key_id e) (pe_nonce e) (pe_verified_at e)
          (pe_operator_subject e) (pe_proof_digest e))
     = pe_binding_digest e"

subsection \<open>Transition events\<close>

record audit_event =
  ev_event_id :: pystr
  ev_approval_id :: pystr
  ev_transition :: pystr
  ev_agent_id :: pystr
  ev_action :: pystr
  ev_operator_id :: pystr
  ev_context_digest :: pystr
  ev_transition_ts :: json
  ev_decision_proof :: "proof_envelope option"

definition TRANSITIONS :: "pystr list" where
  "TRANSITIONS = [''pending'', ''approved'', ''denied'', ''consumed'', ''expired'']"

text \<open>\<open>ApprovalAuditEvent.__post_init__\<close>.\<close>

definition event_post_init :: "audit_event \<Rightarrow> approval_error + audit_event" where
  "event_post_init e =
     (if 1024 < length (ev_event_id e) \<or> 1024 < length (ev_approval_id e) \<or> 1024 < length (ev_agent_id e)
         \<or> 1024 < length (ev_action e) \<or> 1024 < length (ev_operator_id e) then Inl AuditValueError
      else if ev_event_id e = [] \<or> ev_approval_id e = [] \<or> ev_agent_id e = [] \<or> ev_action e = []
        then Inl AuditValueError
      else if ev_transition e \<notin> set TRANSITIONS then Inl AuditValueError
      else if \<not> is_digest (ev_context_digest e) then Inl AuditValueError
      else if \<not> is_number (ev_transition_ts e) then Inl AuditValueError
      else Inr e)"

definition envelope_to_dict :: "proof_envelope \<Rightarrow> json_object" where
  "envelope_to_dict e =
     [(''verifier_id'', JStr (pe_verifier_id e)), (''key_id'', JStr (pe_key_id e)),
      (''nonce'', JStr (pe_nonce e)), (''verified_at'', pe_verified_at e),
      (''operator_subject'', JStr (pe_operator_subject e)),
      (''proof_digest'', JStr (pe_proof_digest e)), (''binding_digest'', JStr (pe_binding_digest e))]"

definition event_to_dict :: "audit_event \<Rightarrow> json_object" where
  "event_to_dict e =
     [(''event_id'', JStr (ev_event_id e)), (''approval_id'', JStr (ev_approval_id e)),
      (''transition'', JStr (ev_transition e)), (''agent_id'', JStr (ev_agent_id e)),
      (''action'', JStr (ev_action e)), (''operator_id'', JStr (ev_operator_id e)),
      (''context_digest'', JStr (ev_context_digest e)), (''transition_ts'', ev_transition_ts e),
      (''decision_proof'', case ev_decision_proof e of None \<Rightarrow> JNull | Some p \<Rightarrow> JObj (envelope_to_dict p))]"

definition approval_event_digest :: "(bytes \<Rightarrow> pystr) \<Rightarrow> audit_event \<Rightarrow> pystr" where
  "approval_event_digest sha e = canonical_digest sha (event_to_dict e)"

text \<open>A field that must hold a string: the constructor refuses anything else.\<close>

definition text_field :: "json_object \<Rightarrow> pystr \<Rightarrow> approval_error + pystr" where
  "text_field d k = (case map_of d k of Some (JStr s) \<Rightarrow> Inr s | _ \<Rightarrow> Inl AuditValueError)"

definition ENVELOPE_FIELDS :: "pystr list" where
  "ENVELOPE_FIELDS = [''verifier_id'', ''key_id'', ''nonce'', ''verified_at'', ''operator_subject'',
     ''proof_digest'', ''binding_digest'']"

text \<open>\<open>DecisionProofEnvelope(**proof)\<close>: missing or unexpected names are a \<open>TypeError\<close>.\<close>

definition envelope_of_dict :: "json_object \<Rightarrow> approval_error + proof_envelope" where
  "envelope_of_dict d =
     (if set (map fst d) \<noteq> set ENVELOPE_FIELDS then Inl AuditTypeError
      else bind_result (text_field d ''verifier_id'') (\<lambda>verifier.
           bind_result (text_field d ''key_id'') (\<lambda>key.
           bind_result (text_field d ''nonce'') (\<lambda>nonce.
           bind_result (text_field d ''operator_subject'') (\<lambda>subject.
           bind_result (text_field d ''proof_digest'') (\<lambda>pdig.
           bind_result (text_field d ''binding_digest'') (\<lambda>bdig.
             envelope_post_init
               \<lparr>pe_verifier_id = verifier, pe_key_id = key, pe_nonce = nonce,
                pe_verified_at = dict_get d ''verified_at'' JNull, pe_operator_subject = subject,
                pe_proof_digest = pdig, pe_binding_digest = bdig\<rparr>)))))))"

definition EVENT_FIELDS :: "pystr list" where
  "EVENT_FIELDS = [''event_id'', ''approval_id'', ''transition'', ''agent_id'', ''action'',
     ''operator_id'', ''context_digest'', ''transition_ts'', ''decision_proof'']"

text \<open>
  \<open>ApprovalAuditEvent.from_dict\<close>. A transition that is a list or an object is not
  hashable, so the membership test raises \<open>TypeError\<close>; it is reached only after the
  identifiers passed.
\<close>

definition transition_field :: "json_object \<Rightarrow> approval_error + pystr" where
  "transition_field d =
     (case map_of d ''transition'' of
        Some (JStr s) \<Rightarrow> Inr s
      | Some (JArr _) \<Rightarrow> Inl AuditTypeError
      | Some (JObj _) \<Rightarrow> Inl AuditTypeError
      | _ \<Rightarrow> Inl AuditValueError)"

definition event_from_dict :: "json \<Rightarrow> approval_error + audit_event" where
  "event_from_dict v =
     (case v of
        JObj d \<Rightarrow>
          if set (map fst d) \<noteq> set EVENT_FIELDS then Inl AuditValueError
          else bind_result
                 (case map_of d ''decision_proof'' of
                    Some (JObj p) \<Rightarrow> map_result Some (envelope_of_dict p)
                  | Some JNull \<Rightarrow> Inr None
                  | _ \<Rightarrow> Inl AuditTypeError) (\<lambda>proof.
               bind_result (text_field d ''event_id'') (\<lambda>event_id.
               bind_result (text_field d ''approval_id'') (\<lambda>approval_id.
               bind_result (text_field d ''agent_id'') (\<lambda>agent_id.
               bind_result (text_field d ''action'') (\<lambda>action.
               bind_result (text_field d ''operator_id'') (\<lambda>operator_id.
               if 1024 < length event_id \<or> 1024 < length approval_id \<or> 1024 < length agent_id
                  \<or> 1024 < length action \<or> 1024 < length operator_id
                  \<or> event_id = [] \<or> approval_id = [] \<or> agent_id = [] \<or> action = []
                 then Inl AuditValueError
               else bind_result (transition_field d) (\<lambda>transition.
               bind_result (text_field d ''context_digest'') (\<lambda>context_digest.
                 event_post_init
                   \<lparr>ev_event_id = event_id, ev_approval_id = approval_id, ev_transition = transition,
                    ev_agent_id = agent_id, ev_action = action, ev_operator_id = operator_id,
                    ev_context_digest = context_digest,
                    ev_transition_ts = dict_get d ''transition_ts'' JNull,
                    ev_decision_proof = proof\<rparr>))))))))
      | _ \<Rightarrow> Inl AuditTypeError)"

subsection \<open>The ledger sink\<close>

definition sink_receipt :: "(bytes \<Rightarrow> pystr) \<Rightarrow> json_object \<Rightarrow> audit_event \<Rightarrow> json_object" where
  "sink_receipt sha entry e =
     [(''event_id'', JStr (ev_event_id e)), (''approval_id'', JStr (ev_approval_id e)),
      (''transition'', JStr (ev_transition e)), (''agent_id'', JStr (ev_agent_id e)),
      (''action'', JStr (ev_action e)), (''operator_id'', JStr (ev_operator_id e)),
      (''context_digest'', JStr (ev_context_digest e)),
      (''event_digest'', JStr (approval_event_digest sha e)),
      (''ledger_seq'', dict_get entry ''seq'' JNull), (''ledger_sig'', dict_get entry ''sig'' JNull)]"

definition is_int :: "json option \<Rightarrow> bool" where
  "is_int v = (case v of Some (JInt _) \<Rightarrow> True | Some (JBool _) \<Rightarrow> True | _ \<Rightarrow> False)"

definition is_str :: "json option \<Rightarrow> bool" where
  "is_str v = (case v of Some (JStr _) \<Rightarrow> True | _ \<Rightarrow> False)"

definition sink_existing ::
    "crypto \<Rightarrow> agent_ledger \<Rightarrow> audit_event \<Rightarrow> approval_error + json_object option" where
  "sink_existing cr s e =
     (case find_verified_entries_by_nested_value cr s ''approval_audit'' ''event_id'' (ev_event_id e) of
        Inl x \<Rightarrow> Inl (AuditLedgerError x)
      | Inr [] \<Rightarrow> Inr None
      | Inr (m # ms) \<Rightarrow>
          (if ms \<noteq> []
              \<or> \<not> (case map_of m ''approval_audit'' of
                     Some (JObj metadata) \<Rightarrow> py_eq (JObj metadata) (JObj (event_to_dict e)) | _ \<Rightarrow> False)
              \<or> \<not> is_int (map_of m ''seq'') \<or> \<not> is_str (map_of m ''sig'')
           then Inl ApprovalAuditError else Inr (Some m)))"

definition transition_call :: "audit_event \<Rightarrow> log_call" where
  "transition_call e =
     mk_call ''operator_approval_transition'' ''recorded'' [(''approval_audit'', JObj (event_to_dict e))]"

definition sink_record ::
    "crypto \<Rightarrow> ledger_world \<Rightarrow> audit_event \<Rightarrow> ledger_world \<times> (approval_error + json_object)" where
  "sink_record cr w e =
     (case sink_existing cr (fst w) e of
        Inl x \<Rightarrow> (w, Inl x)
      | Inr (Some entry) \<Rightarrow> (w, Inr (sink_receipt (sha256 cr) entry e))
      | Inr None \<Rightarrow>
          (case ledger_logger cr w (transition_call e) of
             (w', Inl x) \<Rightarrow> (w', Inl (AuditLedgerError x))
           | (w', Inr entry) \<Rightarrow> (w', Inr (sink_receipt (sha256 cr) entry e))))"

definition sink_verify_receipt :: "crypto \<Rightarrow> ledger_world \<Rightarrow> audit_event \<Rightarrow> json_object \<Rightarrow> bool" where
  "sink_verify_receipt cr w e receipt =
     (case sink_existing cr (fst w) e of
        Inr (Some entry) \<Rightarrow> py_eq (JObj (sink_receipt (sha256 cr) entry e)) (JObj receipt)
      | _ \<Rightarrow> False)"

subsection \<open>The interface of the queues\<close>

text \<open>
  What a queue relies on: a recorded event's receipt verifies, keeps verifying whatever
  is recorded later, and recording the event again answers without a new record.
\<close>

locale audit_sink =
  fixes put :: "'s \<Rightarrow> audit_event \<Rightarrow> 's \<times> (approval_error + json_object)"
    and verify :: "'s \<Rightarrow> audit_event \<Rightarrow> json_object \<Rightarrow> bool"
    and sound :: "'s \<Rightarrow> bool"
  assumes put_sound: "sound s \<Longrightarrow> put s e = (s', x) \<Longrightarrow> sound s'"
    and put_verifies: "sound s \<Longrightarrow> put s e = (s', Inr r) \<Longrightarrow> verify s' e r"
    and put_keeps: "sound s \<Longrightarrow> verify s e r \<Longrightarrow> put s e' = (s', x) \<Longrightarrow> verify s' e r"
    and put_again: "sound s \<Longrightarrow> verify s e r \<Longrightarrow> \<exists>r'. put s e = (s, Inr r') \<and> verify s e r'"
begin

text \<open>Delivering a list of events, in order.\<close>

fun put_all :: "'s \<Rightarrow> audit_event list \<Rightarrow> 's" where
  "put_all s [] = s"
| "put_all s (e # es) = put_all (fst (put s e)) es"

lemma put_all_foldl: "put_all s es = foldl (\<lambda>s e. fst (put s e)) s es"
  by (induction es arbitrary: s) simp_all

lemma put_all_keeps: "sound s \<Longrightarrow> verify s e r \<Longrightarrow> sound (put_all s es) \<and> verify (put_all s es) e r"
proof (induction es arbitrary: s)
  case (Cons e' es)
  obtain s' x where step: "put s e' = (s', x)" by (cases "put s e'")
  with Cons put_sound[OF Cons.prems(1) step] put_keeps[OF Cons.prems step] show ?case by simp
qed simp

lemma retry_is_idempotent:
  assumes "sound s" "put s e = (s', Inr r)"
  shows "\<exists>r'. put (put_all s' es) e = (put_all s' es, Inr r')"
  using put_all_keeps[OF put_sound[OF assms] put_verifies[OF assms]] put_again by blast

end

subsection \<open>Lookups in a growing chain\<close>

lemma scan_entries_append:
  "scan_entries c f v m (es @ fs) = bind_result (scan_entries c f v m es) (\<lambda>m'. scan_entries c f v m' fs)"
  by (induction c f v m es rule: scan_entries.induct) (auto split: sum.split option.split)

lemma find_verified_open:
  assumes "ledger_inv cr s" "c \<noteq> []" "f \<noteq> []" "v \<noteq> []"
  shows "find_verified_entries_by_nested_value cr s c f v = scan_entries c f v [] (chain_entries (lg_disk s))"
  using assms by (simp add: find_verified_entries_by_nested_value_def ledger_invD(1))

text \<open>What a recorded transition looks like on disk.\<close>

definition transition_entry :: "audit_event \<Rightarrow> json_object \<Rightarrow> bool" where
  "transition_entry e entry \<longleftrightarrow>
     map_of entry ''approval_audit'' = Some (JObj (event_to_dict e))
     \<and> is_int (map_of entry ''seq'') \<and> is_str (map_of entry ''sig'')"

lemma transition_entry_nested:
  "transition_entry e entry \<Longrightarrow> nested_value entry ''approval_audit'' ''event_id'' = Inr (Some (ev_event_id e))"
  by (simp add: transition_entry_def nested_value_def event_to_dict_def)

lemma transition_entry_signed:
  "transition_entry e (sign_entry cr (build_entry s (transition_call e) now))"
proof -
  have fresh: "RESERVED_ENTRY_FIELDS \<inter> fst ` set (call_metadata (transition_call e)) = {}"
    by (simp add: transition_call_def RESERVED_ENTRY_FIELDS_def)
  have "map_of (build_entry s (transition_call e) now) ''approval_audit'' = Some (JObj (event_to_dict e))"
    by (simp add: build_entry_def transition_call_def is_deny_def dict_update_def)
  with build_entry_reserved(1)[OF fresh, of s now] show ?thesis
    by (simp add: transition_entry_def sign_entry_def is_int_def is_str_def)
qed

lemma transition_logged:
  assumes inv: "world_inv cr w" and run: "ledger_logger cr w (transition_call e) = (w', r)"
  shows "(\<exists>entry. chain_entries (lg_disk (fst w')) = chain_entries (lg_disk (fst w)) @ [entry]
            \<and> transition_entry e entry \<and> (\<forall>a. r = Inr a \<longrightarrow> a = entry))
    \<or> (chain_entries (lg_disk (fst w')) = chain_entries (lg_disk (fst w)) \<and> (\<exists>x. r = Inl x))"
proof -
  obtain s os s' os' where w: "w = (s, os)" "w' = (s', os')" by (cases w, cases w') auto
  obtain now out where step: "ledger_log cr now out s (transition_call e) = (s', r)" and out: "\<And>a. out \<noteq> AppendLost a"
    using run by (auto simp: ledger_logger_def w split: list.splits prod.splits option.splits)
  from inv have i: "ledger_inv cr s" "signs_ok cr" by (simp_all add: world_inv_def w)
  from i step out show ?thesis
    by (cases rule: ledger_log_cases) (auto simp: w transition_entry_signed)
qed

text \<open>\<open>existing\<close> after one more transition entry.\<close>

lemma existing_scan:
  assumes "world_inv cr w" "ev_event_id e \<noteq> []"
  shows "sink_existing cr (fst w) e =
    (case scan_entries ''approval_audit'' ''event_id'' (ev_event_id e) [] (chain_entries (lg_disk (fst w))) of
        Inl x \<Rightarrow> Inl (AuditLedgerError x)
      | Inr [] \<Rightarrow> Inr None
      | Inr (m # ms) \<Rightarrow>
          (if ms \<noteq> []
              \<or> \<not> (case map_of m ''approval_audit'' of
                     Some (JObj metadata) \<Rightarrow> py_eq (JObj metadata) (JObj (event_to_dict e)) | _ \<Rightarrow> False)
              \<or> \<not> is_int (map_of m ''seq'') \<or> \<not> is_str (map_of m ''sig'')
           then Inl ApprovalAuditError else Inr (Some m)))"
  using assms by (simp add: sink_existing_def world_inv_def find_verified_open)

lemma existing_empty_id [simp]:
  "ev_event_id e = [] \<Longrightarrow> sink_existing cr s e = Inl (AuditLedgerError LedgerTypeError)"
  by (simp add: sink_existing_def find_verified_entries_by_nested_value_def)

lemma existing_nonempty_id: "sink_existing cr s e = Inr r \<Longrightarrow> ev_event_id e \<noteq> []"
  by (auto simp: sink_existing_def find_verified_entries_by_nested_value_def)

lemma existing_append:
  assumes inv: "world_inv cr w" "world_inv cr w'" and entry: "transition_entry e' entry"
    and ext: "chain_entries (lg_disk (fst w')) = chain_entries (lg_disk (fst w)) @ [entry]"
  shows "ev_event_id e' \<noteq> ev_event_id e \<Longrightarrow> sink_existing cr (fst w') e = sink_existing cr (fst w) e"
    "sink_existing cr (fst w) e' = Inr None \<Longrightarrow> sink_existing cr (fst w') e' = Inr (Some entry)"
proof -
  assume "ev_event_id e' \<noteq> ev_event_id e"
  then show "sink_existing cr (fst w') e = sink_existing cr (fst w) e"
  proof (cases "ev_event_id e = []")
    case True
    then show ?thesis by simp
  next
    case False
    with \<open>ev_event_id e' \<noteq> ev_event_id e\<close> show ?thesis
      by (simp add: existing_scan inv ext scan_entries_append transition_entry_nested[OF entry] bind_result_def
          split: sum.split)
  qed
next
  assume none: "sink_existing cr (fst w) e' = Inr None"
  note id = existing_nonempty_id[OF none]
  with none have "scan_entries ''approval_audit'' ''event_id'' (ev_event_id e') [] (chain_entries (lg_disk (fst w))) = Inr []"
    by (auto simp: existing_scan inv split: sum.splits list.splits if_splits)
  with id show "sink_existing cr (fst w') e' = Inr (Some entry)"
    using entry by (simp add: existing_scan inv ext scan_entries_append transition_entry_nested[OF entry])
      (simp add: transition_entry_def)
qed

lemma sink_record_cases:
  assumes inv: "world_inv cr w" and run: "sink_record cr w e = (w', r)"
  obtains (present) entry where "w' = w" "sink_existing cr (fst w) e = Inr (Some entry)"
      "r = Inr (sink_receipt (sha256 cr) entry e)"
  | (unchanged) x where "r = Inl x" "sink_existing cr (fst w') = sink_existing cr (fst w)" "world_inv cr w'"
  | (added) entry where "sink_existing cr (fst w) e = Inr None" "world_inv cr w'" "transition_entry e entry"
      "chain_entries (lg_disk (fst w')) = chain_entries (lg_disk (fst w)) @ [entry]"
      "\<forall>a. r = Inr a \<longrightarrow> a = sink_receipt (sha256 cr) entry e"
proof (cases "sink_existing cr (fst w) e")
  case (Inl x)
  with run inv show ?thesis by (intro unchanged[of x]) (auto simp: sink_record_def)
next
  case (Inr found)
  show ?thesis
  proof (cases found)
    case (Some entry)
    with run Inr show ?thesis by (intro present[of entry]) (auto simp: sink_record_def)
  next
    case None
    obtain a where log: "ledger_logger cr w (transition_call e) = (w', a)"
      and r: "r = (case a of Inl x \<Rightarrow> Inl (AuditLedgerError x) | Inr entry \<Rightarrow> Inr (sink_receipt (sha256 cr) entry e))"
      using run Inr None by (auto simp: sink_record_def split: prod.splits sum.splits)
    note inv' = ledger_logger_step(1)[OF inv log]
    from transition_logged[OF inv log] show ?thesis
    proof
      assume "\<exists>entry. chain_entries (lg_disk (fst w')) = chain_entries (lg_disk (fst w)) @ [entry]
            \<and> transition_entry e entry \<and> (\<forall>b. a = Inr b \<longrightarrow> b = entry)"
      with Inr None inv' r show ?thesis by (auto intro: added split: sum.splits)
    next
      assume same: "chain_entries (lg_disk (fst w')) = chain_entries (lg_disk (fst w)) \<and> (\<exists>x. a = Inl x)"
      have "sink_existing cr (fst w') e1 = sink_existing cr (fst w) e1" for e1
        using same inv inv' by (cases "ev_event_id e1 = []")
          (simp_all add: existing_scan)
      then have "sink_existing cr (fst w') = sink_existing cr (fst w)" by (rule ext)
      with same r inv' show ?thesis by (auto intro: unchanged)
    qed
  qed
qed

interpretation ledger_sink: audit_sink "sink_record cr" "sink_verify_receipt cr" "world_inv cr" for cr
proof (unfold_locales)
  show "world_inv cr w'" if "world_inv cr w" "sink_record cr w e = (w', r)" for w e w' r
    using that(1,2) by (cases rule: sink_record_cases) (use that in auto)
  show "sink_verify_receipt cr w' e r" if "world_inv cr w" "sink_record cr w e = (w', Inr r)" for w e w' r
    using that
  proof (cases rule: sink_record_cases)
    case (added entry)
    from existing_append(2)[OF that(1) added(2,3,4) added(1)] added(5) show ?thesis
      by (simp add: sink_verify_receipt_def)
  qed (simp_all add: sink_verify_receipt_def)
  show "sink_verify_receipt cr w' e r"
    if "world_inv cr w" "sink_verify_receipt cr w e r" "sink_record cr w e' = (w', x)" for w e r e' w' x
    using that(1,3)
  proof (cases rule: sink_record_cases)
    case (added entry)
    have "ev_event_id e' \<noteq> ev_event_id e"
    proof
      assume "ev_event_id e' = ev_event_id e"
      with added(1) that(1,2) existing_nonempty_id[OF added(1)] show False
        by (auto simp: sink_verify_receipt_def existing_scan split: sum.splits list.splits if_splits)
    qed
    with existing_append(1)[OF that(1) added(2,3,4)] that(2) show ?thesis
      by (simp add: sink_verify_receipt_def)
  qed (use that(2) in \<open>simp_all add: sink_verify_receipt_def\<close>)
  show "\<exists>r'. sink_record cr w e = (w, Inr r') \<and> sink_verify_receipt cr w e r'"
    if "world_inv cr w" "sink_verify_receipt cr w e r" for w e r
    using that by (auto simp: sink_verify_receipt_def sink_record_def split: sum.splits option.splits)
qed

end
