(* ===== verification/ApprovalSpec.thy ===== *)
theory ApprovalSpec
  imports ApprovalAudit LedgerSpec
begin

text \<open>
  The properties of the approval evidence: the event codec, the binding of a decision
  proof, and the ledger sink's receipts.
\<close>

subsection \<open>The event codec\<close>

definition event_valid :: "audit_event \<Rightarrow> bool" where
  "event_valid e \<longleftrightarrow> event_post_init e = Inr e
     \<and> (case ev_decision_proof e of None \<Rightarrow> True | Some p \<Rightarrow> envelope_post_init p = Inr p)"

lemma envelope_of_to_dict: "envelope_of_dict (envelope_to_dict p) = envelope_post_init p"
  by (cases p) (auto simp: envelope_of_dict_def envelope_to_dict_def ENVELOPE_FIELDS_def text_field_def dict_get_def)

lemma post_init_same: "event_post_init e = Inr e' \<Longrightarrow> e' = e" "envelope_post_init p = Inr p' \<Longrightarrow> p' = p"
  by (auto simp: event_post_init_def envelope_post_init_def split: if_splits)

lemma event_from_to_dict: "event_from_dict (JObj (event_to_dict e)) = Inr e \<longleftrightarrow> event_valid e"
proof -
  have fields: "set (map fst (event_to_dict e)) = set EVENT_FIELDS"
    by (simp add: event_to_dict_def EVENT_FIELDS_def)
  have read: "event_from_dict (JObj (event_to_dict e)) =
    bind_result (case ev_decision_proof e of None \<Rightarrow> Inr None | Some p \<Rightarrow> map_result Some (envelope_post_init p))
      (\<lambda>proof. event_post_init (e\<lparr>ev_decision_proof := proof\<rparr>))"
    unfolding event_from_dict_def json.case fields
    by (cases "ev_decision_proof e")
       (auto simp: event_to_dict_def text_field_def transition_field_def dict_get_def envelope_of_to_dict
         bind_result_def event_post_init_def split: sum.split)
  show ?thesis
  proof (cases "ev_decision_proof e")
    case None
    then have "event_post_init (e\<lparr>ev_decision_proof := None\<rparr>) = event_post_init e" by (cases e) simp
    with None show ?thesis by (simp add: read event_valid_def)
  next
    case (Some p)
    then have "event_post_init (e\<lparr>ev_decision_proof := Some p\<rparr>) = event_post_init e" by (cases e) simp
    with Some show ?thesis
      by (cases "envelope_post_init p") (auto simp: read event_valid_def dest: post_init_same)
  qed
qed

lemma event_from_dict_valid:
  assumes "event_from_dict v = Inr e'" shows "event_valid e'"
proof -
  from assms obtain d where "v = JObj d" by (cases v) (auto simp: event_from_dict_def)
  with assms obtain p e0 where "event_post_init e0 = Inr e'" "ev_decision_proof e0 = p"
    and p: "(case map_of d ''decision_proof'' of
                  Some (JObj q) \<Rightarrow> map_result Some (envelope_of_dict q)
                | Some JNull \<Rightarrow> Inr None
                | _ \<Rightarrow> Inl AuditTypeError) = Inr p"
    by (auto simp: event_from_dict_def bind_result_Inr_iff split: if_splits)
  moreover have "case p of None \<Rightarrow> True | Some q \<Rightarrow> envelope_post_init q = Inr q"
    using p by (auto simp: map_result_def envelope_of_dict_def bind_result_Inr_iff
        split: option.splits json.splits sum.splits if_splits dest: post_init_same)
  ultimately show ?thesis using post_init_same(1) by (auto simp: event_valid_def)
qed

text \<open>
  The event codec: reading back the dictionary of an event gives the event exactly
  when the constructors accept it, and everything the reader returns is an event the
  constructors accept. A stored event is thus restored unchanged or refused.
\<close>

theorem event_codec:
  "(event_from_dict (JObj (event_to_dict e)) = Inr e \<longleftrightarrow> event_valid e)
   \<and> (case event_from_dict v of Inl _ \<Rightarrow> True | Inr e' \<Rightarrow> event_valid e')"
  using event_from_to_dict event_from_dict_valid by (auto split: sum.split)

subsection \<open>Decision proofs\<close>

lemma binding_dict_inject:
  assumes "key_sorted (JObj (binding_dict b v k n t s d)) = key_sorted (JObj (binding_dict b' v k n t s d))"
  shows "b = b'"
proof -
  from assms have "entry_bytes (binding_dict b v k n t s d) = entry_bytes (binding_dict b' v k n t s d)"
    by (simp only: entry_bytes_def dumps_inject)
  note f = entry_bytes_fields[OF this]
  show ?thesis
    using f[of "''approval_id''"] f[of "''agent_id''"] f[of "''action''"] f[of "''context_digest''"]
      f[of "''decision''"] f[of "''operator_id''"]
    by (cases b; cases b') (simp add: binding_dict_def)
qed

definition envelope_binding_bytes :: "proof_envelope \<Rightarrow> decision_binding \<Rightarrow> bytes" where
  "envelope_binding_bytes e b = canonical_bytes (JObj
     (binding_dict b (pe_verifier_id e) (pe_key_id e) (pe_nonce e) (pe_verified_at e)
        (pe_operator_subject e) (pe_proof_digest e)))"

lemma envelope_create_binds:
  assumes "envelope_create sha v proof b now = Inr e"
  shows "verifies_binding sha e b" "envelope_post_init e = Inr e"
    "pe_operator_subject e = pv_operator_subject v" "pe_nonce e = pv_nonce v"
  using assms
  by (auto simp: envelope_create_def Let_def verifies_binding_def split: if_splits pyfloat.splits
      dest: post_init_same)

text \<open>
  A decision proof authorises one decision only: the envelope made for a binding
  verifies it, was verified within 300 s of the decision, and verifies no other
  approval, agent, action, context, decision or operator, unless the hash collides on
  the two binding texts.
\<close>

theorem decision_proof_binds:
  assumes "envelope_create sha v proof b now = Inr e"
  shows "verifies_binding sha e b
    \<and> (\<exists>t. pv_verified_at v = Finite t \<and> abs (now - t) \<le> 300)
    \<and> (verifies_binding sha e b' \<longrightarrow>
         b' = b \<or> (envelope_binding_bytes e b' \<noteq> envelope_binding_bytes e b
                   \<and> sha (envelope_binding_bytes e b') = sha (envelope_binding_bytes e b)))"
proof -
  from assms obtain t where t: "pv_verified_at v = Finite t" "abs (now - t) \<le> 300"
    by (auto simp: envelope_create_def Let_def split: if_splits pyfloat.splits)
  note own = envelope_create_binds(1)[OF assms]
  have "sha (envelope_binding_bytes e b') = sha (envelope_binding_bytes e b)" if "verifies_binding sha e b'"
    using that own by (simp add: verifies_binding_def envelope_binding_bytes_def canonical_digest_def)
  moreover have "b' = b" if "envelope_binding_bytes e b' = envelope_binding_bytes e b"
    using that unfolding envelope_binding_bytes_def canonical_bytes_inject by (rule binding_dict_inject)
  ultimately show ?thesis using own t by blast
qed

definition demo_sha :: "bytes \<Rightarrow> pystr" where
  "demo_sha m = replicate 64 (if length m mod 2 = 0 then CHR ''0'' else CHR ''1'')"

lemma demo_sha_digest: "is_digest (demo_sha m)"
  by (simp add: is_digest_def demo_sha_def all_hex_def hex_digits_def list_all_iff)

definition demo_verification :: proof_verification where
  "demo_verification = \<lparr>pv_verifier_id = ''v'', pv_key_id = ''k'', pv_nonce = ''n'',
     pv_verified_at = Finite 10, pv_operator_subject = ''o''\<rparr>"

lemma decision_proof_binds_witness:
  "\<exists>e. envelope_create demo_sha demo_verification ''p'' \<lparr>db_approval_id = ''id'', db_agent_id = ''a'',
       db_action = ''x'', db_context_digest = [], db_decision = ''approved'', db_operator_id = ''o''\<rparr> 20 = Inr e
     \<and> verifies_binding demo_sha e \<lparr>db_approval_id = ''id'', db_agent_id = ''a'',
       db_action = ''x'', db_context_digest = [], db_decision = ''approved'', db_operator_id = ''o''\<rparr>"
  (is "\<exists>e. ?create = Inr e \<and> _")
proof -
  obtain e where e: "?create = Inr e"
    by (simp add: envelope_create_def demo_verification_def Let_def envelope_post_init_def bounded_text_def
        demo_sha_digest canonical_digest_def)
  from decision_proof_binds[OF this] e show ?thesis by blast
qed

subsection \<open>Receipts\<close>

text \<open>
  Receipts: once the sink has returned a receipt for an event, that receipt keeps
  verifying whatever events are recorded afterwards and whichever of those appends
  fail; recording the event again returns a receipt without writing; and the chain
  holds it once, having grown by at most one entry.
\<close>

theorem sink_receipts_last:
  assumes inv: "world_inv cr w" and run: "sink_record cr w e = (w', Inr r)"
  shows "(let later = foldl (\<lambda>w e. fst (sink_record cr w e)) w' es in
      sink_verify_receipt cr later e r \<and> (\<exists>r'. sink_record cr later e = (later, Inr r')))
    \<and> (\<exists>new. chain_entries (lg_disk (fst w')) = chain_entries (lg_disk (fst w)) @ new \<and> length new \<le> 1)"
proof -
  have "sink_verify_receipt cr (foldl (\<lambda>w e. fst (sink_record cr w e)) w' es) e r
    \<and> (\<exists>r'. sink_record cr (foldl (\<lambda>w e. fst (sink_record cr w e)) w' es) e
          = (foldl (\<lambda>w e. fst (sink_record cr w e)) w' es, Inr r'))"
    using ledger_sink.put_all_keeps[OF ledger_sink.put_sound[OF inv run] ledger_sink.put_verifies[OF inv run], of es]
      ledger_sink.retry_is_idempotent[OF inv run, of es]
    by (simp add: ledger_sink.put_all_foldl)
  moreover have "\<exists>new. chain_entries (lg_disk (fst w')) = chain_entries (lg_disk (fst w)) @ new \<and> length new \<le> 1"
    using inv run by (cases rule: sink_record_cases) auto
  ultimately show ?thesis by (simp add: Let_def)
qed

definition demo_event :: audit_event where
  "demo_event = \<lparr>ev_event_id = ''e1'', ev_approval_id = ''id'', ev_transition = ''pending'', ev_agent_id = ''a'',
     ev_action = ''x'', ev_operator_id = [], ev_context_digest = demo_sha [], ev_transition_ts = JFloat 5,
     ev_decision_proof = None\<rparr>"

lemma demo_chain_entries: "chain_entries (lg_disk demo_ledger) = []"
  by (simp add: chain_entries_def demo_ledger_def all_lines_def ledger_paths_def archive_paths_def)

lemma sink_receipts_last_witness:
  "\<exists>w' r. sink_record demo_crypto (demo_ledger, []) demo_event = (w', Inr r)
     \<and> sink_verify_receipt demo_crypto w' demo_event r"
proof -
  have inv: "world_inv demo_crypto (demo_ledger, [])"
    using demo_inv demo_signs by (simp add: world_inv_def)
  have "sink_existing demo_crypto demo_ledger demo_event = Inr None"
    using existing_scan[OF inv, of demo_event] by (simp add: demo_chain_entries demo_event_def)
  then obtain w' r where run: "sink_record demo_crypto (demo_ledger, []) demo_event = (w', Inr r)"
    by (simp add: sink_record_def ledger_logger_def ledger_log_def transition_call_def RESERVED_ENTRY_FIELDS_def
        rotate_if_needed_def demo_ledger_def Let_def)
  from sink_receipts_last[OF inv this, of "[]"] run show ?thesis by auto
qed

end
