(* ===== verification/Operator.thy ===== *)
theory Operator
  imports ApprovalAudit
begin

text \<open>
  \<open>enterprise/operator.py\<close>: the approval record and the in-memory \<open>OperatorQueue\<close>.
  Every method runs under the queue's lock, so each is one step on the queue. A clock
  reading is an argument (a \<open>pyfloat\<close>, which \<open>_now\<close> refuses unless finite), as is the
  fresh UUID of a submission. Both queues are instances of the locale \<open>single_use\<close>.
\<close>

datatype approval_status = Pending | AuditPending | Approved | Denied | Consumed | Expired

fun status_name :: "approval_status \<Rightarrow> pystr" where
  "status_name Pending = ''pending''"
| "status_name AuditPending = ''audit_pending''"
| "status_name Approved = ''approved''"
| "status_name Denied = ''denied''"
| "status_name Consumed = ''consumed''"
| "status_name Expired = ''expired''"

record pending_approval =
  pa_approval_id :: pystr
  pa_agent_id :: pystr
  pa_action :: pystr
  pa_context :: json_object
  pa_submitted_at :: time
  pa_status :: approval_status
  pa_operator_id :: pystr
  pa_decided_at :: "time option"
  pa_consumed_at :: "time option"
  pa_expires_at :: "time option"
  pa_terminal_at :: "time option"
  pa_decision_proof :: "proof_envelope option"
  pa_audit_event_id :: pystr
  pa_audit_receipt :: "json_object option"

record operator_queue =
  oq_queue :: "(pystr \<times> pending_approval) list"
  oq_max_age :: time
  oq_approval_ttl :: time

text \<open>\<open>_now\<close>.\<close>

definition read_now :: "pyfloat \<Rightarrow> approval_error + time" where
  "read_now clock = (case clock of Finite t \<Rightarrow> Inr t | _ \<Rightarrow> Inl ApprovalAuditError)"

lemma read_now_simps [simp]:
  "read_now (Finite t) = Inr t" "read_now PosInf = Inl ApprovalAuditError"
  "read_now NegInf = Inl ApprovalAuditError" "read_now NaN = Inl ApprovalAuditError"
  by (simp_all add: read_now_def)

definition new_approval :: "pystr \<Rightarrow> pystr \<Rightarrow> pystr \<Rightarrow> json_object \<Rightarrow> time \<Rightarrow> pending_approval" where
  "new_approval approval_id agent_id action context now =
     \<lparr>pa_approval_id = approval_id, pa_agent_id = agent_id, pa_action = action, pa_context = context,
      pa_submitted_at = now, pa_status = Pending, pa_operator_id = [], pa_decided_at = None,
      pa_consumed_at = None, pa_expires_at = None, pa_terminal_at = None, pa_decision_proof = None,
      pa_audit_event_id = [], pa_audit_receipt = None\<rparr>"

definition oq_item :: "operator_queue \<Rightarrow> pystr \<Rightarrow> pending_approval option" where
  "oq_item q approval_id = map_of (oq_queue q) approval_id"

definition oq_put :: "operator_queue \<Rightarrow> pystr \<Rightarrow> pending_approval \<Rightarrow> operator_queue" where
  "oq_put q approval_id item = q\<lparr>oq_queue := AList.update approval_id item (oq_queue q)\<rparr>"

definition oq_submit ::
    "operator_queue \<Rightarrow> pystr \<Rightarrow> pystr \<Rightarrow> pystr \<Rightarrow> json_object \<Rightarrow> pyfloat
     \<Rightarrow> operator_queue \<times> (approval_error + pystr)" where
  "oq_submit q approval_id agent_id action context clock =
     (case read_now clock of
        Inl e \<Rightarrow> (q, Inl e)
      | Inr now \<Rightarrow> (oq_put q approval_id (new_approval approval_id agent_id action context now), Inr approval_id))"

text \<open>
  \<open>approve\<close> and \<open>deny\<close>: the status and the operator are written before the clock is
  read, so a bad reading leaves them written without a decision time.
\<close>

definition oq_decide ::
    "approval_status \<Rightarrow> operator_queue \<Rightarrow> pystr \<Rightarrow> pystr \<Rightarrow> pyfloat
     \<Rightarrow> operator_queue \<times> (approval_error + bool)" where
  "oq_decide status q approval_id operator_id clock =
     (case oq_item q approval_id of
        None \<Rightarrow> (q, Inr False)
      | Some item \<Rightarrow>
          if pa_status item \<noteq> Pending then (q, Inr False)
          else (let item1 = item\<lparr>pa_status := status, pa_operator_id := operator_id\<rparr> in
                case read_now clock of
                  Inl e \<Rightarrow> (oq_put q approval_id item1, Inl e)
                | Inr now \<Rightarrow> (oq_put q approval_id (item1\<lparr>pa_decided_at := Some now\<rparr>), Inr True)))"

definition oq_approve ::
    "operator_queue \<Rightarrow> pystr \<Rightarrow> pystr \<Rightarrow> pyfloat \<Rightarrow> operator_queue \<times> (approval_error + bool)" where
  "oq_approve = oq_decide Approved"

definition oq_deny ::
    "operator_queue \<Rightarrow> pystr \<Rightarrow> pystr \<Rightarrow> pyfloat \<Rightarrow> operator_queue \<times> (approval_error + bool)" where
  "oq_deny = oq_decide Denied"

definition context_matches :: "json_object \<Rightarrow> json_object \<Rightarrow> bool" where
  "context_matches actual required =
     list_all (\<lambda>(key, v). case map_of actual key of None \<Rightarrow> False | Some a \<Rightarrow> py_eq a v) required"

definition oq_consume_approved ::
    "operator_queue \<Rightarrow> pystr \<Rightarrow> pystr \<Rightarrow> pystr \<Rightarrow> json_object \<Rightarrow> pyfloat
     \<Rightarrow> operator_queue \<times> (approval_error + pending_approval option)" where
  "oq_consume_approved q approval_id agent_id action required_context clock =
     (case read_now clock of
        Inl e \<Rightarrow> (q, Inl e)
      | Inr current \<Rightarrow>
          (case oq_item q approval_id of
             None \<Rightarrow> (q, Inr None)
           | Some item \<Rightarrow>
               if pa_status item \<noteq> Approved then (q, Inr None)
               else (case pa_decided_at item of
                  None \<Rightarrow> (q, Inr None)
                | Some decided_at \<Rightarrow>
                    if current < decided_at then (q, Inl ApprovalAuditError)
                    else if oq_approval_ttl q < current - decided_at
                      then (oq_put q approval_id (item\<lparr>pa_status := Expired\<rparr>), Inr None)
                    else if pa_agent_id item \<noteq> agent_id \<or> pa_action item \<noteq> action then (q, Inr None)
                    else if \<not> context_matches (pa_context item) required_context then (q, Inr None)
                    else (let item1 = item\<lparr>pa_status := Consumed, pa_consumed_at := Some current\<rparr> in
                          (oq_put q approval_id item1, Inr (Some item1))))))"

definition oq_get_status :: "operator_queue \<Rightarrow> pystr \<Rightarrow> pystr" where
  "oq_get_status q approval_id =
     (case oq_item q approval_id of None \<Rightarrow> ''not_found'' | Some item \<Rightarrow> status_name (pa_status item))"

definition oq_get_all :: "operator_queue \<Rightarrow> pending_approval list" where
  "oq_get_all q = map snd (oq_queue q)"

definition oq_get_pending :: "operator_queue \<Rightarrow> pending_approval list" where
  "oq_get_pending q = filter (\<lambda>item. pa_status item = Pending) (oq_get_all q)"

definition oq_purge_expired :: "operator_queue \<Rightarrow> pyfloat \<Rightarrow> operator_queue \<times> (approval_error + nat)" where
  "oq_purge_expired q clock =
     (case read_now clock of
        Inl e \<Rightarrow> (q, Inl e)
      | Inr now \<Rightarrow>
          (let cutoff = now - oq_max_age q;
               expired = (\<lambda>kv. pa_status (snd kv) \<noteq> Pending \<and> pa_submitted_at (snd kv) < cutoff) in
           (q\<lparr>oq_queue := filter (\<lambda>kv. \<not> expired kv) (oq_queue q)\<rparr>,
            Inr (length (filter expired (oq_queue q))))))"

text \<open>The calls a thread can make, as one step each; the last component is what it returned.\<close>

datatype oq_op =
    OqSubmit pystr pystr pystr json_object pyfloat
  | OqApprove pystr pystr pyfloat
  | OqDeny pystr pystr pyfloat
  | OqConsume pystr pystr pystr json_object pyfloat
  | OqPurge pyfloat

definition oq_run :: "operator_queue \<Rightarrow> oq_op \<Rightarrow> operator_queue \<times> pending_approval option" where
  "oq_run q op =
     (case op of
        OqSubmit i a x c t \<Rightarrow> (fst (oq_submit q i a x c t), None)
      | OqApprove i o' t \<Rightarrow> (fst (oq_approve q i o' t), None)
      | OqDeny i o' t \<Rightarrow> (fst (oq_deny q i o' t), None)
      | OqConsume i a x c t \<Rightarrow>
          (case oq_consume_approved q i a x c t of
             (q', Inr r) \<Rightarrow> (q', r) | (q', Inl _) \<Rightarrow> (q', None))
      | OqPurge t \<Rightarrow> (fst (oq_purge_expired q t), None))"

subsection \<open>A capability is used at most once\<close>

text \<open>
  A queue's approval moves through phases 0 (undecided), 1 (approved) and 2 (spent or
  gone). The operations never lower the phase of an id they do not submit, and a
  consumption takes phase 1 to 2.
\<close>

text \<open>The records the operations of a run hand out, and how often an id is among them.\<close>

fun outcomes :: "('q \<Rightarrow> 'op \<Rightarrow> 'q \<times> pending_approval option) \<Rightarrow> 'q \<Rightarrow> 'op list \<Rightarrow> pending_approval list" where
  "outcomes run q [] = []"
| "outcomes run q (op # ops) =
     (case run q op of (q', r) \<Rightarrow> (case r of None \<Rightarrow> [] | Some item \<Rightarrow> [item]) @ outcomes run q' ops)"

definition uses ::
    "('q \<Rightarrow> 'op \<Rightarrow> 'q \<times> pending_approval option) \<Rightarrow> 'q \<Rightarrow> 'op list \<Rightarrow> pystr \<Rightarrow> nat" where
  "uses run q ops i = length (filter (\<lambda>item. pa_approval_id item = i) (outcomes run q ops))"

definition run_all :: "('q \<Rightarrow> 'op \<Rightarrow> 'q \<times> 'r) \<Rightarrow> 'q \<Rightarrow> 'op list \<Rightarrow> 'q" where
  "run_all run q ops = foldl (\<lambda>q op. fst (run q op)) q ops"

lemma uses_simps [simp]:
  "uses run q [] i = 0"
  "uses run q (op # ops) i = (case run q op of (q', r) \<Rightarrow>
     (if \<exists>item. r = Some item \<and> pa_approval_id item = i then 1 else 0) + uses run q' ops i)"
  by (auto simp: uses_def split: option.split prod.split)

locale single_use =
  fixes run :: "'q \<Rightarrow> 'op \<Rightarrow> 'q \<times> pending_approval option"
    and submits :: "'op \<Rightarrow> pystr option"
    and phase :: "'q \<Rightarrow> pystr \<Rightarrow> nat"
    and wf :: "'q \<Rightarrow> bool"
  assumes run_wf: "wf q \<Longrightarrow> run q op = (q', r) \<Longrightarrow> wf q'"
    and phase_mono: "wf q \<Longrightarrow> run q op = (q', r) \<Longrightarrow> submits op \<noteq> Some i \<Longrightarrow> phase q i \<le> phase q' i"
    and consumes: "wf q \<Longrightarrow> run q op = (q', Some item)
      \<Longrightarrow> phase q (pa_approval_id item) = 1 \<and> phase q' (pa_approval_id item) = 2"
begin

lemma run_all_wf: "wf q \<Longrightarrow> wf (run_all run q ops)"
proof (induction ops arbitrary: q)
  case (Cons op ops)
  from run_wf[OF Cons.prems, of op "fst (run q op)" "snd (run q op)"] Cons.IH show ?case
    by (simp add: run_all_def)
qed (simp add: run_all_def)

lemma spent_unused:
  "wf q \<Longrightarrow> phase q i = 2 \<Longrightarrow> \<forall>op\<in>set ops. submits op \<noteq> Some i \<Longrightarrow> (\<And>q. phase q i \<le> 2) \<Longrightarrow> uses run q ops i = 0"
proof (induction ops arbitrary: q)
  case (Cons op ops)
  obtain q' r where run: "run q op = (q', r)" by (cases "run q op")
  have "phase q' i = 2"
    using phase_mono[OF Cons.prems(1) run, of i] Cons.prems by (simp add: le_antisym)
  moreover have "\<not> (\<exists>item. r = Some item \<and> pa_approval_id item = i)"
    using consumes[OF Cons.prems(1), of op q'] run Cons.prems(2) by auto
  ultimately show ?case
    using Cons.IH[OF run_wf[OF Cons.prems(1) run]] Cons.prems(3,4) run by simp
qed simp

lemma at_most_once:
  "wf q \<Longrightarrow> \<forall>op\<in>set ops. submits op \<noteq> Some i \<Longrightarrow> (\<And>q. phase q i \<le> 2) \<Longrightarrow> uses run q ops i \<le> 1"
proof (induction ops arbitrary: q)
  case (Cons op ops)
  obtain q' r where run: "run q op = (q', r)" by (cases "run q op")
  note wf' = run_wf[OF Cons.prems(1) run]
  show ?case
  proof (cases "\<exists>item. r = Some item \<and> pa_approval_id item = i")
    case True
    then have "phase q' i = 2" using consumes[OF Cons.prems(1), of op q'] run by auto
    with spent_unused[OF wf', of i ops] True Cons.prems run show ?thesis by simp
  next
    case False
    then have "uses run q (op # ops) i = uses run q' ops i" by (simp add: run)
    with Cons.IH[OF wf'] Cons.prems show ?thesis by simp
  qed
qed simp

end

fun status_phase :: "approval_status \<Rightarrow> nat" where
  "status_phase Pending = 0"
| "status_phase AuditPending = 0"
| "status_phase Approved = 1"
| "status_phase _ = 2"

lemma status_phase_le: "status_phase s \<le> 2"
  by (cases s) simp_all

definition oq_phase :: "operator_queue \<Rightarrow> pystr \<Rightarrow> nat" where
  "oq_phase q i = (case oq_item q i of None \<Rightarrow> 2 | Some item \<Rightarrow> status_phase (pa_status item))"

definition oq_submits :: "oq_op \<Rightarrow> pystr option" where
  "oq_submits op = (case op of OqSubmit i _ _ _ _ \<Rightarrow> Some i | _ \<Rightarrow> None)"

text \<open>Every record is filed under its own id, once.\<close>

definition oq_wf :: "operator_queue \<Rightarrow> bool" where
  "oq_wf q \<longleftrightarrow> wf_dict (oq_queue q) \<and> list_all (\<lambda>kv. pa_approval_id (snd kv) = fst kv) (oq_queue q)"

lemma oq_item_put [simp]: "oq_item (oq_put q i item) j = (if j = i then Some item else oq_item q j)"
  by (simp add: oq_item_def oq_put_def)

lemma oq_wf_put: "oq_wf q \<Longrightarrow> pa_approval_id item = i \<Longrightarrow> oq_wf (oq_put q i item)"
  by (auto simp: oq_wf_def oq_put_def list_all_iff dest!: subsetD[OF set_update_subset])

lemma oq_item_id: "oq_wf q \<Longrightarrow> oq_item q i = Some item \<Longrightarrow> pa_approval_id item = i"
  by (fastforce simp: oq_wf_def oq_item_def list_all_iff dest: map_of_SomeD)

lemma oq_wf_purge: "oq_wf q \<Longrightarrow> oq_wf (fst (oq_purge_expired q t))"
  by (auto simp: oq_wf_def oq_purge_expired_def list_all_iff Let_def split: sum.split)

lemma oq_item_purge:
  "oq_wf q \<Longrightarrow> oq_item (fst (oq_purge_expired q t)) i \<in> {oq_item q i, None}"
  by (auto simp: oq_item_def oq_purge_expired_def Let_def oq_wf_def map_of_filter_wf split: sum.split option.split)

lemma oq_run_wf:
  assumes "oq_wf q" shows "oq_wf (fst (oq_run q op))"
  using assms
  by (cases op) (auto simp: oq_run_def oq_submit_def oq_approve_def oq_deny_def oq_decide_def oq_consume_approved_def
      new_approval_def oq_item_id oq_wf_purge Let_def intro!: oq_wf_put
      split: sum.splits option.splits prod.splits if_splits)

lemma oq_run_phase:
  assumes "oq_wf q" "oq_submits op \<noteq> Some i" shows "oq_phase q i \<le> oq_phase (fst (oq_run q op)) i"
proof (cases op)
  case (OqPurge t)
  then show ?thesis using oq_item_purge[OF assms(1), of t i]
    by (auto simp: oq_run_def oq_phase_def status_phase_le split: option.splits)
qed (use assms(2) in \<open>auto simp: oq_run_def oq_submit_def oq_approve_def oq_deny_def oq_decide_def
      oq_consume_approved_def oq_phase_def oq_submits_def Let_def
      split: sum.splits option.splits prod.splits if_splits\<close>)

lemma oq_run_consumes:
  assumes "oq_wf q" "oq_run q op = (q', Some item)"
  shows "oq_phase q (pa_approval_id item) = 1 \<and> oq_phase q' (pa_approval_id item) = 2"
  using assms
  by (cases op) (auto simp: oq_run_def oq_consume_approved_def oq_phase_def oq_item_id Let_def
      split: sum.splits option.splits prod.splits if_splits)

interpretation memory: single_use oq_run oq_submits oq_phase oq_wf
proof unfold_locales
  show "oq_wf q'" if "oq_wf q" "oq_run q op = (q', r)" for q op q' r
    using oq_run_wf[OF that(1), of op] that(2) by simp
  show "oq_phase q i \<le> oq_phase q' i" if "oq_wf q" "oq_run q op = (q', r)" "oq_submits op \<noteq> Some i" for q op q' r i
    using oq_run_phase[OF that(1,3)] that(2) by simp
qed (rule oq_run_consumes)

end
