(* ===== verification/Durable.thy ===== *)
theory Durable
  imports Operator
begin

text \<open>
  \<open>enterprise/operator.py\<close>: \<open>DurableOperatorQueue\<close> on its SQLite tables. A transaction is
  one function from database to database, \<open>Inl\<close> standing for the exception that rolls it
  back. A table is a list of rows under the primary key; the constraints the schema
  declares (primary keys, \<open>UNIQUE\<close>, the foreign key, the length check) answer with
  \<open>SqliteIntegrityError\<close>. A JSON column holds the value its text denotes.

  Arguments of the operations: the sink (\<open>put\<close>, \<open>verify\<close> and its state), the decision
  verifier and the hash of the deployment, the clock readings of the call in order and
  the UUIDs it draws.
\<close>

record approval_row = pending_approval +
  ar_decision_nonce :: "pystr option"
  ar_pending_status :: "approval_status option"
  ar_pending_event_id :: "pystr option"

datatype outbox_state = OutboxPending | OutboxDelivered

record outbox_row =
  ob_approval_id :: pystr
  ob_transition :: pystr
  ob_event :: json
  ob_state :: outbox_state
  ob_receipt :: "json_object option"
  ob_created_at :: time
  ob_delivered_at :: "time option"

record tombstone =
  tb_approval_id :: pystr
  tb_recorded_at :: time
  tb_retain_until :: time

record approval_db =
  db_approvals :: "(pystr \<times> approval_row) list"
  db_outbox :: "(pystr \<times> outbox_row) list"
  db_tombstones :: "(pystr \<times> tombstone) list"

type_synonym decision_verifier = "decision_binding \<Rightarrow> bytes \<Rightarrow> proof_verification option"

record durable_config =
  dc_max_age :: time
  dc_approval_ttl :: time
  dc_nonce_retention :: time
  dc_audit_required :: bool
  dc_verifier :: "decision_verifier option"
  dc_sha :: "bytes \<Rightarrow> pystr"

record 's durable_queue =
  dq_config :: durable_config
  dq_db :: approval_db
  dq_sink :: "'s option"

type_synonym 's sink_put = "'s \<Rightarrow> audit_event \<Rightarrow> 's \<times> (approval_error + json_object)"
type_synonym 's sink_verify = "'s \<Rightarrow> audit_event \<Rightarrow> json_object \<Rightarrow> bool"

subsection \<open>Rows\<close>

definition row_of :: "approval_db \<Rightarrow> pystr \<Rightarrow> approval_row option" where
  "row_of db approval_id = map_of (db_approvals db) approval_id"

definition put_row :: "approval_db \<Rightarrow> pystr \<Rightarrow> approval_row \<Rightarrow> approval_db" where
  "put_row db approval_id row = db\<lparr>db_approvals := AList.update approval_id row (db_approvals db)\<rparr>"

text \<open>\<open>_from_row\<close>: the stored envelope passes its constructor again.\<close>

definition from_row :: "approval_row \<Rightarrow> approval_error + pending_approval" where
  "from_row row =
     (case pa_decision_proof row of
        None \<Rightarrow> Inr (pending_approval.truncate row)
      | Some p \<Rightarrow> map_result (\<lambda>_. pending_approval.truncate row) (envelope_post_init p))"

definition read_item :: "approval_db \<Rightarrow> pystr \<Rightarrow> approval_error + pending_approval option" where
  "read_item db approval_id =
     (case row_of db approval_id of None \<Rightarrow> Inr None | Some row \<Rightarrow> map_result Some (from_row row))"

definition new_row ::
    "pystr \<Rightarrow> pystr \<Rightarrow> pystr \<Rightarrow> json_object \<Rightarrow> time \<Rightarrow> pystr option \<Rightarrow> approval_row" where
  "new_row approval_id agent_id action context now event_id =
     \<lparr>pa_approval_id = approval_id, pa_agent_id = agent_id, pa_action = action, pa_context = context,
      pa_submitted_at = now, pa_status = (if event_id = None then Pending else AuditPending),
      pa_operator_id = [], pa_decided_at = None, pa_consumed_at = None, pa_expires_at = None,
      pa_terminal_at = None, pa_decision_proof = None, pa_audit_event_id = [], pa_audit_receipt = None,
      ar_decision_nonce = None,
      ar_pending_status = (if event_id = None then None else Some Pending),
      ar_pending_event_id = event_id\<rparr>"

definition insert_approval :: "approval_db \<Rightarrow> approval_row \<Rightarrow> approval_error + approval_db" where
  "insert_approval db row =
     (if row_of db (pa_approval_id row) \<noteq> None then Inl SqliteIntegrityError
      else Inr (db\<lparr>db_approvals := db_approvals db @ [(pa_approval_id row, row)]\<rparr>))"

text \<open>\<open>_insert_outbox\<close>, with the primary key and the foreign key.\<close>

definition new_outbox :: "audit_event \<Rightarrow> outbox_row" where
  "new_outbox event =
     \<lparr>ob_approval_id = ev_approval_id event, ob_transition = ev_transition event,
      ob_event = JObj (event_to_dict event), ob_state = OutboxPending, ob_receipt = None,
      ob_created_at = number_of (ev_transition_ts event), ob_delivered_at = None\<rparr>"

definition insert_outbox :: "approval_db \<Rightarrow> audit_event \<Rightarrow> approval_error + approval_db" where
  "insert_outbox db event =
     (if map_of (db_outbox db) (ev_event_id event) \<noteq> None \<or> row_of db (ev_approval_id event) = None
      then Inl SqliteIntegrityError
      else Inr (db\<lparr>db_outbox := db_outbox db @ [(ev_event_id event, new_outbox event)]\<rparr>))"

definition insert_tombstone :: "approval_db \<Rightarrow> pystr \<Rightarrow> tombstone \<Rightarrow> approval_error + approval_db" where
  "insert_tombstone db nonce t =
     (if map_of (db_tombstones db) nonce \<noteq> None \<or> length nonce < 1 \<or> 256 < length nonce
         \<or> tb_retain_until t \<le> tb_recorded_at t
      then Inl SqliteIntegrityError
      else Inr (db\<lparr>db_tombstones := db_tombstones db @ [(nonce, t)]\<rparr>))"

text \<open>The \<open>UNIQUE\<close> constraint on \<open>decision_nonce\<close>, against the other rows.\<close>

definition nonce_taken :: "approval_db \<Rightarrow> pystr \<Rightarrow> pystr option \<Rightarrow> bool" where
  "nonce_taken db approval_id nonce =
     (nonce \<noteq> None \<and> list_ex (\<lambda>(i, r). i \<noteq> approval_id \<and> ar_decision_nonce r = nonce) (db_approvals db))"

subsection \<open>Decision writers\<close>

definition valid_operator_id :: "pystr \<Rightarrow> bool" where
  "valid_operator_id operator_id \<longleftrightarrow>
     operator_id \<noteq> [] \<and> length operator_id \<le> 256 \<and> \<not> has_control operator_id"

definition item_binding ::
    "durable_config \<Rightarrow> pending_approval \<Rightarrow> approval_status \<Rightarrow> pystr \<Rightarrow> decision_binding" where
  "item_binding c item status operator_id =
     \<lparr>db_approval_id = pa_approval_id item, db_agent_id = pa_agent_id item, db_action = pa_action item,
      db_context_digest = canonical_context_digest (dc_sha c) (pa_context item),
      db_decision = status_name status, db_operator_id = operator_id\<rparr>"

definition verify_decision_writer ::
    "durable_config \<Rightarrow> pending_approval \<Rightarrow> pystr \<Rightarrow> approval_status \<Rightarrow> bytes option \<Rightarrow> pyfloat
     \<Rightarrow> approval_error + proof_envelope option" where
  "verify_decision_writer c item operator_id status proof clock =
     (if \<not> valid_operator_id operator_id then Inl AuditValueError
      else if \<not> dc_audit_required c then Inr None
      else (case proof of
          None \<Rightarrow> Inl ApprovalAuditError
        | Some p \<Rightarrow>
            if length p = 0 \<or> 16384 < length p then Inl ApprovalAuditError
            else (let payload = item_binding c item status operator_id in
              case Option.bind (dc_verifier c) (\<lambda>verifier. verifier payload p) of
                None \<Rightarrow> Inl ApprovalAuditError
              | Some verification \<Rightarrow>
                  if pv_operator_subject verification \<noteq> operator_id then Inl ApprovalAuditError
                  else bind_result (read_now clock) (\<lambda>now.
                         map_result Some (envelope_create (dc_sha c) verification p payload now)))))"

subsection \<open>Staging a transition\<close>

definition staged_event ::
    "durable_config \<Rightarrow> pending_approval \<Rightarrow> approval_status \<Rightarrow> pystr \<Rightarrow> time \<Rightarrow> proof_envelope option
     \<Rightarrow> pystr \<Rightarrow> audit_event" where
  "staged_event c item transition operator_id ts proof event_id =
     \<lparr>ev_event_id = event_id, ev_approval_id = pa_approval_id item,
      ev_transition = status_name transition, ev_agent_id = pa_agent_id item, ev_action = pa_action item,
      ev_operator_id = operator_id,
      ev_context_digest = canonical_context_digest (dc_sha c) (pa_context item),
      ev_transition_ts = JFloat ts,
      ev_decision_proof = (case proof of None \<Rightarrow> pa_decision_proof item | Some p \<Rightarrow> Some p)\<rparr>"

text \<open>The columns the \<open>UPDATE\<close> of \<open>_stage_existing\<close> writes.\<close>

definition staged_row ::
    "durable_config \<Rightarrow> approval_row \<Rightarrow> pending_approval \<Rightarrow> approval_status \<Rightarrow> time \<Rightarrow> audit_event \<Rightarrow> approval_row" where
  "staged_row c row item transition ts event =
     row\<lparr>pa_status := AuditPending, ar_pending_status := Some transition,
         ar_pending_event_id := Some (ev_event_id event),
         pa_operator_id := (if ev_operator_id event \<noteq> [] then ev_operator_id event else pa_operator_id item),
         pa_decided_at := (if transition \<in> {Approved, Denied} then Some ts else pa_decided_at item),
         pa_consumed_at := (if transition = Consumed then Some ts else pa_consumed_at item),
         pa_expires_at := (if transition = Approved then Some (ts + dc_approval_ttl c) else pa_expires_at item),
         pa_terminal_at := (if transition \<in> {Denied, Consumed, Expired} then Some ts else pa_terminal_at item),
         pa_decision_proof := ev_decision_proof event,
         ar_decision_nonce := map_option pe_nonce (ev_decision_proof event)\<rparr>"

definition stage_existing ::
    "durable_config \<Rightarrow> approval_db \<Rightarrow> pending_approval \<Rightarrow> approval_status \<Rightarrow> pystr \<Rightarrow> time
     \<Rightarrow> proof_envelope option \<Rightarrow> pystr \<Rightarrow> approval_error + approval_db" where
  "stage_existing c db item transition operator_id ts proof event_id =
     bind_result (event_post_init (staged_event c item transition operator_id ts proof event_id)) (\<lambda>event.
     bind_result
       (case proof of
          None \<Rightarrow> Inr db
        | Some p \<Rightarrow> insert_tombstone db (pe_nonce p)
            \<lparr>tb_approval_id = pa_approval_id item, tb_recorded_at = ts,
             tb_retain_until = ts + dc_nonce_retention c\<rparr>) (\<lambda>db1.
     case row_of db1 (pa_approval_id item) of
       None \<Rightarrow> Inl ApprovalAuditError
     | Some row \<Rightarrow>
         if pa_status row \<noteq> pa_status item then Inl ApprovalAuditError
         else if nonce_taken db1 (pa_approval_id item) (map_option pe_nonce (ev_decision_proof event))
           then Inl SqliteIntegrityError
         else insert_outbox (put_row db1 (pa_approval_id item) (staged_row c row item transition ts event)) event))"

subsection \<open>Delivering an event\<close>

definition event_from_row :: "outbox_row \<Rightarrow> approval_error + audit_event" where
  "event_from_row row = event_from_dict (ob_event row)"

definition receipt_matches_event :: "(bytes \<Rightarrow> pystr) \<Rightarrow> json_object \<Rightarrow> audit_event \<Rightarrow> bool" where
  "receipt_matches_event sha receipt event =
     list_all (\<lambda>(key, v). map_of receipt key = Some (JStr v))
       [(''event_id'', ev_event_id event), (''approval_id'', ev_approval_id event),
        (''transition'', ev_transition event), (''agent_id'', ev_agent_id event),
        (''action'', ev_action event), (''operator_id'', ev_operator_id event),
        (''context_digest'', ev_context_digest event),
        (''event_digest'', approval_event_digest sha event)]"

text \<open>\<open>_event_state_row\<close>: the outbox row joined with its approval.\<close>

definition event_state_row :: "approval_db \<Rightarrow> pystr \<Rightarrow> (outbox_row \<times> approval_row) option" where
  "event_state_row db event_id =
     Option.bind (map_of (db_outbox db) event_id) (\<lambda>o'.
       map_option (Pair o') (row_of db (ob_approval_id o')))"

definition valid_event_state ::
    "(bytes \<Rightarrow> pystr) \<Rightarrow> outbox_row \<Rightarrow> approval_row \<Rightarrow> audit_event \<Rightarrow> bool" where
  "valid_event_state sha o' a event \<longleftrightarrow>
     (ev_approval_id event = ob_approval_id o' \<and> ev_transition event = ob_transition o'
      \<and> ev_agent_id event = pa_agent_id a \<and> ev_action event = pa_action a
      \<and> ev_context_digest event = canonical_context_digest sha (pa_context a)
      \<and> ev_operator_id event = pa_operator_id a
      \<and> ev_decision_proof event = pa_decision_proof a)
     \<and> (if ev_transition event = ''pending''
          then ev_operator_id event = [] \<and> ev_decision_proof event = None
        else if ev_transition event \<in> {''approved'', ''denied'', ''consumed'', ''expired''}
          then ev_operator_id event \<noteq> [] \<and> ev_decision_proof event \<noteq> None
        else True)
     \<and> (case ob_state o' of
          OutboxPending \<Rightarrow>
            pa_status a = AuditPending \<and> map_option status_name (ar_pending_status a) = Some (ev_transition event)
            \<and> ar_pending_event_id a = Some (ev_event_id event) \<and> ob_receipt o' = None
            \<and> ob_delivered_at o' = None
        | OutboxDelivered \<Rightarrow>
            status_name (pa_status a) = ev_transition event
            \<and> pa_audit_event_id a = ev_event_id event \<and> ob_receipt o' \<noteq> None
            \<and> ob_delivered_at o' \<noteq> None)"

text \<open>The first half of \<open>_flush_event\<close>: read the row, obtain and check the receipt.\<close>

definition flush_deliver ::
    "durable_config \<Rightarrow> 's sink_put \<Rightarrow> 's sink_verify \<Rightarrow> approval_db \<Rightarrow> 's \<Rightarrow> pystr
     \<Rightarrow> 's \<times> (approval_error + audit_event \<times> json_object)" where
  "flush_deliver c put verify db sink event_id =
     (case event_state_row db event_id of
        None \<Rightarrow> (sink, Inl ApprovalAuditError)
      | Some (o', a) \<Rightarrow>
          (case event_from_row o' of
             Inl e \<Rightarrow> (sink, Inl e)
           | Inr event \<Rightarrow>
               if \<not> valid_event_state (dc_sha c) o' a event then (sink, Inl ApprovalAuditError)
               else
                 (case (case ob_state o' of
                          OutboxDelivered \<Rightarrow> (sink, Inr (case ob_receipt o' of None \<Rightarrow> [] | Some r \<Rightarrow> r))
                        | OutboxPending \<Rightarrow> put sink event) of
                    (sink', Inl _) \<Rightarrow> (sink', Inl ApprovalAuditError)
                  | (sink', Inr receipt) \<Rightarrow>
                      if \<not> receipt_matches_event (dc_sha c) receipt event then (sink', Inl ApprovalAuditError)
                      else if \<not> verify sink' event receipt then (sink', Inl ApprovalAuditError)
                      else (sink', Inr (event, receipt)))))"

text \<open>The second half: one transaction that finalizes approval and outbox together.\<close>

definition same_event :: "audit_event \<Rightarrow> audit_event \<Rightarrow> bool" where
  "same_event a b = py_eq (JObj (event_to_dict a)) (JObj (event_to_dict b))"

definition flush_finalize ::
    "durable_config \<Rightarrow> approval_db \<Rightarrow> pystr \<Rightarrow> audit_event \<Rightarrow> json_object \<Rightarrow> pyfloat
     \<Rightarrow> approval_error + approval_db" where
  "flush_finalize c db event_id event receipt clock =
     (case event_state_row db event_id of
        None \<Rightarrow> Inl ApprovalAuditError
      | Some (o', a) \<Rightarrow>
          bind_result (event_from_row o') (\<lambda>current_event.
          if \<not> same_event current_event event then Inl ApprovalAuditError
          else if \<not> valid_event_state (dc_sha c) o' a event then Inl ApprovalAuditError
          else if ob_state o' = OutboxDelivered then
            (case ob_receipt o' of
               Some r \<Rightarrow> if dumps True (JObj r) \<noteq> dumps True (JObj receipt) then Inl ApprovalAuditError else Inr db
             | None \<Rightarrow> Inl ApprovalAuditError)
          else
            (case (row_of db (ev_approval_id event), ar_pending_status a) of
               (Some row, Some target) \<Rightarrow>
                 if \<not> (pa_status row = AuditPending \<and> status_name target = ev_transition event
                        \<and> ar_pending_event_id row = Some event_id) then Inl ApprovalAuditError
                 else bind_result (read_now clock) (\<lambda>delivered_at.
                   let db1 = put_row db (ev_approval_id event)
                         (row\<lparr>pa_status := target, ar_pending_status := None, ar_pending_event_id := None,
                              pa_audit_event_id := event_id, pa_audit_receipt := Some receipt\<rparr>) in
                   if ob_receipt o' \<noteq> None \<or> ob_delivered_at o' \<noteq> None then Inl ApprovalAuditError
                   else Inr (db1\<lparr>db_outbox := AList.update event_id
                        (o'\<lparr>ob_state := OutboxDelivered, ob_receipt := Some receipt,
                            ob_delivered_at := Some delivered_at\<rparr>) (db_outbox db1)\<rparr>))
             | _ \<Rightarrow> Inl ApprovalAuditError)))"

definition flush_event ::
    "'s sink_put \<Rightarrow> 's sink_verify \<Rightarrow> 's durable_queue \<Rightarrow> pystr \<Rightarrow> pyfloat
     \<Rightarrow> 's durable_queue \<times> (approval_error + unit)" where
  "flush_event put verify q event_id clock =
     (case dq_sink q of
        None \<Rightarrow> (q, if dc_audit_required (dq_config q) then Inl ApprovalAuditError else Inr ())
      | Some sink \<Rightarrow>
          (case flush_deliver (dq_config q) put verify (dq_db q) sink event_id of
             (sink', Inl e) \<Rightarrow> (q\<lparr>dq_sink := Some sink'\<rparr>, Inl e)
           | (sink', Inr (event, receipt)) \<Rightarrow>
               (case flush_finalize (dq_config q) (dq_db q) event_id event receipt clock of
                  Inl e \<Rightarrow> (q\<lparr>dq_sink := Some sink'\<rparr>, Inl e)
                | Inr db \<Rightarrow> (q\<lparr>dq_sink := Some sink', dq_db := db\<rparr>, Inr ()))))"

text \<open>\<open>reconcile\<close>: flush the pending events in the order of their creation.\<close>

definition pending_events :: "approval_db \<Rightarrow> pystr list" where
  "pending_events db =
     map fst (sort_key (\<lambda>kv. ob_created_at (snd kv)) (filter (\<lambda>kv. ob_state (snd kv) = OutboxPending) (db_outbox db)))"

fun flush_events ::
    "'s sink_put \<Rightarrow> 's sink_verify \<Rightarrow> 's durable_queue \<Rightarrow> pystr list \<Rightarrow> (nat \<Rightarrow> pyfloat)
     \<Rightarrow> 's durable_queue \<times> (approval_error + unit)" where
  "flush_events put verify q [] clock = (q, Inr ())"
| "flush_events put verify q (i # ids) clock =
     (case flush_event put verify q i (clock 0) of
        (q', Inl e) \<Rightarrow> (q', Inl e)
      | (q', Inr _) \<Rightarrow> flush_events put verify q' ids (\<lambda>n. clock (Suc n)))"

definition reconcile ::
    "'s sink_put \<Rightarrow> 's sink_verify \<Rightarrow> 's durable_queue \<Rightarrow> (nat \<Rightarrow> pyfloat)
     \<Rightarrow> 's durable_queue \<times> (approval_error + nat)" where
  "reconcile put verify q clock =
     (let ids = pending_events (dq_db q) in
      case flush_events put verify q ids clock of
        (q', Inl e) \<Rightarrow> (q', Inl e)
      | (q', Inr _) \<Rightarrow> (q', Inr (length ids)))"

subsection \<open>Operations\<close>

text \<open>
  Each operation is a transaction, then the flush of the event it staged. The clock
  readings are named by their place in the call: 0 for the decision proof, 1 for the
  transition, 2 for the delivery.
\<close>

definition after_stage ::
    "'s sink_put \<Rightarrow> 's sink_verify \<Rightarrow> 's durable_queue \<Rightarrow> approval_error + approval_db \<Rightarrow> pystr \<Rightarrow> pyfloat
     \<Rightarrow> 's durable_queue \<times> (approval_error + unit)" where
  "after_stage put verify q staged event_id clock =
     (case staged of
        Inl e \<Rightarrow> (q, Inl e)
      | Inr db \<Rightarrow> flush_event put verify (q\<lparr>dq_db := db\<rparr>) event_id clock)"

definition submit_transaction ::
    "durable_config \<Rightarrow> approval_db \<Rightarrow> pystr \<Rightarrow> pystr \<Rightarrow> pystr \<Rightarrow> pystr \<Rightarrow> json_object \<Rightarrow> pyfloat
     \<Rightarrow> approval_error + approval_db" where
  "submit_transaction c db approval_id event_id agent_id action context clock =
     bind_result (read_now clock) (\<lambda>submitted_at.
     bind_result (event_post_init
       \<lparr>ev_event_id = event_id, ev_approval_id = approval_id, ev_transition = ''pending'',
        ev_agent_id = agent_id, ev_action = action, ev_operator_id = [],
        ev_context_digest = canonical_context_digest (dc_sha c) context,
        ev_transition_ts = JFloat submitted_at, ev_decision_proof = None\<rparr>) (\<lambda>event.
     bind_result (insert_approval db (new_row approval_id agent_id action context submitted_at (Some event_id)))
       (\<lambda>db1. insert_outbox db1 event)))"

definition dq_submit ::
    "'s sink_put \<Rightarrow> 's sink_verify \<Rightarrow> 's durable_queue \<Rightarrow> pystr \<Rightarrow> pystr \<Rightarrow> pystr \<Rightarrow> pystr \<Rightarrow> json_object
     \<Rightarrow> (nat \<Rightarrow> pyfloat) \<Rightarrow> 's durable_queue \<times> (approval_error + pystr)" where
  "dq_submit put verify q approval_id event_id agent_id action context clock =
     (if dq_sink q \<noteq> None then
        (case after_stage put verify q
            (submit_transaction (dq_config q) (dq_db q) approval_id event_id agent_id action context (clock 1))
            event_id (clock 2) of
           (q', r) \<Rightarrow> (q', map_result (\<lambda>_. approval_id) r))
      else
        (case bind_result (read_now (clock 1)) (\<lambda>now.
                insert_approval (dq_db q) (new_row approval_id agent_id action context now None)) of
           Inl e \<Rightarrow> (q, Inl e)
         | Inr db \<Rightarrow> (q\<lparr>dq_db := db\<rparr>, Inr approval_id)))"

text \<open>\<open>_decide\<close>: the transaction, then the flush. \<open>Inr None\<close> is the early \<open>return False\<close>.\<close>

definition wrap_integrity :: "approval_error + 'a \<Rightarrow> approval_error + 'a" where
  "wrap_integrity r =
     (case r of
        Inl e \<Rightarrow> Inl (if e = SqliteIntegrityError then ApprovalAuditError else e)
      | Inr a \<Rightarrow> Inr a)"

lemma wrap_integrity_Inr [simp]: "wrap_integrity r = Inr a \<longleftrightarrow> r = Inr a"
  by (cases r) (auto simp: wrap_integrity_def)

definition decide_transaction ::
    "durable_config \<Rightarrow> bool \<Rightarrow> approval_db \<Rightarrow> approval_status \<Rightarrow> pystr \<Rightarrow> pystr \<Rightarrow> bytes option \<Rightarrow> pystr
     \<Rightarrow> (nat \<Rightarrow> pyfloat) \<Rightarrow> approval_error + approval_db option" where
  "decide_transaction c has_sink db status approval_id operator_id proof event_id clock =
     bind_result (read_item db approval_id) (\<lambda>found.
       case found of
         None \<Rightarrow> Inr None
       | Some item \<Rightarrow>
           if pa_status item \<noteq> Pending then Inr None
           else bind_result (verify_decision_writer c item operator_id status proof (clock 0)) (\<lambda>decision_proof.
             bind_result (read_now (clock 1)) (\<lambda>ts.
               if has_sink then
                 map_result Some (wrap_integrity
                   (stage_existing c db item status operator_id ts decision_proof event_id))
               else
                 (case row_of db approval_id of
                    None \<Rightarrow> Inr None
                  | Some row \<Rightarrow> Inr (Some (put_row db approval_id
                      (row\<lparr>pa_status := status, pa_operator_id := operator_id, pa_decided_at := Some ts,
                           pa_expires_at := (if status = Approved then Some (ts + dc_approval_ttl c) else None),
                           pa_terminal_at := (if status = Denied then Some ts else None)\<rparr>)))))))"

definition dq_decide ::
    "'s sink_put \<Rightarrow> 's sink_verify \<Rightarrow> approval_status \<Rightarrow> 's durable_queue \<Rightarrow> pystr \<Rightarrow> pystr \<Rightarrow> bytes option
     \<Rightarrow> pystr \<Rightarrow> (nat \<Rightarrow> pyfloat) \<Rightarrow> 's durable_queue \<times> (approval_error + bool)" where
  "dq_decide put verify status q approval_id operator_id proof event_id clock =
     (case decide_transaction (dq_config q) (dq_sink q \<noteq> None) (dq_db q) status approval_id operator_id proof
         event_id clock of
        Inl e \<Rightarrow> (q, Inl e)
      | Inr None \<Rightarrow> (q, Inr False)
      | Inr (Some db) \<Rightarrow>
          if dq_sink q = None then (q\<lparr>dq_db := db\<rparr>, Inr True)
          else (case flush_event put verify (q\<lparr>dq_db := db\<rparr>) event_id (clock 2) of
                  (q', r) \<Rightarrow> (q', map_result (\<lambda>_. True) r)))"

definition dq_approve where "dq_approve put verify = dq_decide put verify Approved"
definition dq_deny where "dq_deny put verify = dq_decide put verify Denied"

text \<open>\<open>_deny_for_system_safety\<close>; \<open>nonce\<close> and \<open>event_id\<close> are the UUIDs it draws.\<close>

definition system_verification :: "pystr \<Rightarrow> time \<Rightarrow> pystr \<Rightarrow> proof_verification" where
  "system_verification nonce now operator_id =
     \<lparr>pv_verifier_id = ''selfconnect.system-safety-denial'', pv_key_id = ''runtime-ledger-identity'',
      pv_nonce = nonce, pv_verified_at = Finite now, pv_operator_subject = operator_id\<rparr>"

definition system_denial_transaction ::
    "durable_config \<Rightarrow> approval_db \<Rightarrow> pystr \<Rightarrow> pystr \<Rightarrow> pystr \<Rightarrow> pystr \<Rightarrow> pyfloat
     \<Rightarrow> approval_error + approval_db option" where
  "system_denial_transaction c db approval_id operator_id nonce event_id clock =
     bind_result (read_item db approval_id) (\<lambda>found.
       case found of
         None \<Rightarrow> Inr None
       | Some item \<Rightarrow>
           if pa_status item \<noteq> Pending then Inr None
           else bind_result (read_now clock) (\<lambda>now.
             bind_result (envelope_create (dc_sha c) (system_verification nonce now operator_id)
               ''internal-safety-denial;not-human-attribution'' (item_binding c item Denied operator_id) now)
               (\<lambda>proof. map_result Some
                  (stage_existing c db item Denied operator_id now (Some proof) event_id))))"

definition deny_for_system_safety ::
    "'s sink_put \<Rightarrow> 's sink_verify \<Rightarrow> 's durable_queue \<Rightarrow> pystr \<Rightarrow> pystr \<Rightarrow> bool \<Rightarrow> pystr \<Rightarrow> pystr
     \<Rightarrow> (nat \<Rightarrow> pyfloat) \<Rightarrow> 's durable_queue \<times> (approval_error + bool)" where
  "deny_for_system_safety put verify q approval_id operator_id capability nonce event_id clock =
     (if \<not> capability then (q, Inl ApprovalAuditError)
      else if \<not> valid_operator_id operator_id then (q, Inl AuditValueError)
      else (case system_denial_transaction (dq_config q) (dq_db q) approval_id operator_id nonce event_id (clock 1) of
              Inl e \<Rightarrow> (q, Inl e)
            | Inr None \<Rightarrow> (q, Inr False)
            | Inr (Some db) \<Rightarrow>
                (case flush_event put verify (q\<lparr>dq_db := db\<rparr>) event_id (clock 2) of
                   (q', r) \<Rightarrow> (q', map_result (\<lambda>_. True) r))))"

text \<open>
  \<open>consume_approved\<close>: what its transaction decides. \<open>ConsumeRefused\<close> is a rollback with
  \<open>None\<close>, \<open>ConsumeExpired\<close> and \<open>ConsumeGranted\<close> carry the database that is committed.
\<close>

datatype consume_outcome =
    ConsumeRefused
  | ConsumeExpired approval_db
  | ConsumeGranted approval_db pending_approval

definition consume_transaction ::
    "durable_config \<Rightarrow> bool \<Rightarrow> approval_db \<Rightarrow> pystr \<Rightarrow> pystr \<Rightarrow> pystr \<Rightarrow> json_object \<Rightarrow> pystr \<Rightarrow> pyfloat
     \<Rightarrow> approval_error + consume_outcome" where
  "consume_transaction c has_sink db approval_id agent_id action required_context event_id clock =
     bind_result (read_item db approval_id) (\<lambda>found.
       case found of
         None \<Rightarrow> Inr ConsumeRefused
       | Some item \<Rightarrow>
           if pa_status item \<noteq> Approved then Inr ConsumeRefused
           else (case pa_decided_at item of
             None \<Rightarrow> Inr ConsumeRefused
           | Some decided_at \<Rightarrow>
               if pa_agent_id item \<noteq> agent_id \<or> pa_action item \<noteq> action then Inr ConsumeRefused
               else if \<not> context_matches (pa_context item) required_context then Inr ConsumeRefused
               else bind_result (read_now clock) (\<lambda>current.
                 if current < decided_at then Inl ApprovalAuditError
                 else (case pa_expires_at item of
                   None \<Rightarrow> if dc_audit_required c then Inl ApprovalAuditError else Inr ConsumeRefused
                 | Some expires_at \<Rightarrow>
                     if expires_at \<le> current then
                       (if has_sink
                        then map_result ConsumeExpired
                               (stage_existing c db item Expired (pa_operator_id item) current None event_id)
                        else (case row_of db approval_id of
                                None \<Rightarrow> Inr ConsumeRefused
                              | Some row \<Rightarrow> Inr (ConsumeExpired (put_row db approval_id
                                  (row\<lparr>pa_status := Expired, pa_terminal_at := Some current\<rparr>)))))
                     else
                       (if has_sink
                        then map_result (\<lambda>db'. ConsumeGranted db' item)
                               (stage_existing c db item Consumed (pa_operator_id item) current None event_id)
                        else (case row_of db approval_id of
                                None \<Rightarrow> Inr ConsumeRefused
                              | Some row \<Rightarrow> Inr (ConsumeGranted
                                  (put_row db approval_id
                                     (row\<lparr>pa_status := Consumed, pa_consumed_at := Some current\<rparr>))
                                  (item\<lparr>pa_status := Consumed, pa_consumed_at := Some current\<rparr>))))))))"

definition dq_get :: "'s durable_queue \<Rightarrow> pystr \<Rightarrow> approval_error + pending_approval option" where
  "dq_get q approval_id = read_item (dq_db q) approval_id"

definition dq_consume_approved ::
    "'s sink_put \<Rightarrow> 's sink_verify \<Rightarrow> 's durable_queue \<Rightarrow> pystr \<Rightarrow> pystr \<Rightarrow> pystr \<Rightarrow> json_object \<Rightarrow> pystr
     \<Rightarrow> (nat \<Rightarrow> pyfloat) \<Rightarrow> 's durable_queue \<times> (approval_error + pending_approval option)" where
  "dq_consume_approved put verify q approval_id agent_id action required_context event_id clock =
     (case consume_transaction (dq_config q) (dq_sink q \<noteq> None) (dq_db q) approval_id agent_id action
         required_context event_id (clock 1) of
        Inl e \<Rightarrow> (q, Inl e)
      | Inr ConsumeRefused \<Rightarrow> (q, Inr None)
      | Inr (ConsumeExpired db) \<Rightarrow>
          if dq_sink q = None then (q\<lparr>dq_db := db\<rparr>, Inr None)
          else (case flush_event put verify (q\<lparr>dq_db := db\<rparr>) event_id (clock 2) of
                  (q', r) \<Rightarrow> (q', map_result (\<lambda>_. None) r))
      | Inr (ConsumeGranted db item) \<Rightarrow>
          if dq_sink q = None then (q\<lparr>dq_db := db\<rparr>, Inr (Some item))
          else (case flush_event put verify (q\<lparr>dq_db := db\<rparr>) event_id (clock 2) of
                  (q', Inl e) \<Rightarrow> (q', Inl e)
                | (q', Inr _) \<Rightarrow> (q', dq_get q' approval_id)))"

subsection \<open>Queries and purging\<close>

definition dq_get_status :: "'s durable_queue \<Rightarrow> pystr \<Rightarrow> approval_error + pystr" where
  "dq_get_status q approval_id =
     map_result (\<lambda>found. case found of None \<Rightarrow> ''not_found'' | Some item \<Rightarrow> status_name (pa_status item))
       (dq_get q approval_id)"

fun from_rows :: "approval_row list \<Rightarrow> approval_error + pending_approval list" where
  "from_rows [] = Inr []"
| "from_rows (r # rs) = bind_result (from_row r) (\<lambda>item. map_result (Cons item) (from_rows rs))"

definition dq_get_pending :: "'s durable_queue \<Rightarrow> approval_error + pending_approval list" where
  "dq_get_pending q = from_rows (filter (\<lambda>r. pa_status r = Pending) (map snd (db_approvals (dq_db q))))"

definition dq_get_all :: "'s durable_queue \<Rightarrow> approval_error + pending_approval list" where
  "dq_get_all q = from_rows (map snd (db_approvals (dq_db q)))"

definition purgeable :: "approval_db \<Rightarrow> time \<Rightarrow> pystr \<times> approval_row \<Rightarrow> bool" where
  "purgeable db cutoff kv \<longleftrightarrow>
     pa_status (snd kv) \<in> {Denied, Consumed, Expired}
     \<and> (case pa_terminal_at (snd kv) of None \<Rightarrow> False | Some t \<Rightarrow> t < cutoff)
     \<and> \<not> list_ex (\<lambda>(_, o'). ob_approval_id o' = fst kv
            \<and> (ob_state o' \<noteq> OutboxDelivered
                \<or> (case ob_delivered_at o' of None \<Rightarrow> True | Some t \<Rightarrow> cutoff \<le> t))) (db_outbox db)"

definition purge_transaction :: "approval_db \<Rightarrow> time \<Rightarrow> time \<Rightarrow> approval_db" where
  "purge_transaction db cutoff current =
     (let ids = map fst (filter (purgeable db cutoff) (db_approvals db)) in
      db\<lparr>db_outbox := filter (\<lambda>kv. \<not> (ob_approval_id (snd kv) \<in> set ids \<and> ob_state (snd kv) = OutboxDelivered))
            (db_outbox db),
         db_approvals := filter (\<lambda>kv. fst kv \<notin> set ids) (db_approvals db),
         db_tombstones := filter (\<lambda>kv. \<not> tb_retain_until (snd kv) \<le> current) (db_tombstones db)\<rparr>)"

definition dq_purge_expired :: "'s durable_queue \<Rightarrow> pyfloat \<Rightarrow> 's durable_queue \<times> (approval_error + nat)" where
  "dq_purge_expired q clock =
     (case read_now clock of
        Inl e \<Rightarrow> (q, Inl e)
      | Inr current \<Rightarrow>
          (let cutoff = current - dc_max_age (dq_config q) in
           (q\<lparr>dq_db := purge_transaction (dq_db q) cutoff current\<rparr>,
            Inr (length (filter (purgeable (dq_db q) cutoff) (db_approvals (dq_db q)))))))"

subsection \<open>The evidence of a consumed approval\<close>

text \<open>\<open>verify_consumed_binding\<close>: the three delivered transitions in ledger order.\<close>

definition delivered_rows :: "approval_db \<Rightarrow> pystr \<Rightarrow> outbox_row list" where
  "delivered_rows db approval_id =
     filter (\<lambda>o'. ob_approval_id o' = approval_id \<and> ob_state o' = OutboxDelivered) (map snd (db_outbox db))"

definition row_receipt :: "outbox_row \<Rightarrow> json_object" where
  "row_receipt o' = (case ob_receipt o' of None \<Rightarrow> [] | Some r \<Rightarrow> r)"

fun event_pairs :: "outbox_row list \<Rightarrow> approval_error + (audit_event \<times> json_object) list" where
  "event_pairs [] = Inr []"
| "event_pairs (o' # rows) =
     bind_result (event_from_row o') (\<lambda>e. map_result (Cons (e, row_receipt o')) (event_pairs rows))"

definition ledger_seq :: "json_object \<Rightarrow> int" where
  "ledger_seq receipt = number_of (dict_get receipt ''ledger_seq'' JNull)"

definition same_proof :: "proof_envelope option \<Rightarrow> proof_envelope option \<Rightarrow> bool" where
  "same_proof p p' =
     (case (p, p') of
        (Some a, Some b) \<Rightarrow> py_eq (JObj (envelope_to_dict a)) (JObj (envelope_to_dict b))
      | (None, None) \<Rightarrow> True
      | _ \<Rightarrow> False)"

definition consumed_lineage ::
    "(bytes \<Rightarrow> pystr) \<Rightarrow> pending_approval \<Rightarrow> pystr \<Rightarrow> pystr \<Rightarrow> proof_envelope \<Rightarrow> json_object
     \<Rightarrow> (audit_event \<times> json_object) list \<Rightarrow> bool" where
  "consumed_lineage sha item agent_id action proof audit_receipt pairs =
     (case pairs of
        [(pending, r0), (approved, r1), (consumed, r2)] \<Rightarrow>
          (let digest = canonical_context_digest sha (pa_context item) in
           [ev_transition pending, ev_transition approved, ev_transition consumed]
             = [''pending'', ''approved'', ''consumed'']
           \<and> list_all (\<lambda>e. ev_approval_id e = pa_approval_id item \<and> ev_agent_id e = agent_id
                 \<and> ev_action e = action \<and> ev_context_digest e = digest) [pending, approved, consumed]
           \<and> ev_operator_id pending = [] \<and> ev_decision_proof pending = None
           \<and> ev_operator_id approved = pa_operator_id item \<and> ev_operator_id consumed = pa_operator_id item
           \<and> same_proof (ev_decision_proof approved) (Some proof)
           \<and> same_proof (ev_decision_proof consumed) (Some proof)
           \<and> verifies_binding sha proof
               \<lparr>db_approval_id = pa_approval_id item, db_agent_id = agent_id, db_action = action,
                db_context_digest = digest, db_decision = ''approved'', db_operator_id = pa_operator_id item\<rparr>
           \<and> number_of (ev_transition_ts pending) \<le> number_of (ev_transition_ts approved)
           \<and> number_of (ev_transition_ts approved) \<le> number_of (ev_transition_ts consumed)
           \<and> ledger_seq r0 < ledger_seq r1 \<and> ledger_seq r1 < ledger_seq r2
           \<and> ev_event_id consumed = pa_audit_event_id item
           \<and> py_eq (JObj r2) (JObj audit_receipt))
      | _ \<Rightarrow> False)"

definition verify_consumed_binding ::
    "'s sink_verify \<Rightarrow> 's durable_queue \<Rightarrow> pending_approval \<Rightarrow> pystr \<Rightarrow> pystr \<Rightarrow> json_object
     \<Rightarrow> approval_error + bool" where
  "verify_consumed_binding verify q item agent_id action required_context =
     (let sha = dc_sha (dq_config q) in
      case dq_sink q of
        None \<Rightarrow> Inr (\<not> dc_audit_required (dq_config q))
      | Some sink \<Rightarrow>
          if pa_status item \<noteq> Consumed \<or> pa_agent_id item \<noteq> agent_id \<or> pa_action item \<noteq> action then Inr False
          else if \<not> context_matches (pa_context item) required_context then Inr False
          else (let rows = delivered_rows (dq_db q) (pa_approval_id item) in
            case (pa_audit_receipt item, pa_decision_proof item) of
              (Some audit_receipt, Some proof) \<Rightarrow>
                if length rows \<noteq> 3 \<or> audit_receipt = [] then Inr False
                else bind_result (event_pairs rows) (\<lambda>pairs.
                  if \<not> list_all (\<lambda>pr. is_int (map_of (snd pr) ''ledger_seq'')) pairs then Inr False
                  else (let sorted_pairs = sort_key (\<lambda>pr. ledger_seq (snd pr)) pairs in
                    Inr (consumed_lineage sha item agent_id action proof audit_receipt sorted_pairs
                         \<and> list_all (\<lambda>pr. receipt_matches_event sha (snd pr) (fst pr)
                                          \<and> verify sink (fst pr) (snd pr)) sorted_pairs)))
            | _ \<Rightarrow> Inr False))"

text \<open>\<open>__init__\<close>, after the schema checks: the configuration, then \<open>reconcile\<close>.\<close>

definition dq_open ::
    "'s sink_put \<Rightarrow> 's sink_verify \<Rightarrow> durable_config \<Rightarrow> approval_db \<Rightarrow> 's option \<Rightarrow> pyfloat \<Rightarrow> (nat \<Rightarrow> pyfloat)
     \<Rightarrow> approval_error + 's durable_queue" where
  "dq_open put verify c db sink clock clocks =
     (if dc_nonce_retention c \<le> 0 then Inl AuditValueError
      else bind_result (read_now clock) (\<lambda>_.
        if dc_audit_required c \<and> sink = None then Inl ApprovalAuditError
        else if dc_audit_required c \<and> dc_verifier c = None then Inl ApprovalAuditError
        else (let q = \<lparr>dq_config = c, dq_db = db, dq_sink = sink\<rparr> in
              if sink = None then Inr q
              else (case reconcile put verify q clocks of
                      (q', Inl e) \<Rightarrow> Inl e
                    | (q', Inr _) \<Rightarrow> Inr q'))))"

end
