(* ===== verification/DurableProofs.thy ===== *)
theory DurableProofs
  imports Durable ApprovalSpec
begin

text \<open>
  What the transactions of the theory Durable keep. \<open>dq_run\<close> is one transaction or one
  delivery of some process on the shared database and sink, so a list of its operations
  is any interleaving of any number of processes, with a crash wherever a delivery or a
  finalization does not follow.
\<close>

subsection \<open>Transactions as steps\<close>

datatype dq_op =
    DqSubmit pystr pystr pystr pystr json_object pyfloat
  | DqDecide bool pystr pystr "bytes option" pystr "nat \<Rightarrow> pyfloat"
  | DqSystemDeny pystr pystr pystr pystr pyfloat
  | DqConsume pystr pystr pystr json_object pystr pyfloat
  | DqDeliver pystr
  | DqFinalize pystr audit_event json_object pyfloat
  | DqPurge pyfloat

type_synonym 's dq_state = "approval_db \<times> 's"

definition committed_db :: "approval_db \<Rightarrow> 'e + approval_db \<Rightarrow> approval_db" where
  "committed_db db r = (case r of Inl _ \<Rightarrow> db | Inr db' \<Rightarrow> db')"

text \<open>
  A finalization acts with an event and a receipt that some delivery obtained, at
  whatever moment: all that is known of them is that they match and verify, and that
  the event carries a float time, as every event the queue writes does.
\<close>

definition float_stamped :: "audit_event \<Rightarrow> bool" where
  "float_stamped event = (case ev_transition_ts event of JFloat _ \<Rightarrow> True | _ \<Rightarrow> False)"

definition dq_run ::
    "durable_config \<Rightarrow> 's sink_put \<Rightarrow> 's sink_verify \<Rightarrow> 's dq_state \<Rightarrow> dq_op
     \<Rightarrow> 's dq_state \<times> pending_approval option" where
  "dq_run c put verify st op =
     (let (db, s) = st in
      case op of
        DqSubmit i e a x ctx t \<Rightarrow> ((committed_db db (submit_transaction c db i e a x ctx t), s), None)
      | DqDecide approve i o' proof e cl \<Rightarrow>
          ((case decide_transaction c True db (if approve then Approved else Denied) i o' proof e cl of
              Inr (Some db') \<Rightarrow> db' | _ \<Rightarrow> db, s), None)
      | DqSystemDeny i o' nonce e t \<Rightarrow>
          ((case (if valid_operator_id o' then system_denial_transaction c db i o' nonce e t else Inr None) of
              Inr (Some db') \<Rightarrow> db' | _ \<Rightarrow> db, s), None)
      | DqConsume i a x ctx e t \<Rightarrow>
          (case consume_transaction c True db i a x ctx e t of
             Inr (ConsumeExpired db') \<Rightarrow> ((db', s), None)
           | Inr (ConsumeGranted db' item) \<Rightarrow> ((db', s), Some item)
           | _ \<Rightarrow> ((db, s), None))
      | DqDeliver e \<Rightarrow> ((db, fst (flush_deliver c put verify db s e)), None)
      | DqFinalize e event receipt t \<Rightarrow>
          (if receipt_matches_event (dc_sha c) receipt event \<and> verify s event receipt \<and> float_stamped event
           then ((committed_db db (flush_finalize c db e event receipt t), s), None)
           else ((db, s), None))
      | DqPurge t \<Rightarrow>
          ((case read_now t of Inl _ \<Rightarrow> db
            | Inr now \<Rightarrow> purge_transaction db (now - dc_max_age c) now, s), None))"

definition dq_submits :: "dq_op \<Rightarrow> pystr option" where
  "dq_submits op = (case op of DqSubmit i _ _ _ _ _ \<Rightarrow> Some i | _ \<Rightarrow> None)"

definition row_phase :: "approval_row \<Rightarrow> nat" where
  "row_phase row =
     (if pa_status row = AuditPending
      then (case ar_pending_status row of None \<Rightarrow> 0 | Some target \<Rightarrow> status_phase target)
      else status_phase (pa_status row))"

definition dq_phase :: "'s dq_state \<Rightarrow> pystr \<Rightarrow> nat" where
  "dq_phase st i = (case row_of (fst st) i of None \<Rightarrow> 2 | Some row \<Rightarrow> row_phase row)"

subsection \<open>What each transaction does to the tables\<close>

lemma row_of_put_row [simp]: "row_of (put_row db i row) j = (if j = i then Some row else row_of db j)"
  by (simp add: row_of_def put_row_def)

lemma put_row_other [simp]:
  "db_outbox (put_row db i row) = db_outbox db" "db_tombstones (put_row db i row) = db_tombstones db"
  by (simp_all add: put_row_def)

lemma row_of_outbox_update [simp]: "row_of (db\<lparr>db_outbox := x\<rparr>) i = row_of db i"
  "row_of (db\<lparr>db_tombstones := y\<rparr>) i = row_of db i"
  by (simp_all add: row_of_def)

text \<open>A staged transition.\<close>

definition staged_by :: "durable_config \<Rightarrow> approval_db \<Rightarrow> approval_db \<Rightarrow> approval_row \<Rightarrow> pending_approval
    \<Rightarrow> approval_status \<Rightarrow> time \<Rightarrow> proof_envelope option \<Rightarrow> audit_event \<Rightarrow> bool" where
  "staged_by c db db' row item transition ts proof event \<longleftrightarrow>
     event_post_init event = Inr event
     \<and> row_of db (pa_approval_id item) = Some row \<and> pa_status row = pa_status item
     \<and> map_of (db_outbox db) (ev_event_id event) = None
     \<and> \<not> nonce_taken db (pa_approval_id item) (map_option pe_nonce (ev_decision_proof event))
     \<and> db_approvals db' = AList.update (pa_approval_id item) (staged_row c row item transition ts event) (db_approvals db)
     \<and> db_outbox db' = db_outbox db @ [(ev_event_id event, new_outbox event)]
     \<and> (case proof of
          None \<Rightarrow> db_tombstones db' = db_tombstones db
        | Some p \<Rightarrow> map_of (db_tombstones db) (pe_nonce p) = None
            \<and> (\<exists>t. db_tombstones db' = db_tombstones db @ [(pe_nonce p, t)]
                  \<and> tb_approval_id t = pa_approval_id item \<and> tb_retain_until t = ts + dc_nonce_retention c))"

lemma stage_existing_Inr:
  assumes "stage_existing c db item transition operator_id ts proof event_id = Inr db'"
  obtains row where "staged_by c db db' row item transition ts proof
    (staged_event c item transition operator_id ts proof event_id)"
proof -
  let ?ev = "staged_event c item transition operator_id ts proof event_id"
  from assms have post: "event_post_init ?ev = Inr ?ev"
    by (auto simp: stage_existing_def bind_result_Inr_iff dest: post_init_same(1))
  with assms obtain db1 where db1: "(case proof of None \<Rightarrow> Inr db
      | Some p \<Rightarrow> insert_tombstone db (pe_nonce p) \<lparr>tb_approval_id = pa_approval_id item, tb_recorded_at = ts,
             tb_retain_until = ts + dc_nonce_retention c\<rparr>) = Inr db1"
    and rest: "(case row_of db1 (pa_approval_id item) of
       None \<Rightarrow> Inl ApprovalAuditError
     | Some row \<Rightarrow>
         if pa_status row \<noteq> pa_status item then Inl ApprovalAuditError
         else if nonce_taken db1 (pa_approval_id item) (map_option pe_nonce (ev_decision_proof ?ev))
           then Inl SqliteIntegrityError
         else insert_outbox (put_row db1 (pa_approval_id item) (staged_row c row item transition ts ?ev)) ?ev) = Inr db'"
    by (auto simp: stage_existing_def bind_result_Inr_iff)
  have tables: "db_approvals db1 = db_approvals db" "db_outbox db1 = db_outbox db"
    using db1 by (auto simp: insert_tombstone_def split: option.splits if_splits)
  have tomb: "case proof of
          None \<Rightarrow> db_tombstones db1 = db_tombstones db
        | Some p \<Rightarrow> map_of (db_tombstones db) (pe_nonce p) = None
            \<and> (\<exists>t. db_tombstones db1 = db_tombstones db @ [(pe_nonce p, t)]
                  \<and> tb_approval_id t = pa_approval_id item \<and> tb_retain_until t = ts + dc_nonce_retention c)"
    using db1 by (auto simp: insert_tombstone_def split: option.splits if_splits)
  from rest obtain row where row: "row_of db1 (pa_approval_id item) = Some row" "pa_status row = pa_status item"
    and free: "\<not> nonce_taken db1 (pa_approval_id item) (map_option pe_nonce (ev_decision_proof ?ev))"
    and out: "insert_outbox (put_row db1 (pa_approval_id item) (staged_row c row item transition ts ?ev)) ?ev = Inr db'"
    by (auto split: option.splits if_splits)
  from out have new: "map_of (db_outbox db) (ev_event_id ?ev) = None"
      "db_approvals db' = AList.update (pa_approval_id item) (staged_row c row item transition ts ?ev) (db_approvals db)"
      "db_outbox db' = db_outbox db @ [(ev_event_id ?ev, new_outbox ?ev)]"
      "db_tombstones db' = db_tombstones db1"
    by (auto simp: insert_outbox_def tables put_row_def split: if_splits)
  have same: "row_of db1 = row_of db" "nonce_taken db1 = nonce_taken db"
    by (intro ext; simp add: row_of_def nonce_taken_def tables)+
  show thesis
    using that[of row] post row free new tomb unfolding staged_by_def same by (auto split: option.splits)
qed

subsection \<open>The invariant\<close>

text \<open>
  A settled row carries its evidence: the delivered outbox event it names agrees with
  every column of it, and the receipt stored with both verifies in the sink.
\<close>

definition evidenced ::
    "(bytes \<Rightarrow> pystr) \<Rightarrow> 's sink_verify \<Rightarrow> approval_db \<Rightarrow> 's \<Rightarrow> pystr \<Rightarrow> approval_row \<Rightarrow> bool" where
  "evidenced sha verify db s i row \<longleftrightarrow>
     (case map_of (db_outbox db) (pa_audit_event_id row) of
        None \<Rightarrow> False
      | Some o' \<Rightarrow>
          ob_approval_id o' = i \<and> ob_state o' = OutboxDelivered \<and> pa_audit_receipt row = ob_receipt o'
          \<and> (case (event_from_row o', ob_receipt o') of
               (Inr event, Some r) \<Rightarrow> valid_event_state sha o' row event
                  \<and> receipt_matches_event sha r event \<and> verify s event r
             | _ \<Rightarrow> False))"

text \<open>A row in transition names its staged event, ready to be delivered.\<close>

definition staged :: "(bytes \<Rightarrow> pystr) \<Rightarrow> approval_db \<Rightarrow> pystr \<Rightarrow> approval_row \<Rightarrow> bool" where
  "staged sha db i row \<longleftrightarrow>
     (case Option.bind (ar_pending_event_id row) (map_of (db_outbox db)) of
        None \<Rightarrow> False
      | Some o' \<Rightarrow>
          ob_approval_id o' = i \<and> ob_state o' = OutboxPending
          \<and> (case event_from_row o' of
               Inr event \<Rightarrow> valid_event_state sha o' row event \<and> float_stamped event
             | _ \<Rightarrow> False))"

definition row_target :: "approval_row \<Rightarrow> approval_status" where
  "row_target row = (case ar_pending_status row of None \<Rightarrow> pa_status row | Some t \<Rightarrow> t)"

text \<open>The decision proof of a row is bound to this approval and its decision.\<close>

definition proof_bound :: "(bytes \<Rightarrow> pystr) \<Rightarrow> approval_row \<Rightarrow> bool" where
  "proof_bound sha row \<longleftrightarrow>
     (case pa_decision_proof row of
        None \<Rightarrow> row_target row = Pending
      | Some p \<Rightarrow> row_target row \<noteq> Pending \<and> envelope_post_init p = Inr p
          \<and> pe_operator_subject p = pa_operator_id row
          \<and> verifies_binding sha p
              \<lparr>db_approval_id = pa_approval_id row, db_agent_id = pa_agent_id row, db_action = pa_action row,
               db_context_digest = canonical_context_digest sha (pa_context row),
               db_decision = (if row_target row = Denied then ''denied'' else ''approved''),
               db_operator_id = pa_operator_id row\<rparr>)"

definition row_ok ::
    "(bytes \<Rightarrow> pystr) \<Rightarrow> 's sink_verify \<Rightarrow> approval_db \<Rightarrow> 's \<Rightarrow> pystr \<Rightarrow> approval_row \<Rightarrow> bool" where
  "row_ok sha verify db s i row \<longleftrightarrow>
     pa_approval_id row = i
     \<and> (if pa_status row = AuditPending
        then ar_pending_status row \<notin> {None, Some AuditPending} \<and> staged sha db i row
        else ar_pending_status row = None \<and> evidenced sha verify db s i row)
     \<and> ar_decision_nonce row = map_option pe_nonce (pa_decision_proof row)
     \<and> proof_bound sha row"

definition rows_ok :: "(bytes \<Rightarrow> pystr) \<Rightarrow> 's sink_verify \<Rightarrow> approval_db \<Rightarrow> 's \<Rightarrow> bool" where
  "rows_ok sha verify db s \<longleftrightarrow> list_all (\<lambda>(i, row). row_ok sha verify db s i row) (db_approvals db)"

definition tables_ok :: "approval_db \<Rightarrow> bool" where
  "tables_ok db \<longleftrightarrow> wf_dict (db_approvals db) \<and> wf_dict (db_outbox db) \<and> wf_dict (db_tombstones db)
     \<and> list_all (\<lambda>(i, row). \<not> nonce_taken db i (ar_decision_nonce row)) (db_approvals db)"

definition dq_inv :: "durable_config \<Rightarrow> 's sink_verify \<Rightarrow> ('s \<Rightarrow> bool) \<Rightarrow> 's dq_state \<Rightarrow> bool" where
  "dq_inv c verify sound st \<longleftrightarrow>
     sound (snd st) \<and> tables_ok (fst st) \<and> rows_ok (dc_sha c) verify (fst st) (snd st)"

lemma rows_okD: "rows_ok sha verify db s \<Longrightarrow> row_of db i = Some row \<Longrightarrow> row_ok sha verify db s i row"
  by (auto simp: rows_ok_def list_all_iff row_of_def dest: map_of_SomeD)

lemma rows_okI:
  "wf_dict (db_approvals db) \<Longrightarrow> (\<And>i row. row_of db i = Some row \<Longrightarrow> row_ok sha verify db s i row)
   \<Longrightarrow> rows_ok sha verify db s"
  by (auto simp: rows_ok_def list_all_iff row_of_def wf_dict_map_of)

lemma evidenced_iff:
  "evidenced sha verify db s i row \<longleftrightarrow> (\<exists>o' event r.
     map_of (db_outbox db) (pa_audit_event_id row) = Some o' \<and> ob_approval_id o' = i
     \<and> ob_state o' = OutboxDelivered \<and> pa_audit_receipt row = Some r \<and> ob_receipt o' = Some r
     \<and> event_from_row o' = Inr event \<and> valid_event_state sha o' row event
     \<and> receipt_matches_event sha r event \<and> verify s event r)"
  by (auto simp: evidenced_def split: option.splits sum.splits)

lemma staged_iff:
  "staged sha db i row \<longleftrightarrow> (\<exists>e o' event.
     ar_pending_event_id row = Some e \<and> map_of (db_outbox db) e = Some o' \<and> ob_approval_id o' = i
     \<and> ob_state o' = OutboxPending \<and> event_from_row o' = Inr event \<and> valid_event_state sha o' row event
     \<and> float_stamped event)"
  by (cases "ar_pending_event_id row") (auto simp: staged_def split: option.splits sum.splits)

text \<open>A row stays sound while its own outbox rows stay and the sink only learns more.\<close>

lemma row_ok_mono:
  assumes ok: "row_ok sha verify db s i row"
    and kept: "\<And>e o'. map_of (db_outbox db) e = Some o' \<Longrightarrow> ob_approval_id o' = i \<Longrightarrow> map_of (db_outbox db') e = Some o'"
    and sink: "\<And>event r. verify s event r \<Longrightarrow> verify s' event r"
  shows "row_ok sha verify db' s' i row"
proof -
  have "evidenced sha verify db s i row \<Longrightarrow> evidenced sha verify db' s' i row"
    unfolding evidenced_iff using kept sink by blast
  moreover have "staged sha db i row \<Longrightarrow> staged sha db' i row"
    unfolding staged_iff using kept by blast
  ultimately show ?thesis using ok by (simp add: row_ok_def split: if_splits)
qed

subsection \<open>Unique nonces\<close>

lemma nonce_taken_iff:
  "wf_dict (db_approvals db) \<Longrightarrow> nonce_taken db i n \<longleftrightarrow>
     n \<noteq> None \<and> (\<exists>j row. j \<noteq> i \<and> row_of db j = Some row \<and> ar_decision_nonce row = n)"
  by (auto simp: nonce_taken_def list_ex_iff row_of_def wf_dict_map_of)

definition nonces_unique :: "approval_db \<Rightarrow> bool" where
  "nonces_unique db \<longleftrightarrow> (\<forall>i j ri rj n. row_of db i = Some ri \<longrightarrow> row_of db j = Some rj
     \<longrightarrow> ar_decision_nonce ri = Some n \<longrightarrow> ar_decision_nonce rj = Some n \<longrightarrow> i = j)"

lemma nonces_unique_iff:
  assumes wf: "wf_dict (db_approvals db)"
  shows "list_all (\<lambda>(i, row). \<not> nonce_taken db i (ar_decision_nonce row)) (db_approvals db) \<longleftrightarrow> nonces_unique db"
  (is "?all \<longleftrightarrow> _")
proof
  assume ?all
  then have free: "\<not> nonce_taken db i (ar_decision_nonce row)" if "row_of db i = Some row" for i row
    using that by (simp add: list_all_dict[OF wf] row_of_def)
  show "nonces_unique db" unfolding nonces_unique_def
  proof (intro allI impI)
    fix i j ri rj n
    assume rows: "row_of db i = Some ri" "row_of db j = Some rj"
      "ar_decision_nonce ri = Some n" "ar_decision_nonce rj = Some n"
    with free[of i ri] show "i = j" by (auto simp: nonce_taken_iff[OF wf])
  qed
next
  assume "nonces_unique db"
  then show ?all
    unfolding list_all_dict[OF wf] nonce_taken_iff[OF wf] nonces_unique_def row_of_def by fastforce
qed

lemma tables_ok_iff:
  "tables_ok db \<longleftrightarrow> wf_dict (db_approvals db) \<and> wf_dict (db_outbox db) \<and> wf_dict (db_tombstones db)
     \<and> nonces_unique db"
  using nonces_unique_iff[of db] by (auto simp: tables_ok_def)

lemma nonces_unique_put:
  assumes "nonces_unique db" "wf_dict (db_approvals db)" "\<not> nonce_taken db i (ar_decision_nonce new)"
    and "\<And>j. row_of db' j = (if j = i then Some new else row_of db j)"
  shows "nonces_unique db'"
  using assms(1,3) unfolding nonces_unique_def nonce_taken_iff[OF assms(2)] assms(4)
  by (auto split: if_splits)

lemma nonces_unique_subset:
  "nonces_unique db \<Longrightarrow> (\<And>i row. row_of db' i = Some row \<Longrightarrow> \<exists>row0. row_of db i = Some row0
     \<and> ar_decision_nonce row0 = ar_decision_nonce row) \<Longrightarrow> nonces_unique db'"
  unfolding nonces_unique_def by metis

subsection \<open>Staging keeps the invariant\<close>

lemma staged_by_rows:
  assumes "staged_by c db db' row item transition ts proof event"
  shows "row_of db' j = (if j = pa_approval_id item then Some (staged_row c row item transition ts event) else row_of db j)"
    "map_of (db_outbox db') = (map_of (db_outbox db))(ev_event_id event \<mapsto> new_outbox event)"
  using assms by (auto simp: staged_by_def row_of_def map_add_new)

lemma staged_by_tables:
  assumes st: "staged_by c db db' row item transition ts proof event" and ok: "tables_ok db"
  shows "tables_ok db'"
proof -
  from ok have wf: "wf_dict (db_approvals db)" by (simp add: tables_ok_iff)
  have "nonces_unique db'"
    using st ok by (intro nonces_unique_put[OF _ wf _ staged_by_rows(1)[OF st]])
      (auto simp: staged_by_def staged_row_def tables_ok_iff)
  moreover have "wf_dict (db_tombstones db')"
    using st ok by (auto simp: staged_by_def tables_ok_iff wf_dict_append split: option.splits)
  ultimately show ?thesis using st ok by (auto simp: staged_by_def tables_ok_iff wf_dict_append)
qed

text \<open>The item a transaction works on is the row it read.\<close>

lemma read_item_Some:
  assumes "read_item db i = Inr (Some item)"
  obtains row where "row_of db i = Some row" "item = pending_approval.truncate row"
    "case pa_decision_proof row of None \<Rightarrow> True | Some p \<Rightarrow> envelope_post_init p = Inr p"
  using assms
  by (auto simp: read_item_def from_row_def map_result_def split: option.splits sum.splits dest: post_init_same)

lemma truncate_sel [simp]:
  "pa_approval_id (pending_approval.truncate row) = pa_approval_id row"
  "pa_agent_id (pending_approval.truncate row) = pa_agent_id row"
  "pa_action (pending_approval.truncate row) = pa_action row"
  "pa_context (pending_approval.truncate row) = pa_context row"
  "pa_submitted_at (pending_approval.truncate row) = pa_submitted_at row"
  "pa_status (pending_approval.truncate row) = pa_status row"
  "pa_operator_id (pending_approval.truncate row) = pa_operator_id row"
  "pa_decided_at (pending_approval.truncate row) = pa_decided_at row"
  "pa_consumed_at (pending_approval.truncate row) = pa_consumed_at row"
  "pa_expires_at (pending_approval.truncate row) = pa_expires_at row"
  "pa_terminal_at (pending_approval.truncate row) = pa_terminal_at row"
  "pa_decision_proof (pending_approval.truncate row) = pa_decision_proof row"
  "pa_audit_event_id (pending_approval.truncate row) = pa_audit_event_id row"
  "pa_audit_receipt (pending_approval.truncate row) = pa_audit_receipt row"
  by (cases row; simp add: pending_approval.truncate_def)+

definition bound_to :: "(bytes \<Rightarrow> pystr) \<Rightarrow> pending_approval \<Rightarrow> approval_status \<Rightarrow> pystr \<Rightarrow> proof_envelope \<Rightarrow> bool" where
  "bound_to sha item transition operator_id p \<longleftrightarrow>
     envelope_post_init p = Inr p \<and> pe_operator_subject p = operator_id
     \<and> verifies_binding sha p
         \<lparr>db_approval_id = pa_approval_id item, db_agent_id = pa_agent_id item, db_action = pa_action item,
          db_context_digest = canonical_context_digest sha (pa_context item),
          db_decision = (if transition = Denied then ''denied'' else ''approved''), db_operator_id = operator_id\<rparr>"

lemma status_name_transitions:
  "transition \<notin> {AuditPending, Pending} \<Longrightarrow>
     status_name transition \<in> {''approved'', ''denied'', ''consumed'', ''expired''} \<and> status_name transition \<noteq> ''pending''"
  by (cases transition) auto

lemma staged_row_ok:
  assumes st: "staged_by c db db' row item transition ts proof event"
    and event: "event = staged_event c item transition operator_id ts proof event_id"
    and item: "item = pending_approval.truncate row" "pa_approval_id row = i"
    and kind: "transition \<notin> {AuditPending, Pending}" and op: "operator_id \<noteq> []"
    and p: "ev_decision_proof event = Some p" and bound: "bound_to (dc_sha c) item transition operator_id p"
  shows "row_ok (dc_sha c) verify db' s i (staged_row c row item transition ts event)"
proof -
  let ?row = "staged_row c row item transition ts event"
  have valid: "event_valid event"
    using st p bound by (simp add: event_valid_def staged_by_def bound_to_def)
  have read: "event_from_row (new_outbox event) = Inr event"
    using valid by (simp add: event_from_row_def new_outbox_def event_from_to_dict)
  have state: "valid_event_state (dc_sha c) (new_outbox event) ?row event"
    using p op kind status_name_transitions[OF kind]
    by (auto simp: valid_event_state_def new_outbox_def staged_row_def event staged_event_def item)
  have "map_of (db_outbox db') (ev_event_id event) = Some (new_outbox event)"
    by (simp add: staged_by_rows(2)[OF st])
  with read state have "staged (dc_sha c) db' i ?row"
    by (auto simp: staged_iff float_stamped_def staged_row_def new_outbox_def event staged_event_def item)
  moreover have "proof_bound (dc_sha c) ?row"
    using p bound kind op
    by (auto simp: proof_bound_def bound_to_def staged_row_def row_target_def item event staged_event_def)
  ultimately show ?thesis using kind p
    by (simp add: row_ok_def staged_row_def item)
qed

lemma inv_staged:
  assumes inv: "dq_inv c verify sound (db, s)"
    and stage: "stage_existing c db item transition operator_id ts proof event_id = Inr db'"
    and read: "read_item db i = Inr (Some item)"
    and kind: "transition \<notin> {AuditPending, Pending}" and op: "operator_id \<noteq> []"
    and p: "(case proof of None \<Rightarrow> pa_decision_proof item | Some p \<Rightarrow> Some p) = Some p"
    and bound: "bound_to (dc_sha c) item transition operator_id p"
  shows "dq_inv c verify sound (db', s)"
    "row_of db' j = (if j = i then row_of db' i else row_of db j)"
    "\<exists>row. row_of db i = Some row \<and> pa_approval_id item = i \<and> pa_status item = pa_status row
       \<and> row_of db' i = Some (staged_row c row item transition ts
            (staged_event c item transition operator_id ts proof event_id))"
proof -
  let ?ev = "staged_event c item transition operator_id ts proof event_id"
  from read obtain row where row: "row_of db i = Some row" "item = pending_approval.truncate row"
    by (rule read_item_Some)
  from inv have ok: "rows_ok (dc_sha c) verify db s" "tables_ok db" "sound s"
    by (simp_all add: dq_inv_def)
  have id: "pa_approval_id row = i" using rows_okD[OF ok(1) row(1)] by (simp add: row_ok_def)
  from stage obtain row' where st: "staged_by c db db' row' item transition ts proof ?ev"
    by (rule stage_existing_Inr)
  have same: "row' = row" using st row id by (simp add: staged_by_def)
  note st = st[unfolded same]
  have ids: "pa_approval_id item = i" using row id by simp
  note rows = staged_by_rows[OF st, unfolded ids]
  have "rows_ok (dc_sha c) verify db' s"
  proof (rule rows_okI)
    show "wf_dict (db_approvals db')" using staged_by_tables[OF st ok(2)] by (simp add: tables_ok_iff)
    fix j rj assume rj: "row_of db' j = Some rj"
    show "row_ok (dc_sha c) verify db' s j rj"
    proof (cases "j = i")
      case True
      have "ev_decision_proof ?ev = Some p" using p by (simp add: staged_event_def)
      from staged_row_ok[OF st refl row(2) id kind op this bound] True rj rows show ?thesis by simp
    next
      case False
      with rj rows have old: "row_of db j = Some rj" by simp
      from st have "map_of (db_outbox db) (ev_event_id ?ev) = None" by (simp add: staged_by_def)
      then show ?thesis
        by (intro row_ok_mono[OF rows_okD[OF ok(1) old]]) (auto simp: rows)
    qed
  qed
  then show "dq_inv c verify sound (db', s)"
    using staged_by_tables[OF st ok(2)] ok(3) by (simp add: dq_inv_def)
  show "row_of db' j = (if j = i then row_of db' i else row_of db j)" by (simp add: rows)
  show "\<exists>row. row_of db i = Some row \<and> pa_approval_id item = i \<and> pa_status item = pa_status row
       \<and> row_of db' i = Some (staged_row c row item transition ts ?ev)"
    using row ids rows by simp
qed

subsection \<open>Each transaction keeps the invariant\<close>

lemma writer_binds:
  assumes "verify_decision_writer c item operator_id status proof clock = Inr d" "dc_audit_required c"
    and "status \<in> {Approved, Denied}"
  obtains p where "d = Some p" "bound_to (dc_sha c) item status operator_id p" "operator_id \<noteq> []"
proof -
  from assms obtain v b now where v: "pv_operator_subject v = operator_id" "operator_id \<noteq> []"
    and e: "map_result Some (envelope_create (dc_sha c) v b (item_binding c item status operator_id) now) = Inr d"
    by (auto simp: verify_decision_writer_def Let_def valid_operator_id_def bind_result_Inr_iff bind_eq_Some_conv
        split: if_splits option.splits)
  then obtain p where p: "d = Some p" "envelope_create (dc_sha c) v b (item_binding c item status operator_id) now = Inr p"
    by (auto simp: map_result_def split: sum.splits)
  show thesis
    using that[of p] p(1) v envelope_create_binds[OF p(2)] assms(3)
    by (auto simp: bound_to_def item_binding_def)
qed

lemma decide_staged:
  assumes "decide_transaction c True db status i operator_id proof event_id clock = Inr (Some db')"
    and "dc_audit_required c" "status \<in> {Approved, Denied}"
  obtains item ts p where "read_item db i = Inr (Some item)" "pa_status item = Pending"
    "bound_to (dc_sha c) item status operator_id p" "operator_id \<noteq> []"
    "stage_existing c db item status operator_id ts (Some p) event_id = Inr db'" "clock 1 = Finite ts"
proof -
  from assms(1) obtain item where item: "read_item db i = Inr (Some item)" "pa_status item = Pending"
    by (cases "read_item db i"; cases "projr (read_item db i)") (auto simp: decide_transaction_def split: if_splits)
  with assms(1) obtain d ts where w: "verify_decision_writer c item operator_id status proof (clock 0) = Inr d"
    and st: "stage_existing c db item status operator_id ts d event_id = Inr db'" and now: "read_now (clock 1) = Inr ts"
    by (auto simp: decide_transaction_def bind_result_Inr_iff map_result_Inr_iff)
  from now have "clock 1 = Finite ts" by (cases "clock 1") auto
  from writer_binds[OF w assms(2,3)] obtain p where "d = Some p" "bound_to (dc_sha c) item status operator_id p"
    "operator_id \<noteq> []" .
  with that item st \<open>clock 1 = Finite ts\<close> show thesis by blast
qed

lemma system_denial_staged:
  assumes "system_denial_transaction c db i operator_id nonce event_id clock = Inr (Some db')"
    and "valid_operator_id operator_id"
  obtains item ts p where "read_item db i = Inr (Some item)" "pa_status item = Pending"
    "bound_to (dc_sha c) item Denied operator_id p" "operator_id \<noteq> []"
    "stage_existing c db item Denied operator_id ts (Some p) event_id = Inr db'"
proof -
  from assms(1) obtain item where item: "read_item db i = Inr (Some item)" "pa_status item = Pending"
    by (cases "read_item db i"; cases "projr (read_item db i)")
       (auto simp: system_denial_transaction_def split: if_splits)
  with assms(1) obtain ts p where p: "envelope_create (dc_sha c) (system_verification nonce ts operator_id)
               ''internal-safety-denial;not-human-attribution'' (item_binding c item Denied operator_id) ts = Inr p"
    and "stage_existing c db item Denied operator_id ts (Some p) event_id = Inr db'"
    by (auto simp: system_denial_transaction_def bind_result_Inr_iff map_result_Inr_iff)
  moreover have "bound_to (dc_sha c) item Denied operator_id p"
    using envelope_create_binds[OF p] by (simp add: bound_to_def item_binding_def system_verification_def)
  ultimately show thesis using that item assms(2) by (simp add: valid_operator_id_def)
qed

text \<open>What a granted or expired consumption found, and how its transition is staged.\<close>

lemma consume_staged:
  assumes "consume_transaction c True db i agent_id action ctx event_id clock = Inr out" "out \<noteq> ConsumeRefused"
  obtains item decided expires now db' transition where
    "read_item db i = Inr (Some item)" "pa_status item = Approved"
    "pa_agent_id item = agent_id" "pa_action item = action" "context_matches (pa_context item) ctx"
    "pa_decided_at item = Some decided" "pa_expires_at item = Some expires" "clock = Finite now" "decided \<le> now"
    "stage_existing c db item transition (pa_operator_id item) now None event_id = Inr db'"
    "(out = ConsumeGranted db' item \<and> transition = Consumed \<and> now < expires)
     \<or> (out = ConsumeExpired db' \<and> transition = Expired \<and> expires \<le> now)"
proof -
  from assms obtain item where item: "read_item db i = Inr (Some item)" "pa_status item = Approved"
    by (cases "read_item db i"; cases "projr (read_item db i)")
       (auto simp: consume_transaction_def split: if_splits)
  with assms obtain decided where d: "pa_decided_at item = Some decided" "pa_agent_id item = agent_id"
    "pa_action item = action" "context_matches (pa_context item) ctx"
    by (cases "pa_decided_at item") (auto simp: consume_transaction_def split: if_splits)
  with item assms obtain now where n: "clock = Finite now" "decided \<le> now"
    by (cases clock) (auto simp: consume_transaction_def split: if_splits)
  with item d assms obtain expires where e: "pa_expires_at item = Some expires"
    by (cases "pa_expires_at item") (auto simp: consume_transaction_def split: if_splits)
  from item d n e assms(1)[symmetric] have out: "(if expires \<le> now
        then map_result ConsumeExpired (stage_existing c db item Expired (pa_operator_id item) now None event_id)
        else map_result (\<lambda>db'. ConsumeGranted db' item)
               (stage_existing c db item Consumed (pa_operator_id item) now None event_id)) = Inr out"
    by (cases "expires \<le> now") (simp_all add: consume_transaction_def)
  show thesis
  proof (cases "expires \<le> now")
    case True
    with out that[OF item d(2,3,4,1) e n, of Expired] show thesis by (auto simp: map_result_def split: sum.splits)
  next
    case False
    with out that[OF item d(2,3,4,1) e n, of Consumed] show thesis by (auto simp: map_result_def split: sum.splits)
  qed
qed

text \<open>A settled row beyond \<open>Pending\<close> names its operator and keeps its proof.\<close>

lemma approved_row_bound:
  assumes ok: "row_ok sha verify db s i row" and approved: "pa_status row = Approved"
    and item: "item = pending_approval.truncate row" and kind: "transition \<in> {Consumed, Expired}"
  shows "\<exists>p. pa_decision_proof item = Some p \<and> bound_to sha item transition (pa_operator_id item) p
    \<and> pa_operator_id item \<noteq> []"
proof -
  from ok approved have ev: "evidenced sha verify db s i row" and np: "ar_pending_status row = None"
    and pb: "proof_bound sha row" by (auto simp: row_ok_def)
  from ev obtain o' event where o': "valid_event_state sha o' row event" "ob_state o' = OutboxDelivered"
    unfolding evidenced_iff by blast
  with approved have tr: "ev_transition event = ''approved''" by (simp add: valid_event_state_def)
  have "ev_operator_id event = pa_operator_id row \<and> ev_decision_proof event = pa_decision_proof row"
    using o'(1) unfolding valid_event_state_def by blast
  moreover have "ev_operator_id event \<noteq> [] \<and> ev_decision_proof event \<noteq> None"
    using o'(1) tr unfolding valid_event_state_def by (elim conjE) (simp only: if_False if_True, simp)
  ultimately have "pa_operator_id row \<noteq> [] \<and> pa_decision_proof row \<noteq> None" by simp
  with pb np approved kind show ?thesis
    by (auto simp: proof_bound_def bound_to_def item row_target_def split: option.splits)
qed

lemma inv_decide:
  assumes "dq_inv c verify sound (db, s)" "dc_audit_required c" "status \<in> {Approved, Denied}"
    and "decide_transaction c True db status i operator_id proof event_id clock = Inr (Some db')"
  shows "dq_inv c verify sound (db', s)"
  using assms(4,2,3)
proof (cases rule: decide_staged)
  case (1 item ts p)
  from 1(1,3-5) assms(3) show ?thesis by (intro inv_staged(1)[OF assms(1)]) auto
qed

lemma inv_system_denial:
  assumes "dq_inv c verify sound (db, s)" "valid_operator_id operator_id"
    and "system_denial_transaction c db i operator_id nonce event_id clock = Inr (Some db')"
  shows "dq_inv c verify sound (db', s)"
  using assms(3,2)
proof (cases rule: system_denial_staged)
  case (1 item ts p)
  from 1(1,3-5) show ?thesis by (intro inv_staged(1)[OF assms(1)]) auto
qed

lemma consume_bound:
  assumes inv: "dq_inv c verify sound (db, s)" and read: "read_item db i = Inr (Some item)"
    and "pa_status item = Approved" "transition \<in> {Consumed, Expired}"
  shows "\<exists>p. pa_decision_proof item = Some p \<and> bound_to (dc_sha c) item transition (pa_operator_id item) p
    \<and> pa_operator_id item \<noteq> []"
proof -
  from read obtain row where row: "row_of db i = Some row" "item = pending_approval.truncate row"
    by (rule read_item_Some)
  with inv have "row_ok (dc_sha c) verify db s i row" by (auto simp: dq_inv_def intro: rows_okD)
  from approved_row_bound[OF this _ row(2) assms(4)] assms(3) row show ?thesis by simp
qed

lemma inv_consume:
  assumes inv: "dq_inv c verify sound (db, s)"
    and run: "consume_transaction c True db i agent_id action ctx event_id clock = Inr out"
    and out: "out = ConsumeExpired db' \<or> out = ConsumeGranted db' item"
  shows "dq_inv c verify sound (db', s)"
proof -
  from out have "out \<noteq> ConsumeRefused" by auto
  with run show ?thesis
  proof (cases rule: consume_staged)
    case (1 it decided expires now db1 transition)
    then have kind: "transition \<in> {Consumed, Expired}" and db1: "db1 = db'" using out by auto
    from consume_bound[OF inv 1(1,2) kind] obtain p where "pa_decision_proof it = Some p"
      "bound_to (dc_sha c) it transition (pa_operator_id it) p" "pa_operator_id it \<noteq> []" by blast
    with 1 kind db1 show ?thesis by (intro inv_staged(1)[OF inv 1(10)[unfolded db1] 1(1)]) auto
  qed
qed

lemma inv_submit:
  assumes inv: "dq_inv c verify sound (db, s)"
    and run: "submit_transaction c db i event_id agent_id action ctx clock = Inr db'"
  shows "dq_inv c verify sound (db', s)" "row_of db i = None"
    "j \<noteq> i \<Longrightarrow> row_of db' j = row_of db j"
proof -
  from inv have ok: "rows_ok (dc_sha c) verify db s" "tables_ok db" "sound s" by (simp_all add: dq_inv_def)
  from run obtain now event db1 where event: "event_post_init event = Inr event"
      "event = \<lparr>ev_event_id = event_id, ev_approval_id = i, ev_transition = ''pending'',
        ev_agent_id = agent_id, ev_action = action, ev_operator_id = [],
        ev_context_digest = canonical_context_digest (dc_sha c) ctx,
        ev_transition_ts = JFloat now, ev_decision_proof = None\<rparr>"
    and ins: "insert_approval db (new_row i agent_id action ctx now (Some event_id)) = Inr db1"
    and out: "insert_outbox db1 event = Inr db'"
    by (auto simp: submit_transaction_def bind_result_Inr_iff dest: post_init_same(1))
  let ?row = "new_row i agent_id action ctx now (Some event_id)"
  have id: "pa_approval_id ?row = i" by (simp add: new_row_def)
  from ins show fresh: "row_of db i = None" by (auto simp: insert_approval_def id split: if_splits)
  with ins out have db': "db_approvals db' = db_approvals db @ [(i, ?row)]"
      "db_outbox db' = db_outbox db @ [(event_id, new_outbox event)]" "db_tombstones db' = db_tombstones db"
    and new: "map_of (db_outbox db) event_id = None"
    by (auto simp: insert_approval_def insert_outbox_def id event(2) split: if_splits)
  have rows: "row_of db' k = (if k = i then Some ?row else row_of db k)" for k
    using fresh by (simp add: row_of_def db' map_add_new)
  have outs: "map_of (db_outbox db') = (map_of (db_outbox db))(event_id \<mapsto> new_outbox event)"
    using new by (simp add: db' map_add_new)
  have tables: "tables_ok db'"
  proof -
    have "nonces_unique db'"
      using ok(2) by (intro nonces_unique_put[OF _ _ _ rows]) (auto simp: tables_ok_iff nonce_taken_def new_row_def)
    then show ?thesis using ok(2) fresh new by (simp add: tables_ok_iff db' wf_dict_append row_of_def)
  qed
  have "event_from_row (new_outbox event) = Inr event"
    using event by (simp add: event_from_row_def new_outbox_def event_from_to_dict event_valid_def)
  moreover have "valid_event_state (dc_sha c) (new_outbox event) ?row event"
    by (simp add: valid_event_state_def new_outbox_def event(2) new_row_def)
  ultimately have "staged (dc_sha c) db' i ?row"
    by (auto simp: staged_iff outs new_row_def new_outbox_def event(2) float_stamped_def)
  then have new_ok: "row_ok (dc_sha c) verify db' s i ?row"
    by (simp add: row_ok_def proof_bound_def row_target_def new_row_def)
  have "rows_ok (dc_sha c) verify db' s"
  proof (rule rows_okI)
    show "wf_dict (db_approvals db')" using tables by (simp add: tables_ok_iff)
    fix k rk assume rk: "row_of db' k = Some rk"
    show "row_ok (dc_sha c) verify db' s k rk"
    proof (cases "k = i")
      case False
      with rk rows have "row_of db k = Some rk" by simp
      from rows_okD[OF ok(1) this] show ?thesis by (rule row_ok_mono) (use new in \<open>auto simp: outs\<close>)
    qed (use rk rows new_ok in simp)
  qed
  with tables ok(3) show "dq_inv c verify sound (db', s)" by (simp add: dq_inv_def)
  show "j \<noteq> i \<Longrightarrow> row_of db' j = row_of db j" by (simp add: rows)
qed

lemma inv_purge:
  assumes inv: "dq_inv c verify sound (db, s)"
  shows "dq_inv c verify sound (purge_transaction db cutoff now, s)"
    "row_of (purge_transaction db cutoff now) i \<in> {None, row_of db i}"
proof -
  let ?db = "purge_transaction db cutoff now"
  define ids where "ids = set (map fst (filter (purgeable db cutoff) (db_approvals db)))"
  from inv have ok: "rows_ok (dc_sha c) verify db s" "tables_ok db" "sound s" by (simp_all add: dq_inv_def)
  then have wf: "wf_dict (db_approvals db)" "wf_dict (db_outbox db)" by (simp_all add: tables_ok_iff)
  have rows: "row_of ?db j = (if j \<in> ids then None else row_of db j)" for j
    unfolding row_of_def purge_transaction_def Let_def ids_def[symmetric]
    using wf(1) by (simp add: map_of_filter_wf split: option.split)
  then show "row_of ?db i \<in> {None, row_of db i}" by simp
  have outs: "map_of (db_outbox ?db) e = Some o'"
    if "map_of (db_outbox db) e = Some o'" "ob_approval_id o' \<notin> ids" for e o'
    using that wf(2) unfolding purge_transaction_def Let_def ids_def[symmetric]
    by (simp add: map_of_filter_wf)
  have old: "row_of db j = Some rj" "j \<notin> ids" if "row_of ?db j = Some rj" for j rj
    using that by (simp_all add: rows split: if_splits)
  have "nonces_unique ?db"
  proof (rule nonces_unique_subset)
    show "nonces_unique db" using ok(2) by (simp add: tables_ok_iff)
  qed (use old(1) in blast)
  then have tables: "tables_ok ?db" using ok(2) by (auto simp: tables_ok_iff purge_transaction_def Let_def)
  have "rows_ok (dc_sha c) verify ?db s"
  proof (rule rows_okI)
    show "wf_dict (db_approvals ?db)" using tables by (simp add: tables_ok_iff)
    fix j rj assume rj: "row_of ?db j = Some rj"
    from rows_okD[OF ok(1) old(1)[OF rj]] show "row_ok (dc_sha c) verify ?db s j rj"
      by (rule row_ok_mono) (use old(2)[OF rj] outs in blast)+
  qed
  with tables ok(3) show "dq_inv c verify sound (?db, s)" by (simp add: dq_inv_def)
qed

subsection \<open>Finalizing keeps the invariant\<close>

lemma py_eq_fields:
  assumes "py_eq (JObj a) (JObj b)"
  shows "map_option (\<lambda>v. key_sorted (merge_numbers v)) (map_of a k)
       = map_option (\<lambda>v. key_sorted (merge_numbers v)) (map_of b k)"
proof -
  let ?f = "map_prod id key_sorted" and ?g = "map_prod id merge_numbers"
  from assms have "sort_key fst (map ?f (map ?g a)) = sort_key fst (map ?f (map ?g b))"
    by (simp add: py_eq_def del: map_map)
  then have "map_of (sort_key fst (map ?f (map ?g a))) k = map_of (sort_key fst (map ?f (map ?g b))) k"
    by (rule arg_cong)
  then have "map_option key_sorted (map_option merge_numbers (map_of a k))
      = map_option key_sorted (map_option merge_numbers (map_of b k))"
    by (simp only: map_of_sort_key map_of_map_prod)
  then show ?thesis by (simp add: option.map_comp comp_def)
qed

lemma same_event_eq:
  assumes same: "same_event a b" and "ev_decision_proof a = ev_decision_proof b"
    and stamped: "float_stamped a" "float_stamped b"
  shows "a = b"
proof -
  note f = py_eq_fields[OF same[unfolded same_event_def]]
  from stamped obtain x y where ts: "ev_transition_ts a = JFloat x" "ev_transition_ts b = JFloat y"
    by (auto simp: float_stamped_def split: json.splits)
  show ?thesis
    using f[of "''event_id''"] f[of "''approval_id''"] f[of "''transition''"] f[of "''agent_id''"]
      f[of "''action''"] f[of "''operator_id''"] f[of "''context_digest''"] f[of "''transition_ts''"] ts assms(2)
    by (cases a; cases b) (simp add: event_to_dict_def)
qed

text \<open>What a committed finalization of a pending event changes.\<close>

lemma finalize_cases:
  assumes "flush_finalize c db e event receipt clock = Inr db'"
  obtains (delivered) o' where "db' = db" "map_of (db_outbox db) e = Some o'" "ob_state o' = OutboxDelivered"
  | (settled) o' row target t current where
      "map_of (db_outbox db) e = Some o'" "row_of db (ob_approval_id o') = Some row"
      "ob_state o' = OutboxPending" "event_from_row o' = Inr current" "same_event current event"
      "valid_event_state (dc_sha c) o' row event" "ar_pending_status row = Some target"
      "ar_pending_event_id row = Some e" "pa_status row = AuditPending"
      "db' = (put_row db (ob_approval_id o')
         (row\<lparr>pa_status := target, ar_pending_status := None, ar_pending_event_id := None,
              pa_audit_event_id := e, pa_audit_receipt := Some receipt\<rparr>))\<lparr>db_outbox := AList.update e
           (o'\<lparr>ob_state := OutboxDelivered, ob_receipt := Some receipt, ob_delivered_at := Some t\<rparr>) (db_outbox db)\<rparr>"
proof -
  from assms obtain o' a where es: "event_state_row db e = Some (o', a)"
    by (cases "event_state_row db e") (auto simp: flush_finalize_def)
  then have o': "map_of (db_outbox db) e = Some o'" "row_of db (ob_approval_id o') = Some a"
    by (auto simp: event_state_row_def bind_eq_Some_conv)
  from assms es obtain current where cur: "event_from_row o' = Inr current" "same_event current event"
    and valid: "valid_event_state (dc_sha c) o' a event"
    by (auto simp: flush_finalize_def bind_result_Inr_iff split: if_splits)
  then have id: "ev_approval_id event = ob_approval_id o'" by (simp add: valid_event_state_def)
  show thesis
  proof (cases "ob_state o'")
    case OutboxDelivered
    with assms es cur valid o' show thesis
      by (intro delivered[of o']) (auto simp: flush_finalize_def split: option.splits if_splits)
  next
    case OutboxPending
    with valid obtain target where target: "ar_pending_status a = Some target"
      by (auto simp: valid_event_state_def)
    with OutboxPending assms es cur valid id o' obtain t where
      "pa_status a = AuditPending" "ar_pending_event_id a = Some e"
      "db' = (put_row db (ob_approval_id o')
         (a\<lparr>pa_status := target, ar_pending_status := None, ar_pending_event_id := None,
              pa_audit_event_id := e, pa_audit_receipt := Some receipt\<rparr>))\<lparr>db_outbox := AList.update e
           (o'\<lparr>ob_state := OutboxDelivered, ob_receipt := Some receipt, ob_delivered_at := Some t\<rparr>) (db_outbox db)\<rparr>"
      by (auto simp: flush_finalize_def bind_result_Inr_iff Let_def split: if_splits)
    with settled o' OutboxPending cur valid target show thesis by blast
  qed
qed

lemma inv_finalize:
  assumes inv: "dq_inv c verify sound (db, s)"
    and run: "flush_finalize c db e event receipt clock = Inr db'"
    and receipt: "receipt_matches_event (dc_sha c) receipt event" "verify s event receipt"
    and origin: "float_stamped event \<or> (\<exists>o'. map_of (db_outbox db) e = Some o' \<and> event_from_row o' = Inr event)"
  shows "dq_inv c verify sound (db', s)"
  using run
proof (cases rule: finalize_cases)
  case (delivered o')
  with inv show ?thesis by simp
next
  case (settled o' row target t current)
  let ?i = "ob_approval_id o'"
  let ?row = "row\<lparr>pa_status := target, ar_pending_status := None, ar_pending_event_id := None,
              pa_audit_event_id := e, pa_audit_receipt := Some receipt\<rparr>"
  let ?o = "o'\<lparr>ob_state := OutboxDelivered, ob_receipt := Some receipt, ob_delivered_at := Some t\<rparr>"
  from inv have ok: "rows_ok (dc_sha c) verify db s" "tables_ok db" "sound s" by (simp_all add: dq_inv_def)
  have rows: "row_of db' k = (if k = ?i then Some ?row else row_of db k)" for k by (simp add: settled)
  have outs: "map_of (db_outbox db') = (map_of (db_outbox db))(e \<mapsto> ?o)" by (simp add: settled)
  note row_ok0 = rows_okD[OF ok(1) settled(2)]
  have staged0: "staged (dc_sha c) db ?i row" using row_ok0 settled by (auto simp: row_ok_def)
  have kind: "target \<notin> {AuditPending}" using row_ok0 settled by (auto simp: row_ok_def)
  from staged0 settled obtain "valid_event_state (dc_sha c) o' row current" "float_stamped current"
    by (auto simp: staged_iff)
  then have "ev_decision_proof current = ev_decision_proof event"
    using settled(6) by (simp add: valid_event_state_def)
  from same_event_eq[OF settled(5) this] \<open>float_stamped current\<close> origin settled(1,4)
  have cur: "current = event" by auto
  have evid: "ev_event_id event = e" using settled by (simp add: valid_event_state_def)
  have "valid_event_state (dc_sha c) ?o ?row event"
    using settled(3,6,7) evid by (auto simp: valid_event_state_def)
  moreover have "event_from_row ?o = Inr event" using settled(4) cur by (simp add: event_from_row_def)
  ultimately have "evidenced (dc_sha c) verify db' s ?i ?row"
    using receipt by (auto simp: evidenced_iff outs)
  then have new_ok: "row_ok (dc_sha c) verify db' s ?i ?row"
    using row_ok0 kind settled(7) by (auto simp: row_ok_def proof_bound_def row_target_def split: option.splits)
  have tables: "tables_ok db'"
  proof -
    have "nonces_unique db'"
    proof (rule nonces_unique_subset)
      show "nonces_unique db" using ok(2) by (simp add: tables_ok_iff)
      fix k rk assume "row_of db' k = Some rk"
      then show "\<exists>row0. row_of db k = Some row0 \<and> ar_decision_nonce row0 = ar_decision_nonce rk"
        using settled(2) by (cases "k = ?i") (auto simp: rows)
    qed
    then show ?thesis using ok(2) by (auto simp: tables_ok_iff settled(10) put_row_def)
  qed
  have "rows_ok (dc_sha c) verify db' s"
  proof (rule rows_okI)
    show "wf_dict (db_approvals db')" using tables by (simp add: tables_ok_iff)
    fix k rk assume rk: "row_of db' k = Some rk"
    show "row_ok (dc_sha c) verify db' s k rk"
    proof (cases "k = ?i")
      case False
      with rk rows have "row_of db k = Some rk" by simp
      from rows_okD[OF ok(1) this] show ?thesis
        by (rule row_ok_mono) (use False settled(1) in \<open>auto simp: outs\<close>)
    qed (use rk rows new_ok in simp)
  qed
  with tables ok(3) show ?thesis by (simp add: dq_inv_def)
qed

subsection \<open>Phases\<close>

lemma row_phase_le: "row_phase row \<le> 2"
  by (simp add: row_phase_def status_phase_le split: option.split)

lemma dq_phase_le: "dq_phase st i \<le> 2"
  by (simp add: dq_phase_def row_phase_le split: option.split)

lemma phase_staged:
  assumes inv: "dq_inv c verify sound (db, s)"
    and stage: "stage_existing c db item transition operator_id ts proof event_id = Inr db'"
    and read: "read_item db i = Inr (Some item)"
    and kind: "transition \<notin> {AuditPending, Pending}" and op: "operator_id \<noteq> []"
    and p: "(case proof of None \<Rightarrow> pa_decision_proof item | Some p \<Rightarrow> Some p) = Some p"
    and bound: "bound_to (dc_sha c) item transition operator_id p"
    and up: "pa_status item \<noteq> AuditPending" "status_phase (pa_status item) \<le> status_phase transition"
  shows "dq_phase (db, s) j \<le> dq_phase (db', s) j"
    "pa_approval_id item = i" "dq_phase (db, s) i = status_phase (pa_status item)"
    "dq_phase (db', s) i = status_phase transition"
proof -
  note st = inv_staged(2,3)[OF inv stage read kind op p bound]
  from st(2) obtain row where row: "row_of db i = Some row" "pa_approval_id item = i" "pa_status item = pa_status row"
    "row_of db' i = Some (staged_row c row item transition ts (staged_event c item transition operator_id ts proof event_id))"
    by blast
  then show "pa_approval_id item = i" "dq_phase (db, s) i = status_phase (pa_status item)"
    and "dq_phase (db', s) i = status_phase transition"
    using up by (simp_all add: dq_phase_def row_phase_def staged_row_def)
  with st(1)[of j] up(2) show "dq_phase (db, s) j \<le> dq_phase (db', s) j"
    by (cases "j = i") (simp_all add: dq_phase_def)
qed

lemma phase_finalize:
  assumes "flush_finalize c db e event receipt clock = Inr db'"
  shows "dq_phase (db', s) i = dq_phase (db, s) i \<or> (\<exists>row. row_of db i = Some row \<and> ar_pending_status row = Some AuditPending)"
  using assms
proof (cases rule: finalize_cases)
  case (settled o' row target t current)
  then show ?thesis
    by (cases "i = ob_approval_id o'") (auto simp: dq_phase_def row_phase_def)
qed simp

text \<open>The transaction behind one step.\<close>

lemma dq_run_cases:
  assumes "dq_run c put verify (db, s) op = ((db', s'), r)"
  obtains (same) "db' = db" "s' = s" "r = None"
  | (submit) i e a x ctx t where "submit_transaction c db i e a x ctx t = Inr db'" "s' = s" "r = None"
      "dq_submits op = Some i"
  | (decide) status i o' pf e cl where "decide_transaction c True db status i o' pf e cl = Inr (Some db')"
      "status \<in> {Approved, Denied}" "s' = s" "r = None"
  | (system) i o' nonce e t where "system_denial_transaction c db i o' nonce e t = Inr (Some db')"
      "valid_operator_id o'" "s' = s" "r = None"
  | (consume) i a x ctx e t out item where "consume_transaction c True db i a x ctx e t = Inr out"
      "out = ConsumeExpired db' \<and> r = None \<or> out = ConsumeGranted db' item \<and> r = Some item" "s' = s"
  | (deliver) e where "db' = db" "s' = fst (flush_deliver c put verify db s e)" "r = None"
  | (finalize) e event receipt t where "flush_finalize c db e event receipt t = Inr db'"
      "receipt_matches_event (dc_sha c) receipt event" "verify s event receipt" "float_stamped event" "s' = s" "r = None"
  | (purge) cutoff now where "db' = purge_transaction db cutoff now" "s' = s" "r = None"
proof (cases op)
  case (DqSubmit i e a x ctx t)
  then show thesis using assms same submit
    by (cases "submit_transaction c db i e a x ctx t") (auto simp: dq_run_def committed_db_def dq_submits_def)
next
  case (DqDecide approve i o' pf e cl)
  let ?t = "decide_transaction c True db (if approve then Approved else Denied) i o' pf e cl"
  show thesis
  proof (cases "\<exists>db1. ?t = Inr (Some db1)")
    case True
    then show thesis using assms DqDecide decide[of "if approve then Approved else Denied" i o' pf e cl]
      by (auto simp: dq_run_def)
  next
    case False
    then show thesis using assms DqDecide same by (cases ?t; cases "projr ?t") (auto simp: dq_run_def)
  qed
next
  case (DqSystemDeny i o' nonce e t)
  let ?t = "system_denial_transaction c db i o' nonce e t"
  show thesis
  proof (cases "valid_operator_id o' \<and> (\<exists>db1. ?t = Inr (Some db1))")
    case True
    then show thesis using assms DqSystemDeny system[of i o' nonce e t] by (auto simp: dq_run_def)
  next
    case False
    then show thesis using assms DqSystemDeny same
      by (cases "valid_operator_id o'"; cases ?t; cases "projr ?t") (auto simp: dq_run_def)
  qed
next
  case (DqConsume i a x ctx e t)
  let ?t = "consume_transaction c True db i a x ctx e t"
  show thesis
  proof (cases ?t)
    case (Inr out)
    then show thesis using assms DqConsume same consume[of i a x ctx e t out]
      by (cases out) (auto simp: dq_run_def)
  qed (use assms DqConsume same in \<open>simp add: dq_run_def\<close>)
next
  case (DqDeliver e)
  have "((db, fst (flush_deliver c put verify db s e)), None) = ((db', s'), r)"
    using assms unfolding DqDeliver dq_run_def Let_def prod.case dq_op.case .
  then show thesis using deliver[of e] unfolding prod.inject by blast
next
  case (DqFinalize e event receipt t)
  let ?ok = "receipt_matches_event (dc_sha c) receipt event \<and> verify s event receipt \<and> float_stamped event"
  show thesis
  proof (cases "flush_finalize c db e event receipt t")
    case (Inl x)
    with assms DqFinalize have "db' = db" "s' = s" "r = None"
      by (simp_all add: dq_run_def committed_db_def split: if_splits)
    then show thesis by (rule same)
  next
    case (Inr db1)
    show thesis
    proof (cases ?ok)
      case True
      with assms DqFinalize Inr have "db1 = db'" "s' = s" "r = None" by (simp_all add: dq_run_def committed_db_def)
      with True Inr show thesis by (intro finalize[of e event receipt t]) simp_all
    next
      case False
      with assms DqFinalize have "db' = db" "s' = s" "r = None" by (auto simp: dq_run_def)
      then show thesis by (rule same)
    qed
  qed
next
  case (DqPurge t)
  then show thesis using assms same purge by (cases t) (auto simp: dq_run_def)
qed

context audit_sink begin

definition governed_by :: "durable_config \<Rightarrow> 's dq_state \<Rightarrow> bool" where
  "governed_by c st \<longleftrightarrow> dc_audit_required c \<and> dq_inv c verify sound st"

lemma deliver_sink:
  assumes "sound s"
  shows "sound (fst (flush_deliver c put verify db s e))"
    "verify s event r \<Longrightarrow> verify (fst (flush_deliver c put verify db s e)) event r"
proof -
  let ?s = "fst (flush_deliver c put verify db s e)"
  have "?s = s \<or> (\<exists>ev. ?s = fst (put s ev))"
  proof (cases "event_state_row db e")
    case (Some oa)
    then show ?thesis
    proof (cases "event_from_row (fst oa)")
      case (Inr ev)
      obtain s' r where put: "put s ev = (s', r)" by (cases "put s ev")
      have "?s = s \<or> ?s = s'"
        using Some Inr put by (cases oa; cases "ob_state (fst oa)"; cases r) (simp_all add: flush_deliver_def)
      with put show ?thesis by (metis fst_conv)
    qed (cases oa, simp add: flush_deliver_def)
  qed (simp add: flush_deliver_def)
  then obtain ev where "?s = s \<or> ?s = fst (put s ev)" by blast
  then show "sound ?s" "verify s event r \<Longrightarrow> verify ?s event r"
    using assms put_sound[OF assms, of ev "fst (put s ev)" "snd (put s ev)"]
      put_keeps[OF assms, of event r ev "fst (put s ev)" "snd (put s ev)"] by auto
qed

lemma inv_deliver:
  assumes "dq_inv c verify sound (db, s)"
  shows "dq_inv c verify sound (db, fst (flush_deliver c put verify db s e))"
proof -
  from assms have ok: "sound s" "tables_ok db" "rows_ok (dc_sha c) verify db s" by (simp_all add: dq_inv_def)
  have "rows_ok (dc_sha c) verify db (fst (flush_deliver c put verify db s e))"
  proof (rule rows_okI)
    show "wf_dict (db_approvals db)" using ok(2) by (simp add: tables_ok_iff)
    fix i row assume "row_of db i = Some row"
    from rows_okD[OF ok(3) this] show "row_ok (dc_sha c) verify db (fst (flush_deliver c put verify db s e)) i row"
      by (rule row_ok_mono) (auto intro: deliver_sink(2)[OF ok(1)])
  qed
  with ok deliver_sink(1)[OF ok(1)] show ?thesis by (simp add: dq_inv_def)
qed

lemma run_governed:
  assumes "governed_by c st" "dq_run c put verify st op = (st', r)"
  shows "governed_by c st'"
proof -
  obtain db s db' s' where st: "st = (db, s)" "st' = (db', s')" by (cases st, cases st')
  from assms(1) have inv: "dq_inv c verify sound (db, s)" and req: "dc_audit_required c"
    by (simp_all add: governed_by_def st)
  from assms(2)[unfolded st] have "dq_inv c verify sound (db', s')"
  proof (cases rule: dq_run_cases)
    case (submit i e a x ctx t) then show ?thesis using inv_submit(1)[OF inv] by simp
  next
    case (decide status i o' pf e cl) then show ?thesis using inv_decide[OF inv req] by simp
  next
    case (system i o' nonce e t) then show ?thesis using inv_system_denial[OF inv] by simp
  next
    case (consume i a x ctx e t out item) then show ?thesis using inv_consume[OF inv consume(1)] by blast
  next
    case (deliver e) then show ?thesis using inv_deliver[OF inv] by simp
  next
    case (finalize e event receipt t) then show ?thesis using inv_finalize[OF inv] by simp
  next
    case (purge cutoff now) then show ?thesis using inv_purge(1)[OF inv] by simp
  qed (use inv in simp)
  with req show ?thesis by (simp add: governed_by_def st)
qed

lemma run_phase:
  assumes gov: "governed_by c st" and run: "dq_run c put verify st op = (st', r)" and other: "dq_submits op \<noteq> Some i"
  shows "dq_phase st i \<le> dq_phase st' i"
proof -
  obtain db s db' s' where st: "st = (db, s)" "st' = (db', s')" by (cases st, cases st')
  from gov have inv: "dq_inv c verify sound (db, s)" and req: "dc_audit_required c"
    by (simp_all add: governed_by_def st)
  have ignore: "dq_phase (x, y) j = dq_phase (x, z) j" for x j and y z :: 's by (simp add: dq_phase_def)
  from run[unfolded st] show ?thesis
  proof (cases rule: dq_run_cases)
    case (submit j e a x ctx t)
    then have "row_of db' i = row_of db i" using other inv_submit(3)[OF inv submit(1)] by auto
    then show ?thesis by (simp add: st dq_phase_def)
  next
    case (decide status j o' pf e cl)
    from decide(1) req decide(2) show ?thesis
    proof (cases rule: decide_staged)
      case (1 item ts p)
      from phase_staged(1)[OF inv 1(5,1) _ 1(4) _ 1(3)] 1(2) decide(2) show ?thesis
        by (auto simp: st ignore[of _ s' _ s])
    qed
  next
    case (system j o' nonce e t)
    from system(1,2) show ?thesis
    proof (cases rule: system_denial_staged)
      case (1 item ts p)
      from phase_staged(1)[OF inv 1(5,1) _ 1(4) _ 1(3)] 1(2) show ?thesis by (simp add: st ignore[of _ s' _ s])
    qed
  next
    case (consume j a x ctx e t out item)
    then have "out \<noteq> ConsumeRefused" by auto
    with consume(1) show ?thesis
    proof (cases rule: consume_staged)
      case (1 it decided expires now db1 transition)
      then have kind: "transition \<in> {Consumed, Expired}" and db1: "db1 = db'" using consume by auto
      from consume_bound[OF inv 1(1,2) kind] obtain p where p: "pa_decision_proof it = Some p"
        "bound_to (dc_sha c) it transition (pa_operator_id it) p" "pa_operator_id it \<noteq> []" by blast
      from phase_staged(1)[OF inv 1(10,1) _ p(3) _ p(2)] kind p 1(2) db1 show ?thesis
        by (auto simp: st ignore[of _ s' _ s])
    qed
  next
    case (finalize e event receipt t)
    from phase_finalize[OF finalize(1), of s i] show ?thesis
    proof
      assume "\<exists>row. row_of db i = Some row \<and> ar_pending_status row = Some AuditPending"
      with inv show ?thesis by (auto simp: dq_inv_def row_ok_def dest!: rows_okD split: if_splits)
    qed (simp add: st finalize)
  next
    case (purge cutoff now)
    with inv_purge(2)[OF inv, of cutoff now i] show ?thesis
      by (auto simp: st dq_phase_def row_phase_le split: option.splits)
  next
    case (deliver e)
    then show ?thesis by (simp add: st dq_phase_def)
  qed (simp add: st)
qed

lemma run_consumes:
  assumes gov: "governed_by c st" and run: "dq_run c put verify st op = (st', Some item)"
  shows "dq_phase st (pa_approval_id item) = 1 \<and> dq_phase st' (pa_approval_id item) = 2"
proof -
  obtain db s db' s' where st: "st = (db, s)" "st' = (db', s')" by (cases st, cases st')
  from gov have inv: "dq_inv c verify sound (db, s)" by (simp add: governed_by_def st)
  from run[unfolded st] show ?thesis
  proof (cases rule: dq_run_cases)
    case (consume j a x ctx e t out item')
    then have out: "out = ConsumeGranted db' item" "out \<noteq> ConsumeRefused" by auto
    from consume(1) out(2) show ?thesis
    proof (cases rule: consume_staged)
      case (1 it decided expires now db1 transition)
      with out have t: "transition = Consumed" "db1 = db'" "it = item" by auto
      from consume_bound[OF inv 1(1,2), of transition] t obtain p where p: "pa_decision_proof it = Some p"
        "bound_to (dc_sha c) it transition (pa_operator_id it) p" "pa_operator_id it \<noteq> []" by blast
      from phase_staged(2-4)[OF inv 1(10,1) _ p(3) _ p(2)] p 1(2) t show ?thesis
        by (simp add: st consume)
    qed
  qed simp_all
qed

end

sublocale audit_sink \<subseteq> dq: single_use "dq_run c put verify" dq_submits dq_phase "governed_by c" for c
  by unfold_locales (auto intro: run_governed run_phase run_consumes dest: run_consumes)

end
