(* ===== verification/DurableSpec.thy ===== *)
theory DurableSpec
  imports DurableProofs
begin

text \<open>
  The whole calls of \<open>DurableOperatorQueue\<close> on a governed queue (a required sink), and the
  properties of both approval queues.
\<close>

subsection \<open>Calls keep a governed queue governed\<close>

definition governed_queue ::
    "'s sink_verify \<Rightarrow> ('s \<Rightarrow> bool) \<Rightarrow> 's durable_queue \<Rightarrow> bool" where
  "governed_queue verify sound q \<longleftrightarrow>
     dc_audit_required (dq_config q)
     \<and> (case dq_sink q of None \<Rightarrow> False | Some s \<Rightarrow> dq_inv (dq_config q) verify sound (dq_db q, s))"

lemma governed_queueE:
  assumes "governed_queue verify sound q"
  obtains s where "dq_sink q = Some s" "dq_inv (dq_config q) verify sound (dq_db q, s)" "dc_audit_required (dq_config q)"
  using assms by (auto simp: governed_queue_def split: option.splits)

lemma flush_deliver_Inr:
  assumes "flush_deliver c put verify db s e = (s', Inr (event, receipt))"
  obtains o' a where "map_of (db_outbox db) e = Some o'" "event_from_row o' = Inr event"
    "receipt_matches_event (dc_sha c) receipt event" "verify s' event receipt"
    "event_state_row db e = Some (o', a)"
proof -
  from assms obtain o' a where es: "event_state_row db e = Some (o', a)"
    by (cases "event_state_row db e") (auto simp: flush_deliver_def)
  then have o': "map_of (db_outbox db) e = Some o'" by (auto simp: event_state_row_def bind_eq_Some_conv)
  from assms es obtain ev where ev: "event_from_row o' = Inr ev"
    by (cases "event_from_row o'") (auto simp: flush_deliver_def)
  obtain s1 r1 where got: "(case ob_state o' of OutboxDelivered \<Rightarrow> (s, Inr (case ob_receipt o' of None \<Rightarrow> [] | Some r \<Rightarrow> r))
                        | OutboxPending \<Rightarrow> put s ev) = (s1, r1)"
    by (cases "case ob_state o' of OutboxDelivered \<Rightarrow> (s, Inr (case ob_receipt o' of None \<Rightarrow> [] | Some r \<Rightarrow> r))
                        | OutboxPending \<Rightarrow> put s ev")
  from assms es ev have "s1 = s'" "ev = event" "r1 = Inr receipt"
    "receipt_matches_event (dc_sha c) receipt event" "verify s' event receipt"
    by (cases r1; simp add: flush_deliver_def got split: if_splits)+
  with that o' ev es show thesis by blast
qed

context audit_sink begin

lemma flush_governed:
  assumes gov: "governed_queue verify sound q" and run: "flush_event put verify q e clock = (q', r)"
  shows "governed_queue verify sound q'" "dq_config q' = dq_config q"
proof -
  from gov obtain s where s: "dq_sink q = Some s" and inv: "dq_inv (dq_config q) verify sound (dq_db q, s)"
    and req: "dc_audit_required (dq_config q)" by (rule governed_queueE)
  obtain s' d where del: "flush_deliver (dq_config q) put verify (dq_db q) s e = (s', d)"
    by (cases "flush_deliver (dq_config q) put verify (dq_db q) s e")
  have inv': "dq_inv (dq_config q) verify sound (dq_db q, s')"
    using inv_deliver[OF inv, of e] by (simp add: del)
  have "governed_queue verify sound q' \<and> dq_config q' = dq_config q"
  proof (cases d)
    case (Inl x)
    with run s del inv' req show ?thesis by (auto simp: flush_event_def governed_queue_def)
  next
    case (Inr er)
    obtain event receipt where er: "er = (event, receipt)" by (cases er)
    from del[unfolded Inr er] obtain o' a where o': "map_of (db_outbox (dq_db q)) e = Some o'"
      "event_from_row o' = Inr event" "receipt_matches_event (dc_sha (dq_config q)) receipt event"
      "verify s' event receipt" by (rule flush_deliver_Inr)
    show ?thesis
    proof (cases "flush_finalize (dq_config q) (dq_db q) e event receipt clock")
      case (Inl x)
      with run s del er inv' req \<open>d = Inr er\<close> show ?thesis by (auto simp: flush_event_def governed_queue_def)
    next
      case fin: (Inr db')
      have "dq_inv (dq_config q) verify sound (db', s')"
        using inv_finalize[OF inv' fin o'(3,4)] o'(1,2) by blast
      with run s del er fin req \<open>d = Inr er\<close> show ?thesis by (auto simp: flush_event_def governed_queue_def)
    qed
  qed
  then show "governed_queue verify sound q'" "dq_config q' = dq_config q" by simp_all
qed

lemma flush_staged:
  assumes "governed_queue verify sound q" "dq_sink q = Some s"
    and "dq_inv (dq_config q) verify sound (db, s)"
    and "flush_event put verify (q\<lparr>dq_db := db\<rparr>) e clock = (q', r)"
  shows "governed_queue verify sound q'" "dq_config q' = dq_config q"
proof -
  have "governed_queue verify sound (q\<lparr>dq_db := db\<rparr>)" using assms(1-3) by (simp add: governed_queue_def)
  from flush_governed[OF this assms(4)] show "governed_queue verify sound q'" "dq_config q' = dq_config q" by simp_all
qed

lemma submit_governed:
  assumes gov: "governed_queue verify sound q"
    and run: "dq_submit put verify q i e a x ctx clock = (q', r)"
  shows "governed_queue verify sound q'"
proof -
  from gov obtain s where s: "dq_sink q = Some s" and inv: "dq_inv (dq_config q) verify sound (dq_db q, s)"
    by (rule governed_queueE)
  show ?thesis
  proof (cases "submit_transaction (dq_config q) (dq_db q) i e a x ctx (clock 1)")
    case (Inl y)
    with run s gov show ?thesis by (auto simp: dq_submit_def after_stage_def)
  next
    case (Inr db)
    obtain q1 r1 where fl: "flush_event put verify (q\<lparr>dq_db := db\<rparr>) e (clock 2) = (q1, r1)"
      by (cases "flush_event put verify (q\<lparr>dq_db := db\<rparr>) e (clock 2)")
    with run s Inr have "q' = q1" by (simp add: dq_submit_def after_stage_def)
    with flush_staged(1)[OF gov s inv_submit(1)[OF inv Inr] fl] show ?thesis by simp
  qed
qed

lemma decide_governed:
  assumes gov: "governed_queue verify sound q" and status: "status \<in> {Approved, Denied}"
    and run: "dq_decide put verify status q i operator_id pf e clock = (q', r)"
  shows "governed_queue verify sound q'"
proof -
  from gov obtain s where s: "dq_sink q = Some s" and inv: "dq_inv (dq_config q) verify sound (dq_db q, s)"
    and req: "dc_audit_required (dq_config q)" by (rule governed_queueE)
  let ?t = "decide_transaction (dq_config q) True (dq_db q) status i operator_id pf e clock"
  show ?thesis
  proof (cases "\<exists>db. ?t = Inr (Some db)")
    case True
    then obtain db where t: "?t = Inr (Some db)" by blast
    obtain q1 r1 where fl: "flush_event put verify (q\<lparr>dq_db := db\<rparr>) e (clock 2) = (q1, r1)"
      by (cases "flush_event put verify (q\<lparr>dq_db := db\<rparr>) e (clock 2)")
    with run s t have "q' = q1" by (simp add: dq_decide_def)
    with flush_staged(1)[OF gov s inv_decide[OF inv req status t] fl] show ?thesis by simp
  next
    case False
    with run s gov show ?thesis by (cases ?t; cases "projr ?t") (auto simp: dq_decide_def)
  qed
qed

lemma system_denial_governed:
  assumes gov: "governed_queue verify sound q"
    and run: "deny_for_system_safety put verify q i operator_id cap nonce e clock = (q', r)"
  shows "governed_queue verify sound q'"
proof -
  from gov obtain s where s: "dq_sink q = Some s" and inv: "dq_inv (dq_config q) verify sound (dq_db q, s)"
    by (rule governed_queueE)
  let ?t = "system_denial_transaction (dq_config q) (dq_db q) i operator_id nonce e (clock 1)"
  show ?thesis
  proof (cases "cap \<and> valid_operator_id operator_id \<and> (\<exists>db. ?t = Inr (Some db))")
    case True
    then obtain db where t: "?t = Inr (Some db)" and op: "valid_operator_id operator_id" by blast
    obtain q1 r1 where fl: "flush_event put verify (q\<lparr>dq_db := db\<rparr>) e (clock 2) = (q1, r1)"
      by (cases "flush_event put verify (q\<lparr>dq_db := db\<rparr>) e (clock 2)")
    with run t True have "q' = q1" by (simp add: deny_for_system_safety_def)
    with flush_staged(1)[OF gov s inv_system_denial[OF inv op t] fl] show ?thesis by simp
  next
    case False
    with run gov show ?thesis
      by (cases cap; cases "valid_operator_id operator_id"; cases ?t; cases "projr ?t")
         (auto simp: deny_for_system_safety_def)
  qed
qed

lemma consume_governed:
  assumes gov: "governed_queue verify sound q"
    and run: "dq_consume_approved put verify q i a x ctx e clock = (q', r)"
  shows "governed_queue verify sound q'"
proof -
  from gov obtain s where s: "dq_sink q = Some s" and inv: "dq_inv (dq_config q) verify sound (dq_db q, s)"
    by (rule governed_queueE)
  let ?t = "consume_transaction (dq_config q) True (dq_db q) i a x ctx e (clock 1)"
  show ?thesis
  proof (cases "\<exists>out db item. ?t = Inr out \<and> (out = ConsumeExpired db \<or> out = ConsumeGranted db item)")
    case True
    then obtain out db item where t: "?t = Inr out" and out: "out = ConsumeExpired db \<or> out = ConsumeGranted db item"
      by blast
    obtain q1 r1 where fl: "flush_event put verify (q\<lparr>dq_db := db\<rparr>) e (clock 2) = (q1, r1)"
      by (cases "flush_event put verify (q\<lparr>dq_db := db\<rparr>) e (clock 2)")
    with run s t out have "q' = q1" by (cases r1) (auto simp: dq_consume_approved_def)
    with flush_staged(1)[OF gov s inv_consume[OF inv t out] fl] show ?thesis by simp
  next
    case False
    with run s gov show ?thesis
      by (cases ?t; cases "projr ?t") (auto simp: dq_consume_approved_def)
  qed
qed

lemma purge_governed:
  assumes gov: "governed_queue verify sound q" and run: "dq_purge_expired q clock = (q', r)"
  shows "governed_queue verify sound q'"
proof -
  from gov obtain s where s: "dq_sink q = Some s" and inv: "dq_inv (dq_config q) verify sound (dq_db q, s)"
    and req: "dc_audit_required (dq_config q)" by (rule governed_queueE)
  show ?thesis
  proof (cases "read_now clock")
    case (Inr now)
    with run s req inv_purge(1)[OF inv] show ?thesis
      by (auto simp: dq_purge_expired_def governed_queue_def Let_def)
  qed (use run gov in \<open>simp add: dq_purge_expired_def\<close>)
qed

lemma flush_events_governed:
  "governed_queue verify sound q \<Longrightarrow> flush_events put verify q ids clock = (q', r)
   \<Longrightarrow> governed_queue verify sound q'"
proof (induction ids arbitrary: q clock)
  case (Cons i ids)
  obtain q1 r1 where fl: "flush_event put verify q i (clock 0) = (q1, r1)"
    by (cases "flush_event put verify q i (clock 0)")
  from flush_governed(1)[OF Cons.prems(1) fl] Cons fl show ?case by (cases r1) auto
qed simp

end

subsection \<open>What a staged transition becomes\<close>

lemma stage_outbox:
  assumes "stage_existing c db item transition operator_id ts pf e = Inr db'"
  shows "map_of (db_outbox db') e = Some (new_outbox (staged_event c item transition operator_id ts pf e))"
proof -
  from assms obtain row where "staged_by c db db' row item transition ts pf
    (staged_event c item transition operator_id ts pf e)" by (rule stage_existing_Inr)
  from staged_by_rows(2)[OF this] show ?thesis by (simp add: staged_event_def)
qed

lemma finalize_settles:
  assumes fin: "flush_finalize c db e event receipt clock = Inr db'"
    and o': "map_of (db_outbox db) e = Some o'" "ob_state o' = OutboxPending" "ob_approval_id o' = i"
    and row: "row_of db i = Some row" "ar_pending_status row = Some target"
  shows "\<exists>row'. row_of db' i = Some row' \<and> pa_status row' = target \<and> ar_pending_status row' = None
     \<and> pa_decision_proof row' = pa_decision_proof row \<and> pa_audit_event_id row' = e"
  using fin
proof (cases rule: finalize_cases)
  case (settled o1 row1 target1 t current)
  with o' row show ?thesis by auto
qed (use o' in simp)

lemma flush_settles:
  assumes fl: "flush_event put verify q e clock = (q', Inr ())" and s: "dq_sink q = Some s"
    and o': "map_of (db_outbox (dq_db q)) e = Some o'" "ob_state o' = OutboxPending" "ob_approval_id o' = i"
    and row: "row_of (dq_db q) i = Some row" "ar_pending_status row = Some target"
  shows "\<exists>row'. row_of (dq_db q') i = Some row' \<and> pa_status row' = target \<and> ar_pending_status row' = None
     \<and> pa_decision_proof row' = pa_decision_proof row \<and> pa_audit_event_id row' = e"
proof -
  from fl s obtain s' event receipt db where
    "flush_finalize (dq_config q) (dq_db q) e event receipt clock = Inr db" "dq_db q' = db"
    by (auto simp: flush_event_def split: prod.splits sum.splits)
  with finalize_settles[OF _ o' row] show ?thesis by simp
qed

lemma read_item_row:
  "read_item db i = Inr (Some item) \<Longrightarrow> row_of db i = Some row \<Longrightarrow> item = pending_approval.truncate row"
  by (auto elim!: read_item_Some)

context audit_sink begin

text \<open>A consumption that is returned: what was found, and the evidence that is left.\<close>

lemma consume_returns:
  assumes gov: "governed_queue verify sound q"
    and run: "dq_consume_approved put verify q i agent_id action ctx e clock = (q', Inr (Some item))"
  shows "\<exists>s row s' row' now expires decided.
      dq_sink q = Some s \<and> row_of (dq_db q) i = Some row \<and> pa_status row = Approved
      \<and> evidenced (dc_sha (dq_config q)) verify (dq_db q) s i row
      \<and> pa_agent_id row = agent_id \<and> pa_action row = action \<and> context_matches (pa_context row) ctx
      \<and> clock 1 = Finite now \<and> pa_decided_at row = Some decided \<and> pa_expires_at row = Some expires
      \<and> decided \<le> now \<and> now < expires
      \<and> dq_sink q' = Some s' \<and> row_of (dq_db q') i = Some row' \<and> item = pending_approval.truncate row'
      \<and> pa_status row' = Consumed \<and> evidenced (dc_sha (dq_config q)) verify (dq_db q') s' i row'
      \<and> proof_bound (dc_sha (dq_config q)) row' \<and> pa_decision_proof row' \<noteq> None"
proof -
  from gov obtain s where s: "dq_sink q = Some s" and inv: "dq_inv (dq_config q) verify sound (dq_db q, s)"
    by (rule governed_queueE)
  let ?t = "consume_transaction (dq_config q) True (dq_db q) i agent_id action ctx e (clock 1)"
  from run s obtain db item0 where t: "?t = Inr (ConsumeGranted db item0)"
    by (cases ?t; cases "projr ?t") (auto simp: dq_consume_approved_def map_result_def split: prod.splits sum.splits)
  obtain q1 r1 where fl: "flush_event put verify (q\<lparr>dq_db := db\<rparr>) e (clock 2) = (q1, r1)"
    by (cases "flush_event put verify (q\<lparr>dq_db := db\<rparr>) e (clock 2)")
  with run s t have q1: "q' = q1" "r1 = Inr ()" and got: "dq_get q' i = Inr (Some item)"
    by (cases r1; simp add: dq_consume_approved_def)+
  note gov' = consume_governed[OF gov run]
  have db_inv: "dq_inv (dq_config q) verify sound (db, s)" using inv_consume[OF inv t] by blast
  note cfg = flush_staged(2)[OF gov s db_inv fl]
  from t have "ConsumeGranted db item0 \<noteq> ConsumeRefused" by simp
  from t this show ?thesis
  proof (cases rule: consume_staged)
    case (1 it decided expires now db1 transition)
    then have eqs: "db1 = db" "transition = Consumed" "now < expires" by auto
    from 1(1) obtain row where row: "row_of (dq_db q) i = Some row" "it = pending_approval.truncate row"
      by (rule read_item_Some)
    have rok: "row_ok (dc_sha (dq_config q)) verify (dq_db q) s i row"
      using inv row(1) by (auto simp: dq_inv_def intro: rows_okD)
    from consume_bound[OF inv 1(1,2), of Consumed] obtain p where p: "pa_decision_proof it = Some p"
      "bound_to (dc_sha (dq_config q)) it Consumed (pa_operator_id it) p" "pa_operator_id it \<noteq> []" by blast
    note stage = 1(10)[unfolded eqs]
    from inv_staged(3)[OF inv stage 1(1) _ p(3) _ p(2)] p obtain row1 where
      "pa_approval_id it = i" "row_of db i = Some (staged_row (dq_config q) row1 it Consumed now
        (staged_event (dq_config q) it Consumed (pa_operator_id it) now None e))" by auto
    then obtain row2 where row2: "row_of db i = Some row2" "ar_pending_status row2 = Some Consumed"
      by (auto simp: staged_row_def)
    have "\<exists>row'. row_of (dq_db q1) i = Some row' \<and> pa_status row' = Consumed \<and> ar_pending_status row' = None
     \<and> pa_decision_proof row' = pa_decision_proof row2 \<and> pa_audit_event_id row' = e"
      using stage_outbox[OF stage] row2 \<open>pa_approval_id it = i\<close> s
      by (intro flush_settles[OF fl[unfolded q1(2)], of s]) (auto simp: new_outbox_def staged_event_def)
    then obtain row' where row': "row_of (dq_db q') i = Some row'" "pa_status row' = Consumed" using q1 by auto
    from gov' obtain s' where s': "dq_sink q' = Some s'" "dq_inv (dq_config q') verify sound (dq_db q', s')"
      by (rule governed_queueE)
    have rok': "row_ok (dc_sha (dq_config q)) verify (dq_db q') s' i row'"
      using s'(2) row'(1) cfg q1 by (auto simp: dq_inv_def intro: rows_okD)
    have item: "item = pending_approval.truncate row'"
      using got row'(1) unfolding dq_get_def by (rule read_item_row)
    from rok' row' have ev': "evidenced (dc_sha (dq_config q)) verify (dq_db q') s' i row'"
      "proof_bound (dc_sha (dq_config q)) row'" "ar_pending_status row' = None" by (auto simp: row_ok_def)
    then have "pa_decision_proof row' \<noteq> None"
      using row' by (cases "pa_decision_proof row'") (auto simp: proof_bound_def row_target_def)
    with rok row 1 eqs s s' row' item ev' show ?thesis by (auto simp: row_ok_def)
  qed
qed

end

subsection \<open>Recovery after an interruption\<close>

text \<open>A sink whose receipts name the event they were issued for.\<close>

locale evidence_sink = audit_sink +
  fixes sha :: "bytes \<Rightarrow> pystr"
  assumes put_matches: "sound s \<Longrightarrow> put s e = (s', Inr r) \<Longrightarrow> receipt_matches_event sha r e"
begin

lemma flush_recovers:
  assumes gov: "governed_queue verify sound q" and s: "dq_sink q = Some s"
    and hash: "dc_sha (dq_config q) = sha"
    and row: "row_of (dq_db q) i = Some row" "pa_status row = AuditPending"
      "ar_pending_event_id row = Some e" "ar_pending_status row = Some target"
    and accepts: "\<And>o' event. map_of (db_outbox (dq_db q)) e = Some o' \<Longrightarrow> event_from_row o' = Inr event
       \<Longrightarrow> is_ok (snd (put s event))"
  shows "\<exists>q' row'. flush_event put verify q e (Finite t) = (q', Inr ()) \<and> row_of (dq_db q') i = Some row'
     \<and> pa_status row' = target"
proof -
  let ?c = "dq_config q"
  from gov s have inv: "dq_inv ?c verify sound (dq_db q, s)" by (auto simp: governed_queue_def)
  then have ok: "row_ok sha verify (dq_db q) s i row" "sound s"
    using rows_okD[OF _ row(1)] hash by (auto simp: dq_inv_def)
  with row obtain o' event where o': "map_of (db_outbox (dq_db q)) e = Some o'" "ob_approval_id o' = i"
    "ob_state o' = OutboxPending" "event_from_row o' = Inr event" "valid_event_state sha o' row event"
    by (auto simp: row_ok_def staged_iff)
  have es: "event_state_row (dq_db q) e = Some (o', row)" using o' row by (simp add: event_state_row_def)
  obtain s' r where put: "put s event = (s', Inr r)"
    using accepts[OF o'(1,4)] by (cases "put s event"; cases "snd (put s event)") auto
  note receipt = put_matches[OF ok(2) put] put_verifies[OF ok(2) put]
  have del: "flush_deliver ?c put verify (dq_db q) s e = (s', Inr (event, r))"
    using es o' put receipt by (simp add: flush_deliver_def hash)
  have ids: "ev_approval_id event = i" "status_name target = ev_transition event" "ob_receipt o' = None"
    "ob_delivered_at o' = None"
    using o'(2,3,5) row(4) by (auto simp: valid_event_state_def)
  obtain db where fin: "flush_finalize ?c (dq_db q) e event r (Finite t) = Inr db"
    using es o' ids row by (simp add: flush_finalize_def hash same_event_def Let_def)
  have fl: "flush_event put verify q e (Finite t) = (q\<lparr>dq_sink := Some s', dq_db := db\<rparr>, Inr ())"
    by (simp add: flush_event_def s del fin)
  from flush_settles[OF fl s o'(1,3,2) row(1,4)] fl show ?thesis by auto
qed

end

lemma sink_receipt_matches: "receipt_matches_event sha (sink_receipt sha entry event) event"
  by (simp add: receipt_matches_event_def sink_receipt_def)

interpretation ledger_evidence: evidence_sink "sink_record cr" "sink_verify_receipt cr" "world_inv cr" "sha256 cr" for cr
proof unfold_locales
  show "receipt_matches_event (sha256 cr) r e" if "sink_record cr w e = (w', Inr r)" for w e w' r
    using that by (auto simp: sink_record_def sink_receipt_matches split: sum.splits option.splits prod.splits)
qed

subsection \<open>Properties\<close>


definition demo_crypto2 :: crypto where
  "demo_crypto2 = demo_crypto\<lparr>sha256 := demo_sha\<rparr>"

definition demo_durable :: durable_config where
  "demo_durable = \<lparr>dc_max_age = 3600, dc_approval_ttl = 300, dc_nonce_retention = 86400, dc_audit_required = True,
     dc_verifier = Some (\<lambda>b pf. Some demo_verification), dc_sha = demo_sha\<rparr>"

definition empty_db :: approval_db where
  "empty_db = \<lparr>db_approvals = [], db_outbox = [], db_tombstones = []\<rparr>"

lemma demo_world_inv: "world_inv demo_crypto2 (demo_ledger, [])"
  by (simp add: world_inv_def signs_ok_def demo_crypto2_def demo_crypto_def ledger_inv_def demo_ledger_def
      verify_snapshot_def all_lines_def ledger_paths_def archive_paths_def archived_lines_def)

lemma empty_dq_inv: "world_inv cr w \<Longrightarrow> dq_inv c (sink_verify_receipt cr) (world_inv cr) (empty_db, w)"
  by (simp add: dq_inv_def empty_db_def tables_ok_def rows_ok_def)



definition demo_queue :: "ledger_world durable_queue" where
  "demo_queue = \<lparr>dq_config = demo_durable, dq_db = empty_db, dq_sink = Some (demo_ledger, [])\<rparr>"

lemma demo_queue_governed: "governed_queue (sink_verify_receipt demo_crypto2) (world_inv demo_crypto2) demo_queue"
  using empty_dq_inv[OF demo_world_inv] by (simp add: governed_queue_def demo_queue_def demo_durable_def)


text \<open>
  C8. An interrupted transition is never lost: as long as a governed queue has a row in
  transition, flushing the event the row names (which \<open>reconcile\<close> does on every start)
  succeeds with any finite clock, provided the sink accepts that event, and takes the
  row to the status that was staged.
\<close>

theorem interrupted_transition_recovers:
  assumes "governed_queue (sink_verify_receipt cr) (world_inv cr) q" "dq_sink q = Some w"
    and "dc_sha (dq_config q) = sha256 cr"
    and "row_of (dq_db q) i = Some row" "pa_status row = AuditPending"
    and "ar_pending_event_id row = Some e" "ar_pending_status row = Some target"
    and "\<And>o' event. map_of (db_outbox (dq_db q)) e = Some o' \<Longrightarrow> event_from_row o' = Inr event
       \<Longrightarrow> is_ok (snd (sink_record cr w event))"
  shows "\<exists>q' row'. flush_event (sink_record cr) (sink_verify_receipt cr) q e (Finite t) = (q', Inr ())
     \<and> row_of (dq_db q') i = Some row' \<and> pa_status row' = target"
  using assms by (rule ledger_evidence.flush_recovers)

lemma demo_sink_accepts:
  assumes "ev_event_id event \<noteq> []"
  shows "is_ok (snd (sink_record demo_crypto2 (demo_ledger, []) event))"
proof -
  have "sink_existing demo_crypto2 (fst (demo_ledger, [])) event = Inr None"
    using existing_scan[OF demo_world_inv assms] by (simp add: demo_chain_entries)
  then show ?thesis
    by (simp add: sink_record_def ledger_logger_def ledger_log_def transition_call_def RESERVED_ENTRY_FIELDS_def
        rotate_if_needed_def demo_ledger_def Let_def)
qed

theorem interrupted_transition_recovers_witness:
  "\<exists>db q'. submit_transaction demo_durable empty_db ''id'' ''e1'' ''a'' ''x'' [] (Finite 10) = Inr db
     \<and> flush_event (sink_record demo_crypto2) (sink_verify_receipt demo_crypto2) (demo_queue\<lparr>dq_db := db\<rparr>) ''e1'' (Finite 11)
         = (q', Inr ())"
proof -
  obtain db where db: "submit_transaction demo_durable empty_db ''id'' ''e1'' ''a'' ''x'' [] (Finite 10) = Inr db"
    by (simp add: submit_transaction_def event_post_init_def TRANSITIONS_def canonical_context_digest_def
        demo_durable_def demo_sha_digest insert_approval_def insert_outbox_def new_row_def row_of_def empty_db_def)
  have row: "row_of db ''id'' = Some (new_row ''id'' ''a'' ''x'' [] 10 (Some ''e1''))"
    "db_outbox db = [(''e1'', new_outbox \<lparr>ev_event_id = ''e1'', ev_approval_id = ''id'', ev_transition = ''pending'',
        ev_agent_id = ''a'', ev_action = ''x'', ev_operator_id = [], ev_context_digest = demo_sha (canonical_bytes (JObj [])),
        ev_transition_ts = JFloat 10, ev_decision_proof = None\<rparr>)]"
    using db by (auto simp: submit_transaction_def event_post_init_def canonical_context_digest_def
        demo_durable_def insert_approval_def insert_outbox_def new_row_def row_of_def empty_db_def
        bind_result_Inr_iff split: if_splits)
  have inv: "dq_inv demo_durable (sink_verify_receipt demo_crypto2) (world_inv demo_crypto2) (db, (demo_ledger, []))"
    using inv_submit(1)[OF empty_dq_inv[OF demo_world_inv] db] .
  then have gov: "governed_queue (sink_verify_receipt demo_crypto2) (world_inv demo_crypto2) (demo_queue\<lparr>dq_db := db\<rparr>)"
    by (simp add: governed_queue_def demo_queue_def demo_durable_def)
  have acc: "is_ok (snd (sink_record demo_crypto2 (demo_ledger, []) event))"
    if "map_of (db_outbox (dq_db (demo_queue\<lparr>dq_db := db\<rparr>))) ''e1'' = Some o'" "event_from_row o' = Inr event" for o' event
  proof (rule demo_sink_accepts)
    from that(2) have "event_valid event" by (simp add: event_from_row_def event_from_dict_valid)
    then show "ev_event_id event \<noteq> []" by (auto simp: event_valid_def event_post_init_def split: if_splits)
  qed
  have "\<exists>q' row'. flush_event (sink_record demo_crypto2) (sink_verify_receipt demo_crypto2) (demo_queue\<lparr>dq_db := db\<rparr>)
       ''e1'' (Finite 11) = (q', Inr ()) \<and> row_of (dq_db q') ''id'' = Some row' \<and> pa_status row' = Pending"
    by (rule interrupted_transition_recovers[OF gov _ _ _ _ _ _ acc])
       (auto simp: row new_row_def demo_queue_def demo_durable_def demo_crypto2_def)
  with db show ?thesis by blast
qed

text \<open>
  A decision nonce is accepted once: a decision that commits found its nonce unused
  among the tombstones, leaves a tombstone for it that lasts for the retention period
  from the decision, and no purge before that moment removes a tombstone.
\<close>

theorem decision_nonce_single_use:
  assumes req: "dc_audit_required c" and status: "status \<in> {Approved, Denied}"
    and inv: "dq_inv c verify sound (db, s)"
  shows "(case decide_transaction c True db status i operator_id pf e clock of
        Inr (Some db') \<Rightarrow> (\<exists>row p ts t. row_of db' i = Some row \<and> pa_decision_proof row = Some p
             \<and> map_of (db_tombstones db) (pe_nonce p) = None \<and> map_of (db_tombstones db') (pe_nonce p) = Some t
             \<and> clock 1 = Finite ts \<and> tb_retain_until t = ts + dc_nonce_retention c)
      | _ \<Rightarrow> True)
    \<and> (map_of (db_tombstones db) n = Some t' \<and> now < tb_retain_until t'
         \<longrightarrow> map_of (db_tombstones (purge_transaction db cutoff now)) n = Some t')"
proof (intro conjI impI)
  show "case decide_transaction c True db status i operator_id pf e clock of
        Inr (Some db') \<Rightarrow> (\<exists>row p ts t. row_of db' i = Some row \<and> pa_decision_proof row = Some p
             \<and> map_of (db_tombstones db) (pe_nonce p) = None \<and> map_of (db_tombstones db') (pe_nonce p) = Some t
             \<and> clock 1 = Finite ts \<and> tb_retain_until t = ts + dc_nonce_retention c)
      | _ \<Rightarrow> True"
  proof (cases "\<exists>db'. decide_transaction c True db status i operator_id pf e clock = Inr (Some db')")
    case True
    then obtain db' where t: "decide_transaction c True db status i operator_id pf e clock = Inr (Some db')" by blast
    from t req status show ?thesis
    proof (cases rule: decide_staged)
      case (1 item ts p)
      from inv_staged(3)[OF inv 1(5,1) _ 1(4) _ 1(3)] status obtain row where
        "row_of db' i = Some (staged_row c row item status ts (staged_event c item status operator_id ts (Some p) e))"
        by auto
      moreover from 1(5) obtain row0 where "staged_by c db db' row0 item status ts (Some p)
        (staged_event c item status operator_id ts (Some p) e)" by (rule stage_existing_Inr)
      ultimately show ?thesis using 1(6)
        by (auto simp: t staged_row_def staged_event_def staged_by_def map_add_new)
    qed
  next
    case False
    then show ?thesis by (auto split: sum.split option.split)
  qed
next
  assume "map_of (db_tombstones db) n = Some t' \<and> now < tb_retain_until t'"
  then show "map_of (db_tombstones (purge_transaction db cutoff now)) n = Some t'"
    using inv by (simp add: dq_inv_def tables_ok_iff purge_transaction_def Let_def map_of_filter_wf)
qed

theorem decision_nonce_single_use_witness:
  "map_of (db_tombstones (purge_transaction (empty_db\<lparr>db_tombstones := [(''n'', \<lparr>tb_approval_id = ''id'',
      tb_recorded_at = 10, tb_retain_until = 100\<rparr>)]\<rparr>) 50 60)) ''n'' \<noteq> None"
proof -
  let ?db = "empty_db\<lparr>db_tombstones := [(''n'', \<lparr>tb_approval_id = ''id'', tb_recorded_at = 10, tb_retain_until = 100\<rparr>)]\<rparr>"
  have "dq_inv demo_durable (sink_verify_receipt demo_crypto2) (world_inv demo_crypto2) (?db, (demo_ledger, []))"
    using demo_world_inv by (simp add: dq_inv_def empty_db_def tables_ok_def rows_ok_def wf_dict_def)
  from decision_nonce_single_use[OF _ _ this, where status = Approved and n = "''n''"
      and t' = "\<lparr>tb_approval_id = ''id'', tb_recorded_at = 10, tb_retain_until = 100\<rparr>" and now = 60 and cutoff = 50]
  show ?thesis by (simp add: demo_durable_def)
qed

text \<open>
  The in-memory queue grants an approval at most once in any sequence of calls that
  does not submit it again, and grants it only for the approved agent and action, with
  every required context value, and within its time to live.
\<close>

theorem memory_queue_single_use:
  assumes wf: "oq_wf q"
  shows "((\<forall>op\<in>set ops. oq_submits op \<noteq> Some i) \<longrightarrow> uses oq_run q ops i \<le> 1)
    \<and> (case oq_consume_approved q i agent_id action ctx clock of
         (q', Inr (Some item)) \<Rightarrow> (\<exists>old now decided. oq_item q i = Some old \<and> pa_status old = Approved
            \<and> pa_agent_id old = agent_id \<and> pa_action old = action \<and> context_matches (pa_context old) ctx
            \<and> clock = Finite now \<and> pa_decided_at old = Some decided \<and> decided \<le> now
            \<and> now - decided \<le> oq_approval_ttl q
            \<and> item = old\<lparr>pa_status := Consumed, pa_consumed_at := Some now\<rparr> \<and> oq_item q' i = Some item)
       | _ \<Rightarrow> True)"
proof (intro conjI impI)
  have ph: "oq_phase q i \<le> 2" for q by (simp add: oq_phase_def status_phase_le split: option.split)
  show "\<forall>op\<in>set ops. oq_submits op \<noteq> Some i \<Longrightarrow> uses oq_run q ops i \<le> 1"
    by (rule memory.at_most_once[OF wf _ ph])
  show "case oq_consume_approved q i agent_id action ctx clock of
         (q', Inr (Some item)) \<Rightarrow> (\<exists>old now decided. oq_item q i = Some old \<and> pa_status old = Approved
            \<and> pa_agent_id old = agent_id \<and> pa_action old = action \<and> context_matches (pa_context old) ctx
            \<and> clock = Finite now \<and> pa_decided_at old = Some decided \<and> decided \<le> now
            \<and> now - decided \<le> oq_approval_ttl q
            \<and> item = old\<lparr>pa_status := Consumed, pa_consumed_at := Some now\<rparr> \<and> oq_item q' i = Some item)
       | _ \<Rightarrow> True"
    by (cases clock) (auto simp: oq_consume_approved_def Let_def split: option.split)
qed

definition demo_memory :: operator_queue where
  "demo_memory = \<lparr>oq_queue = [(''id'', (new_approval ''id'' ''a'' ''x'' [] 5)\<lparr>pa_status := Approved, pa_decided_at := Some 6\<rparr>)],
     oq_max_age = 3600, oq_approval_ttl = 300\<rparr>"

theorem memory_queue_single_use_witness:
  "uses oq_run demo_memory [OqConsume ''id'' ''a'' ''x'' [] (Finite 7), OqConsume ''id'' ''a'' ''x'' [] (Finite 8)] ''id'' = 1"
proof -
  have wf: "oq_wf demo_memory" by (simp add: oq_wf_def demo_memory_def wf_dict_def new_approval_def)
  have "1 \<le> uses oq_run demo_memory [OqConsume ''id'' ''a'' ''x'' [] (Finite 7), OqConsume ''id'' ''a'' ''x'' [] (Finite 8)] ''id''"
    by (simp add: oq_run_def oq_consume_approved_def demo_memory_def oq_item_def new_approval_def context_matches_def Let_def
        split: prod.split)
  with memory_queue_single_use[OF wf, where i = "''id''" and ops = "[OqConsume ''id'' ''a'' ''x'' [] (Finite 7),
      OqConsume ''id'' ''a'' ''x'' [] (Finite 8)]"] show ?thesis by (simp add: oq_submits_def del: uses_simps)
qed

text \<open>
  C32. A sink without \<open>audit_required\<close> admits no decision: the decision is staged without a
  proof, the evidence check refuses such an event, and the call raises instead of
  returning \<open>True\<close>, whatever the sink does.
\<close>

theorem unproved_decision_never_settles:
  assumes "\<not> dc_audit_required (dq_config q)" "dq_sink q = Some s" "status \<in> {Approved, Denied}"
    and row: "row_of (dq_db q) i = Some row" "pa_approval_id row = i" "pa_decision_proof row = None"
  shows "snd (dq_decide put verify status q i operator_id pf e clock) \<noteq> Inr True"
proof
  let ?c = "dq_config q"
  assume ret: "snd (dq_decide put verify status q i operator_id pf e clock) = Inr True"
  let ?t = "decide_transaction ?c True (dq_db q) status i operator_id pf e clock"
  from ret assms(2) obtain db where t: "?t = Inr (Some db)"
    by (cases ?t; cases "projr ?t") (auto simp: dq_decide_def)
  have item: "read_item (dq_db q) i = Inr (Some (pending_approval.truncate row))"
    by (simp add: read_item_def from_row_def row)
  from t obtain ts where st: "stage_existing ?c (dq_db q) (pending_approval.truncate row) status operator_id ts None e = Inr db"
    using assms(1) by (auto simp: decide_transaction_def item bind_result_Inr_iff map_result_Inr_iff
        verify_decision_writer_def split: if_splits)
  let ?ev = "staged_event ?c (pending_approval.truncate row) status operator_id ts None e"
  have out: "map_of (db_outbox db) e = Some (new_outbox ?ev)" using stage_outbox[OF st] .
  have none: "ev_decision_proof ?ev = None" by (simp add: staged_event_def row)
  from st have "event_valid ?ev"
    by (auto simp: stage_existing_def bind_result_Inr_iff event_valid_def none dest: post_init_same(1))
  then have read: "event_from_row (new_outbox ?ev) = Inr ?ev"
    by (simp add: event_from_row_def new_outbox_def event_from_to_dict)
  have bad: "\<not> valid_event_state sha o' a ?ev" for sha o' a
    using assms(3) none by (auto simp: valid_event_state_def staged_event_def)
  have "snd (flush_event put verify (q\<lparr>dq_db := db\<rparr>) e (clock 2)) \<noteq> Inr ()"
    using assms(2) bad read
    by (cases "event_state_row db e")
       (auto simp: flush_event_def flush_deliver_def event_state_row_def out bind_eq_Some_conv)
  with ret t assms(2) show False
    by (auto simp: dq_decide_def map_result_def split: prod.splits sum.splits)
qed

theorem unproved_decision_never_settles_witness:
  "snd (dq_decide (sink_record demo_crypto2) (sink_verify_receipt demo_crypto2) Approved
     (demo_queue\<lparr>dq_config := demo_durable\<lparr>dc_audit_required := False\<rparr>,
        dq_db := empty_db\<lparr>db_approvals := [(''id'', new_row ''id'' ''a'' ''x'' [] 5 None)]\<rparr>\<rparr>)
     ''id'' ''op'' None ''e'' (\<lambda>_. Finite 9)) \<noteq> Inr True"
  by (rule unproved_decision_never_settles[where row = "new_row ''id'' ''a'' ''x'' [] 5 None"])
     (simp_all add: demo_queue_def row_of_def new_row_def)

end
