(* ===== verification/Control.thy ===== *)
theory Control
  imports DurableSpec
begin

text \<open>
  \<open>enterprise/control.py\<close>: \<open>ControlPlane\<close>, the operator's pause, quarantine, revoke and
  kill switch. A transition runs under the lock and is one step; \<open>kill_all\<close> takes the
  lock once per agent, so the calls of other threads may fall between its steps
  (\<open>kill_interleaved\<close>). The ledger and the approval queue are arguments; what draining
  relies on is the locale \<open>drainable\<close>, interpreted on both approval queues.
\<close>

datatype control_state = Active | Paused | Quarantined | Revoked

datatype control_command = CmdPause | CmdResume | CmdQuarantine | CmdRevoke

fun state_name :: "control_state \<Rightarrow> pystr" where
  "state_name Active = ''active''"
| "state_name Paused = ''paused''"
| "state_name Quarantined = ''quarantined''"
| "state_name Revoked = ''revoked''"

fun command_name :: "control_command \<Rightarrow> pystr" where
  "command_name CmdPause = ''pause''"
| "command_name CmdResume = ''resume''"
| "command_name CmdQuarantine = ''quarantine''"
| "command_name CmdRevoke = ''revoke''"

record control_record =
  cr_agent_id :: pystr
  cr_command :: control_command
  cr_operator_id :: pystr
  cr_reason :: pystr
  cr_prev_state :: control_state
  cr_new_state :: control_state
  cr_ts :: time

definition CONTROL_TRANSITIONS :: "((control_state \<times> control_command) \<times> control_state) list" where
  "CONTROL_TRANSITIONS =
     [((Active, CmdPause), Paused), ((Active, CmdQuarantine), Quarantined), ((Active, CmdRevoke), Revoked),
      ((Paused, CmdResume), Active), ((Paused, CmdQuarantine), Quarantined), ((Paused, CmdRevoke), Revoked),
      ((Quarantined, CmdRevoke), Revoked)]"

definition next_state :: "control_state \<Rightarrow> control_command \<Rightarrow> control_state option" where
  "next_state current command = map_of CONTROL_TRANSITIONS (current, command)"

record ('l, 'q) control_plane =
  cp_states :: "(pystr \<times> control_state) list"
  cp_history :: "control_record list"
  cp_ledger :: "'l option"
  cp_queue :: "'q option"
  cp_system_deny :: bool

datatype ('e, 'f) control_error = TransitionForbidden | DenierUnavailable | LedgerRaised 'e | QueueRaised 'f

type_synonym ('q, 'f) queue_deny = "'q \<Rightarrow> pystr \<Rightarrow> pystr \<Rightarrow> 'q \<times> ('f + bool)"
type_synonym ('q, 'f) queue_pending = "'q \<Rightarrow> 'f + pending_approval list"

definition get_state :: "('l, 'q) control_plane \<Rightarrow> pystr \<Rightarrow> control_state" where
  "get_state cp agent_id = dict_get (cp_states cp) agent_id Active"

definition is_active :: "('l, 'q) control_plane \<Rightarrow> pystr \<Rightarrow> bool" where
  "is_active cp agent_id \<longleftrightarrow> get_state cp agent_id = Active"

definition control_register :: "('l, 'q) control_plane \<Rightarrow> pystr \<Rightarrow> ('l, 'q) control_plane" where
  "control_register cp agent_id =
     (if map_of (cp_states cp) agent_id = None
      then cp\<lparr>cp_states := cp_states cp @ [(agent_id, Active)]\<rparr> else cp)"

definition get_history :: "('l, 'q) control_plane \<Rightarrow> pystr option \<Rightarrow> control_record list" where
  "get_history cp agent_id =
     (case agent_id of None \<Rightarrow> cp_history cp | Some a \<Rightarrow> filter (\<lambda>r. cr_agent_id r = a) (cp_history cp))"

text \<open>\<open>_log\<close> and \<open>_transition\<close>: the ledger entry comes first, then the state.\<close>

definition control_call :: "control_record \<Rightarrow> log_call" where
  "control_call r =
     mk_call ''operator_control'' (''agent '' @ cr_agent_id r @ '' '' @ state_name (cr_new_state r))
       [(''command'', JStr (command_name (cr_command r))), (''subject_agent_id'', JStr (cr_agent_id r)),
        (''operator_id'', JStr (cr_operator_id r)), (''reason'', JStr (cr_reason r)),
        (''prev_state'', JStr (state_name (cr_prev_state r))),
        (''new_state'', JStr (state_name (cr_new_state r))), (''event_ts'', JFloat (cr_ts r))]"

definition transition ::
    "('l, 'e) logger \<Rightarrow> time \<Rightarrow> ('l, 'q) control_plane \<Rightarrow> pystr \<Rightarrow> control_command \<Rightarrow> pystr \<Rightarrow> pystr
     \<Rightarrow> ('l, 'q) control_plane \<times> (('e, 'f) control_error + control_record)" where
  "transition log now cp agent_id command operator_id reason =
     (let prev = get_state cp agent_id in
      case next_state prev command of
        None \<Rightarrow> (cp, Inl TransitionForbidden)
      | Some new \<Rightarrow>
          (let rec = \<lparr>cr_agent_id = agent_id, cr_command = command, cr_operator_id = operator_id,
                      cr_reason = reason, cr_prev_state = prev, cr_new_state = new, cr_ts = now\<rparr> in
           case log_opt log (cp_ledger cp) (control_call rec) of
             (l, Inl e) \<Rightarrow> (cp\<lparr>cp_ledger := l\<rparr>, Inl (LedgerRaised e))
           | (l, Inr _) \<Rightarrow>
               (cp\<lparr>cp_ledger := l, cp_states := AList.update agent_id new (cp_states cp),
                   cp_history := cp_history cp @ [rec]\<rparr>, Inr rec)))"

subsection \<open>Draining the approval queue\<close>

fun deny_each :: "('q, 'f) queue_deny \<Rightarrow> 'q \<Rightarrow> pending_approval list \<Rightarrow> pystr \<Rightarrow> 'q \<times> ('f + nat)" where
  "deny_each deny q [] operator_id = (q, Inr 0)"
| "deny_each deny q (item # items) operator_id =
     (case deny q (pa_approval_id item) operator_id of
        (q', Inl e) \<Rightarrow> (q', Inl e)
      | (q', Inr _) \<Rightarrow>
          (case deny_each deny q' items operator_id of
             (q'', r) \<Rightarrow> (q'', map_result Suc r)))"

text \<open>\<open>_drain_queue\<close> (one agent) and \<open>_drain_all_queue\<close> (no filter).\<close>

definition drain ::
    "('q, 'f) queue_pending \<Rightarrow> ('q, 'f) queue_deny \<Rightarrow> (pending_approval \<Rightarrow> bool) \<Rightarrow> pystr
     \<Rightarrow> ('l, 'q) control_plane \<Rightarrow> ('l, 'q) control_plane \<times> (('e, 'f) control_error + nat)" where
  "drain pending deny concerned operator_id cp =
     (case cp_queue cp of
        None \<Rightarrow> (cp, Inr 0)
      | Some q \<Rightarrow>
          (case pending q of
             Inl e \<Rightarrow> (cp, Inl (QueueRaised e))
           | Inr items \<Rightarrow>
               (let todo = filter concerned items in
                if todo \<noteq> [] \<and> \<not> cp_system_deny cp then (cp, Inl DenierUnavailable)
                else (case deny_each deny q todo operator_id of
                        (q', r) \<Rightarrow> (cp\<lparr>cp_queue := Some q'\<rparr>,
                                    case r of Inl e \<Rightarrow> Inl (QueueRaised e) | Inr n \<Rightarrow> Inr n)))))"

definition drain_queue where
  "drain_queue pending deny agent_id operator_id =
     drain pending deny (\<lambda>item. pa_agent_id item = agent_id) (''system/quarantine:'' @ operator_id)"

definition drain_all_queue where
  "drain_all_queue pending deny operator_id = drain pending deny (\<lambda>_. True) (''system/kill_all:'' @ operator_id)"

subsection \<open>Commands\<close>

definition control_pause where
  "control_pause log now cp agent_id operator_id reason = transition log now cp agent_id CmdPause operator_id reason"

definition control_resume where
  "control_resume log now cp agent_id operator_id reason = transition log now cp agent_id CmdResume operator_id reason"

definition control_revoke where
  "control_revoke log now cp agent_id operator_id reason = transition log now cp agent_id CmdRevoke operator_id reason"

definition control_quarantine ::
    "('l, 'e) logger \<Rightarrow> ('q, 'f) queue_pending \<Rightarrow> ('q, 'f) queue_deny \<Rightarrow> time \<Rightarrow> ('l, 'q) control_plane
     \<Rightarrow> pystr \<Rightarrow> pystr \<Rightarrow> pystr \<Rightarrow> ('l, 'q) control_plane \<times> (('e, 'f) control_error + control_record)" where
  "control_quarantine log pending deny now cp agent_id operator_id reason =
     (case transition log now cp agent_id CmdQuarantine operator_id reason of
        (cp1, Inl e) \<Rightarrow> (cp1, Inl e)
      | (cp1, Inr rec) \<Rightarrow>
          (case drain_queue pending deny agent_id operator_id cp1 of
             (cp2, r) \<Rightarrow> (cp2, map_result (\<lambda>_. rec) r)))"

text \<open>\<open>kill_all\<close>: snapshot, one transition per agent, then the whole queue if any was revoked.\<close>

definition kill_targets :: "('l, 'q) control_plane \<Rightarrow> pystr list" where
  "kill_targets cp = map fst (filter (\<lambda>kv. snd kv \<noteq> Revoked) (cp_states cp))"

fun kill_each ::
    "('l, 'e) logger \<Rightarrow> time \<Rightarrow> ('l, 'q) control_plane \<Rightarrow> pystr list \<Rightarrow> pystr \<Rightarrow> pystr
     \<Rightarrow> ('l, 'q) control_plane \<times> (('e, 'f) control_error + control_record list)" where
  "kill_each log now cp [] operator_id reason = (cp, Inr [])"
| "kill_each log now cp (aid # aids) operator_id reason =
     (case transition log now cp aid CmdRevoke operator_id reason of
        (cp1, Inl TransitionForbidden) \<Rightarrow> kill_each log now cp1 aids operator_id reason
      | (cp1, Inl e) \<Rightarrow> (cp1, Inl e)
      | (cp1, Inr rec) \<Rightarrow>
          (case kill_each log now cp1 aids operator_id reason of
             (cp2, r) \<Rightarrow> (cp2, map_result (Cons rec) r)))"

definition kill_all ::
    "('l, 'e) logger \<Rightarrow> ('q, 'f) queue_pending \<Rightarrow> ('q, 'f) queue_deny \<Rightarrow> time \<Rightarrow> ('l, 'q) control_plane
     \<Rightarrow> pystr \<Rightarrow> pystr \<Rightarrow> ('l, 'q) control_plane \<times> (('e, 'f) control_error + control_record list)" where
  "kill_all log pending deny now cp operator_id reason =
     (case kill_each log now cp (kill_targets cp) operator_id reason of
        (cp1, Inl e) \<Rightarrow> (cp1, Inl e)
      | (cp1, Inr records) \<Rightarrow>
          if cp_queue cp1 \<noteq> None \<and> records \<noteq> [] then
            (case drain_all_queue pending deny operator_id cp1 of
               (cp2, r) \<Rightarrow> (cp2, map_result (\<lambda>_. records) r))
          else (cp1, Inr records))"

text \<open>The transitions other threads may run between two steps of \<open>kill_all\<close>.\<close>

datatype control_op = OpRegister pystr | OpTransition pystr control_command pystr pystr

definition run_op ::
    "('l, 'e) logger \<Rightarrow> time \<Rightarrow> ('l, 'q) control_plane \<Rightarrow> control_op \<Rightarrow> ('l, 'q) control_plane" where
  "run_op log now cp op =
     (case op of
        OpRegister a \<Rightarrow> control_register cp a
      | OpTransition a c o' r \<Rightarrow>
          (case transition log now cp a c o' r :: ('l, 'q) control_plane \<times> (('e, unit) control_error + control_record) of
             (cp', _) \<Rightarrow> cp'))"

definition run_ops where
  "run_ops log now cp ops = foldl (run_op log now) cp ops"

fun kill_interleaved ::
    "('l, 'e) logger \<Rightarrow> time \<Rightarrow> ('l, 'q) control_plane \<Rightarrow> (pystr \<times> control_op list) list \<Rightarrow> pystr \<Rightarrow> pystr
     \<Rightarrow> ('l, 'q) control_plane \<times> bool" where
  "kill_interleaved log now cp [] operator_id reason = (cp, True)"
| "kill_interleaved log now cp ((aid, others) # rest) operator_id reason =
     (case transition log now cp aid CmdRevoke operator_id reason
           :: ('l, 'q) control_plane \<times> (('e, unit) control_error + control_record) of
        (cp1, Inl (LedgerRaised e)) \<Rightarrow> (cp1, False)
      | (cp1, _) \<Rightarrow> kill_interleaved log now (run_ops log now cp1 others) rest operator_id reason)"

subsection \<open>States\<close>

lemma next_state_revoke: "next_state s CmdRevoke = (if s = Revoked then None else Some Revoked)"
  by (cases s) (simp_all add: next_state_def CONTROL_TRANSITIONS_def)

lemma next_state_revoked [simp]: "next_state Revoked c = None"
  by (cases c) (simp_all add: next_state_def CONTROL_TRANSITIONS_def)

lemma next_state_quarantined: "next_state Quarantined c \<in> {None, Some Revoked}"
  by (cases c) (simp_all add: next_state_def CONTROL_TRANSITIONS_def)

lemma get_state_update [simp]:
  "get_state (cp\<lparr>cp_ledger := l, cp_states := AList.update a s (cp_states cp), cp_history := h\<rparr>) b
     = (if b = a then s else get_state cp b)"
  by (simp add: get_state_def dict_get_def)

lemma get_state_ledger [simp]: "get_state (cp\<lparr>cp_ledger := l\<rparr>) b = get_state cp b"
  by (simp add: get_state_def)

text \<open>How a transition ends.\<close>

lemma transition_cases:
  assumes "transition log now cp a c o' r = (cp', res)"
  obtains (forbidden) "next_state (get_state cp a) c = None" "cp' = cp" "res = Inl TransitionForbidden"
  | (raised) l e new where "next_state (get_state cp a) c = Some new" "cp' = cp\<lparr>cp_ledger := l\<rparr>"
      "res = Inl (LedgerRaised e)"
  | (moved) l new rec where "next_state (get_state cp a) c = Some new"
      "rec = \<lparr>cr_agent_id = a, cr_command = c, cr_operator_id = o', cr_reason = r,
              cr_prev_state = get_state cp a, cr_new_state = new, cr_ts = now\<rparr>"
      "log_opt log (cp_ledger cp) (control_call rec) = (l, Inr ())"
      "cp' = cp\<lparr>cp_ledger := l, cp_states := AList.update a new (cp_states cp), cp_history := cp_history cp @ [rec]\<rparr>"
      "res = Inr rec"
proof (cases "next_state (get_state cp a) c")
  case None
  with assms have "cp' = cp" "res = Inl TransitionForbidden" by (simp_all add: transition_def)
  with None show thesis by (rule forbidden)
next
  case (Some new)
  let ?rec = "\<lparr>cr_agent_id = a, cr_command = c, cr_operator_id = o', cr_reason = r,
              cr_prev_state = get_state cp a, cr_new_state = new, cr_ts = now\<rparr>"
  obtain l x where l: "log_opt log (cp_ledger cp) (control_call ?rec) = (l, x)"
    by (cases "log_opt log (cp_ledger cp) (control_call ?rec)")
  show thesis
  proof (cases x)
    case (Inl e)
    with assms Some l have "cp' = cp\<lparr>cp_ledger := l\<rparr>" "res = Inl (LedgerRaised e)"
      by (simp_all add: transition_def Let_def)
    with Some show thesis by (rule raised)
  next
    case (Inr u)
    with assms Some l have "cp' = cp\<lparr>cp_ledger := l, cp_states := AList.update a new (cp_states cp),
        cp_history := cp_history cp @ [?rec]\<rparr>" "res = Inr ?rec"
      by (simp_all add: transition_def Let_def)
    moreover have "log_opt log (cp_ledger cp) (control_call ?rec) = (l, Inr ())" using l Inr by simp
    ultimately show thesis using moved[OF Some refl] by blast
  qed
qed

lemma transition_state:
  assumes "transition log now cp a c o' r = (cp', res)"
  shows "get_state cp' b = (if b = a \<and> (\<exists>rec. res = Inr rec) then the (next_state (get_state cp a) c) else get_state cp b)"
    "cp_queue cp' = cp_queue cp" "cp_system_deny cp' = cp_system_deny cp"
  using assms by (cases rule: transition_cases; simp)+

lemma transition_revoked_stays:
  assumes "transition log now cp a c o' r = (cp', res)" "get_state cp b = Revoked"
  shows "get_state cp' b = Revoked"
  using assms by (cases rule: transition_cases) auto

lemma register_state [simp]: "get_state (control_register cp a) b = get_state cp b"
  by (auto simp: control_register_def get_state_def dict_get_def map_add_def split: option.split)

lemma run_op_revoked:
  assumes "get_state cp b = Revoked" shows "get_state (run_op log now cp op) b = Revoked"
proof (cases op)
  case (OpTransition a c o' r)
  then show ?thesis by (auto simp: run_op_def split: prod.split intro: transition_revoked_stays[OF _ assms])
qed (simp add: run_op_def assms)

lemma run_ops_revoked: "get_state cp b = Revoked \<Longrightarrow> get_state (run_ops log now cp ops) b = Revoked"
  unfolding run_ops_def by (induction ops arbitrary: cp) (simp_all add: run_op_revoked)

lemma kill_interleaved_revoked:
  "get_state cp b = Revoked \<Longrightarrow> get_state (fst (kill_interleaved log now cp todo o' r)) b = Revoked"
proof (induction todo arbitrary: cp)
  case (Cons step todo)
  obtain aid others where step: "step = (aid, others)" by (cases step)
  obtain cp1 res where tr: "transition log now cp aid CmdRevoke o' r
      = (cp1, res :: ('c, unit) control_error + control_record)"
    by (cases "transition log now cp aid CmdRevoke o' r :: _ \<times> (('c, unit) control_error + control_record)")
  note stays = transition_revoked_stays[OF tr Cons.prems]
  show ?case
    using Cons.IH[OF run_ops_revoked[OF stays, of log now others]] stays
    by (simp add: step tr split: sum.split control_error.split)
qed simp

subsection \<open>Draining\<close>

text \<open>
  What draining relies on: the queue lists what is waiting, a denial that returns leaves
  the item decided, and no denial makes another item wait.
\<close>

locale drainable =
  fixes pending :: "('q, 'f) queue_pending" and deny :: "('q, 'f) queue_deny"
    and waiting :: "'q \<Rightarrow> pystr \<Rightarrow> pystr option" and wf :: "'q \<Rightarrow> bool"
  assumes pending_lists: "wf q \<Longrightarrow> pending q = Inr items
      \<Longrightarrow> waiting q i = Some a \<longleftrightarrow> (\<exists>item\<in>set items. pa_approval_id item = i \<and> pa_agent_id item = a)"
    and deny_settles: "wf q \<Longrightarrow> deny q i o' = (q', Inr b) \<Longrightarrow> waiting q' i = None"
    and deny_keeps: "wf q \<Longrightarrow> deny q i o' = (q', res) \<Longrightarrow> waiting q' j \<in> {None, waiting q j}"
    and deny_wf: "wf q \<Longrightarrow> deny q i o' = (q', res) \<Longrightarrow> wf q'"
begin

lemma deny_each_settles:
  "wf q \<Longrightarrow> deny_each deny q items o' = (q', Inr n) \<Longrightarrow>
     wf q' \<and> n = length items \<and> (\<forall>item\<in>set items. waiting q' (pa_approval_id item) = None)
     \<and> (\<forall>j. waiting q' j \<in> {None, waiting q j})"
proof (induction items arbitrary: q n)
  case (Cons item items)
  obtain q1 r1 where d: "deny q (pa_approval_id item) o' = (q1, r1)" by (cases "deny q (pa_approval_id item) o'")
  with Cons.prems(2) obtain b m where r1: "r1 = Inr b" and rest: "deny_each deny q1 items o' = (q', Inr m)" "n = Suc m"
    by (cases r1) (auto simp: map_result_Inr_iff split: prod.splits)
  note wf1 = deny_wf[OF Cons.prems(1) d]
  note ih = Cons.IH[OF wf1 rest(1)]
  have keeps: "waiting q' j \<in> {None, waiting q j}" for j
    using ih deny_keeps[OF Cons.prems(1) d, of j] by (elim conjE) (drule spec[of _ j], auto)
  have "waiting q' (pa_approval_id item) = None"
    using ih deny_settles[OF Cons.prems(1) d[unfolded r1]] by (elim conjE) (drule spec[of _ "pa_approval_id item"], auto)
  with ih keeps rest(2) show ?case by simp
qed simp

text \<open>After a drain that returns, no approval the drain was concerned with waits.\<close>

lemma drain_empties:
  assumes q: "cp_queue cp = Some q" and wf: "wf q" and run: "drain pending deny concerned o' cp = (cp', Inr n)"
    and concerned: "\<And>item a. pa_agent_id item = a \<Longrightarrow> concerned item = P a"
  shows "\<exists>q'. cp_queue cp' = Some q' \<and> wf q' \<and> (\<forall>i a. waiting q' i = Some a \<longrightarrow> \<not> P a)"
proof -
  from run q obtain items where items: "pending q = Inr items"
    by (cases "pending q") (simp_all add: drain_def)
  let ?todo = "filter concerned items"
  obtain q' r where each: "deny_each deny q ?todo o' = (q', r)" by (cases "deny_each deny q ?todo o'")
  from run q items each have cp': "cp' = cp\<lparr>cp_queue := Some q'\<rparr>" and r: "r = Inr n"
    by (auto simp: drain_def Let_def split: if_splits sum.splits)
  note d = deny_each_settles[OF wf each[unfolded r]]
  have "\<not> P a" if wait: "waiting q' i = Some a" for i a
  proof
    assume "P a"
    from d wait have "waiting q i = Some a" by (metis insertE option.distinct(1) singletonD)
    then obtain item where "item \<in> set items" "pa_approval_id item = i" "pa_agent_id item = a"
      using pending_lists[OF wf items] by auto
    with \<open>P a\<close> concerned d wait show False by force
  qed
  with d cp' show ?thesis by auto
qed

end

definition oq_waiting :: "operator_queue \<Rightarrow> pystr \<Rightarrow> pystr option" where
  "oq_waiting q i = (case oq_item q i of None \<Rightarrow> None
     | Some item \<Rightarrow> if pa_status item = Pending then Some (pa_agent_id item) else None)"

interpretation memory_drain: drainable "\<lambda>q. Inr (oq_get_pending q)" "\<lambda>q i o'. oq_deny q i o' clock" oq_waiting oq_wf
  for clock
proof unfold_locales
  fix q :: operator_queue and items i a
  assume wf: "oq_wf q" and "(Inr (oq_get_pending q) :: approval_error + _) = Inr items"
  then have items: "items = filter (\<lambda>item. pa_status item = Pending) (map snd (oq_queue q))"
    by (simp add: oq_get_pending_def oq_get_all_def)
  let ?P = "\<lambda>item. pa_status item = Pending \<and> pa_agent_id item = a"
  have "oq_waiting q i = Some a \<longleftrightarrow> (\<exists>item. map_of (oq_queue q) i = Some item \<and> ?P item)"
    by (auto simp: oq_waiting_def oq_item_def split: option.splits)
  also have "\<dots> \<longleftrightarrow> (\<exists>item\<in>set (map snd (oq_queue q)). pa_approval_id item = i \<and> ?P item)"
    using wf by (intro keyed_values[symmetric]) (auto simp: oq_wf_def list_all_iff)
  also have "\<dots> \<longleftrightarrow> (\<exists>item\<in>set items. pa_approval_id item = i \<and> pa_agent_id item = a)"
    unfolding items set_filter by blast
  finally show "oq_waiting q i = Some a \<longleftrightarrow> (\<exists>item\<in>set items. pa_approval_id item = i \<and> pa_agent_id item = a)" .
next
  fix q q' :: operator_queue and i o' b
  assume "oq_wf q" "oq_deny q i o' clock = (q', Inr b)"
  then show "oq_waiting q' i = None"
    by (auto simp: oq_deny_def oq_decide_def oq_waiting_def Let_def split: option.splits if_splits sum.splits)
next
  fix q q' :: operator_queue and i o' res j
  assume "oq_wf q" "oq_deny q i o' clock = (q', res)"
  then show "oq_waiting q' j \<in> {None, oq_waiting q j}"
    by (auto simp: oq_deny_def oq_decide_def oq_waiting_def Let_def split: option.splits if_splits sum.splits)
next
  fix q q' :: operator_queue and i o' res
  assume "oq_wf q" "oq_deny q i o' clock = (q', res)"
  then show "oq_wf q'" using oq_run_wf[of q "OqDeny i o' clock"] by (simp add: oq_run_def)
qed

subsubsection \<open>The durable queue\<close>

definition dq_waiting :: "'s durable_queue \<Rightarrow> pystr \<Rightarrow> pystr option" where
  "dq_waiting q i = (case row_of (dq_db q) i of None \<Rightarrow> None
     | Some row \<Rightarrow> if pa_status row = Pending then Some (pa_agent_id row) else None)"

text \<open>The safety denial \<open>_bind_system_denier\<close> binds; the draws of a call depend on the queue.\<close>

definition system_denier ::
    "'s sink_put \<Rightarrow> 's sink_verify \<Rightarrow> ('s durable_queue \<Rightarrow> pystr \<times> pystr \<times> (nat \<Rightarrow> pyfloat))
     \<Rightarrow> ('s durable_queue, approval_error) queue_deny" where
  "system_denier put verify draw q i operator_id =
     (case draw q of (nonce, event_id, clock) \<Rightarrow>
        deny_for_system_safety put verify q i operator_id True nonce event_id clock)"

lemma from_rows_Inr: "from_rows rs = Inr items \<Longrightarrow> items = map pending_approval.truncate rs"
proof (induction rs arbitrary: items)
  case (Cons r rs)
  then obtain item items' where "from_row r = Inr item" "from_rows rs = Inr items'" "items = item # items'"
    by (auto simp: bind_result_Inr_iff map_result_Inr_iff)
  with Cons.IH show ?case by (auto simp: from_row_def map_result_Inr_iff split: option.splits)
qed simp

lemma flush_rows:
  assumes fl: "flush_event put verify q e clock = (q', r)" and o': "map_of (db_outbox (dq_db q)) e = Some o'"
    and row: "row_of (dq_db q) (ob_approval_id o') = Some row" "ar_pending_status row = Some target"
  shows "row_of (dq_db q') j = row_of (dq_db q) j
    \<or> j = ob_approval_id o' \<and> (\<exists>row'. row_of (dq_db q') j = Some row' \<and> pa_status row' = target)"
proof (cases "dq_db q' = dq_db q")
  case False
  with fl obtain event receipt db where
    "flush_finalize (dq_config q) (dq_db q) e event receipt clock = Inr db" "dq_db q' = db"
    by (auto simp: flush_event_def split: option.splits prod.splits sum.splits)
  with False show ?thesis using o' row
    by (elim finalize_cases) auto
qed simp

context audit_sink begin

lemma system_denial_effect:
  assumes gov: "governed_queue verify sound q"
    and run: "deny_for_system_safety put verify q i operator_id True nonce e clock = (q', r)"
  shows "dq_waiting q' j \<in> {None, dq_waiting q j}" "r = Inr b \<Longrightarrow> dq_waiting q' i = None"
proof -
  from gov obtain s where s: "dq_sink q = Some s" and inv: "dq_inv (dq_config q) verify sound (dq_db q, s)"
    by (rule governed_queueE)
  let ?t = "system_denial_transaction (dq_config q) (dq_db q) i operator_id nonce e (clock 1)"
  have "dq_waiting q' j \<in> {None, dq_waiting q j} \<and> (r = Inr b \<longrightarrow> dq_waiting q' i = None)"
  proof (cases "valid_operator_id operator_id \<and> (\<exists>db. ?t = Inr (Some db))")
    case True
    then obtain db where t: "?t = Inr (Some db)" and op: "valid_operator_id operator_id" by blast
    obtain r1 where fl: "flush_event put verify (q\<lparr>dq_db := db\<rparr>) e (clock 2) = (q', r1)"
      using run t op by (cases "flush_event put verify (q\<lparr>dq_db := db\<rparr>) e (clock 2)")
        (simp add: deny_for_system_safety_def)
    from t op show ?thesis
    proof (cases rule: system_denial_staged)
      case (1 item ts p)
      note st = inv_staged(2,3)[OF inv 1(5,1) _ 1(4) _ 1(3)]
      from st(2) obtain row where row: "pa_approval_id item = i"
        "row_of db i = Some (staged_row (dq_config q) row item Denied ts
           (staged_event (dq_config q) item Denied operator_id ts (Some p) e))" by auto
      let ?row = "staged_row (dq_config q) row item Denied ts (staged_event (dq_config q) item Denied operator_id ts (Some p) e)"
      have out: "map_of (db_outbox (dq_db (q\<lparr>dq_db := db\<rparr>))) e
          = Some (new_outbox (staged_event (dq_config q) item Denied operator_id ts (Some p) e))"
        using stage_outbox[OF 1(5)] by simp
      have id: "ob_approval_id (new_outbox (staged_event (dq_config q) item Denied operator_id ts (Some p) e)) = i"
        by (simp add: new_outbox_def staged_event_def row)
      have eff: "row_of (dq_db q') k = row_of db k
          \<or> k = i \<and> (\<exists>row'. row_of (dq_db q') k = Some row' \<and> pa_status row' = Denied)" for k
        using flush_rows[OF fl out, of ?row Denied k] row(2) id by (simp add: staged_row_def)
      have ap: "pa_status ?row = AuditPending" by (simp add: staged_row_def)
      have "dq_waiting q' i = None" using eff[of i] row(2) ap by (auto simp: dq_waiting_def)
      moreover have "dq_waiting q' k = dq_waiting q k" if "k \<noteq> i" for k
        using eff[of k] st(1)[of k] that by (simp add: dq_waiting_def)
      ultimately show ?thesis by (cases "j = i") auto
    qed
  next
    case False
    have none: "dq_waiting q i = None" if "?t = Inr None"
    proof -
      from that obtain found where f: "read_item (dq_db q) i = Inr found" "\<And>item. found = Some item \<Longrightarrow> pa_status item \<noteq> Pending"
        by (cases "read_item (dq_db q) i"; cases "projr (read_item (dq_db q) i)")
           (auto simp: system_denial_transaction_def bind_result_Inr_iff map_result_Inr_iff split: if_splits)
      then show ?thesis
        by (cases found) (auto simp: dq_waiting_def read_item_def from_row_def map_result_Inr_iff split: option.splits)
    qed
    from False run have "q' = q" "r = Inr b \<Longrightarrow> ?t = Inr None"
      by (cases "valid_operator_id operator_id"; cases ?t; cases "projr ?t"; auto simp: deny_for_system_safety_def)+
    with none show ?thesis by simp
  qed
  then show "dq_waiting q' j \<in> {None, dq_waiting q j}" "r = Inr b \<Longrightarrow> dq_waiting q' i = None" by simp_all
qed

end

interpretation durable_drain: drainable dq_get_pending "system_denier (sink_record cr) (sink_verify_receipt cr) draw"
    dq_waiting "governed_queue (sink_verify_receipt cr) (world_inv cr)" for cr draw
proof unfold_locales
  fix q :: "ledger_world durable_queue" and items i a
  assume gov: "governed_queue (sink_verify_receipt cr) (world_inv cr) q" and p: "dq_get_pending q = Inr items"
  from gov obtain s where "dq_inv (dq_config q) (sink_verify_receipt cr) (world_inv cr) (dq_db q, s)"
    by (rule governed_queueE)
  then have ok: "wf_dict (db_approvals (dq_db q))" "\<forall>kv\<in>set (db_approvals (dq_db q)). pa_approval_id (snd kv) = fst kv"
    by (auto simp: dq_inv_def tables_ok_iff rows_ok_def list_all_iff row_ok_def)
  from from_rows_Inr[OF p[unfolded dq_get_pending_def]]
  have items: "items = map pending_approval.truncate (filter (\<lambda>r. pa_status r = Pending) (map snd (db_approvals (dq_db q))))" .
  let ?P = "\<lambda>row. pa_status row = Pending \<and> pa_agent_id row = a"
  have "dq_waiting q i = Some a \<longleftrightarrow> (\<exists>row. map_of (db_approvals (dq_db q)) i = Some row \<and> ?P row)"
    by (auto simp: dq_waiting_def row_of_def split: option.splits)
  also have "\<dots> \<longleftrightarrow> (\<exists>row\<in>set (map snd (db_approvals (dq_db q))). pa_approval_id row = i \<and> ?P row)"
    using ok by (rule keyed_values[symmetric])
  also have "\<dots> \<longleftrightarrow> (\<exists>item\<in>set items. pa_approval_id item = i \<and> pa_agent_id item = a)"
    unfolding items set_filter set_map[of pending_approval.truncate] by auto
  finally show "dq_waiting q i = Some a \<longleftrightarrow> (\<exists>item\<in>set items. pa_approval_id item = i \<and> pa_agent_id item = a)" .
next
  fix q q' :: "ledger_world durable_queue" and i o' b
  assume "governed_queue (sink_verify_receipt cr) (world_inv cr) q"
    "system_denier (sink_record cr) (sink_verify_receipt cr) draw q i o' = (q', Inr b)"
  then show "dq_waiting q' i = None"
    by (auto simp: system_denier_def split: prod.splits dest: ledger_sink.system_denial_effect(2))
next
  fix q q' :: "ledger_world durable_queue" and i o' res j
  assume "governed_queue (sink_verify_receipt cr) (world_inv cr) q"
    "system_denier (sink_record cr) (sink_verify_receipt cr) draw q i o' = (q', res)"
  then show "dq_waiting q' j \<in> {None, dq_waiting q j}"
    using ledger_sink.system_denial_effect(1)[of cr q i o'] by (auto simp: system_denier_def split: prod.splits)
next
  fix q q' :: "ledger_world durable_queue" and i o' res
  assume "governed_queue (sink_verify_receipt cr) (world_inv cr) q"
    "system_denier (sink_record cr) (sink_verify_receipt cr) draw q i o' = (q', res)"
  then show "governed_queue (sink_verify_receipt cr) (world_inv cr) q'"
    by (auto simp: system_denier_def split: prod.splits dest: ledger_sink.system_denial_governed)
qed

subsection \<open>Kill switch and quarantine\<close>

lemma kill_each_revokes:
  fixes log :: "('l, 'e) logger"
  shows "kill_each log now cp aids o' r = (cp', Inr recs :: ('e, 'f) control_error + _) \<Longrightarrow>
     (\<forall>a\<in>set aids. get_state cp' a = Revoked) \<and> (\<forall>b. get_state cp b = Revoked \<longrightarrow> get_state cp' b = Revoked)
     \<and> (\<forall>b. b \<notin> set aids \<longrightarrow> get_state cp' b = get_state cp b) \<and> cp_queue cp' = cp_queue cp
     \<and> cp_system_deny cp' = cp_system_deny cp"
proof (induction aids arbitrary: cp recs)
  case (Cons aid aids)
  obtain cp1 res where tr: "transition log now cp aid CmdRevoke o' r = (cp1, res :: ('e, 'f) control_error + _)"
    by (cases "transition log now cp aid CmdRevoke o' r :: _ \<times> (('e, 'f) control_error + _)")
  have ok: "\<exists>recs'. kill_each log now cp1 aids o' r = (cp', Inr recs' :: ('e, 'f) control_error + _)" "res = Inl TransitionForbidden \<or> (\<exists>rec. res = Inr rec)"
    using Cons.prems by (auto simp: tr map_result_Inr_iff split: sum.splits control_error.splits prod.splits)
  have aid: "get_state cp1 aid = Revoked"
    using tr ok(2) by (cases rule: transition_cases) (auto simp: next_state_revoke split: if_splits)
  have other: "get_state cp1 b = get_state cp b" if "b \<noteq> aid" for b
    using transition_state(1)[OF tr, of b] that by simp
  from ok(1) obtain recs' where "kill_each log now cp1 aids o' r = (cp', Inr recs' :: ('e, 'f) control_error + _)" by blast
  from Cons.IH[OF this] aid other transition_state(2,3)[OF tr] transition_revoked_stays[OF tr] show ?case by auto
qed simp

lemma drain_state: "drain pending deny P o' cp = (cp', r) \<Longrightarrow> get_state cp' a = get_state cp a"
  by (auto simp: drain_def Let_def get_state_def split: option.splits sum.splits if_splits prod.splits)

context drainable begin

lemma kill_all_effect:
  fixes log :: "('l, 'e) logger"
  assumes run: "kill_all log pending deny now cp o' r = (cp', Inr recs)"
    and q: "cp_queue cp = Some q" and wf: "wf q"
  shows "(\<forall>a\<in>fst ` set (cp_states cp). wf_dict (cp_states cp) \<longrightarrow> get_state cp' a = Revoked)
    \<and> (recs \<noteq> [] \<longrightarrow> (\<exists>q'. cp_queue cp' = Some q' \<and> wf q' \<and> (\<forall>i. waiting q' i = None)))"
proof -
  obtain cp1 r1 where each: "kill_each log now cp (kill_targets cp) o' r = (cp1, r1 :: ('e, 'f) control_error + _)"
    by (cases "kill_each log now cp (kill_targets cp) o' r :: _ \<times> (('e, 'f) control_error + _)")
  with run have r1: "r1 = Inr recs"
    by (cases r1) (auto simp: kill_all_def map_result_Inr_iff split: if_splits prod.splits)
  note k = kill_each_revokes[OF each[unfolded r1]]
  have all: "get_state cp1 a = Revoked" if a: "a \<in> fst ` set (cp_states cp)" and d: "wf_dict (cp_states cp)" for a
  proof (cases "a \<in> set (kill_targets cp)")
    case False
    from a obtain s where s: "(a, s) \<in> set (cp_states cp)" by auto
    with False have "s = Revoked" by (force simp: kill_targets_def)
    with s d have "get_state cp a = Revoked" by (simp add: get_state_def dict_get_def wf_dict_map_of)
    with k show ?thesis by blast
  qed (use k in blast)
  show ?thesis
  proof (cases "recs = []")
    case True
    with run each r1 have "cp' = cp1" by (simp add: kill_all_def)
    with all True show ?thesis by simp
  next
    case False
    from k q have q1: "cp_queue cp1 = Some q" by simp
    obtain n where "drain_all_queue pending deny o' cp1 = (cp', Inr n :: ('e, 'f) control_error + _)"
      using run each r1 False q1 by (auto simp: kill_all_def map_result_Inr_iff split: prod.splits)
    then have "drain pending deny (\<lambda>_. True) (''system/kill_all:'' @ o') cp1 = (cp', Inr n :: ('e, 'f) control_error + _)"
      by (simp add: drain_all_queue_def)
    from drain_empties[OF q1 wf this, of "\<lambda>_. True"] drain_state[OF this] all False show ?thesis
      by auto
  qed
qed

lemma quarantine_effect:
  fixes log :: "('l, 'e) logger"
  assumes run: "control_quarantine log pending deny now cp a o' r = (cp', Inr rec)"
    and q: "cp_queue cp = Some q" and wf: "wf q"
  shows "get_state cp' a = Quarantined
    \<and> (\<exists>q'. cp_queue cp' = Some q' \<and> wf q' \<and> (\<forall>i. waiting q' i \<noteq> Some a))"
proof -
  obtain cp1 res where tr: "transition log now cp a CmdQuarantine o' r = (cp1, res :: ('e, 'f) control_error + _)"
    by (cases "transition log now cp a CmdQuarantine o' r :: _ \<times> (('e, 'f) control_error + _)")
  with run obtain rec1 n where res: "res = Inr rec1"
    and dr: "drain pending deny (\<lambda>item. pa_agent_id item = a) (''system/quarantine:'' @ o') cp1
        = (cp', Inr n :: ('e, 'f) control_error + _)"
    by (cases res) (auto simp: control_quarantine_def drain_queue_def map_result_Inr_iff split: prod.splits)
  have "get_state cp1 a = Quarantined"
    using tr[unfolded res] by (cases rule: transition_cases)
      (auto simp: next_state_def CONTROL_TRANSITIONS_def split: if_splits)
  moreover have "cp_queue cp1 = Some q" using transition_state(2)[OF tr] q by simp
  ultimately show ?thesis
    using drain_empties[OF _ wf dr, of "\<lambda>b. b = a"] drain_state[OF dr] by auto
qed

end

end
