(* ===== verification/ControlSpec.thy ===== *)
theory ControlSpec
  imports Control
begin

text \<open>
  The properties of the control plane, over the signed ledger and the durable queue.
\<close>

subsection \<open>The kill switch\<close>

text \<open>
  C6. When \<open>kill_all\<close> returns, every registered agent is revoked; and if it revoked at
  least one, no approval of any agent is left waiting in the durable queue, which is
  still governed.
\<close>

theorem kill_all_revokes:
  assumes "kill_all log dq_get_pending (system_denier (sink_record cr) (sink_verify_receipt cr) draw) now cp o' r
      = (cp', Inr recs)"
    and "cp_queue cp = Some q" "governed_queue (sink_verify_receipt cr) (world_inv cr) q" "wf_dict (cp_states cp)"
  shows "(\<forall>a. map_of (cp_states cp) a \<noteq> None \<longrightarrow> get_state cp' a = Revoked)
    \<and> (recs \<noteq> [] \<longrightarrow> (\<exists>q'. cp_queue cp' = Some q' \<and> governed_queue (sink_verify_receipt cr) (world_inv cr) q'
         \<and> (\<forall>i. dq_waiting q' i = None)))"
  using durable_drain.kill_all_effect[OF assms(1-3)] assms(4) by (auto simp: map_of_eq_None_iff)

definition demo_control :: "(ledger_world, ledger_world durable_queue) control_plane" where
  "demo_control = \<lparr>cp_states = [(''a1'', Active), (''a2'', Paused)], cp_history = [], cp_ledger = None,
     cp_queue = Some demo_queue, cp_system_deny = True\<rparr>"

definition demo_draw :: "ledger_world durable_queue \<Rightarrow> pystr \<times> pystr \<times> (nat \<Rightarrow> pyfloat)" where
  "demo_draw q = (''nonce'', ''event'', (\<lambda>_. Finite 1))"

lemma demo_pending: "dq_get_pending demo_queue = Inr []"
  by (simp add: dq_get_pending_def demo_queue_def empty_db_def)

lemmas control_eval = transition_def get_state_def dict_get_def next_state_def CONTROL_TRANSITIONS_def Let_def

theorem kill_all_revokes_witness:
  "\<exists>cp' recs. kill_all (ledger_logger demo_crypto2) dq_get_pending
      (system_denier (sink_record demo_crypto2) (sink_verify_receipt demo_crypto2) demo_draw) 7 demo_control ''op'' ''r''
      = (cp', Inr recs) \<and> get_state cp' ''a2'' = Revoked"
proof -
  obtain cp' recs where run: "kill_all (ledger_logger demo_crypto2) dq_get_pending
      (system_denier (sink_record demo_crypto2) (sink_verify_receipt demo_crypto2) demo_draw) 7 demo_control ''op'' ''r''
      = (cp', Inr recs)"
    by (simp add: kill_all_def kill_targets_def demo_control_def control_eval drain_all_queue_def drain_def demo_pending)
  from kill_all_revokes[OF this _ demo_queue_governed] run show ?thesis
    by (auto simp: demo_control_def wf_dict_def)
qed

text \<open>
  The kill switch wins every race: whatever registrations and transitions other
  threads run between its steps, every agent of its snapshot is revoked when its loop
  ends, since revoked is terminal. The loop of \<open>kill_all\<close> is the case without others.
\<close>

lemma kill_interleaved_kills:
  "kill_interleaved log now cp todo o' r = (cp', True) \<Longrightarrow> a \<in> fst ` set todo \<Longrightarrow> get_state cp' a = Revoked"
proof (induction todo arbitrary: cp)
  case (Cons step todo)
  obtain aid others where step: "step = (aid, others)" by (cases step)
  obtain cp1 res where tr: "transition log now cp aid CmdRevoke o' r = (cp1, res :: (_, unit) control_error + _)"
    by (cases "transition log now cp aid CmdRevoke o' r :: _ \<times> ((_, unit) control_error + _)")
  have rest: "kill_interleaved log now (run_ops log now cp1 others) todo o' r = (cp', True)"
    and ok: "\<nexists>e. res = Inl (LedgerRaised e)"
    using Cons.prems(1) by (auto simp: step tr split: sum.splits control_error.splits)
  show ?case
  proof (cases "a = aid")
    case True
    have "get_state cp1 aid = Revoked"
      using tr ok by (cases rule: transition_cases) (auto simp: next_state_revoke split: if_splits)
    from kill_interleaved_revoked[OF run_ops_revoked[OF this, of log now others], of log now todo o' r] rest True
    show ?thesis by simp
  next
    case False
    with Cons.prems(2) Cons.IH[OF rest] show ?thesis by (auto simp: step)
  qed
qed simp

lemma kill_each_interleaved:
  fixes log :: "('l, 'e) logger"
  shows "(\<exists>recs. kill_each log now cp aids o' r = (cp', Inr recs :: ('e, 'f) control_error + _))
     \<longleftrightarrow> kill_interleaved log now cp (map (\<lambda>a. (a, [])) aids) o' r = (cp', True)"
proof (induction aids arbitrary: cp)
  case (Cons aid aids)
  show ?case
  proof (cases "next_state (get_state cp aid) CmdRevoke")
    case None
    with Cons show ?thesis by (simp add: transition_def run_ops_def)
  next
    case (Some new)
    obtain l x where "log_opt log (cp_ledger cp) (control_call
        \<lparr>cr_agent_id = aid, cr_command = CmdRevoke, cr_operator_id = o', cr_reason = r,
         cr_prev_state = get_state cp aid, cr_new_state = new, cr_ts = now\<rparr>) = (l, x)"
      by (rule prod.exhaust)
    with Some Cons[symmetric] show ?thesis
      by (cases x) (auto simp: transition_def Let_def run_ops_def map_result_Inr_iff split: prod.splits)
  qed
qed auto

theorem kill_all_wins_races:
  fixes log :: "('l, 'e) logger"
  shows "(\<forall>cp'. kill_interleaved log now cp (zip (kill_targets cp) others) o' r = (cp', True)
        \<longrightarrow> length others = length (kill_targets cp) \<longrightarrow> (\<forall>a\<in>set (kill_targets cp). get_state cp' a = Revoked))
    \<and> (\<forall>cp'. (\<exists>recs. kill_each log now cp (kill_targets cp) o' r = (cp', Inr recs :: ('e, 'f) control_error + _))
        \<longleftrightarrow> kill_interleaved log now cp (map (\<lambda>a. (a, [])) (kill_targets cp)) o' r = (cp', True))"
proof (intro conjI allI impI ballI)
  fix cp' a
  assume run: "kill_interleaved log now cp (zip (kill_targets cp) others) o' r = (cp', True)"
    and "length others = length (kill_targets cp)" "a \<in> set (kill_targets cp)"
  then have "a \<in> fst ` set (zip (kill_targets cp) others)" by (metis map_fst_zip set_map)
  with run show "get_state cp' a = Revoked" by (rule kill_interleaved_kills)
qed (rule kill_each_interleaved)

theorem kill_all_wins_races_witness:
  "\<exists>cp'. kill_interleaved (ledger_logger demo_crypto2) 7 demo_control
      (zip (kill_targets demo_control) [[OpTransition ''a2'' CmdResume ''op'' ''''], [OpRegister ''a3'']]) ''op'' ''r'' = (cp', True)
     \<and> get_state cp' ''a2'' = Revoked"
proof -
  let ?others = "[[OpTransition ''a2'' CmdResume ''op'' ''''], [OpRegister ''a3'']]"
  obtain cp' where run: "kill_interleaved (ledger_logger demo_crypto2) 7 demo_control
      (zip (kill_targets demo_control) ?others) ''op'' ''r'' = (cp', True)"
    by (simp add: kill_targets_def demo_control_def control_eval run_ops_def run_op_def control_register_def)
  have "length ?others = length (kill_targets demo_control)" "''a2'' \<in> set (kill_targets demo_control)"
    by (simp_all add: kill_targets_def demo_control_def)
  with run kill_all_wins_races[of "ledger_logger demo_crypto2" 7 demo_control ?others "''op''" "''r''"]
  show ?thesis by blast
qed

subsection \<open>Quarantine\<close>

text \<open>
  When \<open>quarantine\<close> returns, the agent is quarantined, none of its approvals waits in
  the durable queue, and no command but a revocation is accepted for it afterwards.
\<close>

theorem quarantine_drains:
  assumes "control_quarantine log dq_get_pending (system_denier (sink_record cr) (sink_verify_receipt cr) draw) now cp a o' r
      = (cp', Inr rec)"
    and "cp_queue cp = Some q" "governed_queue (sink_verify_receipt cr) (world_inv cr) q"
  shows "get_state cp' a = Quarantined
    \<and> (\<exists>q'. cp_queue cp' = Some q' \<and> governed_queue (sink_verify_receipt cr) (world_inv cr) q'
         \<and> (\<forall>i. dq_waiting q' i \<noteq> Some a))
    \<and> next_state (get_state cp' a) c \<in> {None, Some Revoked}"
  using durable_drain.quarantine_effect[OF assms] next_state_quarantined by auto

theorem quarantine_drains_witness:
  "\<exists>cp' rec. control_quarantine (ledger_logger demo_crypto2) dq_get_pending
      (system_denier (sink_record demo_crypto2) (sink_verify_receipt demo_crypto2) demo_draw) 7 demo_control ''a1'' ''op'' ''r''
      = (cp', Inr rec) \<and> get_state cp' ''a1'' = Quarantined"
proof -
  obtain cp' rec where run: "control_quarantine (ledger_logger demo_crypto2) dq_get_pending
      (system_denier (sink_record demo_crypto2) (sink_verify_receipt demo_crypto2) demo_draw) 7 demo_control ''a1'' ''op'' ''r''
      = (cp', Inr rec)"
    by (simp add: control_quarantine_def demo_control_def control_eval drain_queue_def drain_def demo_pending)
  from quarantine_drains[OF this _ demo_queue_governed] run show ?thesis by (auto simp: demo_control_def)
qed

subsection \<open>Audit before effect\<close>

text \<open>
  Every control transition that takes effect was first written to the signed ledger:
  a transition that returns leaves exactly one new \<open>operator_control\<close> entry naming the
  agent and its new state, and the state, the history and the transition table agree; a
  transition that raises changes neither states nor history.
\<close>

theorem control_transition_audited:
  assumes "world_inv cr w" "cp_ledger cp = Some w"
  shows "case transition (ledger_logger cr) now cp a c o' r :: _ \<times> ((_, 'f) control_error + _) of
      (cp', Inr rec) \<Rightarrow> (\<exists>w'. cp_ledger cp' = Some w' \<and> world_inv cr w'
          \<and> ledger_recorded w' = ledger_recorded w @ [(''operator_control'', ''agent '' @ a @ '' '' @ state_name (get_state cp' a))])
          \<and> next_state (get_state cp a) c = Some (get_state cp' a)
          \<and> (\<forall>b. b \<noteq> a \<longrightarrow> get_state cp' b = get_state cp b)
          \<and> cp_history cp' = cp_history cp @ [rec] \<and> cr_new_state rec = get_state cp' a \<and> cr_agent_id rec = a
    | (cp', Inl _) \<Rightarrow> cp_states cp' = cp_states cp \<and> cp_history cp' = cp_history cp"
proof -
  obtain cp' res where tr: "transition (ledger_logger cr) now cp a c o' r = (cp', res :: (_, 'f) control_error + _)"
    by (cases "transition (ledger_logger cr) now cp a c o' r :: _ \<times> ((_, 'f) control_error + _)")
  from tr show ?thesis
  proof (cases rule: transition_cases)
    case (moved l new rec)
    have "log_opt (ledger_logger cr) (Some w) (control_call rec) = (l, Inr ())" using moved(3) assms(2) by simp
    from chain.log_opt_appends[OF assms(1) this] moved show ?thesis
      by (auto simp: control_call_def tr)
  qed (simp_all add: tr)
qed

theorem control_transition_audited_witness:
  "cp_states (fst (transition (ledger_logger demo_crypto2) 7 (demo_control\<lparr>cp_ledger := Some (demo_ledger, [(5, Some True)])\<rparr>)
     ''a1'' CmdPause ''op'' ''r'' :: _ \<times> ((_, unit) control_error + _))) = cp_states demo_control"
proof -
  have w: "world_inv demo_crypto2 (demo_ledger, [(5, Some True)])" using demo_world_inv by (simp add: world_inv_def)
  let ?cp = "demo_control\<lparr>cp_ledger := Some (demo_ledger, [(5, Some True)])\<rparr>"
  have "\<exists>e. snd (transition (ledger_logger demo_crypto2) 7 ?cp ''a1'' CmdPause ''op'' ''r'' :: _ \<times> ((_, unit) control_error + _)) = Inl e"
    by (simp add: demo_control_def control_eval log_opt_def ledger_logger_def ledger_log_def control_call_def
        RESERVED_ENTRY_FIELDS_def rotate_if_needed_def demo_ledger_def restored_disk_def verify_snapshot_def
        all_lines_def ledger_paths_def archive_paths_def load_last_seq_def load_last_hash_def last_entry_def)
  then show ?thesis
    using control_transition_audited[OF w, where 'f = unit and cp = ?cp and now = 7 and a = "''a1''"
        and c = CmdPause and o' = "''op''" and r = "''r''"]
    by (auto simp: demo_control_def split: prod.splits)
qed

end
