(* ===== verification/Composition.thy ===== *)
theory Composition
  imports LogInterface "HOL-Library.Sublist"
begin

text \<open>
  \<open>enterprise/composition_monitor.py\<close>: the per-agent sliding window of effects and the
  dangerous sequences searched in it. The monitor refers to a ledger of the store;
  \<open>observe\<close> returns the store, the monitor and the verdict, and never raises. The
  abstract specification is \<open>recent_calls\<close>, the window as a function of the whole call
  history, and \<open>subseq\<close>, the sequence order a signature is matched with.
\<close>

definition DEFAULT_EFFECT_MAP :: "(pystr \<times> pystr) list" where
  "DEFAULT_EFFECT_MAP =
     [(''read_text'', ''recon''), (''read_screen'', ''recon''), (''enumerate'', ''recon''),
      (''list_targets'', ''recon''), (''read_file'', ''access''), (''assign_task'', ''control''),
      (''write_file'', ''mutate''), (''subprocess'', ''execute''), (''http_request'', ''egress''),
      (''send_string'', ''egress''), (''socket_open'', ''egress'')]"

definition ELEVATED_EFFECTS :: "pystr set" where
  "ELEVATED_EFFECTS = {''mutate'', ''execute'', ''egress'', ''unknown''}"

record composition_signature =
  cs_name :: pystr
  cs_ordered_effects :: "pystr list"
  cs_reason :: pystr

text \<open>
  \<open>all(any(e == want for e in it) for want in ordered_effects)\<close> with one shared iterator:
  the inner \<open>any\<close> consumes up to and including its match.
\<close>

fun consume_until :: "pystr \<Rightarrow> pystr list \<Rightarrow> pystr list option" where
  "consume_until want [] = None"
| "consume_until want (e # it) = (if e = want then Some it else consume_until want it)"

fun consume_all :: "pystr list \<Rightarrow> pystr list \<Rightarrow> bool" where
  "consume_all [] it = True"
| "consume_all (want # wants) it =
     (case consume_until want it of None \<Rightarrow> False | Some it' \<Rightarrow> consume_all wants it')"

definition matches :: "composition_signature \<Rightarrow> pystr list \<Rightarrow> bool" where
  "matches sig effect_stream = consume_all (cs_ordered_effects sig) effect_stream"

definition DEFAULT_SIGNATURES :: "composition_signature list" where
  "DEFAULT_SIGNATURES =
     [\<lparr>cs_name = ''recon_to_egress'', cs_ordered_effects = [''recon'', ''access'', ''egress''],
       cs_reason = ''recon->access->egress arc: authorized calls compose toward exfiltration''\<rparr>,
      \<lparr>cs_name = ''execute_then_egress'', cs_ordered_effects = [''execute'', ''egress''],
       cs_reason = ''code execution followed by outbound call: exploit-then-exfil shape''\<rparr>,
      \<lparr>cs_name = ''mutate_then_execute'', cs_ordered_effects = [''mutate'', ''execute''],
       cs_reason = ''file write followed by execution: drop-then-run shape''\<rparr>]"

record composition_verdict =
  cv_allowed :: bool
  cv_reason :: pystr
  cv_signature :: "pystr option"
  cv_window_effects :: "pystr list"

definition verdict_metadata :: "composition_verdict \<Rightarrow> json_object" where
  "verdict_metadata v =
     [(''layer'', JStr ''composition_monitor''),
      (''decision'', JStr (if cv_allowed v then ''allow'' else ''deny'')),
      (''reason'', JStr (cv_reason v)),
      (''signature'', JStr (case cv_signature v of None \<Rightarrow> [] | Some s \<Rightarrow> s)),
      (''window'', JStr (join_with '','' (cv_window_effects v)))]"

record agent_window =
  aw_effects :: "(time \<times> pystr) list"
  aw_elevated_count :: int

record composition_monitor =
  cm_window_seconds :: time
  cm_max_window_len :: int
  cm_signatures :: "composition_signature list"
  cm_effect_map :: "(pystr \<times> pystr) list"
  cm_max_elevated_rate :: int
  cm_ledger :: "nat option"
  cm_windows :: "(pystr \<times> agent_window) list"

definition composition_monitor_init ::
    "time \<Rightarrow> int \<Rightarrow> composition_signature list \<Rightarrow> (pystr \<times> pystr) list option \<Rightarrow> int \<Rightarrow> nat option \<Rightarrow> composition_monitor" where
  "composition_monitor_init window_seconds max_window_len signatures effect_map max_elevated_rate ledger =
     \<lparr>cm_window_seconds = window_seconds, cm_max_window_len = max_window_len, cm_signatures = signatures,
      cm_effect_map = (case effect_map of Some (kv # kvs) \<Rightarrow> kv # kvs | _ \<Rightarrow> DEFAULT_EFFECT_MAP),
      cm_max_elevated_rate = max_elevated_rate, cm_ledger = ledger, cm_windows = []\<rparr>"

definition effect_of :: "composition_monitor \<Rightarrow> pystr \<Rightarrow> pystr" where
  "effect_of m action = dict_get (cm_effect_map m) action ''unknown''"

subsection \<open>observe\<close>

text \<open>
  The two eviction loops. The second pops from an empty deque, an \<open>IndexError\<close>, exactly
  when the length cap is negative; \<open>None\<close> is that exception.
\<close>

fun evict_old :: "time \<Rightarrow> (time \<times> pystr) list \<Rightarrow> (time \<times> pystr) list" where
  "evict_old horizon [] = []"
| "evict_old horizon (e # es) = (if fst e < horizon then evict_old horizon es else e # es)"

fun evict_long :: "int \<Rightarrow> (time \<times> pystr) list \<Rightarrow> (time \<times> pystr) list option" where
  "evict_long cap [] = (if 0 > cap then None else Some [])"
| "evict_long cap (e # es) = (if int (length (e # es)) > cap then evict_long cap es else Some (e # es))"

definition deny_verdict :: "pystr \<Rightarrow> pystr \<Rightarrow> pystr list \<Rightarrow> composition_verdict" where
  "deny_verdict reason sig stream =
     \<lparr>cv_allowed = False, cv_reason = reason, cv_signature = Some sig, cv_window_effects = stream\<rparr>"

definition allow_verdict :: "pystr list \<Rightarrow> composition_verdict" where
  "allow_verdict stream =
     \<lparr>cv_allowed = True, cv_reason = ''composition within policy'', cv_signature = None, cv_window_effects = stream\<rparr>"

text \<open>\<open>_deny\<close>: the entry is attempted, and the exception of a failing ledger is dropped.\<close>

definition composition_deny ::
    "('l, 'e) logger \<Rightarrow> 'l ledgers \<Rightarrow> composition_monitor \<Rightarrow> composition_verdict \<Rightarrow> 'l ledgers \<times> composition_verdict" where
  "composition_deny log ls m v =
     (case log_ref log ls (cm_ledger m) (mk_call ''composition_check'' ''denied'' (verdict_metadata v)) of
        (ls', _) \<Rightarrow> (ls', v))"

definition elevated_in :: "pystr list \<Rightarrow> int" where
  "elevated_in stream = int (length (filter (\<lambda>e. e \<in> ELEVATED_EFFECTS) stream))"

definition judge :: "composition_monitor \<Rightarrow> pystr list \<Rightarrow> composition_verdict" where
  "judge m stream =
     (let elevated = elevated_in stream in
      if cm_max_elevated_rate m < elevated then
        deny_verdict (''elevated-effect velocity '' @ show_int elevated @ '' > '' @ show_int (cm_max_elevated_rate m)
          @ '' in window'') ''elevated_velocity'' stream
      else case find (\<lambda>sig. matches sig stream) (cm_signatures m) of
             Some sig \<Rightarrow> deny_verdict (cs_reason sig) (cs_name sig) stream
           | None \<Rightarrow> allow_verdict stream)"

definition window_of :: "composition_monitor \<Rightarrow> pystr \<Rightarrow> agent_window" where
  "window_of m agent_id = dict_get (cm_windows m) agent_id \<lparr>aw_effects = [], aw_elevated_count = 0\<rparr>"

definition set_window :: "composition_monitor \<Rightarrow> pystr \<Rightarrow> (time \<times> pystr) list \<Rightarrow> composition_monitor" where
  "set_window m agent_id es =
     m\<lparr>cm_windows := AList.update agent_id ((window_of m agent_id)\<lparr>aw_effects := es\<rparr>) (cm_windows m)\<rparr>"

definition observe ::
    "('l, 'e) logger \<Rightarrow> 'l ledgers \<Rightarrow> composition_monitor \<Rightarrow> pystr \<Rightarrow> pystr \<Rightarrow> time
     \<Rightarrow> 'l ledgers \<times> composition_monitor \<times> composition_verdict" where
  "observe log ls m agent_id action now =
     (let es = evict_old (now - cm_window_seconds m) (aw_effects (window_of m agent_id) @ [(now, effect_of m action)]) in
      case evict_long (cm_max_window_len m) es of
        None \<Rightarrow>
          (case composition_deny log ls m (deny_verdict
                  (''composition monitor internal error: IndexError('' @ [CHR 0x27] @ ''pop from an empty deque'' @ [CHR 0x27] @ '')'')
                  ''internal_error'' []) of
             (ls', v) \<Rightarrow> (ls', set_window m agent_id [], v))
      | Some es' \<Rightarrow>
          (let m' = set_window m agent_id es'; v = judge m (map snd es') in
           if cv_allowed v then (ls, m', v)
           else (case composition_deny log ls m v of (ls', v') \<Rightarrow> (ls', m', v'))))"

subsection \<open>Signatures are subsequences\<close>

lemma consume_until_subseq: "subseq (want # wants) it \<longleftrightarrow> (\<exists>it'. consume_until want it = Some it' \<and> subseq wants it')"
  by (induction it) auto

lemma consume_all_subseq: "consume_all wants it \<longleftrightarrow> subseq wants it"
proof (induction wants arbitrary: it)
  case (Cons want wants)
  show ?case by (simp add: consume_until_subseq Cons split: option.splits)
qed simp

lemma matches_iff: "matches sig stream \<longleftrightarrow> subseq (cs_ordered_effects sig) stream"
  by (simp add: matches_def consume_all_subseq)

definition harmless :: "composition_monitor \<Rightarrow> pystr list \<Rightarrow> bool" where
  "harmless m stream \<longleftrightarrow> elevated_in stream \<le> cm_max_elevated_rate m
     \<and> (\<forall>sig\<in>set (cm_signatures m). \<not> subseq (cs_ordered_effects sig) stream)"

lemma judge_allowed: "cv_allowed (judge m stream) \<longleftrightarrow> harmless m stream"
  by (auto simp: judge_def harmless_def deny_verdict_def allow_verdict_def Let_def matches_iff find_None_iff
      find_Some_iff split: option.splits)

subsection \<open>The window\<close>

lemma evict_old_dropWhile: "evict_old h es = dropWhile (\<lambda>e. fst e < h) es"
  by (induction es) auto

lemma evict_long_drop:
  "evict_long cap es = (if cap < 0 then None else Some (drop (length es - nat cap) es))"
  by (induction es) (auto simp: Suc_diff_le not_less le_nat_iff Suc_diff_Suc nat_less_iff split: nat.splits)

lemma window_of_set [simp]:
  "aw_effects (window_of (set_window m a es) b) = (if b = a then es else aw_effects (window_of m b))"
  by (simp add: set_window_def window_of_def dict_get_def)

lemma set_window_config [simp]:
  "cm_window_seconds (set_window m a es) = cm_window_seconds m"
  "cm_max_window_len (set_window m a es) = cm_max_window_len m"
  "cm_signatures (set_window m a es) = cm_signatures m" "cm_effect_map (set_window m a es) = cm_effect_map m"
  "cm_max_elevated_rate (set_window m a es) = cm_max_elevated_rate m" "cm_ledger (set_window m a es) = cm_ledger m"
  "effect_of (set_window m a es) = effect_of m" "harmless (set_window m a es) = harmless m"
  by (simp_all add: set_window_def effect_of_def harmless_def fun_eq_iff)

lemma composition_deny_verdict [simp]: "snd (composition_deny log ls m v) = v"
  by (simp add: composition_deny_def split: prod.splits)

text \<open>What one observation does, with a cap that is not negative.\<close>

definition next_window :: "composition_monitor \<Rightarrow> pystr \<Rightarrow> pystr \<Rightarrow> time \<Rightarrow> (time \<times> pystr) list" where
  "next_window m a action now =
     (let es = dropWhile (\<lambda>e. fst e < now - cm_window_seconds m) (aw_effects (window_of m a) @ [(now, effect_of m action)]) in
      drop (length es - nat (cm_max_window_len m)) es)"

lemma observe_effect:
  assumes "0 \<le> cm_max_window_len m" "observe log ls m a action now = (ls', m', v)"
  shows "m' = set_window m a (next_window m a action now)" "v = judge m (map snd (next_window m a action now))"
  using assms
  by (auto simp: observe_def next_window_def Let_def evict_old_dropWhile evict_long_drop composition_deny_def
      split: if_splits prod.splits)

lemma observe_negative_cap:
  assumes "cm_max_window_len m < 0" "observe log ls m a action now = (ls', m', v)"
  shows "\<not> cv_allowed v \<and> m' = set_window m a []"
  using assms by (auto simp: observe_def Let_def evict_long_drop composition_deny_def deny_verdict_def split: prod.splits)

lemma observe_config:
  assumes "observe log ls m a action now = (ls', m', v)"
  shows "\<exists>es. m' = set_window m a es"
  using observe_effect[OF _ assms] observe_negative_cap[OF _ assms] by (cases "cm_max_window_len m < 0") auto

subsection \<open>The window as a function of the history\<close>

text \<open>Of the calls of one agent, those within the horizon of the last one, at most as many as the cap.\<close>

definition recent_calls :: "time \<Rightarrow> nat \<Rightarrow> (time \<times> pystr) list \<Rightarrow> (time \<times> pystr) list" where
  "recent_calls seconds cap calls =
     (let r = filter (\<lambda>e. fst (last calls) - seconds \<le> fst e) calls in drop (length r - cap) r)"

definition cut :: "time \<Rightarrow> (time \<times> pystr) list \<Rightarrow> nat" where
  "cut h es = length (takeWhile (\<lambda>e. fst e < h) es)"

lemma dropWhile_none: "\<forall>e\<in>set es. \<not> P e \<Longrightarrow> dropWhile P es = es \<and> takeWhile P es = []"
  by (cases es) auto

lemma sorted_none_before:
  "sorted (map fst (e # es)) \<Longrightarrow> \<not> fst e < h \<Longrightarrow> \<forall>x\<in>set (e # es). \<not> fst x < (h :: time)"
  by (fastforce simp: not_less)

lemma dropWhile_drop_sorted:
  "sorted (map fst es) \<Longrightarrow> dropWhile (\<lambda>e. fst e < h) (drop k es) = drop (max (cut h es) k) es"
proof (induction es arbitrary: k)
  case (Cons e es)
  show ?case
  proof (cases "fst e < h")
    case True
    with Cons.IH[of "k - 1"] Cons.IH[of 0] Cons.prems show ?thesis
      by (cases k) (simp_all add: cut_def)
  next
    case False
    from sorted_none_before[OF Cons.prems this]
    have "\<forall>x\<in>set (drop k (e # es)). \<not> fst x < h" by (metis in_set_dropD)
    with False show ?thesis using dropWhile_none[of "drop k (e # es)" "\<lambda>x. fst x < h"] by (simp add: cut_def)
  qed
qed simp

lemma sorted_filter_cut:
  "sorted (map fst es) \<Longrightarrow> filter (\<lambda>e. h \<le> fst e) es = drop (cut h es) es"
proof (induction es)
  case (Cons e es)
  show ?case
  proof (cases "fst e < h")
    case False
    from sorted_none_before[OF Cons.prems this] have "filter (\<lambda>e. h \<le> fst e) (e # es) = e # es"
      by (intro filter_True) (auto simp: not_less)
    with False show ?thesis by (simp add: cut_def)
  qed (use Cons in \<open>simp add: cut_def\<close>)
qed simp

lemma drop_to_cap: "drop (length (drop a xs) - cap) (drop a xs) = drop (max a (length xs - cap)) xs"
proof -
  have "length xs - a - cap + a = max a (length xs - cap)" by arith
  then show ?thesis by simp
qed

lemma recent_calls_drop:
  assumes "sorted (map fst calls)"
  shows "recent_calls s cap calls = drop (max (cut (fst (last calls) - s) calls) (length calls - cap)) calls"
  unfolding recent_calls_def Let_def sorted_filter_cut[OF assms] by (rule drop_to_cap)

lemma cut_mono: "h \<le> h' \<Longrightarrow> cut h es \<le> cut h' (es @ es')"
  by (induction es) (auto simp: cut_def)

lemma recent_calls_step:
  assumes sorted: "sorted (map fst (calls @ [(now, e)]))"
  shows "recent_calls s cap (calls @ [(now, e)])
    = (let es = dropWhile (\<lambda>x. fst x < now - s) (recent_calls s cap calls @ [(now, e)]) in drop (length es - cap) es)"
proof -
  let ?xs = "calls @ [(now, e)]" and ?h = "fst (last calls) - s" and ?h' = "now - s"
  let ?k = "min (max (cut ?h calls) (length calls - cap)) (length calls)"
  have calls: "sorted (map fst calls)" using sorted by (simp add: sorted_append)
  then have w: "recent_calls s cap calls @ [(now, e)] = drop ?k ?xs"
    by (simp add: recent_calls_drop min_def)
  have "?k \<le> max (cut ?h' ?xs) (length ?xs - cap)"
  proof (cases "calls = []")
    case False
    then have "fst (last calls) \<le> now" using sorted by (auto simp: sorted_append)
    then have "cut ?h calls \<le> cut ?h' ?xs" by (intro cut_mono) simp
    then show ?thesis by auto
  qed simp
  then have "max (max (cut ?h' ?xs) ?k) (length ?xs - cap) = max (cut ?h' ?xs) (length ?xs - cap)" by arith
  then show ?thesis
    unfolding w Let_def dropWhile_drop_sorted[OF sorted] drop_to_cap recent_calls_drop[OF sorted] by simp
qed

subsection \<open>Sequences of observations\<close>

type_synonym call = "pystr \<times> pystr \<times> time"

fun observe_all ::
    "('l, 'e) logger \<Rightarrow> 'l ledgers \<Rightarrow> composition_monitor \<Rightarrow> call list
     \<Rightarrow> 'l ledgers \<times> composition_monitor \<times> composition_verdict list" where
  "observe_all log ls m [] = (ls, m, [])"
| "observe_all log ls m ((agent_id, action, now) # calls) =
     (case observe log ls m agent_id action now of
        (ls', m', v) \<Rightarrow> (case observe_all log ls' m' calls of (ls'', m'', vs) \<Rightarrow> (ls'', m'', v # vs)))"

definition history :: "composition_monitor \<Rightarrow> pystr \<Rightarrow> call list \<Rightarrow> (time \<times> pystr) list" where
  "history m a calls = map (\<lambda>(b, action, t). (t, effect_of m action)) (filter (\<lambda>(b, _). b = a) calls)"

lemma history_simps [simp]:
  "history m a [] = []"
  "history m a (calls @ [(b, action, t)]) = history m a calls @ (if b = a then [(t, effect_of m action)] else [])"
  "history (set_window m b es) a calls = history m a calls"
  by (simp_all add: history_def)

lemma recent_calls_Nil [simp]: "recent_calls s cap [] = []"
  by (simp add: recent_calls_def)

lemma observe_all_append:
  "observe_all log ls m (xs @ ys) =
     (case observe_all log ls m xs of (ls', m', vs) \<Rightarrow>
        (case observe_all log ls' m' ys of (ls'', m'', vs') \<Rightarrow> (ls'', m'', vs @ vs')))"
  by (induction xs arbitrary: ls m) (auto split: prod.splits)

text \<open>The configuration never changes.\<close>

lemma observe_keeps:
  assumes "observe log ls m a action now = (ls', m', v)"
  shows "m'\<lparr>cm_windows := w\<rparr> = m\<lparr>cm_windows := w\<rparr>"
  using observe_config[OF assms] by (auto simp: set_window_def)

lemma observe_all_keeps: "observe_all log ls m calls = (ls', m', vs) \<Longrightarrow> m'\<lparr>cm_windows := w\<rparr> = m\<lparr>cm_windows := w\<rparr>"
proof (induction calls arbitrary: ls m vs)
  case (Cons c calls)
  then show ?case by (cases c) (auto split: prod.splits dest: observe_keeps[of _ _ _ _ _ _ _ _ _ w])
qed simp

lemma same_config:
  assumes "m'\<lparr>cm_windows := w\<rparr> = m\<lparr>cm_windows := w\<rparr>"
  shows "cm_window_seconds m' = cm_window_seconds m" "cm_max_window_len m' = cm_max_window_len m"
    "effect_of m' = effect_of m" "harmless m' = harmless m" "history m' = history m"
proof -
  from assms show "cm_window_seconds m' = cm_window_seconds m" "cm_max_window_len m' = cm_max_window_len m"
    by (metis composition_monitor.select_convs(1,2) composition_monitor.surjective composition_monitor.update_convs(7))+
  from assms have f: "cm_effect_map m' = cm_effect_map m" "cm_signatures m' = cm_signatures m"
      "cm_max_elevated_rate m' = cm_max_elevated_rate m"
    by (metis composition_monitor.select_convs(3,4,5) composition_monitor.surjective composition_monitor.update_convs(7))+
  then show e: "effect_of m' = effect_of m" "harmless m' = harmless m"
    by (simp_all add: effect_of_def harmless_def fun_eq_iff)
  from e(1) show "history m' = history m" by (simp add: history_def fun_eq_iff)
qed

lemma observe_all_window:
  assumes "cm_windows m = []" "0 \<le> cm_max_window_len m" "observe_all log ls m calls = (ls', m', vs)"
    "sorted (map fst (history m a calls))"
  shows "aw_effects (window_of m' a) = recent_calls (cm_window_seconds m) (nat (cm_max_window_len m)) (history m a calls)"
  using assms(3,4)
proof (induction calls arbitrary: ls' m' vs rule: rev_induct)
  case Nil
  with assms(1) show ?case by (simp add: window_of_def dict_get_def)
next
  case (snoc c calls)
  obtain b action t where c: "c = (b, action, t)" by (cases c)
  obtain ls1 m1 vs1 where run: "observe_all log ls m calls = (ls1, m1, vs1)" by (cases "observe_all log ls m calls")
  obtain v where ob: "observe log ls1 m1 b action t = (ls', m', v)"
    using snoc.prems(1) by (auto simp: observe_all_append run c split: prod.splits)
  note conf = same_config[OF observe_all_keeps[OF run]]
  have IH: "aw_effects (window_of m1 a)
      = recent_calls (cm_window_seconds m) (nat (cm_max_window_len m)) (history m a calls)"
    using snoc.IH[OF run] snoc.prems(2) by (simp add: c sorted_append)
  have "0 \<le> cm_max_window_len m1" using assms(2) conf by simp
  note eff = observe_effect(1)[OF this ob]
  show ?case
  proof (cases "b = a")
    case True
    with snoc.prems(2) have "sorted (map fst (history m a calls @ [(t, effect_of m action)]))" by (simp add: c)
    from recent_calls_step[OF this, of "cm_window_seconds m" "nat (cm_max_window_len m)"] True show ?thesis
      by (simp add: c eff next_window_def IH conf)
  qed (use IH in \<open>simp add: c eff\<close>)
qed

subsection \<open>Properties\<close>

text \<open>
  C29. The monitor refines its specification: after any calls of any agents, seen from an
  empty monitor by a clock that does not go back, the verdict on the last call allows it
  exactly when the agent's calls of the last \<open>window_seconds\<close> (at most \<open>max_window_len\<close> of
  them) hold no dangerous sequence, adjacent or not, and no more elevated effects than
  the rate; calls of other agents do not matter.
\<close>

theorem composition_refines:
  assumes "cm_windows m = []" "0 \<le> cm_max_window_len m"
    and "observe_all log ls m (calls @ [(a, action, now)]) = (ls', m', vs)"
    and "sorted (map fst (history m a (calls @ [(a, action, now)])))"
  shows "cv_allowed (last vs) \<longleftrightarrow>
    harmless m (map snd (recent_calls (cm_window_seconds m) (nat (cm_max_window_len m))
      (history m a (calls @ [(a, action, now)]))))"
proof -
  obtain ls1 m1 vs1 where run: "observe_all log ls m calls = (ls1, m1, vs1)" by (cases "observe_all log ls m calls")
  obtain v where ob: "observe log ls1 m1 a action now = (ls', m', v)" and vs: "last vs = v"
    using assms(3) by (auto simp: observe_all_append run split: prod.splits)
  note conf = same_config[OF observe_all_keeps[OF run]]
  have "0 \<le> cm_max_window_len m1" using assms(2) conf by simp
  note eff = observe_effect[OF this ob]
  have "aw_effects (window_of m' a) = next_window m1 a action now" by (simp add: eff)
  with observe_all_window[OF assms] eff(2) show ?thesis by (simp add: vs judge_allowed conf)
qed

definition demo_monitor :: composition_monitor where
  "demo_monitor = composition_monitor_init 30 256 DEFAULT_SIGNATURES None 8 None"

definition demo_calls :: "call list" where
  "demo_calls = [(''a'', ''read_text'', 1), (''b'', ''subprocess'', 2), (''a'', ''read_file'', 5)]"

theorem composition_refines_witness:
  "cm_windows demo_monitor = [] \<and> (\<forall>log ls. \<not> cv_allowed (last (snd (snd
     (observe_all log ls demo_monitor (demo_calls @ [(''a'', ''http_request'', 9)]))))))"
proof (intro conjI allI)
  show w: "cm_windows demo_monitor = []" by (simp add: demo_monitor_def composition_monitor_init_def)
  fix log ls
  let ?calls = "demo_calls @ [(''a'', ''http_request'', 9)]"
  obtain ls' m' vs where run: "observe_all log ls demo_monitor ?calls = (ls', m', vs)"
    by (cases "observe_all log ls demo_monitor ?calls")
  have h: "history demo_monitor ''a'' ?calls = [(1, ''recon''), (5, ''access''), (9, ''egress'')]"
    by (simp add: demo_calls_def history_def effect_of_def dict_get_def demo_monitor_def composition_monitor_init_def
        DEFAULT_EFFECT_MAP_def)
  have "0 \<le> cm_max_window_len demo_monitor" "sorted (map fst (history demo_monitor ''a'' ?calls))"
    by (simp_all only: h) (simp_all add: demo_monitor_def composition_monitor_init_def)
  from composition_refines[OF w this(1) run this(2)]
  show "\<not> cv_allowed (last (snd (snd (observe_all log ls demo_monitor ?calls))))"
    unfolding h run by (simp add: recent_calls_def harmless_def demo_monitor_def composition_monitor_init_def
        DEFAULT_SIGNATURES_def)
qed

end
