(* ===== verification/Policy.thy ===== *)
theory Policy
  imports Control Composition Profile
begin

text \<open>
  \<open>enterprise/policy.py\<close> and \<open>enterprise/policy_sign.py\<close>: the signed policy bundle and
  \<open>PolicyEnforcer.check\<close>. A bundle is read from a JSON object of any shape: what the
  readers raise is a value of \<open>policy_error\<close>. The message of a decision is the datatype
  \<open>decision_reason\<close>, one constructor per f-string, holding what it prints beside the
  request. The two signature libraries are the argument \<open>policy_crypto\<close>; the control
  plane, the monitor and the ledgers are the models of their own theories. A validity
  bound written as text is a whole number of seconds or an infinity, like every time here.
\<close>

datatype policy_error = PolicyAttributeError | PolicyTypeError | PolicyValueError

subsection \<open>AgentPolicy\<close>

record agent_policy =
  ap_agent_id :: pystr
  ap_role :: json
  ap_clearance :: pystr
  ap_allowed_targets :: "json set"
  ap_allowed_apps :: "json set"
  ap_blocked_apps :: "json set"
  ap_allowed_actions :: "json set"
  ap_requires_operator_approval :: "json set"
  ap_max_classification :: pystr
  ap_revoked :: bool

text \<open>\<open>frozenset\<close> of a JSON value: the elements of an array, the keys of an object, the characters of a string.\<close>

fun hashable :: "json \<Rightarrow> bool" where
  "hashable (JArr _) = False"
| "hashable (JObj _) = False"
| "hashable _ = True"

fun frozenset :: "json \<Rightarrow> policy_error + json set" where
  "frozenset (JArr xs) = (if list_all hashable xs then Inr (set xs) else Inl PolicyTypeError)"
| "frozenset (JObj kvs) = Inr (set (map (\<lambda>kv. JStr (fst kv)) kvs))"
| "frozenset (JStr s) = Inr (set (map (\<lambda>c. JStr [c]) s))"
| "frozenset _ = Inl PolicyTypeError"

text \<open>\<open>_rank\<close> on a JSON value; the string itself is kept.\<close>

fun ranked_text :: "json \<Rightarrow> policy_error + pystr" where
  "ranked_text (JStr s) = (case rank (LStr s) of Inl _ \<Rightarrow> Inl PolicyValueError | Inr _ \<Rightarrow> Inr s)"
| "ranked_text _ = Inl PolicyTypeError"

definition agent_policy_from_dict :: "pystr \<Rightarrow> json \<Rightarrow> policy_error + agent_policy" where
  "agent_policy_from_dict agent_id v =
     (case v of
        JObj d \<Rightarrow>
          bind_result (ranked_text (dict_get d ''clearance'' (JStr ''UNCLASSIFIED''))) (\<lambda>clearance.
          bind_result (ranked_text (dict_get d ''max_classification'' (JStr ''UNCLASSIFIED''))) (\<lambda>max_classification.
          bind_result (frozenset (dict_get d ''allowed_targets'' (JArr []))) (\<lambda>allowed_targets.
          bind_result (frozenset (dict_get d ''allowed_apps'' (JArr []))) (\<lambda>allowed_apps.
          bind_result (frozenset (dict_get d ''blocked_apps'' (JArr []))) (\<lambda>blocked_apps.
          bind_result (frozenset (dict_get d ''allowed_actions'' (JArr []))) (\<lambda>allowed_actions.
          bind_result (frozenset (dict_get d ''requires_operator_approval'' (JArr []))) (\<lambda>requires_operator_approval.
          Inr \<lparr>ap_agent_id = agent_id, ap_role = dict_get d ''role'' (JStr ''unknown''), ap_clearance = clearance,
               ap_allowed_targets = allowed_targets, ap_allowed_apps = allowed_apps, ap_blocked_apps = blocked_apps,
               ap_allowed_actions = allowed_actions, ap_requires_operator_approval = requires_operator_approval,
               ap_max_classification = max_classification,
               ap_revoked = truthy (dict_get d ''revoked'' (JBool False))\<rparr>)))))))
      | _ \<Rightarrow> Inl PolicyAttributeError)"

subsection \<open>PolicyBundle\<close>

definition is_unicode_space :: "char \<Rightarrow> bool" where
  "is_unicode_space c = (is_space c \<or> (28 \<le> char_code c \<and> char_code c \<le> 31) \<or> char_code c \<in> {133, 160})"

definition strip :: "pystr \<Rightarrow> pystr" where
  "strip s = rev (dropWhile is_unicode_space (rev (dropWhile is_unicode_space s)))"

text \<open>\<open>float(text)\<close> for a whole number with an optional sign and \<open>.0\<close> part, and the infinities.\<close>

definition unsigned_float :: "pystr \<Rightarrow> pyfloat option" where
  "unsigned_float s =
     (if upper s \<in> {''INF'', ''INFINITY''} then Some PosInf
      else if upper s = ''NAN'' then Some NaN
      else (let digits = takeWhile is_digit s; rest = dropWhile is_digit s;
                n = foldl (\<lambda>n c. 10 * n + int (char_code c - 48)) 0 digits in
            if digits = [] then None
            else if rest = [] \<or> (hd rest = CHR ''.'' \<and> list_all (\<lambda>c. c = CHR ''0'') (tl rest)) then Some (Finite n)
            else None))"

fun negate_float :: "pyfloat \<Rightarrow> pyfloat" where
  "negate_float (Finite n) = Finite (- n)"
| "negate_float PosInf = NegInf"
| "negate_float NegInf = PosInf"
| "negate_float NaN = NaN"

definition float_of_text :: "pystr \<Rightarrow> pyfloat option" where
  "float_of_text s =
     (case strip s of
        CHR ''-'' # t \<Rightarrow> map_option negate_float (unsigned_float t)
      | CHR ''+'' # t \<Rightarrow> unsigned_float t
      | t \<Rightarrow> unsigned_float t)"

fun float_of :: "json \<Rightarrow> policy_error + pyfloat" where
  "float_of (JFloat n) = Inr (Finite n)"
| "float_of (JInt n) = Inr (Finite n)"
| "float_of (JBool b) = Inr (Finite (if b then 1 else 0))"
| "float_of (JStr s) = (case float_of_text s of None \<Rightarrow> Inl PolicyValueError | Some x \<Rightarrow> Inr x)"
| "float_of _ = Inl PolicyTypeError"

record policy_bundle =
  pb_raw :: json_object
  pb_policy_id :: json
  pb_signed_by :: json
  pb_signed_by_pub :: json
  pb_valid_from :: pyfloat
  pb_valid_until :: "pyfloat option"
  pb_sig :: json
  pb_agents :: "(pystr \<times> agent_policy) list"

fun agents_of :: "json_object \<Rightarrow> policy_error + (pystr \<times> agent_policy) list" where
  "agents_of [] = Inr []"
| "agents_of ((aid, agent_raw) # rest) =
     bind_result (agent_policy_from_dict aid agent_raw) (\<lambda>p. map_result (Cons (aid, p)) (agents_of rest))"

definition bundle_init :: "json_object \<Rightarrow> policy_error + policy_bundle" where
  "bundle_init raw =
     bind_result (float_of (dict_get raw ''valid_from'' (JFloat 0))) (\<lambda>valid_from.
     bind_result (case dict_get raw ''valid_until'' JNull of
                    JNull \<Rightarrow> Inr None | u \<Rightarrow> map_result Some (float_of u)) (\<lambda>valid_until.
     bind_result (case dict_get raw ''agents'' (JObj []) of
                    JObj kvs \<Rightarrow> agents_of kvs | _ \<Rightarrow> Inl PolicyAttributeError) (\<lambda>agents.
     Inr \<lparr>pb_raw = raw, pb_policy_id = dict_get raw ''policy_id'' (JStr []),
          pb_signed_by = dict_get raw ''signed_by'' (JStr []),
          pb_signed_by_pub = dict_get raw ''signed_by_pub'' (JStr []),
          pb_valid_from = valid_from, pb_valid_until = valid_until,
          pb_sig = dict_get raw ''sig'' (JStr []), pb_agents = agents\<rparr>)))"

text \<open>\<open>from_file\<close>, on the value \<open>json.loads\<close> returned.\<close>

definition bundle_from_file :: "json \<Rightarrow> policy_error + policy_bundle" where
  "bundle_from_file v = (case v of JObj raw \<Rightarrow> bundle_init raw | _ \<Rightarrow> Inl PolicyAttributeError)"

text \<open>The dictionary without \<open>sig\<close> and \<open>signed_by_pub\<close> is \<open>unsigned_part\<close>, shared with the profile reader.\<close>

definition to_signable_bytes :: "policy_bundle \<Rightarrow> bytes" where
  "to_signable_bytes b =
     dumps True (JObj (unsigned_part (pb_raw b)))"

fun before :: "time \<Rightarrow> pyfloat \<Rightarrow> bool" where
  "before t (Finite n) = (t < n)"
| "before t PosInf = True"
| "before t _ = False"

fun after :: "time \<Rightarrow> pyfloat \<Rightarrow> bool" where
  "after t (Finite n) = (n < t)"
| "after t NegInf = True"
| "after t _ = False"

definition is_time_valid :: "policy_bundle \<Rightarrow> time \<Rightarrow> bool" where
  "is_time_valid b now =
     (if before now (pb_valid_from b) then False
      else case pb_valid_until b of None \<Rightarrow> True | Some u \<Rightarrow> \<not> after now u)"

definition get_agent :: "policy_bundle \<Rightarrow> pystr \<Rightarrow> agent_policy option" where
  "get_agent b agent_id = map_of (pb_agents b) agent_id"

definition make_bundle ::
    "time \<Rightarrow> pystr \<Rightarrow> json_object \<Rightarrow> pystr \<Rightarrow> time option \<Rightarrow> time option \<Rightarrow> policy_error + policy_bundle" where
  "make_bundle now policy_id agents signed_by valid_from valid_until =
     bundle_init
       [(''policy_id'', JStr policy_id), (''signed_by'', JStr signed_by),
        (''valid_from'', JFloat (case valid_from of None \<Rightarrow> now | Some t \<Rightarrow> t)),
        (''valid_until'', case valid_until of None \<Rightarrow> JNull | Some t \<Rightarrow> JFloat t),
        (''agents'', JObj agents)]"

subsection \<open>Signatures\<close>

text \<open>
  The Ed25519 check of the \<open>cryptography\<close> package and NCrypt's P-384 check, on the data, the
  signature and the public key; \<open>None\<close> is an exception, which the wrappers turn into \<open>False\<close>.
\<close>

record policy_crypto =
  pc_ed25519 :: "bytes \<Rightarrow> bytes \<Rightarrow> bytes \<Rightarrow> bool option"
  pc_cng_p384 :: "bytes \<Rightarrow> bytes \<Rightarrow> bytes \<Rightarrow> bool option"

definition verify_ed25519 :: "policy_crypto \<Rightarrow> bytes \<Rightarrow> bytes \<Rightarrow> bytes \<Rightarrow> bool" where
  "verify_ed25519 pc data signature public_key = (pc_ed25519 pc data signature public_key = Some True)"

definition verify_cng_p384 :: "policy_crypto \<Rightarrow> bytes \<Rightarrow> bytes \<Rightarrow> bytes \<Rightarrow> bool" where
  "verify_cng_p384 pc data signature public_key = (pc_cng_p384 pc data signature public_key = Some True)"

definition verify_policy_signature :: "policy_crypto \<Rightarrow> policy_bundle \<Rightarrow> bytes \<Rightarrow> policy_error + bool" where
  "verify_policy_signature pc bundle pub =
     (if \<not> truthy (pb_sig bundle) then Inr False
      else case pb_sig bundle of
        JStr s \<Rightarrow>
          (case fromhex s of
             None \<Rightarrow> Inr False
           | Some sig_bytes \<Rightarrow>
               (let data = to_signable_bytes bundle in
                if length pub = 32 then Inr (verify_ed25519 pc data sig_bytes pub)
                else if length pub = 96 then Inr (verify_cng_p384 pc data sig_bytes pub)
                else Inr False))
      | _ \<Rightarrow> Inl PolicyTypeError)"

definition sign_policy ::
    "(bytes \<Rightarrow> bytes) \<Rightarrow> bytes \<Rightarrow> json_object \<Rightarrow> policy_error + json_object" where
  "sign_policy sign public_key_bytes bundle_dict =
     map_result (\<lambda>bundle.
         AList.update ''signed_by_pub'' (JStr (tohex public_key_bytes))
           (AList.update ''sig'' (JStr (tohex (sign (to_signable_bytes bundle)))) bundle_dict))
       (bundle_init (unsigned_part bundle_dict))"

subsection \<open>PolicyEnforcer\<close>

datatype deny_reason =
    UnknownClassification level
  | PausedByOperator
  | QuarantinedByOperator
  | RevokedByOperator
  | AboveProfileCeiling level classification
  | IdentityRejected pystr pystr
  | AppBlockedByProfile pystr pystr
  | AppNotInProfile pystr pystr
  | NotRegistered
  | AgentRevoked
  | OutsideTimeWindow
  | SignatureBad
  | TargetNotAllowed pystr
  | AppBlocked pystr
  | AppNotAllowed pystr
  | ActionNotAllowed
  | AboveAgentCeiling level pystr
  | InvalidCaveats "pystr list"
  | CompositionDenied pystr

datatype decision_reason = Denied_for deny_reason | Permitted

record policy_decision =
  dec_allowed :: bool
  dec_reason :: decision_reason
  dec_requires_approval :: bool
  dec_policy_id :: json
  dec_classification :: level
  dec_approval_mode :: pystr
  dec_agent_id :: pystr
  dec_action :: pystr

fun deny_mode :: "deny_reason \<Rightarrow> pystr" where
  "deny_mode PausedByOperator = ''paused''"
| "deny_mode QuarantinedByOperator = ''quarantined''"
| "deny_mode RevokedByOperator = ''revoked''"
| "deny_mode AgentRevoked = ''quarantined''"
| "deny_mode (CompositionDenied _) = ''composition_denied''"
| "deny_mode _ = ''denied''"

text \<open>The arguments of \<open>check\<close>.\<close>

record request =
  rq_agent_id :: pystr
  rq_action :: pystr
  rq_target_agent :: "pystr option"
  rq_app :: "pystr option"
  rq_classification :: level
  rq_label :: "label_envelope option"
  rq_identity_type :: pystr

definition effective_classification :: "request \<Rightarrow> level" where
  "effective_classification rq =
     (case rq_label rq of Some l \<Rightarrow> LStr (cls_name (lbl_classification l)) | None \<Rightarrow> rq_classification rq)"

record enforcer =
  pe_policy :: policy_bundle
  pe_trust_root_pub :: "bytes option"
  pe_profile :: "profile option"
  pe_monitor :: "composition_monitor option"
  pe_ledger :: "nat option"
  pe_require_sig :: bool
  pe_sig_ok :: "bool option"

definition enforcer_init ::
    "policy_bundle \<Rightarrow> bytes option \<Rightarrow> bool \<Rightarrow> profile option \<Rightarrow> composition_monitor option \<Rightarrow> nat option \<Rightarrow> enforcer" where
  "enforcer_init policy trust_root_pub require_signature prof monitor ledger =
     \<lparr>pe_policy = policy, pe_trust_root_pub = trust_root_pub, pe_profile = prof, pe_monitor = monitor,
      pe_ledger = ledger,
      pe_require_sig = (case prof of
          Some p \<Rightarrow> if pf_require_signed_policy p then True else require_signature
        | None \<Rightarrow> require_signature),
      pe_sig_ok = None\<rparr>"

definition deny_decision :: "enforcer \<Rightarrow> request \<Rightarrow> deny_reason \<Rightarrow> policy_decision" where
  "deny_decision en rq why =
     \<lparr>dec_allowed = False, dec_reason = Denied_for why, dec_requires_approval = False,
      dec_policy_id = pb_policy_id (pe_policy en), dec_classification = effective_classification rq,
      dec_approval_mode = deny_mode why, dec_agent_id = rq_agent_id rq, dec_action = rq_action rq\<rparr>"

definition allow_decision :: "enforcer \<Rightarrow> request \<Rightarrow> bool \<Rightarrow> policy_decision" where
  "allow_decision en rq requires_approval =
     \<lparr>dec_allowed = True, dec_reason = Permitted, dec_requires_approval = requires_approval,
      dec_policy_id = pb_policy_id (pe_policy en), dec_classification = effective_classification rq,
      dec_approval_mode = (if requires_approval then ''human_approved'' else ''autonomous''),
      dec_agent_id = rq_agent_id rq, dec_action = rq_action rq\<rparr>"

text \<open>\<open>to_ledger_metadata\<close>, a dictionary of four keys.\<close>

record decision_meta =
  dm_policy_id :: json
  dm_classification :: level
  dm_approval_mode :: pystr
  dm_decision :: pystr

definition decision_metadata :: "policy_decision \<Rightarrow> decision_meta" where
  "decision_metadata d =
     \<lparr>dm_policy_id = dec_policy_id d, dm_classification = dec_classification d,
      dm_approval_mode = dec_approval_mode d, dm_decision = (if dec_allowed d then ''allow'' else ''deny'')\<rparr>"

text \<open>Step 0: the control plane.\<close>

definition control_gate :: "('l, 'q) control_plane option \<Rightarrow> pystr \<Rightarrow> deny_reason option" where
  "control_gate cp agent_id =
     (case cp of
        None \<Rightarrow> None
      | Some c \<Rightarrow>
          (case get_state c agent_id of
             Paused \<Rightarrow> Some PausedByOperator
           | Quarantined \<Rightarrow> Some QuarantinedByOperator
           | Revoked \<Rightarrow> Some RevokedByOperator
           | Active \<Rightarrow> None))"

text \<open>Step 0.5: the classified-mode profile.\<close>

definition profile_gate :: "profile option \<Rightarrow> int \<Rightarrow> request \<Rightarrow> deny_reason option" where
  "profile_gate prof effective_rank rq =
     (case prof of
        None \<Rightarrow> None
      | Some p \<Rightarrow>
          if cls_value (pf_max_classification p) < effective_rank
            then Some (AboveProfileCeiling (effective_classification rq) (pf_max_classification p))
          else if pf_require_cng_identity p \<and> rq_identity_type rq \<noteq> ''cng''
            then Some (IdentityRejected (pf_profile_id p) (rq_identity_type rq))
          else (case rq_app rq of
                  None \<Rightarrow> None
                | Some app \<Rightarrow>
                    if app \<in> pf_blocked_apps p then Some (AppBlockedByProfile app (pf_profile_id p))
                    else if pf_allowed_apps p \<noteq> {} \<and> app \<notin> pf_allowed_apps p
                      then Some (AppNotInProfile app (pf_profile_id p))
                    else None))"

text \<open>Steps 1 to 3: the agent and the time window.\<close>

definition agent_gate :: "policy_bundle \<Rightarrow> time \<Rightarrow> pystr \<Rightarrow> deny_reason + agent_policy" where
  "agent_gate b now agent_id =
     (case get_agent b agent_id of
        None \<Rightarrow> Inl NotRegistered
      | Some agent \<Rightarrow>
          if ap_revoked agent then Inl AgentRevoked
          else if \<not> is_time_valid b now then Inl OutsideTimeWindow
          else Inr agent)"

text \<open>Step 4: \<open>_verify_sig\<close>, cached after the first call.\<close>

definition fresh_sig :: "policy_crypto \<Rightarrow> enforcer \<Rightarrow> bool" where
  "fresh_sig pc en =
     (if \<not> truthy (pb_sig (pe_policy en)) then False
      else (let embedded = pb_signed_by_pub (pe_policy en);
                pub = (case pe_trust_root_pub en of
                         Some k \<Rightarrow> Some k
                       | None \<Rightarrow>
                           if truthy embedded then (case embedded of JStr s \<Rightarrow> fromhex s | _ \<Rightarrow> None) else None) in
            case pub of
              None \<Rightarrow> False
            | Some k \<Rightarrow> verify_policy_signature pc (pe_policy en) k = Inr True))"

definition verify_sig :: "policy_crypto \<Rightarrow> enforcer \<Rightarrow> enforcer \<times> bool" where
  "verify_sig pc en =
     (case pe_sig_ok en of
        Some ok \<Rightarrow> (en, ok)
      | None \<Rightarrow> (en\<lparr>pe_sig_ok := Some (fresh_sig pc en)\<rparr>, fresh_sig pc en))"

text \<open>Steps 5 to 8b. \<open>Inl\<close> is an exception of the second \<open>_rank\<close>.\<close>

definition permission_gate :: "agent_policy \<Rightarrow> int \<Rightarrow> request \<Rightarrow> label_error + deny_reason option" where
  "permission_gate agent effective_rank rq =
     (case (case rq_target_agent rq of
              None \<Rightarrow> None
            | Some target \<Rightarrow>
                if ap_allowed_targets agent \<noteq> {} \<and> JStr target \<notin> ap_allowed_targets agent
                then Some (TargetNotAllowed target) else None) of
        Some d \<Rightarrow> Inr (Some d)
      | None \<Rightarrow>
     (case (case rq_app rq of
              None \<Rightarrow> None
            | Some app \<Rightarrow>
                if JStr app \<in> ap_blocked_apps agent then Some (AppBlocked app)
                else if ap_allowed_apps agent \<noteq> {} \<and> JStr app \<notin> ap_allowed_apps agent then Some (AppNotAllowed app)
                else None) of
        Some d \<Rightarrow> Inr (Some d)
      | None \<Rightarrow>
          if JStr (rq_action rq) \<notin> ap_allowed_actions agent then Inr (Some ActionNotAllowed)
          else (case rank (LStr (ap_max_classification agent)) of
                  Inl e \<Rightarrow> Inl e
                | Inr ceiling \<Rightarrow>
                    if ceiling < effective_rank
                      then Inr (Some (AboveAgentCeiling (effective_classification rq) (ap_max_classification agent)))
                    else (case rq_label rq of
                            None \<Rightarrow> Inr None
                          | Some l \<Rightarrow>
                              if label_validate l then Inr None
                              else Inr (Some (InvalidCaveats (sorted_list_of_set (lbl_caveats l - ALLOWED_CAVEATS))))))))"

text \<open>Step 9: profile and agent requirements are combined.\<close>

definition approval_required :: "profile option \<Rightarrow> agent_policy \<Rightarrow> pystr \<Rightarrow> bool" where
  "approval_required prof agent action \<longleftrightarrow>
     JStr action \<in> ap_requires_operator_approval agent
     \<or> action \<in> (case prof of None \<Rightarrow> {} | Some p \<Rightarrow> pf_require_operator_approval_for p)"

text \<open>
  Step 10 and the result. The monitor sees only calls every other step allowed; a denial is
  written to the enforcer's ledger, whose exception leaves \<open>check\<close>.
\<close>

datatype 'e check_error = CheckLedgerRaised 'e | CheckRankRaised label_error

definition composition_gate ::
    "('l, 'e) logger \<Rightarrow> 'l ledgers \<Rightarrow> enforcer \<Rightarrow> time \<Rightarrow> request
     \<Rightarrow> 'l ledgers \<times> enforcer \<times> ('e + deny_reason option)" where
  "composition_gate log ls en now rq =
     (case pe_monitor en of
        None \<Rightarrow> (ls, en, Inr None)
      | Some m \<Rightarrow>
          (case observe log ls m (rq_agent_id rq) (rq_action rq) now of
             (ls1, m', v) \<Rightarrow>
               (let en' = en\<lparr>pe_monitor := Some m'\<rparr> in
                if cv_allowed v then (ls1, en', Inr None)
                else (case log_ref log ls1 (pe_ledger en) (mk_call ''tool_call'' ''denied'' (verdict_metadata v)) of
                        (ls2, Inl e) \<Rightarrow> (ls2, en', Inl e)
                      | (ls2, Inr _) \<Rightarrow> (ls2, en', Inr (Some (CompositionDenied (cv_reason v))))))))"

text \<open>\<open>check\<close> reads the clock for the time window (\<open>now\<close>) and again in the monitor (\<open>now'\<close>).\<close>

definition policy_check ::
    "('l, 'e) logger \<Rightarrow> policy_crypto \<Rightarrow> ('k, 'q) control_plane option \<Rightarrow> time \<Rightarrow> time \<Rightarrow> 'l ledgers \<Rightarrow> enforcer \<Rightarrow> request
     \<Rightarrow> 'l ledgers \<times> enforcer \<times> ('e check_error + policy_decision)" where
  "policy_check log pc cp now now' ls en rq =
     (let deny = (\<lambda>en. \<lambda>why. (ls, en, Inr (deny_decision en rq why))) in
      case rank (effective_classification rq) of
        Inl _ \<Rightarrow> deny en (UnknownClassification (effective_classification rq))
      | Inr effective_rank \<Rightarrow>
     (case control_gate cp (rq_agent_id rq) of
        Some why \<Rightarrow> deny en why
      | None \<Rightarrow>
     (case profile_gate (pe_profile en) effective_rank rq of
        Some why \<Rightarrow> deny en why
      | None \<Rightarrow>
     (case agent_gate (pe_policy en) now (rq_agent_id rq) of
        Inl why \<Rightarrow> deny en why
      | Inr agent \<Rightarrow>
     (case (if pe_require_sig en then verify_sig pc en else (en, True)) of
        (en1, False) \<Rightarrow> deny en1 SignatureBad
      | (en1, True) \<Rightarrow>
     (case permission_gate agent effective_rank rq of
        Inl e \<Rightarrow> (ls, en1, Inl (CheckRankRaised e))
      | Inr (Some why) \<Rightarrow> deny en1 why
      | Inr None \<Rightarrow>
     (case composition_gate log ls en1 now' rq of
        (ls', en2, Inl e) \<Rightarrow> (ls', en2, Inl (CheckLedgerRaised e))
      | (ls', en2, Inr (Some why)) \<Rightarrow> (ls', en2, Inr (deny_decision en2 rq why))
      | (ls', en2, Inr None) \<Rightarrow>
          (ls', en2, Inr (allow_decision en2 rq (approval_required (pe_profile en2) agent (rq_action rq)))))))))))"

end
