(* ===== verification/PolicySpec.thy ===== *)
theory PolicySpec
  imports Policy LedgerSpec ControlSpec
begin

text \<open>
  The properties of the policy enforcer: what \<open>check\<close> allows, stated gate by gate without
  order (\<open>authorised\<close>); that the kill switch stops every later action; that sequence denials
  are in the signed ledger; and that a policy signature binds every field it covers.
\<close>

subsection \<open>The gates\<close>

definition app_allowed :: "'a set \<Rightarrow> 'a set \<Rightarrow> 'a option \<Rightarrow> bool" where
  "app_allowed blocked allowed app \<longleftrightarrow>
     (\<forall>a. app = Some a \<longrightarrow> a \<notin> blocked \<and> (allowed = {} \<or> a \<in> allowed))"

definition within_profile :: "profile \<Rightarrow> int \<Rightarrow> request \<Rightarrow> bool" where
  "within_profile p r rq \<longleftrightarrow> r \<le> cls_value (pf_max_classification p)
     \<and> (pf_require_cng_identity p \<longrightarrow> rq_identity_type rq = ''cng'')
     \<and> app_allowed (pf_blocked_apps p) (pf_allowed_apps p) (rq_app rq)"

definition within_agent :: "agent_policy \<Rightarrow> int \<Rightarrow> request \<Rightarrow> bool" where
  "within_agent agent r rq \<longleftrightarrow> app_allowed {} (ap_allowed_targets agent) (map_option JStr (rq_target_agent rq))
     \<and> app_allowed (ap_blocked_apps agent) (ap_allowed_apps agent) (map_option JStr (rq_app rq))
     \<and> JStr (rq_action rq) \<in> ap_allowed_actions agent
     \<and> (\<exists>ceiling. rank (LStr (ap_max_classification agent)) = Inr ceiling \<and> r \<le> ceiling)
     \<and> (\<forall>l. rq_label rq = Some l \<longrightarrow> label_validate l)"

definition authorised_as ::
    "policy_crypto \<Rightarrow> ('l, 'q) control_plane option \<Rightarrow> time \<Rightarrow> enforcer \<Rightarrow> request \<Rightarrow> int \<Rightarrow> agent_policy \<Rightarrow> bool" where
  "authorised_as pc cp now en rq r agent \<longleftrightarrow>
     rank (effective_classification rq) = Inr r
     \<and> (\<forall>c. cp = Some c \<longrightarrow> get_state c (rq_agent_id rq) = Active)
     \<and> (\<forall>p. pe_profile en = Some p \<longrightarrow> within_profile p r rq)
     \<and> get_agent (pe_policy en) (rq_agent_id rq) = Some agent \<and> \<not> ap_revoked agent
     \<and> is_time_valid (pe_policy en) now
     \<and> (pe_require_sig en \<longrightarrow> fresh_sig pc en)
     \<and> within_agent agent r rq"

lemma control_gate_None: "control_gate cp a = None \<longleftrightarrow> (\<forall>c. cp = Some c \<longrightarrow> get_state c a = Active)"
  by (auto simp: control_gate_def split: option.splits control_state.splits)

lemma profile_gate_None: "profile_gate prof r rq = None \<longleftrightarrow> (\<forall>p. prof = Some p \<longrightarrow> within_profile p r rq)"
  by (auto simp: profile_gate_def within_profile_def app_allowed_def split: option.splits)

lemma agent_gate_Inr:
  "agent_gate b now a = Inr agent \<longleftrightarrow> get_agent b a = Some agent \<and> \<not> ap_revoked agent \<and> is_time_valid b now"
  by (auto simp: agent_gate_def split: option.splits)

lemma permission_gate_None: "permission_gate agent r rq = Inr None \<longleftrightarrow> within_agent agent r rq"
  by (cases "rq_target_agent rq"; cases "rq_app rq"; cases "rank (LStr (ap_max_classification agent))"; cases "rq_label rq")
    (auto simp: permission_gate_def within_agent_def app_allowed_def)

lemma permission_gate_Inl: "permission_gate agent r rq = Inl e \<Longrightarrow> \<exists>e. rank (LStr (ap_max_classification agent)) = Inl e"
  by (auto simp: permission_gate_def split: option.splits if_splits sum.splits)

text \<open>Only the monitor denies with the mode of a sequence denial.\<close>

lemma gate_modes:
  "control_gate cp a = Some why \<Longrightarrow> deny_mode why \<noteq> ''composition_denied''"
  "profile_gate prof r rq = Some why \<Longrightarrow> deny_mode why \<noteq> ''composition_denied''"
  "agent_gate b now a = Inl why \<Longrightarrow> deny_mode why \<noteq> ''composition_denied''"
  "permission_gate agent r rq = Inr (Some why) \<Longrightarrow> deny_mode why \<noteq> ''composition_denied''"
  by (auto simp: control_gate_def profile_gate_def agent_gate_def permission_gate_def
      split: option.splits control_state.splits if_splits sum.splits)

lemmas gate_iffs = control_gate_None profile_gate_None agent_gate_Inr permission_gate_None

text \<open>The signature cache holds nothing or what a fresh verification returns.\<close>

definition sig_cache_ok :: "policy_crypto \<Rightarrow> enforcer \<Rightarrow> bool" where
  "sig_cache_ok pc en \<longleftrightarrow> pe_sig_ok en \<in> {None, Some (fresh_sig pc en)}"

lemma fresh_sig_updates [simp]:
  "fresh_sig pc (en\<lparr>pe_sig_ok := x\<rparr>) = fresh_sig pc en" "fresh_sig pc (en\<lparr>pe_monitor := m\<rparr>) = fresh_sig pc en"
  by (simp_all add: fresh_sig_def)

lemma sig_ok_same: "\<exists>x. en = en\<lparr>pe_sig_ok := x\<rparr>"
  by (rule exI[of _ "pe_sig_ok en"]) simp

lemma verify_sig_effect:
  assumes "sig_cache_ok pc en" "verify_sig pc en = (en', ok)"
  shows "ok = fresh_sig pc en" "\<exists>x. en' = en\<lparr>pe_sig_ok := x\<rparr>" "sig_cache_ok pc en'"
proof -
  show "ok = fresh_sig pc en" using assms by (auto simp: verify_sig_def sig_cache_ok_def)
  from assms sig_ok_same[of en] show "\<exists>x. en' = en\<lparr>pe_sig_ok := x\<rparr>"
    by (fastforce simp: verify_sig_def split: option.splits)
  show "sig_cache_ok pc en'" using assms by (auto simp: verify_sig_def sig_cache_ok_def split: option.splits)
qed

text \<open>Every agent of a loaded bundle has a ceiling \<open>rank\<close> accepts.\<close>

lemma agents_ranked:
  "agents_of kvs = Inr agents \<Longrightarrow> map_of agents a = Some agent
     \<Longrightarrow> \<exists>r. rank (LStr (ap_max_classification agent)) = Inr r"
proof (induction kvs arbitrary: agents)
  case (Cons kv kvs)
  obtain k v where kv: "kv = (k, v)" by (cases kv)
  have "agent_policy_from_dict k v = Inr p \<Longrightarrow> \<exists>r. rank (LStr (ap_max_classification p)) = Inr r" for p
  proof -
    have "ranked_text j = Inr t \<Longrightarrow> \<exists>r. rank (LStr t) = Inr r" for j t
      by (cases j) (auto split: sum.splits)
    then show "agent_policy_from_dict k v = Inr p \<Longrightarrow> \<exists>r. rank (LStr (ap_max_classification p)) = Inr r"
      by (auto simp: agent_policy_from_dict_def bind_result_Inr_iff split: json.splits)
  qed
  with Cons show ?case by (auto simp: kv bind_result_Inr_iff map_result_Inr_iff split: if_splits)
qed simp

lemma bundle_ranked:
  assumes "bundle_init raw = Inr b" "get_agent b a = Some agent"
  shows "\<exists>r. rank (LStr (ap_max_classification agent)) = Inr r"
  using assms agents_ranked by (auto simp: bundle_init_def bind_result_Inr_iff get_agent_def split: json.splits)

lemma composition_gate_cases:
  assumes "composition_gate log ls en now rq = (ls', en', res)"
  shows "en' = en\<lparr>pe_monitor := pe_monitor en'\<rparr>"
    "res = Inr None \<longleftrightarrow> (\<forall>m. pe_monitor en = Some m \<longrightarrow> cv_allowed (snd (snd (observe log ls m (rq_agent_id rq) (rq_action rq) now))))"
  using assms by (auto simp: composition_gate_def Let_def split: option.splits prod.splits if_splits sum.splits)

subsection \<open>What check allows\<close>

text \<open>How \<open>check\<close> ends: before the monitor, with ledgers and monitor untouched, or in it.\<close>

lemma policy_check_cases:
  assumes run: "policy_check log pc cp now now' ls en rq = (ls', en', res)"
    and cache: "sig_cache_ok pc en" and raw: "bundle_init raw = Inr (pe_policy en)"
  obtains (refused) why where "res = Inr (deny_decision en' rq why)" "ls' = ls" "\<exists>x. en' = en\<lparr>pe_sig_ok := x\<rparr>" "sig_cache_ok pc en'"
      "\<nexists>r agent. authorised_as pc cp now en rq r agent" "deny_mode why \<noteq> ''composition_denied''"
  | (reached) r agent en1 res1 x where "authorised_as pc cp now en rq r agent" "en1 = en\<lparr>pe_sig_ok := x\<rparr>" "sig_cache_ok pc en1"
      "composition_gate log ls en1 now' rq = (ls', en', res1)"
      "res = (case res1 of Inl e \<Rightarrow> Inl (CheckLedgerRaised e)
        | Inr (Some why) \<Rightarrow> Inr (deny_decision en' rq why)
        | Inr None \<Rightarrow> Inr (allow_decision en' rq (approval_required (pe_profile en') agent (rq_action rq))))"
proof -
  note same = sig_ok_same[of en]
  let ?sig = "if pe_require_sig en then verify_sig pc en else (en, True)"
  obtain en1 ok where sig: "?sig = (en1, ok)" by (cases ?sig)
  have en1: "\<exists>x. en1 = en\<lparr>pe_sig_ok := x\<rparr>" "sig_cache_ok pc en1" "ok \<longleftrightarrow> (pe_require_sig en \<longrightarrow> fresh_sig pc en)"
    using sig verify_sig_effect[OF cache] same cache by (auto split: if_splits)
  note out = run[unfolded policy_check_def Let_def]
  show thesis
  proof (cases "\<exists>r agent. rank (effective_classification rq) = Inr r \<and> control_gate cp (rq_agent_id rq) = None
      \<and> profile_gate (pe_profile en) r rq = None \<and> agent_gate (pe_policy en) now (rq_agent_id rq) = Inr agent \<and> ok")
    case False
    then have "\<nexists>r agent. authorised_as pc cp now en rq r agent"
      using en1(3) by (auto simp: authorised_as_def gate_iffs)
    moreover have "\<exists>why. res = Inr (deny_decision en' rq why) \<and> ls' = ls \<and> en' \<in> {en, en1} \<and> deny_mode why \<noteq> ''composition_denied''"
      using False out gate_modes(1-3) by (auto simp: sig split: sum.splits option.splits bool.splits)
    ultimately show thesis using refused en1 same cache by blast
  next
    case True
    then obtain r agent where g: "rank (effective_classification rq) = Inr r" "control_gate cp (rq_agent_id rq) = None"
      "profile_gate (pe_profile en) r rq = None" "agent_gate (pe_policy en) now (rq_agent_id rq) = Inr agent" and ok: ok by blast
    show thesis
    proof (cases "permission_gate agent r rq")
      case (Inl e)
      with permission_gate_Inl g(4) bundle_ranked[OF raw] have False by (fastforce simp: agent_gate_Inr)
      then show thesis ..
    next
      case (Inr found)
      show thesis
      proof (cases found)
        case None
        obtain ls2 en2 res1 where c: "composition_gate log ls en1 now' rq = (ls2, en2, res1)" by (cases "composition_gate log ls en1 now' rq")
        have "authorised_as pc cp now en rq r agent"
          using g ok Inr None en1(3) by (simp add: authorised_as_def gate_iffs)
        moreover have "ls2 = ls'" "en2 = en'" "res = (case res1 of Inl e \<Rightarrow> Inl (CheckLedgerRaised e)
          | Inr (Some why) \<Rightarrow> Inr (deny_decision en' rq why)
          | Inr None \<Rightarrow> Inr (allow_decision en' rq (approval_required (pe_profile en') agent (rq_action rq))))"
          using out g ok Inr None c by (auto simp: sig split: sum.splits option.splits)
        ultimately show thesis using reached[of r agent en1] en1 c by blast
      next
        case (Some why)
        have "\<nexists>r agent. authorised_as pc cp now en rq r agent"
          using g Inr Some by (auto simp: authorised_as_def agent_gate_Inr simp flip: permission_gate_None)
        moreover have "res = Inr (deny_decision en1 rq why)" "ls' = ls" "en' = en1"
          using out g ok Inr Some by (auto simp: sig)
        ultimately show thesis using refused[of why] en1 gate_modes(4)[of agent r rq why] Inr Some by simp
      qed
    qed
  qed
qed

text \<open>
  C3. \<open>check\<close> allows a request exactly when every gate admits it (known classification within
  the profile's and the agent's ceiling, active control state, identity, apps, target and
  action permitted, registered and not revoked, inside the time window, signature valid when
  required, caveats known) and the monitor accepts the sequence; it flags operator approval
  exactly when the agent or the profile demands it; and a refusal by any gate leaves
  the monitor and the ledgers untouched.
\<close>

theorem policy_check_allows_iff:
  assumes "policy_check log pc cp now now' ls en rq = (ls', en', res)"
    and "sig_cache_ok pc en" "bundle_init raw = Inr (pe_policy en)"
  shows "((\<exists>d. res = Inr d \<and> dec_allowed d) \<longleftrightarrow> (\<exists>r agent. authorised_as pc cp now en rq r agent)
      \<and> (\<forall>m. pe_monitor en = Some m \<longrightarrow> cv_allowed (snd (snd (observe log ls m (rq_agent_id rq) (rq_action rq) now')))))
    \<and> (\<forall>d agent. res = Inr d \<longrightarrow> dec_allowed d \<longrightarrow> get_agent (pe_policy en) (rq_agent_id rq) = Some agent
        \<longrightarrow> dec_requires_approval d = approval_required (pe_profile en) agent (rq_action rq))
    \<and> ((\<nexists>r agent. authorised_as pc cp now en rq r agent) \<longrightarrow> ls' = ls \<and> pe_monitor en' = pe_monitor en)
    \<and> sig_cache_ok pc en'"
  using assms
proof (cases rule: policy_check_cases)
  case (refused why)
  then show ?thesis by (auto simp: deny_decision_def)
next
  case (reached r ag en1 res1 x)
  note gate = composition_gate_cases[OF reached(4)]
  have en': "en' = en1\<lparr>pe_monitor := pe_monitor en'\<rparr>" "pe_monitor en1 = pe_monitor en" "pe_profile en' = pe_profile en"
    using gate(1) reached(2) by (simp_all, metis enforcer.select_convs(3) enforcer.surjective enforcer.update_convs(4,7))
  have "sig_cache_ok pc en'"
    using reached(3) by (subst en') (simp add: sig_cache_ok_def)
  with reached(1,5) gate(2) en' show ?thesis
    by (cases res1; cases "projr res1") (auto simp: deny_decision_def allow_decision_def authorised_as_def)
qed

definition demo_raw :: json_object where
  "demo_raw = [(''policy_id'', JStr ''p1''), (''valid_from'', JFloat 10), (''sig'', JStr ''0a''),
     (''agents'', JObj [(''a1'', JObj [(''allowed_actions'', JArr [JStr ''read_text'']),
        (''max_classification'', JStr ''SECRET'')])])]"

definition demo_agent :: agent_policy where
  "demo_agent = \<lparr>ap_agent_id = ''a1'', ap_role = JStr ''unknown'', ap_clearance = ''UNCLASSIFIED'',
     ap_allowed_targets = {}, ap_allowed_apps = {}, ap_blocked_apps = {}, ap_allowed_actions = {JStr ''read_text''},
     ap_requires_operator_approval = {}, ap_max_classification = ''SECRET'', ap_revoked = False\<rparr>"

definition demo_bundle :: policy_bundle where
  "demo_bundle = \<lparr>pb_raw = demo_raw, pb_policy_id = JStr ''p1'', pb_signed_by = JStr [], pb_signed_by_pub = JStr [],
     pb_valid_from = Finite 10, pb_valid_until = None, pb_sig = JStr ''0a'', pb_agents = [(''a1'', demo_agent)]\<rparr>"

lemma demo_bundle_init: "bundle_init demo_raw = Inr demo_bundle"
proof -
  have "agents_of [(''a1'', JObj [(''allowed_actions'', JArr [JStr ''read_text'']), (''max_classification'', JStr ''SECRET'')])]
      = Inr [(''a1'', demo_agent)]"
    using rank_name[of SECRET] by (simp add: agent_policy_from_dict_def dict_get_def demo_agent_def)
  then show ?thesis by (simp add: bundle_init_def demo_raw_def demo_bundle_def dict_get_def)
qed

definition demo_verifiers :: policy_crypto where
  "demo_verifiers = \<lparr>pc_ed25519 = (\<lambda>data sg pub. Some (sg = [char_of (10 :: nat)])), pc_cng_p384 = (\<lambda>_ _ _. None)\<rparr>"

definition demo_enforcer :: enforcer where
  "demo_enforcer = enforcer_init demo_bundle (Some (replicate 32 CHR ''k'')) True None (Some demo_monitor) None"

definition demo_request :: "pystr \<Rightarrow> request" where
  "demo_request action = \<lparr>rq_agent_id = ''a1'', rq_action = action, rq_target_agent = None, rq_app = None,
     rq_classification = LStr ''CUI'', rq_label = None, rq_identity_type = []\<rparr>"

lemma demo_authorised:
  "\<exists>r agent. authorised_as demo_verifiers None 20 demo_enforcer (demo_request ''read_text'') r agent"
proof (intro exI)
  have "fromhex ''0a'' = Some [char_of (10 :: nat)]" by (simp add: is_space_def hex_of_char_def char_code_def)
  then have "fresh_sig demo_verifiers demo_enforcer"
    by (simp add: fresh_sig_def demo_enforcer_def enforcer_init_def demo_bundle_def verify_policy_signature_def
        verify_ed25519_def demo_verifiers_def)
  then show "authorised_as demo_verifiers None 20 demo_enforcer (demo_request ''read_text'') 1 demo_agent"
    using rank_name[of CUI] rank_name[of SECRET]
    by (simp add: authorised_as_def within_agent_def app_allowed_def demo_request_def effective_classification_def
        demo_enforcer_def enforcer_init_def get_agent_def demo_bundle_def demo_agent_def is_time_valid_def)
qed

lemma demo_observation: "cv_allowed (snd (snd (observe log ls demo_monitor ''a1'' ''read_text'' now)))"
proof -
  obtain ls' m' v where run: "observe log ls demo_monitor ''a1'' ''read_text'' now = (ls', m', v)"
    by (cases "observe log ls demo_monitor ''a1'' ''read_text'' now")
  have "0 \<le> cm_max_window_len demo_monitor" by (simp add: demo_monitor_def composition_monitor_init_def)
  from observe_effect(2)[OF this run]
  have v: "v = judge demo_monitor (map snd (next_window demo_monitor ''a1'' ''read_text'' now))" .
  have "map snd (next_window demo_monitor ''a1'' ''read_text'' now) = [''recon'']"
    by (simp add: next_window_def window_of_def dict_get_def effect_of_def demo_monitor_def
        composition_monitor_init_def DEFAULT_EFFECT_MAP_def)
  moreover have "harmless demo_monitor [''recon'']"
    by (simp add: demo_monitor_def composition_monitor_init_def harmless_def elevated_in_def ELEVATED_EFFECTS_def
        DEFAULT_SIGNATURES_def)
  ultimately show ?thesis by (simp add: run v judge_allowed)
qed

theorem policy_check_allows_iff_witness:
  "\<exists>d. snd (snd (policy_check (ledger_logger demo_crypto) demo_verifiers (None :: (nat, nat) control_plane option) 20 21
      (\<lambda>_. (demo_ledger, [])) demo_enforcer (demo_request ''read_text''))) = Inr d \<and> dec_allowed d"
proof -
  obtain ls' en' res where run: "policy_check (ledger_logger demo_crypto) demo_verifiers
      (None :: (nat, nat) control_plane option) 20 21 (\<lambda>_. (demo_ledger, [])) demo_enforcer (demo_request ''read_text'')
      = (ls', en', res)" by (rule prod_cases3)
  have "sig_cache_ok demo_verifiers demo_enforcer" "bundle_init demo_raw = Inr (pe_policy demo_enforcer)"
    by (simp_all add: sig_cache_ok_def demo_enforcer_def enforcer_init_def demo_bundle_init)
  note iff = policy_check_allows_iff[OF run this, THEN conjunct1]
  have "\<exists>d. res = Inr d \<and> dec_allowed d"
    unfolding iff using demo_authorised demo_observation
    by (auto simp: demo_enforcer_def enforcer_init_def demo_request_def)
  then show ?thesis unfolding run by simp
qed

subsection \<open>The kill switch stops every action\<close>

text \<open>
  C7. Once \<open>kill_all\<close> has returned, no agent that was registered is allowed any action again,
  whatever registrations and control commands follow: \<open>check\<close> refuses without consulting the
  policy, and leaves ledgers, signature cache and monitor as they were.
\<close>

theorem killed_agents_never_act:
  assumes "kill_all klog dq_get_pending (system_denier (sink_record cr) (sink_verify_receipt cr) draw) t cp o' r
      = (cp', Inr recs)"
    and "cp_queue cp = Some q" "governed_queue (sink_verify_receipt cr) (world_inv cr) q" "wf_dict (cp_states cp)"
    and "map_of (cp_states cp) (rq_agent_id rq) \<noteq> None"
    and "policy_check log pc (Some (run_ops klog t' cp' ops)) now now' ls en rq = (ls', en', res)"
  shows "ls' = ls \<and> en' = en \<and> (\<exists>d. res = Inr d \<and> \<not> dec_allowed d)"
proof -
  have "get_state cp' (rq_agent_id rq) = Revoked"
    using durable_drain.kill_all_effect[OF assms(1-3)] assms(4,5) by (auto simp: map_of_eq_None_iff)
  then have "control_gate (Some (run_ops klog t' cp' ops)) (rq_agent_id rq) = Some RevokedByOperator"
    by (simp add: control_gate_def run_ops_revoked)
  with assms(6) show ?thesis
    by (auto simp: policy_check_def deny_decision_def split: sum.splits)
qed

theorem killed_agents_never_act_witness:
  "\<exists>cp' recs. kill_all (ledger_logger demo_crypto2) dq_get_pending
      (system_denier (sink_record demo_crypto2) (sink_verify_receipt demo_crypto2) demo_draw) 7 demo_control ''op'' ''r''
      = (cp', Inr recs)
    \<and> (\<exists>d. snd (snd (policy_check (ledger_logger demo_crypto) demo_verifiers
        (Some (run_ops (ledger_logger demo_crypto2) 8 cp' [OpTransition ''a1'' CmdResume ''op'' ''r'']))
        20 21 (\<lambda>_. (demo_ledger, [])) demo_enforcer (demo_request ''read_text''))) = Inr d \<and> \<not> dec_allowed d)"
proof -
  obtain cp' recs where kill: "kill_all (ledger_logger demo_crypto2) dq_get_pending
      (system_denier (sink_record demo_crypto2) (sink_verify_receipt demo_crypto2) demo_draw) 7 demo_control ''op'' ''r''
      = (cp', Inr recs)"
    by (simp add: kill_all_def kill_targets_def demo_control_def control_eval drain_all_queue_def drain_def demo_pending)
  let ?check = "policy_check (ledger_logger demo_crypto) demo_verifiers
        (Some (run_ops (ledger_logger demo_crypto2) 8 cp' [OpTransition ''a1'' CmdResume ''op'' ''r'']))
        20 21 (\<lambda>_. (demo_ledger, [])) demo_enforcer (demo_request ''read_text'')"
  obtain ls' en' res where run: "?check = (ls', en', res)" by (rule prod_cases3)
  have "cp_queue demo_control = Some demo_queue" "wf_dict (cp_states demo_control)"
    "map_of (cp_states demo_control) (rq_agent_id (demo_request ''read_text'')) \<noteq> None"
    by (simp_all add: demo_control_def wf_dict_def demo_request_def)
  from killed_agents_never_act[OF kill this(1) demo_queue_governed this(2,3) run] kill run show ?thesis by auto
qed

subsection \<open>Sequence denials are on record\<close>

context audit_log begin

lemma observe_recorded:
  assumes inv: "\<forall>h. invar (ls h)" and run: "observe log ls m a action now = (ls', m', v)"
  shows "\<forall>h. invar (ls' h)"
    "\<exists>pre. recorded (ls' h) = recorded (ls h) @ pre \<and> length pre \<le> 1 \<and> set pre \<subseteq> {(''composition_check'', ''denied'')}"
proof -
  have step: "ls' = ls \<or> (\<exists>v r. log_ref log ls (cm_ledger m) (mk_call ''composition_check'' ''denied'' (verdict_metadata v)) = (ls', r))"
    using run by (auto simp: observe_def Let_def composition_deny_def split: option.splits prod.splits if_splits)
  then show "\<forall>h. invar (ls' h)" using inv log_ref_invar[OF inv] by metis
  from step have "recorded (ls' h) \<in> {recorded (ls h), recorded (ls h) @ [(''composition_check'', ''denied'')]}"
    using log_ref_grows[OF inv] by fastforce
  then show "\<exists>pre. recorded (ls' h) = recorded (ls h) @ pre \<and> length pre \<le> 1 \<and> set pre \<subseteq> {(''composition_check'', ''denied'')}"
    by auto
qed

lemma composition_denial_recorded:
  assumes inv: "\<forall>h. invar (ls h)" and h: "pe_ledger en = Some h"
    and run: "composition_gate log ls en now rq = (ls', en', Inr (Some why))"
  shows "(\<forall>h. invar (ls' h)) \<and> (\<exists>pre. recorded (ls' h) = recorded (ls h) @ pre @ [(''tool_call'', ''denied'')]
    \<and> length pre \<le> 1 \<and> set pre \<subseteq> {(''composition_check'', ''denied'')})"
proof -
  from run obtain m ls1 m' v where ob: "observe log ls m (rq_agent_id rq) (rq_action rq) now = (ls1, m', v)"
    and lg: "log_ref log ls1 (Some h) (mk_call ''tool_call'' ''denied'' (verdict_metadata v)) = (ls', Inr ())"
    by (auto simp: composition_gate_def h Let_def split: option.splits prod.splits if_splits sum.splits)
  note o = observe_recorded[OF inv ob]
  from o(2)[of h] log_ref_appends[OF o(1) lg] log_ref_invar[OF o(1) lg] show ?thesis by auto
qed

end

text \<open>
  A request the monitor alone refuses is on the signed record before \<open>check\<close> returns: the
  enforcer's ledger grows by a \<open>tool_call\<close> denial, preceded at most by the monitor's own
  \<open>composition_check\<close> denial when both write to one ledger (as in the governed runtime), and
  every ledger stays a valid chain.
\<close>

theorem sequence_denial_audited:
  assumes "policy_check (ledger_logger cr) pc cp now now' ls en rq = (ls', en', Inr d)"
    and "\<forall>h. world_inv cr (ls h)" "pe_ledger en = Some h" "dec_approval_mode d = ''composition_denied''"
    and "sig_cache_ok pc en" "bundle_init raw = Inr (pe_policy en)"
  shows "\<not> dec_allowed d \<and> (\<forall>h. world_inv cr (ls' h))
    \<and> (\<exists>pre. ledger_recorded (ls' h) = ledger_recorded (ls h) @ pre @ [(''tool_call'', ''denied'')]
        \<and> length pre \<le> 1 \<and> set pre \<subseteq> {(''composition_check'', ''denied'')})"
proof -
  from assms(1,5,6) show ?thesis
  proof (cases rule: policy_check_cases)
    case (refused why)
    then have False using assms(4) by (simp add: deny_decision_def)
    then show ?thesis ..
  next
    case (reached r agent en1 res1 x)
    have led: "pe_ledger en1 = Some h" using reached(2) assms(3) by simp
    from reached(5) assms(4) obtain why where "res1 = Inr (Some why)" "d = deny_decision en' rq why"
      by (cases res1; cases "projr res1") (auto simp: allow_decision_def split: if_splits)
    with chain.composition_denial_recorded[OF assms(2) led] reached(4) show ?thesis
      by (auto simp: deny_decision_def)
  qed
qed

lemma demo_log_ok:
  assumes "RESERVED_ENTRY_FIELDS \<inter> fst ` set (call_metadata c) = {}"
  shows "\<exists>w e. ledger_logger cr (demo_ledger, []) c = (w, Inr e)"
  using assms by (simp add: ledger_logger_def ledger_log_def rotate_if_needed_def demo_ledger_def Let_def)

definition strict_monitor :: composition_monitor where
  "strict_monitor = composition_monitor_init 30 256
     [\<lparr>cs_name = ''any_recon'', cs_ordered_effects = [''recon''], cs_reason = ''recon''\<rparr>] None 8 None"

definition strict_enforcer :: enforcer where
  "strict_enforcer = enforcer_init demo_bundle (Some (replicate 32 CHR ''k'')) True None (Some strict_monitor) (Some 0)"

theorem sequence_denial_audited_witness:
  "\<exists>ls' en' d. policy_check (ledger_logger demo_crypto) demo_verifiers (None :: (nat, nat) control_plane option) 20 21
      (\<lambda>_. (demo_ledger, [])) strict_enforcer (demo_request ''read_text'') = (ls', en', Inr d)
    \<and> ledger_recorded (ls' 0) \<noteq> []"
proof -
  let ?ls = "\<lambda>_ :: nat. (demo_ledger, []) :: ledger_world" and ?log = "ledger_logger demo_crypto"
  let ?check = "policy_check ?log demo_verifiers (None :: (nat, nat) control_plane option) 20 21 ?ls strict_enforcer
      (demo_request ''read_text'')"
  obtain ls' en' res where run: "?check = (ls', en', res)" by (rule prod_cases3)
  have ok: "sig_cache_ok demo_verifiers strict_enforcer" "bundle_init demo_raw = Inr (pe_policy strict_enforcer)"
    "pe_ledger strict_enforcer = Some 0" "pe_monitor strict_enforcer = Some strict_monitor"
    by (simp_all add: sig_cache_ok_def strict_enforcer_def enforcer_init_def demo_bundle_init)
  have auth: "authorised_as demo_verifiers None 20 strict_enforcer (demo_request ''read_text'') r agent
      \<longleftrightarrow> authorised_as demo_verifiers None 20 demo_enforcer (demo_request ''read_text'') r agent" for r agent
    by (simp add: authorised_as_def fresh_sig_def strict_enforcer_def demo_enforcer_def enforcer_init_def)
  obtain m' v where ob: "observe ?log ?ls strict_monitor ''a1'' ''read_text'' 21 = (?ls, m', v)" and v: "\<not> cv_allowed v"
    by (simp add: observe_def strict_monitor_def composition_monitor_init_def Let_def window_of_def dict_get_def
        effect_of_def DEFAULT_EFFECT_MAP_def judge_def elevated_in_def ELEVATED_EFFECTS_def matches_def deny_verdict_def
        composition_deny_def)
  have "RESERVED_ENTRY_FIELDS \<inter> fst ` set (call_metadata (mk_call ''tool_call'' ''denied'' (verdict_metadata v))) = {}"
    by (simp add: RESERVED_ENTRY_FIELDS_def verdict_metadata_def)
  then obtain w e where lg: "?log (demo_ledger, []) (mk_call ''tool_call'' ''denied'' (verdict_metadata v)) = (w, Inr e)"
    using demo_log_ok by blast
  have "\<exists>d. res = Inr d \<and> dec_approval_mode d = ''composition_denied''"
    using run ok(1,2)
  proof (cases rule: policy_check_cases)
    case (refused why)
    with auth demo_authorised show ?thesis by blast
  next
    case (reached r agent en1 res1 x)
    then have "pe_monitor en1 = Some strict_monitor" "pe_ledger en1 = Some 0" using ok by simp_all
    with reached(4,5) ob v lg show ?thesis
      by (auto simp: composition_gate_def demo_request_def log_ref_def Let_def deny_decision_def)
  qed
  then obtain d where d: "res = Inr d" "dec_approval_mode d = ''composition_denied''" by blast
  have "\<forall>h. world_inv demo_crypto (?ls h)" using demo_inv demo_signs by (simp add: world_inv_def)
  from sequence_denial_audited[OF run[unfolded d(1)] this ok(3) d(2) ok(1,2)] run d(1) show ?thesis by auto
qed

subsection \<open>Policy signatures\<close>

lemma unsigned_part_update:
  "k \<in> {''sig'', ''signed_by_pub''} \<Longrightarrow> unsigned_part (AList.update k v d) = unsigned_part d"
  by (induction d) (auto simp: unsigned_part_def)

lemma unsigned_part_idem [simp]: "unsigned_part (unsigned_part d) = unsigned_part d"
  by (simp add: unsigned_part_def)

lemma dict_get_unsigned:
  "k \<notin> {''sig'', ''signed_by_pub''} \<Longrightarrow> dict_get (unsigned_part d) k x = dict_get d k x"
proof -
  assume "k \<notin> {''sig'', ''signed_by_pub''}"
  then have "map_of (unsigned_part d) k = map_of d k" by (induction d) (auto simp: unsigned_part_def)
  then show ?thesis by (simp add: dict_get_def)
qed

lemma bundle_init_unsigned:
  assumes "bundle_init (unsigned_part d) = Inr b"
  shows "bundle_init d = Inr (b\<lparr>pb_raw := d, pb_sig := dict_get d ''sig'' (JStr []),
    pb_signed_by_pub := dict_get d ''signed_by_pub'' (JStr [])\<rparr>)"
  using assms by (auto simp: bundle_init_def bind_result_Inr_iff dict_get_unsigned)

text \<open>
  Sign, then load: a policy signed with a 32-byte Ed25519 key loads, and is
  accepted under the signer's key, both when the key is the configured trust root and when it
  is taken from the bundle. What the verifier must satisfy is that it accepts what the key signs.
\<close>

theorem signed_policy_accepted:
  assumes "sign_policy sign pub d = Inr signed"
    and "length pub = 32" "\<And>m. sign m \<noteq> []" "\<And>m. pc_ed25519 pc m (sign m) pub = Some True"
  shows "\<exists>b. bundle_init signed = Inr b \<and> verify_policy_signature pc b pub = Inr True
    \<and> (\<forall>root prof m l. root \<in> {None, Some pub} \<longrightarrow> fresh_sig pc (enforcer_init b root True prof m l))"
proof -
  from assms(1) obtain b0 where b0: "bundle_init (unsigned_part d) = Inr b0"
    and signed: "signed = AList.update ''signed_by_pub'' (JStr (tohex pub))
           (AList.update ''sig'' (JStr (tohex (sign (to_signable_bytes b0)))) d)"
    by (auto simp: sign_policy_def map_result_Inr_iff)
  have same: "unsigned_part signed = unsigned_part d" by (simp add: signed unsigned_part_update)
  with b0 have "bundle_init (unsigned_part signed) = Inr b0" by simp
  from bundle_init_unsigned[OF this] obtain b where b: "bundle_init signed = Inr b" "pb_raw b = signed"
    "pb_sig b = JStr (tohex (sign (to_signable_bytes b0)))" "pb_signed_by_pub b = JStr (tohex pub)"
    by (auto simp: signed dict_get_def)
  have "pb_raw b0 = unsigned_part d" using b0 by (auto simp: bundle_init_def bind_result_Inr_iff)
  then have data: "to_signable_bytes b = to_signable_bytes b0" by (simp add: to_signable_bytes_def b(2) same)
  have "tohex (sign (to_signable_bytes b0)) \<noteq> []" "tohex pub \<noteq> []" using assms(2,3) by auto
  then have "verify_policy_signature pc b pub = Inr True" and
    "\<forall>root prof m l. root \<in> {None, Some pub} \<longrightarrow> fresh_sig pc (enforcer_init b root True prof m l)"
    using assms(2,4) by (auto simp: verify_policy_signature_def fresh_sig_def enforcer_init_def b data verify_ed25519_def)
  with b(1) show ?thesis by blast
qed

theorem signed_policy_accepted_witness:
  "\<exists>signed b. sign_policy (\<lambda>m. CHR ''s'' # m) (replicate 32 CHR ''k'') demo_raw = Inr signed \<and> bundle_init signed = Inr b
    \<and> verify_policy_signature \<lparr>pc_ed25519 = (\<lambda>m s k. Some (s = CHR ''s'' # m)), pc_cng_p384 = (\<lambda>_ _ _. None)\<rparr>
        b (replicate 32 CHR ''k'') = Inr True"
proof -
  let ?sign = "\<lambda>m. CHR ''s'' # m" and ?pub = "replicate 32 CHR ''k''"
  have "bundle_init (unsigned_part demo_raw) = Inr (demo_bundle\<lparr>pb_raw := unsigned_part demo_raw, pb_sig := JStr []\<rparr>)"
    using demo_bundle_init
    by (auto simp: bundle_init_def bind_result_Inr_iff unsigned_part_def demo_bundle_def dict_get_def demo_raw_def)
  then obtain signed where s: "sign_policy ?sign ?pub demo_raw = Inr signed" by (simp add: sign_policy_def)
  from signed_policy_accepted[OF s, of "\<lparr>pc_ed25519 = (\<lambda>m s k. Some (s = CHR ''s'' # m)), pc_cng_p384 = (\<lambda>_ _ _. None)\<rparr>"] s
  show ?thesis by auto
qed

subsection \<open>A signature binds the permissions\<close>

text \<open>The readers do not depend on the order of keys.\<close>

lemma float_of_sorted: "float_of (key_sorted v) = float_of v"
  by (cases v) simp_all

lemma ranked_text_sorted: "ranked_text (key_sorted v) = ranked_text v"
  by (cases v) simp_all

lemma hashable_sorted [simp]: "hashable (key_sorted v) = hashable v"
  by (cases v) simp_all

lemma hashable_id: "hashable v \<Longrightarrow> key_sorted v = v"
  by (cases v) simp_all

lemma frozenset_sorted: "frozenset (key_sorted v) = frozenset v"
proof (cases v)
  case (JArr xs)
  have "list_all hashable xs \<Longrightarrow> map key_sorted xs = xs" by (induction xs) (simp_all add: hashable_id)
  then show ?thesis by (simp add: JArr list.pred_map comp_def)
qed (simp_all add: image_image)

definition same_permissions :: "agent_policy \<Rightarrow> agent_policy \<Rightarrow> bool" where
  "same_permissions p p' \<longleftrightarrow> p\<lparr>ap_role := JNull\<rparr> = p'\<lparr>ap_role := JNull\<rparr>"

lemmas reader_sorted = float_of_sorted ranked_text_sorted frozenset_sorted truthy_sorted

lemma agent_policy_sorted:
  assumes "wf_json v"
  shows "map_result (\<lambda>p. p\<lparr>ap_role := JNull\<rparr>) (agent_policy_from_dict a (key_sorted v))
    = map_result (\<lambda>p. p\<lparr>ap_role := JNull\<rparr>) (agent_policy_from_dict a v)"
proof (cases v)
  case (JObj d)
  define d' where "d' = sort_key fst (map (map_prod id key_sorted) d)"
  have get: "f (dict_get d' k x) = f (dict_get d k x)" if "\<And>v. f (key_sorted v) = f v" "key_sorted x = x" for f k x
    using dict_get_sorted[of d k x] that assms by (simp add: JObj d'_def)
  have "map_result (\<lambda>p. p\<lparr>ap_role := JNull\<rparr>) (agent_policy_from_dict a (JObj d'))
    = map_result (\<lambda>p. p\<lparr>ap_role := JNull\<rparr>) (agent_policy_from_dict a (JObj d))"
    by (simp add: agent_policy_from_dict_def get reader_sorted bind_result_def map_result_def split: sum.splits)
  then show ?thesis by (simp add: JObj d'_def)
qed (simp_all add: agent_policy_from_dict_def)

lemma agents_of_map:
  "agents_of kvs = Inr agents \<Longrightarrow> map_of agents a =
     (case map_of kvs a of None \<Rightarrow> None | Some v \<Rightarrow> Some (projr (agent_policy_from_dict a v)))
   \<and> (\<forall>v. map_of kvs a = Some v \<longrightarrow> is_ok (agent_policy_from_dict a v))"
  by (induction kvs arbitrary: agents)
    (auto simp: bind_result_Inr_iff map_result_Inr_iff is_ok_iff split: option.splits)

lemma bundle_agents:
  "bundle_init r = Inr c \<Longrightarrow> \<exists>kvs. dict_get r ''agents'' (JObj []) = JObj kvs \<and> agents_of kvs = Inr (pb_agents c)"
  by (auto simp: bundle_init_def bind_result_Inr_iff split: json.splits)

definition until_of :: "json \<Rightarrow> policy_error + pyfloat option" where
  "until_of v = (case v of JNull \<Rightarrow> Inr None | u \<Rightarrow> map_result Some (float_of u))"

lemma until_of_sorted: "until_of (key_sorted v) = until_of v"
  by (cases v) (simp_all add: until_of_def)

lemma bundle_fields:
  assumes "bundle_init r = Inr c"
  shows "float_of (dict_get r ''valid_from'' (JFloat 0)) = Inr (pb_valid_from c)"
    "until_of (dict_get r ''valid_until'' JNull) = Inr (pb_valid_until c)"
    "pb_policy_id c = dict_get r ''policy_id'' (JStr [])" "pb_raw c = r"
  using assms by (auto simp: bundle_init_def bind_result_Inr_iff until_of_def)

text \<open>Equal signed bytes give equal fields, up to the order of keys.\<close>

lemma signed_fields_same:
  assumes "dumps True (JObj (unsigned_part raw)) = dumps True (JObj (unsigned_part raw'))"
    and "wf_json (JObj raw)" "wf_json (JObj raw')" "k \<notin> {''sig'', ''signed_by_pub''}" "key_sorted x = x"
  shows "key_sorted (dict_get raw k x) = key_sorted (dict_get raw' k x)"
proof -
  have sorted: "key_sorted (JObj (unsigned_part raw)) = key_sorted (JObj (unsigned_part raw'))"
    using assms(1) by (simp add: dumps_inject del: key_sorted.simps)
  have wf: "wf_json (JObj (unsigned_part raw))" "wf_json (JObj (unsigned_part raw'))"
    unfolding unsigned_part_def by (rule wf_json_filter[OF assms(2)], rule wf_json_filter[OF assms(3)])
  have "key_sorted (dict_get (unsigned_part raw) k x) = key_sorted (dict_get (unsigned_part raw') k x)"
    using sorted dict_get_sorted[OF wf(1), of k x] dict_get_sorted[OF wf(2), of k x] assms(5) by simp
  then show ?thesis by (simp add: dict_get_unsigned[OF assms(4)])
qed

lemma same_agent_permissions:
  assumes "agents_of kvs = Inr agents" "agents_of kvs' = Inr agents'" "wf_json (JObj kvs)" "wf_json (JObj kvs')"
    and "key_sorted (JObj kvs) = key_sorted (JObj kvs')"
  shows "rel_option same_permissions (map_of agents a) (map_of agents' a)"
proof -
  have sorted: "map_option key_sorted (map_of kvs a) = map_option key_sorted (map_of kvs' a)"
    using assms(5) map_of_sorted[OF assms(3), of a] map_of_sorted[OF assms(4), of a] by simp
  note maps = agents_of_map[OF assms(1), of a] agents_of_map[OF assms(2), of a]
  show ?thesis
  proof (cases "map_of kvs a")
    case (Some v)
    with sorted obtain v' where v': "map_of kvs' a = Some v'" "key_sorted v = key_sorted v'"
      by (cases "map_of kvs' a") auto
    have wf: "wf_json v" "wf_json v'"
      using Some v'(1) assms(3,4) by (blast dest: map_of_SomeD intro: wf_json_member)+
    from agent_policy_sorted[OF wf(1), of a] agent_policy_sorted[OF wf(2), of a] v'(2)
    have "map_result (\<lambda>p. p\<lparr>ap_role := JNull\<rparr>) (agent_policy_from_dict a v)
      = map_result (\<lambda>p. p\<lparr>ap_role := JNull\<rparr>) (agent_policy_from_dict a v')" by simp
    with maps Some v'(1) show ?thesis by (auto simp: is_ok_iff same_permissions_def)
  qed (use sorted maps in simp)
qed

text \<open>
  The signed bytes of a policy determine what it permits: two bundles with the same
  signed bytes (in particular a bundle accepted under a signature made for another one,
  unless the signature scheme itself is broken) are valid at the same times, name the same agents,
  and give every agent the same permissions, ceilings and revocation flag. Reordering keys is
  the only change a signature does not detect.
\<close>

theorem policy_signature_binds:
  assumes "bundle_init raw = Inr b" "bundle_init raw' = Inr b'" "wf_json (JObj raw)" "wf_json (JObj raw')"
    and "to_signable_bytes b = to_signable_bytes b'"
  shows "is_time_valid b = is_time_valid b' \<and> rel_option same_permissions (get_agent b a) (get_agent b' a)
    \<and> key_sorted (pb_policy_id b) = key_sorted (pb_policy_id b')"
proof -
  note fields = bundle_fields[OF assms(1)] bundle_fields[OF assms(2)]
  have same: "key_sorted (dict_get raw k x) = key_sorted (dict_get raw' k x)"
    if "k \<notin> {''sig'', ''signed_by_pub''}" "key_sorted x = x" for k x
    using signed_fields_same[OF _ assms(3,4) that] assms(5) by (simp add: to_signable_bytes_def fields(4,8))
  have "float_of (dict_get raw ''valid_from'' (JFloat 0)) = float_of (dict_get raw' ''valid_from'' (JFloat 0))"
    using arg_cong[OF same[of "''valid_from''" "JFloat 0"], of float_of] by (simp add: float_of_sorted)
  moreover have "until_of (dict_get raw ''valid_until'' JNull) = until_of (dict_get raw' ''valid_until'' JNull)"
    using arg_cong[OF same[of "''valid_until''" JNull], of until_of] by (simp add: until_of_sorted)
  ultimately have "is_time_valid b = is_time_valid b'" using fields by (simp add: is_time_valid_def fun_eq_iff)
  moreover have "key_sorted (pb_policy_id b) = key_sorted (pb_policy_id b')"
    using same[of "''policy_id''" "JStr []"] fields by simp
  moreover obtain kvs kvs' where kvs: "dict_get raw ''agents'' (JObj []) = JObj kvs" "agents_of kvs = Inr (pb_agents b)"
    "dict_get raw' ''agents'' (JObj []) = JObj kvs'" "agents_of kvs' = Inr (pb_agents b')"
    using bundle_agents[OF assms(1)] bundle_agents[OF assms(2)] by blast
  have "rel_option same_permissions (get_agent b a) (get_agent b' a)"
    unfolding get_agent_def using kvs(2,4)
  proof (rule same_agent_permissions)
    show "wf_json (JObj kvs)" "wf_json (JObj kvs')" 
      using wf_json_get[OF assms(3) wf_json_empty, of "''agents''"] wf_json_get[OF assms(4) wf_json_empty, of "''agents''"]
      by (simp_all only: kvs(1,3))
    show "key_sorted (JObj kvs) = key_sorted (JObj kvs')" using same[of "''agents''" "JObj []"] kvs(1,3) by simp
  qed
  ultimately show ?thesis by blast
qed

text \<open>The demo policy with its key embedded and another signature text.\<close>

definition demo_resigned :: json_object where
  "demo_resigned = AList.update ''signed_by_pub'' (JStr ''ff'') (AList.update ''sig'' (JStr ''ff'') demo_raw)"

theorem policy_signature_binds_witness:
  "\<exists>b'. bundle_init demo_resigned = Inr b' \<and> pb_sig b' \<noteq> pb_sig demo_bundle
    \<and> rel_option same_permissions (get_agent demo_bundle ''a1'') (get_agent b' ''a1'')"
proof -
  have same: "unsigned_part demo_resigned = unsigned_part demo_raw"
    by (simp add: demo_resigned_def unsigned_part_update)
  have "bundle_init (unsigned_part demo_raw) = Inr (demo_bundle\<lparr>pb_raw := unsigned_part demo_raw, pb_sig := JStr []\<rparr>)"
    using demo_bundle_init
    by (auto simp: bundle_init_def bind_result_Inr_iff unsigned_part_def demo_bundle_def dict_get_def demo_raw_def)
  from bundle_init_unsigned[of demo_resigned, unfolded same, OF this] obtain b' where
    b': "bundle_init demo_resigned = Inr b'" "pb_raw b' = demo_resigned" "pb_sig b' = JStr ''ff''"
    by (auto simp: demo_resigned_def dict_get_def)
  have "wf_json (JObj demo_raw)" "wf_json (JObj demo_resigned)"
    by (simp_all add: demo_resigned_def demo_raw_def wf_dict_def)
  moreover have "to_signable_bytes demo_bundle = to_signable_bytes b'"
    by (simp add: to_signable_bytes_def b' same) (simp add: demo_bundle_def)
  ultimately have "rel_option same_permissions (get_agent demo_bundle ''a1'') (get_agent b' ''a1'')"
    using policy_signature_binds[OF demo_bundle_init b'(1)] by blast
  with b' show ?thesis by (simp add: demo_bundle_def)
qed

end
