(* ===== verification/Delegation.thy ===== *)
theory Delegation
  imports ApprovalAudit
begin

text \<open>
  \<open>enterprise/delegation.py\<close>: authority-signed grants, agent-signed action proofs and
  executor-signed receipts, and the functions that issue and verify them. The constructors
  take their keyword arguments as a JSON object and run \<open>__post_init__\<close> on it, so that a
  dictionary of any shape read by \<open>from_dict\<close> ends in a value or in the exception the
  code raises. Numbers keep the JSON value they were given as; a signature text may be any
  falsy JSON value. SHA-256 and the two signature checks (which never raise) are the argument
  \<open>delegation_crypto\<close>. The reason of a verification is a datatype, one constructor per message.
\<close>

datatype delegation_error = DelegationValueError | DelegationTypeError

record delegation_crypto =
  dc_sha256 :: "bytes \<Rightarrow> pystr"
  dc_ed25519 :: "bytes \<Rightarrow> bytes \<Rightarrow> bytes \<Rightarrow> bool"
  dc_p384 :: "bytes \<Rightarrow> bytes \<Rightarrow> bytes \<Rightarrow> bool"

definition SCHEMA_VERSION :: pystr where
  "SCHEMA_VERSION = ''selfconnect.delegation.v1''"

definition RECEIPT_SCHEMA_VERSION :: pystr where
  "RECEIPT_SCHEMA_VERSION = ''selfconnect.delegated-result-receipt.v1''"

definition ED25519 :: pystr where
  "ED25519 = ''ed25519''"

definition ECDSA_P384_SHA384 :: pystr where
  "ECDSA_P384_SHA384 = ''ecdsa-p384-sha384''"

subsection \<open>Helpers\<close>

definition payload_digest :: "delegation_crypto \<Rightarrow> bytes \<Rightarrow> pystr" where
  "payload_digest dc payload = dc_sha256 dc payload"

definition public_key_fingerprint :: "delegation_crypto \<Rightarrow> bytes \<Rightarrow> pystr" where
  "public_key_fingerprint dc public_key = dc_sha256 dc public_key"

definition canonical_agent_id :: "delegation_crypto \<Rightarrow> bytes \<Rightarrow> pystr" where
  "canonical_agent_id dc public_key = ''SCID-'' @ public_key_fingerprint dc public_key"

definition short_agent_id :: "delegation_crypto \<Rightarrow> bytes \<Rightarrow> pystr" where
  "short_agent_id dc public_key = ''SC-'' @ upper (take 8 (public_key_fingerprint dc public_key))"

definition digest_of :: "delegation_crypto \<Rightarrow> json_object \<Rightarrow> pystr" where
  "digest_of dc value = dc_sha256 dc (canonical_bytes (JObj value))"

definition verify_signature :: "delegation_crypto \<Rightarrow> pystr \<Rightarrow> bytes \<Rightarrow> bytes \<Rightarrow> bytes \<Rightarrow> bool" where
  "verify_signature dc algorithm public_key data signature =
     (if algorithm = ED25519 then dc_ed25519 dc data signature public_key
      else if algorithm = ECDSA_P384_SHA384 then dc_p384 dc data signature public_key
      else False)"

definition signer_algorithm :: "bytes \<Rightarrow> delegation_error + pystr" where
  "signer_algorithm public_key =
     (if length public_key = 32 then Inr ED25519
      else if length public_key = 96 then Inr ECDSA_P384_SHA384
      else Inl DelegationValueError)"

definition text_of :: "json \<Rightarrow> delegation_error + pystr" where
  "text_of v =
     (case v of
        JStr s \<Rightarrow> if s = [] \<or> 256 < length s \<or> has_control s then Inl DelegationValueError else Inr s
      | _ \<Rightarrow> Inl DelegationValueError)"

fun texts_of :: "json list \<Rightarrow> delegation_error + pystr list" where
  "texts_of [] = Inr []"
| "texts_of (v # vs) = bind_result (text_of v) (\<lambda>s. map_result (Cons s) (texts_of vs))"

definition digest_text :: "json \<Rightarrow> delegation_error + pystr" where
  "digest_text v = (case v of JStr s \<Rightarrow> if is_digest s then Inr s else Inl DelegationValueError | _ \<Rightarrow> Inl DelegationValueError)"

text \<open>
  \<open>_normalise_json_object\<close>: what \<open>json.loads\<close> reads back from the canonical text is the same
  object with sorted keys.
\<close>

fun members :: "json \<Rightarrow> json_object" where
  "members (JObj kvs) = kvs"
| "members _ = []"

definition normalise_json_object :: "json \<Rightarrow> delegation_error + json_object" where
  "normalise_json_object v =
     (case v of
        JObj kvs \<Rightarrow>
          (let normalised = members (key_sorted (JObj kvs)) in
           if 16384 < length (canonical_bytes (JObj normalised)) then Inl DelegationValueError else Inr normalised)
      | _ \<Rightarrow> Inl DelegationValueError)"

text \<open>\<open>bytes.fromhex\<close> on a JSON value: a text that is not hexadecimal is a \<open>ValueError\<close>, any other value a \<open>TypeError\<close>.\<close>

definition hex_bytes :: "json \<Rightarrow> delegation_error + bytes" where
  "hex_bytes v =
     (case v of
        JStr s \<Rightarrow> (case fromhex s of None \<Rightarrow> Inl DelegationValueError | Some b \<Rightarrow> Inr b)
      | _ \<Rightarrow> Inl DelegationTypeError)"

definition optional_hex :: "json \<Rightarrow> delegation_error + bytes" where
  "optional_hex v = (if truthy v then hex_bytes v else Inr [])"

text \<open>\<open>value not in {...}\<close> with an unhashable value is a \<open>TypeError\<close>.\<close>

definition member_text_of :: "pystr list \<Rightarrow> json \<Rightarrow> delegation_error + pystr" where
  "member_text_of allowed v =
     (case v of
        JStr s \<Rightarrow> if s \<in> set allowed then Inr s else Inl DelegationValueError
      | JArr _ \<Rightarrow> Inl DelegationTypeError
      | JObj _ \<Rightarrow> Inl DelegationTypeError
      | _ \<Rightarrow> Inl DelegationValueError)"

fun is_integer :: "json \<Rightarrow> bool" where
  "is_integer (JInt _) = True"
| "is_integer (JBool _) = True"
| "is_integer _ = False"

text \<open>The keyword arguments of a constructor: every required one, no unknown one.\<close>

definition kwargs_ok :: "pystr list \<Rightarrow> pystr list \<Rightarrow> json_object \<Rightarrow> bool" where
  "kwargs_ok required optional d \<longleftrightarrow>
     list_all (\<lambda>k. map_of d k \<noteq> None) required \<and> list_all (\<lambda>kv. fst kv \<in> set required \<union> set optional) d"

definition kw :: "json_object \<Rightarrow> pystr \<Rightarrow> json" where
  "kw d k = dict_get d k JNull"

definition guard :: "bool \<Rightarrow> delegation_error + unit" where
  "guard b = (if b then Inr () else Inl DelegationValueError)"

subsection \<open>DelegationGrant\<close>

record grant =
  gr_issuer_principal :: pystr
  gr_issuer_key_fingerprint :: pystr
  gr_subject_agent_id :: pystr
  gr_subject_public_key_hex :: pystr
  gr_allowed_actions :: "pystr list"
  gr_target_constraints :: json_object
  gr_governance_mode :: pystr
  gr_classification_ceiling :: pystr
  gr_issued_at :: json
  gr_not_before :: json
  gr_expires_at :: json
  gr_revocation_epoch :: json
  gr_nonce :: pystr
  gr_signature_algorithm :: pystr
  gr_issuer_public_key_hex :: pystr
  gr_signature_hex :: json

definition GRANT_FIELDS :: "pystr list" where
  "GRANT_FIELDS =
     [''schema'', ''issuer_principal'', ''issuer_key_fingerprint'', ''subject_agent_id'', ''subject_public_key_hex'',
      ''allowed_actions'', ''target_constraints'', ''governance_mode'', ''classification_ceiling'', ''issued_at'',
      ''not_before'', ''expires_at'', ''revocation_epoch'', ''nonce'', ''signature_algorithm'', ''issuer_public_key_hex'']"

definition actions_of :: "json \<Rightarrow> delegation_error + pystr list" where
  "actions_of v =
     (case v of
        JArr xs \<Rightarrow>
          if xs = [] \<or> 128 < length xs then Inl DelegationValueError
          else bind_result (texts_of xs) (\<lambda>actions. if distinct actions then Inr actions else Inl DelegationValueError)
      | _ \<Rightarrow> Inl DelegationTypeError)"

definition key_hex :: "json \<Rightarrow> pystr" where
  "key_hex v = (case v of JStr s \<Rightarrow> s | _ \<Rightarrow> [])"

definition grant_init :: "delegation_crypto \<Rightarrow> json_object \<Rightarrow> delegation_error + grant" where
  "grant_init dc d =
     (if \<not> kwargs_ok GRANT_FIELDS [''signature_hex''] d then Inl DelegationTypeError
      else
     bind_result (guard (kw d ''schema'' = JStr SCHEMA_VERSION)) (\<lambda>_.
     bind_result (text_of (kw d ''issuer_principal'')) (\<lambda>issuer_principal.
     bind_result (text_of (kw d ''subject_agent_id'')) (\<lambda>subject_agent_id.
     bind_result (text_of (kw d ''governance_mode'')) (\<lambda>governance_mode.
     bind_result (text_of (kw d ''classification_ceiling'')) (\<lambda>classification_ceiling.
     bind_result (text_of (kw d ''nonce'')) (\<lambda>nonce.
     bind_result (actions_of (kw d ''allowed_actions'')) (\<lambda>allowed_actions.
     bind_result (normalise_json_object (kw d ''target_constraints'')) (\<lambda>_.
     bind_result (guard (is_number (kw d ''issued_at'') \<and> is_number (kw d ''not_before'') \<and> is_number (kw d ''expires_at''))) (\<lambda>_.
     bind_result (guard (number_of (kw d ''issued_at'') \<le> number_of (kw d ''not_before'')
                         \<and> number_of (kw d ''not_before'') < number_of (kw d ''expires_at''))) (\<lambda>_.
     bind_result (guard (is_integer (kw d ''revocation_epoch'') \<and> 0 \<le> number_of (kw d ''revocation_epoch''))) (\<lambda>_.
     bind_result (member_text_of [ED25519, ECDSA_P384_SHA384] (kw d ''signature_algorithm'')) (\<lambda>algorithm.
     bind_result (hex_bytes (kw d ''issuer_public_key_hex'')) (\<lambda>issuer_key.
     bind_result (hex_bytes (kw d ''subject_public_key_hex'')) (\<lambda>subject_key.
     bind_result (optional_hex (dict_get d ''signature_hex'' (JStr []))) (\<lambda>_.
     bind_result (guard (length issuer_key = (if algorithm = ED25519 then 32 else 96) \<and> length subject_key = 32)) (\<lambda>_.
     bind_result (guard (kw d ''issuer_key_fingerprint'' = JStr (public_key_fingerprint dc issuer_key))) (\<lambda>_.
     bind_result (guard (subject_agent_id = short_agent_id dc subject_key)) (\<lambda>_.
     Inr \<lparr>gr_issuer_principal = issuer_principal,
          gr_issuer_key_fingerprint = public_key_fingerprint dc issuer_key,
          gr_subject_agent_id = subject_agent_id,
          gr_subject_public_key_hex = key_hex (kw d ''subject_public_key_hex''),
          gr_allowed_actions = allowed_actions,
          gr_target_constraints = members (kw d ''target_constraints''),
          gr_governance_mode = governance_mode, gr_classification_ceiling = classification_ceiling,
          gr_issued_at = kw d ''issued_at'', gr_not_before = kw d ''not_before'', gr_expires_at = kw d ''expires_at'',
          gr_revocation_epoch = kw d ''revocation_epoch'', gr_nonce = nonce, gr_signature_algorithm = algorithm,
          gr_issuer_public_key_hex = key_hex (kw d ''issuer_public_key_hex''),
          gr_signature_hex = dict_get d ''signature_hex'' (JStr [])\<rparr>)))))))))))))))))))"

definition grant_unsigned_dict :: "grant \<Rightarrow> json_object" where
  "grant_unsigned_dict g =
     [(''schema'', JStr SCHEMA_VERSION), (''issuer_principal'', JStr (gr_issuer_principal g)),
      (''issuer_key_fingerprint'', JStr (gr_issuer_key_fingerprint g)),
      (''subject_agent_id'', JStr (gr_subject_agent_id g)),
      (''subject_public_key_hex'', JStr (gr_subject_public_key_hex g)),
      (''allowed_actions'', JArr (map JStr (gr_allowed_actions g))),
      (''target_constraints'', JObj (gr_target_constraints g)),
      (''governance_mode'', JStr (gr_governance_mode g)),
      (''classification_ceiling'', JStr (gr_classification_ceiling g)),
      (''issued_at'', gr_issued_at g), (''not_before'', gr_not_before g), (''expires_at'', gr_expires_at g),
      (''revocation_epoch'', gr_revocation_epoch g), (''nonce'', JStr (gr_nonce g)),
      (''signature_algorithm'', JStr (gr_signature_algorithm g)),
      (''issuer_public_key_hex'', JStr (gr_issuer_public_key_hex g))]"

definition grant_signing_bytes :: "grant \<Rightarrow> bytes" where
  "grant_signing_bytes g = canonical_bytes (JObj (grant_unsigned_dict g))"

definition grant_id :: "delegation_crypto \<Rightarrow> grant \<Rightarrow> pystr" where
  "grant_id dc g = digest_of dc (grant_unsigned_dict g)"

definition grant_to_dict :: "delegation_crypto \<Rightarrow> grant \<Rightarrow> json_object" where
  "grant_to_dict dc g =
     grant_unsigned_dict g @ [(''signature_hex'', gr_signature_hex g), (''grant_id'', JStr (grant_id dc g))]"

text \<open>\<open>tuple(value)\<close>: an array, the characters of a string, the keys of an object.\<close>

fun as_tuple :: "json \<Rightarrow> delegation_error + json" where
  "as_tuple (JArr xs) = Inr (JArr xs)"
| "as_tuple (JStr s) = Inr (JArr (map (\<lambda>c. JStr [c]) s))"
| "as_tuple (JObj kvs) = Inr (JArr (map (\<lambda>kv. JStr (fst kv)) kvs))"
| "as_tuple _ = Inl DelegationTypeError"

text \<open>A supplied identifier must be absent, null or the computed one.\<close>

definition supplied_id_ok :: "json option \<Rightarrow> pystr \<Rightarrow> bool" where
  "supplied_id_ok supplied computed = (case supplied of None \<Rightarrow> True | Some v \<Rightarrow> v = JNull \<or> v = JStr computed)"

definition grant_from_dict :: "delegation_crypto \<Rightarrow> json_object \<Rightarrow> delegation_error + grant" where
  "grant_from_dict dc value =
     bind_result (as_tuple (dict_get value ''allowed_actions'' (JArr []))) (\<lambda>actions.
     bind_result (grant_init dc (AList.update ''allowed_actions'' actions (AList.delete ''grant_id'' value))) (\<lambda>g.
       if supplied_id_ok (map_of value ''grant_id'') (grant_id dc g) then Inr g else Inl DelegationValueError))"

subsection \<open>AgentActionProof\<close>

record action_proof =
  pr_grant_id :: pystr
  pr_action_id :: pystr
  pr_agent_id :: pystr
  pr_agent_public_key_hex :: pystr
  pr_action :: pystr
  pr_target :: json_object
  pr_payload_sha256 :: pystr
  pr_governance_mode :: pystr
  pr_classification :: pystr
  pr_occurred_at :: json
  pr_signature_hex :: json

definition PROOF_FIELDS :: "pystr list" where
  "PROOF_FIELDS =
     [''schema'', ''grant_id'', ''action_id'', ''agent_id'', ''agent_public_key_hex'', ''action'', ''target'',
      ''payload_sha256'', ''governance_mode'', ''classification'', ''occurred_at'', ''signature_algorithm'']"

definition proof_init :: "delegation_crypto \<Rightarrow> json_object \<Rightarrow> delegation_error + action_proof" where
  "proof_init dc d =
     (if \<not> kwargs_ok PROOF_FIELDS [''signature_hex''] d then Inl DelegationTypeError
      else
     bind_result (guard (kw d ''schema'' = JStr SCHEMA_VERSION)) (\<lambda>_.
     bind_result (text_of (kw d ''action_id'')) (\<lambda>action_id.
     bind_result (text_of (kw d ''agent_id'')) (\<lambda>agent_id.
     bind_result (text_of (kw d ''action'')) (\<lambda>action.
     bind_result (text_of (kw d ''governance_mode'')) (\<lambda>governance_mode.
     bind_result (text_of (kw d ''classification'')) (\<lambda>classification.
     bind_result (digest_text (kw d ''grant_id'')) (\<lambda>grant_id.
     bind_result (digest_text (kw d ''payload_sha256'')) (\<lambda>payload_sha256.
     bind_result (normalise_json_object (kw d ''target'')) (\<lambda>_.
     bind_result (guard (is_number (kw d ''occurred_at''))) (\<lambda>_.
     bind_result (guard (kw d ''signature_algorithm'' = JStr ED25519)) (\<lambda>_.
     bind_result (hex_bytes (kw d ''agent_public_key_hex'')) (\<lambda>public_key.
     bind_result (optional_hex (dict_get d ''signature_hex'' (JStr []))) (\<lambda>_.
     bind_result (guard (length public_key = 32 \<and> agent_id = short_agent_id dc public_key)) (\<lambda>_.
     Inr \<lparr>pr_grant_id = grant_id, pr_action_id = action_id, pr_agent_id = agent_id,
          pr_agent_public_key_hex = key_hex (kw d ''agent_public_key_hex''), pr_action = action,
          pr_target = members (kw d ''target''), pr_payload_sha256 = payload_sha256,
          pr_governance_mode = governance_mode, pr_classification = classification,
          pr_occurred_at = kw d ''occurred_at'',
          pr_signature_hex = dict_get d ''signature_hex'' (JStr [])\<rparr>)))))))))))))))"

definition proof_unsigned_dict :: "action_proof \<Rightarrow> json_object" where
  "proof_unsigned_dict p =
     [(''schema'', JStr SCHEMA_VERSION), (''grant_id'', JStr (pr_grant_id p)), (''action_id'', JStr (pr_action_id p)),
      (''agent_id'', JStr (pr_agent_id p)), (''agent_public_key_hex'', JStr (pr_agent_public_key_hex p)),
      (''action'', JStr (pr_action p)), (''target'', JObj (pr_target p)),
      (''payload_sha256'', JStr (pr_payload_sha256 p)), (''governance_mode'', JStr (pr_governance_mode p)),
      (''classification'', JStr (pr_classification p)), (''occurred_at'', pr_occurred_at p),
      (''signature_algorithm'', JStr ED25519)]"

definition proof_signing_bytes :: "action_proof \<Rightarrow> bytes" where
  "proof_signing_bytes p = canonical_bytes (JObj (proof_unsigned_dict p))"

definition proof_id :: "delegation_crypto \<Rightarrow> action_proof \<Rightarrow> pystr" where
  "proof_id dc p = digest_of dc (proof_unsigned_dict p)"

definition proof_to_dict :: "delegation_crypto \<Rightarrow> action_proof \<Rightarrow> json_object" where
  "proof_to_dict dc p =
     proof_unsigned_dict p @ [(''signature_hex'', pr_signature_hex p), (''proof_id'', JStr (proof_id dc p))]"

definition proof_from_dict :: "delegation_crypto \<Rightarrow> json_object \<Rightarrow> delegation_error + action_proof" where
  "proof_from_dict dc value =
     bind_result (proof_init dc (AList.delete ''proof_id'' value)) (\<lambda>p.
       if supplied_id_ok (map_of value ''proof_id'') (proof_id dc p) then Inr p else Inl DelegationValueError)"

subsection \<open>Issuing\<close>

text \<open>
  A signer: its public key and its signing function. The identity of an agent names itself by
  \<open>agent_id\<close>. \<open>dataclasses.replace\<close> runs the constructor again on the signed fields.
\<close>

record signer =
  sg_agent_id :: pystr
  sg_public_key :: bytes
  sg_sign :: "bytes \<Rightarrow> bytes"

definition issue_delegation_grant ::
    "delegation_crypto \<Rightarrow> signer \<Rightarrow> pystr \<Rightarrow> bytes \<Rightarrow> pystr list \<Rightarrow> json_object \<Rightarrow> pystr \<Rightarrow> pystr
     \<Rightarrow> json \<Rightarrow> json \<Rightarrow> json \<Rightarrow> json \<Rightarrow> pystr \<Rightarrow> delegation_error + grant" where
  "issue_delegation_grant dc sg issuer_principal subject_key allowed_actions target_constraints governance_mode
       classification_ceiling issued_at not_before expires_at revocation_epoch nonce =
     bind_result (normalise_json_object (JObj target_constraints)) (\<lambda>constraints.
     bind_result (signer_algorithm (sg_public_key sg)) (\<lambda>algorithm.
       (let body =
          [(''schema'', JStr SCHEMA_VERSION), (''issuer_principal'', JStr issuer_principal),
           (''issuer_key_fingerprint'', JStr (public_key_fingerprint dc (sg_public_key sg))),
           (''subject_agent_id'', JStr (short_agent_id dc subject_key)),
           (''subject_public_key_hex'', JStr (tohex subject_key)),
           (''allowed_actions'', JArr (map JStr allowed_actions)),
           (''target_constraints'', JObj constraints), (''governance_mode'', JStr governance_mode),
           (''classification_ceiling'', JStr classification_ceiling), (''issued_at'', issued_at),
           (''not_before'', not_before), (''expires_at'', expires_at), (''revocation_epoch'', revocation_epoch),
           (''nonce'', JStr nonce), (''signature_algorithm'', JStr algorithm),
           (''issuer_public_key_hex'', JStr (tohex (sg_public_key sg)))] in
        bind_result (grant_init dc body) (\<lambda>g.
          grant_init dc (grant_unsigned_dict g
            @ [(''signature_hex'', JStr (tohex (sg_sign sg (grant_signing_bytes g))))])))))"

definition sign_delegated_action ::
    "delegation_crypto \<Rightarrow> grant \<Rightarrow> signer \<Rightarrow> pystr \<Rightarrow> pystr \<Rightarrow> json_object \<Rightarrow> bytes \<Rightarrow> pystr \<Rightarrow> pystr \<Rightarrow> json
     \<Rightarrow> delegation_error + action_proof" where
  "sign_delegated_action dc g sg action_id action target payload governance_mode classification occurred_at =
     bind_result (normalise_json_object (JObj target)) (\<lambda>target'.
       (let body =
          [(''schema'', JStr SCHEMA_VERSION), (''grant_id'', JStr (grant_id dc g)), (''action_id'', JStr action_id),
           (''agent_id'', JStr (sg_agent_id sg)), (''agent_public_key_hex'', JStr (tohex (sg_public_key sg))),
           (''action'', JStr action), (''target'', JObj target'), (''payload_sha256'', JStr (payload_digest dc payload)),
           (''governance_mode'', JStr governance_mode), (''classification'', JStr classification),
           (''occurred_at'', occurred_at), (''signature_algorithm'', JStr ED25519)] in
        bind_result (proof_init dc body) (\<lambda>p.
          proof_init dc (proof_unsigned_dict p
            @ [(''signature_hex'', JStr (tohex (sg_sign sg (proof_signing_bytes p))))]))))"

subsection \<open>Verifying an action\<close>

datatype verification_reason =
    Ok
  | VerificationTimeInvalid
  | SignatureEncodingInvalid
  | IssuerNotTrusted
  | AuthoritySignatureInvalid
  | DifferentGrant
  | AuthorNotSubject
  | AgentSignatureInvalid
  | NotYetValid
  | Expired
  | OutsideWindow
  | GrantRevoked
  | AgentRevokedReason
  | StaleCheckpoint
  | ActionConsumed
  | OutsideScope
  | ModeMismatch
  | ClassificationMismatch
  | TargetMismatch pystr
  | PayloadMismatch
  | ReceiptEncodingInvalid
  | ExecutorNotTrusted
  | ExecutorMismatch
  | AuthorizationMismatch
  | ActionMismatch
  | DelegateMismatch
  | StatusMismatch
  | TargetDigestMismatch
  | ReceiptIdMismatch
  | ReceiptSignatureInvalid
  | ResultDigestMismatch
  | LedgerHeadMismatch

record delegation_verification =
  dv_ok :: bool
  dv_reason :: verification_reason
  dv_grant_id :: pystr
  dv_proof_id :: pystr
  dv_issuer_principal :: pystr
  dv_agent_id :: pystr

text \<open>The current state a caller supplies.\<close>

record verification_state =
  vs_revoked_grant_ids :: "pystr set"
  vs_revoked_agent_key_ids :: "pystr set"
  vs_revoked_agent_ids :: "pystr set"
  vs_minimum_revocation_epoch :: int
  vs_seen_action_ids :: "pystr set"

definition fresh_state :: verification_state where
  "fresh_state = \<lparr>vs_revoked_grant_ids = {}, vs_revoked_agent_key_ids = {}, vs_revoked_agent_ids = {},
     vs_minimum_revocation_epoch = 0, vs_seen_action_ids = {}\<rparr>"

text \<open>The first target constraint the proof does not meet.\<close>

fun target_violation :: "json_object \<Rightarrow> json_object \<Rightarrow> pystr option" where
  "target_violation [] target = None"
| "target_violation ((key, expected) # constraints) target =
     (case map_of target key of
        None \<Rightarrow> Some key
      | Some v \<Rightarrow> if py_eq v expected then target_violation constraints target else Some key)"

definition action_reason ::
    "delegation_crypto \<Rightarrow> grant \<Rightarrow> action_proof \<Rightarrow> pyfloat \<Rightarrow> bytes option \<Rightarrow> bytes option \<Rightarrow> verification_state
     \<Rightarrow> delegation_error + verification_reason" where
  "action_reason dc g p now payload trusted st =
     (case now of
        Finite t \<Rightarrow>
          (case (hex_bytes (JStr (gr_issuer_public_key_hex g)), hex_bytes (gr_signature_hex g),
                 hex_bytes (JStr (pr_agent_public_key_hex p)), hex_bytes (pr_signature_hex p)) of
             (Inr issuer_key, Inr grant_signature, Inr agent_key, Inr action_signature) \<Rightarrow>
               Inr (if trusted \<noteq> None \<and> trusted \<noteq> Some issuer_key then IssuerNotTrusted
                    else if \<not> truthy (gr_signature_hex g)
                      \<or> \<not> verify_signature dc (gr_signature_algorithm g) issuer_key (grant_signing_bytes g) grant_signature
                      then AuthoritySignatureInvalid
                    else if pr_grant_id p \<noteq> grant_id dc g then DifferentGrant
                    else if pr_agent_id p \<noteq> gr_subject_agent_id g \<or> tohex agent_key \<noteq> gr_subject_public_key_hex g
                      then AuthorNotSubject
                    else if \<not> truthy (pr_signature_hex p)
                      \<or> \<not> verify_signature dc ED25519 agent_key (proof_signing_bytes p) action_signature
                      then AgentSignatureInvalid
                    else if t < number_of (gr_not_before g) then NotYetValid
                    else if number_of (gr_expires_at g) < t \<or> number_of (gr_expires_at g) < number_of (pr_occurred_at p)
                      then Expired
                    else if number_of (pr_occurred_at p) < number_of (gr_not_before g) \<or> t < number_of (pr_occurred_at p)
                      then OutsideWindow
                    else if grant_id dc g \<in> vs_revoked_grant_ids st then GrantRevoked
                    else if canonical_agent_id dc agent_key \<in> vs_revoked_agent_key_ids st \<union> vs_revoked_agent_ids st
                      then AgentRevokedReason
                    else if number_of (gr_revocation_epoch g) < vs_minimum_revocation_epoch st then StaleCheckpoint
                    else if pr_action_id p \<in> vs_seen_action_ids st then ActionConsumed
                    else if pr_action p \<notin> set (gr_allowed_actions g) then OutsideScope
                    else if pr_governance_mode p \<noteq> gr_governance_mode g then ModeMismatch
                    else if pr_classification p \<noteq> gr_classification_ceiling g then ClassificationMismatch
                    else (case target_violation (gr_target_constraints g) (pr_target p) of
                            Some key \<Rightarrow> TargetMismatch key
                          | None \<Rightarrow>
                              (case payload of
                                 Some bs \<Rightarrow> if pr_payload_sha256 p \<noteq> payload_digest dc bs then PayloadMismatch else Ok
                               | None \<Rightarrow> Ok)))
           | (a, b, c, d) \<Rightarrow>
               (let first = filter (\<lambda>r. \<not> is_ok r) [a, b, c, d] in
                if hd first = Inl DelegationTypeError then Inl DelegationTypeError else Inr SignatureEncodingInvalid))
      | _ \<Rightarrow> Inr VerificationTimeInvalid)"

definition verify_delegated_action ::
    "delegation_crypto \<Rightarrow> grant \<Rightarrow> action_proof \<Rightarrow> pyfloat \<Rightarrow> bytes option \<Rightarrow> bytes option \<Rightarrow> verification_state
     \<Rightarrow> delegation_error + delegation_verification" where
  "verify_delegated_action dc g p now payload trusted st =
     map_result (\<lambda>reason.
         \<lparr>dv_ok = (reason = Ok), dv_reason = reason, dv_grant_id = grant_id dc g, dv_proof_id = proof_id dc p,
          dv_issuer_principal = gr_issuer_principal g, dv_agent_id = pr_agent_id p\<rparr>)
       (action_reason dc g p now payload trusted st)"

definition verify_historical_delegated_action ::
    "delegation_crypto \<Rightarrow> grant \<Rightarrow> action_proof \<Rightarrow> bytes option \<Rightarrow> bytes option
     \<Rightarrow> delegation_error + delegation_verification" where
  "verify_historical_delegated_action dc g p payload trusted =
     verify_delegated_action dc g p (Finite (number_of (pr_occurred_at p))) payload trusted fresh_state"

subsection \<open>DelegatedActionReceipt\<close>

record receipt =
  rc_receipt_id :: pystr
  rc_grant_id :: pystr
  rc_proof_id :: pystr
  rc_action_id :: pystr
  rc_delegated_agent_id :: pystr
  rc_agent_id :: pystr
  rc_agent_public_key_hex :: pystr
  rc_action :: pystr
  rc_target_sha256 :: pystr
  rc_result_sha256 :: pystr
  rc_result_status :: pystr
  rc_ledger_head :: pystr
  rc_issued_at :: json
  rc_signature_hex :: json

definition RECEIPT_FIELDS :: "pystr list" where
  "RECEIPT_FIELDS =
     [''schema'', ''receipt_id'', ''grant_id'', ''proof_id'', ''action_id'', ''delegated_agent_id'', ''agent_id'',
      ''agent_public_key_hex'', ''action'', ''target_sha256'', ''result_sha256'', ''result_status'', ''ledger_head'',
      ''issued_at'', ''signature_algorithm'']"

definition receipt_init :: "delegation_crypto \<Rightarrow> json_object \<Rightarrow> delegation_error + receipt" where
  "receipt_init dc d =
     (if \<not> kwargs_ok RECEIPT_FIELDS [''signature_hex''] d then Inl DelegationTypeError
      else
     bind_result (guard (kw d ''schema'' = JStr RECEIPT_SCHEMA_VERSION)) (\<lambda>_.
     bind_result (text_of (kw d ''receipt_id'')) (\<lambda>receipt_id.
     bind_result (text_of (kw d ''action_id'')) (\<lambda>action_id.
     bind_result (text_of (kw d ''delegated_agent_id'')) (\<lambda>delegated_agent_id.
     bind_result (text_of (kw d ''agent_id'')) (\<lambda>agent_id.
     bind_result (text_of (kw d ''action'')) (\<lambda>action.
     bind_result (text_of (kw d ''result_status'')) (\<lambda>result_status.
     bind_result (digest_text (kw d ''grant_id'')) (\<lambda>grant_id.
     bind_result (digest_text (kw d ''proof_id'')) (\<lambda>proof_id.
     bind_result (digest_text (kw d ''target_sha256'')) (\<lambda>target_sha256.
     bind_result (digest_text (kw d ''result_sha256'')) (\<lambda>result_sha256.
     bind_result (digest_text (kw d ''ledger_head'')) (\<lambda>ledger_head.
     bind_result (guard (is_number (kw d ''issued_at''))) (\<lambda>_.
     bind_result (guard (kw d ''signature_algorithm'' = JStr ED25519)) (\<lambda>_.
     bind_result (hex_bytes (kw d ''agent_public_key_hex'')) (\<lambda>public_key.
     bind_result (optional_hex (dict_get d ''signature_hex'' (JStr []))) (\<lambda>_.
     bind_result (guard (length public_key = 32 \<and> agent_id = short_agent_id dc public_key)) (\<lambda>_.
     Inr \<lparr>rc_receipt_id = receipt_id, rc_grant_id = grant_id, rc_proof_id = proof_id, rc_action_id = action_id,
          rc_delegated_agent_id = delegated_agent_id, rc_agent_id = agent_id,
          rc_agent_public_key_hex = key_hex (kw d ''agent_public_key_hex''), rc_action = action,
          rc_target_sha256 = target_sha256, rc_result_sha256 = result_sha256, rc_result_status = result_status,
          rc_ledger_head = ledger_head, rc_issued_at = kw d ''issued_at'',
          rc_signature_hex = dict_get d ''signature_hex'' (JStr [])\<rparr>))))))))))))))))))"

definition receipt_unsigned_dict :: "receipt \<Rightarrow> json_object" where
  "receipt_unsigned_dict r =
     [(''schema'', JStr RECEIPT_SCHEMA_VERSION), (''receipt_id'', JStr (rc_receipt_id r)),
      (''grant_id'', JStr (rc_grant_id r)), (''proof_id'', JStr (rc_proof_id r)), (''action_id'', JStr (rc_action_id r)),
      (''delegated_agent_id'', JStr (rc_delegated_agent_id r)), (''agent_id'', JStr (rc_agent_id r)),
      (''agent_public_key_hex'', JStr (rc_agent_public_key_hex r)), (''action'', JStr (rc_action r)),
      (''target_sha256'', JStr (rc_target_sha256 r)), (''result_sha256'', JStr (rc_result_sha256 r)),
      (''result_status'', JStr (rc_result_status r)), (''ledger_head'', JStr (rc_ledger_head r)),
      (''issued_at'', rc_issued_at r), (''signature_algorithm'', JStr ED25519)]"

definition receipt_signing_bytes :: "receipt \<Rightarrow> bytes" where
  "receipt_signing_bytes r = canonical_bytes (JObj (receipt_unsigned_dict r))"

definition receipt_to_dict :: "receipt \<Rightarrow> json_object" where
  "receipt_to_dict r = receipt_unsigned_dict r @ [(''signature_hex'', rc_signature_hex r)]"

definition receipt_digest :: "delegation_crypto \<Rightarrow> pystr \<Rightarrow> pystr \<Rightarrow> pystr \<Rightarrow> pystr \<Rightarrow> pystr \<Rightarrow> pystr \<Rightarrow> pystr" where
  "receipt_digest dc gid pid action_id target_sha256 result_sha256 ledger_head =
     digest_of dc [(''grant_id'', JStr gid), (''proof_id'', JStr pid), (''action_id'', JStr action_id),
       (''target_sha256'', JStr target_sha256), (''result_sha256'', JStr result_sha256), (''ledger_head'', JStr ledger_head)]"

definition sign_delegated_receipt ::
    "delegation_crypto \<Rightarrow> grant \<Rightarrow> action_proof \<Rightarrow> signer \<Rightarrow> json_object \<Rightarrow> pystr \<Rightarrow> pystr \<Rightarrow> json \<Rightarrow> delegation_error + receipt" where
  "sign_delegated_receipt dc g p sg result result_status ledger_head issued_at =
     bind_result (normalise_json_object (JObj (pr_target p))) (\<lambda>target.
       (let target_digest = digest_of dc target; result_digest = digest_of dc result;
            body =
              [(''schema'', JStr RECEIPT_SCHEMA_VERSION),
               (''receipt_id'', JStr (receipt_digest dc (grant_id dc g) (proof_id dc p) (pr_action_id p) target_digest
                  result_digest ledger_head)),
               (''grant_id'', JStr (grant_id dc g)), (''proof_id'', JStr (proof_id dc p)),
               (''action_id'', JStr (pr_action_id p)), (''delegated_agent_id'', JStr (pr_agent_id p)),
               (''agent_id'', JStr (sg_agent_id sg)), (''agent_public_key_hex'', JStr (tohex (sg_public_key sg))),
               (''action'', JStr (pr_action p)), (''target_sha256'', JStr target_digest),
               (''result_sha256'', JStr result_digest), (''result_status'', JStr result_status),
               (''ledger_head'', JStr ledger_head), (''issued_at'', issued_at), (''signature_algorithm'', JStr ED25519)] in
        bind_result (receipt_init dc body) (\<lambda>r.
          receipt_init dc (receipt_unsigned_dict r
            @ [(''signature_hex'', JStr (tohex (sg_sign sg (receipt_signing_bytes r))))]))))"

text \<open>What a caller expects of a receipt.\<close>

record expectation =
  ex_executor_public_key :: bytes
  ex_grant_id :: pystr
  ex_proof_id :: pystr
  ex_action_id :: pystr
  ex_action :: pystr
  ex_delegated_agent_id :: pystr
  ex_result_status :: pystr
  ex_target :: json_object
  ex_result :: "json_object option"
  ex_ledger_head :: "pystr option"

definition receipt_reason :: "delegation_crypto \<Rightarrow> receipt \<Rightarrow> expectation \<Rightarrow> delegation_error + verification_reason" where
  "receipt_reason dc r ex =
     (case (hex_bytes (JStr (rc_agent_public_key_hex r)), hex_bytes (rc_signature_hex r)) of
        (Inl _, _) \<Rightarrow> Inr ReceiptEncodingInvalid
      | (_, Inl DelegationValueError) \<Rightarrow> Inr ReceiptEncodingInvalid
      | (_, Inl DelegationTypeError) \<Rightarrow> Inl DelegationTypeError
      | (Inr public_key, Inr signature) \<Rightarrow>
          if public_key \<noteq> ex_executor_public_key ex then Inr ExecutorNotTrusted
          else if rc_agent_id r \<noteq> short_agent_id dc (ex_executor_public_key ex) then Inr ExecutorMismatch
          else if rc_grant_id r \<noteq> ex_grant_id ex \<or> rc_proof_id r \<noteq> ex_proof_id ex then Inr AuthorizationMismatch
          else if rc_action_id r \<noteq> ex_action_id ex \<or> rc_action r \<noteq> ex_action ex then Inr ActionMismatch
          else if rc_delegated_agent_id r \<noteq> ex_delegated_agent_id ex then Inr DelegateMismatch
          else if rc_result_status r \<noteq> ex_result_status ex then Inr StatusMismatch
          else bind_result (normalise_json_object (JObj (ex_target ex))) (\<lambda>target.
            Inr (if rc_target_sha256 r \<noteq> digest_of dc target then TargetDigestMismatch
                 else if rc_receipt_id r \<noteq> receipt_digest dc (rc_grant_id r) (rc_proof_id r) (rc_action_id r)
                     (rc_target_sha256 r) (rc_result_sha256 r) (rc_ledger_head r) then ReceiptIdMismatch
                 else if \<not> truthy (rc_signature_hex r)
                     \<or> \<not> verify_signature dc ED25519 public_key (receipt_signing_bytes r) signature
                   then ReceiptSignatureInvalid
                 else if (case ex_result ex of None \<Rightarrow> False | Some v \<Rightarrow> rc_result_sha256 r \<noteq> digest_of dc v)
                   then ResultDigestMismatch
                 else if (case ex_ledger_head ex of None \<Rightarrow> False | Some h \<Rightarrow> rc_ledger_head r \<noteq> h)
                   then LedgerHeadMismatch
                 else Ok)))"

definition verify_delegated_receipt ::
    "delegation_crypto \<Rightarrow> receipt \<Rightarrow> expectation \<Rightarrow> delegation_error + delegation_verification" where
  "verify_delegated_receipt dc r ex =
     map_result (\<lambda>reason.
         \<lparr>dv_ok = (reason = Ok), dv_reason = reason, dv_grant_id = rc_grant_id r, dv_proof_id = rc_proof_id r,
          dv_issuer_principal = [], dv_agent_id = rc_agent_id r\<rparr>)
       (receipt_reason dc r ex)"

end
