(* ===== verification/DelegationSpec.thy ===== *)
theory DelegationSpec
  imports Delegation
begin

text \<open>
  The properties of delegation: the codecs of grants and proofs, what an accepted action is
  authorised by, that issuing and verifying agree, and that receipts bind a result to its
  authorisation.
\<close>

subsection \<open>Readers of single fields\<close>

definition ok_text :: "pystr \<Rightarrow> bool" where
  "ok_text s \<longleftrightarrow> s \<noteq> [] \<and> length s \<le> 256 \<and> \<not> has_control s"

lemma text_of_JStr [simp]: "text_of (JStr s) = (if ok_text s then Inr s else Inl DelegationValueError)"
  by (simp add: text_of_def ok_text_def)

lemma text_of_Inr: "text_of v = Inr s \<longleftrightarrow> v = JStr s \<and> ok_text s"
  by (cases v) (auto simp: text_of_def ok_text_def)

lemma texts_of_JStr [simp]: "texts_of (map JStr ss) = (if list_all ok_text ss then Inr ss else Inl DelegationValueError)"
  by (induction ss) auto

lemma texts_of_Inr: "texts_of vs = Inr ss \<longleftrightarrow> vs = map JStr ss \<and> list_all ok_text ss"
proof
  show "texts_of vs = Inr ss \<Longrightarrow> vs = map JStr ss \<and> list_all ok_text ss"
  proof (induction vs arbitrary: ss)
    case (Cons v vs)
    then obtain s rest where "text_of v = Inr s" "texts_of vs = Inr rest" "ss = s # rest"
      by (auto simp: bind_result_Inr_iff map_result_Inr_iff)
    with Cons.IH show ?case by (simp add: text_of_Inr)
  qed simp
qed auto

definition ok_actions :: "pystr list \<Rightarrow> bool" where
  "ok_actions xs \<longleftrightarrow> xs \<noteq> [] \<and> length xs \<le> 128 \<and> list_all ok_text xs \<and> distinct xs"

lemma actions_of_JArr [simp]: "actions_of (JArr (map JStr xs)) = (if ok_actions xs then Inr xs else Inl DelegationValueError)"
  by (auto simp: actions_of_def ok_actions_def)

lemma actions_of_Inr: "actions_of v = Inr xs \<longleftrightarrow> v = JArr (map JStr xs) \<and> ok_actions xs"
proof (cases v)
  case (JArr vs)
  show ?thesis
  proof
    assume "actions_of v = Inr xs"
    then have "texts_of vs = Inr xs" "distinct xs" "vs \<noteq> []" "length vs \<le> 128"
      by (auto simp: JArr actions_of_def bind_result_Inr_iff split: if_splits)
    then show "v = JArr (map JStr xs) \<and> ok_actions xs" by (simp add: JArr texts_of_Inr ok_actions_def)
  qed auto
qed (simp_all add: actions_of_def)

definition small_object :: "json_object \<Rightarrow> bool" where
  "small_object kvs \<longleftrightarrow> length (canonical_bytes (JObj kvs)) \<le> 16384"

lemma normalise_JObj [simp]:
  "normalise_json_object (JObj kvs) =
     (if small_object kvs then Inr (members (key_sorted (JObj kvs))) else Inl DelegationValueError)"
proof -
  have "JObj (members (key_sorted (JObj kvs))) = key_sorted (JObj kvs)" by simp
  then have "canonical_bytes (JObj (members (key_sorted (JObj kvs)))) = canonical_bytes (JObj kvs)"
    by (simp only: canonical_bytes_sorted)
  then show ?thesis by (simp add: normalise_json_object_def small_object_def Let_def del: key_sorted.simps)
qed

lemma normalise_Inr: "normalise_json_object v = Inr x \<longleftrightarrow> (\<exists>kvs. v = JObj kvs \<and> small_object kvs \<and> x = members (key_sorted v))"
proof (cases v)
  case (JObj kvs)
  then show ?thesis by (auto simp del: key_sorted.simps)
qed (simp_all add: normalise_json_object_def)

lemma hex_bytes_JStr [simp]: "hex_bytes (JStr (tohex b)) = Inr b"
  by (simp add: hex_bytes_def)

lemma hex_bytes_Inr: "hex_bytes v = Inr b \<longleftrightarrow> (\<exists>s. v = JStr s \<and> fromhex s = Some b)"
  by (cases v) (auto simp: hex_bytes_def split: option.splits)

lemma optional_hex_tohex [simp]: "optional_hex (JStr (tohex b)) = Inr b"
  by (simp add: optional_hex_def)

lemma digest_text_JStr [simp]: "digest_text (JStr s) = (if is_digest s then Inr s else Inl DelegationValueError)"
  by (simp add: digest_text_def)

lemma digest_text_Inr: "digest_text v = Inr s \<longleftrightarrow> v = JStr s \<and> is_digest s"
  by (cases v) (auto simp: digest_text_def)

lemma member_text_Inr: "member_text_of xs v = Inr s \<longleftrightarrow> v = JStr s \<and> s \<in> set xs"
  by (cases v) (auto simp: member_text_of_def)

lemma guard_Inr [simp]: "guard b = Inr u \<longleftrightarrow> b"
  by (simp add: guard_def)

lemma key_hex_JStr [simp]: "key_hex (JStr s) = s"
  by (simp add: key_hex_def)

lemmas field_iffs = bind_result_Inr_iff text_of_Inr actions_of_Inr normalise_Inr hex_bytes_Inr digest_text_Inr
  member_text_Inr

subsection \<open>Valid grants and proofs\<close>

definition grant_valid :: "delegation_crypto \<Rightarrow> grant \<Rightarrow> bool" where
  "grant_valid dc g \<longleftrightarrow>
     list_all ok_text [gr_issuer_principal g, gr_subject_agent_id g, gr_governance_mode g, gr_classification_ceiling g, gr_nonce g]
     \<and> ok_actions (gr_allowed_actions g) \<and> small_object (gr_target_constraints g)
     \<and> is_number (gr_issued_at g) \<and> is_number (gr_not_before g) \<and> is_number (gr_expires_at g)
     \<and> number_of (gr_issued_at g) \<le> number_of (gr_not_before g) \<and> number_of (gr_not_before g) < number_of (gr_expires_at g)
     \<and> is_integer (gr_revocation_epoch g) \<and> 0 \<le> number_of (gr_revocation_epoch g)
     \<and> gr_signature_algorithm g \<in> {ED25519, ECDSA_P384_SHA384}
     \<and> (\<exists>issuer_key subject_key. fromhex (gr_issuer_public_key_hex g) = Some issuer_key
          \<and> fromhex (gr_subject_public_key_hex g) = Some subject_key \<and> is_ok (optional_hex (gr_signature_hex g))
          \<and> length issuer_key = (if gr_signature_algorithm g = ED25519 then 32 else 96) \<and> length subject_key = 32
          \<and> gr_issuer_key_fingerprint g = public_key_fingerprint dc issuer_key
          \<and> gr_subject_agent_id g = short_agent_id dc subject_key)"

lemma kw_grant:
  "kw (grant_unsigned_dict g @ d) ''schema'' = JStr SCHEMA_VERSION"
  "kw (grant_unsigned_dict g @ d) ''issuer_principal'' = JStr (gr_issuer_principal g)"
  "kw (grant_unsigned_dict g @ d) ''issuer_key_fingerprint'' = JStr (gr_issuer_key_fingerprint g)"
  "kw (grant_unsigned_dict g @ d) ''subject_agent_id'' = JStr (gr_subject_agent_id g)"
  "kw (grant_unsigned_dict g @ d) ''subject_public_key_hex'' = JStr (gr_subject_public_key_hex g)"
  "kw (grant_unsigned_dict g @ d) ''allowed_actions'' = JArr (map JStr (gr_allowed_actions g))"
  "kw (grant_unsigned_dict g @ d) ''target_constraints'' = JObj (gr_target_constraints g)"
  "kw (grant_unsigned_dict g @ d) ''governance_mode'' = JStr (gr_governance_mode g)"
  "kw (grant_unsigned_dict g @ d) ''classification_ceiling'' = JStr (gr_classification_ceiling g)"
  "kw (grant_unsigned_dict g @ d) ''issued_at'' = gr_issued_at g"
  "kw (grant_unsigned_dict g @ d) ''not_before'' = gr_not_before g"
  "kw (grant_unsigned_dict g @ d) ''expires_at'' = gr_expires_at g"
  "kw (grant_unsigned_dict g @ d) ''revocation_epoch'' = gr_revocation_epoch g"
  "kw (grant_unsigned_dict g @ d) ''nonce'' = JStr (gr_nonce g)"
  "kw (grant_unsigned_dict g @ d) ''signature_algorithm'' = JStr (gr_signature_algorithm g)"
  "kw (grant_unsigned_dict g @ d) ''issuer_public_key_hex'' = JStr (gr_issuer_public_key_hex g)"
  by (simp_all add: kw_def dict_get_def grant_unsigned_dict_def)

lemma signature_of_grant_dict:
  "dict_get (grant_unsigned_dict g @ [(''signature_hex'', x)]) ''signature_hex'' (JStr []) = x"
  "dict_get (grant_unsigned_dict g) ''signature_hex'' (JStr []) = JStr []"
  by (simp_all add: dict_get_def grant_unsigned_dict_def)

lemma kwargs_grant: "kwargs_ok GRANT_FIELDS [''signature_hex''] (grant_unsigned_dict g @ [(''signature_hex'', x)])"
  "kwargs_ok GRANT_FIELDS [''signature_hex''] (grant_unsigned_dict g)"
  by (simp_all add: kwargs_ok_def GRANT_FIELDS_def grant_unsigned_dict_def)

text \<open>The constructor accepts the fields of a grant exactly when the grant is valid.\<close>

lemma grant_init_fields:
  "grant_init dc (grant_unsigned_dict g @ [(''signature_hex'', gr_signature_hex g)]) = Inr g' \<longleftrightarrow> grant_valid dc g \<and> g' = g"
  by (auto simp: grant_init_def kwargs_grant kw_grant signature_of_grant_dict field_iffs grant_valid_def is_ok_iff)

lemma grant_init_valid:
  assumes "grant_init dc d = Inr g"
  shows "grant_valid dc g"
proof -
  from assms have k: "kwargs_ok GRANT_FIELDS [''signature_hex''] d" by (auto simp: grant_init_def split: if_splits)
  with assms show ?thesis unfolding grant_init_def
    apply (simp only: k not_True_eq_False if_False)
    apply (elim bind_resultE)
    apply (simp only: text_of_Inr actions_of_Inr normalise_Inr hex_bytes_Inr member_text_Inr guard_Inr)
    apply (elim exE conjE)
    apply hypsubst
    apply (simp only: sum.inject)
    apply hypsubst
    apply (simp only: grant_valid_def grant.select_convs is_ok_iff list.pred_inject HOL.simp_thms)
    apply (intro conjI exI; (assumption | simp; fail)?)
    done
qed

definition proof_valid :: "delegation_crypto \<Rightarrow> action_proof \<Rightarrow> bool" where
  "proof_valid dc p \<longleftrightarrow>
     list_all ok_text [pr_action_id p, pr_agent_id p, pr_action p, pr_governance_mode p, pr_classification p]
     \<and> is_digest (pr_grant_id p) \<and> is_digest (pr_payload_sha256 p) \<and> small_object (pr_target p)
     \<and> is_number (pr_occurred_at p)
     \<and> (\<exists>public_key. fromhex (pr_agent_public_key_hex p) = Some public_key \<and> is_ok (optional_hex (pr_signature_hex p))
          \<and> length public_key = 32 \<and> pr_agent_id p = short_agent_id dc public_key)"

lemma kw_proof:
  "kw (proof_unsigned_dict p @ d) ''schema'' = JStr SCHEMA_VERSION"
  "kw (proof_unsigned_dict p @ d) ''grant_id'' = JStr (pr_grant_id p)"
  "kw (proof_unsigned_dict p @ d) ''action_id'' = JStr (pr_action_id p)"
  "kw (proof_unsigned_dict p @ d) ''agent_id'' = JStr (pr_agent_id p)"
  "kw (proof_unsigned_dict p @ d) ''agent_public_key_hex'' = JStr (pr_agent_public_key_hex p)"
  "kw (proof_unsigned_dict p @ d) ''action'' = JStr (pr_action p)"
  "kw (proof_unsigned_dict p @ d) ''target'' = JObj (pr_target p)"
  "kw (proof_unsigned_dict p @ d) ''payload_sha256'' = JStr (pr_payload_sha256 p)"
  "kw (proof_unsigned_dict p @ d) ''governance_mode'' = JStr (pr_governance_mode p)"
  "kw (proof_unsigned_dict p @ d) ''classification'' = JStr (pr_classification p)"
  "kw (proof_unsigned_dict p @ d) ''occurred_at'' = pr_occurred_at p"
  "kw (proof_unsigned_dict p @ d) ''signature_algorithm'' = JStr ED25519"
  by (simp_all add: kw_def dict_get_def proof_unsigned_dict_def)

lemma signature_of_proof_dict:
  "dict_get (proof_unsigned_dict p @ [(''signature_hex'', x)]) ''signature_hex'' (JStr []) = x"
  by (simp add: dict_get_def proof_unsigned_dict_def)

lemma kwargs_proof: "kwargs_ok PROOF_FIELDS [''signature_hex''] (proof_unsigned_dict p @ [(''signature_hex'', x)])"
  by (simp add: kwargs_ok_def PROOF_FIELDS_def proof_unsigned_dict_def)

lemma proof_init_fields:
  "proof_init dc (proof_unsigned_dict p @ [(''signature_hex'', pr_signature_hex p)]) = Inr p' \<longleftrightarrow> proof_valid dc p \<and> p' = p"
  by (auto simp: proof_init_def kwargs_proof kw_proof signature_of_proof_dict field_iffs proof_valid_def is_ok_iff)

lemma proof_init_valid:
  assumes "proof_init dc d = Inr p"
  shows "proof_valid dc p"
proof -
  from assms have k: "kwargs_ok PROOF_FIELDS [''signature_hex''] d" by (auto simp: proof_init_def split: if_splits)
  with assms show ?thesis unfolding proof_init_def
    apply (simp only: k not_True_eq_False if_False)
    apply (elim bind_resultE)
    apply (simp only: text_of_Inr digest_text_Inr normalise_Inr hex_bytes_Inr guard_Inr)
    apply (elim exE conjE)
    apply hypsubst
    apply (simp only: sum.inject)
    apply hypsubst
    apply (simp only: proof_valid_def action_proof.select_convs is_ok_iff list.pred_inject HOL.simp_thms)
    apply (intro conjI exI; (assumption | simp; fail)?)
    done
qed

subsection \<open>Codecs\<close>

lemma grant_dict_fields:
  "AList.update ''allowed_actions'' (JArr (map JStr (gr_allowed_actions g))) (AList.delete ''grant_id'' (grant_to_dict dc g))
     = grant_unsigned_dict g @ [(''signature_hex'', gr_signature_hex g)]"
  "dict_get (grant_to_dict dc g) ''allowed_actions'' (JArr []) = JArr (map JStr (gr_allowed_actions g))"
  "map_of (grant_to_dict dc g) ''grant_id'' = Some (JStr (grant_id dc g))"
  by (simp_all add: grant_to_dict_def grant_unsigned_dict_def dict_get_def)

lemma proof_dict_fields:
  "AList.delete ''proof_id'' (proof_to_dict dc p) = proof_unsigned_dict p @ [(''signature_hex'', pr_signature_hex p)]"
  "map_of (proof_to_dict dc p) ''proof_id'' = Some (JStr (proof_id dc p))"
  by (simp_all add: proof_to_dict_def proof_unsigned_dict_def)

lemma grant_roundtrip: "grant_from_dict dc (grant_to_dict dc g) = Inr g \<longleftrightarrow> grant_valid dc g"
  by (auto simp: grant_from_dict_def grant_dict_fields bind_result_Inr_iff grant_init_fields supplied_id_ok_def)

lemma proof_roundtrip: "proof_from_dict dc (proof_to_dict dc p) = Inr p \<longleftrightarrow> proof_valid dc p"
  by (auto simp: proof_from_dict_def proof_dict_fields bind_result_Inr_iff proof_init_fields supplied_id_ok_def)

text \<open>
  C23. Grants and action proofs survive their dictionaries: reading back what \<open>to_dict\<close> writes
  gives the same value exactly for the values the constructors accept; whatever the readers
  return, from any JSON object, is such a value; and a wrong \<open>grant_id\<close> or \<open>proof_id\<close> is refused.
\<close>

theorem delegation_codec:
  "(grant_from_dict dc (grant_to_dict dc g) = Inr g \<longleftrightarrow> grant_valid dc g)
   \<and> (proof_from_dict dc (proof_to_dict dc p) = Inr p \<longleftrightarrow> proof_valid dc p)
   \<and> (grant_from_dict dc d = Inr g' \<longrightarrow> grant_valid dc g' \<and> map_of d ''grant_id'' \<in> {None, Some JNull, Some (JStr (grant_id dc g'))})
   \<and> (proof_from_dict dc d = Inr p' \<longrightarrow> proof_valid dc p' \<and> map_of d ''proof_id'' \<in> {None, Some JNull, Some (JStr (proof_id dc p'))})"
proof (intro conjI impI)
  assume "grant_from_dict dc d = Inr g'"
  then show "grant_valid dc g'" "map_of d ''grant_id'' \<in> {None, Some JNull, Some (JStr (grant_id dc g'))}"
    by (auto simp: grant_from_dict_def bind_result_Inr_iff supplied_id_ok_def split: if_splits option.splits intro: grant_init_valid)
next
  assume "proof_from_dict dc d = Inr p'"
  then show "proof_valid dc p'" "map_of d ''proof_id'' \<in> {None, Some JNull, Some (JStr (proof_id dc p'))}"
    by (auto simp: proof_from_dict_def bind_result_Inr_iff supplied_id_ok_def split: if_splits option.splits intro: proof_init_valid)
qed (rule grant_roundtrip proof_roundtrip)+

subsection \<open>What an accepted action satisfies\<close>

definition in_scope :: "grant \<Rightarrow> action_proof \<Rightarrow> bool" where
  "in_scope g p \<longleftrightarrow> pr_action p \<in> set (gr_allowed_actions g) \<and> pr_governance_mode p = gr_governance_mode g
     \<and> pr_classification p = gr_classification_ceiling g
     \<and> (\<forall>k e. (k, e) \<in> set (gr_target_constraints g) \<longrightarrow> (\<exists>v. map_of (pr_target p) k = Some v \<and> py_eq v e))"

definition in_time :: "grant \<Rightarrow> action_proof \<Rightarrow> time \<Rightarrow> bool" where
  "in_time g p t \<longleftrightarrow> number_of (gr_not_before g) \<le> number_of (pr_occurred_at p)
     \<and> number_of (pr_occurred_at p) \<le> t \<and> t \<le> number_of (gr_expires_at g)"

definition not_revoked :: "delegation_crypto \<Rightarrow> grant \<Rightarrow> action_proof \<Rightarrow> bytes \<Rightarrow> verification_state \<Rightarrow> bool" where
  "not_revoked dc g p agent_key st \<longleftrightarrow> grant_id dc g \<notin> vs_revoked_grant_ids st
     \<and> canonical_agent_id dc agent_key \<notin> vs_revoked_agent_key_ids st \<union> vs_revoked_agent_ids st
     \<and> vs_minimum_revocation_epoch st \<le> number_of (gr_revocation_epoch g) \<and> pr_action_id p \<notin> vs_seen_action_ids st"

definition authentic ::
    "delegation_crypto \<Rightarrow> grant \<Rightarrow> action_proof \<Rightarrow> bytes \<Rightarrow> bytes \<Rightarrow> bytes \<Rightarrow> bytes \<Rightarrow> bool" where
  "authentic dc g p issuer_key grant_sig agent_key action_sig \<longleftrightarrow>
     fromhex (gr_issuer_public_key_hex g) = Some issuer_key \<and> fromhex (pr_agent_public_key_hex p) = Some agent_key
     \<and> (\<exists>s. gr_signature_hex g = JStr s \<and> s \<noteq> [] \<and> fromhex s = Some grant_sig)
     \<and> (\<exists>s. pr_signature_hex p = JStr s \<and> s \<noteq> [] \<and> fromhex s = Some action_sig)
     \<and> verify_signature dc (gr_signature_algorithm g) issuer_key (grant_signing_bytes g) grant_sig
     \<and> verify_signature dc ED25519 agent_key (proof_signing_bytes p) action_sig
     \<and> pr_grant_id p = grant_id dc g \<and> pr_agent_id p = gr_subject_agent_id g \<and> gr_subject_public_key_hex g = tohex agent_key"

lemma target_violation_None:
  "target_violation constraints target = None \<longleftrightarrow>
     (\<forall>k e. (k, e) \<in> set constraints \<longrightarrow> (\<exists>v. map_of target k = Some v \<and> py_eq v e))"
  by (induction constraints target rule: target_violation.induct) (auto split: option.splits)

lemma action_reason_Ok:
  "action_reason dc g p now payload trusted st = Inr Ok \<longleftrightarrow>
     (\<exists>t issuer_key grant_sig agent_key action_sig. now = Finite t
        \<and> authentic dc g p issuer_key grant_sig agent_key action_sig \<and> trusted \<in> {None, Some issuer_key}
        \<and> in_time g p t \<and> not_revoked dc g p agent_key st \<and> in_scope g p
        \<and> (\<forall>bs. payload = Some bs \<longrightarrow> pr_payload_sha256 p = payload_digest dc bs))"
    (is "?L \<longleftrightarrow> ?R")
proof
  assume ?L
  then obtain t where t: "now = Finite t" by (cases now) (auto simp: action_reason_def)
  from \<open>?L\<close> obtain ik gs ak as where h: "hex_bytes (JStr (gr_issuer_public_key_hex g)) = Inr ik" "hex_bytes (gr_signature_hex g) = Inr gs"
    "hex_bytes (JStr (pr_agent_public_key_hex p)) = Inr ak" "hex_bytes (pr_signature_hex p) = Inr as"
    by (auto simp: action_reason_def t Let_def split: sum.splits if_splits)
  from \<open>?L\<close> have "authentic dc g p ik gs ak as \<and> trusted \<in> {None, Some ik}
        \<and> in_time g p t \<and> not_revoked dc g p ak st \<and> in_scope g p
        \<and> (\<forall>bs. payload = Some bs \<longrightarrow> pr_payload_sha256 p = payload_digest dc bs)"
    using h
    by (cases payload; cases "target_violation (gr_target_constraints g) (pr_target p)")
      (auto simp: action_reason_def t authentic_def in_time_def not_revoked_def in_scope_def hex_bytes_Inr
        simp flip: target_violation_None split: if_splits)
  with t show ?R by blast
next
  assume ?R
  then obtain t ik gs ak as where r: "now = Finite t" "authentic dc g p ik gs ak as" "trusted \<in> {None, Some ik}"
    "in_time g p t" "not_revoked dc g p ak st" "in_scope g p"
    "\<forall>bs. payload = Some bs \<longrightarrow> pr_payload_sha256 p = payload_digest dc bs" by blast
  from r(2) have h: "hex_bytes (JStr (gr_issuer_public_key_hex g)) = Inr ik" "hex_bytes (gr_signature_hex g) = Inr gs"
    "hex_bytes (JStr (pr_agent_public_key_hex p)) = Inr ak" "hex_bytes (pr_signature_hex p) = Inr as"
    by (auto simp: authentic_def hex_bytes_Inr)
  from r(6) have "target_violation (gr_target_constraints g) (pr_target p) = None"
    by (simp add: target_violation_None in_scope_def)
  with r h show ?L
    by (auto simp: action_reason_def authentic_def in_time_def not_revoked_def in_scope_def split: option.splits)
qed

lemma verify_ok_iff:
  "(\<exists>v. verify_delegated_action dc g p now payload trusted st = Inr v \<and> dv_ok v)
     \<longleftrightarrow> action_reason dc g p now payload trusted st = Inr Ok"
  by (auto simp: verify_delegated_action_def map_result_Inr_iff)

text \<open>Equal signing bytes give equal fields, the nested objects up to key order.\<close>

lemma unsigned_fields_equal:
  assumes "canonical_bytes (JObj d) = canonical_bytes (JObj d')" "wf_dict d" "wf_dict d'"
  shows "map_option key_sorted (map_of d k) = map_option key_sorted (map_of d' k)"
  using assms by (intro key_sorted_members) (simp_all add: canonical_bytes_inject del: key_sorted.simps)

lemma wf_unsigned: "wf_dict (grant_unsigned_dict g)" "wf_dict (proof_unsigned_dict p)"
  by (simp_all add: wf_dict_def grant_unsigned_dict_def proof_unsigned_dict_def)

lemma number_of_sorted: "number_of (key_sorted v) = number_of v"
  by (cases v) (simp_all add: number_of_def)

definition same_grant :: "delegation_crypto \<Rightarrow> grant \<Rightarrow> grant \<Rightarrow> bool" where
  "same_grant dc g g' \<longleftrightarrow> grant_id dc g = grant_id dc g' \<and> gr_allowed_actions g = gr_allowed_actions g'
     \<and> gr_governance_mode g = gr_governance_mode g' \<and> gr_classification_ceiling g = gr_classification_ceiling g'
     \<and> gr_subject_public_key_hex g = gr_subject_public_key_hex g'
     \<and> number_of (gr_not_before g) = number_of (gr_not_before g') \<and> number_of (gr_expires_at g) = number_of (gr_expires_at g')
     \<and> number_of (gr_revocation_epoch g) = number_of (gr_revocation_epoch g')
     \<and> key_sorted (JObj (gr_target_constraints g)) = key_sorted (JObj (gr_target_constraints g'))"

lemma same_grantI:
  assumes "grant_signing_bytes g = grant_signing_bytes g'"
  shows "same_grant dc g g'"
proof -
  note eq = unsigned_fields_equal[OF assms[unfolded grant_signing_bytes_def] wf_unsigned(1) wf_unsigned(1)]
  have "grant_id dc g = grant_id dc g'" using assms by (simp add: grant_id_def digest_of_def grant_signing_bytes_def)
  moreover have "gr_allowed_actions g = gr_allowed_actions g'"
    using eq[of "''allowed_actions''"] by (simp add: grant_unsigned_dict_def comp_def inj_map_eq_map inj_def)
  moreover have "gr_governance_mode g = gr_governance_mode g'" using eq[of "''governance_mode''"] by (simp add: grant_unsigned_dict_def)
  moreover have "gr_classification_ceiling g = gr_classification_ceiling g'"
    using eq[of "''classification_ceiling''"] by (simp add: grant_unsigned_dict_def)
  moreover have "gr_subject_public_key_hex g = gr_subject_public_key_hex g'"
    using eq[of "''subject_public_key_hex''"] by (simp add: grant_unsigned_dict_def)
  moreover have "number_of (gr_not_before g) = number_of (gr_not_before g')"
    using eq[of "''not_before''"] by (simp add: grant_unsigned_dict_def) (metis number_of_sorted)
  moreover have "number_of (gr_expires_at g) = number_of (gr_expires_at g')"
    using eq[of "''expires_at''"] by (simp add: grant_unsigned_dict_def) (metis number_of_sorted)
  moreover have "number_of (gr_revocation_epoch g) = number_of (gr_revocation_epoch g')"
    using eq[of "''revocation_epoch''"] by (simp add: grant_unsigned_dict_def) (metis number_of_sorted)
  moreover have "key_sorted (JObj (gr_target_constraints g)) = key_sorted (JObj (gr_target_constraints g'))"
    using eq[of "''target_constraints''"] by (simp add: grant_unsigned_dict_def)
  ultimately show ?thesis by (simp add: same_grant_def)
qed

definition same_proof_body :: "action_proof \<Rightarrow> action_proof \<Rightarrow> bool" where
  "same_proof_body p p' \<longleftrightarrow> pr_grant_id p = pr_grant_id p' \<and> pr_action_id p = pr_action_id p' \<and> pr_action p = pr_action p'
     \<and> pr_payload_sha256 p = pr_payload_sha256 p' \<and> pr_governance_mode p = pr_governance_mode p'
     \<and> pr_classification p = pr_classification p' \<and> number_of (pr_occurred_at p) = number_of (pr_occurred_at p')
     \<and> key_sorted (JObj (pr_target p)) = key_sorted (JObj (pr_target p'))"

lemma same_proofI:
  assumes "proof_signing_bytes p = proof_signing_bytes p'"
  shows "same_proof_body p p'"
proof -
  note eq = unsigned_fields_equal[OF assms[unfolded proof_signing_bytes_def] wf_unsigned(2) wf_unsigned(2)]
  have "pr_grant_id p = pr_grant_id p'" using eq[of "''grant_id''"] by (simp add: proof_unsigned_dict_def)
  moreover have "pr_action_id p = pr_action_id p'" using eq[of "''action_id''"] by (simp add: proof_unsigned_dict_def)
  moreover have "pr_action p = pr_action p'" using eq[of "''action''"] by (simp add: proof_unsigned_dict_def)
  moreover have "pr_payload_sha256 p = pr_payload_sha256 p'" using eq[of "''payload_sha256''"] by (simp add: proof_unsigned_dict_def)
  moreover have "pr_governance_mode p = pr_governance_mode p'" using eq[of "''governance_mode''"] by (simp add: proof_unsigned_dict_def)
  moreover have "pr_classification p = pr_classification p'" using eq[of "''classification''"] by (simp add: proof_unsigned_dict_def)
  moreover have "number_of (pr_occurred_at p) = number_of (pr_occurred_at p')"
    using eq[of "''occurred_at''"] by (simp add: proof_unsigned_dict_def) (metis number_of_sorted)
  moreover have "key_sorted (JObj (pr_target p)) = key_sorted (JObj (pr_target p'))"
    using eq[of "''target''"] by (simp add: proof_unsigned_dict_def)
  ultimately show ?thesis by (simp add: same_proof_body_def)
qed

definition wf_target :: "grant \<Rightarrow> action_proof \<Rightarrow> bool" where
  "wf_target g p \<longleftrightarrow> wf_dict (gr_target_constraints g) \<and> wf_dict (pr_target p)"

lemma in_scope_same:
  assumes "same_grant dc g g'" "same_proof_body p p'" "wf_target g p" "wf_target g' p'" "in_scope g p"
  shows "in_scope g' p'"
proof -
  have con: "map_option key_sorted (map_of (gr_target_constraints g) k) = map_option key_sorted (map_of (gr_target_constraints g') k)"
    and tgt: "map_option key_sorted (map_of (pr_target p) k) = map_option key_sorted (map_of (pr_target p') k)" for k
    using assms(1-4) by (auto simp: same_grant_def same_proof_body_def wf_target_def intro!: key_sorted_members simp del: key_sorted.simps)
  have "\<exists>v'. map_of (pr_target p') k = Some v' \<and> py_eq v' e'" if "(k, e') \<in> set (gr_target_constraints g')" for k e'
  proof -
    have "map_of (gr_target_constraints g') k = Some e'" using that assms(4) by (simp add: wf_target_def wf_dict_map_of)
    with con[of k] obtain e where e: "map_of (gr_target_constraints g) k = Some e" "key_sorted e = key_sorted e'" by auto
    then have "(k, e) \<in> set (gr_target_constraints g)" using assms(3) by (simp add: wf_target_def wf_dict_map_of)
    with assms(5) obtain v where v: "map_of (pr_target p) k = Some v" "py_eq v e" by (auto simp: in_scope_def)
    with tgt[of k] obtain v' where "map_of (pr_target p') k = Some v'" "key_sorted v = key_sorted v'"
      by (cases "map_of (pr_target p') k") auto
    with v(2) e(2) py_eq_key_sorted[of v v' e e'] show ?thesis by simp
  qed
  with assms(1,2,5) show ?thesis by (simp add: in_scope_def same_grant_def same_proof_body_def)
qed

text \<open>
  C11. An accepted action was authorised and authored. If the authority's key verifies only
  the grants in \<open>issued\<close> and the agent's key only the proofs in \<open>authored\<close>, then every action
  \<open>verify_delegated_action\<close> accepts against that authority goes back to one of each: the proof
  names that very grant, its action, mode and classification are those of the grant, its target
  meets every constraint, it happened within the grant's window and before now, the payload is the
  one that was signed, and neither the grant, the agent nor its checkpoint is revoked, nor
  the action already consumed.
\<close>

theorem accepted_action_was_authorised:
  assumes "verify_delegated_action dc g p (Finite t) payload (Some authority) st = Inr v" "dv_ok v"
    and "fromhex (pr_agent_public_key_hex p) = Some agent_key"
    and "\<And>alg m s. verify_signature dc alg authority m s \<Longrightarrow> m \<in> grant_signing_bytes ` issued"
    and "\<And>m s. verify_signature dc ED25519 agent_key m s \<Longrightarrow> m \<in> proof_signing_bytes ` authored"
    and "wf_target g p" "\<And>g0 p0. g0 \<in> issued \<Longrightarrow> p0 \<in> authored \<Longrightarrow> wf_target g0 p0"
  shows "\<exists>g0\<in>issued. \<exists>p0\<in>authored. pr_grant_id p0 = grant_id dc g0 \<and> gr_subject_public_key_hex g0 = tohex agent_key
    \<and> in_scope g0 p0 \<and> in_time g0 p0 t \<and> not_revoked dc g0 p0 agent_key st
    \<and> (\<forall>bs. payload = Some bs \<longrightarrow> pr_payload_sha256 p0 = payload_digest dc bs)"
proof -
  from assms(1,2) have "action_reason dc g p (Finite t) payload (Some authority) st = Inr Ok"
    using verify_ok_iff by blast
  then obtain gs as where a: "authentic dc g p authority gs agent_key as" and ok: "in_time g p t"
    "not_revoked dc g p agent_key st" "in_scope g p" "\<forall>bs. payload = Some bs \<longrightarrow> pr_payload_sha256 p = payload_digest dc bs"
    using assms(3) by (auto simp: action_reason_Ok authentic_def)
  from a have "verify_signature dc (gr_signature_algorithm g) authority (grant_signing_bytes g) gs"
    "verify_signature dc ED25519 agent_key (proof_signing_bytes p) as" by (simp_all add: authentic_def)
  from assms(4)[OF this(1)] assms(5)[OF this(2)] obtain g0 p0 where
    g0: "g0 \<in> issued" "grant_signing_bytes g = grant_signing_bytes g0" and
    p0: "p0 \<in> authored" "proof_signing_bytes p = proof_signing_bytes p0" by blast
  note sg = same_grantI[OF g0(2), of dc] and sp = same_proofI[OF p0(2)]
  have "in_scope g0 p0" using in_scope_same[OF sg sp assms(6) assms(7)[OF g0(1) p0(1)] ok(3)] .
  with sg sp a ok g0(1) p0(1) show ?thesis
    by (intro bexI[of _ g0] bexI[of _ p0]) (auto simp: same_grant_def same_proof_body_def authentic_def in_time_def not_revoked_def)
qed

text \<open>A deployment: hashes are the first 64 hexadecimal digits of the text, signatures repeat it.\<close>

definition demo_delegation :: delegation_crypto where
  "demo_delegation = \<lparr>dc_sha256 = (\<lambda>m. take 64 (tohex m @ replicate 64 (CHR ''0''))),
     dc_ed25519 = (\<lambda>m s k. s = CHR ''s'' # m), dc_p384 = (\<lambda>_ _ _. False)\<rparr>"

definition demo_signer :: "char \<Rightarrow> signer" where
  "demo_signer c = \<lparr>sg_agent_id = short_agent_id demo_delegation (replicate 32 c), sg_public_key = replicate 32 c,
     sg_sign = (\<lambda>m. CHR ''s'' # m)\<rparr>"

subsection \<open>Issuing and verifying agree\<close>

lemma grant_unsigned_signature [simp]:
  "grant_unsigned_dict (g\<lparr>gr_signature_hex := x\<rparr>) = grant_unsigned_dict g"
  "grant_signing_bytes (g\<lparr>gr_signature_hex := x\<rparr>) = grant_signing_bytes g" "grant_id dc (g\<lparr>gr_signature_hex := x\<rparr>) = grant_id dc g"
  by (simp_all add: grant_unsigned_dict_def grant_signing_bytes_def grant_id_def)

lemma proof_unsigned_signature [simp]:
  "proof_unsigned_dict (p\<lparr>pr_signature_hex := x\<rparr>) = proof_unsigned_dict p"
  "proof_signing_bytes (p\<lparr>pr_signature_hex := x\<rparr>) = proof_signing_bytes p"
  by (simp_all add: proof_unsigned_dict_def proof_signing_bytes_def)

lemma grant_init_signed:
  "grant_init dc (grant_unsigned_dict g @ [(''signature_hex'', x)]) = Inr g'
     \<longleftrightarrow> grant_valid dc (g\<lparr>gr_signature_hex := x\<rparr>) \<and> g' = g\<lparr>gr_signature_hex := x\<rparr>"
  using grant_init_fields[of dc "g\<lparr>gr_signature_hex := x\<rparr>" g'] by simp

lemma proof_init_signed:
  "proof_init dc (proof_unsigned_dict p @ [(''signature_hex'', x)]) = Inr p'
     \<longleftrightarrow> proof_valid dc (p\<lparr>pr_signature_hex := x\<rparr>) \<and> p' = p\<lparr>pr_signature_hex := x\<rparr>"
  using proof_init_fields[of dc "p\<lparr>pr_signature_hex := x\<rparr>" p'] by simp

text \<open>A constructor call without a signature is one with the default, the empty text.\<close>

lemma init_default_signature:
  "grant_init dc (grant_unsigned_dict g) = grant_init dc (grant_unsigned_dict g @ [(''signature_hex'', JStr [])])"
  "proof_init dc (proof_unsigned_dict p) = proof_init dc (proof_unsigned_dict p @ [(''signature_hex'', JStr [])])"
proof -
  have "kw (grant_unsigned_dict g) k = kw (grant_unsigned_dict g @ [(''signature_hex'', x)]) k"
    if "k \<noteq> ''signature_hex''" for k x
    using that by (simp add: kw_def dict_get_def map_add_def split: option.splits)
  then show "grant_init dc (grant_unsigned_dict g) = grant_init dc (grant_unsigned_dict g @ [(''signature_hex'', JStr [])])"
    by (simp add: grant_init_def kwargs_grant signature_of_grant_dict)
  have "kw (proof_unsigned_dict p) k = kw (proof_unsigned_dict p @ [(''signature_hex'', x)]) k"
    if "k \<noteq> ''signature_hex''" for k x
    using that by (simp add: kw_def dict_get_def map_add_def split: option.splits)
  moreover have "dict_get (proof_unsigned_dict p) ''signature_hex'' (JStr []) = JStr []" "kwargs_ok PROOF_FIELDS [''signature_hex''] (proof_unsigned_dict p)"
    by (simp_all add: dict_get_def proof_unsigned_dict_def kwargs_ok_def PROOF_FIELDS_def)
  ultimately show "proof_init dc (proof_unsigned_dict p) = proof_init dc (proof_unsigned_dict p @ [(''signature_hex'', JStr [])])"
    by (simp add: proof_init_def kwargs_proof signature_of_proof_dict)
qed

lemma issued_grant:
  assumes "issue_delegation_grant dc sg who key actions constraints mode cls ia nb ea epoch nonce = Inr g"
  obtains alg where "signer_algorithm (sg_public_key sg) = Inr alg" "gr_signature_algorithm g = alg"
    "gr_issuer_public_key_hex g = tohex (sg_public_key sg)" "gr_subject_agent_id g = short_agent_id dc key"
    "gr_subject_public_key_hex g = tohex key" "gr_allowed_actions g = actions"
    "gr_target_constraints g = members (key_sorted (JObj constraints))" "gr_governance_mode g = mode"
    "gr_classification_ceiling g = cls" "gr_not_before g = nb" "gr_expires_at g = ea" "gr_revocation_epoch g = epoch"
    "gr_signature_hex g = JStr (tohex (sg_sign sg (grant_signing_bytes g)))"
proof -
  from assms obtain alg where alg: "signer_algorithm (sg_public_key sg) = Inr alg" and small: "small_object constraints"
    by (auto simp: issue_delegation_grant_def field_iffs split: if_splits)
  define G where "G = \<lparr>gr_issuer_principal = who, gr_issuer_key_fingerprint = public_key_fingerprint dc (sg_public_key sg),
     gr_subject_agent_id = short_agent_id dc key, gr_subject_public_key_hex = tohex key, gr_allowed_actions = actions,
     gr_target_constraints = members (key_sorted (JObj constraints)), gr_governance_mode = mode,
     gr_classification_ceiling = cls, gr_issued_at = ia, gr_not_before = nb, gr_expires_at = ea, gr_revocation_epoch = epoch,
     gr_nonce = nonce, gr_signature_algorithm = alg, gr_issuer_public_key_hex = tohex (sg_public_key sg),
     gr_signature_hex = JStr []\<rparr>"
  have "bind_result (grant_init dc (grant_unsigned_dict G)) (\<lambda>g.
      grant_init dc (grant_unsigned_dict g @ [(''signature_hex'', JStr (tohex (sg_sign sg (grant_signing_bytes g))))])) = Inr g"
    using assms alg small by (simp add: issue_delegation_grant_def G_def grant_unsigned_dict_def Let_def)
  then have "g = G\<lparr>gr_signature_hex := JStr (tohex (sg_sign sg (grant_signing_bytes G)))\<rparr>"
    by (auto simp: bind_result_Inr_iff init_default_signature(1) grant_init_signed)
  moreover from this have "grant_signing_bytes g = grant_signing_bytes G" by simp
  ultimately show thesis using that[OF alg] by (simp add: G_def)
qed

lemma signed_action:
  assumes "sign_delegated_action dc g sg aid action target payload mode cls occurred = Inr p"
  shows "pr_grant_id p = grant_id dc g" "pr_action_id p = aid" "pr_agent_id p = sg_agent_id sg"
    "pr_agent_public_key_hex p = tohex (sg_public_key sg)" "pr_action p = action"
    "pr_target p = members (key_sorted (JObj target))" "pr_payload_sha256 p = payload_digest dc payload"
    "pr_governance_mode p = mode" "pr_classification p = cls" "pr_occurred_at p = occurred"
    "pr_signature_hex p = JStr (tohex (sg_sign sg (proof_signing_bytes p)))"
proof -
  from assms have small: "small_object target"
    by (auto simp: sign_delegated_action_def field_iffs split: if_splits)
  define Q where "Q = \<lparr>pr_grant_id = grant_id dc g, pr_action_id = aid, pr_agent_id = sg_agent_id sg,
    pr_agent_public_key_hex = tohex (sg_public_key sg), pr_action = action, pr_target = members (key_sorted (JObj target)),
    pr_payload_sha256 = payload_digest dc payload, pr_governance_mode = mode, pr_classification = cls,
    pr_occurred_at = occurred, pr_signature_hex = JStr []\<rparr>"
  have "bind_result (proof_init dc (proof_unsigned_dict Q)) (\<lambda>p.
      proof_init dc (proof_unsigned_dict p @ [(''signature_hex'', JStr (tohex (sg_sign sg (proof_signing_bytes p))))])) = Inr p"
    using assms small by (simp add: sign_delegated_action_def Q_def proof_unsigned_dict_def Let_def)
  then have "p = Q\<lparr>pr_signature_hex := JStr (tohex (sg_sign sg (proof_signing_bytes Q)))\<rparr>"
    by (auto simp: bind_result_Inr_iff init_default_signature(2) proof_init_signed)
  moreover from this have "proof_signing_bytes p = proof_signing_bytes Q" by simp
  ultimately show "pr_grant_id p = grant_id dc g" "pr_action_id p = aid" "pr_agent_id p = sg_agent_id sg"
    "pr_agent_public_key_hex p = tohex (sg_public_key sg)" "pr_action p = action"
    "pr_target p = members (key_sorted (JObj target))" "pr_payload_sha256 p = payload_digest dc payload"
    "pr_governance_mode p = mode" "pr_classification p = cls" "pr_occurred_at p = occurred"
    "pr_signature_hex p = JStr (tohex (sg_sign sg (proof_signing_bytes p)))"
    by (simp_all add: Q_def)
qed

lemma members_sorted: "wf_dict kvs \<Longrightarrow> map_of (members (key_sorted (JObj kvs))) k = map_option key_sorted (map_of kvs k)"
  by (simp add: map_of_sorted_dict)

lemma sorted_scope:
  assumes "wf_dict constraints" "wf_dict target" "target_violation constraints target = None"
  shows "target_violation (members (key_sorted (JObj constraints))) (members (key_sorted (JObj target))) = None"
  unfolding target_violation_None
proof (intro allI impI)
  fix k e'
  assume "(k, e') \<in> set (members (key_sorted (JObj constraints)))"
  then obtain e where e: "(k, e) \<in> set constraints" "e' = key_sorted e" by auto
  with assms(3) obtain v where v: "map_of target k = Some v" "py_eq v e" by (auto simp: target_violation_None)
  with py_eq_key_sorted[of "key_sorted v" v "key_sorted e" e] e(2) members_sorted[OF assms(2), of k]
  show "\<exists>v. map_of (members (key_sorted (JObj target))) k = Some v \<and> py_eq v e'" by simp
qed

text \<open>
  C12. Issue, sign, verify: a grant issued by an authority and an action proof signed under it by
  the delegated key are accepted, when the action is listed, the target meets the constraints, mode
  and classification agree, the times lie in the window and nothing is revoked or consumed. It is
  enough that each signature check accepts what its key signs. The historical check accepts
  them too, at any later time and whatever is revoked since.
\<close>

theorem issued_action_verifies:
  assumes "issue_delegation_grant dc isg who (sg_public_key asg) actions constraints mode cls ia nb ea epoch nonce = Inr g"
    and "sign_delegated_action dc g asg aid action target payload mode cls occurred = Inr p"
    and "\<And>alg m. signer_algorithm (sg_public_key isg) = Inr alg \<Longrightarrow> verify_signature dc alg (sg_public_key isg) m (sg_sign isg m)"
    and "\<And>m. verify_signature dc ED25519 (sg_public_key asg) m (sg_sign asg m)"
    and "\<And>m. sg_sign isg m \<noteq> []" "\<And>m. sg_sign asg m \<noteq> []" "sg_agent_id asg = short_agent_id dc (sg_public_key asg)"
    and "action \<in> set actions" "wf_dict constraints" "wf_dict target" "target_violation constraints target = None"
    and "number_of nb \<le> number_of occurred" "number_of occurred \<le> t" "t \<le> number_of ea"
    and "not_revoked dc g p (sg_public_key asg) st"
  shows "(\<exists>v. verify_delegated_action dc g p (Finite t) (Some payload) (Some (sg_public_key isg)) st = Inr v \<and> dv_ok v)
    \<and> (\<exists>v. verify_historical_delegated_action dc g p (Some payload) (Some (sg_public_key isg)) = Inr v \<and> dv_ok v)"
proof -
  from assms(1) obtain alg where alg: "signer_algorithm (sg_public_key isg) = Inr alg" and
    g: "gr_signature_algorithm g = alg" "gr_issuer_public_key_hex g = tohex (sg_public_key isg)"
    "gr_subject_agent_id g = short_agent_id dc (sg_public_key asg)" "gr_subject_public_key_hex g = tohex (sg_public_key asg)"
    "gr_allowed_actions g = actions" "gr_target_constraints g = members (key_sorted (JObj constraints))"
    "gr_governance_mode g = mode" "gr_classification_ceiling g = cls" "gr_not_before g = nb" "gr_expires_at g = ea"
    "gr_revocation_epoch g = epoch" "gr_signature_hex g = JStr (tohex (sg_sign isg (grant_signing_bytes g)))"
    by (rule issued_grant)
  note p = signed_action[OF assms(2)]
  let ?gs = "sg_sign isg (grant_signing_bytes g)" and ?as = "sg_sign asg (proof_signing_bytes p)"
  have a: "authentic dc g p (sg_public_key isg) ?gs (sg_public_key asg) ?as"
    using assms(3)[OF alg] assms(4-7) g p by (simp add: authentic_def)
  have scope: "in_scope g p"
    using assms(8) sorted_scope[OF assms(9-11)] g p by (simp add: in_scope_def target_violation_None)
  have time: "in_time g p t" "in_time g p (number_of (pr_occurred_at p))"
    using assms(12-14) g p by (simp_all add: in_time_def)
  have "0 \<le> number_of (gr_revocation_epoch g)"
    using grant_init_valid assms(1) by (auto simp: issue_delegation_grant_def bind_result_Inr_iff Let_def grant_valid_def)
  then have "not_revoked dc g p (sg_public_key asg) fresh_state" by (simp add: not_revoked_def fresh_state_def)
  with a scope time assms(15) p(7) show ?thesis
    unfolding verify_historical_delegated_action_def verify_ok_iff action_reason_Ok by blast
qed

text \<open>An authority, an agent, a grant for one action on one window, and an action under it.\<close>

definition demo_issue :: "delegation_error + grant" where
  "demo_issue = issue_delegation_grant demo_delegation (demo_signer CHR ''i'') ''owner'' (replicate 32 (CHR ''a''))
     [''act''] [(''w'', JInt 1)] ''m'' ''CUI'' (JInt 0) (JInt 1) (JInt 9) (JInt 0) ''n''"

definition demo_sign_with :: "grant \<Rightarrow> bytes \<Rightarrow> delegation_error + action_proof" where
  "demo_sign_with g payload = sign_delegated_action demo_delegation g (demo_signer CHR ''a'') ''id'' ''act''
     [(''w'', JInt 1), (''x'', JNull)] payload ''m'' ''CUI'' (JInt 5)"

abbreviation demo_sign :: "grant \<Rightarrow> delegation_error + action_proof" where
  "demo_sign g \<equiv> demo_sign_with g ''data''"

lemma demo_digest: "is_digest (dc_sha256 demo_delegation m)"
proof -
  have "c \<in> set hex_digits" if "c \<in> set (tohex m)" for c
  proof -
    have "hex_digit n \<in> set hex_digits" for n using nth_mem[of "n mod 16" hex_digits] by (simp add: hex_digit_def hex_digits_def)
    with that show ?thesis by (auto simp: tohex_def)
  qed
  moreover have "CHR ''0'' \<in> set hex_digits" by (simp add: hex_digits_def)
  ultimately show ?thesis
    by (auto simp: is_digest_def all_hex_def demo_delegation_def list_all_iff dest!: in_set_takeD)
qed

lemma ok_short_id: "is_digest (dc_sha256 dc k) \<Longrightarrow> ok_text (short_agent_id dc k)"
proof -
  assume d: "is_digest (dc_sha256 dc k)"
  have one: "\<forall>c\<in>set hex_digits. length (upper_char c) = 1 \<and> (\<forall>d\<in>set (upper_char c). 32 \<le> char_code d)"
    by (simp add: hex_digits_def upper_char_def char_code_def)
  have *: "list_all (\<lambda>c. c \<in> set hex_digits) s \<Longrightarrow> length (upper s) = length s \<and> \<not> has_control (upper s)" for s
    using one by (induction s) (auto simp: upper_def has_control_def list_ex_iff not_less)
  have "list_all (\<lambda>c. c \<in> set hex_digits) (take 8 (dc_sha256 dc k))"
    using d by (auto simp: is_digest_def all_hex_def list_all_iff dest: in_set_takeD)
  from *[OF this] show ?thesis
    by (auto simp: ok_text_def short_agent_id_def public_key_fingerprint_def has_control_def char_code_def)
qed

lemma demo_texts: "ok_text ''owner''" "ok_text ''m''" "ok_text ''CUI''" "ok_text ''n''" "ok_text ''act''" "ok_text ''id''"
  by (simp_all add: ok_text_def has_control_def char_code_def)

lemma demo_objects: "small_object [(''w'', JInt 1)]" "small_object [(''w'', JInt 1), (''x'', JNull)]"
  by (simp_all add: small_object_def canonical_bytes_def dumps_def member_text_def quoted_def escape_char_def
      char_code_def show_int_def show_nat.simps utf8_def utf8_char_def digit_def)

lemma small_sorted: "small_object (members (key_sorted (JObj kvs))) = small_object kvs"
proof -
  have "JObj (members (key_sorted (JObj kvs))) = key_sorted (JObj kvs)" by simp
  then show ?thesis unfolding small_object_def by (simp only: canonical_bytes_sorted)
qed

lemma demo_issues:
  assumes "ok_actions actions" "small_object constraints"
  shows "\<exists>g. issue_delegation_grant demo_delegation (demo_signer CHR ''i'') ''owner'' (replicate 32 (CHR ''a''))
     actions constraints ''m'' ''CUI'' (JInt 0) (JInt 1) (JInt 9) (JInt 0) ''n'' = Inr g" (is "\<exists>g. ?issue = Inr g")
proof -
  let ?key = "replicate 32 (CHR ''i'')" and ?sub = "replicate 32 (CHR ''a'')"
  let ?g = "\<lambda>s. \<lparr>gr_issuer_principal = ''owner'', gr_issuer_key_fingerprint = public_key_fingerprint demo_delegation ?key,
     gr_subject_agent_id = short_agent_id demo_delegation ?sub, gr_subject_public_key_hex = tohex ?sub,
     gr_allowed_actions = actions, gr_target_constraints = members (key_sorted (JObj constraints)),
     gr_governance_mode = ''m'', gr_classification_ceiling = ''CUI'', gr_issued_at = JInt 0, gr_not_before = JInt 1,
     gr_expires_at = JInt 9, gr_revocation_epoch = JInt 0, gr_nonce = ''n'', gr_signature_algorithm = ED25519,
     gr_issuer_public_key_hex = tohex ?key, gr_signature_hex = s\<rparr>"
  have valid: "grant_valid demo_delegation (?g (JStr (tohex s)))" for s
    using ok_short_id[OF demo_digest, of ?sub] demo_texts assms
    by (simp add: grant_valid_def small_sorted number_of_def is_ok_iff del: key_sorted.simps)
  have "grant_init demo_delegation (grant_unsigned_dict (?g (JStr []))) = Inr (?g (JStr []))"
    using valid[of "[]"] by (simp add: init_default_signature grant_init_signed tohex_def del: key_sorted.simps)
  moreover have "?issue = bind_result (grant_init demo_delegation (grant_unsigned_dict (?g (JStr [])))) (\<lambda>g.
      grant_init demo_delegation (grant_unsigned_dict g @ [(''signature_hex'', JStr (tohex (CHR ''s'' # grant_signing_bytes g)))]))"
    using assms(2)
    by (simp add: issue_delegation_grant_def demo_signer_def signer_algorithm_def grant_unsigned_dict_def Let_def
        del: key_sorted.simps)
  moreover have "grant_init demo_delegation (grant_unsigned_dict (?g (JStr [])) @ [(''signature_hex'', JStr (tohex s))])
      = Inr (?g (JStr (tohex s)))" for s
    using valid[of s] by (simp add: grant_init_signed del: key_sorted.simps)
  ultimately have "?issue = Inr (?g (JStr (tohex (CHR ''s'' # grant_signing_bytes (?g (JStr []))))))"
    by (simp only: bind_result_simps)
  then show ?thesis by blast
qed

lemma demo_issued: "\<exists>g. demo_issue = Inr g"
  unfolding demo_issue_def using demo_texts demo_objects(1) by (intro demo_issues) (simp_all add: ok_actions_def)

lemma demo_action_signs:
  assumes "ok_text action" "small_object target"
  shows "\<exists>p. sign_delegated_action demo_delegation g (demo_signer CHR ''a'') ''id'' action target payload ''m'' ''CUI'' (JInt 5) = Inr p"
    (is "\<exists>p. ?sign = Inr p")
proof -
  let ?key = "replicate 32 (CHR ''a'')"
  let ?p = "\<lambda>s. \<lparr>pr_grant_id = grant_id demo_delegation g, pr_action_id = ''id'',
     pr_agent_id = short_agent_id demo_delegation ?key, pr_agent_public_key_hex = tohex ?key, pr_action = action,
     pr_target = members (key_sorted (JObj target)), pr_payload_sha256 = payload_digest demo_delegation payload,
     pr_governance_mode = ''m'', pr_classification = ''CUI'', pr_occurred_at = JInt 5, pr_signature_hex = s\<rparr>"
  have valid: "proof_valid demo_delegation (?p (JStr (tohex s)))" for s
    using ok_short_id[OF demo_digest, of ?key] demo_texts assms demo_digest
    by (simp add: proof_valid_def small_sorted is_ok_iff grant_id_def digest_of_def payload_digest_def del: key_sorted.simps)
  have "proof_init demo_delegation (proof_unsigned_dict (?p (JStr []))) = Inr (?p (JStr []))"
    using valid[of "[]"] by (simp add: init_default_signature proof_init_signed tohex_def del: key_sorted.simps)
  moreover have "?sign = bind_result (proof_init demo_delegation (proof_unsigned_dict (?p (JStr [])))) (\<lambda>p.
      proof_init demo_delegation (proof_unsigned_dict p @ [(''signature_hex'', JStr (tohex (CHR ''s'' # proof_signing_bytes p)))]))"
    using assms(2)
    by (simp add: sign_delegated_action_def demo_signer_def proof_unsigned_dict_def Let_def del: key_sorted.simps)
  moreover have "proof_init demo_delegation (proof_unsigned_dict (?p (JStr [])) @ [(''signature_hex'', JStr (tohex s))])
      = Inr (?p (JStr (tohex s)))" for s
    using valid[of s] by (simp add: proof_init_signed del: key_sorted.simps)
  ultimately have "?sign = Inr (?p (JStr (tohex (CHR ''s'' # proof_signing_bytes (?p (JStr []))))))"
    by (simp only: bind_result_simps)
  then show ?thesis by blast
qed

lemma demo_signed: "\<exists>p. demo_sign_with g payload = Inr p"
  unfolding demo_sign_with_def by (intro demo_action_signs demo_texts demo_objects)

theorem issued_action_verifies_witness:
  "\<exists>g p v. demo_issue = Inr g \<and> demo_sign g = Inr p
     \<and> verify_delegated_action demo_delegation g p (Finite 7) (Some ''data'') (Some (replicate 32 (CHR ''i''))) fresh_state = Inr v \<and> dv_ok v"
proof -
  obtain g where g: "demo_issue = Inr g" using demo_issued by blast
  obtain p where p: "demo_sign g = Inr p" using demo_signed by blast
  have alg: "signer_algorithm (sg_public_key (demo_signer c)) = Inr ED25519" for c by (simp add: demo_signer_def signer_algorithm_def)
  have sig: "verify_signature demo_delegation ED25519 k m (sg_sign (demo_signer c) m)" for k m c
    by (simp add: verify_signature_def demo_delegation_def demo_signer_def)
  have ids: "sg_agent_id (demo_signer c) = short_agent_id demo_delegation (sg_public_key (demo_signer c))"
    "sg_sign (demo_signer c) m \<noteq> []" "replicate 32 c = sg_public_key (demo_signer c)" for c m by (simp_all add: demo_signer_def)
  have gi: "issue_delegation_grant demo_delegation (demo_signer CHR ''i'') ''owner'' (sg_public_key (demo_signer CHR ''a''))
     [''act''] [(''w'', JInt 1)] ''m'' ''CUI'' (JInt 0) (JInt 1) (JInt 9) (JInt 0) ''n'' = Inr g"
    using g by (simp add: demo_issue_def demo_signer_def)
  have "gr_revocation_epoch g = JInt 0" using gi by (rule issued_grant)
  then have "not_revoked demo_delegation g p (sg_public_key (demo_signer CHR ''a'')) fresh_state"
    by (simp add: not_revoked_def fresh_state_def number_of_def)
  with issued_action_verifies[OF gi p[unfolded demo_sign_with_def], of 7 fresh_state] alg sig ids
  have "\<exists>v. verify_delegated_action demo_delegation g p (Finite 7) (Some ''data'') (Some (sg_public_key (demo_signer CHR ''i''))) fresh_state
      = Inr v \<and> dv_ok v" by (simp add: wf_dict_def number_of_def)
  with g p ids(3) show ?thesis by metis
qed

theorem delegation_codec_witness:
  "\<exists>g. demo_issue = Inr g \<and> grant_from_dict demo_delegation (grant_to_dict demo_delegation g) = Inr g"
proof -
  obtain g where g: "demo_issue = Inr g" using demo_issued by blast
  then have "grant_valid demo_delegation g"
    by (auto simp: demo_issue_def issue_delegation_grant_def bind_result_Inr_iff Let_def intro: grant_init_valid)
  with g delegation_codec show ?thesis by blast
qed

text \<open>The same deployment where each key has signed exactly one text.\<close>

definition demo_once :: "grant \<Rightarrow> action_proof \<Rightarrow> delegation_crypto" where
  "demo_once g p = demo_delegation\<lparr>dc_ed25519 := (\<lambda>m s k. s = CHR ''s'' # m
     \<and> (k = replicate 32 (CHR ''i'') \<and> m = grant_signing_bytes g \<or> k = replicate 32 (CHR ''a'') \<and> m = proof_signing_bytes p))\<rparr>"

theorem accepted_action_was_authorised_witness:
  "\<exists>g p v. demo_issue = Inr g \<and> demo_sign g = Inr p
     \<and> verify_delegated_action (demo_once g p) g p (Finite 7) None (Some (replicate 32 (CHR ''i''))) fresh_state = Inr v
     \<and> dv_ok v \<and> in_scope g p \<and> in_time g p 7"
proof -
  obtain g where g: "demo_issue = Inr g" using demo_issued by blast
  obtain p where p: "demo_sign g = Inr p" using demo_signed by blast
  let ?dc = "demo_once g p" and ?i = "replicate 32 (CHR ''i'')" and ?a = "replicate 32 (CHR ''a'')"
  obtain alg where alg: "signer_algorithm (sg_public_key (demo_signer CHR ''i'')) = Inr alg" and
    gf: "gr_signature_algorithm g = alg" "gr_issuer_public_key_hex g = tohex (sg_public_key (demo_signer CHR ''i''))"
    "gr_subject_agent_id g = short_agent_id demo_delegation ?a" "gr_subject_public_key_hex g = tohex ?a"
    "gr_allowed_actions g = [''act'']" "gr_target_constraints g = members (key_sorted (JObj [(''w'', JInt 1)]))"
    "gr_governance_mode g = ''m''" "gr_classification_ceiling g = ''CUI''" "gr_not_before g = JInt 1" "gr_expires_at g = JInt 9"
    "gr_revocation_epoch g = JInt 0"
    "gr_signature_hex g = JStr (tohex (sg_sign (demo_signer CHR ''i'') (grant_signing_bytes g)))"
    using g[unfolded demo_issue_def] by (rule issued_grant)
  note pf = signed_action[OF p[unfolded demo_sign_with_def]]
  have ed: "verify_signature ?dc b k m s \<Longrightarrow> b = ED25519 \<and> s = CHR ''s'' # m
      \<and> (k = ?i \<and> m = grant_signing_bytes g \<or> k = ?a \<and> m = proof_signing_bytes p)" for b k m s
    by (simp add: verify_signature_def demo_once_def demo_delegation_def split: if_splits)
  have auth: "authentic ?dc g p ?i (CHR ''s'' # grant_signing_bytes g) ?a (CHR ''s'' # proof_signing_bytes p)"
    using alg gf pf
    by (simp add: authentic_def demo_signer_def signer_algorithm_def verify_signature_def demo_once_def demo_delegation_def
        grant_id_def digest_of_def)
  have scope: "in_scope g p" "in_time g p 7" "wf_target g p" using gf pf
    by (simp_all add: in_scope_def in_time_def number_of_def wf_target_def wf_dict_def)
  have "not_revoked ?dc g p ?a fresh_state" using gf by (simp add: not_revoked_def fresh_state_def number_of_def)
  with auth scope have "action_reason ?dc g p (Finite 7) None (Some ?i) fresh_state = Inr Ok"
    unfolding action_reason_Ok by blast
  then obtain v where v: "verify_delegated_action ?dc g p (Finite 7) None (Some ?i) fresh_state = Inr v" "dv_ok v"
    using verify_ok_iff by blast
  have "fromhex (pr_agent_public_key_hex p) = Some ?a" using auth by (simp add: authentic_def)
  from accepted_action_was_authorised[OF v this, of "{g}" "{p}"] ed scope(3)
  have "in_scope g p \<and> in_time g p 7" by (fastforce simp: replicate_eq_replicate)
  with g p v show ?thesis by blast
qed

end
