(* ===== verification/ReceiptSpec.thy ===== *)
theory ReceiptSpec
  imports DelegationSpec
begin

text \<open>
  The properties of delegated-action receipts: a signed receipt is accepted for exactly the
  execution it was signed for.
\<close>

definition receipt_valid :: "delegation_crypto \<Rightarrow> receipt \<Rightarrow> bool" where
  "receipt_valid dc r \<longleftrightarrow>
     list_all ok_text [rc_receipt_id r, rc_action_id r, rc_delegated_agent_id r, rc_agent_id r, rc_action r, rc_result_status r]
     \<and> list_all is_digest [rc_grant_id r, rc_proof_id r, rc_target_sha256 r, rc_result_sha256 r, rc_ledger_head r]
     \<and> is_number (rc_issued_at r)
     \<and> (\<exists>public_key. fromhex (rc_agent_public_key_hex r) = Some public_key \<and> is_ok (optional_hex (rc_signature_hex r))
          \<and> length public_key = 32 \<and> rc_agent_id r = short_agent_id dc public_key)"

lemma kw_receipt:
  "kw (receipt_unsigned_dict r @ d) ''schema'' = JStr RECEIPT_SCHEMA_VERSION"
  "kw (receipt_unsigned_dict r @ d) ''receipt_id'' = JStr (rc_receipt_id r)"
  "kw (receipt_unsigned_dict r @ d) ''grant_id'' = JStr (rc_grant_id r)"
  "kw (receipt_unsigned_dict r @ d) ''proof_id'' = JStr (rc_proof_id r)"
  "kw (receipt_unsigned_dict r @ d) ''action_id'' = JStr (rc_action_id r)"
  "kw (receipt_unsigned_dict r @ d) ''delegated_agent_id'' = JStr (rc_delegated_agent_id r)"
  "kw (receipt_unsigned_dict r @ d) ''agent_id'' = JStr (rc_agent_id r)"
  "kw (receipt_unsigned_dict r @ d) ''agent_public_key_hex'' = JStr (rc_agent_public_key_hex r)"
  "kw (receipt_unsigned_dict r @ d) ''action'' = JStr (rc_action r)"
  "kw (receipt_unsigned_dict r @ d) ''target_sha256'' = JStr (rc_target_sha256 r)"
  "kw (receipt_unsigned_dict r @ d) ''result_sha256'' = JStr (rc_result_sha256 r)"
  "kw (receipt_unsigned_dict r @ d) ''result_status'' = JStr (rc_result_status r)"
  "kw (receipt_unsigned_dict r @ d) ''ledger_head'' = JStr (rc_ledger_head r)"
  "kw (receipt_unsigned_dict r @ d) ''issued_at'' = rc_issued_at r"
  "kw (receipt_unsigned_dict r @ d) ''signature_algorithm'' = JStr ED25519"
  by (simp_all add: kw_def dict_get_def receipt_unsigned_dict_def)

lemma receipt_dict_signature:
  "dict_get (receipt_unsigned_dict r @ [(''signature_hex'', x)]) ''signature_hex'' (JStr []) = x"
  "dict_get (receipt_unsigned_dict r) ''signature_hex'' (JStr []) = JStr []"
  "kwargs_ok RECEIPT_FIELDS [''signature_hex''] (receipt_unsigned_dict r @ [(''signature_hex'', x)])"
  "kwargs_ok RECEIPT_FIELDS [''signature_hex''] (receipt_unsigned_dict r)"
  by (simp_all add: dict_get_def receipt_unsigned_dict_def kwargs_ok_def RECEIPT_FIELDS_def)

lemma receipt_init_fields:
  "receipt_init dc (receipt_unsigned_dict r @ [(''signature_hex'', rc_signature_hex r)]) = Inr r' \<longleftrightarrow> receipt_valid dc r \<and> r' = r"
  by (auto simp: receipt_init_def receipt_dict_signature kw_receipt field_iffs receipt_valid_def is_ok_iff)

lemma receipt_unsigned_signature [simp]:
  "receipt_unsigned_dict (r\<lparr>rc_signature_hex := x\<rparr>) = receipt_unsigned_dict r"
  "receipt_signing_bytes (r\<lparr>rc_signature_hex := x\<rparr>) = receipt_signing_bytes r"
  by (simp_all add: receipt_unsigned_dict_def receipt_signing_bytes_def)

lemma receipt_init_signed:
  "receipt_init dc (receipt_unsigned_dict r @ [(''signature_hex'', x)]) = Inr r'
     \<longleftrightarrow> receipt_valid dc (r\<lparr>rc_signature_hex := x\<rparr>) \<and> r' = r\<lparr>rc_signature_hex := x\<rparr>"
  using receipt_init_fields[of dc "r\<lparr>rc_signature_hex := x\<rparr>" r'] by simp

lemma receipt_default_signature:
  "receipt_init dc (receipt_unsigned_dict r) = receipt_init dc (receipt_unsigned_dict r @ [(''signature_hex'', JStr [])])"
proof -
  have "kw (receipt_unsigned_dict r) k = kw (receipt_unsigned_dict r @ [(''signature_hex'', x)]) k"
    if "k \<noteq> ''signature_hex''" for k x
    using that by (simp add: kw_def dict_get_def map_add_def split: option.splits)
  then show ?thesis by (simp add: receipt_init_def receipt_dict_signature)
qed

text \<open>The receipt that \<open>sign_delegated_receipt\<close> builds, before its signature.\<close>

definition receipt_body ::
    "delegation_crypto \<Rightarrow> grant \<Rightarrow> action_proof \<Rightarrow> signer \<Rightarrow> json_object \<Rightarrow> pystr \<Rightarrow> pystr \<Rightarrow> json \<Rightarrow> receipt" where
  "receipt_body dc g p sg result status head issued_at =
     (let target = digest_of dc (members (key_sorted (JObj (pr_target p)))); res = digest_of dc result in
      \<lparr>rc_receipt_id = receipt_digest dc (grant_id dc g) (proof_id dc p) (pr_action_id p) target res head,
       rc_grant_id = grant_id dc g, rc_proof_id = proof_id dc p, rc_action_id = pr_action_id p,
       rc_delegated_agent_id = pr_agent_id p, rc_agent_id = sg_agent_id sg,
       rc_agent_public_key_hex = tohex (sg_public_key sg), rc_action = pr_action p, rc_target_sha256 = target,
       rc_result_sha256 = res, rc_result_status = status, rc_ledger_head = head, rc_issued_at = issued_at,
       rc_signature_hex = JStr []\<rparr>)"

lemma receipt_body_unsigned [simp]:
  "(receipt_body dc g p sg result status head issued_at)\<lparr>rc_signature_hex := JStr []\<rparr>
     = receipt_body dc g p sg result status head issued_at"
  by (simp add: receipt_body_def Let_def)

lemma signed_receipt:
  "sign_delegated_receipt dc g p sg result status head issued_at = Inr r \<longleftrightarrow>
     small_object (pr_target p)
     \<and> receipt_valid dc (receipt_body dc g p sg result status head issued_at)
     \<and> (let body = receipt_body dc g p sg result status head issued_at in
        r = body\<lparr>rc_signature_hex := JStr (tohex (sg_sign sg (receipt_signing_bytes body)))\<rparr> \<and> receipt_valid dc r)"
    (is "?L \<longleftrightarrow> ?R")
proof (cases "small_object (pr_target p)")
  case True
  let ?b = "receipt_body dc g p sg result status head issued_at"
  have "sign_delegated_receipt dc g p sg result status head issued_at
      = bind_result (receipt_init dc (receipt_unsigned_dict ?b)) (\<lambda>r.
          receipt_init dc (receipt_unsigned_dict r @ [(''signature_hex'', JStr (tohex (sg_sign sg (receipt_signing_bytes r))))]))"
    using True by (simp add: sign_delegated_receipt_def receipt_body_def receipt_unsigned_dict_def Let_def del: key_sorted.simps)
  then show ?thesis
    using True by (auto simp: bind_result_Inr_iff receipt_default_signature receipt_init_signed Let_def)
qed (simp add: sign_delegated_receipt_def)

text \<open>
  C13. A receipt testifies to exactly one execution: when it was signed by the executor for a
  grant, a proof, a result, a status and a ledger head, \<open>verify_delegated_receipt\<close> accepts it for an
  expectation if and only if the expectation names that executor, grant, proof, action, agent and
  status, a target and (where given) a result with the same digest, and (where given) that
  ledger head. It is enough that the check accepts what the executor's key signs.
\<close>

theorem receipt_testifies_exactly:
  assumes "sign_delegated_receipt dc g p sg result status head issued_at = Inr r"
    and "\<And>m. verify_signature dc ED25519 (sg_public_key sg) m (sg_sign sg m)" "\<And>m. sg_sign sg m \<noteq> []"
    and "sg_agent_id sg = short_agent_id dc (sg_public_key sg)" "small_object (ex_target ex)"
  shows "(\<exists>v. verify_delegated_receipt dc r ex = Inr v \<and> dv_ok v) \<longleftrightarrow>
    ex_executor_public_key ex = sg_public_key sg \<and> ex_grant_id ex = grant_id dc g \<and> ex_proof_id ex = proof_id dc p
    \<and> ex_action_id ex = pr_action_id p \<and> ex_action ex = pr_action p \<and> ex_delegated_agent_id ex = pr_agent_id p
    \<and> ex_result_status ex = status
    \<and> digest_of dc (members (key_sorted (JObj (ex_target ex)))) = digest_of dc (members (key_sorted (JObj (pr_target p))))
    \<and> (\<forall>v. ex_result ex = Some v \<longrightarrow> digest_of dc v = digest_of dc result)
    \<and> (\<forall>h. ex_ledger_head ex = Some h \<longrightarrow> h = head)"
proof -
  let ?b = "receipt_body dc g p sg result status head issued_at"
  from assms(1) have r: "r = ?b\<lparr>rc_signature_hex := JStr (tohex (sg_sign sg (receipt_signing_bytes ?b)))\<rparr>"
    by (simp add: signed_receipt Let_def)
  have sb: "receipt_signing_bytes ?b = receipt_signing_bytes r" by (simp add: r)
  have f: "rc_receipt_id r = receipt_digest dc (grant_id dc g) (proof_id dc p) (pr_action_id p)
        (digest_of dc (members (key_sorted (JObj (pr_target p))))) (digest_of dc result) head"
    "rc_grant_id r = grant_id dc g" "rc_proof_id r = proof_id dc p" "rc_action_id r = pr_action_id p"
    "rc_delegated_agent_id r = pr_agent_id p" "rc_agent_id r = sg_agent_id sg"
    "rc_agent_public_key_hex r = tohex (sg_public_key sg)" "rc_action r = pr_action p"
    "rc_target_sha256 r = digest_of dc (members (key_sorted (JObj (pr_target p))))" "rc_result_sha256 r = digest_of dc result"
    "rc_result_status r = status" "rc_ledger_head r = head"
    "rc_signature_hex r = JStr (tohex (sg_sign sg (receipt_signing_bytes r)))"
    unfolding sb[symmetric] by (simp_all add: r receipt_body_def Let_def del: key_sorted.simps)
  have "(\<exists>v. verify_delegated_receipt dc r ex = Inr v \<and> dv_ok v) \<longleftrightarrow> receipt_reason dc r ex = Inr Ok"
    by (auto simp: verify_delegated_receipt_def map_result_Inr_iff)
  also have "\<dots> \<longleftrightarrow> ex_executor_public_key ex = sg_public_key sg \<and> ex_grant_id ex = grant_id dc g \<and> ex_proof_id ex = proof_id dc p
    \<and> ex_action_id ex = pr_action_id p \<and> ex_action ex = pr_action p \<and> ex_delegated_agent_id ex = pr_agent_id p
    \<and> ex_result_status ex = status
    \<and> digest_of dc (members (key_sorted (JObj (ex_target ex)))) = digest_of dc (members (key_sorted (JObj (pr_target p))))
    \<and> (\<forall>v. ex_result ex = Some v \<longrightarrow> digest_of dc v = digest_of dc result)
    \<and> (\<forall>h. ex_ledger_head ex = Some h \<longrightarrow> h = head)"
    using assms(2-5) by (cases "ex_result ex"; cases "ex_ledger_head ex") (auto simp: receipt_reason_def f simp del: key_sorted.simps)
  finally show ?thesis .
qed

definition demo_expectation :: "grant \<Rightarrow> action_proof \<Rightarrow> pystr \<Rightarrow> expectation" where
  "demo_expectation g p status =
     \<lparr>ex_executor_public_key = replicate 32 (CHR ''e''), ex_grant_id = grant_id demo_delegation g,
      ex_proof_id = proof_id demo_delegation p, ex_action_id = pr_action_id p, ex_action = pr_action p,
      ex_delegated_agent_id = pr_agent_id p, ex_result_status = status, ex_target = pr_target p,
      ex_result = Some [(''k'', JInt 2)], ex_ledger_head = Some (replicate 64 (CHR ''0''))\<rparr>"

lemma ok_text_digest:
  assumes "is_digest s"
  shows "ok_text s"
proof -
  have "\<forall>c\<in>set hex_digits. 32 \<le> char_code c" by (simp add: hex_digits_def char_code_def)
  with assms have "\<not> has_control s" by (auto simp: is_digest_def all_hex_def has_control_def list_ex_iff list_all_iff not_less)
  with assms show ?thesis by (auto simp: ok_text_def is_digest_def)
qed

lemma zero_digest: "is_digest (replicate 64 (CHR ''0''))"
  by (simp add: is_digest_def all_hex_def hex_digits_def list_all_iff)

lemma demo_receipt:
  assumes "small_object (pr_target p)" "list_all ok_text [pr_action_id p, pr_agent_id p, pr_action p, status]"
    and "is_number issued_at" "is_digest head"
  shows "\<exists>r. sign_delegated_receipt demo_delegation g p (demo_signer CHR ''e'') result status head issued_at = Inr r"
proof -
  let ?b = "receipt_body demo_delegation g p (demo_signer CHR ''e'') result status head issued_at"
  have valid: "receipt_valid demo_delegation (?b\<lparr>rc_signature_hex := JStr (tohex s)\<rparr>)" for s
    using ok_short_id[OF demo_digest, of "replicate 32 (CHR ''e'')"] assms demo_digest ok_text_digest[OF demo_digest]
    by (simp add: receipt_valid_def receipt_body_def receipt_digest_def Let_def demo_signer_def is_ok_iff grant_id_def proof_id_def
        digest_of_def del: key_sorted.simps)
  then show ?thesis using assms(1) valid[of "[]"] by (auto simp: signed_receipt Let_def tohex_def)
qed

theorem receipt_testifies_exactly_witness:
  "\<exists>g p r. demo_issue = Inr g \<and> demo_sign g = Inr p
     \<and> sign_delegated_receipt demo_delegation g p (demo_signer CHR ''e'') [(''k'', JInt 2)] ''id'' (replicate 64 (CHR ''0'')) (JInt 8) = Inr r
     \<and> (\<exists>v. verify_delegated_receipt demo_delegation r (demo_expectation g p ''id'') = Inr v \<and> dv_ok v)
     \<and> \<not> (\<exists>v. verify_delegated_receipt demo_delegation r (demo_expectation g p ''m'') = Inr v \<and> dv_ok v)"
proof -
  obtain g where g: "demo_issue = Inr g" using demo_issued by blast
  obtain p where p: "demo_sign g = Inr p" using demo_signed by blast
  let ?sg = "demo_signer CHR ''e''" and ?head = "replicate 64 (CHR ''0'')"
  note pf = signed_action[OF p[unfolded demo_sign_with_def]]
  have small: "small_object (pr_target p)" using pf(6) demo_objects(2) by (simp add: small_sorted del: key_sorted.simps)
  obtain r where r: "sign_delegated_receipt demo_delegation g p ?sg [(''k'', JInt 2)] ''id'' ?head (JInt 8) = Inr r"
    using demo_receipt[OF small _ _ zero_digest, of "''id''" "JInt 8"] pf demo_texts
      ok_short_id[OF demo_digest, of "replicate 32 (CHR ''a'')"] by (auto simp: demo_signer_def)
  have sg: "verify_signature demo_delegation ED25519 k m (sg_sign ?sg m)" "sg_sign ?sg m \<noteq> []"
    "sg_agent_id ?sg = short_agent_id demo_delegation (sg_public_key ?sg)" "sg_public_key ?sg = replicate 32 (CHR ''e'')" for k m
    by (simp_all add: verify_signature_def demo_delegation_def demo_signer_def)
  have tgt: "small_object (ex_target (demo_expectation g p st))" for st using small by (simp add: demo_expectation_def)
  note iff = receipt_testifies_exactly[OF r sg(1) sg(2) sg(3) tgt]
  have "\<exists>v. verify_delegated_receipt demo_delegation r (demo_expectation g p ''id'') = Inr v \<and> dv_ok v"
    unfolding iff by (simp add: demo_expectation_def sg(4))
  moreover have "\<not> (\<exists>v. verify_delegated_receipt demo_delegation r (demo_expectation g p ''m'') = Inr v \<and> dv_ok v)"
    unfolding iff by (simp add: demo_expectation_def)
  ultimately show ?thesis using g p r by blast
qed

end
