(* ===== verification/Revocation.thy ===== *)
theory Revocation
  imports DelegationSpec
begin

text \<open>
  \<open>enterprise/revocation.py\<close>: the SQLite registry of revoked agents and grants and the watcher
  that carries its snapshots to a target. The registry is the content of its two tables; each
  revocation is one transaction, which commits or, where a statement raises (argument
  \<open>fault\<close>, the class name of the exception), rolls back. Opening creates the tables where they
  are missing. The target of the watcher is an argument of its operations.
\<close>

datatype revocation_error =
    RevocationValueError
  | LegacyRowError
  | RevocationDatabaseError pystr

record revocation_row =
  rv_target_type :: pystr
  rv_target_id :: pystr
  rv_operator_id :: pystr
  rv_reason :: pystr
  rv_revoked_at :: time
  rv_epoch :: int

record revocation_registry =
  rr_epoch :: int
  rr_rows :: "revocation_row list"

definition TARGET_TYPES :: "pystr list" where
  "TARGET_TYPES = [''agent'', ''grant'']"

definition CANONICAL_AGENT_PREFIX :: pystr where
  "CANONICAL_AGENT_PREFIX = ''SCID-''"

definition valid_principal :: "pystr \<Rightarrow> bool" where
  "valid_principal v \<longleftrightarrow> startswith v CANONICAL_AGENT_PREFIX
     \<and> (let digest = drop (length CANONICAL_AGENT_PREFIX) v in length digest \<in> {64, 96} \<and> all_hex digest)"

definition validate_agent_principal :: "pystr \<Rightarrow> revocation_error + pystr" where
  "validate_agent_principal v = (if valid_principal v then Inr v else Inl RevocationValueError)"

definition of_type :: "pystr \<Rightarrow> revocation_row list \<Rightarrow> pystr list" where
  "of_type kind rows = map rv_target_id (filter (\<lambda>row. rv_target_type row = kind) rows)"

definition reject_legacy_agent_rows :: "revocation_registry \<Rightarrow> revocation_error + unit" where
  "reject_legacy_agent_rows reg =
     (if list_all (\<lambda>i. is_ok (validate_agent_principal i)) (of_type ''agent'' (rr_rows reg)) then Inr ()
      else Inl LegacyRowError)"

definition registry_open :: "revocation_registry option \<Rightarrow> revocation_error + revocation_registry" where
  "registry_open database =
     (let reg = (case database of None \<Rightarrow> \<lparr>rr_epoch = 0, rr_rows = []\<rparr> | Some r \<Rightarrow> r) in
      map_result (\<lambda>_. reg) (reject_legacy_agent_rows reg))"

definition bounded_field :: "pystr \<Rightarrow> bool" where
  "bounded_field v \<longleftrightarrow> v \<noteq> [] \<and> length v \<le> 1024 \<and> \<not> has_control v"

definition find_revocation :: "revocation_registry \<Rightarrow> pystr \<Rightarrow> pystr \<Rightarrow> revocation_row option" where
  "find_revocation reg kind i = find (\<lambda>row. rv_target_type row = kind \<and> rv_target_id row = i) (rr_rows reg)"

definition revoke_target ::
    "revocation_registry \<Rightarrow> pystr \<Rightarrow> pystr \<Rightarrow> pystr \<Rightarrow> pystr \<Rightarrow> pyfloat \<Rightarrow> pystr option
     \<Rightarrow> revocation_registry \<times> (revocation_error + int)" where
  "revoke_target reg target_type target_id operator_id reason revoked_at fault =
     (if target_type \<notin> set TARGET_TYPES then (reg, Inl RevocationValueError)
      else if \<not> list_all bounded_field [target_id, operator_id, reason] then (reg, Inl RevocationValueError)
      else case revoked_at of
        Finite t \<Rightarrow>
          (case fault of
             Some name \<Rightarrow> (reg, Inl (RevocationDatabaseError name))
           | None \<Rightarrow>
               (case find_revocation reg target_type target_id of
                  Some row \<Rightarrow> (reg, Inr (rv_epoch row))
                | None \<Rightarrow>
                    (let epoch = rr_epoch reg + 1 in
                     (reg\<lparr>rr_epoch := epoch,
                          rr_rows := rr_rows reg @
                            [\<lparr>rv_target_type = target_type, rv_target_id = target_id, rv_operator_id = operator_id,
                              rv_reason = reason, rv_revoked_at = t, rv_epoch = epoch\<rparr>]\<rparr>,
                      Inr epoch))))
      | _ \<Rightarrow> (reg, Inl RevocationValueError))"

definition revoke_agent ::
    "revocation_registry \<Rightarrow> pystr \<Rightarrow> pystr \<Rightarrow> pystr \<Rightarrow> pyfloat \<Rightarrow> pystr option
     \<Rightarrow> revocation_registry \<times> (revocation_error + int)" where
  "revoke_agent reg agent_id operator_id reason revoked_at fault =
     (case validate_agent_principal agent_id of
        Inl e \<Rightarrow> (reg, Inl e)
      | Inr i \<Rightarrow> revoke_target reg ''agent'' i operator_id reason revoked_at fault)"

definition revoke_grant ::
    "revocation_registry \<Rightarrow> pystr \<Rightarrow> pystr \<Rightarrow> pystr \<Rightarrow> pyfloat \<Rightarrow> pystr option
     \<Rightarrow> revocation_registry \<times> (revocation_error + int)" where
  "revoke_grant reg gid operator_id reason revoked_at fault =
     revoke_target reg ''grant'' gid operator_id reason revoked_at fault"

record revocation_state =
  rs_epoch :: int
  rs_revoked_agent_key_ids :: "pystr set"
  rs_revoked_grant_ids :: "pystr set"

definition snapshot :: "revocation_registry \<Rightarrow> revocation_error + revocation_state" where
  "snapshot reg =
     map_result (\<lambda>_. \<lparr>rs_epoch = rr_epoch reg, rs_revoked_agent_key_ids = set (of_type ''agent'' (rr_rows reg)),
                      rs_revoked_grant_ids = set (of_type ''grant'' (rr_rows reg))\<rparr>)
       (reject_legacy_agent_rows reg)"

text \<open>The constructor of \<open>RevocationSnapshot\<close> (\<open>acp_shim.py\<close>) refuses a negative epoch.\<close>

definition snapshot_init :: "revocation_state \<Rightarrow> revocation_error + revocation_state" where
  "snapshot_init s = (if rs_epoch s < 0 then Inl RevocationValueError else Inr s)"

definition acp_snapshot :: "revocation_registry \<Rightarrow> revocation_error + revocation_state" where
  "acp_snapshot reg = bind_result (snapshot reg) snapshot_init"

subsection \<open>The watcher\<close>

record revocation_watcher =
  rw_last_epoch :: int
  rw_last_error :: "pystr option"

text \<open>The poll interval, given in thousandths of a second.\<close>

definition watcher_init :: "int \<Rightarrow> revocation_error + revocation_watcher" where
  "watcher_init poll_interval =
     (if 50 \<le> poll_interval \<and> poll_interval \<le> 60000
      then Inr \<lparr>rw_last_epoch = -1, rw_last_error = None\<rparr> else Inl RevocationValueError)"

definition error_name :: "revocation_error \<Rightarrow> pystr" where
  "error_name e =
     (case e of RevocationValueError \<Rightarrow> ''ValueError'' | LegacyRowError \<Rightarrow> ''RuntimeError'' | RevocationDatabaseError name \<Rightarrow> name)"

definition poll_once ::
    "('t \<Rightarrow> revocation_state \<Rightarrow> 't \<times> pystr list) \<Rightarrow> revocation_registry \<Rightarrow> revocation_watcher \<Rightarrow> 't
     \<Rightarrow> (revocation_watcher \<times> 't) \<times> (revocation_error + pystr list)" where
  "poll_once apply_revocations reg w t =
     (case acp_snapshot reg of
        Inl e \<Rightarrow> ((w, t), Inl e)
      | Inr s \<Rightarrow>
          if rs_epoch s = rw_last_epoch w then ((w, t), Inr [])
          else case apply_revocations t s of
            (t', removed) \<Rightarrow> ((w\<lparr>rw_last_epoch := rs_epoch s, rw_last_error := None\<rparr>, t'), Inr removed))"

text \<open>One round of the loop of \<open>_run\<close>: an exception of the poll is kept as the last error.\<close>

definition run_round ::
    "('t \<Rightarrow> revocation_state \<Rightarrow> 't \<times> pystr list) \<Rightarrow> revocation_registry \<Rightarrow> revocation_watcher \<times> 't \<Rightarrow> revocation_watcher \<times> 't" where
  "run_round apply_revocations reg wt =
     (case poll_once apply_revocations reg (fst wt) (snd wt) of
        ((w, t), Inr _) \<Rightarrow> (w, t)
      | ((w, t), Inl e) \<Rightarrow> (w\<lparr>rw_last_error := Some (error_name e)\<rparr>, t))"

subsection \<open>The registry as a state machine\<close>

text \<open>Whatever the processes sharing the database call, in any order, with any statement failing.\<close>

inductive registry_step :: "revocation_registry \<Rightarrow> revocation_registry \<Rightarrow> bool" where
  revoking_agent: "registry_step reg (fst (revoke_agent reg i who why when_at fault))"
| revoking_grant: "registry_step reg (fst (revoke_grant reg i who why when_at fault))"
| reopening: "registry_open (Some reg) = Inr reg' \<Longrightarrow> registry_step reg reg'"

inductive registry_steps :: "revocation_registry \<Rightarrow> revocation_registry \<Rightarrow> bool" where
  none: "registry_steps reg reg"
| more: "registry_steps reg reg' \<Longrightarrow> registry_step reg' reg'' \<Longrightarrow> registry_steps reg reg''"

text \<open>Rows are numbered by their epoch, one row per target, agents by full key.\<close>

definition registry_inv :: "revocation_registry \<Rightarrow> bool" where
  "registry_inv reg \<longleftrightarrow> rr_epoch reg = int (length (rr_rows reg))
     \<and> map rv_epoch (rr_rows reg) = map int [1..<Suc (length (rr_rows reg))]
     \<and> distinct (map (\<lambda>row. (rv_target_type row, rv_target_id row)) (rr_rows reg))
     \<and> list_all valid_principal (of_type ''agent'' (rr_rows reg))
     \<and> list_all (\<lambda>row. rv_target_type row \<in> set TARGET_TYPES) (rr_rows reg)"

lemma registry_open_fresh: "\<exists>reg. registry_open None = Inr reg \<and> registry_inv reg"
  by (simp add: registry_open_def reject_legacy_agent_rows_def registry_inv_def of_type_def)

lemma find_revocation_None:
  "find_revocation reg kind i = None \<longleftrightarrow>
     (kind, i) \<notin> set (map (\<lambda>row. (rv_target_type row, rv_target_id row)) (rr_rows reg))"
  by (auto simp: find_revocation_def find_None_iff)

lemma find_revocation_Some:
  "find_revocation reg kind i = Some row \<Longrightarrow> row \<in> set (rr_rows reg) \<and> rv_target_type row = kind \<and> rv_target_id row = i"
  by (auto simp: find_revocation_def find_Some_iff)

text \<open>A call changes nothing, or appends one row for a new target under the next epoch.\<close>

lemma revoke_target_cases:
  obtains "fst (revoke_target reg kind i who why when_at fault) = reg"
  | row where "fst (revoke_target reg kind i who why when_at fault)
        = reg\<lparr>rr_epoch := rr_epoch reg + 1, rr_rows := rr_rows reg @ [row]\<rparr>"
      "rv_target_type row = kind" "rv_target_id row = i" "rv_epoch row = rr_epoch reg + 1"
      "kind \<in> set TARGET_TYPES" "find_revocation reg kind i = None"
  by (fastforce simp: revoke_target_def Let_def split: if_splits pyfloat.splits option.splits)

lemma revoke_target_inv [inv_intros]:
  assumes "registry_inv reg" "kind = ''agent'' \<Longrightarrow> valid_principal i"
  shows "registry_inv (fst (revoke_target reg kind i who why when_at fault))"
proof (cases rule: revoke_target_cases[of reg kind i who why when_at fault])
  case (2 row)
  with assms show ?thesis by (auto simp: registry_inv_def of_type_def find_revocation_None)
qed (use assms in simp)

lemma revoke_agent_inv [inv_intros]: "registry_inv reg \<Longrightarrow> registry_inv (fst (revoke_agent reg i who why when_at fault))"
  by (auto simp: revoke_agent_def validate_agent_principal_def intro: revoke_target_inv)

lemma revoke_grant_inv [inv_intros]: "registry_inv reg \<Longrightarrow> registry_inv (fst (revoke_grant reg i who why when_at fault))"
  by (auto simp: revoke_grant_def intro: revoke_target_inv)

lemma registry_open_Some: "registry_open (Some reg) = Inr reg' \<Longrightarrow> reg' = reg"
  by (auto simp: registry_open_def map_result_Inr_iff)

definition grown :: "revocation_registry \<Rightarrow> revocation_registry \<Rightarrow> bool" where
  "grown reg reg' \<longleftrightarrow> rr_epoch reg \<le> rr_epoch reg' \<and> (\<exists>rows. rr_rows reg' = rr_rows reg @ rows)"

lemma grown_refl [simp]: "grown reg reg" by (simp add: grown_def)

lemma grown_trans: "grown a b \<Longrightarrow> grown b c \<Longrightarrow> grown a c" by (auto simp: grown_def)

lemma revoke_grown: "grown reg (fst (revoke_target reg kind i who why when_at fault))"
  by (cases rule: revoke_target_cases[of reg kind i who why when_at fault]) (auto simp: grown_def)

lemma registry_step_grown:
  assumes "registry_step reg reg'"
  shows "grown reg reg' \<and> (registry_inv reg \<longrightarrow> registry_inv reg')"
  using assms
proof cases
  case (revoking_agent i who why when_at fault)
  then show ?thesis
    by (auto simp: inv_intros) (simp add: revoke_agent_def revoke_grown split: sum.splits)
next
  case (revoking_grant i who why when_at fault)
  then show ?thesis by (auto simp: inv_intros) (simp add: revoke_grant_def revoke_grown)
qed (auto dest: registry_open_Some)

lemma registry_steps_grown:
  assumes "registry_steps reg reg'"
  shows "grown reg reg' \<and> (registry_inv reg \<longrightarrow> registry_inv reg')"
  using assms by (induction rule: registry_steps.induct) (auto dest: registry_step_grown grown_trans)

lemma snapshot_of_inv:
  assumes "registry_inv reg"
  shows "acp_snapshot reg = Inr \<lparr>rs_epoch = rr_epoch reg, rs_revoked_agent_key_ids = set (of_type ''agent'' (rr_rows reg)),
           rs_revoked_grant_ids = set (of_type ''grant'' (rr_rows reg))\<rparr>"
  using assms
  by (auto simp: acp_snapshot_def snapshot_def snapshot_init_def reject_legacy_agent_rows_def registry_inv_def list_all_iff
      validate_agent_principal_def)

lemma revoke_target_recorded:
  assumes "revoke_target reg kind i who why when_at fault = (reg', Inr n)"
  shows "(kind, i) \<in> set (map (\<lambda>row. (rv_target_type row, rv_target_id row)) (rr_rows reg'))"
  using assms
  by (auto simp: revoke_target_def Let_def split: if_splits pyfloat.splits option.splits dest: find_revocation_Some)

lemma of_type_iff: "i \<in> set (of_type kind rows) \<longleftrightarrow> (kind, i) \<in> set (map (\<lambda>row. (rv_target_type row, rv_target_id row)) rows)"
  by (auto simp: of_type_def)

text \<open>The state a verification is given: the snapshot, and the action identifiers already seen.\<close>

definition revocation_inputs :: "revocation_state \<Rightarrow> verification_state" where
  "revocation_inputs s = \<lparr>vs_revoked_grant_ids = rs_revoked_grant_ids s, vs_revoked_agent_key_ids = rs_revoked_agent_key_ids s,
     vs_revoked_agent_ids = {}, vs_minimum_revocation_epoch = rs_epoch s, vs_seen_action_ids = {}\<rparr>"

lemma revoked_forever:
  assumes "registry_inv reg" "revoke_target reg kind i who why t fault = (reg', Inr n)" "registry_steps reg' later"
    and "kind = ''agent'' \<Longrightarrow> valid_principal i"
  shows "registry_inv later \<and> i \<in> set (of_type kind (rr_rows later)) \<and> n \<le> rr_epoch later \<and> rr_epoch reg \<le> rr_epoch later"
proof -
  from assms(1,2,4) have inv: "registry_inv reg'" using revoke_target_inv[of reg kind i who why t fault] by simp
  from registry_steps_grown[OF assms(3)] have later: "registry_inv later" "grown reg' later" using inv by auto
  moreover have "(kind, i) \<in> set (map (\<lambda>row. (rv_target_type row, rv_target_id row)) (rr_rows reg'))"
    using assms(2) by (rule revoke_target_recorded)
  then have "i \<in> set (of_type kind (rr_rows later))" using later(2) by (auto simp: of_type_iff grown_def)
  moreover have "n \<le> rr_epoch reg'"
  proof -
    have "rv_epoch row \<le> rr_epoch reg" if "row \<in> set (rr_rows reg)" for row
    proof -
      from that have "rv_epoch row \<in> set (map rv_epoch (rr_rows reg))" by simp
      also have "map rv_epoch (rr_rows reg) = map int [1..<Suc (length (rr_rows reg))]" using assms(1) by (simp add: registry_inv_def)
      finally show ?thesis using assms(1) by (auto simp: registry_inv_def)
    qed
    with assms(2) show ?thesis
      by (auto simp: revoke_target_def Let_def split: if_splits pyfloat.splits option.splits dest: find_revocation_Some)
  qed
  moreover have "rr_epoch reg \<le> rr_epoch reg'"
    using revoke_grown[of reg kind i who why t fault] assms(2) by (simp add: grown_def)
  ultimately show ?thesis by (auto simp: grown_def)
qed

lemma accepted_not_revoked:
  assumes "verify_delegated_action dc g p now payload trusted st = Inr v" "dv_ok v"
  shows "\<exists>key. fromhex (pr_agent_public_key_hex p) = Some key \<and> not_revoked dc g p key st"
proof -
  from assms have "action_reason dc g p now payload trusted st = Inr Ok" using verify_ok_iff by blast
  then show ?thesis unfolding action_reason_Ok by (auto simp: authentic_def)
qed

text \<open>
  C26. Revocation is terminal: once \<open>revoke_agent\<close> returned an epoch for the full key of an agent,
  or \<open>revoke_grant\<close> for a grant, then after any sequence of later calls, failed transactions and
  reopenings of the registry a snapshot can be taken, its epoch has not fallen below the one
  returned or the one before, no action of that agent or under that grant verifies against it,
  and neither does an action under any grant of an older epoch.
\<close>

theorem revocation_is_terminal:
  assumes "registry_inv reg" "registry_steps reg' later"
    and "revoke_agent reg (canonical_agent_id dc key) who why t fault = (reg', Inr n) \<and> fromhex (pr_agent_public_key_hex p) = Some key
       \<or> revoke_grant reg (grant_id dc g) who why t fault = (reg', Inr n)"
  shows "\<exists>s. acp_snapshot later = Inr s \<and> n \<le> rs_epoch s \<and> rr_epoch reg \<le> rs_epoch s
    \<and> \<not> (\<exists>v. verify_delegated_action dc g p now payload trusted (revocation_inputs s) = Inr v \<and> dv_ok v)
    \<and> (\<forall>g' p' v. verify_delegated_action dc g' p' now' payload' trusted' (revocation_inputs s) = Inr v \<and> dv_ok v
         \<longrightarrow> n \<le> number_of (gr_revocation_epoch g'))"
proof -
  let ?hit = "\<lambda>kind i. registry_inv later \<and> i \<in> set (of_type kind (rr_rows later)) \<and> n \<le> rr_epoch later \<and> rr_epoch reg \<le> rr_epoch later"
  have cases: "?hit ''agent'' (canonical_agent_id dc key) \<and> fromhex (pr_agent_public_key_hex p) = Some key \<or> ?hit ''grant'' (grant_id dc g)"
    using assms(3)
  proof
    assume a: "revoke_agent reg (canonical_agent_id dc key) who why t fault = (reg', Inr n) \<and> fromhex (pr_agent_public_key_hex p) = Some key"
    then have "valid_principal (canonical_agent_id dc key)" "revoke_target reg ''agent'' (canonical_agent_id dc key) who why t fault = (reg', Inr n)"
      by (auto simp: revoke_agent_def validate_agent_principal_def split: if_splits)
    with revoked_forever[OF assms(1) _ assms(2)] a show ?thesis by blast
  next
    assume "revoke_grant reg (grant_id dc g) who why t fault = (reg', Inr n)"
    then have "revoke_target reg ''grant'' (grant_id dc g) who why t fault = (reg', Inr n)" by (simp add: revoke_grant_def)
    from revoked_forever[OF assms(1) this assms(2)] show ?thesis by simp
  qed
  let ?s = "\<lparr>rs_epoch = rr_epoch later, rs_revoked_agent_key_ids = set (of_type ''agent'' (rr_rows later)),
    rs_revoked_grant_ids = set (of_type ''grant'' (rr_rows later))\<rparr>"
  have "acp_snapshot later = Inr ?s" "n \<le> rs_epoch ?s" "rr_epoch reg \<le> rs_epoch ?s"
    using cases snapshot_of_inv by auto
  moreover have "\<not> (\<exists>v. verify_delegated_action dc g p now payload trusted (revocation_inputs ?s) = Inr v \<and> dv_ok v)"
    using cases by (auto dest!: accepted_not_revoked simp: not_revoked_def revocation_inputs_def)
  moreover have "\<forall>g' p' v. verify_delegated_action dc g' p' now' payload' trusted' (revocation_inputs ?s) = Inr v \<and> dv_ok v
      \<longrightarrow> n \<le> number_of (gr_revocation_epoch g')"
    using cases by (auto dest!: accepted_not_revoked simp: not_revoked_def revocation_inputs_def)
  ultimately show ?thesis by blast
qed

definition demo_registry :: revocation_registry where
  "demo_registry = \<lparr>rr_epoch = 0, rr_rows = []\<rparr>"

lemma demo_principal: "valid_principal (canonical_agent_id demo_delegation key)"
  using demo_digest[of key]
  by (simp add: valid_principal_def canonical_agent_id_def CANONICAL_AGENT_PREFIX_def startswith_def public_key_fingerprint_def
      is_digest_def)

lemma demo_bounded: "bounded_field (canonical_agent_id demo_delegation key)" "bounded_field ''owner''"
proof -
  have "\<forall>c\<in>set hex_digits. 32 \<le> char_code c" by (simp add: hex_digits_def char_code_def)
  with demo_digest[of key] show "bounded_field (canonical_agent_id demo_delegation key)"
    by (fastforce simp: bounded_field_def canonical_agent_id_def public_key_fingerprint_def is_digest_def all_hex_def has_control_def
        list_ex_iff list_all_iff not_less char_code_def)
qed (simp add: bounded_field_def has_control_def char_code_def)

theorem revocation_is_terminal_witness:
  "\<exists>reg' g p s. revoke_agent demo_registry (canonical_agent_id demo_delegation (replicate 32 (CHR ''a''))) ''owner'' ''owner'' (Finite 3) None
       = (reg', Inr 1)
     \<and> demo_issue = Inr g \<and> demo_sign g = Inr p \<and> acp_snapshot reg' = Inr s
     \<and> \<not> (\<exists>v. verify_delegated_action demo_delegation g p (Finite 7) (Some ''data'') None (revocation_inputs s) = Inr v \<and> dv_ok v)"
proof -
  let ?i = "canonical_agent_id demo_delegation (replicate 32 (CHR ''a''))"
  obtain g where g: "demo_issue = Inr g" using demo_issued by blast
  obtain p where p: "demo_sign g = Inr p" using demo_signed by blast
  have key: "fromhex (pr_agent_public_key_hex p) = Some (replicate 32 (CHR ''a''))"
    using signed_action[OF p[unfolded demo_sign_with_def]] by (simp add: demo_signer_def)
  have inv: "registry_inv demo_registry" by (simp add: registry_inv_def demo_registry_def of_type_def)
  obtain reg' where r: "revoke_agent demo_registry ?i ''owner'' ''owner'' (Finite 3) None = (reg', Inr 1)"
    using demo_principal[of "replicate 32 (CHR ''a'')"] demo_bounded
    by (simp add: revoke_agent_def validate_agent_principal_def revoke_target_def TARGET_TYPES_def find_revocation_def demo_registry_def)
  from revocation_is_terminal[OF inv registry_steps.none disjI1[OF conjI[OF r key]]]
  have "\<exists>s. acp_snapshot reg' = Inr s \<and>
     \<not> (\<exists>v. verify_delegated_action demo_delegation g p (Finite 7) (Some ''data'') None (revocation_inputs s) = Inr v \<and> dv_ok v)"
    by blast
  with g p r show ?thesis by blast
qed

end
