(* ===== verification/ReplayStore.thy ===== *)
theory ReplayStore
  imports Delegation
begin

text \<open>
  \<open>SQLiteActionReplayStore\<close> of \<open>enterprise/acp_shim.py\<close>: the table of consumed action
  identifiers. Every method is one SQL statement in autocommit mode; a statement that raises
  (argument \<open>fault\<close>) changes nothing. Texts of JSON columns are kept as the values \<open>json.loads\<close>
  gives back. What the final actuation boundary relies on is the locale \<open>replay_protocol\<close>:
  each action identifier passes at most once through claim, begin and finish, in that order
  and for one signed tuple.
\<close>

datatype replay_error = ReplayValueError | ReplayRuntimeError | ReplayDatabaseError

datatype outcome = Admitted | Succeeded | Failed

record consumption =
  co_grant_id :: pystr
  co_proof_id :: pystr
  co_session_id :: pystr
  co_consumed_at :: time
  co_outcome :: outcome
  co_receipt :: "json option"
  co_ledger_head :: "pystr option"
  co_result :: "json option"
  co_actuator_started :: bool

type_synonym replay_store = "(pystr \<times> consumption) list"

text \<open>The signed tuple an admission is for: grant, proof and session.\<close>

type_synonym admission = "pystr \<times> pystr \<times> pystr"

definition valid_action_id :: "pystr \<Rightarrow> bool" where
  "valid_action_id i \<longleftrightarrow> i \<noteq> [] \<and> length i \<le> 256 \<and> \<not> has_control i"

definition store_claim :: "replay_store \<Rightarrow> pystr \<Rightarrow> admission \<Rightarrow> pyfloat \<Rightarrow> bool \<Rightarrow> replay_store \<times> (replay_error + bool)" where
  "store_claim st action_id adm consumed_at fault =
     (if \<not> valid_action_id action_id then (st, Inl ReplayValueError)
      else case consumed_at of
        Finite t \<Rightarrow>
          if fault then (st, Inl ReplayDatabaseError)
          else if map_of st action_id \<noteq> None then (st, Inr False)
          else (st @ [(action_id, \<lparr>co_grant_id = fst adm, co_proof_id = fst (snd adm), co_session_id = snd (snd adm),
                  co_consumed_at = t, co_outcome = Admitted, co_receipt = None, co_ledger_head = None,
                  co_result = None, co_actuator_started = False\<rparr>)],
                Inr True)
      | _ \<Rightarrow> (st, Inl ReplayValueError))"

text \<open>\<open>UPDATE ... WHERE\<close> on the row of one primary key; the row count is 1 or 0.\<close>

definition update_where ::
    "(consumption \<Rightarrow> bool) \<Rightarrow> (consumption \<Rightarrow> consumption) \<Rightarrow> pystr \<Rightarrow> replay_store \<Rightarrow> replay_store \<times> bool" where
  "update_where P f i st =
     (case map_of st i of
        Some c \<Rightarrow> if P c then (AList.update i (f c) st, True) else (st, False)
      | None \<Rightarrow> (st, False))"

definition admitted_for :: "admission \<Rightarrow> consumption \<Rightarrow> bool" where
  "admitted_for adm c \<longleftrightarrow> (co_grant_id c, co_proof_id c, co_session_id c) = adm"

definition store_begin :: "replay_store \<Rightarrow> pystr \<Rightarrow> admission \<Rightarrow> bool \<Rightarrow> replay_store \<times> (replay_error + bool)" where
  "store_begin st action_id adm fault =
     (if fault then (st, Inl ReplayDatabaseError)
      else case update_where (\<lambda>c. admitted_for adm c \<and> co_outcome c = Admitted \<and> \<not> co_actuator_started c)
             (\<lambda>c. c\<lparr>co_actuator_started := True\<rparr>) action_id st of
        (st', done1) \<Rightarrow> (st', Inr done1))"

definition stored_json :: "json_object option \<Rightarrow> json option" where
  "stored_json v = map_option (\<lambda>d. key_sorted (JObj d)) v"

definition store_finish ::
    "replay_store \<Rightarrow> pystr \<Rightarrow> bool \<Rightarrow> json_object option \<Rightarrow> pystr \<Rightarrow> json_object option \<Rightarrow> bool
     \<Rightarrow> replay_store \<times> (replay_error + unit)" where
  "store_finish st action_id succeeded receipt ledger_head result fault =
     (if fault then (st, Inl ReplayDatabaseError)
      else case update_where (\<lambda>c. co_outcome c = Admitted \<and> co_actuator_started c)
             (\<lambda>c. c\<lparr>co_outcome := (if succeeded then Succeeded else Failed), co_receipt := stored_json receipt,
                     co_ledger_head := (if ledger_head = [] then None else Some ledger_head),
                     co_result := stored_json result\<rparr>) action_id st of
        (st', done1) \<Rightarrow> (st', if done1 then Inr () else Inl ReplayRuntimeError))"

definition store_contains :: "replay_store \<Rightarrow> pystr \<Rightarrow> bool" where
  "store_contains st action_id \<longleftrightarrow> map_of st action_id \<noteq> None"

definition store_get :: "replay_store \<Rightarrow> pystr \<Rightarrow> consumption option" where
  "store_get st action_id = map_of st action_id"

subsection \<open>The protocol\<close>

datatype phase = Unclaimed | Claimed admission | Started admission | Finished admission bool

datatype replay_event = EvClaim admission | EvBegin admission | EvFinish bool

text \<open>The calls that brought an action identifier to its phase.\<close>

fun history :: "phase \<Rightarrow> replay_event list" where
  "history Unclaimed = []"
| "history (Claimed adm) = [EvClaim adm]"
| "history (Started adm) = [EvClaim adm, EvBegin adm]"
| "history (Finished adm ok) = [EvClaim adm, EvBegin adm, EvFinish ok]"

datatype replay_op =
    OpClaim pystr admission pyfloat bool
  | OpBegin pystr admission bool
  | OpFinish pystr bool "json_object option" pystr "json_object option" bool

text \<open>
  A client calls the three operations in any order. One call, and the event it is for its
  identifier where it succeeded; then a sequence of calls, of one process or of several that
  share the database.
\<close>

record ('s, 'e) replay_calls =
  rp_claim :: "'s \<Rightarrow> pystr \<Rightarrow> admission \<Rightarrow> pyfloat \<Rightarrow> bool \<Rightarrow> 's \<times> ('e + bool)"
  rp_begin :: "'s \<Rightarrow> pystr \<Rightarrow> admission \<Rightarrow> bool \<Rightarrow> 's \<times> ('e + bool)"
  rp_finish :: "'s \<Rightarrow> pystr \<Rightarrow> bool \<Rightarrow> json_object option \<Rightarrow> pystr \<Rightarrow> json_object option \<Rightarrow> bool \<Rightarrow> 's \<times> ('e + unit)"

fun perform :: "('s, 'e) replay_calls \<Rightarrow> 's \<Rightarrow> replay_op \<Rightarrow> 's \<times> (pystr \<times> replay_event) list" where
  "perform rp s (OpClaim i adm t f) =
     (case rp_claim rp s i adm t f of (s', r) \<Rightarrow> (s', case r of Inr True \<Rightarrow> [(i, EvClaim adm)] | _ \<Rightarrow> []))"
| "perform rp s (OpBegin i adm f) =
     (case rp_begin rp s i adm f of (s', r) \<Rightarrow> (s', case r of Inr True \<Rightarrow> [(i, EvBegin adm)] | _ \<Rightarrow> []))"
| "perform rp s (OpFinish i ok rc head res f) =
     (case rp_finish rp s i ok rc head res f of (s', r) \<Rightarrow> (s', case r of Inr _ \<Rightarrow> [(i, EvFinish ok)] | _ \<Rightarrow> []))"

fun perform_all :: "('s, 'e) replay_calls \<Rightarrow> 's \<Rightarrow> replay_op list \<Rightarrow> 's \<times> (pystr \<times> replay_event) list" where
  "perform_all rp s [] = (s, [])"
| "perform_all rp s (c # cs) = (case perform rp s c of (s', es) \<Rightarrow> case perform_all rp s' cs of (s'', es') \<Rightarrow> (s'', es @ es'))"

definition of_id :: "pystr \<Rightarrow> (pystr \<times> replay_event) list \<Rightarrow> replay_event list" where
  "of_id i es = map snd (filter (\<lambda>e. fst e = i) es)"

locale replay_protocol =
  fixes claim :: "'s \<Rightarrow> pystr \<Rightarrow> admission \<Rightarrow> pyfloat \<Rightarrow> bool \<Rightarrow> 's \<times> ('e + bool)"
    and start :: "'s \<Rightarrow> pystr \<Rightarrow> admission \<Rightarrow> bool \<Rightarrow> 's \<times> ('e + bool)"
    and finish :: "'s \<Rightarrow> pystr \<Rightarrow> bool \<Rightarrow> json_object option \<Rightarrow> pystr \<Rightarrow> json_object option \<Rightarrow> bool \<Rightarrow> 's \<times> ('e + unit)"
    and phase_of :: "'s \<Rightarrow> pystr \<Rightarrow> phase"
  assumes claim_won: "claim s i adm t f = (s', Inr True) \<Longrightarrow> phase_of s i = Unclaimed \<and> phase_of s' = (phase_of s)(i := Claimed adm)"
    and claim_lost: "claim s i adm t f = (s', r) \<Longrightarrow> r \<noteq> Inr True \<Longrightarrow> phase_of s' = phase_of s"
    and claim_known: "claim s i adm t f = (s', Inr False) \<Longrightarrow> phase_of s i \<noteq> Unclaimed"
    and start_won: "start s i adm f = (s', Inr True) \<Longrightarrow> phase_of s i = Claimed adm \<and> phase_of s' = (phase_of s)(i := Started adm)"
    and start_lost: "start s i adm f = (s', r) \<Longrightarrow> r \<noteq> Inr True \<Longrightarrow> phase_of s' = phase_of s"
    and finish_won: "finish s i ok rc head res f = (s', Inr ())
      \<Longrightarrow> \<exists>adm. phase_of s i = Started adm \<and> phase_of s' = (phase_of s)(i := Finished adm ok)"
    and finish_lost: "finish s i ok rc head res f = (s', Inl e) \<Longrightarrow> phase_of s' = phase_of s"
begin

definition calls :: "('s, 'e) replay_calls" where
  "calls = \<lparr>rp_claim = claim, rp_begin = start, rp_finish = finish\<rparr>"

lemma perform_history:
  assumes "perform calls s c = (s', es)"
  shows "history (phase_of s' i) = history (phase_of s i) @ of_id i es"
proof (cases c)
  case (OpClaim j adm t f)
  with assms claim_won[of s j adm t f s'] claim_lost[of s j adm t f s'] show ?thesis
    by (auto simp: calls_def of_id_def split: prod.splits sum.splits bool.splits)
next
  case (OpBegin j adm f)
  with assms start_won[of s j adm f s'] start_lost[of s j adm f s'] show ?thesis
    by (auto simp: calls_def of_id_def split: prod.splits sum.splits bool.splits)
next
  case (OpFinish j ok rc head res f)
  then obtain r where r: "finish s j ok rc head res f = (s', r)" "es = (case r of Inr _ \<Rightarrow> [(j, EvFinish ok)] | _ \<Rightarrow> [])"
    using assms by (auto simp: calls_def split: prod.splits)
  show ?thesis
  proof (cases r)
    case (Inl e)
    with r finish_lost[of s j ok rc head res f s'] show ?thesis by (simp add: of_id_def)
  next
    case (Inr u)
    with r finish_won[of s j ok rc head res f s'] show ?thesis by (auto simp: of_id_def)
  qed
qed

lemma perform_all_history:
  assumes "perform_all calls s cs = (s', es)"
  shows "history (phase_of s' i) = history (phase_of s i) @ of_id i es"
  using assms
proof (induction cs arbitrary: s es)
  case (Cons c cs)
  then obtain s1 es1 es2 where "perform calls s c = (s1, es1)" "perform_all calls s1 cs = (s', es2)" "es = es1 @ es2"
    by (auto split: prod.splits)
  with Cons.IH perform_history[of s c s1 es1 i] show ?case by (simp add: of_id_def)
qed (simp add: of_id_def)

end

subsection \<open>The store implements it\<close>

definition phase_in :: "consumption \<Rightarrow> phase" where
  "phase_in c =
     (let adm = (co_grant_id c, co_proof_id c, co_session_id c) in
      case co_outcome c of
        Admitted \<Rightarrow> if co_actuator_started c then Started adm else Claimed adm
      | Succeeded \<Rightarrow> Finished adm True
      | Failed \<Rightarrow> Finished adm False)"

definition store_phase :: "replay_store \<Rightarrow> pystr \<Rightarrow> phase" where
  "store_phase st i = (case map_of st i of None \<Rightarrow> Unclaimed | Some c \<Rightarrow> phase_in c)"

lemma phase_in_not_Unclaimed [simp]: "phase_in c \<noteq> Unclaimed"
  by (simp add: phase_in_def Let_def split: outcome.splits)

lemma store_phase_update: "store_phase (AList.update i c st) = (store_phase st)(i := phase_in c)"
  by (auto simp: store_phase_def fun_eq_iff)

lemma store_phase_append: "map_of st i = None \<Longrightarrow> store_phase (st @ [(i, c)]) = (store_phase st)(i := phase_in c)"
  by (auto simp: store_phase_def fun_eq_iff map_of_append_new simp del: map_of_append)

lemma update_where_cases:
  assumes "update_where P f i st = (st', b)"
  shows "b \<and> (\<exists>c. map_of st i = Some c \<and> P c \<and> store_phase st' = (store_phase st)(i := phase_in (f c))) \<or> \<not> b \<and> st' = st"
  using assms by (auto simp: update_where_def store_phase_update split: option.splits if_splits)

interpretation acp: replay_protocol store_claim store_begin store_finish store_phase
proof (unfold_locales, goal_cases)
  case (1 s i adm t f s')
  then show ?case
    by (auto simp: store_claim_def store_phase_append phase_in_def store_phase_def[of s i] split: if_splits pyfloat.splits)
next
  case (2 s i adm t f s' r)
  then show ?case by (auto simp: store_claim_def split: if_splits pyfloat.splits)
next
  case (3 s i adm t f s')
  then show ?case by (auto simp: store_claim_def store_phase_def split: if_splits pyfloat.splits option.splits)
next
  case (4 s i adm f s')
  then have "update_where (\<lambda>c. admitted_for adm c \<and> co_outcome c = Admitted \<and> \<not> co_actuator_started c)
      (\<lambda>c. c\<lparr>co_actuator_started := True\<rparr>) i s = (s', True)"
    by (auto simp: store_begin_def split: if_splits prod.splits)
  from update_where_cases[OF this] show ?case
    by (auto simp: store_phase_def[of s i] phase_in_def admitted_for_def)
next
  case (5 s i adm f s' r)
  then show ?case by (auto simp: store_begin_def split: if_splits prod.splits dest: update_where_cases)
next
  case (6 s i ok rc head res f s')
  then obtain g where "update_where (\<lambda>c. co_outcome c = Admitted \<and> co_actuator_started c) g i s = (s', True)"
    and g: "g = (\<lambda>c. c\<lparr>co_outcome := (if ok then Succeeded else Failed), co_receipt := stored_json rc,
         co_ledger_head := (if head = [] then None else Some head), co_result := stored_json res\<rparr>)"
    by (auto simp: store_finish_def split: if_splits prod.splits)
  from update_where_cases[OF this(1)] show ?case
    by (auto simp: store_phase_def[of s i] phase_in_def g)
next
  case (7 s i ok rc head res f s' e)
  then show ?case by (auto simp: store_finish_def split: if_splits prod.splits dest: update_where_cases)
qed

definition sqlite_calls :: "(replay_store, replay_error) replay_calls" where
  "sqlite_calls = \<lparr>rp_claim = store_claim, rp_begin = store_begin, rp_finish = store_finish\<rparr>"

lemma acp_calls: "acp.calls = sqlite_calls"
  by (simp add: acp.calls_def sqlite_calls_def)

text \<open>
  C27. An action identifier executes at most once: whatever sequence of calls, failing ones
  included, is made on a new store, the calls that succeeded for an identifier are exactly a
  claim, then a begin for the same grant, proof and session, then a finish, as far as its row
  says, each at most once; a finished identifier is never begun or finished again.
\<close>

theorem actions_execute_at_most_once:
  assumes "perform_all sqlite_calls [] cs = (st, es)"
  shows "of_id i es = history (store_phase st i)
    \<and> (\<exists>adm ok. of_id i es \<in> {[], [EvClaim adm], [EvClaim adm, EvBegin adm], [EvClaim adm, EvBegin adm, EvFinish ok]})
    \<and> (perform_all sqlite_calls st cs' = (st', es') \<and> store_phase st i = Finished adm' ok' \<longrightarrow> of_id i es' = [])"
proof (intro conjI impI)
  from acp.perform_all_history[unfolded acp_calls, OF assms, of i]
  show h: "of_id i es = history (store_phase st i)" by (simp add: store_phase_def)
  then show "\<exists>adm ok. of_id i es \<in> {[], [EvClaim adm], [EvClaim adm, EvBegin adm], [EvClaim adm, EvBegin adm, EvFinish ok]}"
    by (cases "store_phase st i") auto
  assume "perform_all sqlite_calls st cs' = (st', es') \<and> store_phase st i = Finished adm' ok'"
  then have "history (store_phase st' i) = [EvClaim adm', EvBegin adm', EvFinish ok'] @ of_id i es'"
    using acp.perform_all_history[unfolded acp_calls, of st cs' st' es' i] by simp
  then show "of_id i es' = []" by (cases "store_phase st' i") auto
qed

theorem actions_execute_at_most_once_witness:
  "\<exists>st es. perform_all sqlite_calls []
       [OpClaim ''a'' (''g'', ''p'', ''s'') (Finite 1) False, OpClaim ''a'' (''g'', ''q'', ''s'') (Finite 2) False,
        OpBegin ''a'' (''g'', ''p'', ''s'') False, OpBegin ''a'' (''g'', ''p'', ''s'') False,
        OpFinish ''a'' True None [] None False, OpFinish ''a'' False None [] None False] = (st, es)
     \<and> of_id ''a'' es = [EvClaim (''g'', ''p'', ''s''), EvBegin (''g'', ''p'', ''s''), EvFinish True]"
proof -
  let ?cs = "[OpClaim ''a'' (''g'', ''p'', ''s'') (Finite 1) False, OpClaim ''a'' (''g'', ''q'', ''s'') (Finite 2) False,
    OpBegin ''a'' (''g'', ''p'', ''s'') False, OpBegin ''a'' (''g'', ''p'', ''s'') False,
    OpFinish ''a'' True None [] None False, OpFinish ''a'' False None [] None False]"
  obtain st es where r: "perform_all sqlite_calls [] ?cs = (st, es)" by (cases "perform_all sqlite_calls [] ?cs")
  then have "store_phase st ''a'' = Finished (''g'', ''p'', ''s'') True"
    by (auto simp: sqlite_calls_def store_claim_def store_begin_def store_finish_def update_where_def admitted_for_def
        valid_action_id_def has_control_def char_code_def store_phase_def phase_in_def)
  with actions_execute_at_most_once[OF r, of "''a''"] r show ?thesis by auto
qed

end
