(* ===== verification/TrustStore.thy ===== *)
theory TrustStore
  imports DelegationSpec
begin

text \<open>
  \<open>enterprise/acp_auth.py\<close>: the owner trust roots, each enrolled by a proof of key possession.
  The store is the content of its table, keyed by fingerprint; an enrolment is one transaction
  that commits or rolls back (\<open>fault\<close>). The answer of the operator and the nonce are arguments.
\<close>

datatype trust_error = TrustValueError | TrustPermissionError | TrustDatabaseError

record trust_root =
  tr_principal :: pystr
  tr_algorithm :: pystr
  tr_public_key :: bytes
  tr_enrolled_at :: time
  tr_active :: bool

type_synonym trust_store = "(pystr \<times> trust_root) list"

definition bounded_principal :: "pystr \<Rightarrow> trust_error + unit" where
  "bounded_principal p = (if p = [] \<or> 256 < length p \<or> has_control p then Inl TrustValueError else Inr ())"

definition algorithm_for_key :: "bytes \<Rightarrow> trust_error + pystr" where
  "algorithm_for_key public_key =
     (if length public_key = 32 then Inr ED25519
      else if length public_key = 96 then Inr ECDSA_P384_SHA384
      else Inl TrustValueError)"

definition trust_verify :: "delegation_crypto \<Rightarrow> pystr \<Rightarrow> bytes \<Rightarrow> bytes \<Rightarrow> bytes \<Rightarrow> bool" where
  "trust_verify dc algorithm public_key payload signature =
     (if algorithm = ED25519 then dc_ed25519 dc payload signature public_key
      else if algorithm = ECDSA_P384_SHA384 then dc_p384 dc payload signature public_key
      else False)"

definition enrollment_prompt :: "pystr \<Rightarrow> pystr \<Rightarrow> pystr" where
  "enrollment_prompt p fingerprint = ''ENROLL '' @ p @ '' '' @ take 16 fingerprint"

definition enrollment_challenge :: "pystr \<Rightarrow> pystr \<Rightarrow> pystr \<Rightarrow> time \<Rightarrow> bytes" where
  "enrollment_challenge p fingerprint nonce now =
     canonical_bytes (JObj [(''schema'', JStr ''selfconnect.acp.owner-enrollment.v1''), (''principal'', JStr p),
       (''publicKeyFingerprint'', JStr fingerprint), (''nonce'', JStr nonce), (''issuedAt'', JFloat now)])"

text \<open>The transaction: a fingerprint bound to other data is refused, a known one is activated again.\<close>

definition enroll_row :: "trust_store \<Rightarrow> pystr \<Rightarrow> trust_root \<Rightarrow> bool \<Rightarrow> trust_store \<times> (trust_error + pystr)" where
  "enroll_row ts fingerprint root fault =
     (if fault then (ts, Inl TrustDatabaseError)
      else case map_of ts fingerprint of
        Some existing \<Rightarrow>
          if tr_principal existing \<noteq> tr_principal root \<or> tr_public_key existing \<noteq> tr_public_key root
          then (ts, Inl TrustValueError)
          else (AList.update fingerprint (existing\<lparr>tr_active := True\<rparr>) ts, Inr fingerprint)
      | None \<Rightarrow> (ts @ [(fingerprint, root)], Inr fingerprint))"

definition enroll_with_signer ::
    "delegation_crypto \<Rightarrow> trust_store \<Rightarrow> pystr \<Rightarrow> signer \<Rightarrow> pyfloat \<Rightarrow> (pystr \<Rightarrow> bool) \<Rightarrow> pystr \<Rightarrow> bool
     \<Rightarrow> trust_store \<times> (trust_error + pystr)" where
  "enroll_with_signer dc ts p sg now confirm nonce fault =
     (case bounded_principal p of
        Inl e \<Rightarrow> (ts, Inl e)
      | Inr _ \<Rightarrow>
          (case now of
             Finite t \<Rightarrow>
               (case algorithm_for_key (sg_public_key sg) of
                  Inl e \<Rightarrow> (ts, Inl e)
                | Inr algorithm \<Rightarrow>
                    (let fingerprint = public_key_fingerprint dc (sg_public_key sg);
                         challenge = enrollment_challenge p fingerprint nonce t in
                     if \<not> confirm (enrollment_prompt p fingerprint) then (ts, Inl TrustPermissionError)
                     else if \<not> trust_verify dc algorithm (sg_public_key sg) challenge (sg_sign sg challenge)
                       then (ts, Inl TrustPermissionError)
                     else enroll_row ts fingerprint
                            \<lparr>tr_principal = p, tr_algorithm = algorithm, tr_public_key = sg_public_key sg,
                             tr_enrolled_at = t, tr_active = True\<rparr> fault))
           | _ \<Rightarrow> (ts, Inl TrustValueError)))"

definition resolve_key :: "trust_store \<Rightarrow> pystr \<Rightarrow> bytes option" where
  "resolve_key ts fingerprint =
     (case map_of ts fingerprint of
        Some root \<Rightarrow> if tr_active root then Some (tr_public_key root) else None
      | None \<Rightarrow> None)"

definition has_active_root :: "trust_store \<Rightarrow> bool" where
  "has_active_root ts \<longleftrightarrow> list_ex (\<lambda>r. tr_active (snd r)) ts"

definition trust_deactivate :: "trust_store \<Rightarrow> pystr \<Rightarrow> trust_store \<times> bool" where
  "trust_deactivate ts fingerprint =
     (case map_of ts fingerprint of
        Some root \<Rightarrow> if tr_active root then (AList.update fingerprint (root\<lparr>tr_active := False\<rparr>) ts, True) else (ts, False)
      | None \<Rightarrow> (ts, False))"

subsection \<open>The store as a state machine\<close>

datatype trust_op =
    Enroll pystr signer pyfloat "pystr \<Rightarrow> bool" pystr bool
  | Deactivate pystr

fun trust_step :: "delegation_crypto \<Rightarrow> trust_store \<Rightarrow> trust_op \<Rightarrow> trust_store" where
  "trust_step dc ts (Enroll p sg now confirm nonce fault) = fst (enroll_with_signer dc ts p sg now confirm nonce fault)"
| "trust_step dc ts (Deactivate fingerprint) = fst (trust_deactivate ts fingerprint)"

definition root_ok :: "delegation_crypto \<Rightarrow> pystr \<times> trust_root \<Rightarrow> bool" where
  "root_ok dc r \<longleftrightarrow> fst r = public_key_fingerprint dc (tr_public_key (snd r))
     \<and> algorithm_for_key (tr_public_key (snd r)) = Inr (tr_algorithm (snd r))
     \<and> bounded_principal (tr_principal (snd r)) = Inr ()"

definition trust_inv :: "delegation_crypto \<Rightarrow> trust_store \<Rightarrow> bool" where
  "trust_inv dc ts \<longleftrightarrow> wf_dict ts \<and> (\<forall>r\<in>set ts. root_ok dc r)"

lemma trust_inv_update:
  assumes "trust_inv dc ts" "map_of ts f = Some root"
  shows "trust_inv dc (AList.update f (root\<lparr>tr_active := b\<rparr>) ts)"
proof -
  have "(f, root) \<in> set ts" using assms(2) by (rule map_of_SomeD)
  then have "root_ok dc (f, root\<lparr>tr_active := b\<rparr>)" using assms(1) by (auto simp: trust_inv_def root_ok_def)
  with assms(1) set_update_subset[of f "root\<lparr>tr_active := b\<rparr>" ts] show ?thesis by (auto simp: trust_inv_def)
qed

lemma trust_step_inv:
  assumes "trust_inv dc ts"
  shows "trust_inv dc (trust_step dc ts c)"
proof (cases c)
  case (Enroll p sg now confirm nonce fault)
  then show ?thesis using assms
    by (auto simp: enroll_with_signer_def enroll_row_def Let_def intro: trust_inv_update split: sum.splits pyfloat.splits option.splits)
      (auto simp: trust_inv_def root_ok_def wf_dict_append)
next
  case (Deactivate f)
  with assms show ?thesis by (auto simp: trust_deactivate_def intro: trust_inv_update split: option.splits)
qed

text \<open>What can make a fingerprint resolve that did not: an enrolment that proved possession of its key.\<close>

definition proves_possession :: "delegation_crypto \<Rightarrow> trust_op \<Rightarrow> bytes \<Rightarrow> bool" where
  "proves_possession dc c key \<longleftrightarrow> (\<exists>p sg t confirm nonce algorithm. c = Enroll p sg (Finite t) confirm nonce False
     \<and> sg_public_key sg = key \<and> confirm (enrollment_prompt p (public_key_fingerprint dc key))
     \<and> algorithm_for_key key = Inr algorithm
     \<and> (let challenge = enrollment_challenge p (public_key_fingerprint dc key) nonce t in
        trust_verify dc algorithm key challenge (sg_sign sg challenge)))"

lemma trust_step_resolves:
  assumes "trust_inv dc ts" "resolve_key (trust_step dc ts c) f = Some key" "resolve_key ts f \<noteq> Some key"
  shows "proves_possession dc c key \<and> f = public_key_fingerprint dc key"
proof (cases c)
  case (Enroll p sg now confirm nonce fault)
  have known: "tr_public_key root = key \<Longrightarrow> map_of ts f = Some root \<Longrightarrow> f = public_key_fingerprint dc key" for root
    using assms(1) by (auto simp: trust_inv_def root_ok_def dest!: map_of_SomeD)
  show ?thesis using assms(2,3) known unfolding Enroll
    by (auto simp: enroll_with_signer_def enroll_row_def resolve_key_def proves_possession_def Let_def map_of_append_new
        simp del: map_of_append split: sum.splits pyfloat.splits option.splits if_splits)
next
  case (Deactivate f')
  with assms(2,3) show ?thesis
    by (auto simp: trust_deactivate_def resolve_key_def split: option.splits if_splits)
qed

lemma trust_run_inv: "trust_inv dc (foldl (trust_step dc) [] cs)"
  by (induction cs rule: rev_induct) (auto intro: trust_step_inv simp: trust_inv_def[of _ "[]"])

lemma deactivated_unresolved: "resolve_key (trust_step dc ts (Deactivate f)) f = None"
  by (auto simp: trust_deactivate_def resolve_key_def split: option.splits)

text \<open>
  C21. A trusted key was proved: after any sequence of enrolments (confirmed or not, failing or
  not) and deactivations of an empty store, a fingerprint resolves to a key only if it is the
  fingerprint of that key and the sequence holds a confirmed enrolment in which the key's owner
  signed the fresh challenge, with no deactivation of the fingerprint after it.
\<close>

theorem trusted_key_was_proved:
  assumes "resolve_key (foldl (trust_step dc) [] cs) f = Some key"
  shows "f = public_key_fingerprint dc key
    \<and> (\<exists>pre c post. cs = pre @ c # post \<and> proves_possession dc c key \<and> Deactivate f \<notin> set post)"
  using assms
proof (induction cs rule: rev_induct)
  case (snoc c cs)
  show ?case
  proof (cases "resolve_key (foldl (trust_step dc) [] cs) f = Some key")
    case True
    with snoc.IH obtain pre c' post where
      *: "f = public_key_fingerprint dc key" "cs = pre @ c' # post" "proves_possession dc c' key" "Deactivate f \<notin> set post"
      by blast
    moreover have "c \<noteq> Deactivate f" using snoc.prems deactivated_unresolved by fastforce
    ultimately have "cs @ [c] = pre @ c' # (post @ [c])" "Deactivate f \<notin> set (post @ [c])" by auto
    with *(1,3) show ?thesis by blast
  next
    case False
    with trust_step_resolves[OF trust_run_inv, of dc cs c f key] snoc.prems
    have "proves_possession dc c key \<and> f = public_key_fingerprint dc key" by simp
    then show ?thesis by (metis empty_iff empty_set)
  qed
qed (simp add: resolve_key_def)

theorem trusted_key_was_proved_witness:
  "\<exists>pre c post. [Enroll ''owner'' (demo_signer CHR ''i'') (Finite 3) (\<lambda>_. True) ''n'' False] = pre @ c # post
     \<and> proves_possession demo_delegation c (replicate 32 (CHR ''i''))"
proof -
  let ?k = "replicate 32 (CHR ''i'')" and ?cs = "[Enroll ''owner'' (demo_signer CHR ''i'') (Finite 3) (\<lambda>_. True) ''n'' False]"
  have "resolve_key (foldl (trust_step demo_delegation) [] ?cs) (public_key_fingerprint demo_delegation ?k) = Some ?k"
    by (simp add: enroll_with_signer_def bounded_principal_def has_control_def char_code_def algorithm_for_key_def demo_signer_def
        Let_def trust_verify_def demo_delegation_def enroll_row_def resolve_key_def)
  from trusted_key_was_proved[OF this] show ?thesis by blast
qed

end
