(* ===== verification/AcpShim.thy ===== *)
theory AcpShim
  imports Revocation ReplayStore TrustStore
begin

text \<open>
  \<open>ACPShim\<close> of \<open>enterprise/acp_shim.py\<close>: the JSON-RPC handler in front of the governed backend.
  Its state is the session table, the replay store, the optional trust store and the state of
  the backend; \<open>handle\<close> takes one message and gives the new state and the messages to send, in
  JSON. What a request reads from outside (clock, a fresh session identifier, the issuer resolver,
  the answer of the revocation provider, the path rules of the platform, \<open>json.loads\<close>, failing
  database statements) is the record \<open>acp_env\<close>; the backend is the record \<open>backend\<close> of its
  methods. \<open>ShimError\<close> is \<open>ACPShimError\<close> with its code and message; any other exception that
  reaches \<open>handle\<close> is \<open>InternalError\<close>.
\<close>

definition ACP_PROTOCOL_VERSION :: int where
  "ACP_PROTOCOL_VERSION = 1"

definition ACP_ACTION_SCHEMA :: pystr where
  "ACP_ACTION_SCHEMA = ''selfconnect.acp.governed-action.v1''"

definition JSONRPC_VERSION :: pystr where
  "JSONRPC_VERSION = ''2.0''"

definition MAX_MESSAGE_BYTES :: nat where
  "MAX_MESSAGE_BYTES = 1048576"

definition MAX_SESSIONS :: nat where
  "MAX_SESSIONS = 1024"

definition PROTECTED_DELEGATED_TOOLS :: "pystr list" where
  "PROTECTED_DELEGATED_TOOLS =
     [''sc_inject_text'', ''sc_read_output'', ''sc_request_lease'', ''sc_request_target_lease'', ''sc_revoke_lease'',
      ''sc_identity_sign'', ''sc_session_stamp'', ''sc_channel_route'']"

datatype acp_exception = ShimError int pystr | InternalError

subsection \<open>Reasons in words\<close>

primrec reason_text :: "verification_reason \<Rightarrow> pystr" where
  "reason_text Ok = ''ok''"
| "reason_text VerificationTimeInvalid = ''verification time is invalid''"
| "reason_text SignatureEncodingInvalid = ''signature encoding is invalid''"
| "reason_text IssuerNotTrusted = ''delegation issuer is not the trusted authority''"
| "reason_text AuthoritySignatureInvalid = ''delegation authority signature is invalid''"
| "reason_text DifferentGrant = ''action proof references a different delegation grant''"
| "reason_text AuthorNotSubject = ''action author is not the delegated subject''"
| "reason_text AgentSignatureInvalid = ''agent action signature is invalid''"
| "reason_text NotYetValid = ''delegation is not yet valid''"
| "reason_text Expired = ''delegation is expired''"
| "reason_text OutsideWindow = ''action time is outside the delegation verification window''"
| "reason_text GrantRevoked = ''delegation grant is revoked''"
| "reason_text AgentRevokedReason = ''delegated agent is revoked''"
| "reason_text StaleCheckpoint = ''delegation revocation checkpoint is stale''"
| "reason_text ActionConsumed = ''action id has already been consumed''"
| "reason_text OutsideScope = ''action is outside the delegated scope''"
| "reason_text ModeMismatch = ''governance mode does not match delegation''"
| "reason_text ClassificationMismatch = ''classification is not authorized by this exact-match grant''"
| "reason_text (TargetMismatch key) = ''target constraint '' @ py_repr key @ '' does not match delegation''"
| "reason_text PayloadMismatch = ''payload digest does not match the action proof''"
| "reason_text ReceiptEncodingInvalid = ''receipt signature encoding is invalid''"
| "reason_text ExecutorNotTrusted = ''receipt signer is not the trusted executor''"
| "reason_text ExecutorMismatch = ''receipt executor identity does not match''"
| "reason_text AuthorizationMismatch = ''receipt authorization binding does not match''"
| "reason_text ActionMismatch = ''receipt action binding does not match''"
| "reason_text DelegateMismatch = ''receipt delegated-author binding does not match''"
| "reason_text StatusMismatch = ''receipt result status does not match''"
| "reason_text TargetDigestMismatch = ''receipt target digest does not match''"
| "reason_text ReceiptIdMismatch = ''receipt id does not match its bindings''"
| "reason_text ReceiptSignatureInvalid = ''receipt signature is invalid''"
| "reason_text ResultDigestMismatch = ''receipt result digest does not match''"
| "reason_text LedgerHeadMismatch = ''receipt ledger head does not match''"

subsection \<open>Backends\<close>

text \<open>
  A backend has \<open>call_tool\<close> and may have \<open>call_delegated_tool\<close>; an exception carries its text.
  \<open>bk_exact\<close> says whether its type is \<open>GovernedRuntimeBackend\<close> itself.
\<close>

record 'b backend =
  bk_exact :: bool
  bk_call_tool :: "'b \<Rightarrow> pystr \<Rightarrow> json_object \<Rightarrow> 'b \<times> (pystr + json)"
  bk_call_delegated :: "('b \<Rightarrow> pystr \<Rightarrow> json_object \<Rightarrow> grant \<Rightarrow> action_proof \<Rightarrow> bytes \<Rightarrow> pystr \<Rightarrow> 'b \<times> (pystr + json)) option"

definition governed_call_tool ::
    "('b \<Rightarrow> pystr \<Rightarrow> json_object \<Rightarrow> 'b \<times> (pystr + json)) \<Rightarrow> 'b \<Rightarrow> pystr \<Rightarrow> json_object \<Rightarrow> 'b \<times> (pystr + json)" where
  "governed_call_tool dispatcher b name args =
     (case dispatcher b name args of
        (b', Inl e) \<Rightarrow> (b', Inl e)
      | (b', Inr v) \<Rightarrow> (b', if jget v ''ok'' = Some (JBool True) then Inr v else Inl ''governed runtime denied the action''))"

definition governed_call_delegated_tool ::
    "('b \<Rightarrow> pystr \<Rightarrow> json_object \<Rightarrow> grant \<Rightarrow> action_proof \<Rightarrow> bytes \<Rightarrow> pystr \<Rightarrow> 'b \<times> (pystr + json))
     \<Rightarrow> 'b \<Rightarrow> pystr \<Rightarrow> json_object \<Rightarrow> grant \<Rightarrow> action_proof \<Rightarrow> bytes \<Rightarrow> pystr \<Rightarrow> 'b \<times> (pystr + json)" where
  "governed_call_delegated_tool dispatcher b name args g p payload sid =
     (case dispatcher b name args g p payload sid of
        (b', Inl e) \<Rightarrow> (b', Inl e)
      | (b', Inr v) \<Rightarrow>
          (b', if jget v ''delegated_receipt'' \<noteq> None then Inr v else Inl ''governed runtime returned no signed completion receipt''))"

definition governed_backend ::
    "('b \<Rightarrow> pystr \<Rightarrow> json_object \<Rightarrow> 'b \<times> (pystr + json))
     \<Rightarrow> ('b \<Rightarrow> pystr \<Rightarrow> json_object \<Rightarrow> grant \<Rightarrow> action_proof \<Rightarrow> bytes \<Rightarrow> pystr \<Rightarrow> 'b \<times> (pystr + json)) \<Rightarrow> 'b backend" where
  "governed_backend call_tool call_delegated =
     \<lparr>bk_exact = True, bk_call_tool = governed_call_tool call_tool,
      bk_call_delegated = Some (governed_call_delegated_tool call_delegated)\<rparr>"

subsection \<open>State\<close>

record session =
  se_session_id :: pystr
  se_cwd :: pystr
  se_client_name :: pystr
  se_cancelled :: bool
  se_agent_ids :: "pystr set"

record 'b acp_shim =
  ac_sessions :: "(pystr \<times> session) list"
  ac_client_name :: pystr
  ac_initialized :: bool
  ac_replay :: replay_store
  ac_trust :: "trust_store option"
  ac_backend :: 'b
  ac_setup_args :: "pystr list"

definition shim_init :: "replay_store \<Rightarrow> trust_store option \<Rightarrow> 'b \<Rightarrow> pystr list \<Rightarrow> 'b acp_shim" where
  "shim_init replay trust b setup_args =
     \<lparr>ac_sessions = [], ac_client_name = ''unknown-acp-client'', ac_initialized = False, ac_replay = replay,
      ac_trust = trust, ac_backend = b, ac_setup_args = setup_args\<rparr>"

datatype revocation_answer = ProviderRaised | NotASnapshot | Answer revocation_state

record acp_env =
  en_crypto :: delegation_crypto
  en_issuer :: "pystr \<Rightarrow> bytes option"
  en_revocations :: revocation_answer
  en_clock :: pyfloat
  en_uuid :: pystr
  en_path :: "pystr \<Rightarrow> pystr option"
  en_loads :: "pystr \<Rightarrow> json option"
  en_claim_fault :: bool
  en_begin_fault :: bool
  en_finish_fault :: bool

definition drop_session :: "'b acp_shim \<Rightarrow> pystr \<Rightarrow> 'b acp_shim" where
  "drop_session sh sid = sh\<lparr>ac_sessions := AList.delete sid (ac_sessions sh)\<rparr>"

definition update_session :: "'b acp_shim \<Rightarrow> pystr \<Rightarrow> (session \<Rightarrow> session) \<Rightarrow> 'b acp_shim" where
  "update_session sh sid f =
     (case map_of (ac_sessions sh) sid of
        None \<Rightarrow> sh
      | Some se \<Rightarrow> sh\<lparr>ac_sessions := AList.update sid (f se) (ac_sessions sh)\<rparr>)"

definition apply_revocations :: "'b acp_shim \<Rightarrow> revocation_state \<Rightarrow> 'b acp_shim \<times> pystr list" where
  "apply_revocations sh s =
     (let hit = (\<lambda>se. se_agent_ids se \<inter> rs_revoked_agent_key_ids s \<noteq> {}) in
      (sh\<lparr>ac_sessions := filter (\<lambda>e. \<not> hit (snd e)) (ac_sessions sh)\<rparr>,
       sort (map fst (filter (\<lambda>e. hit (snd e)) (ac_sessions sh)))))"

definition current_revocations :: "acp_env \<Rightarrow> acp_exception + revocation_state" where
  "current_revocations env =
     (case en_revocations env of
        ProviderRaised \<Rightarrow> Inl (ShimError (-32010) ''revocation state is unavailable'')
      | NotASnapshot \<Rightarrow> Inl (ShimError (-32010) ''revocation provider returned invalid state'')
      | Answer s \<Rightarrow> Inr s)"

definition refresh_revocations :: "acp_env \<Rightarrow> 'b acp_shim \<Rightarrow> 'b acp_shim \<times> (acp_exception + pystr list)" where
  "refresh_revocations env sh =
     (case current_revocations env of
        Inl e \<Rightarrow> (sh, Inl e)
      | Inr s \<Rightarrow> (case apply_revocations sh s of (sh', removed) \<Rightarrow> (sh', Inr removed)))"

subsection \<open>Methods\<close>

definition acp_action_payload :: "pystr \<Rightarrow> pystr \<Rightarrow> pystr \<Rightarrow> json_object \<Rightarrow> json list \<Rightarrow> bytes" where
  "acp_action_payload sid cwd tool args links =
     canonical_bytes (JObj [(''schema'', JStr ACP_ACTION_SCHEMA), (''sessionId'', JStr sid), (''cwd'', JStr cwd),
       (''tool'', JStr tool), (''arguments'', JObj args), (''resourceLinks'', JArr links)])"

definition validate_envelope :: "json_object \<Rightarrow> acp_exception + pystr" where
  "validate_envelope message =
     (if MAX_MESSAGE_BYTES < length (canonical_bytes (JObj message))
      then Inl (ShimError (-32600) ''request exceeds maximum size'')
      else case kw message ''method'' of
        JStr meth \<Rightarrow>
          if kw message ''jsonrpc'' \<noteq> JStr JSONRPC_VERSION then Inl (ShimError (-32600) ''invalid JSON-RPC request'')
          else if \<not> set (map fst message) \<subseteq> {''jsonrpc'', ''id'', ''method'', ''params''}
            then Inl (ShimError (-32600) ''unexpected JSON-RPC fields'')
          else Inr meth
      | _ \<Rightarrow> Inl (ShimError (-32600) ''invalid JSON-RPC request''))"

text \<open>\<open>_require_active_auth\<close>.\<close>

definition active_auth :: "'b acp_shim \<Rightarrow> bool" where
  "active_auth sh = (case ac_trust sh of None \<Rightarrow> True | Some ts \<Rightarrow> has_active_root ts)"

definition auth_required :: acp_exception where
  "auth_required = ShimError (-32000) ''authentication required''"

definition terminal_auth :: "'b acp_shim \<Rightarrow> json_object \<Rightarrow> bool" where
  "terminal_auth sh params \<longleftrightarrow> ac_trust sh \<noteq> None
     \<and> (case dict_get params ''clientCapabilities'' (JObj []) of
          JObj caps \<Rightarrow> (case kw caps ''auth'' of JObj auth \<Rightarrow> kw auth ''terminal'' = JBool True | _ \<Rightarrow> False)
        | _ \<Rightarrow> False)"

definition initialize_result :: "'b acp_shim \<Rightarrow> json_object \<Rightarrow> json" where
  "initialize_result sh params =
     JObj [(''protocolVersion'', JInt ACP_PROTOCOL_VERSION),
       (''agentCapabilities'', JObj [(''loadSession'', JBool False),
          (''promptCapabilities'', JObj [(''image'', JBool False), (''audio'', JBool False), (''embeddedContext'', JBool False)]),
          (''mcpCapabilities'', JObj [(''http'', JBool False), (''sse'', JBool False)]),
          (''sessionCapabilities'', JObj []), (''auth'', JObj [])]),
       (''authMethods'', JArr (if terminal_auth sh params then
          [JObj [(''id'', JStr ''selfconnect-owner-enrollment''), (''name'', JStr ''Enroll SelfConnect owner key''),
             (''description'', JStr ''Prove owner-key possession in an interactive terminal setup''),
             (''type'', JStr ''terminal''), (''args'', JArr (map JStr (ac_setup_args sh))), (''env'', JObj [])]] else [])),
       (''agentInfo'', JObj [(''name'', JStr ''selfconnect-governed-acp''), (''title'', JStr ''SelfConnect Governed ACP''),
          (''version'', JStr ''0.1.0'')]),
       (''_meta'', JObj [(''selfconnect'', JObj [(''actionSchema'', JStr ACP_ACTION_SCHEMA),
          (''authorization'', JStr ''owner-signed-grant''), (''authorship'', JStr ''agent-signed-action'')])])]"

definition client_name_of :: "json_object \<Rightarrow> pystr \<Rightarrow> pystr" where
  "client_name_of params old =
     (case kw params ''clientInfo'' of
        JObj info \<Rightarrow> (case kw info ''name'' of JStr name \<Rightarrow> take 256 name | _ \<Rightarrow> old)
      | _ \<Rightarrow> old)"

definition acp_initialize :: "'b acp_shim \<Rightarrow> json_object \<Rightarrow> 'b acp_shim \<times> (acp_exception + json)" where
  "acp_initialize sh params =
     (if \<not> is_integer (kw params ''protocolVersion'') then (sh, Inl (ShimError (-32602) ''protocolVersion must be an integer''))
      else let sh' = sh\<lparr>ac_client_name := client_name_of params (ac_client_name sh), ac_initialized := True\<rparr> in
           (sh', Inr (initialize_result sh' params)))"

definition acp_new_session :: "acp_env \<Rightarrow> 'b acp_shim \<Rightarrow> json_object \<Rightarrow> 'b acp_shim \<times> (acp_exception + json)" where
  "acp_new_session env sh params =
     (if \<not> ac_initialized sh then (sh, Inl (ShimError (-32002) ''initialize must be called first''))
      else if \<not> active_auth sh then (sh, Inl auth_required)
      else case (case kw params ''cwd'' of JStr s \<Rightarrow> en_path env s | _ \<Rightarrow> None) of
        None \<Rightarrow> (sh, Inl (ShimError (-32602) ''cwd must be an absolute path''))
      | Some cwd \<Rightarrow>
          (case kw params ''mcpServers'' of
             JArr servers \<Rightarrow>
               if servers \<noteq> [] then (sh, Inl (ShimError (-32602) ''MCP server forwarding is not supported by this shim''))
               else if MAX_SESSIONS \<le> length (ac_sessions sh) then (sh, Inl (ShimError (-32003) ''session limit reached''))
               else (sh\<lparr>ac_sessions := AList.update (en_uuid env)
                         \<lparr>se_session_id = en_uuid env, se_cwd = cwd, se_client_name = ac_client_name sh,
                          se_cancelled = False, se_agent_ids = {}\<rparr> (ac_sessions sh)\<rparr>,
                     Inr (JObj [(''sessionId'', JStr (en_uuid env))]))
           | _ \<Rightarrow> (sh, Inl (ShimError (-32602) ''mcpServers must be an array''))))"

definition get_session :: "'b acp_shim \<Rightarrow> json \<Rightarrow> acp_exception + session" where
  "get_session sh v =
     (case v of
        JStr sid \<Rightarrow> (case map_of (ac_sessions sh) sid of
                      None \<Rightarrow> Inl (ShimError (-32001) ''unknown session'')
                    | Some se \<Rightarrow> Inr se)
      | _ \<Rightarrow> Inl (ShimError (-32602) ''sessionId must be a string''))"

definition acp_cancel :: "'b acp_shim \<Rightarrow> json_object \<Rightarrow> 'b acp_shim \<times> (acp_exception + unit)" where
  "acp_cancel sh params =
     (case get_session sh (kw params ''sessionId'') of
        Inl e \<Rightarrow> (sh, Inl e)
      | Inr se \<Rightarrow> (update_session sh (se_session_id se) (\<lambda>x. x\<lparr>se_cancelled := True\<rparr>), Inr ()))"

subsection \<open>Prompts\<close>

definition as_text :: "json \<Rightarrow> pystr option" where
  "as_text v = (case v of JStr s \<Rightarrow> Some s | _ \<Rightarrow> None)"

definition parse_block :: "json \<Rightarrow> acp_exception + (pystr list \<times> json list)" where
  "parse_block block =
     (case block of
        JObj d \<Rightarrow>
          if kw d ''type'' = JStr ''text'' \<and> as_text (kw d ''text'') \<noteq> None
          then Inr ([the (as_text (kw d ''text''))], [])
          else if kw d ''type'' = JStr ''resource_link'' then
            (if as_text (kw d ''name'') = None \<or> as_text (kw d ''uri'') = None
             then Inl (ShimError (-32602) ''resource link requires name and uri'')
             else Inr ([], [JObj d]))
          else Inl (ShimError (-32602) ''unsupported prompt content block'')
      | _ \<Rightarrow> Inl (ShimError (-32602) ''prompt content blocks must be objects''))"

fun parse_blocks :: "json list \<Rightarrow> acp_exception + pystr list \<times> json list" where
  "parse_blocks [] = Inr ([], [])"
| "parse_blocks (block # blocks) =
     bind_result (parse_block block) (\<lambda>(texts, links).
       map_result (map_prod (append texts) (append links)) (parse_blocks blocks))"

definition ACTION_ENVELOPE_FIELDS :: "pystr list" where
  "ACTION_ENVELOPE_FIELDS = [''schema'', ''tool'', ''arguments'', ''delegationGrant'', ''actionProof'']"

definition parse_prompt :: "acp_env \<Rightarrow> json list \<Rightarrow> acp_exception + json_object \<times> json list" where
  "parse_prompt env blocks =
     bind_result (parse_blocks blocks) (\<lambda>(texts, links).
       case texts of
         [text] \<Rightarrow>
           (case en_loads env text of
              None \<Rightarrow> Inl (ShimError (-32602) ''governed action text must be JSON'')
            | Some (JObj envelope) \<Rightarrow>
                if kw envelope ''schema'' \<noteq> JStr ACP_ACTION_SCHEMA
                then Inl (ShimError (-32602) ''unsupported governed action schema'')
                else if set (map fst envelope) \<noteq> set ACTION_ENVELOPE_FIELDS
                then Inl (ShimError (-32602) ''governed action envelope fields are invalid'')
                else Inr (envelope, links)
            | Some _ \<Rightarrow> Inl (ShimError (-32602) ''unsupported governed action schema''))
       | _ \<Rightarrow> Inl (ShimError (-32602) ''prompt must contain exactly one governed-action text block''))"

text \<open>
  \<open>dict(value)\<close>: a mapping, or an array of pairs, where a pair is an array of two values, a text
  of two characters or an object of two keys; every failure is a \<open>TypeError\<close> or \<open>ValueError\<close>.
\<close>

definition pair_of :: "json \<Rightarrow> (pystr \<times> json) option" where
  "pair_of x =
     (case x of
        JArr xs \<Rightarrow> (case xs of [JStr k, v] \<Rightarrow> Some (k, v) | _ \<Rightarrow> None)
      | JStr s \<Rightarrow> (case s of [a, b] \<Rightarrow> Some ([a], JStr [b]) | _ \<Rightarrow> None)
      | JObj kvs \<Rightarrow> (case kvs of [kv, kv'] \<Rightarrow> Some (fst kv, JStr (fst kv')) | _ \<Rightarrow> None)
      | _ \<Rightarrow> None)"

fun pairs_of :: "json list \<Rightarrow> json_object option" where
  "pairs_of [] = Some []"
| "pairs_of (x # xs) =
     (case (pair_of x, pairs_of xs) of (Some kv, Some kvs) \<Rightarrow> Some (kv # kvs) | _ \<Rightarrow> None)"

definition as_dict :: "json \<Rightarrow> json_object option" where
  "as_dict v =
     (case v of
        JObj d \<Rightarrow> Some d
      | JArr xs \<Rightarrow> map_option (foldl (\<lambda>d kv. AList.update (fst kv) (snd kv) d) []) (pairs_of xs)
      | JStr s \<Rightarrow> if s = [] then Some [] else None
      | _ \<Rightarrow> None)"

definition signed_objects :: "delegation_crypto \<Rightarrow> json_object \<Rightarrow> (grant \<times> action_proof) option" where
  "signed_objects dc envelope =
     (case (as_dict (kw envelope ''delegationGrant''), as_dict (kw envelope ''actionProof'')) of
        (Some gd, Some pd) \<Rightarrow>
          (case (grant_from_dict dc gd, proof_from_dict dc pd) of
             (Inr g, Inr p) \<Rightarrow> Some (g, p)
           | _ \<Rightarrow> None)
      | _ \<Rightarrow> None)"

record governed_action =
  ga_tool :: pystr
  ga_arguments :: json_object
  ga_links :: "json list"
  ga_grant :: grant
  ga_proof :: action_proof

definition action_of_envelope :: "delegation_crypto \<Rightarrow> json_object \<Rightarrow> json list \<Rightarrow> acp_exception + governed_action" where
  "action_of_envelope dc envelope links =
     (case kw envelope ''tool'' of
        JStr tool \<Rightarrow>
          if tool = [] \<or> 256 < length tool then Inl (ShimError (-32602) ''governed action tool is invalid'')
          else (case kw envelope ''arguments'' of
            JObj args \<Rightarrow>
              (case signed_objects dc envelope of
                 None \<Rightarrow> Inl (ShimError (-32602) ''delegation grant or action proof is invalid'')
               | Some (g, p) \<Rightarrow>
                   if pr_action p \<noteq> tool then Inl (ShimError (-32010) ''action proof does not name the requested tool'')
                   else Inr \<lparr>ga_tool = tool, ga_arguments = args, ga_links = links, ga_grant = g, ga_proof = p\<rparr>)
          | _ \<Rightarrow> Inl (ShimError (-32602) ''governed action arguments must be an object''))
      | _ \<Rightarrow> Inl (ShimError (-32602) ''governed action tool is invalid''))"

definition read_action :: "acp_env \<Rightarrow> json_object \<Rightarrow> acp_exception + governed_action" where
  "read_action env params =
     (case kw params ''prompt'' of
        JArr (block # blocks) \<Rightarrow>
          bind_result (parse_prompt env (block # blocks)) (\<lambda>(envelope, links). action_of_envelope (en_crypto env) envelope links)
      | _ \<Rightarrow> Inl (ShimError (-32602) ''prompt must be a non-empty array''))"

definition action_payload :: "session \<Rightarrow> governed_action \<Rightarrow> bytes" where
  "action_payload se a = acp_action_payload (se_session_id se) (se_cwd se) (ga_tool a) (ga_arguments a) (ga_links a)"

text \<open>The issuer, the revocation state and the verification of an action, before anything is executed.\<close>

definition judge_action ::
    "acp_env \<Rightarrow> session \<Rightarrow> governed_action \<Rightarrow> acp_exception + revocation_state \<times> delegation_verification" where
  "judge_action env se a =
     (case en_issuer env (gr_issuer_key_fingerprint (ga_grant a)) of
        None \<Rightarrow> Inl (ShimError (-32010) ''delegation issuer is not trusted'')
      | Some issuer_key \<Rightarrow>
          bind_result (current_revocations env) (\<lambda>s.
            case verify_delegated_action (en_crypto env) (ga_grant a) (ga_proof a) (en_clock env)
                   (Some (action_payload se a)) (Some issuer_key) (revocation_inputs s) of
              Inl _ \<Rightarrow> Inl InternalError
            | Inr v \<Rightarrow> Inr (s, v)))"

definition agent_principal :: "delegation_crypto \<Rightarrow> action_proof \<Rightarrow> pystr option" where
  "agent_principal dc p = map_option (canonical_agent_id dc) (fromhex (pr_agent_public_key_hex p))"

fun has_substring :: "pystr \<Rightarrow> pystr \<Rightarrow> bool" where
  "has_substring needle [] = (needle = [])"
| "has_substring needle (c # s) = (startswith (c # s) needle \<or> has_substring needle s)"

definition already_consumed :: acp_exception where
  "already_consumed = ShimError (-32010) ''delegation denied: action id has already been consumed''"

definition backend_rejected :: acp_exception where
  "backend_rejected = ShimError (-32011) ''governed backend rejected the action''"

text \<open>The backend call of an accepted action, through the replay store where the backend has no delegated entry.\<close>

definition execute_action ::
    "acp_env \<Rightarrow> 'b backend \<Rightarrow> 'b acp_shim \<Rightarrow> session \<Rightarrow> governed_action \<Rightarrow> 'b acp_shim \<times> (acp_exception + json)" where
  "execute_action env bk sh se a =
     (if ga_tool a \<in> set PROTECTED_DELEGATED_TOOLS \<and> \<not> bk_exact bk
      then (sh, Inl (ShimError (-32011) ''protected action requires the exact governed runtime backend''))
      else case bk_call_delegated bk of
        Some call \<Rightarrow>
          (case call (ac_backend sh) (ga_tool a) (ga_arguments a) (ga_grant a) (ga_proof a) (action_payload se a) (se_session_id se) of
             (b', Inr result) \<Rightarrow> (sh\<lparr>ac_backend := b'\<rparr>, Inr result)
           | (b', Inl text) \<Rightarrow>
               (sh\<lparr>ac_backend := b'\<rparr>,
                Inl (if has_substring ''already been consumed'' text \<or> text = ''replay'' then already_consumed else backend_rejected)))
      | None \<Rightarrow>
          if ga_tool a \<in> set PROTECTED_DELEGATED_TOOLS
          then (sh, Inl (ShimError (-32011) ''protected action requires a delegated backend''))
          else
            (let dc = en_crypto env; i = pr_action_id (ga_proof a);
                 adm = (grant_id dc (ga_grant a), proof_id dc (ga_proof a), se_session_id se) in
             case store_claim (ac_replay sh) i adm (en_clock env) (en_claim_fault env) of
               (st1, Inl _) \<Rightarrow> (sh\<lparr>ac_replay := st1\<rparr>, Inl InternalError)
             | (st1, Inr False) \<Rightarrow> (sh\<lparr>ac_replay := st1\<rparr>, Inl already_consumed)
             | (st1, Inr True) \<Rightarrow>
                 (case store_begin st1 i adm (en_begin_fault env) of
                    (st2, Inl _) \<Rightarrow> (sh\<lparr>ac_replay := st2\<rparr>, Inl InternalError)
                  | (st2, Inr False) \<Rightarrow>
                      (sh\<lparr>ac_replay := st2\<rparr>, Inl (ShimError (-32010) ''delegation denied: action was not admitted for execution''))
                  | (st2, Inr True) \<Rightarrow>
                      (case bk_call_tool bk (ac_backend sh) (ga_tool a) (ga_arguments a) of
                         (b', r) \<Rightarrow>
                           (case store_finish st2 i (is_ok r) None [] None (en_finish_fault env) of
                              (st3, fin) \<Rightarrow>
                                (sh\<lparr>ac_replay := st3, ac_backend := b'\<rparr>,
                                 (case fin of
                                    Inl _ \<Rightarrow> Inl InternalError
                                  | Inr _ \<Rightarrow> (case r of Inl _ \<Rightarrow> Inl backend_rejected | Inr result \<Rightarrow> Inr result))))))))"

definition is_object :: "json \<Rightarrow> bool" where
  "is_object v = (case v of JObj _ \<Rightarrow> True | _ \<Rightarrow> False)"

definition session_update :: "delegation_crypto \<Rightarrow> session \<Rightarrow> governed_action \<Rightarrow> json_object \<Rightarrow> json" where
  "session_update dc se a result =
     JObj [(''jsonrpc'', JStr JSONRPC_VERSION), (''method'', JStr ''session/update''),
       (''params'', JObj [(''sessionId'', JStr (se_session_id se)),
          (''update'', JObj [(''sessionUpdate'', JStr ''agent_message_chunk''),
             (''content'', JObj [(''type'', JStr ''text''), (''text'', JStr (dumps False (JObj result)))]),
             (''_meta'', JObj [(''selfconnect'', JObj [(''grantId'', JStr (grant_id dc (ga_grant a))),
                (''proofId'', JStr (proof_id dc (ga_proof a))), (''agentId'', JStr (pr_agent_id (ga_proof a))),
                (''authorization'', JStr (gr_issuer_principal (ga_grant a))),
                (''authorship'', JStr (pr_agent_id (ga_proof a))),
                (''completionReceipt'', kw result ''delegated_receipt'')])])])])]"

text \<open>After the backend call: the receipt of a protected action, the binding of the session, the update message.\<close>

definition conclude_action ::
    "acp_env \<Rightarrow> 'b acp_shim \<Rightarrow> session \<Rightarrow> governed_action \<Rightarrow> json \<Rightarrow> 'b acp_shim \<times> (acp_exception + json list \<times> json)" where
  "conclude_action env sh se a result =
     (if ga_tool a \<in> set PROTECTED_DELEGATED_TOOLS
         \<and> (case jget result ''delegated_receipt'' of Some d \<Rightarrow> \<not> is_object d | None \<Rightarrow> True)
      then (sh, Inl (ShimError (-32011) ''protected action returned no signed completion receipt''))
      else case agent_principal (en_crypto env) (ga_proof a) of
        None \<Rightarrow> (sh, Inl InternalError)
      | Some i \<Rightarrow>
          (update_session sh (se_session_id se) (\<lambda>x. x\<lparr>se_agent_ids := insert i (se_agent_ids x)\<rparr>),
           case result of
             JObj d \<Rightarrow> Inr ([session_update (en_crypto env) se a d], JObj [(''stopReason'', JStr ''end_turn'')])
           | _ \<Rightarrow> Inl InternalError))"

definition acp_prompt ::
    "acp_env \<Rightarrow> 'b backend \<Rightarrow> 'b acp_shim \<Rightarrow> json_object \<Rightarrow> 'b acp_shim \<times> (acp_exception + json list \<times> json)" where
  "acp_prompt env bk sh params =
     (case get_session sh (kw params ''sessionId'') of
        Inl e \<Rightarrow> (sh, Inl e)
      | Inr se \<Rightarrow>
          if \<not> active_auth sh then (drop_session sh (se_session_id se), Inl auth_required)
          else if se_cancelled se
          then (update_session sh (se_session_id se) (\<lambda>x. x\<lparr>se_cancelled := False\<rparr>), Inr ([], JObj [(''stopReason'', JStr ''cancelled'')]))
          else case bind_result (read_action env params) (\<lambda>a. map_result (Pair a) (judge_action env se a)) of
            Inl e \<Rightarrow> (sh, Inl e)
          | Inr (a, s, v) \<Rightarrow>
              if \<not> dv_ok v then
                (case agent_principal (en_crypto env) (ga_proof a) of
                   None \<Rightarrow> (sh, Inl InternalError)
                 | Some i \<Rightarrow>
                     (if i \<in> rs_revoked_agent_key_ids s then drop_session sh (se_session_id se) else sh,
                      Inl (ShimError (-32010) (''delegation denied: '' @ reason_text (dv_reason v)))))
              else case execute_action env bk sh se a of
                (sh', Inl e) \<Rightarrow> (sh', Inl e)
              | (sh', Inr result) \<Rightarrow> conclude_action env sh' se a result)"

subsection \<open>Messages\<close>

definition acp_response :: "json \<Rightarrow> json \<Rightarrow> json" where
  "acp_response request_id result =
     JObj [(''jsonrpc'', JStr JSONRPC_VERSION), (''id'', request_id), (''result'', result)]"

definition acp_error_message :: "json \<Rightarrow> int \<Rightarrow> pystr \<Rightarrow> json" where
  "acp_error_message request_id code message =
     JObj [(''jsonrpc'', JStr JSONRPC_VERSION), (''id'', request_id),
       (''error'', JObj [(''code'', JInt code), (''message'', JStr message)])]"

definition error_reply :: "json \<Rightarrow> acp_exception \<Rightarrow> json list" where
  "error_reply request_id e =
     (if request_id = JNull then []
      else case e of
        ShimError code message \<Rightarrow> [acp_error_message request_id code message]
      | InternalError \<Rightarrow> [acp_error_message request_id (-32603) ''internal error''])"

definition reply :: "json \<Rightarrow> 'b acp_shim \<times> (acp_exception + json) \<Rightarrow> 'b acp_shim \<times> json list" where
  "reply request_id r =
     (case r of
        (sh, Inl e) \<Rightarrow> (sh, error_reply request_id e)
      | (sh, Inr result) \<Rightarrow> (sh, if request_id = JNull then [] else [acp_response request_id result]))"

definition handle :: "acp_env \<Rightarrow> 'b backend \<Rightarrow> 'b acp_shim \<Rightarrow> json_object \<Rightarrow> 'b acp_shim \<times> json list" where
  "handle env bk sh message =
     (let request_id = kw message ''id'' in
      case validate_envelope message of
        Inl e \<Rightarrow> (sh, error_reply request_id e)
      | Inr meth \<Rightarrow>
          (case dict_get message ''params'' (JObj []) of
             JObj params \<Rightarrow>
               if meth = ''initialize'' then reply request_id (acp_initialize sh params)
               else if meth = ''session/new'' then reply request_id (acp_new_session env sh params)
               else if meth = ''session/prompt'' then
                 (case acp_prompt env bk sh params of
                    (sh', Inl e) \<Rightarrow> (sh', error_reply request_id e)
                  | (sh', Inr (updates, result)) \<Rightarrow>
                      (sh', if request_id = JNull then [] else updates @ [acp_response request_id result]))
               else if meth = ''session/cancel'' then
                 reply request_id (case acp_cancel sh params of (sh', r) \<Rightarrow> (sh', map_result (\<lambda>_. JObj []) r))
               else (sh, error_reply request_id (ShimError (-32601) ''method not found''))
           | _ \<Rightarrow> (sh, error_reply request_id (ShimError (-32602) ''params must be an object''))))"

text \<open>\<open>serve_stdio\<close>: one line of input after the other.\<close>

definition serve_line :: "acp_env \<Rightarrow> 'b backend \<Rightarrow> 'b acp_shim \<Rightarrow> pystr \<Rightarrow> 'b acp_shim \<times> json list" where
  "serve_line env bk sh line =
     (if MAX_MESSAGE_BYTES < length (utf8 line)
      then (sh, [acp_error_message JNull (-32700) ''message exceeds maximum size''])
      else case en_loads env line of
        Some (JObj message) \<Rightarrow> handle env bk sh message
      | _ \<Rightarrow> (sh, [acp_error_message JNull (-32700) ''parse error'']))"

fun serve_stdio :: "'b backend \<Rightarrow> 'b acp_shim \<Rightarrow> (acp_env \<times> pystr) list \<Rightarrow> 'b acp_shim \<times> json list" where
  "serve_stdio bk sh [] = (sh, [])"
| "serve_stdio bk sh ((env, line) # rest) =
     (case serve_line env bk sh line of (sh', out) \<Rightarrow> case serve_stdio bk sh' rest of (sh'', out') \<Rightarrow> (sh'', out @ out'))"

end
