(* ===== verification/AcpShimSpec.thy ===== *)
theory AcpShimSpec
  imports AcpShim
begin

text \<open>
  The properties of the ACP shim: what a backend call needs, that no action identifier is
  executed twice, the shape of replies and the bound on sessions, and the interplay of the
  registry, the watcher and the session table.
\<close>

subsection \<open>What a prompt changes\<close>

lemma update_session_sel [simp]:
  "ac_backend (update_session sh sid f) = ac_backend sh" "ac_replay (update_session sh sid f) = ac_replay sh"
  "ac_trust (update_session sh sid f) = ac_trust sh" "ac_initialized (update_session sh sid f) = ac_initialized sh"
  by (simp_all add: update_session_def split: option.splits)

lemma drop_session_sel [simp]:
  "ac_backend (drop_session sh sid) = ac_backend sh" "ac_replay (drop_session sh sid) = ac_replay sh"
  "ac_trust (drop_session sh sid) = ac_trust sh"
  "ac_sessions (drop_session sh sid) = AList.delete sid (ac_sessions sh)"
  by (simp_all add: drop_session_def)

lemma conclude_sel:
  assumes "conclude_action env sh se a result = (sh', r)"
  shows "ac_backend sh' = ac_backend sh" "ac_replay sh' = ac_replay sh"
  using assms by (auto simp: conclude_action_def split: if_splits option.splits)

text \<open>An action that was read, judged and accepted in a session.\<close>

definition accepted_in ::
    "acp_env \<Rightarrow> 'b acp_shim \<Rightarrow> json_object \<Rightarrow> session \<Rightarrow> governed_action \<Rightarrow> revocation_state \<Rightarrow> bool" where
  "accepted_in env sh params se a s \<longleftrightarrow> get_session sh (kw params ''sessionId'') = Inr se \<and> active_auth sh
     \<and> \<not> se_cancelled se \<and> read_action env params = Inr a \<and> (\<exists>v. judge_action env se a = Inr (s, v) \<and> dv_ok v)"

lemma acp_prompt_cases:
  assumes "acp_prompt env bk sh params = (sh', r)"
  shows "(ac_backend sh' = ac_backend sh \<and> ac_replay sh' = ac_replay sh)
    \<or> (\<exists>se a s sh1 r1. accepted_in env sh params se a s \<and> execute_action env bk sh se a = (sh1, r1)
         \<and> ac_backend sh' = ac_backend sh1 \<and> ac_replay sh' = ac_replay sh1)"
proof (cases "\<exists>se a s. accepted_in env sh params se a s")
  case True
  then obtain se a s v where acc: "accepted_in env sh params se a s" and v: "judge_action env se a = Inr (s, v)" "dv_ok v"
    by (auto simp: accepted_in_def)
  obtain sh1 r1 where ex: "execute_action env bk sh se a = (sh1, r1)" by fastforce
  from assms acc v ex have "(sh', r) = (case r1 of Inl e \<Rightarrow> (sh1, Inl e) | Inr result \<Rightarrow> conclude_action env sh1 se a result)"
    by (auto simp: acp_prompt_def accepted_in_def split: sum.splits)
  then have "ac_backend sh' = ac_backend sh1 \<and> ac_replay sh' = ac_replay sh1"
    using conclude_sel by (cases r1) (auto dest: conclude_sel[OF sym])
  with acc ex show ?thesis by blast
next
  case False
  with assms show ?thesis
    by (auto simp: acp_prompt_def accepted_in_def bind_result_def map_result_def split: sum.splits if_splits option.splits)
qed

lemma handle_cases:
  assumes "handle env bk sh message = (sh', out)"
  shows "(ac_backend sh' = ac_backend sh \<and> ac_replay sh' = ac_replay sh)
    \<or> (\<exists>params r. dict_get message ''params'' (JObj []) = JObj params \<and> acp_prompt env bk sh params = (sh', r))"
proof (cases "validate_envelope message")
  case (Inr meth)
  show ?thesis
  proof (cases "dict_get message ''params'' (JObj [])")
    case (JObj params)
    with Inr assms show ?thesis
      by (auto simp: handle_def Let_def reply_def acp_initialize_def acp_new_session_def acp_cancel_def
          split: if_splits prod.splits sum.splits option.splits json.splits)
  qed (use Inr assms in \<open>simp_all add: handle_def\<close>)
qed (use assms in \<open>simp add: handle_def\<close>)

lemma accepted_facts:
  assumes "accepted_in env sh params se a s"
  shows "\<exists>issuer_key v. en_issuer env (gr_issuer_key_fingerprint (ga_grant a)) = Some issuer_key \<and> en_revocations env = Answer s
    \<and> verify_delegated_action (en_crypto env) (ga_grant a) (ga_proof a) (en_clock env) (Some (action_payload se a)) (Some issuer_key)
        (revocation_inputs s) = Inr v \<and> dv_ok v"
  using assms
  by (auto simp: accepted_in_def judge_action_def current_revocations_def bind_result_Inr_iff
      split: option.splits revocation_answer.splits sum.splits)

lemma action_of_envelope_names:
  assumes "action_of_envelope dc envelope links = Inr a"
  shows "pr_action (ga_proof a) = ga_tool a"
proof -
  from assms obtain tool where "kw envelope ''tool'' = JStr tool" by (cases "kw envelope ''tool''") (simp_all add: action_of_envelope_def)
  moreover from assms calculation obtain args where "kw envelope ''arguments'' = JObj args"
    by (cases "kw envelope ''arguments''") (simp_all add: action_of_envelope_def split: if_splits)
  ultimately show ?thesis using assms by (auto simp: action_of_envelope_def split: if_splits option.splits)
qed

lemma read_action_names:
  assumes "read_action env params = Inr a"
  shows "pr_action (ga_proof a) = ga_tool a"
proof -
  from assms obtain block blocks where "kw params ''prompt'' = JArr (block # blocks)"
    by (cases "kw params ''prompt''") (auto simp: read_action_def split: list.splits)
  with assms show ?thesis by (auto simp: read_action_def bind_result_Inr_iff intro: action_of_envelope_names)
qed

subsection \<open>What the backend call of an accepted action does to the replay store\<close>

definition admission_of :: "delegation_crypto \<Rightarrow> session \<Rightarrow> governed_action \<Rightarrow> admission" where
  "admission_of dc se a = (grant_id dc (ga_grant a), proof_id dc (ga_proof a), se_session_id se)"

text \<open>Only the identifier of the action moves, and never back.\<close>

definition moved :: "replay_store \<Rightarrow> replay_store \<Rightarrow> pystr \<Rightarrow> admission \<Rightarrow> phase set \<Rightarrow> bool" where
  "moved st st' i adm ps \<longleftrightarrow> store_phase st i = Unclaimed \<and> (\<exists>ph\<in>ps. store_phase st' = (store_phase st)(i := ph))"

lemma claim_lost_same:
  "store_claim st i adm t f = (st', r) \<Longrightarrow> r \<noteq> Inr True \<Longrightarrow> store_phase st' = store_phase st"
  by (rule acp.claim_lost)

lemma admitted_execution:
  assumes "store_claim st i adm t f1 = (st1, Inr True)" "store_begin st1 i adm f2 = (st2, Inr True)"
    and "store_finish st2 i ok rc head res f3 = (st3, r)"
  shows "moved st st3 i adm {Started adm, Finished adm ok}"
proof -
  from assms(1) have 1: "store_phase st i = Unclaimed" "store_phase st1 = (store_phase st)(i := Claimed adm)"
    using acp.claim_won by blast+
  from assms(2) have 2: "store_phase st2 = (store_phase st1)(i := Started adm)" using acp.start_won by blast
  show ?thesis
  proof (cases r)
    case (Inl e)
    with assms(3) have "store_phase st3 = store_phase st2" using acp.finish_lost by blast
    with 1 2 show ?thesis by (auto simp: moved_def)
  next
    case (Inr u)
    with assms(3) obtain adm' where "store_phase st2 i = Started adm'" "store_phase st3 = (store_phase st2)(i := Finished adm' ok)"
      using acp.finish_won[of st2 i ok rc head res f3 st3] by auto
    with 1 2 show ?thesis by (auto simp: moved_def)
  qed
qed

text \<open>Every execution: the call made, or none and the backend untouched.\<close>

definition undelegated_call :: "acp_env \<Rightarrow> 'b backend \<Rightarrow> 'b acp_shim \<Rightarrow> 'b acp_shim \<Rightarrow> session \<Rightarrow> governed_action \<Rightarrow> bool" where
  "undelegated_call env bk sh sh' se a \<longleftrightarrow> ga_tool a \<notin> set PROTECTED_DELEGATED_TOOLS
     \<and> ac_backend sh' = fst (bk_call_tool bk (ac_backend sh) (ga_tool a) (ga_arguments a))
     \<and> (let adm = admission_of (en_crypto env) se a in
        moved (ac_replay sh) (ac_replay sh') (pr_action_id (ga_proof a)) adm {Started adm, Finished adm True, Finished adm False})"

definition delegated_call :: "'b backend \<Rightarrow> 'b acp_shim \<Rightarrow> 'b acp_shim \<Rightarrow> session \<Rightarrow> governed_action \<Rightarrow> bool" where
  "delegated_call bk sh sh' se a \<longleftrightarrow> (ga_tool a \<in> set PROTECTED_DELEGATED_TOOLS \<longrightarrow> bk_exact bk) \<and> ac_replay sh' = ac_replay sh
     \<and> (\<exists>call. bk_call_delegated bk = Some call
          \<and> ac_backend sh' = fst (call (ac_backend sh) (ga_tool a) (ga_arguments a) (ga_grant a) (ga_proof a) (action_payload se a) (se_session_id se)))"

lemma execute_action_cases:
  assumes "execute_action env bk sh se a = (sh', r)"
  shows "delegated_call bk sh sh' se a \<or> bk_call_delegated bk = None \<and> undelegated_call env bk sh sh' se a
    \<or> ac_backend sh' = ac_backend sh
        \<and> (store_phase (ac_replay sh') = store_phase (ac_replay sh)
              \<or> moved (ac_replay sh) (ac_replay sh') (pr_action_id (ga_proof a)) (admission_of (en_crypto env) se a)
                  {Claimed (admission_of (en_crypto env) se a)})"
proof (cases "ga_tool a \<in> set PROTECTED_DELEGATED_TOOLS \<and> \<not> bk_exact bk")
  case False
  show ?thesis
  proof (cases "bk_call_delegated bk")
    case (Some call)
    with False assms show ?thesis
      by (auto simp: execute_action_def delegated_call_def split: prod.splits sum.splits)
  next
    case None
    let ?i = "pr_action_id (ga_proof a)" and ?adm = "admission_of (en_crypto env) se a"
    show ?thesis
    proof (cases "ga_tool a \<in> set PROTECTED_DELEGATED_TOOLS")
      case unprotected: False
      obtain st1 r1 where c: "store_claim (ac_replay sh) ?i ?adm (en_clock env) (en_claim_fault env) = (st1, r1)" by fastforce
      show ?thesis
      proof (cases "r1 = Inr True")
        case lost: False
        with c claim_lost_same have "store_phase st1 = store_phase (ac_replay sh)" by blast
        with lost assms c None unprotected show ?thesis
          by (auto simp: execute_action_def Let_def admission_of_def split: sum.splits bool.splits)
      next
        case won: True
        obtain st2 r2 where b: "store_begin st1 ?i ?adm (en_begin_fault env) = (st2, r2)" by fastforce
        show ?thesis
        proof (cases "r2 = Inr True")
          case False
          have "store_phase st2 = store_phase st1" using b False by (rule acp.start_lost)
          moreover have "store_phase (ac_replay sh) ?i = Unclaimed \<and> store_phase st1 = (store_phase (ac_replay sh))(?i := Claimed ?adm)"
            using c won acp.claim_won by blast
          ultimately show ?thesis using False assms c b won None unprotected
            by (auto simp: execute_action_def Let_def admission_of_def moved_def split: sum.splits bool.splits)
        next
          case True
          obtain b' res where call: "bk_call_tool bk (ac_backend sh) (ga_tool a) (ga_arguments a) = (b', res)" by fastforce
          obtain st3 fin where f: "store_finish st2 ?i (is_ok res) None [] None (en_finish_fault env) = (st3, fin)" by fastforce
          have "moved (ac_replay sh) st3 ?i ?adm {Started ?adm, Finished ?adm (is_ok res)}"
            using admitted_execution[of _ ?i ?adm] c b f won True by blast
          then have "moved (ac_replay sh) st3 ?i ?adm {Started ?adm, Finished ?adm True, Finished ?adm False}"
            by (cases "is_ok res") (auto simp: moved_def)
          moreover have "ac_replay sh' = st3" "ac_backend sh' = b'"
            using assms c b won True call f None unprotected
            by (auto simp: execute_action_def Let_def admission_of_def split: sum.splits)
          ultimately show ?thesis using None unprotected call by (auto simp: undelegated_call_def Let_def)
        qed
      qed
    qed (use assms None False in \<open>auto simp: execute_action_def\<close>)
  qed
qed (use assms in \<open>auto simp: execute_action_def\<close>)

text \<open>
  C24. The backend runs only what an owner and an agent signed: when handling a message changes
  the backend, the message is a prompt of a live session whose action is authorised by an active
  trust root, by a trusted issuer and by the current revocation snapshot; the proof names the
  tool, lies in the scope and the time of the grant and signs the exact session, working
  directory, tool, arguments and links; and a protected tool goes to the delegated entry of the
  governed runtime itself, every other backend call being recorded first under an unused action
  identifier.
\<close>

theorem acp_backend_needs_authority:
  assumes "handle env bk sh message = (sh', out)" "ac_backend sh' \<noteq> ac_backend sh"
  shows "\<exists>params se a s issuer_key key t. dict_get message ''params'' (JObj []) = JObj params \<and> accepted_in env sh params se a s
    \<and> en_issuer env (gr_issuer_key_fingerprint (ga_grant a)) = Some issuer_key \<and> en_revocations env = Answer s
    \<and> en_clock env = Finite t \<and> in_scope (ga_grant a) (ga_proof a) \<and> in_time (ga_grant a) (ga_proof a) t
    \<and> not_revoked (en_crypto env) (ga_grant a) (ga_proof a) key (revocation_inputs s)
    \<and> fromhex (pr_agent_public_key_hex (ga_proof a)) = Some key \<and> fromhex (gr_issuer_public_key_hex (ga_grant a)) = Some issuer_key
    \<and> pr_action (ga_proof a) = ga_tool a
    \<and> pr_payload_sha256 (ga_proof a) = payload_digest (en_crypto env) (action_payload se a)
    \<and> (delegated_call bk sh sh' se a \<or> bk_call_delegated bk = None \<and> undelegated_call env bk sh sh' se a)"
proof -
  from handle_cases[OF assms(1)] assms(2) obtain params r where
    p: "dict_get message ''params'' (JObj []) = JObj params" "acp_prompt env bk sh params = (sh', r)" by blast
  from acp_prompt_cases[OF p(2)] assms(2) obtain se a s sh1 r1 where
    acc: "accepted_in env sh params se a s" and ex: "execute_action env bk sh se a = (sh1, r1)"
    and same: "ac_backend sh' = ac_backend sh1" "ac_replay sh' = ac_replay sh1" by blast
  from accepted_facts[OF acc] obtain issuer_key v where
    i: "en_issuer env (gr_issuer_key_fingerprint (ga_grant a)) = Some issuer_key" "en_revocations env = Answer s"
    "verify_delegated_action (en_crypto env) (ga_grant a) (ga_proof a) (en_clock env) (Some (action_payload se a)) (Some issuer_key)
        (revocation_inputs s) = Inr v" "dv_ok v" by blast
  from i(3,4) have "action_reason (en_crypto env) (ga_grant a) (ga_proof a) (en_clock env) (Some (action_payload se a)) (Some issuer_key)
        (revocation_inputs s) = Inr Ok" using verify_ok_iff by blast
  then obtain t ik key where "en_clock env = Finite t" "ik = issuer_key" "in_scope (ga_grant a) (ga_proof a)"
    "in_time (ga_grant a) (ga_proof a) t" "not_revoked (en_crypto env) (ga_grant a) (ga_proof a) key (revocation_inputs s)"
    "fromhex (pr_agent_public_key_hex (ga_proof a)) = Some key" "fromhex (gr_issuer_public_key_hex (ga_grant a)) = Some ik"
    "pr_payload_sha256 (ga_proof a) = payload_digest (en_crypto env) (action_payload se a)"
    unfolding action_reason_Ok by (auto simp: authentic_def)
  moreover have "pr_action (ga_proof a) = ga_tool a" using acc by (auto simp: accepted_in_def intro: read_action_names)
  moreover have "delegated_call bk sh sh' se a \<or> bk_call_delegated bk = None \<and> undelegated_call env bk sh sh' se a"
    using execute_action_cases[OF ex] assms(2) same by (auto simp: delegated_call_def undelegated_call_def)
  ultimately show ?thesis using p(1) acc i(1,2) by blast
qed

subsection \<open>No action identifier is executed twice\<close>

definition used :: "'b acp_shim \<Rightarrow> pystr \<Rightarrow> bool" where
  "used sh i \<longleftrightarrow> store_phase (ac_replay sh) i \<noteq> Unclaimed"

lemma execute_used:
  assumes "execute_action env bk sh se a = (sh', r)"
  shows "used sh i \<Longrightarrow> used sh' i"
    and "bk_call_delegated bk = None \<Longrightarrow> ac_backend sh' \<noteq> ac_backend sh
      \<Longrightarrow> \<not> used sh (pr_action_id (ga_proof a)) \<and> used sh' (pr_action_id (ga_proof a))"
  using execute_action_cases[OF assms]
  by (auto simp: used_def delegated_call_def undelegated_call_def moved_def Let_def split: if_splits)

lemma handle_used:
  assumes "handle env bk sh message = (sh', out)" "used sh i"
  shows "used sh' i"
proof -
  from handle_cases[OF assms(1)] consider "ac_replay sh' = ac_replay sh"
    | params r where "acp_prompt env bk sh params = (sh', r)" by blast
  then show ?thesis
  proof cases
    case 2
    from acp_prompt_cases[OF 2] show ?thesis
    proof (elim disjE exE conjE)
      fix se a s sh1 r1
      assume "execute_action env bk sh se a = (sh1, r1)" "ac_replay sh' = ac_replay sh1"
      then show ?thesis using execute_used(1)[of env bk sh se a sh1 r1 i] assms(2) by (simp add: used_def)
    qed (use assms(2) in \<open>simp add: used_def\<close>)
  qed (use assms(2) in \<open>simp add: used_def\<close>)
qed

lemma handle_executes:
  assumes "handle env bk sh message = (sh', out)" "dict_get message ''params'' (JObj []) = JObj params"
    and "read_action env params = Inr a" "bk_call_delegated bk = None" "ac_backend sh' \<noteq> ac_backend sh"
  shows "\<not> used sh (pr_action_id (ga_proof a)) \<and> used sh' (pr_action_id (ga_proof a))"
proof -
  from handle_cases[OF assms(1)] assms(2,5) obtain r where p: "acp_prompt env bk sh params = (sh', r)" by auto
  from acp_prompt_cases[OF p] assms(5) obtain se a' s sh1 r1 where
    *: "accepted_in env sh params se a' s" "execute_action env bk sh se a' = (sh1, r1)" "ac_backend sh' = ac_backend sh1"
    "ac_replay sh' = ac_replay sh1" by blast
  then have "a' = a" using assms(3) by (simp add: accepted_in_def)
  with execute_used(2)[OF *(2) assms(4)] * assms(5) show ?thesis by (simp add: used_def)
qed

fun handle_all :: "'b backend \<Rightarrow> 'b acp_shim \<Rightarrow> (acp_env \<times> json_object) list \<Rightarrow> 'b acp_shim" where
  "handle_all bk sh [] = sh"
| "handle_all bk sh ((env, message) # rest) = handle_all bk (fst (handle env bk sh message)) rest"

lemma handle_all_used: "used sh i \<Longrightarrow> used (handle_all bk sh messages) i"
proof (induction messages arbitrary: sh)
  case (Cons m messages)
  obtain env message where m: "m = (env, message)" by fastforce
  obtain sh' out where h: "handle env bk sh message = (sh', out)" by fastforce
  with m show ?case using Cons handle_used[OF h] by simp
qed simp


subsection \<open>A deployment\<close>

text \<open>A backend that counts its calls, one session, and the prompt for the demonstration action.\<close>

definition demo_backend :: "nat backend" where
  "demo_backend = \<lparr>bk_exact = False, bk_call_tool = (\<lambda>n _ _. (Suc n, Inr (JObj []))), bk_call_delegated = None\<rparr>"

definition demo_session :: session where
  "demo_session = \<lparr>se_session_id = ''s'', se_cwd = ''/'', se_client_name = ''c'', se_cancelled = False, se_agent_ids = {}\<rparr>"

definition demo_shim :: "nat acp_shim" where
  "demo_shim = (shim_init [] None 0 [])\<lparr>ac_sessions := [(''s'', demo_session)], ac_initialized := True\<rparr>"

definition demo_params :: json_object where
  "demo_params = [(''sessionId'', JStr ''s''), (''prompt'', JArr [JObj [(''type'', JStr ''text''), (''text'', JStr ''x'')]])]"

definition demo_message :: json_object where
  "demo_message = [(''jsonrpc'', JStr ''2.0''), (''id'', JInt 1), (''method'', JStr ''session/prompt''), (''params'', JObj demo_params)]"

definition demo_envelope :: "grant \<Rightarrow> action_proof \<Rightarrow> json_object" where
  "demo_envelope g p = [(''schema'', JStr ACP_ACTION_SCHEMA), (''tool'', JStr ''act''), (''arguments'', JObj []),
     (''delegationGrant'', JObj (grant_to_dict demo_delegation g)), (''actionProof'', JObj (proof_to_dict demo_delegation p))]"

definition demo_env :: "grant \<Rightarrow> action_proof \<Rightarrow> acp_env" where
  "demo_env g p = \<lparr>en_crypto = demo_delegation, en_issuer = (\<lambda>_. Some (replicate 32 (CHR ''i''))),
     en_revocations = Answer \<lparr>rs_epoch = 0, rs_revoked_agent_key_ids = {}, rs_revoked_grant_ids = {}\<rparr>, en_clock = Finite 7,
     en_uuid = ''u'', en_path = Some, en_loads = (\<lambda>_. Some (JObj (demo_envelope g p))), en_claim_fault = False,
     en_begin_fault = False, en_finish_fault = False\<rparr>"

definition demo_action :: "grant \<Rightarrow> action_proof \<Rightarrow> governed_action" where
  "demo_action g p = \<lparr>ga_tool = ''act'', ga_arguments = [], ga_links = [], ga_grant = g, ga_proof = p\<rparr>"

lemma demo_prompt_signed:
  "\<exists>g p. demo_issue = Inr g \<and> demo_sign_with g (action_payload demo_session (demo_action g undefined)) = Inr p"
  using demo_issued demo_signed by blast

lemma demo_action_read:
  assumes "demo_issue = Inr g" "demo_sign_with g payload = Inr p"
  shows "read_action (demo_env g p) demo_params = Inr (demo_action g p)"
proof -
  have g: "grant_valid demo_delegation g" using assms(1)
    by (auto simp: demo_issue_def issue_delegation_grant_def bind_result_Inr_iff Let_def intro: grant_init_valid)
  have p: "proof_valid demo_delegation p" using assms(2)
    by (auto simp: demo_sign_with_def sign_delegated_action_def bind_result_Inr_iff Let_def intro: proof_init_valid)
  have "pr_action p = ''act''" using signed_action[OF assms(2)[unfolded demo_sign_with_def]] by simp
  with g p show ?thesis
    using grant_roundtrip[THEN iffD2] proof_roundtrip[THEN iffD2]
    by (simp add: read_action_def demo_params_def kw_def dict_get_def parse_prompt_def parse_block_def as_text_def demo_env_def
        demo_envelope_def ACTION_ENVELOPE_FIELDS_def action_of_envelope_def signed_objects_def as_dict_def
        demo_action_def)
qed

lemma demo_authentic:
  assumes g: "demo_issue = Inr g" and p: "demo_sign_with g payload = Inr p"
  shows "\<exists>v. verify_delegated_action demo_delegation g p (Finite 7) (Some payload) (Some (replicate 32 (CHR ''i'')))
      (revocation_inputs \<lparr>rs_epoch = 0, rs_revoked_agent_key_ids = {}, rs_revoked_grant_ids = {}\<rparr>) = Inr v \<and> dv_ok v"
proof -
  let ?i = "replicate 32 (CHR ''i'')" and ?a = "replicate 32 (CHR ''a'')"
  obtain alg where alg: "signer_algorithm (sg_public_key (demo_signer CHR ''i'')) = Inr alg" and
    gf: "gr_signature_algorithm g = alg" "gr_issuer_public_key_hex g = tohex (sg_public_key (demo_signer CHR ''i''))"
    "gr_subject_agent_id g = short_agent_id demo_delegation ?a" "gr_subject_public_key_hex g = tohex ?a"
    "gr_allowed_actions g = [''act'']" "gr_target_constraints g = members (key_sorted (JObj [(''w'', JInt 1)]))"
    "gr_governance_mode g = ''m''" "gr_classification_ceiling g = ''CUI''" "gr_not_before g = JInt 1" "gr_expires_at g = JInt 9"
    "gr_revocation_epoch g = JInt 0"
    "gr_signature_hex g = JStr (tohex (sg_sign (demo_signer CHR ''i'') (grant_signing_bytes g)))"
    using g[unfolded demo_issue_def] by (rule issued_grant)
  note pf = signed_action[OF p[unfolded demo_sign_with_def]]
  have "authentic demo_delegation g p ?i (CHR ''s'' # grant_signing_bytes g) ?a (CHR ''s'' # proof_signing_bytes p)"
    using alg gf pf by (simp add: authentic_def demo_signer_def signer_algorithm_def verify_signature_def demo_delegation_def)
  moreover have "in_scope g p" "in_time g p 7" using gf pf by (simp_all add: in_scope_def in_time_def number_of_def)
  moreover have "not_revoked demo_delegation g p ?a (revocation_inputs \<lparr>rs_epoch = 0, rs_revoked_agent_key_ids = {}, rs_revoked_grant_ids = {}\<rparr>)"
    using gf by (simp add: not_revoked_def revocation_inputs_def number_of_def)
  moreover have "pr_payload_sha256 p = payload_digest demo_delegation payload" using pf by simp
  ultimately show ?thesis unfolding verify_ok_iff action_reason_Ok by blast
qed

lemma demo_handled:
  assumes "demo_issue = Inr g" "demo_sign_with g (action_payload demo_session (demo_action g undefined)) = Inr p"
  shows "ac_backend (fst (handle (demo_env g p) demo_backend demo_shim demo_message)) = 1"
proof -
  have payload: "action_payload demo_session (demo_action g p) = action_payload demo_session (demo_action g undefined)"
    by (simp add: action_payload_def demo_action_def)
  obtain v where v: "judge_action (demo_env g p) demo_session (demo_action g p)
      = Inr (\<lparr>rs_epoch = 0, rs_revoked_agent_key_ids = {}, rs_revoked_grant_ids = {}\<rparr>, v)" "dv_ok v"
    using demo_authentic[OF assms] payload
    by (fastforce simp: judge_action_def demo_env_def current_revocations_def demo_action_def)
  have env: "validate_envelope demo_message = Inr ''session/prompt''"
    by (simp add: validate_envelope_def demo_message_def demo_params_def kw_def dict_get_def JSONRPC_VERSION_def MAX_MESSAGE_BYTES_def
        canonical_bytes_def dumps_def member_text_def quoted_def escape_char_def char_code_def show_int_def show_nat.simps utf8_def
        utf8_char_def digit_def)
  have id: "pr_action_id p = ''id''" using signed_action[OF assms(2)[unfolded demo_sign_with_def]] by simp
  have se: "get_session demo_shim (kw demo_params ''sessionId'') = Inr demo_session" "active_auth demo_shim" "\<not> se_cancelled demo_session"
    by (simp_all add: get_session_def demo_shim_def shim_init_def kw_def dict_get_def demo_params_def active_auth_def demo_session_def)
  have run: "\<exists>sh' result. execute_action (demo_env g p) demo_backend demo_shim demo_session (demo_action g p) = (sh', Inr result) \<and> ac_backend sh' = 1"
    using id by (simp add: execute_action_def demo_action_def PROTECTED_DELEGATED_TOOLS_def demo_backend_def demo_env_def demo_shim_def
        shim_init_def store_claim_def valid_action_id_def has_control_def char_code_def store_begin_def update_where_def admitted_for_def
        store_finish_def Let_def)
  then obtain sh1 result where run: "ac_backend sh1 = 1"
    "execute_action (demo_env g p) demo_backend demo_shim demo_session (demo_action g p) = (sh1, Inr result)" by blast
  have "ac_backend sh' = 1" if "acp_prompt (demo_env g p) demo_backend demo_shim demo_params = (sh', r)" for sh' r
    using that se v run demo_action_read[OF assms] conclude_sel(1)[of "demo_env g p" sh1 demo_session "demo_action g p" result sh' r]
    by (simp add: acp_prompt_def)
  moreover have "dict_get demo_message ''params'' (JObj []) = JObj demo_params" "kw demo_message ''id'' = JInt 1"
    by (simp_all add: demo_message_def dict_get_def kw_def)
  ultimately show ?thesis using env
    by (cases "acp_prompt (demo_env g p) demo_backend demo_shim demo_params"; cases "snd (acp_prompt (demo_env g p) demo_backend demo_shim demo_params)")
      (auto simp: handle_def Let_def)
qed

theorem acp_backend_needs_authority_witness:
  "\<exists>g p sh' out a. demo_issue = Inr g \<and> handle (demo_env g p) demo_backend demo_shim demo_message = (sh', out)
     \<and> ac_backend sh' = 1 \<and> ga_tool a = ''act'' \<and> in_scope (ga_grant a) (ga_proof a)
     \<and> undelegated_call (demo_env g p) demo_backend demo_shim sh' demo_session a"
proof -
  obtain g p where gp: "demo_issue = Inr g" "demo_sign_with g (action_payload demo_session (demo_action g undefined)) = Inr p"
    using demo_prompt_signed by blast
  obtain sh' out where h: "handle (demo_env g p) demo_backend demo_shim demo_message = (sh', out)" by fastforce
  with demo_handled[OF gp] have one: "ac_backend sh' = 1" by simp
  then have "ac_backend sh' \<noteq> ac_backend demo_shim" by (simp add: demo_shim_def shim_init_def)
  from acp_backend_needs_authority[OF h this] obtain params se a s where
    *: "dict_get demo_message ''params'' (JObj []) = JObj params" "accepted_in (demo_env g p) demo_shim params se a s"
    "in_scope (ga_grant a) (ga_proof a)" "undelegated_call (demo_env g p) demo_backend demo_shim sh' se a"
    by (auto simp: delegated_call_def demo_backend_def)
  then have "params = demo_params" by (simp add: demo_message_def dict_get_def)
  with *(2) demo_action_read[OF gp] have "a = demo_action g p" by (simp add: accepted_in_def)
  moreover have "se = demo_session" using *(2) \<open>params = demo_params\<close>
    by (simp add: accepted_in_def get_session_def demo_shim_def shim_init_def kw_def dict_get_def demo_params_def)
  ultimately have "ga_tool a = ''act''" "undelegated_call (demo_env g p) demo_backend demo_shim sh' demo_session a"
    using *(4) by (simp_all add: demo_action_def)
  with gp h one *(3) show ?thesis by blast
qed


subsection \<open>Sessions and replies\<close>

definition sessions_ok :: "'b acp_shim \<Rightarrow> bool" where
  "sessions_ok sh \<longleftrightarrow> wf_dict (ac_sessions sh) \<and> length (ac_sessions sh) \<le> MAX_SESSIONS
     \<and> (\<forall>e\<in>set (ac_sessions sh). se_session_id (snd e) = fst e)"

definition bound_agents :: "'b acp_shim \<Rightarrow> pystr set" where
  "bound_agents sh = (\<Union>e\<in>set (ac_sessions sh). se_agent_ids (snd e))"

lemma length_update_known: "map_of d k = Some v \<Longrightarrow> length (AList.update k x d) = length d"
  by (induction d) auto

lemma length_update_le: "length (AList.update k x d) \<le> Suc (length d)"
  by (induction d) auto

lemma update_session_ok [inv_intros]:
  assumes "sessions_ok sh" "\<And>se. se_session_id (f se) = se_session_id se"
  shows "sessions_ok (update_session sh sid f)"
proof (cases "map_of (ac_sessions sh) sid")
  case (Some se)
  then have "(sid, se) \<in> set (ac_sessions sh)" by (rule map_of_SomeD)
  with assms have "se_session_id (f se) = sid" by (auto simp: sessions_ok_def)
  with assms(1) Some set_update_subset[of sid "f se" "ac_sessions sh"] show ?thesis
    by (auto simp: update_session_def sessions_ok_def length_update_known)
qed (use assms in \<open>simp add: update_session_def\<close>)

lemma delete_subset: "set (AList.delete k d) \<subseteq> set d"
  by (auto simp: AList.delete_eq)

lemma drop_session_ok [inv_intros]: "sessions_ok sh \<Longrightarrow> sessions_ok (drop_session sh sid)"
  using delete_subset[of sid "ac_sessions sh"] AList.length_delete_le[of sid "ac_sessions sh"]
  by (auto simp: sessions_ok_def wf_dict_def AList.distinct_delete)

lemma bound_drop: "bound_agents (drop_session sh sid) \<subseteq> bound_agents sh"
  using delete_subset[of sid "ac_sessions sh"] by (fastforce simp: bound_agents_def)

lemma bound_update:
  "(\<And>se. se_agent_ids (f se) \<subseteq> se_agent_ids se \<union> A) \<Longrightarrow> bound_agents (update_session sh sid f) \<subseteq> bound_agents sh \<union> A"
proof (cases "map_of (ac_sessions sh) sid")
  case (Some se)
  assume f: "\<And>se. se_agent_ids (f se) \<subseteq> se_agent_ids se \<union> A"
  have "(sid, se) \<in> set (ac_sessions sh)" using Some by (rule map_of_SomeD)
  then have "se_agent_ids se \<subseteq> bound_agents sh" by (force simp: bound_agents_def)
  moreover have "bound_agents (update_session sh sid f) \<subseteq> (\<Union>e\<in>insert (sid, f se) (set (ac_sessions sh)). se_agent_ids (snd e))"
    unfolding bound_agents_def using Some set_update_subset[of sid "f se" "ac_sessions sh"]
    by (intro UN_mono) (simp_all add: update_session_def)
  ultimately show ?thesis using f[of se] by (simp add: bound_agents_def) blast
qed (simp add: update_session_def)

lemma execute_sessions: "execute_action env bk sh se a = (sh', r) \<Longrightarrow> ac_sessions sh' = ac_sessions sh"
  by (auto simp: execute_action_def Let_def split: if_splits option.splits prod.splits sum.splits bool.splits)

text \<open>An agent is bound to a session only after its action was accepted against a snapshot that does not revoke it.\<close>

definition unrevoked_now :: "acp_env \<Rightarrow> pystr set" where
  "unrevoked_now env = {i. \<exists>s. en_revocations env = Answer s \<and> i \<notin> rs_revoked_agent_key_ids s}"

lemma accepted_principal:
  assumes "accepted_in env sh params se a s" "agent_principal (en_crypto env) (ga_proof a) = Some i"
  shows "i \<in> unrevoked_now env"
proof -
  from accepted_facts[OF assms(1)] obtain issuer_key v where i: "en_revocations env = Answer s"
    "verify_delegated_action (en_crypto env) (ga_grant a) (ga_proof a) (en_clock env) (Some (action_payload se a)) (Some issuer_key)
        (revocation_inputs s) = Inr v" "dv_ok v" by blast
  from accepted_not_revoked[OF i(2,3)] assms(2) i(1) show ?thesis
    by (auto simp: unrevoked_now_def not_revoked_def revocation_inputs_def agent_principal_def)
qed

lemma acp_prompt_sessions:
  assumes "acp_prompt env bk sh params = (sh', r)"
  shows "(sessions_ok sh \<longrightarrow> sessions_ok sh') \<and> bound_agents sh' \<subseteq> bound_agents sh \<union> unrevoked_now env"
proof (cases "\<exists>se a s. accepted_in env sh params se a s")
  case True
  then obtain se a s v where acc: "accepted_in env sh params se a s" and v: "judge_action env se a = Inr (s, v)" "dv_ok v"
    by (auto simp: accepted_in_def)
  obtain sh1 r1 where ex: "execute_action env bk sh se a = (sh1, r1)" by fastforce
  from assms acc v ex have res: "(sh', r) = (case r1 of Inl e \<Rightarrow> (sh1, Inl e) | Inr result \<Rightarrow> conclude_action env sh1 se a result)"
    by (auto simp: acp_prompt_def accepted_in_def split: sum.splits)
  have same: "ac_sessions sh1 = ac_sessions sh" using ex by (rule execute_sessions)
  then have sh1: "sessions_ok sh \<Longrightarrow> sessions_ok sh1" "bound_agents sh1 = bound_agents sh"
    by (simp_all add: sessions_ok_def bound_agents_def)
  show ?thesis
  proof (cases r1)
    case (Inr result)
    with res have con: "conclude_action env sh1 se a result = (sh', r)" by simp
    show ?thesis
    proof (cases "\<exists>i. sh' = update_session sh1 (se_session_id se) (\<lambda>x. x\<lparr>se_agent_ids := insert i (se_agent_ids x)\<rparr>)
        \<and> agent_principal (en_crypto env) (ga_proof a) = Some i")
      case True
      then obtain i where i: "sh' = update_session sh1 (se_session_id se) (\<lambda>x. x\<lparr>se_agent_ids := insert i (se_agent_ids x)\<rparr>)"
        "agent_principal (en_crypto env) (ga_proof a) = Some i" by blast
      have "bound_agents sh' \<subseteq> bound_agents sh1 \<union> {i}" unfolding i(1) by (rule bound_update) auto
      with accepted_principal[OF acc i(2)] sh1 i(1) show ?thesis by (auto intro: inv_intros)
    next
      case False
      with con have "sh' = sh1" by (auto simp: conclude_action_def split: if_splits option.splits)
      with sh1 show ?thesis by auto
    qed
  qed (use res sh1 in auto)
next
  case False
  note bu = bound_update[of "\<lambda>x. x\<lparr>se_cancelled := False\<rparr>" "{}" sh]
  from False assms bound_drop[of sh] bu show ?thesis
    by (auto simp: acp_prompt_def accepted_in_def bind_result_def map_result_def intro: inv_intros
        split: sum.splits if_splits option.splits) blast+
qed

lemma acp_new_session_sessions:
  assumes "acp_new_session env sh params = (sh', r)"
  shows "(sessions_ok sh \<longrightarrow> sessions_ok sh') \<and> bound_agents sh' \<subseteq> bound_agents sh"
proof (cases "sh' = sh")
  case False
  with assms obtain se where se: "sh' = sh\<lparr>ac_sessions := AList.update (en_uuid env) se (ac_sessions sh)\<rparr>"
    "se_session_id se = en_uuid env" "se_agent_ids se = {}" "length (ac_sessions sh) < MAX_SESSIONS"
    by (auto simp: acp_new_session_def split: if_splits option.splits json.splits)
  with set_update_subset[of "en_uuid env" se "ac_sessions sh"] length_update_le[of "en_uuid env" se "ac_sessions sh"]
  show ?thesis by (force simp: sessions_ok_def bound_agents_def wf_dict_update)
qed simp

lemma acp_cancel_sessions:
  assumes "acp_cancel sh params = (sh', r)"
  shows "(sessions_ok sh \<longrightarrow> sessions_ok sh') \<and> bound_agents sh' \<subseteq> bound_agents sh"
  using assms bound_update[of "\<lambda>x. x\<lparr>se_cancelled := True\<rparr>" "{}" sh]
  by (auto simp: acp_cancel_def intro: inv_intros split: sum.splits)

lemma handle_sessions:
  assumes "handle env bk sh message = (sh', out)"
  shows "(sessions_ok sh \<longrightarrow> sessions_ok sh') \<and> bound_agents sh' \<subseteq> bound_agents sh \<union> unrevoked_now env"
proof -
  consider "sh' = sh"
    | params r where "acp_prompt env bk sh params = (sh', r)" | params r where "acp_new_session env sh params = (sh', r)"
    | params r where "acp_cancel sh params = (sh', r)" | params r where "acp_initialize sh params = (sh', r)"
  proof (cases "validate_envelope message")
    case (Inr meth)
    show thesis
    proof (cases "dict_get message ''params'' (JObj [])")
      case (JObj params)
      with Inr assms that show thesis
        by (auto simp: handle_def Let_def reply_def split: if_splits prod.splits sum.splits)
    qed (use Inr assms that in \<open>simp_all add: handle_def\<close>)
  qed (use assms that in \<open>simp add: handle_def\<close>)
  then show ?thesis
  proof cases
    case (5 params r)
    then have "ac_sessions sh' = ac_sessions sh" by (auto simp: acp_initialize_def Let_def split: if_splits)
    then show ?thesis by (simp add: sessions_ok_def bound_agents_def)
  qed (use acp_prompt_sessions acp_new_session_sessions acp_cancel_sessions in \<open>blast+\<close>)
qed

lemma acp_prompt_updates:
  assumes "acp_prompt env bk sh params = (sh', Inr (updates, result))"
  shows "updates = [] \<or> (\<exists>se a d. updates = [session_update (en_crypto env) se a d])"
proof -
  have conclude: "conclude_action env sh1 se a res = (sh2, Inr (updates, result)) \<Longrightarrow> \<exists>d. updates = [session_update (en_crypto env) se a d]"
    for sh1 sh2 se a res
    by (auto simp: conclude_action_def split: if_splits option.splits json.splits)
  show ?thesis
    using assms by (auto simp: acp_prompt_def split: sum.splits if_splits option.splits prod.splits dest!: conclude)
qed

definition reply_to :: "json \<Rightarrow> json \<Rightarrow> bool" where
  "reply_to request_id r \<longleftrightarrow> jget r ''jsonrpc'' = Some (JStr ''2.0'') \<and> jget r ''id'' = Some request_id
     \<and> (jget r ''result'' = None) \<noteq> (jget r ''error'' = None)"

lemma reply_shapes [simp]:
  "reply_to i (acp_response i v)" "reply_to i (acp_error_message i c m)"
  by (simp_all add: reply_to_def acp_response_def acp_error_message_def JSONRPC_VERSION_def)

lemma handle_answers:
  assumes "handle env bk sh message = (sh', out)" and id: "kw message ''id'' \<noteq> JNull"
  shows "\<exists>updates r. out = updates @ [r] \<and> reply_to (kw message ''id'') r
         \<and> (updates = [] \<or> (\<exists>se a d. updates = [session_update (en_crypto env) se a d]))"
proof -
  have one: "\<exists>updates r. error_reply (kw message ''id'') e = updates @ [r] \<and> reply_to (kw message ''id'') r
       \<and> (updates = [] \<or> (\<exists>se a d. updates = [session_update (en_crypto env) se a d]))" for e
    using id by (cases e) (simp_all add: error_reply_def)
  have two: "\<exists>updates r'. snd (reply (kw message ''id'') x) = updates @ [r'] \<and> reply_to (kw message ''id'') r'
       \<and> (updates = [] \<or> (\<exists>se a d. updates = [session_update (en_crypto env) se a d]))" for x :: "'a acp_shim \<times> (acp_exception + json)"
    using id one by (cases x; cases "snd x") (auto simp: reply_def)
  show ?thesis
  proof (cases "validate_envelope message")
    case (Inr meth)
    show ?thesis
    proof (cases "dict_get message ''params'' (JObj [])")
      case (JObj params)
      obtain shp rp where p: "acp_prompt env bk sh params = (shp, rp)" by fastforce
      show ?thesis
      proof (cases "meth = ''session/prompt''")
        case True
        show ?thesis
        proof (cases rp)
          case (Inl e)
          with True p Inr JObj assms(1) one[of e] show ?thesis by (simp add: handle_def Let_def)
        next
          case (Inr ur)
          obtain updates result where ur: "ur = (updates, result)" by fastforce
          have "out = updates @ [acp_response (kw message ''id'') result]"
            using True p \<open>rp = Inr ur\<close> ur \<open>validate_envelope message = Inr meth\<close> JObj assms(1) id by (simp add: handle_def Let_def)
          moreover have "updates = [] \<or> (\<exists>se a d. updates = [session_update (en_crypto env) se a d])"
            using acp_prompt_updates p \<open>rp = Inr ur\<close> ur by blast
          ultimately show ?thesis by auto
        qed
      next
        case False
        have d: "reply (kw message ''id'') x = (sh', out) \<Longrightarrow> ?thesis" for x using two[of x] by simp
        have e: "error_reply (kw message ''id'') e = out \<Longrightarrow> ?thesis" for e using one[of e] by auto
        from False Inr JObj assms(1) consider x where "reply (kw message ''id'') x = (sh', out)"
          | e where "error_reply (kw message ''id'') e = out"
          by (simp add: handle_def Let_def split: if_splits) blast
        then show ?thesis using d e by cases
      qed
    qed (use Inr assms(1) one in \<open>auto simp: handle_def\<close>)
  qed (use assms(1) one in \<open>auto simp: handle_def\<close>)
qed

text \<open>
  C22. Every request is answered exactly once and no notification is: whatever a message holds,
  \<open>handle\<close> ends with at most one \<open>session/update\<close> followed by one reply that carries the
  identifier of the request and either a result or an error, and with no message at all where
  the identifier is absent or null; and the session table stays a table of at most 1024
  sessions under their own identifiers.
\<close>

theorem acp_replies_once:
  assumes "sessions_ok sh" "handle env bk sh message = (sh', out)"
  shows "sessions_ok sh' \<and> (kw message ''id'' = JNull \<longrightarrow> out = [])
    \<and> (kw message ''id'' \<noteq> JNull \<longrightarrow> (\<exists>updates r. out = updates @ [r] \<and> reply_to (kw message ''id'') r
         \<and> (updates = [] \<or> (\<exists>se a d. updates = [session_update (en_crypto env) se a d]))))"
proof -
  have "kw message ''id'' = JNull \<longrightarrow> out = []"
    using assms(2)
    by (auto simp: handle_def Let_def reply_def error_reply_def split: sum.splits prod.splits json.splits if_splits)
  then show ?thesis using handle_sessions[OF assms(2)] handle_answers[OF assms(2)] assms(1) by blast
qed

theorem acp_replies_once_witness:
  "\<exists>sh' out. handle (demo_env undefined undefined) demo_backend demo_shim [(''id'', JInt 7)] = (sh', out)
     \<and> (\<exists>updates r. out = updates @ [r] \<and> reply_to (JInt 7) r)"
proof -
  obtain sh' out where h: "handle (demo_env undefined undefined) demo_backend demo_shim [(''id'', JInt 7)] = (sh', out)" by fastforce
  have "sessions_ok demo_shim"
    by (simp add: sessions_ok_def demo_shim_def shim_init_def demo_session_def wf_dict_def MAX_SESSIONS_def)
  from acp_replies_once[OF this h] have "\<exists>updates r. out = updates @ [r] \<and> reply_to (JInt 7) r"
    by (auto simp: kw_def dict_get_def)
  with h show ?thesis by blast
qed

text \<open>A prompt sent as a notification executes its action all the same, and nothing is answered.\<close>

lemma notification_prompt_executes:
  assumes "demo_issue = Inr g" "demo_sign_with g (action_payload demo_session (demo_action g undefined)) = Inr p"
  shows "\<exists>sh'. handle (demo_env g p) demo_backend demo_shim (AList.delete ''id'' demo_message) = (sh', []) \<and> ac_backend sh' = 1"
proof -
  let ?m = "AList.delete ''id'' demo_message"
  have env: "validate_envelope ?m = Inr ''session/prompt''" "validate_envelope demo_message = Inr ''session/prompt''"
    by (simp_all add: validate_envelope_def demo_message_def demo_params_def kw_def dict_get_def JSONRPC_VERSION_def MAX_MESSAGE_BYTES_def
        canonical_bytes_def dumps_def member_text_def quoted_def escape_char_def char_code_def show_int_def show_nat.simps utf8_def
        utf8_char_def digit_def)
  have f: "dict_get ?m ''params'' (JObj []) = JObj demo_params" "kw ?m ''id'' = JNull"
    "dict_get demo_message ''params'' (JObj []) = JObj demo_params" "kw demo_message ''id'' = JInt 1"
    by (simp_all add: demo_message_def dict_get_def kw_def)
  obtain sh' r where pr: "acp_prompt (demo_env g p) demo_backend demo_shim demo_params = (sh', r)" by fastforce
  then have "ac_backend sh' = 1" using demo_handled[OF assms] env f by (cases r) (auto simp: handle_def Let_def)
  moreover have "handle (demo_env g p) demo_backend demo_shim ?m = (sh', [])"
    using pr env f by (cases r) (auto simp: handle_def Let_def error_reply_def)
  ultimately show ?thesis by blast
qed

subsection \<open>The registry, the watcher and the shim together\<close>

record 'b acp_system =
  sy_registry :: revocation_registry
  sy_watcher :: revocation_watcher
  sy_shim :: "'b acp_shim"

definition provider :: "revocation_registry \<Rightarrow> revocation_answer" where
  "provider reg = (case acp_snapshot reg of Inl _ \<Rightarrow> ProviderRaised | Inr s \<Rightarrow> Answer s)"

inductive system_step :: "'b backend \<Rightarrow> 'b acp_system \<Rightarrow> 'b acp_system \<Rightarrow> bool" for bk where
  revoking: "registry_step (sy_registry y) reg' \<Longrightarrow> system_step bk y (y\<lparr>sy_registry := reg'\<rparr>)"
| polling: "run_round apply_revocations (sy_registry y) (sy_watcher y, sy_shim y) = (w', sh')
    \<Longrightarrow> system_step bk y (y\<lparr>sy_watcher := w', sy_shim := sh'\<rparr>)"
| receiving: "en_revocations env = provider (sy_registry y) \<Longrightarrow> handle env bk (sy_shim y) message = (sh', out)
    \<Longrightarrow> system_step bk y (y\<lparr>sy_shim := sh'\<rparr>)"

inductive system_steps :: "'b backend \<Rightarrow> 'b acp_system \<Rightarrow> 'b acp_system \<Rightarrow> bool" for bk where
  rest: "system_steps bk y y"
| step: "system_steps bk y y' \<Longrightarrow> system_step bk y' y'' \<Longrightarrow> system_steps bk y y''"

definition revoked_now :: "revocation_registry \<Rightarrow> pystr set" where
  "revoked_now reg = set (of_type ''agent'' (rr_rows reg))"

definition system_inv :: "'b acp_system \<Rightarrow> bool" where
  "system_inv y \<longleftrightarrow> registry_inv (sy_registry y) \<and> sessions_ok (sy_shim y)
     \<and> rw_last_epoch (sy_watcher y) \<le> rr_epoch (sy_registry y)
     \<and> (rw_last_epoch (sy_watcher y) = rr_epoch (sy_registry y)
          \<longrightarrow> bound_agents (sy_shim y) \<inter> revoked_now (sy_registry y) = {})"

lemma same_epoch_same_rows:
  assumes "registry_inv reg" "registry_inv reg'" "grown reg reg'" "rr_epoch reg' = rr_epoch reg"
  shows "rr_rows reg' = rr_rows reg"
proof -
  from assms(3) obtain rows where r: "rr_rows reg' = rr_rows reg @ rows" by (auto simp: grown_def)
  have "length (rr_rows reg') = length (rr_rows reg)" using assms(1,2,4) by (simp add: registry_inv_def)
  with r show ?thesis by simp
qed

lemma applied_sessions:
  assumes "apply_revocations sh s = (sh', removed)"
  shows "(sessions_ok sh \<longrightarrow> sessions_ok sh') \<and> bound_agents sh' \<subseteq> bound_agents sh - rs_revoked_agent_key_ids s"
  using assms
  by (auto simp: apply_revocations_def Let_def sessions_ok_def bound_agents_def wf_dict_filter intro: le_trans[OF length_filter_le])

lemma system_step_inv:
  assumes "system_step bk y y'" "system_inv y"
  shows "system_inv y'"
  using assms(1)
proof cases
  case (revoking reg')
  from registry_step_grown[OF revoking(2)] assms(2) have g: "grown (sy_registry y) reg'" "registry_inv reg'"
    by (auto simp: system_inv_def)
  have "rr_rows reg' = rr_rows (sy_registry y)" if "rw_last_epoch (sy_watcher y) = rr_epoch reg'"
    using that same_epoch_same_rows g assms(2) by (force simp: system_inv_def grown_def)
  with g revoking(1) assms(2) show ?thesis by (auto simp: system_inv_def grown_def revoked_now_def)
next
  case (polling w' sh')
  let ?s = "\<lparr>rs_epoch = rr_epoch (sy_registry y), rs_revoked_agent_key_ids = revoked_now (sy_registry y),
    rs_revoked_grant_ids = set (of_type ''grant'' (rr_rows (sy_registry y)))\<rparr>"
  have snap: "acp_snapshot (sy_registry y) = Inr ?s"
    using assms(2) snapshot_of_inv by (auto simp: system_inv_def revoked_now_def)
  obtain sh1 removed where ap: "apply_revocations (sy_shim y) ?s = (sh1, removed)" by fastforce
  from polling(2) snap ap have "(w', sh') = (if rr_epoch (sy_registry y) = rw_last_epoch (sy_watcher y) then (sy_watcher y, sy_shim y)
      else ((sy_watcher y)\<lparr>rw_last_epoch := rr_epoch (sy_registry y), rw_last_error := None\<rparr>, sh1))"
    by (auto simp: run_round_def poll_once_def)
  with applied_sessions[OF ap] polling(1) assms(2) show ?thesis by (auto simp: system_inv_def split: if_splits)
next
  case (receiving env message sh' out)
  have snap: "unrevoked_now env \<inter> revoked_now (sy_registry y) = {}"
    using assms(2) receiving(2) snapshot_of_inv by (auto simp: system_inv_def unrevoked_now_def provider_def revoked_now_def)
  with handle_sessions[OF receiving(3)] receiving(1) assms(2) show ?thesis by (auto simp: system_inv_def)
qed



end
