(* ===== verification/McpTools.thy ===== *)
theory McpTools
  imports LogInterface
begin

text \<open>
  \<open>enterprise/mcp_tools.py\<close>: the registry of tool schemas, and \<open>SchemaValidator\<close> of
  \<open>enterprise/mcp_dispatch.py\<close>, which checks the arguments of a call against it. A schema
  record keeps the fields the validator reads and the declared default; the descriptive texts
  are left out. A \<open>pattern\<close> is a sequence of character classes with repetition bounds, the form
  every regular expression of the registry has, and \<open>fullmatch\<close> is \<open>re.fullmatch\<close> on it: the
  anchors add nothing there.
\<close>

subsection \<open>Patterns\<close>

text \<open>A class is the list of its characters.\<close>

datatype repetition = Rep (rep_class: string) (rep_low: nat) (rep_high: "nat option")

type_synonym pattern = "repetition list"

primrec fullmatch :: "pattern \<Rightarrow> pystr \<Rightarrow> bool" where
  "fullmatch [] s = (s = [])"
| "fullmatch (r # rs) s =
     (let run = length (takeWhile (\<lambda>c. c \<in> set (rep_class r)) s);
          high = (case rep_high r of None \<Rightarrow> run | Some h \<Rightarrow> min run h) in
      list_ex (\<lambda>n. fullmatch rs (drop n s)) [rep_low r..<Suc high])"

definition DIGITS :: string where
  "DIGITS = ''0123456789''"

definition LOWER :: string where
  "LOWER = ''abcdefghijklmnopqrstuvwxyz''"

definition UPPER :: string where
  "UPPER = ''ABCDEFGHIJKLMNOPQRSTUVWXYZ''"

definition literal :: "string \<Rightarrow> pattern" where
  "literal s = map (\<lambda>c. Rep [c] 1 (Some 1)) s"

definition PIPE_NAME_PATTERN :: pattern where
  "PIPE_NAME_PATTERN =
     literal ([CHR 0x5C, CHR 0x5C, CHR ''.'', CHR 0x5C] @ ''pipe'' @ [CHR 0x5C])
     @ [Rep (UPPER @ LOWER @ DIGITS @ ''_-.'') 1 (Some 200)]"

definition LEASE_ID_PATTERN :: pattern where
  "LEASE_ID_PATTERN = [Rep (UPPER @ LOWER @ DIGITS @ ''_-'') 1 (Some 128)]"

definition AGENT_ID_PATTERN :: pattern where
  "AGENT_ID_PATTERN = [Rep (UPPER @ LOWER @ DIGITS @ ''_-'') 1 (Some 128)]"

definition LOGICAL_TARGET_ID_PATTERN :: pattern where
  "LOGICAL_TARGET_ID_PATTERN = [Rep LOWER 1 (Some 1), Rep (LOWER @ DIGITS @ ''._-'') 0 (Some 127)]"

definition HEX_PATTERN :: pattern where
  "HEX_PATTERN = [Rep (DIGITS @ ''ABCDEFabcdef'') 1 None]"

definition B64_PATTERN :: pattern where
  "B64_PATTERN = [Rep (UPPER @ LOWER @ DIGITS @ ''+/-_'') 1 None, Rep ''='' 0 None]"

definition ISO_PATTERN :: pattern where
  "ISO_PATTERN =
     [Rep DIGITS 4 (Some 4)] @ literal ''-'' @ [Rep DIGITS 2 (Some 2)] @ literal ''-'' @ [Rep DIGITS 2 (Some 2)]
     @ literal ''T'' @ [Rep DIGITS 2 (Some 2)] @ literal '':'' @ [Rep DIGITS 2 (Some 2)] @ literal '':''
     @ [Rep DIGITS 2 (Some 2)]"

definition EVENT_TYPE_PATTERN :: pattern where
  "EVENT_TYPE_PATTERN = [Rep LOWER 1 (Some 1), Rep (LOWER @ DIGITS @ ''-'') 0 (Some 62)]"

definition APPROVAL_ID_PATTERN :: pattern where
  "APPROVAL_ID_PATTERN = [Rep (UPPER @ LOWER @ DIGITS @ ''-'') 1 None]"

subsection \<open>Bounds\<close>

definition LEASE_ID_MAX :: nat where "LEASE_ID_MAX = 128"
definition AGENT_ID_MAX :: nat where "AGENT_ID_MAX = 128"
definition EVENT_TYPE_MAX :: nat where "EVENT_TYPE_MAX = 64"
definition REASON_MAX :: nat where "REASON_MAX = 512"
definition HEX_MAX :: nat where "HEX_MAX = 1024"
definition B64_MAX :: nat where "B64_MAX = 1024"
definition ISO_MAX :: nat where "ISO_MAX = 32"
definition EXE_NAME_MAX :: nat where "EXE_NAME_MAX = 260"
definition TEXT_MAX :: nat where "TEXT_MAX = 4096"
definition RAW_TEXT_MAX :: nat where "RAW_TEXT_MAX = 131072"
definition RECEIPT_MAX :: nat where "RECEIPT_MAX = 8192"
definition PIPE_NAME_MAX :: nat where "PIPE_NAME_MAX = 256"
definition LOGICAL_TARGET_ID_MAX :: nat where "LOGICAL_TARGET_ID_MAX = 128"
definition HWND_MAX :: int where "HWND_MAX = 4294967294"

subsection \<open>The registry\<close>

record property_schema =
  ps_type :: pystr
  ps_minLength :: "nat option"
  ps_maxLength :: "nat option"
  ps_pattern :: "pattern option"
  ps_minimum :: "int option"
  ps_maximum :: "int option"
  ps_enum :: "pystr list option"
  ps_default :: "json option"

definition property_of :: "pystr \<Rightarrow> property_schema" where
  "property_of t =
     \<lparr>ps_type = t, ps_minLength = None, ps_maxLength = None, ps_pattern = None, ps_minimum = None, ps_maximum = None,
      ps_enum = None, ps_default = None\<rparr>"

record tool =
  tl_name :: pystr
  tl_required :: "pystr list"
  tl_additional :: bool
  tl_properties :: "(pystr \<times> property_schema) list"

definition tool_sc_inject_text :: tool where
  "tool_sc_inject_text =
     \<lparr>tl_name = ''sc_inject_text'', tl_required = [''lease_id'', ''hwnd'', ''text''], tl_additional = False, tl_properties =
       [(''lease_id'', (property_of ''string'')\<lparr>ps_maxLength := Some LEASE_ID_MAX, ps_pattern := Some LEASE_ID_PATTERN\<rparr>),
        (''hwnd'', (property_of ''integer'')\<lparr>ps_minimum := Some 1, ps_maximum := Some HWND_MAX\<rparr>),
        (''text'', (property_of ''string'')\<lparr>ps_minLength := Some 1, ps_maxLength := Some TEXT_MAX\<rparr>),
        (''delivery_timeout_ms'', (property_of ''integer'')\<lparr>ps_minimum := Some 100, ps_maximum := Some 10000, ps_default := Some (JInt 3000)\<rparr>),
        (''classification'', (property_of ''string'')\<lparr>ps_enum := Some [''UNCLASSIFIED'', ''CUI'', ''SECRET'', ''TOP_SECRET'']\<rparr>),
        (''approval_id'', (property_of ''string'')\<lparr>ps_maxLength := Some 64, ps_pattern := Some APPROVAL_ID_PATTERN\<rparr>),
        (''echo_filter'', (property_of ''boolean'')\<lparr>ps_default := Some (JBool True)\<rparr>)]\<rparr>"

definition tool_sc_read_output :: tool where
  "tool_sc_read_output =
     \<lparr>tl_name = ''sc_read_output'', tl_required = [''lease_id'', ''hwnd''], tl_additional = False, tl_properties =
       [(''lease_id'', (property_of ''string'')\<lparr>ps_maxLength := Some LEASE_ID_MAX, ps_pattern := Some LEASE_ID_PATTERN\<rparr>),
        (''hwnd'', (property_of ''integer'')\<lparr>ps_minimum := Some 1, ps_maximum := Some HWND_MAX\<rparr>),
        (''timeout_ms'', (property_of ''integer'')\<lparr>ps_minimum := Some 100, ps_maximum := Some 30000, ps_default := Some (JInt 5000)\<rparr>),
        (''strip_ansi'', (property_of ''boolean'')\<lparr>ps_default := Some (JBool True)\<rparr>),
        (''classification'', (property_of ''string'')\<lparr>ps_enum := Some [''UNCLASSIFIED'', ''CUI'', ''SECRET'', ''TOP_SECRET''], ps_default := Some (JStr ''UNCLASSIFIED'')\<rparr>),
        (''approval_id'', (property_of ''string'')\<lparr>ps_maxLength := Some 64, ps_pattern := Some APPROVAL_ID_PATTERN\<rparr>)]\<rparr>"

definition tool_sc_verify_target :: tool where
  "tool_sc_verify_target =
     \<lparr>tl_name = ''sc_verify_target'', tl_required = [''hwnd''], tl_additional = False, tl_properties =
       [(''hwnd'', (property_of ''integer'')\<lparr>ps_minimum := Some 1, ps_maximum := Some HWND_MAX\<rparr>),
        (''expected_exe'', (property_of ''string'')\<lparr>ps_maxLength := Some EXE_NAME_MAX\<rparr>),
        (''expected_class'', (property_of ''string'')\<lparr>ps_maxLength := Some 256\<rparr>),
        (''expected_pid'', (property_of ''integer'')\<lparr>ps_minimum := Some 1, ps_maximum := Some 4194304\<rparr>)]\<rparr>"

definition tool_sc_request_lease :: tool where
  "tool_sc_request_lease =
     \<lparr>tl_name = ''sc_request_lease'', tl_required = [''hwnd'', ''role'', ''agent_id''], tl_additional = False, tl_properties =
       [(''hwnd'', (property_of ''integer'')\<lparr>ps_minimum := Some 1, ps_maximum := Some HWND_MAX\<rparr>),
        (''role'', (property_of ''string'')\<lparr>ps_enum := Some [''sender'', ''receiver'', ''observer'']\<rparr>),
        (''ttl_seconds'', (property_of ''integer'')\<lparr>ps_minimum := Some 30, ps_maximum := Some 3600, ps_default := Some (JInt 300)\<rparr>),
        (''agent_id'', (property_of ''string'')\<lparr>ps_maxLength := Some AGENT_ID_MAX, ps_pattern := Some AGENT_ID_PATTERN\<rparr>)]\<rparr>"

definition tool_sc_request_target_lease :: tool where
  "tool_sc_request_target_lease =
     \<lparr>tl_name = ''sc_request_target_lease'', tl_required = [''logical_target_id'', ''role'', ''agent_id''], tl_additional = False, tl_properties =
       [(''logical_target_id'', (property_of ''string'')\<lparr>ps_maxLength := Some LOGICAL_TARGET_ID_MAX, ps_pattern := Some LOGICAL_TARGET_ID_PATTERN\<rparr>),
        (''role'', (property_of ''string'')\<lparr>ps_enum := Some [''sender'', ''receiver'', ''observer'']\<rparr>),
        (''ttl_seconds'', (property_of ''integer'')\<lparr>ps_minimum := Some 30, ps_maximum := Some 3600, ps_default := Some (JInt 300)\<rparr>),
        (''agent_id'', (property_of ''string'')\<lparr>ps_maxLength := Some AGENT_ID_MAX, ps_pattern := Some AGENT_ID_PATTERN\<rparr>)]\<rparr>"

definition tool_sc_revoke_lease :: tool where
  "tool_sc_revoke_lease =
     \<lparr>tl_name = ''sc_revoke_lease'', tl_required = [''lease_id''], tl_additional = False, tl_properties =
       [(''lease_id'', (property_of ''string'')\<lparr>ps_maxLength := Some LEASE_ID_MAX, ps_pattern := Some LEASE_ID_PATTERN\<rparr>),
        (''reason'', (property_of ''string'')\<lparr>ps_maxLength := Some REASON_MAX\<rparr>)]\<rparr>"

definition tool_sc_list_leases :: tool where
  "tool_sc_list_leases =
     \<lparr>tl_name = ''sc_list_leases'', tl_required = [], tl_additional = False, tl_properties =
       [(''filter_role'', (property_of ''string'')\<lparr>ps_enum := Some [''sender'', ''receiver'', ''observer'', ''all''], ps_default := Some (JStr ''all'')\<rparr>),
        (''filter_agent_id'', (property_of ''string'')\<lparr>ps_maxLength := Some AGENT_ID_MAX, ps_pattern := Some AGENT_ID_PATTERN\<rparr>),
        (''include_expired'', (property_of ''boolean'')\<lparr>ps_default := Some (JBool False)\<rparr>)]\<rparr>"

definition tool_sc_get_lease_info :: tool where
  "tool_sc_get_lease_info =
     \<lparr>tl_name = ''sc_get_lease_info'', tl_required = [''lease_id''], tl_additional = False, tl_properties =
       [(''lease_id'', (property_of ''string'')\<lparr>ps_maxLength := Some LEASE_ID_MAX, ps_pattern := Some LEASE_ID_PATTERN\<rparr>)]\<rparr>"

definition tool_sc_audit_tail :: tool where
  "tool_sc_audit_tail =
     \<lparr>tl_name = ''sc_audit_tail'', tl_required = [], tl_additional = False, tl_properties =
       [(''n'', (property_of ''integer'')\<lparr>ps_minimum := Some 1, ps_maximum := Some 1000, ps_default := Some (JInt 20)\<rparr>),
        (''event_type'', (property_of ''string'')\<lparr>ps_maxLength := Some EVENT_TYPE_MAX, ps_pattern := Some EVENT_TYPE_PATTERN\<rparr>)]\<rparr>"

definition tool_sc_audit_search :: tool where
  "tool_sc_audit_search =
     \<lparr>tl_name = ''sc_audit_search'', tl_required = [], tl_additional = False, tl_properties =
       [(''agent_id'', (property_of ''string'')\<lparr>ps_maxLength := Some AGENT_ID_MAX, ps_pattern := Some AGENT_ID_PATTERN\<rparr>),
        (''hwnd'', (property_of ''integer'')\<lparr>ps_minimum := Some 1, ps_maximum := Some HWND_MAX\<rparr>),
        (''event_type'', (property_of ''string'')\<lparr>ps_maxLength := Some EVENT_TYPE_MAX, ps_pattern := Some EVENT_TYPE_PATTERN\<rparr>),
        (''since_iso'', (property_of ''string'')\<lparr>ps_maxLength := Some ISO_MAX, ps_pattern := Some ISO_PATTERN\<rparr>),
        (''until_iso'', (property_of ''string'')\<lparr>ps_maxLength := Some ISO_MAX, ps_pattern := Some ISO_PATTERN\<rparr>),
        (''limit'', (property_of ''integer'')\<lparr>ps_minimum := Some 1, ps_maximum := Some 1000, ps_default := Some (JInt 100)\<rparr>)]\<rparr>"

definition tool_sc_mesh_peers :: tool where
  "tool_sc_mesh_peers =
     \<lparr>tl_name = ''sc_mesh_peers'', tl_required = [], tl_additional = False, tl_properties =
       [(''include_offline'', (property_of ''boolean'')\<lparr>ps_default := Some (JBool False)\<rparr>)]\<rparr>"

definition tool_sc_channel_status :: tool where
  "tool_sc_channel_status =
     \<lparr>tl_name = ''sc_channel_status'', tl_required = [], tl_additional = False, tl_properties =
       [(''check_etw'', (property_of ''boolean'')\<lparr>ps_default := Some (JBool True)\<rparr>)]\<rparr>"

definition tool_sc_target_guard_check :: tool where
  "tool_sc_target_guard_check =
     \<lparr>tl_name = ''sc_target_guard_check'', tl_required = [''hwnd''], tl_additional = False, tl_properties =
       [(''hwnd'', (property_of ''integer'')\<lparr>ps_minimum := Some 1, ps_maximum := Some HWND_MAX\<rparr>)]\<rparr>"

definition tool_sc_identity_sign :: tool where
  "tool_sc_identity_sign =
     \<lparr>tl_name = ''sc_identity_sign'', tl_required = [''payload_hex''], tl_additional = False, tl_properties =
       [(''payload_hex'', (property_of ''string'')\<lparr>ps_maxLength := Some HEX_MAX, ps_pattern := Some HEX_PATTERN\<rparr>),
        (''key_provider'', (property_of ''string'')\<lparr>ps_enum := Some [''software'', ''tpm''], ps_default := Some (JStr ''software'')\<rparr>)]\<rparr>"

definition tool_sc_identity_verify :: tool where
  "tool_sc_identity_verify =
     \<lparr>tl_name = ''sc_identity_verify'', tl_required = [''payload_hex'', ''signature_b64'', ''public_key_b64''], tl_additional = False, tl_properties =
       [(''payload_hex'', (property_of ''string'')\<lparr>ps_maxLength := Some HEX_MAX, ps_pattern := Some HEX_PATTERN\<rparr>),
        (''signature_b64'', (property_of ''string'')\<lparr>ps_maxLength := Some B64_MAX, ps_pattern := Some B64_PATTERN\<rparr>),
        (''public_key_b64'', (property_of ''string'')\<lparr>ps_maxLength := Some B64_MAX, ps_pattern := Some B64_PATTERN\<rparr>),
        (''algorithm'', (property_of ''string'')\<lparr>ps_enum := Some [''Ed25519''], ps_default := Some (JStr ''Ed25519'')\<rparr>)]\<rparr>"

definition tool_sc_session_stamp :: tool where
  "tool_sc_session_stamp =
     \<lparr>tl_name = ''sc_session_stamp'', tl_required = [''hwnd''], tl_additional = False, tl_properties =
       [(''hwnd'', (property_of ''integer'')\<lparr>ps_minimum := Some 1, ps_maximum := Some HWND_MAX\<rparr>),
        (''use_tpm'', (property_of ''boolean'')\<lparr>ps_default := Some (JBool False)\<rparr>)]\<rparr>"

definition tool_sc_channel_route :: tool where
  "tool_sc_channel_route =
     \<lparr>tl_name = ''sc_channel_route'', tl_required = [''hwnd''], tl_additional = False, tl_properties =
       [(''hwnd'', (property_of ''integer'')\<lparr>ps_minimum := Some 1, ps_maximum := Some HWND_MAX\<rparr>),
        (''preferred_channel'', (property_of ''string'')\<lparr>ps_enum := Some [''auto'', ''wm_char'', ''uia'', ''pipe''], ps_default := Some (JStr ''auto'')\<rparr>)]\<rparr>"

definition tool_sc_echo_filter :: tool where
  "tool_sc_echo_filter =
     \<lparr>tl_name = ''sc_echo_filter'', tl_required = [''raw_text'', ''injected_text''], tl_additional = False, tl_properties =
       [(''raw_text'', (property_of ''string'')\<lparr>ps_maxLength := Some RAW_TEXT_MAX\<rparr>),
        (''injected_text'', (property_of ''string'')\<lparr>ps_maxLength := Some TEXT_MAX\<rparr>),
        (''probe_token'', (property_of ''string'')\<lparr>ps_maxLength := Some 256\<rparr>)]\<rparr>"

definition tool_sc_pipe_ping :: tool where
  "tool_sc_pipe_ping =
     \<lparr>tl_name = ''sc_pipe_ping'', tl_required = [''pipe_name''], tl_additional = False, tl_properties =
       [(''pipe_name'', (property_of ''string'')\<lparr>ps_maxLength := Some PIPE_NAME_MAX, ps_pattern := Some PIPE_NAME_PATTERN\<rparr>),
        (''timeout_ms'', (property_of ''integer'')\<lparr>ps_minimum := Some 100, ps_maximum := Some 10000, ps_default := Some (JInt 1000)\<rparr>)]\<rparr>"

definition tool_sc_policy_check :: tool where
  "tool_sc_policy_check =
     \<lparr>tl_name = ''sc_policy_check'', tl_required = [''action_type'', ''agent_id'', ''target_hwnd''], tl_additional = False, tl_properties =
       [(''action_type'', (property_of ''string'')\<lparr>ps_enum := Some [''inject'', ''read'', ''lease'', ''revoke'', ''admin'']\<rparr>),
        (''agent_id'', (property_of ''string'')\<lparr>ps_maxLength := Some AGENT_ID_MAX, ps_pattern := Some AGENT_ID_PATTERN\<rparr>),
        (''target_hwnd'', (property_of ''integer'')\<lparr>ps_minimum := Some 1, ps_maximum := Some HWND_MAX\<rparr>),
        (''classification'', (property_of ''string'')\<lparr>ps_enum := Some [''UNCLASSIFIED'', ''CUI'', ''SECRET'', ''TOP_SECRET'']\<rparr>)]\<rparr>"

definition tool_sc_receipt_verify :: tool where
  "tool_sc_receipt_verify =
     \<lparr>tl_name = ''sc_receipt_verify'', tl_required = [''receipt_json'', ''expected_agent_pub_b64''], tl_additional = False, tl_properties =
       [(''receipt_json'', (property_of ''string'')\<lparr>ps_maxLength := Some RECEIPT_MAX\<rparr>),
        (''expected_agent_pub_b64'', (property_of ''string'')\<lparr>ps_maxLength := Some B64_MAX, ps_pattern := Some B64_PATTERN\<rparr>)]\<rparr>"

definition TOOLS :: "tool list" where
  "TOOLS =
     [tool_sc_inject_text, tool_sc_read_output, tool_sc_verify_target, tool_sc_request_lease, tool_sc_request_target_lease,
      tool_sc_revoke_lease, tool_sc_list_leases, tool_sc_get_lease_info, tool_sc_audit_tail, tool_sc_audit_search,
      tool_sc_mesh_peers, tool_sc_channel_status, tool_sc_target_guard_check, tool_sc_identity_sign, tool_sc_identity_verify,
      tool_sc_session_stamp, tool_sc_channel_route, tool_sc_echo_filter, tool_sc_pipe_ping, tool_sc_policy_check,
      tool_sc_receipt_verify]"

definition get_tool_registry :: "tool list" where
  "get_tool_registry = TOOLS"

text \<open>\<open>get_tool\<close>: an unknown name is a \<open>KeyError\<close>, whose text is the representation of its message.\<close>

definition get_tool :: "pystr \<Rightarrow> pystr + tool" where
  "get_tool name =
     (case map_of (map (\<lambda>t. (tl_name t, t)) TOOLS) name of
        Some t \<Rightarrow> Inr t
      | None \<Rightarrow>
          Inl (py_repr (''Unknown MCP tool: '' @ py_repr name @ ''. Available: '' @ py_repr_list (sort (map tl_name TOOLS)))))"

subsection \<open>SchemaValidator\<close>

text \<open>\<open>_validate_property\<close>: the first check that fails, with its message.\<close>

definition type_error :: "pystr \<Rightarrow> pystr \<Rightarrow> json \<Rightarrow> pystr option" where
  "type_error typ1 field v =
     (if typ1 = ''string'' \<and> \<not> (case v of JStr _ \<Rightarrow> True | _ \<Rightarrow> False) then Some (field @ '' must be string'')
      else if typ1 = ''integer'' \<and> \<not> (case v of JInt _ \<Rightarrow> True | _ \<Rightarrow> False) then Some (field @ '' must be integer'')
      else if typ1 = ''number'' \<and> \<not> (case v of JInt _ \<Rightarrow> True | JFloat _ \<Rightarrow> True | _ \<Rightarrow> False)
        then Some (field @ '' must be number'')
      else if typ1 = ''boolean'' \<and> \<not> (case v of JBool _ \<Rightarrow> True | _ \<Rightarrow> False) then Some (field @ '' must be boolean'')
      else if typ1 = ''array'' \<and> \<not> (case v of JArr _ \<Rightarrow> True | _ \<Rightarrow> False) then Some (field @ '' must be array'')
      else if typ1 = ''object'' \<and> \<not> (case v of JObj _ \<Rightarrow> True | _ \<Rightarrow> False) then Some (field @ '' must be object'')
      else None)"

definition text_error :: "property_schema \<Rightarrow> pystr \<Rightarrow> pystr \<Rightarrow> pystr option" where
  "text_error ps field s =
     (if (case ps_minLength ps of None \<Rightarrow> False | Some m \<Rightarrow> length s < m)
        then Some (field @ '' below minLength '' @ show_int (int (the (ps_minLength ps))))
      else if (case ps_maxLength ps of None \<Rightarrow> False | Some m \<Rightarrow> m < length s)
        then Some (field @ '' exceeds maxLength '' @ show_int (int (the (ps_maxLength ps))))
      else if (case ps_pattern ps of None \<Rightarrow> False | Some p \<Rightarrow> \<not> fullmatch p s)
        then Some (field @ '' does not match required pattern'')
      else None)"

definition range_error :: "property_schema \<Rightarrow> pystr \<Rightarrow> int \<Rightarrow> pystr option" where
  "range_error ps field n =
     (if (case ps_minimum ps of None \<Rightarrow> False | Some m \<Rightarrow> n < m)
        then Some (field @ '' below minimum '' @ show_int (the (ps_minimum ps)))
      else if (case ps_maximum ps of None \<Rightarrow> False | Some m \<Rightarrow> m < n)
        then Some (field @ '' above maximum '' @ show_int (the (ps_maximum ps)))
      else None)"

definition validate_property :: "pystr \<Rightarrow> pystr \<Rightarrow> json \<Rightarrow> property_schema \<Rightarrow> pystr option" where
  "validate_property tool_name field v ps =
     (case type_error (ps_type ps) field v of
        Some e \<Rightarrow> Some e
      | None \<Rightarrow>
     (case (case v of JStr s \<Rightarrow> text_error ps field s | JInt n \<Rightarrow> range_error ps field n | _ \<Rightarrow> None) of
        Some e \<Rightarrow> Some e
      | None \<Rightarrow>
          (case ps_enum ps of
             None \<Rightarrow> None
           | Some values \<Rightarrow>
               if list_ex (\<lambda>x. v = JStr x) values then None
               else Some (tool_name @ ''.'' @ field @ '' must be one of '' @ py_repr_list values))))"

fun first_error :: "('a \<Rightarrow> pystr option) \<Rightarrow> 'a list \<Rightarrow> pystr option" where
  "first_error f [] = None"
| "first_error f (x # xs) = (case f x of Some e \<Rightarrow> Some e | None \<Rightarrow> first_error f xs)"

definition validate :: "pystr \<Rightarrow> json \<Rightarrow> pystr + json_object" where
  "validate tool_name v =
     (case v of
        JObj args \<Rightarrow>
          bind_result (get_tool tool_name) (\<lambda>t.
            (case first_error (\<lambda>f. if map_of args f = None then Some (''missing required field: '' @ f) else None) (tl_required t) of
               Some e \<Rightarrow> Inl e
             | None \<Rightarrow>
            (let extra = filter (\<lambda>f. map_of (tl_properties t) f = None) (sort (map fst args)) in
             if \<not> tl_additional t \<and> extra \<noteq> [] then Inl (''unknown field(s): '' @ join_with '', '' extra)
             else case first_error (\<lambda>(f, x). case map_of (tl_properties t) f of
                      None \<Rightarrow> None | Some ps \<Rightarrow> validate_property tool_name f x ps) args of
               Some e \<Rightarrow> Inl e
             | None \<Rightarrow> Inr args)))
      | _ \<Rightarrow> Inl ''arguments must be a JSON object'')"

end
