(* ===== verification/McpToolsSpec.thy ===== *)
theory McpToolsSpec
  imports McpTools
begin

text \<open>
  What the schema layer guarantees: \<open>fullmatch\<close> decides the language of a pattern, validation
  accepts exactly the objects that conform to the tool's schema and hands them on unchanged,
  the pipe names it lets through are local, and every declared default conforms to its own
  property.
\<close>

lemma Cons_eq_append_takeWhile:
  "(\<exists>a b. s = a @ b \<and> set a \<subseteq> A \<and> P (length a) \<and> Q b)
     \<longleftrightarrow> (\<exists>n \<le> length (takeWhile (\<lambda>c. c \<in> A) s). P n \<and> Q (drop n s))"
proof
  assume "\<exists>a b. s = a @ b \<and> set a \<subseteq> A \<and> P (length a) \<and> Q b"
  then obtain a b where s: "s = a @ b" and a: "set a \<subseteq> A" "P (length a)" "Q b" by blast
  have "takeWhile (\<lambda>c. c \<in> A) (a @ b) = a @ takeWhile (\<lambda>c. c \<in> A) b"
    using a(1) by (intro takeWhile_append2) blast
  with s a show "\<exists>n \<le> length (takeWhile (\<lambda>c. c \<in> A) s). P n \<and> Q (drop n s)"
    by (intro exI[of _ "length a"]) simp
next
  assume "\<exists>n \<le> length (takeWhile (\<lambda>c. c \<in> A) s). P n \<and> Q (drop n s)"
  then obtain n where n: "n \<le> length (takeWhile (\<lambda>c. c \<in> A) s)" "P n" "Q (drop n s)" by blast
  have "take n s = take n (takeWhile (\<lambda>c. c \<in> A) s)"
    using n(1) by (metis takeWhile_eq_take take_take min.absorb1 length_take min.bounded_iff)
  then have "set (take n s) \<subseteq> A" by (metis in_set_takeD set_takeWhileD subsetI)
  moreover have "length (take n s) = n" using n(1) length_takeWhile_le[of "\<lambda>c. c \<in> A" s] by simp
  ultimately show "\<exists>a b. s = a @ b \<and> set a \<subseteq> A \<and> P (length a) \<and> Q b"
    using n by (intro exI[of _ "take n s"] exI[of _ "drop n s"]) simp
qed

text \<open>The words of one repetition, and of a pattern.\<close>

definition piece_of :: "repetition \<Rightarrow> pystr \<Rightarrow> bool" where
  "piece_of r a \<longleftrightarrow> set a \<subseteq> set (rep_class r) \<and> rep_low r \<le> length a
     \<and> (case rep_high r of None \<Rightarrow> True | Some h \<Rightarrow> length a \<le> h)"

lemma list_ex_upt: "list_ex P [m..<Suc n] \<longleftrightarrow> (\<exists>k \<le> n. m \<le> k \<and> P k)"
  by (auto simp: list_ex_iff less_Suc_eq_le simp del: upt_Suc)

lemma fullmatch_Cons: "fullmatch (r # rs) s \<longleftrightarrow> (\<exists>a b. s = a @ b \<and> piece_of r a \<and> fullmatch rs b)"
proof -
  have "fullmatch (r # rs) s \<longleftrightarrow> (\<exists>n \<le> length (takeWhile (\<lambda>c. c \<in> set (rep_class r)) s).
      (rep_low r \<le> n \<and> (case rep_high r of None \<Rightarrow> True | Some h \<Rightarrow> n \<le> h)) \<and> fullmatch rs (drop n s))"
    unfolding fullmatch.simps Let_def list_ex_upt by (cases "rep_high r") (simp_all add: conj_ac)
  also have "\<dots> \<longleftrightarrow> (\<exists>a b. s = a @ b \<and> set a \<subseteq> set (rep_class r)
      \<and> (rep_low r \<le> length a \<and> (case rep_high r of None \<Rightarrow> True | Some h \<Rightarrow> length a \<le> h)) \<and> fullmatch rs b)"
    by (rule Cons_eq_append_takeWhile[symmetric])
  finally show ?thesis by (auto simp: piece_of_def)
qed

lemma fullmatch_pieces: "fullmatch rs s \<longleftrightarrow> (\<exists>ps. s = concat ps \<and> list_all2 piece_of rs ps)"
proof (induction rs arbitrary: s)
  case (Cons r rs)
  have "(\<exists>a b. s = a @ b \<and> piece_of r a \<and> (\<exists>ps. b = concat ps \<and> list_all2 piece_of rs ps))
      \<longleftrightarrow> (\<exists>a ps. s = concat (a # ps) \<and> piece_of r a \<and> list_all2 piece_of rs ps)" by auto
  also have "\<dots> \<longleftrightarrow> (\<exists>ps. s = concat ps \<and> list_all2 piece_of (r # rs) ps)"
    unfolding list_all2_Cons1 by blast
  finally show ?case unfolding fullmatch_Cons Cons.IH .
qed simp

lemma fullmatch_Nil: "fullmatch [] s \<longleftrightarrow> s = []"
  by simp

lemmas fullmatch_unfold = fullmatch_Cons fullmatch_Nil piece_of_def

declare fullmatch.simps(2) [simp del]

lemma fullmatch_single: "fullmatch [Rep cs lo hi] s \<longleftrightarrow> piece_of (Rep cs lo hi) s"
  by (auto simp: fullmatch_Cons)

lemma fullmatch_literal: "fullmatch (literal p @ rs) s \<longleftrightarrow> (\<exists>b. s = p @ b \<and> fullmatch rs b)"
proof (induction p arbitrary: s)
  case (Cons c p)
  have "piece_of (Rep [c] 1 (Some 1)) a \<longleftrightarrow> a = [c]" for a
    by (cases a) (auto simp: piece_of_def)
  with Cons show ?case by (auto simp: literal_def fullmatch_Cons)
qed (simp add: literal_def)

lemma fullmatch_length:
  assumes "fullmatch rs s" "list_all (\<lambda>r. rep_high r = Some (rep_low r)) rs"
  shows "length s = sum_list (map rep_low rs)"
  using assms
proof (induction rs arbitrary: s)
  case (Cons r rs)
  then obtain a b where "s = a @ b" "piece_of r a" "fullmatch rs b" unfolding fullmatch_Cons by blast
  with Cons show ?case by (fastforce simp: piece_of_def)
qed simp

subsection \<open>Conforming values\<close>

definition has_type :: "pystr \<Rightarrow> json \<Rightarrow> bool" where
  "has_type t v \<longleftrightarrow>
     (t = ''string'' \<longrightarrow> (\<exists>s. v = JStr s)) \<and> (t = ''integer'' \<longrightarrow> (\<exists>n. v = JInt n))
     \<and> (t = ''number'' \<longrightarrow> (\<exists>n. v = JInt n \<or> v = JFloat n)) \<and> (t = ''boolean'' \<longrightarrow> (\<exists>b. v = JBool b))
     \<and> (t = ''array'' \<longrightarrow> (\<exists>xs. v = JArr xs)) \<and> (t = ''object'' \<longrightarrow> (\<exists>d. v = JObj d))"

definition inhabits :: "property_schema \<Rightarrow> json \<Rightarrow> bool" where
  "inhabits ps v \<longleftrightarrow> has_type (ps_type ps) v
     \<and> (\<forall>s. v = JStr s \<longrightarrow>
          (\<forall>m. ps_minLength ps = Some m \<longrightarrow> m \<le> length s) \<and> (\<forall>m. ps_maxLength ps = Some m \<longrightarrow> length s \<le> m)
          \<and> (\<forall>p. ps_pattern ps = Some p \<longrightarrow> (\<exists>pieces. s = concat pieces \<and> list_all2 piece_of p pieces)))
     \<and> (\<forall>n. v = JInt n \<longrightarrow> (\<forall>m. ps_minimum ps = Some m \<longrightarrow> m \<le> n) \<and> (\<forall>m. ps_maximum ps = Some m \<longrightarrow> n \<le> m))
     \<and> (\<forall>xs. ps_enum ps = Some xs \<longrightarrow> v \<in> JStr ` set xs)"

definition conforms :: "tool \<Rightarrow> json_object \<Rightarrow> bool" where
  "conforms t args \<longleftrightarrow> set (tl_required t) \<subseteq> fst ` set args
     \<and> (tl_additional t \<or> fst ` set args \<subseteq> fst ` set (tl_properties t))
     \<and> (\<forall>(k, v) \<in> set args. \<forall>ps. map_of (tl_properties t) k = Some ps \<longrightarrow> inhabits ps v)"

lemma type_error_None: "type_error t field v = None \<longleftrightarrow> has_type t v"
  by (cases v) (auto simp: type_error_def has_type_def)

lemma text_error_None:
  "text_error ps field s = None \<longleftrightarrow>
     (\<forall>m. ps_minLength ps = Some m \<longrightarrow> m \<le> length s) \<and> (\<forall>m. ps_maxLength ps = Some m \<longrightarrow> length s \<le> m)
     \<and> (\<forall>p. ps_pattern ps = Some p \<longrightarrow> (\<exists>pieces. s = concat pieces \<and> list_all2 piece_of p pieces))"
  unfolding fullmatch_pieces[symmetric] by (auto simp: text_error_def split: option.splits)

lemma range_error_None:
  "range_error ps field n = None \<longleftrightarrow>
     (\<forall>m. ps_minimum ps = Some m \<longrightarrow> m \<le> n) \<and> (\<forall>m. ps_maximum ps = Some m \<longrightarrow> n \<le> m)"
  by (auto simp: range_error_def split: option.splits)

lemma validate_property_None: "validate_property name field v ps = None \<longleftrightarrow> inhabits ps v"
proof -
  have e: "(case ps_enum ps of None \<Rightarrow> None
      | Some values \<Rightarrow> if list_ex (\<lambda>x. v = JStr x) values then None
          else Some (name @ ''.'' @ field @ '' must be one of '' @ py_repr_list values)) = None
     \<longleftrightarrow> (\<forall>xs. ps_enum ps = Some xs \<longrightarrow> v \<in> JStr ` set xs)"
    by (auto simp: list_ex_iff split: option.splits)
  have b: "(case v of JStr s \<Rightarrow> text_error ps field s | JInt n \<Rightarrow> range_error ps field n | _ \<Rightarrow> None) = None
     \<longleftrightarrow> (\<forall>s. v = JStr s \<longrightarrow> text_error ps field s = None) \<and> (\<forall>n. v = JInt n \<longrightarrow> range_error ps field n = None)"
    by (cases v) simp_all
  have "(validate_property name field v ps = None) \<longleftrightarrow> type_error (ps_type ps) field v = None
      \<and> (case v of JStr s \<Rightarrow> text_error ps field s | JInt n \<Rightarrow> range_error ps field n | _ \<Rightarrow> None) = None
      \<and> (\<forall>xs. ps_enum ps = Some xs \<longrightarrow> v \<in> JStr ` set xs)"
    unfolding validate_property_def e[symmetric] by (simp split: option.split)
  then show ?thesis
    unfolding inhabits_def type_error_None b text_error_None range_error_None conj_assoc .
qed

lemma first_error_None: "first_error f xs = None \<longleftrightarrow> (\<forall>x \<in> set xs. f x = None)"
  by (induction xs) (auto split: option.splits)

lemma get_tool_registered: "get_tool name = Inr t \<Longrightarrow> t \<in> set TOOLS \<and> tl_name t = name"
  by (auto simp: get_tool_def split: option.splits dest!: map_of_SomeD)

lemma validate_iff:
  "validate name v = Inr args \<longleftrightarrow> v = JObj args \<and> (\<exists>t. get_tool name = Inr t \<and> conforms t args)"
proof (cases v)
  case (JObj d)
  show ?thesis
  proof (cases "get_tool name")
    case (Inr t)
    have r: "first_error (\<lambda>f. if map_of d f = None then Some (''missing required field: '' @ f) else None) (tl_required t) = None
        \<longleftrightarrow> set (tl_required t) \<subseteq> fst ` set d"
      by (auto simp: first_error_None map_of_eq_None_iff subset_iff)
    have x: "(\<not> tl_additional t \<and> filter (\<lambda>f. map_of (tl_properties t) f = None) (sort (map fst d)) \<noteq> [])
        \<longleftrightarrow> \<not> (tl_additional t \<or> fst ` set d \<subseteq> fst ` set (tl_properties t))"
      by (auto simp: filter_empty_conv map_of_eq_None_iff)
    have p: "first_error (\<lambda>(f, x). case map_of (tl_properties t) f of None \<Rightarrow> None
          | Some ps \<Rightarrow> validate_property name f x ps) d = None
        \<longleftrightarrow> (\<forall>(k, v) \<in> set d. \<forall>ps. map_of (tl_properties t) k = Some ps \<longrightarrow> inhabits ps v)"
      by (force simp: first_error_None validate_property_None split: option.splits)
    have "validate name v = Inr args \<longleftrightarrow> args = d \<and> conforms t d"
      unfolding validate_def JObj Inr bind_result_simps Let_def json.simps conforms_def r[symmetric] p[symmetric]
      using x by (simp only: split: option.split if_split) auto
    then show ?thesis by (auto simp: JObj Inr)
  qed (simp add: validate_def JObj)
qed (simp_all add: validate_def)

subsection \<open>The registry\<close>

lemmas tool_defs =
  tool_sc_inject_text_def tool_sc_read_output_def tool_sc_verify_target_def tool_sc_request_lease_def
  tool_sc_request_target_lease_def tool_sc_revoke_lease_def tool_sc_list_leases_def tool_sc_get_lease_info_def
  tool_sc_audit_tail_def tool_sc_audit_search_def tool_sc_mesh_peers_def tool_sc_channel_status_def
  tool_sc_target_guard_check_def tool_sc_identity_sign_def tool_sc_identity_verify_def tool_sc_session_stamp_def
  tool_sc_channel_route_def tool_sc_echo_filter_def tool_sc_pipe_ping_def tool_sc_policy_check_def
  tool_sc_receipt_verify_def

lemma tool_names:
  "map tl_name TOOLS =
     [''sc_inject_text'', ''sc_read_output'', ''sc_verify_target'', ''sc_request_lease'', ''sc_request_target_lease'',
      ''sc_revoke_lease'', ''sc_list_leases'', ''sc_get_lease_info'', ''sc_audit_tail'', ''sc_audit_search'',
      ''sc_mesh_peers'', ''sc_channel_status'', ''sc_target_guard_check'', ''sc_identity_sign'', ''sc_identity_verify'',
      ''sc_session_stamp'', ''sc_channel_route'', ''sc_echo_filter'', ''sc_pipe_ping'', ''sc_policy_check'',
      ''sc_receipt_verify'']"
  by (simp add: TOOLS_def tool_defs)

lemma tool_names_distinct: "distinct (map tl_name TOOLS)"
  unfolding tool_names by simp

lemma get_tool_iff: "get_tool name = Inr t \<longleftrightarrow> t \<in> set TOOLS \<and> tl_name t = name"
proof -
  have "distinct (map fst (map (\<lambda>t. (tl_name t, t)) TOOLS))" using tool_names_distinct by (simp add: comp_def)
  then have "map_of (map (\<lambda>t. (tl_name t, t)) TOOLS) name = Some t \<longleftrightarrow> t \<in> set TOOLS \<and> tl_name t = name"
    by (subst map_of_eq_Some_iff) auto
  then show ?thesis by (auto simp: get_tool_def split: option.splits)
qed

lemma get_tool_member: "t \<in> set TOOLS \<Longrightarrow> get_tool (tl_name t) = Inr t"
  by (simp add: get_tool_iff)

lemma get_tool_simps [simp]:
  "get_tool ''sc_inject_text'' = Inr tool_sc_inject_text" "get_tool ''sc_read_output'' = Inr tool_sc_read_output"
  "get_tool ''sc_request_lease'' = Inr tool_sc_request_lease"
  "get_tool ''sc_request_target_lease'' = Inr tool_sc_request_target_lease"
  "get_tool ''sc_revoke_lease'' = Inr tool_sc_revoke_lease" "get_tool ''sc_list_leases'' = Inr tool_sc_list_leases"
  "get_tool ''sc_get_lease_info'' = Inr tool_sc_get_lease_info" "get_tool ''sc_audit_tail'' = Inr tool_sc_audit_tail"
  "get_tool ''sc_audit_search'' = Inr tool_sc_audit_search" "get_tool ''sc_identity_sign'' = Inr tool_sc_identity_sign"
  "get_tool ''sc_session_stamp'' = Inr tool_sc_session_stamp" "get_tool ''sc_channel_route'' = Inr tool_sc_channel_route"
  "get_tool ''sc_pipe_ping'' = Inr tool_sc_pipe_ping" "get_tool ''sc_policy_check'' = Inr tool_sc_policy_check"
  by (simp_all add: get_tool_iff TOOLS_def tool_defs)

definition default_conforms :: "property_schema \<Rightarrow> bool" where
  "default_conforms ps = (case ps_default ps of None \<Rightarrow> True | Some v \<Rightarrow> inhabits ps v)"

lemma defaults_conform: "list_all (\<lambda>t. list_all (\<lambda>(k, ps). default_conforms ps) (tl_properties t)) TOOLS"
  by (simp add: TOOLS_def tool_defs default_conforms_def property_of_def inhabits_def has_type_def) blast

definition pipe_prefix :: pystr where
  "pipe_prefix = [CHR 0x5C, CHR 0x5C, CHR ''.'', CHR 0x5C] @ ''pipe'' @ [CHR 0x5C]"

lemma pipe_pattern: "fullmatch PIPE_NAME_PATTERN s \<longleftrightarrow>
    (\<exists>name. s = pipe_prefix @ name \<and> set name \<subseteq> set (UPPER @ LOWER @ DIGITS @ ''_-.'') \<and> 1 \<le> length name \<and> length name \<le> 200)"
  unfolding PIPE_NAME_PATTERN_def pipe_prefix_def[symmetric] fullmatch_literal fullmatch_single piece_of_def by simp

lemma validated_member:
  "validate name (JObj args) = Inr args \<Longrightarrow> get_tool name = Inr t \<Longrightarrow> map_of (tl_properties t) k = Some ps
     \<Longrightarrow> map_of args k = Some v \<Longrightarrow> inhabits ps v"
  unfolding validate_iff conforms_def by (fastforce dest: map_of_SomeD[of args])

lemma validated_required:
  "validate name (JObj args) = Inr args \<Longrightarrow> get_tool name = Inr t \<Longrightarrow> k \<in> set (tl_required t) \<Longrightarrow> \<exists>v. map_of args k = Some v"
  unfolding validate_iff conforms_def by (metis (no_types, lifting) Inr_inject image_iff map_of_eq_None_iff not_None_eq subsetD)

lemma validated_declared:
  "validate name (JObj args) = Inr args \<Longrightarrow> get_tool name = Inr t \<Longrightarrow> \<not> tl_additional t
     \<Longrightarrow> fst ` set args \<subseteq> fst ` set (tl_properties t)"
  unfolding validate_iff conforms_def by auto

lemma inhabits_pattern:
  "inhabits ps v \<Longrightarrow> ps_type ps = ''string'' \<Longrightarrow> ps_pattern ps = Some p \<Longrightarrow> \<exists>s. v = JStr s \<and> fullmatch p s"
  by (auto simp: inhabits_def has_type_def fullmatch_pieces)

text \<open>
  C37. Schema validation is type checking: it accepts a value exactly when it is an object that
  conforms to a registered tool of that name (the required members present, no undeclared
  member, every member of its declared type, length, range, pattern language and enumeration),
  and it hands that same object on; every default the registry declares conforms to its own
  property.
\<close>

theorem arguments_are_typed:
  "(validate name v = Inr args \<longleftrightarrow> v = JObj args \<and> list_ex (\<lambda>t. tl_name t = name \<and> conforms t args) TOOLS)
   \<and> list_all (\<lambda>t. list_all (\<lambda>(k, ps). default_conforms ps) (tl_properties t)) TOOLS"
  using defaults_conform by (auto simp: validate_iff list_ex_iff get_tool_iff)

text \<open>
  A pipe name that passes validation is local: the device prefix followed by 1 to 200
  characters without a separator, so no remote path can be named; the name \<open>..\<close> passes.
  A timestamp that passes is exactly 19 characters long: fractions and zone suffixes are refused.
\<close>

theorem validated_names_are_local:
  assumes "validate ''sc_pipe_ping'' (JObj args) = Inr args"
    and "validate ''sc_audit_search'' (JObj query) = Inr query" "map_of query ''since_iso'' = Some (JStr since)"
  shows "(\<exists>name. map_of args ''pipe_name'' = Some (JStr (pipe_prefix @ name)) \<and> 1 \<le> length name \<and> length name \<le> 200
        \<and> CHR 0x5C \<notin> set name \<and> CHR ''/'' \<notin> set name)
    \<and> validate ''sc_pipe_ping'' (JObj [(''pipe_name'', JStr (pipe_prefix @ ''..''))]) = Inr [(''pipe_name'', JStr (pipe_prefix @ ''..''))]
    \<and> length since = 19"
proof -
  have no_sep: "CHR 0x5C \<notin> set (UPPER @ LOWER @ DIGITS @ ''_-.'')" "CHR ''/'' \<notin> set (UPPER @ LOWER @ DIGITS @ ''_-.'')"
    by (simp_all add: UPPER_def LOWER_def DIGITS_def)
  obtain v where v: "map_of args ''pipe_name'' = Some v"
    using validated_required[OF assms(1) get_tool_simps(13)] by (auto simp: tool_defs)
  have "inhabits ((property_of ''string'')\<lparr>ps_maxLength := Some PIPE_NAME_MAX, ps_pattern := Some PIPE_NAME_PATTERN\<rparr>) v"
    by (rule validated_member[OF assms(1) get_tool_simps(13) _ v]) (simp add: tool_defs)
  from inhabits_pattern[OF this] obtain s where "v = JStr s" "fullmatch PIPE_NAME_PATTERN s" by (auto simp: property_of_def)
  with v no_sep have 1: "\<exists>name. map_of args ''pipe_name'' = Some (JStr (pipe_prefix @ name)) \<and> 1 \<le> length name
      \<and> length name \<le> 200 \<and> CHR 0x5C \<notin> set name \<and> CHR ''/'' \<notin> set name"
    unfolding pipe_pattern by blast
  have "inhabits ((property_of ''string'')\<lparr>ps_maxLength := Some ISO_MAX, ps_pattern := Some ISO_PATTERN\<rparr>) (JStr since)"
    by (rule validated_member[OF assms(2) get_tool_simps(9) _ assms(3)]) (simp add: tool_defs)
  from inhabits_pattern[OF this] have "fullmatch ISO_PATTERN since" by (auto simp: property_of_def)
  from fullmatch_length[OF this] have 3: "length since = 19" by (simp add: ISO_PATTERN_def literal_def)
  have "fullmatch PIPE_NAME_PATTERN (pipe_prefix @ ''..'')" unfolding pipe_pattern by simp
  then have 2: "validate ''sc_pipe_ping'' (JObj [(''pipe_name'', JStr (pipe_prefix @ ''..''))]) = Inr [(''pipe_name'', JStr (pipe_prefix @ ''..''))]"
    by (simp add: validate_iff conforms_def tool_defs inhabits_def has_type_def property_of_def fullmatch_pieces
        pipe_prefix_def PIPE_NAME_MAX_def)
  from 1 2 3 show ?thesis by blast
qed

definition demo_ping :: json_object where
  "demo_ping = [(''pipe_name'', JStr (pipe_prefix @ ''scent-1''))]"

definition demo_search :: json_object where
  "demo_search = [(''since_iso'', JStr ''2026-06-16T09:30:00'')]"

lemma demo_accepted: "validate ''sc_pipe_ping'' (JObj demo_ping) = Inr demo_ping" "validate ''sc_audit_search'' (JObj demo_search) = Inr demo_search"
proof -
  have "fullmatch PIPE_NAME_PATTERN (pipe_prefix @ ''scent-1'')"
    unfolding pipe_pattern by (simp add: LOWER_def DIGITS_def)
  then show "validate ''sc_pipe_ping'' (JObj demo_ping) = Inr demo_ping"
    by (simp add: validate_iff conforms_def tool_defs inhabits_def has_type_def property_of_def fullmatch_pieces demo_ping_def
        pipe_prefix_def PIPE_NAME_MAX_def)
  have "fullmatch ISO_PATTERN ''2026-06-16T09:30:00''" by code_simp
  then show "validate ''sc_audit_search'' (JObj demo_search) = Inr demo_search"
    by (simp add: validate_iff conforms_def tool_defs inhabits_def has_type_def property_of_def fullmatch_pieces demo_search_def
        ISO_MAX_def)
qed

theorem validated_names_are_local_witness:
  "CHR 0x5C \<notin> set ''scent-1'' \<and> length ''2026-06-16T09:30:00'' = 19
    \<and> (\<exists>name. map_of demo_ping ''pipe_name'' = Some (JStr (pipe_prefix @ name)) \<and> CHR ''/'' \<notin> set name)"
proof -
  have "map_of demo_search ''since_iso'' = Some (JStr ''2026-06-16T09:30:00'')" by (simp add: demo_search_def)
  from validated_names_are_local[OF demo_accepted this] show ?thesis by auto
qed

end
