(* ===== verification/Leases.thy ===== *)
theory Leases
  imports LogInterface
begin

text \<open>
  Runtime leases of \<open>enterprise/mcp_dispatch.py\<close>: \<open>RuntimeLease\<close>, the signed payload of its
  authority record and \<open>_LeaseAuthorityStore\<close>, which issues, revokes and verifies leases. The
  key pair of one store is the argument \<open>lease_keys\<close>; verification never raises there, a
  rejected signature is \<open>False\<close>. The main result is that an authority that verifies is a lease
  the store issued, field by field, and has not revoked, whatever was put into the lease table
  or in place of an authority record meanwhile.
\<close>

record lease =
  ls_lease_id :: pystr
  ls_agent_id :: pystr
  ls_hwnd :: int
  ls_role :: pystr
  ls_issued_at :: time
  ls_expires_at :: time
  ls_revoked :: bool
  ls_target_pid :: int
  ls_target_exe :: pystr
  ls_target_exe_path :: pystr
  ls_target_class :: pystr
  ls_target_title_hash :: pystr
  ls_logical_target_id :: pystr

definition lease_asdict :: "lease \<Rightarrow> json_object" where
  "lease_asdict l =
     [(''lease_id'', JStr (ls_lease_id l)), (''agent_id'', JStr (ls_agent_id l)), (''hwnd'', JInt (ls_hwnd l)),
      (''role'', JStr (ls_role l)), (''issued_at'', JFloat (ls_issued_at l)), (''expires_at'', JFloat (ls_expires_at l)),
      (''revoked'', JBool (ls_revoked l)), (''target_pid'', JInt (ls_target_pid l)),
      (''target_exe'', JStr (ls_target_exe l)), (''target_exe_path'', JStr (ls_target_exe_path l)),
      (''target_class'', JStr (ls_target_class l)), (''target_title_hash'', JStr (ls_target_title_hash l)),
      (''logical_target_id'', JStr (ls_logical_target_id l))]"

definition ttl_seconds :: "lease \<Rightarrow> time \<Rightarrow> time" where
  "ttl_seconds l now = max 0 (ls_expires_at l - now)"

definition lease_is_active :: "lease \<Rightarrow> time \<Rightarrow> bool" where
  "lease_is_active l now \<longleftrightarrow> \<not> ls_revoked l \<and> now < ls_expires_at l"

definition lease_to_dict :: "lease \<Rightarrow> time \<Rightarrow> json_object" where
  "lease_to_dict l now =
     lease_asdict l @ [(''ttl_seconds'', JFloat (ttl_seconds l now)), (''active'', JBool (lease_is_active l now))]"

text \<open>\<open>_lease_authority_payload\<close>: compact, sorted, ASCII.\<close>

definition lease_authority_payload :: "lease \<Rightarrow> bytes" where
  "lease_authority_payload l =
     dumps True (JObj (lease_asdict l @ [(''schema'', JStr ''selfconnect.lease-authority.v1'')]))"

text \<open>\<open>_lease_delegation_target\<close>.\<close>

definition lease_delegation_target :: "lease \<Rightarrow> json_object" where
  "lease_delegation_target l =
     [(''lease_id'', JStr (ls_lease_id l)), (''hwnd'', JInt (ls_hwnd l)), (''pid'', JInt (ls_target_pid l)),
      (''exe'', JStr (ls_target_exe l)), (''exe_path'', JStr (ls_target_exe_path l)),
      (''class_name'', JStr (ls_target_class l)), (''title_sha256'', JStr (ls_target_title_hash l)),
      (''logical_target_id'', JStr (ls_logical_target_id l))]"

subsection \<open>_LeaseAuthorityStore\<close>

record lease_keys =
  lk_sign :: "bytes \<Rightarrow> bytes"
  lk_verify :: "bytes \<Rightarrow> bytes \<Rightarrow> bool"

record lease_authority =
  la_lease :: lease
  la_signature :: bytes

record authority_store =
  au_records :: "(pystr \<times> lease_authority) list"
  au_revoked :: "pystr set"

definition authority_init :: authority_store where
  "authority_init = \<lparr>au_records = [], au_revoked = {}\<rparr>"

definition signed_authority :: "lease_keys \<Rightarrow> lease \<Rightarrow> lease_authority" where
  "signed_authority lk l = \<lparr>la_lease = l, la_signature = lk_sign lk (lease_authority_payload l)\<rparr>"

definition authority_issue :: "lease_keys \<Rightarrow> authority_store \<Rightarrow> lease \<Rightarrow> pystr + authority_store" where
  "authority_issue lk st l =
     (if map_of (au_records st) (ls_lease_id l) \<noteq> None \<or> ls_lease_id l \<in> au_revoked st
      then Inl ''lease authority already exists''
      else Inr (st\<lparr>au_records := AList.update (ls_lease_id l) (signed_authority lk l) (au_records st)\<rparr>))"

definition authority_revoke :: "lease_keys \<Rightarrow> authority_store \<Rightarrow> lease \<Rightarrow> pystr + authority_store" where
  "authority_revoke lk st l =
     (if map_of (au_records st) (ls_lease_id l) = None then Inl ''lease issuance authority is missing''
      else Inr (st\<lparr>au_records := AList.update (ls_lease_id l) (signed_authority lk (l\<lparr>ls_revoked := True\<rparr>)) (au_records st),
                   au_revoked := insert (ls_lease_id l) (au_revoked st)\<rparr>))"

text \<open>A refusal: its reason and the role the error carries.\<close>

record authority_error =
  ae_reason :: pystr
  ae_issued_role :: pystr

definition authority_error_of :: "pystr \<Rightarrow> pystr \<Rightarrow> authority_error" where
  "authority_error_of reason role = \<lparr>ae_reason = reason, ae_issued_role = role\<rparr>"

definition authority_verify ::
    "lease_keys \<Rightarrow> authority_store \<Rightarrow> pystr \<Rightarrow> lease \<Rightarrow> bool \<Rightarrow> authority_error + lease" where
  "authority_verify lk st requested_lease_id l allow_revoked =
     (if ls_lease_id l \<noteq> requested_lease_id
      then Inl (authority_error_of ''lease storage key does not match the embedded signed lease id'' (ls_role l))
      else case map_of (au_records st) requested_lease_id of
        None \<Rightarrow> Inl (authority_error_of ''lease issuance authority is missing'' ''missing'')
      | Some a \<Rightarrow>
          (let role = ls_role (la_lease a) in
           if \<not> lk_verify lk (la_signature a) (lease_authority_payload (la_lease a))
           then Inl (authority_error_of ''lease issuance authority signature is invalid'' role)
           else if l \<noteq> la_lease a
           then Inl (authority_error_of ''lease no longer matches its signed issuance authority'' role)
           else if requested_lease_id \<in> au_revoked st \<and> \<not> allow_revoked
           then Inl (authority_error_of ''lease issuance authority is revoked'' role)
           else Inr (la_lease a)))"

subsection \<open>The payload determines the lease\<close>

lemma lease_asdict_inject: "lease_asdict l = lease_asdict m \<longleftrightarrow> l = m"
  by (auto simp: lease_asdict_def intro: lease.equality)

lemma wf_lease_payload: "wf_dict (lease_asdict l @ [(''schema'', s)])"
  by (simp add: lease_asdict_def wf_dict_def)

lemma lease_authority_payload_inject: "lease_authority_payload l = lease_authority_payload m \<longleftrightarrow> l = m"
proof
  assume "lease_authority_payload l = lease_authority_payload m"
  then have eq: "key_sorted (JObj (lease_asdict l @ [(''schema'', JStr ''selfconnect.lease-authority.v1'')]))
      = key_sorted (JObj (lease_asdict m @ [(''schema'', JStr ''selfconnect.lease-authority.v1'')]))"
    by (simp add: lease_authority_payload_def dumps_inject)
  note get = key_sorted_members[OF eq wf_lease_payload wf_lease_payload]
  show "l = m"
    using get[of "''lease_id''"] get[of "''agent_id''"] get[of "''hwnd''"] get[of "''role''"] get[of "''issued_at''"]
      get[of "''expires_at''"] get[of "''revoked''"] get[of "''target_pid''"] get[of "''target_exe''"]
      get[of "''target_exe_path''"] get[of "''target_class''"] get[of "''target_title_hash''"] get[of "''logical_target_id''"]
    by (intro lease.equality) (simp_all add: lease_asdict_def)
qed simp

subsection \<open>What verifies was issued\<close>

text \<open>
  The life of one store. \<open>Replaced\<close> puts any record in the place of an authority, as a write to
  the table from outside would.
\<close>

datatype authority_op = Issued lease | Revoked_lease lease | Replaced pystr lease_authority

record authority_trace =
  at_store :: authority_store
  at_issued :: "lease list"
  at_withdrawn :: "lease list"

definition authority_step :: "lease_keys \<Rightarrow> authority_trace \<Rightarrow> authority_op \<Rightarrow> authority_trace" where
  "authority_step lk tr x =
     (case x of
        Issued l \<Rightarrow>
          (case authority_issue lk (at_store tr) l of
             Inr st \<Rightarrow> tr\<lparr>at_store := st, at_issued := at_issued tr @ [l]\<rparr> | Inl _ \<Rightarrow> tr)
      | Revoked_lease l \<Rightarrow>
          (case authority_revoke lk (at_store tr) l of
             Inr st \<Rightarrow> tr\<lparr>at_store := st, at_withdrawn := at_withdrawn tr @ [l\<lparr>ls_revoked := True\<rparr>]\<rparr> | Inl _ \<Rightarrow> tr)
      | Replaced i a \<Rightarrow> tr\<lparr>at_store := (at_store tr)\<lparr>au_records := AList.update i a (au_records (at_store tr))\<rparr>\<rparr>)"

definition authority_run :: "lease_keys \<Rightarrow> authority_op list \<Rightarrow> authority_trace" where
  "authority_run lk ops = foldl (authority_step lk) \<lparr>at_store = authority_init, at_issued = [], at_withdrawn = []\<rparr> ops"

text \<open>The leases whose payload the private key has signed.\<close>

definition signed_leases :: "authority_trace \<Rightarrow> lease set" where
  "signed_leases tr = set (at_issued tr) \<union> set (at_withdrawn tr)"

text \<open>Nobody else can sign: a replaced record whose signature verifies carries a signed payload.\<close>

definition no_forgery :: "lease_keys \<Rightarrow> authority_op list \<Rightarrow> bool" where
  "no_forgery lk ops \<longleftrightarrow>
     (\<forall>i a. Replaced i a \<in> set ops \<longrightarrow> lk_verify lk (la_signature a) (lease_authority_payload (la_lease a))
        \<longrightarrow> lease_authority_payload (la_lease a) \<in> lease_authority_payload ` signed_leases (authority_run lk ops))"

definition trace_inv :: "authority_op list \<Rightarrow> authority_trace \<Rightarrow> bool" where
  "trace_inv ops tr \<longleftrightarrow>
     (\<forall>i a. map_of (au_records (at_store tr)) i = Some a \<longrightarrow> la_lease a \<in> signed_leases tr \<or> Replaced i a \<in> set ops)
     \<and> ls_lease_id ` set (at_withdrawn tr) = au_revoked (at_store tr)
     \<and> (\<forall>l \<in> set (at_issued tr). map_of (au_records (at_store tr)) (ls_lease_id l) \<noteq> None)
     \<and> distinct (map ls_lease_id (at_issued tr))"

lemma trace_inv_step:
  assumes "trace_inv ops tr"
  shows "trace_inv (ops @ [x]) (authority_step lk tr x)"
proof (cases x)
  case (Issued l)
  with assms show ?thesis
    by (auto simp: trace_inv_def authority_step_def authority_issue_def signed_authority_def signed_leases_def split: if_splits)
next
  case (Revoked_lease l)
  with assms show ?thesis
    by (auto simp: trace_inv_def authority_step_def authority_revoke_def signed_authority_def signed_leases_def split: if_splits)
next
  case (Replaced i a)
  with assms show ?thesis
    by (auto simp: trace_inv_def authority_step_def signed_leases_def split: if_splits)
qed

lemma trace_inv_run: "trace_inv ops (authority_run lk ops)"
proof (induction ops rule: rev_induct)
  case (snoc x ops)
  then show ?case using trace_inv_step[of ops _ x lk] by (simp add: authority_run_def)
qed (simp add: authority_run_def authority_init_def trace_inv_def)

lemma authority_verify_Inr:
  "authority_verify lk st i l allow = Inr m \<longleftrightarrow>
     m = l \<and> ls_lease_id l = i \<and> (allow \<or> i \<notin> au_revoked st)
     \<and> (\<exists>a. map_of (au_records st) i = Some a \<and> la_lease a = l \<and> lk_verify lk (la_signature a) (lease_authority_payload l))"
  by (auto simp: authority_verify_def Let_def split: option.splits if_splits)

lemma issued_unique:
  assumes "distinct (map ls_lease_id ls)" "l \<in> set ls" "m \<in> set ls" "ls_lease_id l = ls_lease_id m"
  shows "l = m"
  using assms by (auto simp: distinct_map inj_on_def)

text \<open>
  C38. Lease authority cannot be altered: whatever was put in the place of authority records
  meanwhile, a lease that verifies at the store is, field by field, the one lease issued under
  that identifier, hence has the role it was issued with, and it has not been revoked; what
  was revoked never verifies again.
\<close>

theorem verified_lease_was_issued:
  assumes "no_forgery lk ops" and "authority_verify lk (at_store (authority_run lk ops)) i l False = Inr m"
  shows "m = l \<and> ls_lease_id l = i \<and> l \<in> set (at_issued (authority_run lk ops))
    \<and> (\<forall>k \<in> set (at_issued (authority_run lk ops)). ls_lease_id k = i \<longrightarrow> k = l)
    \<and> i \<notin> ls_lease_id ` set (at_withdrawn (authority_run lk ops))"
proof -
  let ?tr = "authority_run lk ops"
  note inv = trace_inv_run[of ops lk, unfolded trace_inv_def]
  from assms(2) obtain a where v: "m = l" "ls_lease_id l = i" "i \<notin> au_revoked (at_store ?tr)"
    "map_of (au_records (at_store ?tr)) i = Some a" "la_lease a = l" "lk_verify lk (la_signature a) (lease_authority_payload l)"
    unfolding authority_verify_Inr by blast
  have "l \<in> signed_leases ?tr"
  proof (cases "Replaced i a \<in> set ops")
    case True
    with assms(1) v have "lease_authority_payload l \<in> lease_authority_payload ` signed_leases ?tr"
      unfolding no_forgery_def by metis
    then show ?thesis by (auto simp: lease_authority_payload_inject)
  qed (use inv v in blast)
  moreover have "l \<notin> set (at_withdrawn ?tr)" using inv v by blast
  ultimately have "l \<in> set (at_issued ?tr)" by (simp add: signed_leases_def)
  with inv v show ?thesis using issued_unique[of "at_issued ?tr"] by blast
qed

definition demo_lease :: lease where
  "demo_lease =
     \<lparr>ls_lease_id = ''lease-1'', ls_agent_id = ''SC-00000000'', ls_hwnd = 66, ls_role = ''observer'', ls_issued_at = 100,
      ls_expires_at = 400, ls_revoked = False, ls_target_pid = 7, ls_target_exe = ''cmd.exe'', ls_target_exe_path = [],
      ls_target_class = ''ConsoleWindowClass'', ls_target_title_hash = [], ls_logical_target_id = []\<rparr>"

text \<open>A tag scheme in which only \<open>lk_sign\<close> produces accepted tags.\<close>

definition demo_keys :: lease_keys where
  "demo_keys = \<lparr>lk_sign = (\<lambda>data. CHR ''k'' # data), lk_verify = (\<lambda>sig data. sig = CHR ''k'' # data)\<rparr>"

definition widened :: lease_authority where
  "widened = \<lparr>la_lease = demo_lease\<lparr>ls_role := ''sender''\<rparr>, la_signature = []\<rparr>"

lemma demo_verifies: "authority_verify demo_keys (at_store (authority_run demo_keys [Issued demo_lease, Replaced ''lease-2'' widened]))
    ''lease-1'' demo_lease False = Inr demo_lease"
  by (simp add: authority_verify_Inr authority_run_def authority_step_def authority_issue_def authority_init_def
      signed_authority_def demo_keys_def demo_lease_def)

theorem verified_lease_was_issued_witness:
  "demo_lease \<in> set (at_issued (authority_run demo_keys [Issued demo_lease, Replaced ''lease-2'' widened]))"
proof -
  have "no_forgery demo_keys [Issued demo_lease, Replaced ''lease-2'' widened]"
    by (simp add: no_forgery_def demo_keys_def widened_def)
  from verified_lease_was_issued[OF this demo_verifies] show ?thesis by blast
qed

end
