(* ===== verification/PyValues.thy ===== *)
theory PyValues
  imports Policy
begin

text \<open>
  The Python built-ins the dispatcher applies to JSON values and texts: \<open>str\<close>, \<open>int\<close>, the
  default \<open>json.dumps\<close>, searching and replacing in strings, the regular expression for terminal
  escape sequences, and \<open>base64\<close>. A raised exception is its text on the left.
\<close>

subsection \<open>Conversions\<close>

definition truth_text :: "bool \<Rightarrow> pystr" where
  "truth_text b = (if b then ''True'' else ''False'')"

primrec repr_json :: "json \<Rightarrow> pystr" where
  "repr_json JNull = ''None''"
| "repr_json (JBool b) = truth_text b"
| "repr_json (JInt n) = show_int n"
| "repr_json (JFloat n) = show_int n @ ''.0''"
| "repr_json (JStr s) = py_repr s"
| "repr_json (JArr xs) = ''['' @ join_with '', '' (map repr_json xs) @ '']''"
| "repr_json (JObj kvs) =
     ''{'' @ join_with '', '' (map (\<lambda>kv. py_repr (fst kv) @ '': '' @ snd kv) (map (map_prod id repr_json) kvs)) @ ''}''"

definition str_of :: "json \<Rightarrow> pystr" where
  "str_of v = (case v of JStr s \<Rightarrow> s | _ \<Rightarrow> repr_json v)"

lemma str_of_JStr [simp]: "str_of (JStr s) = s"
  by (simp add: str_of_def)

text \<open>\<open>int\<close> of a text: white space around an optional sign and digits with single underscores between them.\<close>

fun digit_groups :: "pystr \<Rightarrow> bool" where
  "digit_groups [] = False"
| "digit_groups [c] = is_digit c"
| "digit_groups (c # d # s) = (is_digit c \<and> (if d = CHR ''_'' then digit_groups s else digit_groups (d # s)))"

definition decimal_value :: "pystr \<Rightarrow> int" where
  "decimal_value s = foldl (\<lambda>n c. 10 * n + int (char_code c - 48)) 0 (filter is_digit s)"

definition unsigned_int :: "pystr \<Rightarrow> int option" where
  "unsigned_int s = (if digit_groups s \<and> length (filter is_digit s) \<le> 4300 then Some (decimal_value s) else None)"

definition int_of_text :: "pystr \<Rightarrow> int option" where
  "int_of_text s =
     (case strip s of
        CHR ''-'' # t \<Rightarrow> map_option uminus (unsigned_int t)
      | CHR ''+'' # t \<Rightarrow> unsigned_int t
      | t \<Rightarrow> unsigned_int t)"

definition int_type_error :: "pystr \<Rightarrow> pystr" where
  "int_type_error t = ''int() argument must be a string, a bytes-like object or a real number, not '' @ py_repr t"

fun int_of :: "json \<Rightarrow> pystr + int" where
  "int_of (JInt n) = Inr n"
| "int_of (JFloat n) = Inr n"
| "int_of (JBool b) = Inr (if b then 1 else 0)"
| "int_of (JStr s) =
     (case int_of_text s of
        Some n \<Rightarrow> Inr n
      | None \<Rightarrow> Inl (''invalid literal for int() with base 10: '' @ py_repr s))"
| "int_of JNull = Inl (int_type_error ''NoneType'')"
| "int_of (JArr _) = Inl (int_type_error ''list'')"
| "int_of (JObj _) = Inl (int_type_error ''dict'')"

text \<open>\<open>json.dumps(v, sort_keys=True)\<close>, with the default separators.\<close>

primrec spaced_dumps :: "json \<Rightarrow> string" where
  "spaced_dumps JNull = ''null''"
| "spaced_dumps (JBool b) = (if b then ''true'' else ''false'')"
| "spaced_dumps (JInt n) = show_int n"
| "spaced_dumps (JFloat n) = show_int n @ ''.0''"
| "spaced_dumps (JStr s) = quoted True s"
| "spaced_dumps (JArr xs) = ''['' @ join_with '', '' (map spaced_dumps xs) @ '']''"
| "spaced_dumps (JObj kvs) =
     ''{'' @ join_with '', '' (map (\<lambda>kv. quoted True (fst kv) @ '': '' @ snd kv) (map (map_prod id spaced_dumps) kvs)) @ ''}''"

definition json_text :: "json \<Rightarrow> string" where
  "json_text v = spaced_dumps (key_sorted v)"

subsection \<open>Strings\<close>

text \<open>\<open>s.count(sub)\<close> and \<open>s.replace(sub, new)\<close> scan from the left and skip each occurrence; the
  number is what is left to skip.\<close>

fun count_skip :: "pystr \<Rightarrow> nat \<Rightarrow> pystr \<Rightarrow> nat" where
  "count_skip sub k [] = 0"
| "count_skip sub (Suc k) (c # s) = count_skip sub k s"
| "count_skip sub 0 (c # s) =
     (if startswith (c # s) sub then Suc (count_skip sub (length sub - 1) s) else count_skip sub 0 s)"

definition str_count :: "pystr \<Rightarrow> pystr \<Rightarrow> nat" where
  "str_count s sub = (if sub = [] then Suc (length s) else count_skip sub 0 s)"

fun remove_skip :: "pystr \<Rightarrow> nat \<Rightarrow> pystr \<Rightarrow> pystr" where
  "remove_skip sub k [] = []"
| "remove_skip sub (Suc k) (c # s) = remove_skip sub k s"
| "remove_skip sub 0 (c # s) =
     (if startswith (c # s) sub then remove_skip sub (length sub - 1) s else c # remove_skip sub 0 s)"

text \<open>\<open>s.replace(sub, "")\<close>, and with the count 1.\<close>

definition remove_all :: "pystr \<Rightarrow> pystr \<Rightarrow> pystr" where
  "remove_all s sub = (if sub = [] then s else remove_skip sub 0 s)"

fun remove_first :: "pystr \<Rightarrow> pystr \<Rightarrow> pystr" where
  "remove_first [] sub = []"
| "remove_first (c # s) sub = (if startswith (c # s) sub then drop (length sub) (c # s) else c # remove_first s sub)"

definition strip_chars :: "string \<Rightarrow> pystr \<Rightarrow> pystr" where
  "strip_chars cs s = rev (dropWhile (\<lambda>c. c \<in> set cs) (rev (dropWhile (\<lambda>c. c \<in> set cs) s)))"

definition is_printable :: "char \<Rightarrow> bool" where
  "is_printable c = (let n = char_code c in 32 \<le> n \<and> \<not> (127 \<le> n \<and> n \<le> 160) \<and> n \<noteq> 173)"

text \<open>\<open>.replace("\r\n", "\n").replace("\r", "\n")\<close>.\<close>

fun unix_newlines :: "pystr \<Rightarrow> pystr" where
  "unix_newlines [] = []"
| "unix_newlines [c] = [if c = CHR 0x0D then CHR 0x0A else c]"
| "unix_newlines (c # d # s) =
     (if c = CHR 0x0D \<and> d = CHR 0x0A then CHR 0x0A # unix_newlines s
      else (if c = CHR 0x0D then CHR 0x0A else c) # unix_newlines (d # s))"

text \<open>
  \<open>_ANSI_ESCAPE_RE\<close>: the length of its match at the start of a text. A control sequence ends with
  its final byte. An operating-system command extends to the first BEL, or where there is none
  to the last string terminator.
\<close>

definition in_range :: "nat \<Rightarrow> nat \<Rightarrow> char \<Rightarrow> bool" where
  "in_range low high c \<longleftrightarrow> low \<le> char_code c \<and> char_code c \<le> high"

definition csi_match :: "pystr \<Rightarrow> nat option" where
  "csi_match s =
     (let params = takeWhile (in_range 48 63) s;
          rest = drop (length params) s;
          inters = takeWhile (in_range 32 47) rest in
      case drop (length inters) rest of
        c # _ \<Rightarrow> if in_range 64 126 c then Some (length params + length inters + 1) else None
      | [] \<Rightarrow> None)"

fun last_terminator :: "pystr \<Rightarrow> nat option" where
  "last_terminator [] = None"
| "last_terminator (c # s) =
     (case last_terminator s of
        Some n \<Rightarrow> Some (Suc n)
      | None \<Rightarrow> if c = CHR 0x1B \<and> startswith s [CHR 0x5C] then Some 2 else None)"

definition osc_match :: "pystr \<Rightarrow> nat option" where
  "osc_match s =
     (let body = takeWhile (\<lambda>c. c \<noteq> CHR 0x07) s in
      if length body < length s then Some (length body + 1) else last_terminator s)"

definition ansi_match :: "pystr \<Rightarrow> nat option" where
  "ansi_match s =
     (case s of
        c # d # t \<Rightarrow>
          if c \<noteq> CHR 0x1B then None
          else if d = CHR ''['' then map_option (\<lambda>n. n + 2) (csi_match t)
          else if d = CHR '']'' then map_option (\<lambda>n. n + 2) (osc_match t)
          else None
      | _ \<Rightarrow> None)"

fun strip_ansi_skip :: "nat \<Rightarrow> pystr \<Rightarrow> pystr" where
  "strip_ansi_skip k [] = []"
| "strip_ansi_skip (Suc k) (c # s) = strip_ansi_skip k s"
| "strip_ansi_skip 0 (c # s) =
     (case ansi_match (c # s) of Some n \<Rightarrow> strip_ansi_skip (n - 1) s | None \<Rightarrow> c # strip_ansi_skip 0 s)"

definition strip_ansi :: "pystr \<Rightarrow> pystr" where
  "strip_ansi s = strip_ansi_skip 0 s"

subsection \<open>Base64\<close>

definition B64_ALPHABET :: string where
  "B64_ALPHABET = ''ABCDEFGHIJKLMNOPQRSTUVWXYZabcdefghijklmnopqrstuvwxyz0123456789+/''"

definition sextet :: "nat \<Rightarrow> char" where
  "sextet n = B64_ALPHABET ! (n mod 64)"

definition sextet_value :: "char \<Rightarrow> nat option" where
  "sextet_value c =
     (let n = char_code c in
      if 65 \<le> n \<and> n \<le> 90 then Some (n - 65)
      else if 97 \<le> n \<and> n \<le> 122 then Some (n - 71)
      else if 48 \<le> n \<and> n \<le> 57 then Some (n + 4)
      else if n = 43 then Some 62
      else if n = 47 then Some 63
      else None)"

fun b64encode :: "bytes \<Rightarrow> pystr" where
  "b64encode [] = []"
| "b64encode [a] = [sextet (char_code a div 4), sextet (char_code a mod 4 * 16), CHR ''='', CHR ''='']"
| "b64encode [a, b] =
     [sextet (char_code a div 4), sextet (char_code a mod 4 * 16 + char_code b div 16),
      sextet (char_code b mod 16 * 4), CHR ''='']"
| "b64encode (a # b # c # s) =
     [sextet (char_code a div 4), sextet (char_code a mod 4 * 16 + char_code b div 16),
      sextet (char_code b mod 16 * 4 + char_code c div 64), sextet (char_code c mod 64)] @ b64encode s"

text \<open>
  \<open>base64.b64decode(data, validate=False)\<close>: characters outside the alphabet are skipped, padding
  ends the data once a group is complete with it. The state is the position in the group, the
  bits left over, the number of padding characters in a row and the bytes so far.
\<close>

fun b64_scan :: "nat \<Rightarrow> nat \<Rightarrow> nat \<Rightarrow> bytes \<Rightarrow> pystr \<Rightarrow> bytes option" where
  "b64_scan pos left pads out [] = (if pos = 0 then Some out else None)"
| "b64_scan pos left pads out (c # s) =
     (if c = CHR ''='' then
        (if 2 \<le> pos \<and> 4 \<le> pos + (pads + 1) then Some out
         else b64_scan pos left (if 2 \<le> pos then pads + 1 else pads) out s)
      else case sextet_value c of
        None \<Rightarrow> b64_scan pos left pads out s
      | Some v \<Rightarrow>
          if pos = 0 then b64_scan 1 v 0 out s
          else if pos = 1 then b64_scan 2 (v mod 16) 0 (out @ [char_of (left * 4 + v div 16)]) s
          else if pos = 2 then b64_scan 3 (v mod 4) 0 (out @ [char_of (left * 16 + v div 4)]) s
          else b64_scan 0 0 0 (out @ [char_of (left * 64 + v)]) s)"

definition b64decode :: "pystr \<Rightarrow> bytes option" where
  "b64decode s = b64_scan 0 0 0 [] s"

end
