(* ===== verification/LogicalTargets.thy ===== *)
theory LogicalTargets
  imports PyValues McpTools Delegation
begin

text \<open>
  \<open>enterprise/logical_targets.py\<close>: aliases of terminals configured at start-up and their
  resolution against the live windows. The canonical target verifier and the window enumeration
  are the callables the constructor and \<open>resolve\<close> receive, on a state \<open>'w\<close> of the world outside;
  the \<open>ntpath\<close> functions, which follow the rules of the platform, are the record \<open>path_rules\<close>. A
  \<open>LogicalTargetError\<close>, \<open>ValueError\<close> or \<open>TypeError\<close> is its text on the left.
\<close>

record path_rules =
  np_abspath :: "pystr \<Rightarrow> pystr"
  np_normcase :: "pystr \<Rightarrow> pystr"
  np_basename :: "pystr \<Rightarrow> pystr"
  np_isabs :: "pystr \<Rightarrow> bool"

text \<open>The keyword arguments a target verifier is called with.\<close>

record target_expectation =
  te_pid :: "int option"
  te_exe :: "pystr option"
  te_exe_path :: "pystr option"
  te_class :: "pystr option"
  te_title_sha256 :: "pystr option"
  te_require_terminal :: bool

definition expect_terminal :: target_expectation where
  "expect_terminal = \<lparr>te_pid = None, te_exe = None, te_exe_path = None, te_class = None, te_title_sha256 = None,
     te_require_terminal = True\<rparr>"

type_synonym 'w target_verifier = "'w \<Rightarrow> int \<Rightarrow> target_expectation \<Rightarrow> 'w \<times> (pystr + json)"

text \<open>What an iteration over the enumerated windows yields, and how it ends.\<close>

datatype enumeration_end = Exhausted | RaisedTargetError pystr | RaisedOther

type_synonym 'w window_enumerator = "'w \<Rightarrow> 'w \<times> json list \<times> enumeration_end"

definition CANDIDATE_LIMIT :: nat where
  "CANDIDATE_LIMIT = 4096"

definition LOGICAL_ID_RE :: pattern where
  "LOGICAL_ID_RE = [Rep LOWER 1 (Some 1), Rep (LOWER @ DIGITS @ ''._-'') 0 (Some 127)]"

definition SHA256_RE :: pattern where
  "SHA256_RE = [Rep (DIGITS @ ''abcdef'') 64 (Some 64)]"

definition VALID_ROLES :: "pystr list" where
  "VALID_ROLES = [''sender'', ''receiver'', ''observer'']"

definition has_control_characters :: "pystr \<Rightarrow> bool" where
  "has_control_characters s = list_ex (\<lambda>c. char_code c < 32 \<or> char_code c = 127) s"

definition drive_letter :: "pystr \<Rightarrow> bool" where
  "drive_letter s =
     (case s of c # d # e # _ \<Rightarrow> c \<in> set (UPPER @ LOWER) \<and> d = CHR '':'' \<and> e = CHR 0x5C | _ \<Rightarrow> False)"

subsection \<open>LogicalTargetSpec\<close>

record target_spec =
  tg_logical_id :: pystr
  tg_expected_exe_path :: pystr
  tg_expected_class :: pystr
  tg_expected_title_sha256 :: pystr
  tg_allowed_roles :: "pystr set"

text \<open>\<open>frozenset(allowed_roles)\<close> as a list, and the checks on it.\<close>

definition roles_of :: "json \<Rightarrow> pystr + pystr list" where
  "roles_of v =
     (case as_tuple v of
        Inr (JArr xs) \<Rightarrow>
          if list_ex (\<lambda>x. case x of JArr _ \<Rightarrow> True | JObj _ \<Rightarrow> True | _ \<Rightarrow> False) xs
          then Inl ''allowed_roles must be an iterable of closed lease roles''
          else if xs = [] \<or> list_ex (\<lambda>x. \<not> list_ex (\<lambda>r. x = JStr r) VALID_ROLES) xs
          then Inl ''allowed_roles must be a non-empty subset of lease roles''
          else Inr (filter (\<lambda>r. JStr r \<in> set xs) VALID_ROLES)
      | _ \<Rightarrow> Inl ''allowed_roles must be an iterable of closed lease roles'')"

definition exe_path_ok :: "path_rules \<Rightarrow> pystr \<Rightarrow> bool" where
  "exe_path_ok np s \<longleftrightarrow> s \<noteq> [] \<and> s = strip s \<and> \<not> has_control_characters s \<and> length s \<le> 1024
     \<and> np_isabs np s \<and> drive_letter s"

definition class_ok :: "pystr \<Rightarrow> bool" where
  "class_ok s \<longleftrightarrow> s \<noteq> [] \<and> s = strip s \<and> \<not> has_control_characters s \<and> length s \<le> 256"

definition text_where :: "(pystr \<Rightarrow> bool) \<Rightarrow> pystr \<Rightarrow> json \<Rightarrow> pystr + pystr" where
  "text_where ok message v = (case v of JStr s \<Rightarrow> if ok s then Inr s else Inl message | _ \<Rightarrow> Inl message)"

definition spec_init :: "path_rules \<Rightarrow> json \<Rightarrow> json \<Rightarrow> json \<Rightarrow> json \<Rightarrow> json \<Rightarrow> pystr + target_spec" where
  "spec_init np logical_id exe_path window_class title_sha256 roles =
     bind_result (text_where (fullmatch LOGICAL_ID_RE) ''logical_id must match ^[a-z][a-z0-9._-]{0,127}$'' logical_id) (\<lambda>i.
     bind_result (text_where (exe_path_ok np)
        ''expected_exe_path must be a bounded local drive-letter absolute Windows path'' exe_path) (\<lambda>p.
     bind_result (text_where class_ok
        ''expected_class must be bounded, non-empty, and contain no ASCII control characters'' window_class) (\<lambda>c.
     bind_result (text_where (fullmatch SHA256_RE) ''expected_title_sha256 must be 64 lowercase hex characters'' title_sha256) (\<lambda>t.
     map_result (\<lambda>rs. \<lparr>tg_logical_id = i, tg_expected_exe_path = p, tg_expected_class = c, tg_expected_title_sha256 = t,
                       tg_allowed_roles = set rs\<rparr>) (roles_of roles)))))"

subsection \<open>ResolvedLogicalTarget\<close>

record resolved_target =
  rt_logical_id :: pystr
  rt_hwnd :: int
  rt_pid :: int
  rt_exe :: pystr
  rt_exe_path :: pystr
  rt_window_class :: pystr
  rt_title :: pystr
  rt_title_sha256 :: pystr

definition verifier_report :: "resolved_target \<Rightarrow> json_object" where
  "verifier_report t =
     [(''hwnd'', JInt (rt_hwnd t)), (''pid'', JInt (rt_pid t)), (''exe'', JStr (rt_exe t)),
      (''exe_path'', JStr (rt_exe_path t)), (''class'', JStr (rt_window_class t)), (''title'', JStr (rt_title t)),
      (''title_sha256'', JStr (rt_title_sha256 t)), (''valid'', JBool True), (''ok'', JBool True),
      (''reasons'', JArr []), (''is_terminal'', JBool True), (''is_self'', JBool False)]"

subsection \<open>LogicalTargetResolver\<close>

type_synonym resolver = "(pystr \<times> target_spec) list"

text \<open>The entries are validated again, in order; a repeated identifier is refused.\<close>

fun resolver_add :: "path_rules \<Rightarrow> resolver \<Rightarrow> target_spec list \<Rightarrow> pystr + resolver" where
  "resolver_add np copied [] = Inr copied"
| "resolver_add np copied (src # sources) =
     bind_result (spec_init np (JStr (tg_logical_id src)) (JStr (tg_expected_exe_path src)) (JStr (tg_expected_class src))
         (JStr (tg_expected_title_sha256 src)) (JArr (map JStr (filter (\<lambda>r. r \<in> tg_allowed_roles src) VALID_ROLES)))) (\<lambda>sp.
       if map_of copied (tg_logical_id sp) \<noteq> None then Inl (''duplicate logical target '' @ py_repr (tg_logical_id sp))
       else resolver_add np (copied @ [(tg_logical_id sp, sp)]) sources)"

definition resolver_init :: "path_rules \<Rightarrow> target_spec list \<Rightarrow> pystr + resolver" where
  "resolver_init np sources = resolver_add np [] sources"

definition logical_ids :: "resolver \<Rightarrow> pystr list" where
  "logical_ids rs = sort (map fst rs)"

text \<open>Reading the candidates: the first bad one ends the resolution.\<close>

fun read_candidates :: "int list \<Rightarrow> json list \<Rightarrow> enumeration_end \<Rightarrow> pystr + int list" where
  "read_candidates seen [] e =
     (case e of
        Exhausted \<Rightarrow> Inr seen
      | RaisedTargetError t \<Rightarrow> Inl t
      | RaisedOther \<Rightarrow> Inl ''top-level window enumeration failed'')"
| "read_candidates seen (c # cs) e =
     (if CANDIDATE_LIMIT \<le> length seen then Inl ''top-level window enumeration exceeded its bound''
      else case c of
        JInt h \<Rightarrow>
          if \<not> (1 \<le> h \<and> h \<le> HWND_MAX) then Inl ''top-level window enumeration returned an invalid HWND''
          else if h \<in> set seen then Inl ''top-level window enumeration returned duplicate HWNDs''
          else read_candidates (seen @ [h]) cs e
      | _ \<Rightarrow> Inl ''top-level window enumeration returned an invalid HWND'')"

text \<open>The report of the verifier on one candidate: no match, a match, or an error.\<close>

definition report_identity :: "int \<Rightarrow> json_object \<Rightarrow> (int \<times> pystr \<times> pystr \<times> pystr \<times> pystr) option" where
  "report_identity hwnd d =
     (case (kw d ''pid'', kw d ''exe'', kw d ''exe_path'', kw d ''class'', kw d ''title'') of
        (JInt pid, JStr exe, JStr exe_path, JStr window_class, JStr title) \<Rightarrow>
          if 0 < pid \<and> exe \<noteq> [] \<and> kw d ''hwnd'' = JInt hwnd \<and> kw d ''valid'' = JBool True
             \<and> kw d ''is_terminal'' = JBool True \<and> kw d ''is_self'' = JBool False \<and> kw d ''reasons'' = JArr []
          then Some (pid, exe, exe_path, window_class, title) else None
      | _ \<Rightarrow> None)"

definition judge_report ::
    "path_rules \<Rightarrow> (bytes \<Rightarrow> pystr) \<Rightarrow> target_spec \<Rightarrow> pystr \<Rightarrow> int \<Rightarrow> json \<Rightarrow> pystr + resolved_target option" where
  "judge_report np sha sp logical_id hwnd report =
     (case report of
        JObj d \<Rightarrow>
          if kw d ''ok'' \<noteq> JBool True then Inr None
          else (case report_identity hwnd d of
            None \<Rightarrow> Inl ''canonical target verifier returned an incomplete identity binding''
          | Some (pid, exe, exe_path, window_class, title) \<Rightarrow>
              (let title_sha256 = sha (utf8 title) in
               if np_normcase np (np_abspath np exe_path) \<noteq> np_normcase np (np_abspath np (tg_expected_exe_path sp))
                  \<or> np_normcase np exe \<noteq> np_normcase np (np_basename np exe_path)
                  \<or> window_class \<noteq> tg_expected_class sp \<or> title_sha256 \<noteq> tg_expected_title_sha256 sp
               then Inl ''canonical target verifier returned a mismatched successful report''
               else Inr (Some \<lparr>rt_logical_id = logical_id, rt_hwnd = hwnd, rt_pid = pid, rt_exe = exe,
                      rt_exe_path = exe_path, rt_window_class = window_class, rt_title = title,
                      rt_title_sha256 = title_sha256\<rparr>)))
      | _ \<Rightarrow> Inl ''canonical target verifier returned an invalid report'')"

definition spec_expectation :: "target_spec \<Rightarrow> target_expectation" where
  "spec_expectation sp =
     expect_terminal\<lparr>te_exe_path := Some (tg_expected_exe_path sp), te_class := Some (tg_expected_class sp),
       te_title_sha256 := Some (tg_expected_title_sha256 sp)\<rparr>"

fun match_candidates ::
    "path_rules \<Rightarrow> (bytes \<Rightarrow> pystr) \<Rightarrow> 'w target_verifier \<Rightarrow> target_spec \<Rightarrow> pystr \<Rightarrow> 'w \<Rightarrow> resolved_target list \<Rightarrow> int list
     \<Rightarrow> 'w \<times> (pystr + resolved_target list)" where
  "match_candidates np sha verify sp logical_id w found [] = (w, Inr found)"
| "match_candidates np sha verify sp logical_id w found (h # hs) =
     (case verify w h (spec_expectation sp) of
        (w', Inl _) \<Rightarrow> (w', Inl ''canonical target verification failed'')
      | (w', Inr report) \<Rightarrow>
          (case judge_report np sha sp logical_id h report of
             Inl e \<Rightarrow> (w', Inl e)
           | Inr None \<Rightarrow> match_candidates np sha verify sp logical_id w' found hs
           | Inr (Some t) \<Rightarrow> match_candidates np sha verify sp logical_id w' (found @ [t]) hs))"

definition resolve ::
    "path_rules \<Rightarrow> (bytes \<Rightarrow> pystr) \<Rightarrow> resolver \<Rightarrow> 'w window_enumerator \<Rightarrow> 'w target_verifier option \<Rightarrow> pystr \<Rightarrow> pystr \<Rightarrow> 'w
     \<Rightarrow> 'w \<times> (pystr + resolved_target)" where
  "resolve np sha rs enumerate_windows verifier logical_id role w =
     (case verifier of
        None \<Rightarrow> (w, Inl ''canonical target verifier is unavailable'')
      | Some verify \<Rightarrow>
     (case map_of rs logical_id of
        None \<Rightarrow> (w, Inl (''logical target '' @ py_repr logical_id @ '' is not configured''))
      | Some sp \<Rightarrow>
          if role \<notin> tg_allowed_roles sp
          then (w, Inl (''lease role '' @ py_repr role @ '' is not authorized for logical target '' @ py_repr logical_id))
          else (case enumerate_windows w of
            (w1, yielded, e) \<Rightarrow>
              (case read_candidates [] yielded e of
                 Inl t \<Rightarrow> (w1, Inl t)
               | Inr hs \<Rightarrow>
                   (case match_candidates np sha verify sp logical_id w1 [] hs of
                      (w2, Inl t) \<Rightarrow> (w2, Inl t)
                    | (w2, Inr []) \<Rightarrow> (w2, Inl (''logical target '' @ py_repr logical_id @ '' has no safe live match''))
                    | (w2, Inr [t]) \<Rightarrow> (w2, Inr t)
                    | (w2, Inr _) \<Rightarrow> (w2, Inl (''logical target '' @ py_repr logical_id @ '' is ambiguous'')))))))"

subsection \<open>Candidates\<close>

lemma read_candidates_Inr:
  "read_candidates seen cs e = Inr hs \<Longrightarrow>
     \<exists>new. cs = map JInt new \<and> hs = seen @ new \<and> e = Exhausted \<and> (distinct seen \<longrightarrow> distinct hs)
       \<and> list_all (\<lambda>h. 1 \<le> h \<and> h \<le> HWND_MAX) new \<and> (length seen \<le> CANDIDATE_LIMIT \<longrightarrow> length hs \<le> CANDIDATE_LIMIT)"
proof (induction seen cs e rule: read_candidates.induct)
  case (1 seen e)
  then show ?case by (cases e) auto
next
  case (2 seen c cs e)
  then obtain h where h: "c = JInt h" "1 \<le> h" "h \<le> HWND_MAX" "h \<notin> set seen" "length seen < CANDIDATE_LIMIT"
      and rest: "read_candidates (seen @ [h]) cs e = Inr hs"
    by (cases c) (auto split: if_splits)
  from h "2.IH"[OF _ h(1) _ _ rest] obtain new where "cs = map JInt new" "hs = (seen @ [h]) @ new" "e = Exhausted"
    "distinct (seen @ [h]) \<longrightarrow> distinct hs" "list_all (\<lambda>h. 1 \<le> h \<and> h \<le> HWND_MAX) new"
    "length (seen @ [h]) \<le> CANDIDATE_LIMIT \<longrightarrow> length hs \<le> CANDIDATE_LIMIT" by auto
  with h show ?case by (intro exI[of _ "h # new"]) auto
qed

lemma read_candidates_good:
  "e = Exhausted \<Longrightarrow> list_all (\<lambda>h. 1 \<le> h \<and> h \<le> HWND_MAX) hs \<Longrightarrow> distinct (seen @ hs)
     \<Longrightarrow> length seen + length hs \<le> CANDIDATE_LIMIT \<Longrightarrow> read_candidates seen (map JInt hs) e = Inr (seen @ hs)"
  by (induction hs arbitrary: seen) auto

lemma read_candidates_iff:
  "read_candidates [] cs e = Inr hs \<longleftrightarrow> cs = map JInt hs \<and> e = Exhausted \<and> distinct hs
     \<and> list_all (\<lambda>h. 1 \<le> h \<and> h \<le> HWND_MAX) hs \<and> length hs \<le> CANDIDATE_LIMIT"
  using read_candidates_Inr[of "[]" cs e hs] read_candidates_good[of e hs "[]"] by auto

subsection \<open>Resolution\<close>

text \<open>A verifier that answers from one snapshot of the windows, and the windows it accepts.\<close>

definition snapshot_verifier :: "(int \<Rightarrow> target_expectation \<Rightarrow> pystr + json) \<Rightarrow> 'w target_verifier" where
  "snapshot_verifier r = (\<lambda>w h x. (w, r h x))"

definition accepted :: "(int \<Rightarrow> target_expectation \<Rightarrow> pystr + json) \<Rightarrow> target_spec \<Rightarrow> int \<Rightarrow> bool" where
  "accepted r sp h = (case r h (spec_expectation sp) of Inr (JObj d) \<Rightarrow> kw d ''ok'' = JBool True | _ \<Rightarrow> False)"

text \<open>The identity of a match is the one its specification asks for.\<close>

definition meets_spec :: "path_rules \<Rightarrow> (bytes \<Rightarrow> pystr) \<Rightarrow> target_spec \<Rightarrow> resolved_target \<Rightarrow> bool" where
  "meets_spec np sha sp t \<longleftrightarrow> 0 < rt_pid t \<and> rt_exe t \<noteq> [] \<and> rt_window_class t = tg_expected_class sp
     \<and> rt_title_sha256 t = tg_expected_title_sha256 sp \<and> rt_title_sha256 t = sha (utf8 (rt_title t))
     \<and> np_normcase np (np_abspath np (rt_exe_path t)) = np_normcase np (np_abspath np (tg_expected_exe_path sp))
     \<and> np_normcase np (rt_exe t) = np_normcase np (np_basename np (rt_exe_path t))"

lemma judge_report_None:
  "judge_report np sha sp i h report = Inr None \<Longrightarrow> \<exists>d. report = JObj d \<and> kw d ''ok'' \<noteq> JBool True"
  by (auto simp: judge_report_def Let_def split: json.splits option.splits prod.splits if_splits)

lemma judge_report_Some:
  assumes "judge_report np sha sp i h report = Inr (Some t)"
  shows "(\<exists>d. report = JObj d \<and> kw d ''ok'' = JBool True) \<and> rt_hwnd t = h \<and> rt_logical_id t = i \<and> meets_spec np sha sp t"
proof -
  obtain d where d: "report = JObj d" "kw d ''ok'' = JBool True"
    using assms by (cases report) (auto simp: judge_report_def split: if_splits)
  obtain pid exe path c title where id: "report_identity h d = Some (pid, exe, path, c, title)"
    using assms d by (auto simp: judge_report_def split: option.splits)
  have "0 < pid \<and> exe \<noteq> []"
    using id by (auto simp: report_identity_def split: json.splits if_splits)
  with assms d id show ?thesis by (auto simp: judge_report_def Let_def meets_spec_def split: if_splits)
qed

lemma match_candidates_snapshot:
  "match_candidates np sha (snapshot_verifier r) sp i w found hs = (w', Inr ts) \<Longrightarrow>
     \<exists>new. ts = found @ new \<and> map rt_hwnd new = filter (accepted r sp) hs
       \<and> list_all (\<lambda>t. rt_logical_id t = i \<and> meets_spec np sha sp t) new"
proof (induction hs arbitrary: w found)
  case (Cons h hs)
  then obtain report m where r: "r h (spec_expectation sp) = Inr report" and m: "judge_report np sha sp i h report = Inr m"
    by (auto simp: snapshot_verifier_def split: sum.splits)
  show ?case
  proof (cases m)
    case None
    with Cons.prems r m have "match_candidates np sha (snapshot_verifier r) sp i w found hs = (w', Inr ts)"
      by (simp add: snapshot_verifier_def)
    moreover have "\<not> accepted r sp h" using judge_report_None[OF m[unfolded None]] r by (auto simp: accepted_def)
    ultimately show ?thesis using Cons.IH[of w found] by simp
  next
    case (Some t)
    with Cons.prems r m have "match_candidates np sha (snapshot_verifier r) sp i w (found @ [t]) hs = (w', Inr ts)"
      by (simp add: snapshot_verifier_def)
    from Cons.IH[OF this] obtain new where "ts = (found @ [t]) @ new" "map rt_hwnd new = filter (accepted r sp) hs"
      "list_all (\<lambda>t. rt_logical_id t = i \<and> meets_spec np sha sp t) new" by blast
    moreover have "accepted r sp h" using judge_report_Some[OF m[unfolded Some]] r by (auto simp: accepted_def)
    ultimately show ?thesis using judge_report_Some[OF m[unfolded Some]]
      by (intro exI[of _ "t # new"]) auto
  qed
qed simp

lemma resolve_Inr:
  assumes "resolve np sha rs enum (Some verify) i role w = (w', Inr t)"
  shows "\<exists>sp hs w1. map_of rs i = Some sp \<and> role \<in> tg_allowed_roles sp \<and> enum w = (w1, map JInt hs, Exhausted)
    \<and> distinct hs \<and> length hs \<le> CANDIDATE_LIMIT \<and> list_all (\<lambda>h. 1 \<le> h \<and> h \<le> HWND_MAX) hs
    \<and> match_candidates np sha verify sp i w1 [] hs = (w', Inr [t])"
proof -
  obtain sp where sp: "map_of rs i = Some sp" "role \<in> tg_allowed_roles sp"
    using assms by (auto simp: resolve_def split: option.splits if_splits)
  obtain w1 ys e where en: "enum w = (w1, ys, e)" by (cases "enum w") auto
  obtain hs where hs: "read_candidates [] ys e = Inr hs"
    using assms sp en by (auto simp: resolve_def split: sum.splits)
  obtain w2 r where m: "match_candidates np sha verify sp i w1 [] hs = (w2, r)" by fastforce
  have "w2 = w' \<and> r = Inr [t]"
    using assms sp en hs m by (auto simp: resolve_def split: sum.splits list.splits)
  with sp en hs m show ?thesis unfolding read_candidates_iff by blast
qed

text \<open>
  C39. Logical targets resolve without ambiguity: when a snapshot of the windows resolves an
  alias, the alias is configured, the role is one of those it allows, the enumeration ended
  normally with at most 4096 distinct window handles, the result is the one enumerated window
  the canonical verifier accepts, and its class, title hash, executable path and name are the
  configured ones.
\<close>

theorem logical_target_is_unique:
  assumes "resolve np sha rs enum (Some (snapshot_verifier r)) i role w = (w', Inr t)"
  shows "\<exists>sp hs. map_of rs i = Some sp \<and> role \<in> tg_allowed_roles sp \<and> snd (enum w) = (map JInt hs, Exhausted)
    \<and> distinct hs \<and> length hs \<le> 4096 \<and> 1 \<le> rt_hwnd t \<and> rt_hwnd t \<le> HWND_MAX
    \<and> filter (accepted r sp) hs = [rt_hwnd t] \<and> rt_logical_id t = i \<and> meets_spec np sha sp t"
proof -
  obtain sp hs w1 where *: "map_of rs i = Some sp" "role \<in> tg_allowed_roles sp" "enum w = (w1, map JInt hs, Exhausted)"
    "distinct hs" "length hs \<le> CANDIDATE_LIMIT" "list_all (\<lambda>h. 1 \<le> h \<and> h \<le> HWND_MAX) hs"
    and m: "match_candidates np sha (snapshot_verifier r) sp i w1 [] hs = (w', Inr [t])"
    using resolve_Inr[OF assms] by blast
  from match_candidates_snapshot[OF m] have f: "filter (accepted r sp) hs = [rt_hwnd t]"
    and t: "rt_logical_id t = i" "meets_spec np sha sp t" by auto
  then have "rt_hwnd t \<in> set hs" by (metis filter_is_subset list.set_intros(1) subsetD)
  with * f t show ?thesis by (intro exI[of _ sp] exI[of _ hs]) (auto simp: CANDIDATE_LIMIT_def list_all_iff)
qed

definition demo_paths :: path_rules where
  "demo_paths = \<lparr>np_abspath = id, np_normcase = id, np_basename = drop 3, np_isabs = (\<lambda>s. True)\<rparr>"

definition demo_spec :: target_spec where
  "demo_spec = \<lparr>tg_logical_id = ''term'', tg_expected_exe_path = ''C:/cmd.exe'', tg_expected_class = ''K'',
     tg_expected_title_sha256 = ''T'', tg_allowed_roles = {''observer''}\<rparr>"

definition demo_report :: "int \<Rightarrow> target_expectation \<Rightarrow> pystr + json" where
  "demo_report h x = Inr (JObj (if h = 66 then
     verifier_report \<lparr>rt_logical_id = ''term'', rt_hwnd = 66, rt_pid = 7, rt_exe = ''cmd.exe'', rt_exe_path = ''C:/cmd.exe'',
       rt_window_class = ''K'', rt_title = ''T'', rt_title_sha256 = ''T''\<rparr> else []))"

definition demo_windows :: "unit window_enumerator" where
  "demo_windows = (\<lambda>w. (w, [JInt 12, JInt 66, JInt 30], Exhausted))"

definition demo_target :: resolved_target where
  "demo_target = \<lparr>rt_logical_id = ''term'', rt_hwnd = 66, rt_pid = 7, rt_exe = ''cmd.exe'', rt_exe_path = ''C:/cmd.exe'',
     rt_window_class = ''K'', rt_title = ''T'', rt_title_sha256 = ''T''\<rparr>"

lemma demo_resolves:
  "resolve demo_paths id [(''term'', demo_spec)] demo_windows (Some (snapshot_verifier demo_report)) ''term'' ''observer'' ()
     = ((), Inr demo_target)"
  by code_simp

theorem logical_target_is_unique_witness: "meets_spec demo_paths id demo_spec demo_target"
  using logical_target_is_unique[OF demo_resolves] by auto

end
