(* ===== verification/DispatchState.thy ===== *)
theory DispatchState
  imports LogicalTargets Leases AcpShim
begin

text \<open>
  The state of \<open>MCPDispatcher\<close> (\<open>enterprise/mcp_dispatch.py\<close>), the services its constructor is
  given, and the helpers every handler uses: the audit record, the lease checks and the live
  verification of a target. An operation is a state transformer that ends in an exception or a
  value; what it did before an exception stays done. The services act on the state \<open>'w\<close> of the
  world: clock, identifiers, ledger, control plane, policy enforcer, approval queue, replay
  store, windows and transport. An exception is its text, with \<open>MCPDispatchError\<close> kept apart
  because one handler catches it alone; \<open>Unfinished\<close> marks a polling loop cut off before it ended.
\<close>

datatype exn = DispatchError pystr | OtherError pystr | Unfinished

fun exn_text :: "exn \<Rightarrow> pystr" where
  "exn_text (DispatchError t) = t"
| "exn_text (OtherError t) = t"
| "exn_text Unfinished = []"

subsection \<open>Services\<close>

record 'w ledger_service =
  lgs_log :: "'w \<Rightarrow> log_call \<Rightarrow> 'w \<times> (pystr + json_object)"
  lgs_verify :: "'w \<Rightarrow> 'w \<times> (pystr + bool)"
  lgs_head_hash :: "'w \<Rightarrow> 'w \<times> (pystr + pystr)"
  lgs_contains :: "'w \<Rightarrow> pystr \<Rightarrow> 'w \<times> (pystr + bool)"

text \<open>The fields of \<open>PolicyDecision\<close> the dispatcher reads.\<close>

record decision =
  de_allowed :: bool
  de_reason :: pystr
  de_requires_approval :: bool
  de_policy_id :: json
  de_classification :: pystr
  de_approval_mode :: pystr

text \<open>\<open>check(agent_id, action, app=, classification=, identity_type=)\<close>.\<close>

type_synonym 'w policy_service = "'w \<Rightarrow> pystr \<Rightarrow> pystr \<Rightarrow> pystr \<Rightarrow> json \<Rightarrow> pystr \<Rightarrow> 'w \<times> (pystr + decision)"

record 'w queue_service =
  qs_consume :: "'w \<Rightarrow> json \<Rightarrow> pystr \<Rightarrow> pystr \<Rightarrow> json_object \<Rightarrow> 'w \<times> (pystr + pending_approval option)"
  qs_verify_binding :: "('w \<Rightarrow> pending_approval \<Rightarrow> pystr \<Rightarrow> pystr \<Rightarrow> json_object \<Rightarrow> 'w \<times> (pystr + bool)) option"

text \<open>What the stored consumption of an action looks like from outside (\<open>get\<close>).\<close>

record 'w delegation_boundary =
  bd_issuer :: "'w \<Rightarrow> pystr \<Rightarrow> 'w \<times> (pystr + bytes option)"
  bd_revocations :: "'w \<Rightarrow> 'w \<times> (pystr + (pystr + revocation_state))"
  bd_claim :: "'w \<Rightarrow> pystr \<Rightarrow> admission \<Rightarrow> time \<Rightarrow> 'w \<times> (pystr + bool)"
  bd_begin :: "'w \<Rightarrow> pystr \<Rightarrow> admission \<Rightarrow> 'w \<times> (pystr + bool)"
  bd_finish :: "'w \<Rightarrow> pystr \<Rightarrow> bool \<Rightarrow> json_object \<Rightarrow> pystr \<Rightarrow> json_object \<Rightarrow> 'w \<times> (pystr + unit)"
  bd_get :: "'w \<Rightarrow> pystr \<Rightarrow> 'w \<times> (pystr + consumption option)"

record target_binding =
  tb_pid :: int
  tb_exe :: pystr
  tb_exe_path :: pystr
  tb_window_class :: pystr
  tb_title_sha256 :: pystr

text \<open>A router; its receipts and decisions are the objects \<open>_jsonable\<close> makes of them.\<close>

record 'w router =
  ro_route :: "'w \<Rightarrow> int \<Rightarrow> json \<Rightarrow> pystr \<Rightarrow> target_binding \<Rightarrow> 'w \<times> (exn + json_object)"
  ro_classify :: "'w \<Rightarrow> int \<Rightarrow> 'w \<times> (pystr + json_object)"

record tpm_claim =
  tc_supported :: bool
  tc_error :: json
  tc_identity_key_bound :: bool
  tc_algorithm :: pystr
  tc_nonce :: bytes
  tc_public_key_blob :: bytes
  tc_claim_blob :: bytes

record 'w tpm_service =
  tpm_urandom :: "'w \<Rightarrow> 'w \<times> bytes"
  tpm_create :: "'w \<Rightarrow> bytes \<Rightarrow> 'w \<times> (pystr + tpm_claim)"
  tpm_verify :: "'w \<Rightarrow> tpm_claim \<Rightarrow> 'w \<times> (pystr + bool)"
  tpm_probe :: "'w \<Rightarrow> 'w \<times> (pystr + json_object)"

record 'w services =
  sv_profile :: pystr
  sv_identity_type :: pystr
  sv_crypto :: delegation_crypto
  sv_paths :: path_rules
  sv_loads :: "bytes \<Rightarrow> pystr + json"
  sv_lease_keys :: lease_keys
  sv_sign :: "bytes \<Rightarrow> bytes"
  sv_public_key :: bytes
  sv_now :: "'w \<Rightarrow> 'w \<times> time"
  sv_monotonic_ms :: "'w \<Rightarrow> 'w \<times> int"
  sv_sleep_ms :: "'w \<Rightarrow> int \<Rightarrow> 'w"
  sv_poll_limit :: nat
  sv_uuid4 :: "'w \<Rightarrow> 'w \<times> pystr"
  sv_ledger :: "'w ledger_service option"
  sv_policy :: "'w policy_service option"
  sv_is_active :: "'w \<Rightarrow> pystr \<Rightarrow> 'w \<times> (pystr + bool)"
  sv_register :: "'w \<Rightarrow> pystr \<Rightarrow> 'w \<times> (pystr + unit)"
  sv_queue :: "'w queue_service option"
  sv_verifier :: "'w target_verifier option"
  sv_resolver :: "(resolver \<times> 'w window_enumerator) option"
  sv_router :: "'w router option"
  sv_reader :: "('w \<Rightarrow> int \<Rightarrow> 'w \<times> (pystr + json)) option"
  sv_tpm :: "'w tpm_service option"
  sv_boundary :: "'w delegation_boundary option"
  sv_identity :: "signer option"
  sv_guard :: "pystr + 'w target_verifier"
  sv_mesh :: "'w \<Rightarrow> bool \<Rightarrow> 'w \<times> (pystr + json list)"
  sv_channels :: "'w \<Rightarrow> 'w \<times> (pystr + json_object)"
  sv_open_pipe :: "'w \<Rightarrow> json \<Rightarrow> 'w \<times> (pystr + int option)"

definition governed_profile :: "'w services \<Rightarrow> bool" where
  "governed_profile sv \<longleftrightarrow> sv_profile sv \<in> {''enterprise'', ''government''}"

definition hash_text :: "'w services \<Rightarrow> pystr \<Rightarrow> pystr" where
  "hash_text sv s = dc_sha256 (sv_crypto sv) (utf8 s)"

subsection \<open>State and operations\<close>

record audit_event =
  av_event_id :: pystr
  av_timestamp :: time
  av_event_type :: pystr
  av_agent_id :: pystr
  av_tool :: pystr
  av_ok :: bool
  av_details :: json_object

definition audit_to_dict :: "audit_event \<Rightarrow> json_object" where
  "audit_to_dict e =
     [(''event_id'', JStr (av_event_id e)), (''timestamp'', JFloat (av_timestamp e)), (''event_type'', JStr (av_event_type e)),
      (''agent_id'', JStr (av_agent_id e)), (''tool'', JStr (av_tool e)), (''ok'', JBool (av_ok e)),
      (''details'', JObj (av_details e))]"

record 'w dispatcher =
  di_leases :: "(pystr \<times> lease) list"
  di_authority :: authority_store
  di_audit :: "audit_event list"
  di_read_snapshots :: "(pystr \<times> pystr) list"
  di_injected_text :: "(pystr \<times> pystr) list"
  di_world :: 'w

definition dispatcher_init :: "'w \<Rightarrow> 'w dispatcher" where
  "dispatcher_init w =
     \<lparr>di_leases = [], di_authority = authority_init, di_audit = [], di_read_snapshots = [], di_injected_text = [],
      di_world = w\<rparr>"

type_synonym ('w, 'a) act = "'w dispatcher \<Rightarrow> 'w dispatcher \<times> (exn + 'a)"

definition ret :: "'a \<Rightarrow> ('w, 'a) act" where
  "ret x = (\<lambda>s. (s, Inr x))"

definition raise_error :: "pystr \<Rightarrow> ('w, 'a) act" where
  "raise_error t = (\<lambda>s. (s, Inl (DispatchError t)))"

definition of_result :: "exn + 'a \<Rightarrow> ('w, 'a) act" where
  "of_result r = (\<lambda>s. (s, r))"

definition bind_act :: "('w, 'a) act \<Rightarrow> ('a \<Rightarrow> ('w, 'b) act) \<Rightarrow> ('w, 'b) act" where
  "bind_act m f = (\<lambda>s. case m s of (s', Inl e) \<Rightarrow> (s', Inl e) | (s', Inr x) \<Rightarrow> f x s')"

definition require :: "bool \<Rightarrow> pystr \<Rightarrow> ('w, unit) act" where
  "require b t = (if b then ret () else raise_error t)"

text \<open>\<open>try: m except Exception as exc: handler(exc)\<close>.\<close>

definition catch_act :: "('w, 'a) act \<Rightarrow> (exn \<Rightarrow> ('w, 'a) act) \<Rightarrow> ('w, 'a) act" where
  "catch_act m h = (\<lambda>s. case m s of (s', Inl e) \<Rightarrow> h e s' | (s', Inr x) \<Rightarrow> (s', Inr x))"

definition on_world :: "('w \<Rightarrow> 'w \<times> 'a) \<Rightarrow> ('w, 'a) act" where
  "on_world f = (\<lambda>s. case f (di_world s) of (w, x) \<Rightarrow> (s\<lparr>di_world := w\<rparr>, Inr x))"

definition call_exn :: "('w \<Rightarrow> 'w \<times> (exn + 'a)) \<Rightarrow> ('w, 'a) act" where
  "call_exn f = (\<lambda>s. case f (di_world s) of (w, r) \<Rightarrow> (s\<lparr>di_world := w\<rparr>, r))"

definition as_exn :: "pystr + 'a \<Rightarrow> exn + 'a" where
  "as_exn r = (case r of Inl t \<Rightarrow> Inl (OtherError t) | Inr x \<Rightarrow> Inr x)"

definition call_world :: "('w \<Rightarrow> 'w \<times> (pystr + 'a)) \<Rightarrow> ('w, 'a) act" where
  "call_world f = call_exn (\<lambda>w. case f w of (w', r) \<Rightarrow> (w', as_exn r))"

definition get_state :: "('w dispatcher \<Rightarrow> 'a) \<Rightarrow> ('w, 'a) act" where
  "get_state f = (\<lambda>s. (s, Inr (f s)))"

definition set_state :: "('w dispatcher \<Rightarrow> 'w dispatcher) \<Rightarrow> ('w, unit) act" where
  "set_state f = (\<lambda>s. (f s, Inr ()))"

text \<open>\<open>d[k]\<close>, \<open>int(v)\<close> and \<open>d.get\<close> on a value that may be no dictionary.\<close>

definition item :: "json_object \<Rightarrow> pystr \<Rightarrow> exn + json" where
  "item d k = (case map_of d k of Some v \<Rightarrow> Inr v | None \<Rightarrow> Inl (OtherError (py_repr k)))"

definition py_int :: "json \<Rightarrow> exn + int" where
  "py_int v = as_exn (int_of v)"

primrec type_name :: "json \<Rightarrow> pystr" where
  "type_name JNull = ''NoneType''"
| "type_name (JBool _) = ''bool''"
| "type_name (JInt _) = ''int''"
| "type_name (JFloat _) = ''float''"
| "type_name (JStr _) = ''str''"
| "type_name (JArr _) = ''list''"
| "type_name (JObj _) = ''dict''"

definition as_mapping :: "json \<Rightarrow> exn + json_object" where
  "as_mapping v =
     (case v of JObj d \<Rightarrow> Inr d
      | _ \<Rightarrow> Inl (OtherError (CHR 0x27 # type_name v @ [CHR 0x27] @ '' object has no attribute '' @ py_repr ''get'')))"

subsection \<open>The audit record\<close>

definition AUDIT_LIMIT :: nat where
  "AUDIT_LIMIT = 2000"

definition MAX_ERROR_LEN :: nat where
  "MAX_ERROR_LEN = 512"

definition bound_error :: "pystr \<Rightarrow> pystr" where
  "bound_error s = take MAX_ERROR_LEN s"

definition log_entry :: "'w services \<Rightarrow> pystr \<Rightarrow> pystr \<Rightarrow> json_object \<Rightarrow> ('w, unit) act" where
  "log_entry sv action result metadata =
     (case sv_ledger sv of
        None \<Rightarrow> ret ()
      | Some lg \<Rightarrow> bind_act (call_world (\<lambda>w. lgs_log lg w (mk_call action result metadata))) (\<lambda>_. ret ()))"

text \<open>\<open>a or b or c or "unknown"\<close>.\<close>

fun first_truthy :: "json list \<Rightarrow> pystr" where
  "first_truthy [] = ''unknown''"
| "first_truthy (v # vs) = (if truthy v then str_of v else first_truthy vs)"

definition audit_agent :: "json_object \<Rightarrow> json_object \<Rightarrow> pystr" where
  "audit_agent args result =
     take 128 (first_truthy [kw args ''agent_id'', kw args ''filter_agent_id'', kw result ''agent_id''])"

definition audit_details :: "'w services \<Rightarrow> json_object \<Rightarrow> json_object \<Rightarrow> json_object" where
  "audit_details sv args result =
     [(''argument_hash'', JStr (hash_text sv (json_text (JObj args)))), (''result_hash'', JStr (hash_text sv (json_text (JObj result)))),
      (''profile'', JStr (sv_profile sv))]
     @ (case map_of args ''lease_id'' of None \<Rightarrow> [] | Some v \<Rightarrow> [(''lease_id'', JStr (take 128 (str_of v)))])"

definition keep_last :: "nat \<Rightarrow> 'a list \<Rightarrow> 'a list" where
  "keep_last n xs = (if n < length xs then drop (length xs - n) xs else xs)"

definition record_audit :: "'w services \<Rightarrow> pystr \<Rightarrow> bool \<Rightarrow> json_object \<Rightarrow> json_object \<Rightarrow> ('w, unit) act" where
  "record_audit sv tool ok args result =
     bind_act (on_world (sv_uuid4 sv)) (\<lambda>event_id.
     bind_act (on_world (sv_now sv)) (\<lambda>now.
       (let event = \<lparr>av_event_id = event_id, av_timestamp = now, av_event_type = ''mcp_tool_call'',
              av_agent_id = audit_agent args result, av_tool = tool, av_ok = ok, av_details = audit_details sv args result\<rparr> in
        bind_act (set_state (\<lambda>s. s\<lparr>di_audit := keep_last AUDIT_LIMIT (di_audit s @ [event])\<rparr>)) (\<lambda>_.
          log_entry sv ''mcp_tool_call'' (if ok then ''ok'' else ''denied'') [(''audit_event'', JObj (audit_to_dict event))]))))"

subsection \<open>Leases\<close>

definition LEASE_TOOL_ROLES :: "(pystr \<times> pystr list) list" where
  "LEASE_TOOL_ROLES =
     [(''sc_inject_text'', [''sender'']), (''sc_read_output'', [''observer'', ''receiver'', ''sender''])]"

definition allowed_roles :: "pystr \<Rightarrow> pystr list" where
  "allowed_roles tool = dict_get LEASE_TOOL_ROLES tool []"

definition record_lease_role_denial ::
    "'w services \<Rightarrow> pystr \<Rightarrow> pystr \<Rightarrow> pystr \<Rightarrow> pystr \<Rightarrow> pystr \<Rightarrow> ('w, unit) act" where
  "record_lease_role_denial sv lease_id tool stored_role issued_role reason =
     bind_act (require (sv_ledger sv \<noteq> None) ''persistent lease role denial evidence is unavailable'') (\<lambda>_.
       log_entry sv ''lease_role_decision'' ''denied''
         [(''lease_id'', JStr lease_id), (''tool'', JStr tool), (''stored_role'', JStr stored_role),
          (''issued_role'', JStr issued_role), (''allowed_roles'', JArr (map JStr (allowed_roles tool))),
          (''reason'', JStr reason)])"

definition deny_lease_role :: "'w services \<Rightarrow> pystr \<Rightarrow> pystr \<Rightarrow> pystr \<Rightarrow> pystr \<Rightarrow> pystr \<Rightarrow> ('w, 'a) act" where
  "deny_lease_role sv lease_id tool stored_role issued_role reason =
     bind_act (catch_act (record_lease_role_denial sv lease_id tool stored_role issued_role reason)
         (\<lambda>e. raise_error (reason @ ''; lease role denial evidence could not be persisted: '' @ exn_text e))) (\<lambda>_.
       raise_error reason)"

definition require_lease :: "'w services \<Rightarrow> pystr \<Rightarrow> int \<Rightarrow> pystr \<Rightarrow> ('w, lease) act" where
  "require_lease sv lease_id hwnd tool =
     bind_act (get_state (\<lambda>s. map_of (di_leases s) lease_id)) (\<lambda>found.
       case found of
         None \<Rightarrow> raise_error (''lease '' @ py_repr lease_id @ '' not found'')
       | Some l \<Rightarrow>
           bind_act (on_world (sv_now sv)) (\<lambda>now.
           bind_act (require (lease_is_active l now) (''lease '' @ py_repr lease_id @ '' is expired or revoked'')) (\<lambda>_.
           bind_act (require (hwnd = ls_hwnd l) ''lease is not bound to requested HWND'') (\<lambda>_.
           bind_act (get_state (\<lambda>s. authority_verify (sv_lease_keys sv) (di_authority s) lease_id l False)) (\<lambda>checked.
             case checked of
               Inl e \<Rightarrow> deny_lease_role sv lease_id tool (ls_role l) (ae_issued_role e) (ae_reason e)
             | Inr authority \<Rightarrow>
                 (case map_of LEASE_TOOL_ROLES tool of
                    None \<Rightarrow> deny_lease_role sv lease_id tool (ls_role l) (ls_role authority)
                      (''tool '' @ py_repr tool @ '' has no lease-role authorization contract'')
                  | Some roles \<Rightarrow>
                      if ls_role authority \<notin> set roles
                      then deny_lease_role sv lease_id tool (ls_role l) (ls_role authority)
                        (''lease role '' @ py_repr (ls_role authority) @ '' is not authorized for '' @ tool)
                      else ret l))))))"

definition verified_leases :: "'w services \<Rightarrow> 'w dispatcher \<Rightarrow> lease list" where
  "verified_leases sv s =
     List.map_filter (\<lambda>(i, l). case authority_verify (sv_lease_keys sv) (di_authority s) i l True of
         Inl _ \<Rightarrow> None | Inr v \<Rightarrow> Some v) (di_leases s)"

definition active_leases :: "'w services \<Rightarrow> ('w, lease list) act" where
  "active_leases sv =
     bind_act (on_world (sv_now sv)) (\<lambda>now.
       get_state (\<lambda>s. filter (\<lambda>l. lease_is_active l now) (verified_leases sv s)))"

subsection \<open>Live targets\<close>

definition lease_expectation :: "lease \<Rightarrow> target_expectation" where
  "lease_expectation l =
     \<lparr>te_pid = Some (ls_target_pid l), te_exe = Some (ls_target_exe l), te_exe_path = Some (ls_target_exe_path l),
      te_class = Some (ls_target_class l), te_title_sha256 = Some (ls_target_title_hash l), te_require_terminal = True\<rparr>"

definition unsafe_reasons :: "json_object \<Rightarrow> exn" where
  "unsafe_reasons d =
     (let reasons = (if truthy (kw d ''reasons'') then kw d ''reasons'' else JArr [JStr ''target verification failed'']) in
      case as_tuple reasons of
        Inr (JArr xs) \<Rightarrow> DispatchError (''unsafe target: '' @ join_with ''; '' (map str_of xs))
      | _ \<Rightarrow> OtherError (CHR 0x27 # type_name reasons @ [CHR 0x27] @ '' object is not iterable''))"

definition verify_live_target :: "'w services \<Rightarrow> int \<Rightarrow> lease option \<Rightarrow> ('w, json_object) act" where
  "verify_live_target sv hwnd expected =
     (case sv_verifier sv of
        None \<Rightarrow> raise_error ''governed target verifier is unavailable''
      | Some verify \<Rightarrow>
          bind_act (call_world (\<lambda>w. verify w hwnd (case expected of None \<Rightarrow> expect_terminal | Some l \<Rightarrow> lease_expectation l))) (\<lambda>report.
          bind_act (of_result (as_mapping report)) (\<lambda>d.
          bind_act (if truthy (kw d ''ok'') then ret () else of_result (Inl (unsafe_reasons d))) (\<lambda>_.
          bind_act (require (case expected of None \<Rightarrow> True
              | Some l \<Rightarrow> hash_text sv (str_of (dict_get d ''title'' (JStr []))) = ls_target_title_hash l)
              ''unsafe target: title hash changed'') (\<lambda>_.
          bind_act (require (truthy (kw d ''pid'') \<and> truthy (kw d ''exe'') \<and> truthy (kw d ''class''))
              ''target verifier returned an incomplete identity binding'') (\<lambda>_.
            ret d))))))"

definition target_binding_of :: "lease \<Rightarrow> target_binding" where
  "target_binding_of l =
     \<lparr>tb_pid = ls_target_pid l, tb_exe = ls_target_exe l, tb_exe_path = ls_target_exe_path l,
      tb_window_class = ls_target_class l, tb_title_sha256 = ls_target_title_hash l\<rparr>"

end
