(* ===== verification/DispatchGate.thy ===== *)
theory DispatchGate
  imports DispatchState
begin

text \<open>
  The gates of \<open>MCPDispatcher\<close>: the delegated-authorization check in front of every protected
  handler (\<open>_require_verified_delegated_call\<close>), the target it binds the signed proof to
  (\<open>delegation_target_for\<close>), and the policy and approval check of the executing handlers
  (\<open>_require_execution_authorization\<close>). An exception that leaves a function of \<open>delegation.py\<close>
  is known by its class only, and so is a text of the standard library that names a position.
\<close>

record verified_call =
  vc_grant :: grant
  vc_proof :: action_proof
  vc_payload :: bytes
  vc_session_id :: pystr

definition delegation_exn :: "delegation_error \<Rightarrow> exn" where
  "delegation_exn e = OtherError (case e of DelegationValueError \<Rightarrow> ''ValueError'' | DelegationTypeError \<Rightarrow> ''TypeError'')"

definition of_delegation :: "delegation_error + 'a \<Rightarrow> exn + 'a" where
  "of_delegation r = (case r of Inl e \<Rightarrow> Inl (delegation_exn e) | Inr x \<Rightarrow> Inr x)"

text \<open>\<open>json.loads(canonical_bytes(arguments).decode())\<close>: the same object with sorted keys.\<close>

definition isolated :: "json_object \<Rightarrow> json_object" where
  "isolated args = members (key_sorted (JObj args))"

text \<open>A text argument; the validator has refused any other type.\<close>

definition text_item :: "json_object \<Rightarrow> pystr \<Rightarrow> exn + pystr" where
  "text_item d k =
     (case map_of d k of
        Some (JStr s) \<Rightarrow> Inr s
      | Some _ \<Rightarrow> Inl (OtherError ''TypeError'')
      | None \<Rightarrow> Inl (OtherError (py_repr k)))"

definition int_item :: "json_object \<Rightarrow> pystr \<Rightarrow> exn + int" where
  "int_item d k = bind_result (item d k) py_int"

definition int_arg :: "json_object \<Rightarrow> pystr \<Rightarrow> int \<Rightarrow> exn + int" where
  "int_arg d k dflt = py_int (dict_get d k (JInt dflt))"

definition text_arg :: "json_object \<Rightarrow> pystr \<Rightarrow> pystr \<Rightarrow> pystr" where
  "text_arg d k dflt = str_of (dict_get d k (JStr dflt))"

definition bool_arg :: "json_object \<Rightarrow> pystr \<Rightarrow> bool \<Rightarrow> bool" where
  "bool_arg d k dflt = truthy (dict_get d k (JBool dflt))"

subsection \<open>The canonical target\<close>

text \<open>\<open>dict.update\<close>.\<close>

definition update_all :: "json_object \<Rightarrow> json_object \<Rightarrow> json_object" where
  "update_all d m = fold (\<lambda>kv d. AList.update (fst kv) (snd kv) d) m d"

definition report_delegation_target :: "'w services \<Rightarrow> json_object \<Rightarrow> int \<Rightarrow> exn + json_object" where
  "report_delegation_target sv report hwnd =
     bind_result (int_item report ''pid'') (\<lambda>pid.
     bind_result (item report ''exe'') (\<lambda>exe.
     map_result (\<lambda>window_class.
        [(''hwnd'', JInt hwnd), (''pid'', JInt pid), (''exe'', JStr (str_of exe)),
         (''exe_path'', JStr (text_arg report ''exe_path'' [])), (''class_name'', JStr (str_of window_class)),
         (''title_sha256'', JStr (hash_text sv (text_arg report ''title'' []))), (''logical_target_id'', JStr [])])
       (item report ''class'')))"

definition requested_lease_fields :: "json_object \<Rightarrow> exn + json_object" where
  "requested_lease_fields args =
     map_result (\<lambda>ttl. [(''agent_id'', JStr (text_arg args ''agent_id'' [])), (''role'', JStr (text_arg args ''role'' [])),
         (''ttl_seconds'', JInt ttl)])
       (int_arg args ''ttl_seconds'' 300)"

definition resolve_target :: "'w services \<Rightarrow> pystr \<Rightarrow> pystr \<Rightarrow> ('w, resolved_target) act" where
  "resolve_target sv logical_id role =
     (case sv_resolver sv of
        None \<Rightarrow> raise_error []
      | Some (rs, enumerate_windows) \<Rightarrow>
          call_world (resolve (sv_paths sv) (dc_sha256 (sv_crypto sv)) rs enumerate_windows (sv_verifier sv) logical_id role))"

definition lease_authority_exn :: "authority_error + 'a \<Rightarrow> exn + 'a" where
  "lease_authority_exn r = (case r of Inl e \<Rightarrow> Inl (OtherError (ae_reason e)) | Inr x \<Rightarrow> Inr x)"

definition target_of_live :: "'w services \<Rightarrow> json_object \<Rightarrow> (json_object \<Rightarrow> exn + json_object) \<Rightarrow> ('w, json_object) act" where
  "target_of_live sv args extra =
     bind_act (of_result (int_arg args ''hwnd'' 0)) (\<lambda>hwnd.
     bind_act (verify_live_target sv hwnd None) (\<lambda>report.
       of_result (bind_result (report_delegation_target sv report hwnd) (\<lambda>target.
         map_result (update_all target) (extra args)))))"

definition target_of_logical :: "'w services \<Rightarrow> json_object \<Rightarrow> ('w, json_object) act" where
  "target_of_logical sv args =
     bind_act (require (sv_resolver sv \<noteq> None \<and> sv_verifier sv \<noteq> None) ''logical target resolution is unavailable'') (\<lambda>_.
     bind_act (resolve_target sv (text_arg args ''logical_target_id'' []) (text_arg args ''role'' [])) (\<lambda>t.
       of_result (bind_result (report_delegation_target sv (verifier_report t) (rt_hwnd t)) (\<lambda>target.
         map_result (\<lambda>fields. update_all target ((''logical_target_id'', JStr (rt_logical_id t)) # fields))
           (requested_lease_fields args)))))"

definition target_of_revocation :: "'w services \<Rightarrow> json_object \<Rightarrow> ('w, json_object) act" where
  "target_of_revocation sv args =
     bind_act (get_state (\<lambda>s. (map_of (di_leases s) (text_arg args ''lease_id'' []), di_authority s))) (\<lambda>(found, au).
       case found of
         None \<Rightarrow> raise_error ''lease to revoke does not exist''
       | Some l \<Rightarrow> of_result (map_result lease_delegation_target
           (lease_authority_exn (authority_verify (sv_lease_keys sv) au (ls_lease_id l) l False))))"

definition target_of_signing :: "'w services \<Rightarrow> json_object \<Rightarrow> exn + json_object" where
  "target_of_signing sv args =
     (case fromhex (text_arg args ''payload_hex'' []) of
        None \<Rightarrow> Inl (OtherError ''ValueError'')
      | Some payload \<Rightarrow>
          Inr [(''payload_sha256'', JStr (dc_sha256 (sv_crypto sv) payload)),
               (''key_provider'', JStr (text_arg args ''key_provider'' ''software''))])"

definition delegation_target_for :: "'w services \<Rightarrow> pystr \<Rightarrow> json_object \<Rightarrow> ('w, json_object) act" where
  "delegation_target_for sv name args =
     (if map_of LEASE_TOOL_ROLES name \<noteq> None then
        bind_act (of_result (int_arg args ''hwnd'' 0)) (\<lambda>hwnd.
        bind_act (require_lease sv (text_arg args ''lease_id'' []) hwnd name) (\<lambda>l.
          ret (lease_delegation_target l)))
      else if name = ''sc_revoke_lease'' then target_of_revocation sv args
      else if name = ''sc_request_lease'' then target_of_live sv args requested_lease_fields
      else if name = ''sc_request_target_lease'' then target_of_logical sv args
      else if name = ''sc_session_stamp'' then
        target_of_live sv args (\<lambda>args. Inr [(''use_tpm'', JBool (bool_arg args ''use_tpm'' False))])
      else if name = ''sc_channel_route'' then
        target_of_live sv args (\<lambda>args. Inr [(''preferred_channel'', JStr (text_arg args ''preferred_channel'' ''auto''))])
      else if name = ''sc_identity_sign'' then of_result (target_of_signing sv args)
      else raise_error (''protected tool '' @ py_repr name @ '' has no canonical delegation target''))"

subsection \<open>The delegated authorization of a handler\<close>

definition verification_state_of :: "revocation_state \<Rightarrow> verification_state" where
  "verification_state_of r =
     fresh_state\<lparr>vs_revoked_grant_ids := rs_revoked_grant_ids r, vs_revoked_agent_key_ids := rs_revoked_agent_key_ids r,
       vs_minimum_revocation_epoch := rs_epoch r\<rparr>"

definition admission_of :: "'w services \<Rightarrow> verified_call \<Rightarrow> admission" where
  "admission_of sv a = (grant_id (sv_crypto sv) (vc_grant a), proof_id (sv_crypto sv) (vc_proof a), vc_session_id a)"

text \<open>The grant and proof verify for this payload, now, under the current revocations.\<close>

definition verify_current ::
    "'w services \<Rightarrow> 'w delegation_boundary \<Rightarrow> grant \<Rightarrow> action_proof \<Rightarrow> bytes \<Rightarrow> bytes \<Rightarrow> (pystr \<Rightarrow> exn) \<Rightarrow> pystr \<Rightarrow> ('w, unit) act" where
  "verify_current sv bd g p payload issuer_key invalid denied =
     bind_act (call_world (bd_revocations bd)) (\<lambda>answer.
       case answer of
         Inl t \<Rightarrow> of_result (Inl (invalid t))
       | Inr revocations \<Rightarrow>
           bind_act (on_world (sv_now sv)) (\<lambda>now.
           bind_act (of_result (of_delegation (verify_delegated_action (sv_crypto sv) g p (Finite now) (Some payload)
               (Some issuer_key) (verification_state_of revocations)))) (\<lambda>checked.
             require (dv_ok checked) (denied @ reason_text (dv_reason checked)))))"

definition trusted_issuer :: "'w delegation_boundary \<Rightarrow> grant \<Rightarrow> ('w, bytes) act" where
  "trusted_issuer bd g =
     bind_act (call_world (\<lambda>w. bd_issuer bd w (gr_issuer_key_fingerprint g))) (\<lambda>key.
       case key of None \<Rightarrow> raise_error ''delegation issuer is not trusted'' | Some k \<Rightarrow> ret k)"

definition admit_call ::
    "'w services \<Rightarrow> 'w delegation_boundary \<Rightarrow> verified_call \<Rightarrow> pystr \<Rightarrow> json_object \<Rightarrow> ('w, json_object) act" where
  "admit_call sv bd a name args =
     bind_act (require (pr_action (vc_proof a) = name) ''delegated authorization names a different tool'') (\<lambda>_.
     bind_act (case sv_loads sv (vc_payload a) of
         Inl _ \<Rightarrow> raise_error ''delegated authorization payload is invalid'' | Inr v \<Rightarrow> ret v) (\<lambda>signed_call.
     bind_act (if canonical_bytes signed_call \<noteq> vc_payload a then ret (JObj []) else
         bind_act (of_result (as_mapping signed_call)) (\<lambda>d. ret (JObj d))) (\<lambda>_.
     bind_act (require (canonical_bytes signed_call = vc_payload a \<and> py_eq (kw (members signed_call) ''arguments'') (JObj args))
         ''delegated authorization does not bind actuator arguments'') (\<lambda>_.
     bind_act (trusted_issuer bd (vc_grant a)) (\<lambda>issuer_key.
     bind_act (verify_current sv bd (vc_grant a) (vc_proof a) (vc_payload a) issuer_key OtherError
         ''delegation denied at actuator: '') (\<lambda>_.
     bind_act (delegation_target_for sv name args) (\<lambda>target.
     bind_act (require (py_eq (JObj (pr_target (vc_proof a))) (JObj target))
         ''delegated authorization target changed before actuation'') (\<lambda>_.
     bind_act (call_world (\<lambda>w. bd_begin bd w (pr_action_id (vc_proof a)) (admission_of sv a))) (\<lambda>begun.
     bind_act (require begun ''delegated authorization is not admitted for one-shot actuation'') (\<lambda>_.
       ret (isolated args)))))))))))"

definition require_verified_delegated_call ::
    "'w services \<Rightarrow> pystr \<Rightarrow> json_object \<Rightarrow> verified_call option \<Rightarrow> ('w, json_object) act" where
  "require_verified_delegated_call sv name args authorization =
     (if \<not> governed_profile sv then ret (isolated args)
      else case (authorization, sv_boundary sv) of
        (Some a, Some bd) \<Rightarrow> admit_call sv bd a name args
      | _ \<Rightarrow> raise_error ''actuator has no verified delegation authorization'')"

subsection \<open>Policy and approval\<close>

definition build_approval_context :: "'w services \<Rightarrow> lease \<Rightarrow> json_object \<Rightarrow> json_object \<Rightarrow> pystr \<Rightarrow> exn + json_object" where
  "build_approval_context sv l args target action =
     bind_result (int_item target ''pid'') (\<lambda>pid.
     bind_result (item target ''exe'') (\<lambda>exe.
     map_result (\<lambda>window_class.
        [(''action'', JStr action), (''lease_id'', JStr (ls_lease_id l)), (''target_hwnd'', JInt (ls_hwnd l)),
         (''target_pid'', JInt pid), (''target_exe'', JStr (str_of exe)), (''target_class'', JStr (str_of window_class)),
         (''classification'', if truthy (kw args ''classification'') then kw args ''classification'' else JStr ''UNCLASSIFIED'')]
        @ (if action = ''sc_inject_text'' then [(''payload_sha256'', JStr (hash_text sv (text_arg args ''text'' [])))] else []))
       (item target ''class'')))"

definition approval_context_for :: "'w services \<Rightarrow> pystr \<Rightarrow> json_object \<Rightarrow> pystr \<Rightarrow> ('w, json_object) act" where
  "approval_context_for sv lease_id args action =
     bind_act (of_result (int_item args ''hwnd'')) (\<lambda>hwnd.
     bind_act (require_lease sv lease_id hwnd action) (\<lambda>l.
     bind_act (verify_live_target sv (ls_hwnd l) (Some l)) (\<lambda>target.
       of_result (build_approval_context sv l args target action))))"

definition decision_entry :: "lease \<Rightarrow> decision \<Rightarrow> json_object \<Rightarrow> pystr \<Rightarrow> exn + json_object" where
  "decision_entry l d target action =
     bind_result (item target ''pid'') (\<lambda>pid.
     bind_result (item target ''exe'') (\<lambda>exe.
     map_result (\<lambda>window_class.
        [(''policy_id'', de_policy_id d), (''classification'', JStr (de_classification d)),
         (''approval_mode'', JStr (de_approval_mode d)), (''decision'', JStr (if de_allowed d then ''allow'' else ''deny'')),
         (''subject_agent_id'', JStr (ls_agent_id l)), (''requested_action'', JStr action), (''target_hwnd'', JInt (ls_hwnd l)),
         (''target_pid'', pid), (''target_exe'', exe), (''target_class'', window_class),
         (''requires_approval'', JBool (de_requires_approval d))])
       (item target ''class'')))"

definition consume_approval ::
    "'w services \<Rightarrow> lease \<Rightarrow> json_object \<Rightarrow> json_object \<Rightarrow> pystr \<Rightarrow> ('w, pystr) act" where
  "consume_approval sv l args target action =
     bind_act (require (truthy (kw args ''approval_id'')) (''operator approval is required for '' @ action)) (\<lambda>_.
       case sv_queue sv of
         None \<Rightarrow> raise_error ''operator approval queue is not configured''
       | Some q \<Rightarrow>
           bind_act (of_result (build_approval_context sv l args target action)) (\<lambda>context.
           bind_act (call_world (\<lambda>w. qs_consume q w (kw args ''approval_id'') (ls_agent_id l) action context)) (\<lambda>approval.
             case approval of
               None \<Rightarrow> raise_error ''operator approval is missing, expired, consumed, or not bound to the exact action context''
             | Some a \<Rightarrow>
                 bind_act (case qs_verify_binding q of
                     None \<Rightarrow> ret True
                   | Some verify \<Rightarrow> call_world (\<lambda>w. verify w a (ls_agent_id l) action context)) (\<lambda>bound.
                 bind_act (require bound ''operator approval audit receipt is missing or does not match the exact action context'') (\<lambda>_.
                   ret (pa_operator_id a))))))"

definition require_execution_authorization ::
    "'w services \<Rightarrow> lease \<Rightarrow> json_object \<Rightarrow> json_object \<Rightarrow> pystr \<Rightarrow> ('w, json_object) act" where
  "require_execution_authorization sv l args target action =
     bind_act (require (sv_ledger sv \<noteq> None) ''governed execution requires a persistent signed audit ledger'') (\<lambda>_.
       case sv_policy sv of
         None \<Rightarrow> raise_error ''governed execution requires a signed policy enforcer''
       | Some check \<Rightarrow>
           bind_act (call_world (\<lambda>w. sv_is_active sv w (ls_agent_id l))) (\<lambda>active.
           bind_act (require active (''agent '' @ py_repr (ls_agent_id l) @ '' is not active in the control plane'')) (\<lambda>_.
           bind_act (require (sv_profile sv \<noteq> ''government'' \<or> truthy (kw args ''classification''))
               ''government profile requires an explicit classification label'') (\<lambda>_.
           bind_act (of_result (item target ''exe'')) (\<lambda>exe.
           bind_act (call_world (\<lambda>w. check w (ls_agent_id l) action (str_of exe)
               (if truthy (kw args ''classification'') then kw args ''classification'' else JStr ''UNCLASSIFIED'')
               (sv_identity_type sv))) (\<lambda>d.
           bind_act (of_result (decision_entry l d target action)) (\<lambda>metadata.
           bind_act (log_entry sv ''policy_decision'' (if de_allowed d then ''allowed'' else ''denied'') metadata) (\<lambda>_.
           bind_act (require (de_allowed d) (''policy denied '' @ action @ '': '' @ de_reason d)) (\<lambda>_.
           bind_act (if de_requires_approval d then consume_approval sv l args target action else ret []) (\<lambda>operator_id.
             ret [(''policy_id'', de_policy_id d), (''classification'', JStr (de_classification d)),
                  (''approval_mode'', JStr (if operator_id \<noteq> [] then ''human_approved'' else ''autonomous'')),
                  (''operator_id'', JStr operator_id)]))))))))))"

end
