(* ===== verification/DispatchHandlers.thy ===== *)
theory DispatchHandlers
  imports DispatchGate
begin

text \<open>
  The tool handlers of \<open>MCPDispatcher\<close>. A handler takes the validated arguments and gives the
  result object; the eight protected ones also take the authorization and start with
  \<open>require_verified_delegated_call\<close>. Waiting loops poll at most \<open>sv_poll_limit\<close> times and end in
  \<open>Unfinished\<close> when the limit cuts them off; times there are milliseconds.
\<close>

subsection \<open>Leases\<close>

definition issue_verified_lease ::
    "'w services \<Rightarrow> json_object \<Rightarrow> int \<Rightarrow> pystr \<Rightarrow> json_object \<Rightarrow> pystr \<Rightarrow> ('w, json_object) act" where
  "issue_verified_lease sv args hwnd role target logical_target_id =
     bind_act (of_result (int_arg args ''ttl_seconds'' 300)) (\<lambda>ttl.
     bind_act (on_world (sv_now sv)) (\<lambda>now.
     bind_act (on_world (sv_uuid4 sv)) (\<lambda>fresh.
     bind_act (of_result (text_item args ''agent_id'')) (\<lambda>agent_id.
     bind_act (of_result (int_item target ''pid'')) (\<lambda>pid.
     bind_act (of_result (item target ''exe'')) (\<lambda>exe.
     bind_act (of_result (item target ''class'')) (\<lambda>window_class.
       (let l = \<lparr>ls_lease_id = ''lease-'' @ take 24 (filter (\<lambda>c. c \<noteq> CHR ''-'') fresh), ls_agent_id = agent_id, ls_hwnd = hwnd,
              ls_role = role, ls_issued_at = now, ls_expires_at = now + ttl, ls_revoked = False, ls_target_pid = pid,
              ls_target_exe = str_of exe, ls_target_exe_path = text_arg target ''exe_path'' [],
              ls_target_class = str_of window_class,
              ls_target_title_hash = hash_text sv (text_arg target ''title'' []),
              ls_logical_target_id = logical_target_id\<rparr> in
        bind_act (get_state (\<lambda>s. authority_issue (sv_lease_keys sv) (di_authority s) l)) (\<lambda>issued.
          case issued of
            Inl t \<Rightarrow> raise_error t
          | Inr au \<Rightarrow>
              bind_act (set_state (\<lambda>s. s\<lparr>di_authority := au, di_leases := AList.update (ls_lease_id l) l (di_leases s)\<rparr>)) (\<lambda>_.
              bind_act (call_world (\<lambda>w. sv_register sv w agent_id)) (\<lambda>_.
                ret (lease_to_dict l now))))))))))))"

definition lease_role_arg :: "json_object \<Rightarrow> exn + pystr" where
  "lease_role_arg args =
     (case kw args ''role'' of
        JStr r \<Rightarrow> if r \<in> set VALID_ROLES then Inr r else Inl (DispatchError (''unknown lease role '' @ py_repr r))
      | JArr _ \<Rightarrow> Inl (OtherError ''TypeError'')
      | JObj _ \<Rightarrow> Inl (OtherError ''TypeError'')
      | v \<Rightarrow> Inl (DispatchError (''unknown lease role '' @ repr_json v)))"

definition sc_request_lease :: "'w services \<Rightarrow> json_object \<Rightarrow> verified_call option \<Rightarrow> ('w, json_object) act" where
  "sc_request_lease sv args0 authorization =
     bind_act (require_verified_delegated_call sv ''sc_request_lease'' args0 authorization) (\<lambda>args.
     bind_act (of_result (lease_role_arg args)) (\<lambda>role.
     bind_act (of_result (int_item args ''hwnd'')) (\<lambda>hwnd.
     bind_act (verify_live_target sv hwnd None) (\<lambda>target.
       issue_verified_lease sv args hwnd role target []))))"

definition sc_request_target_lease :: "'w services \<Rightarrow> json_object \<Rightarrow> verified_call option \<Rightarrow> ('w, json_object) act" where
  "sc_request_target_lease sv args0 authorization =
     bind_act (require_verified_delegated_call sv ''sc_request_target_lease'' args0 authorization) (\<lambda>args.
     bind_act (of_result (lease_role_arg args)) (\<lambda>role.
     bind_act (require (sv_resolver sv \<noteq> None) ''logical target resolver is not configured'') (\<lambda>_.
     bind_act (require (sv_verifier sv \<noteq> None) ''governed target verifier is unavailable'') (\<lambda>_.
     bind_act (of_result (text_item args ''logical_target_id'')) (\<lambda>logical_target_id.
     bind_act (resolve_target sv logical_target_id role) (\<lambda>t.
       issue_verified_lease sv args (rt_hwnd t) role (verifier_report t) (rt_logical_id t)))))))"

definition sc_revoke_lease :: "'w services \<Rightarrow> json_object \<Rightarrow> verified_call option \<Rightarrow> ('w, json_object) act" where
  "sc_revoke_lease sv args0 authorization =
     bind_act (require_verified_delegated_call sv ''sc_revoke_lease'' args0 authorization) (\<lambda>args.
     bind_act (of_result (text_item args ''lease_id'')) (\<lambda>lease_id.
     bind_act (get_state (\<lambda>s. (map_of (di_leases s) lease_id, di_authority s))) (\<lambda>(found, au).
       case found of
         None \<Rightarrow> raise_error (''lease '' @ py_repr lease_id @ '' not found'')
       | Some l \<Rightarrow>
           (case authority_verify (sv_lease_keys sv) au lease_id l False of
              Inl e \<Rightarrow> raise_error (ae_reason e)
            | Inr canonical \<Rightarrow>
                (case authority_revoke (sv_lease_keys sv) au canonical of
                   Inl t \<Rightarrow> raise_error t
                 | Inr au' \<Rightarrow>
                     bind_act (set_state (\<lambda>s. s\<lparr>di_authority := au',
                         di_leases := AList.update lease_id (canonical\<lparr>ls_revoked := True\<rparr>) (di_leases s)\<rparr>)) (\<lambda>_.
                       ret [(''lease_id'', JStr lease_id), (''revoked'', JBool True),
                            (''reason'', dict_get args ''reason'' (JStr []))]))))))"

definition sc_list_leases :: "'w services \<Rightarrow> json_object \<Rightarrow> ('w, json_object) act" where
  "sc_list_leases sv args =
     bind_act (on_world (sv_now sv)) (\<lambda>now.
     bind_act (get_state (verified_leases sv)) (\<lambda>verified.
       (let role = dict_get args ''filter_role'' (JStr ''all''); agent_id = kw args ''filter_agent_id'';
            listed = filter (\<lambda>l. (role = JNull \<or> role = JStr ''all'' \<or> role = JStr (ls_role l))
                       \<and> (\<not> truthy agent_id \<or> agent_id = JStr (ls_agent_id l))
                       \<and> (bool_arg args ''include_expired'' False \<or> lease_is_active l now)) verified in
        ret [(''leases'', JArr (map (\<lambda>l. JObj (lease_to_dict l now)) listed)), (''count'', JInt (int (length listed)))])))"

definition sc_get_lease_info :: "'w services \<Rightarrow> json_object \<Rightarrow> ('w, json_object) act" where
  "sc_get_lease_info sv args =
     bind_act (of_result (text_item args ''lease_id'')) (\<lambda>lease_id.
     bind_act (get_state (\<lambda>s. (map_of (di_leases s) lease_id, di_authority s))) (\<lambda>(found, au).
       case found of
         None \<Rightarrow> raise_error (''lease '' @ py_repr lease_id @ '' not found'')
       | Some l \<Rightarrow>
           (case authority_verify (sv_lease_keys sv) au lease_id l True of
              Inl e \<Rightarrow> raise_error (ae_reason e)
            | Inr canonical \<Rightarrow> bind_act (on_world (sv_now sv)) (\<lambda>now. ret (lease_to_dict canonical now)))))"

subsection \<open>Text delivery and readback\<close>

definition normalise_terminal_text :: "pystr \<Rightarrow> pystr" where
  "normalise_terminal_text s = unix_newlines (strip_ansi s)"

definition delivery_probe :: "pystr \<Rightarrow> exn + pystr" where
  "delivery_probe s =
     (if list_ex (\<lambda>c. c \<notin> {CHR 0x0D, CHR 0x0A} \<and> \<not> is_printable c) s
      then Inl (DispatchError ''text must contain only printable characters or newlines'')
      else (let probe = strip_chars [CHR 0x0A] (normalise_terminal_text s) in
            if strip probe = [] then Inl (DispatchError ''text must contain a visible non-whitespace character'')
            else Inr probe))"

definition read_output_once :: "'w services \<Rightarrow> int \<Rightarrow> lease \<Rightarrow> ('w, pystr) act" where
  "read_output_once sv hwnd l =
     bind_act (verify_live_target sv hwnd (Some l)) (\<lambda>_.
     bind_act (case sv_reader sv of
         None \<Rightarrow> ret JNull
       | Some reader \<Rightarrow> catch_act (call_world (\<lambda>w. reader w hwnd))
           (\<lambda>e. raise_error (''UIA TextPattern output read failed: '' @ exn_text e))) (\<lambda>v.
     bind_act (case v of JStr t \<Rightarrow> ret t | _ \<Rightarrow> raise_error ''UIA TextPattern output reader returned no text value'') (\<lambda>t.
     bind_act (verify_live_target sv hwnd (Some l)) (\<lambda>_.
       ret t))))"

record disposition =
  ds_name :: pystr
  ds_attempted :: bool
  ds_enqueued :: bool
  ds_confirmed :: bool
  ds_do_not_retry :: bool

definition disposition_entry :: "lease \<Rightarrow> json_object \<Rightarrow> disposition \<Rightarrow> pystr \<Rightarrow> json_object" where
  "disposition_entry l receipt d reason =
     [(''lease_id'', JStr (ls_lease_id l)), (''subject_agent_id'', JStr (ls_agent_id l)), (''target_hwnd'', JInt (ls_hwnd l)),
      (''target_pid'', JInt (ls_target_pid l)), (''receipt_id'', JStr (text_arg receipt ''receipt_id'' [])),
      (''transport_attempted'', JBool (ds_attempted d)), (''transport_enqueued'', JBool (ds_enqueued d)),
      (''delivery_confirmed'', JBool (ds_confirmed d)), (''delivery_disposition'', JStr (ds_name d)),
      (''do_not_retry'', JBool (ds_do_not_retry d)), (''reason'', JStr (bound_error reason))]"

definition persist_delivery_disposition ::
    "'w services \<Rightarrow> lease \<Rightarrow> json_object \<Rightarrow> disposition \<Rightarrow> pystr \<Rightarrow> ('w, unit) act" where
  "persist_delivery_disposition sv l receipt d reason =
     catch_act
       (case sv_ledger sv of
          None \<Rightarrow> of_result (Inl (OtherError (CHR 0x27 # ''NoneType'' @ [CHR 0x27] @ '' object has no attribute '' @ py_repr ''log'')))
        | Some _ \<Rightarrow> log_entry sv ''delivery_disposition'' (ds_name d) (disposition_entry l receipt d reason))
       (\<lambda>e. raise_error (''delivery disposition evidence could not be persisted ''
          @ (if ds_attempted d then ''after a transport attempt'' else ''before transport'')
          @ ''; delivery state is unknown and must not be retried automatically: '' @ exn_text e))"

definition unknown_delivery :: disposition where
  "unknown_delivery = \<lparr>ds_name = ''unknown_delivery'', ds_attempted = True, ds_enqueued = True, ds_confirmed = False,
     ds_do_not_retry = True\<rparr>"

definition enqueued_unconfirmed :: disposition where
  "enqueued_unconfirmed = \<lparr>ds_name = ''enqueued_unconfirmed'', ds_attempted = True, ds_enqueued = True, ds_confirmed = False,
     ds_do_not_retry = True\<rparr>"

definition delivery_confirmed :: disposition where
  "delivery_confirmed = \<lparr>ds_name = ''delivery_confirmed'', ds_attempted = True, ds_enqueued = True, ds_confirmed = True,
     ds_do_not_retry = False\<rparr>"

text \<open>A receipt without success: the disposition is persisted, and the call fails either way.\<close>

definition refuse_receipt :: "'w services \<Rightarrow> lease \<Rightarrow> json_object \<Rightarrow> ('w, 'a) act" where
  "refuse_receipt sv l receipt =
     (let attempted = bool_arg receipt ''transport_attempted'' False;
          transport_error = text_arg receipt ''transport_error'' [] in
      bind_act (persist_delivery_disposition sv l receipt
          \<lparr>ds_name = text_arg receipt ''delivery_disposition'' ''not_attempted'', ds_attempted = attempted, ds_enqueued = False,
           ds_confirmed = False, ds_do_not_retry = attempted\<rparr> transport_error) (\<lambda>_.
        raise_error (if attempted
          then ''transport was partially attempted; delivery state is unknown and must not be retried automatically: ''
            @ (if transport_error \<noteq> [] then transport_error else ''PostMessage failure'')
          else ''transport refused or failed to enqueue the payload'')))"

text \<open>\<open>except MCPDispatchError as exc\<close>: other exceptions pass through.\<close>

definition on_dispatch_error :: "('w, 'a) act \<Rightarrow> (pystr \<Rightarrow> ('w, 'a) act) \<Rightarrow> ('w, 'a) act" where
  "on_dispatch_error m h =
     catch_act m (\<lambda>e. case e of DispatchError t \<Rightarrow> h t | _ \<Rightarrow> of_result (Inl e))"

definition sleep_until :: "'w services \<Rightarrow> int \<Rightarrow> ('w, unit) act" where
  "sleep_until sv deadline =
     bind_act (on_world (sv_monotonic_ms sv)) (\<lambda>t. on_world (\<lambda>w. (sv_sleep_ms sv w (min 50 (max 0 (deadline - t))), ())))"

primrec await_echo :: "nat \<Rightarrow> 'w services \<Rightarrow> lease \<Rightarrow> pystr \<Rightarrow> nat \<Rightarrow> int \<Rightarrow> ('w, pystr) act" where
  "await_echo 0 sv l probe before_count deadline = of_result (Inl Unfinished)"
| "await_echo (Suc n) sv l probe before_count deadline =
     bind_act (read_output_once sv (ls_hwnd l) l) (\<lambda>current.
       if before_count < str_count (normalise_terminal_text current) probe
       then bind_act (verify_live_target sv (ls_hwnd l) (Some l)) (\<lambda>_. ret current)
       else
         bind_act (on_world (sv_monotonic_ms sv)) (\<lambda>t.
           if deadline \<le> t
           then raise_error ''delivery unconfirmed by UIA readback; the target may have received the payload, so do not retry automatically''
           else bind_act (sleep_until sv deadline) (\<lambda>_. await_echo n sv l probe before_count deadline)))"

definition confirmed_result ::
    "'w services \<Rightarrow> lease \<Rightarrow> json_object \<Rightarrow> json_object \<Rightarrow> pystr \<Rightarrow> pystr \<Rightarrow> time \<Rightarrow> json_object" where
  "confirmed_result sv l receipt governance screen probe now =
     update_all receipt
       [(''success'', JBool True), (''transport_enqueued'', JBool True), (''delivery_confirmed'', JBool True),
        (''readback_hash'', JStr (hash_text sv screen)), (''delivery_confirmation'', JStr ''uia_echo_confirmed''),
        (''delivery_probe_hash'', JStr (hash_text sv probe)), (''confirmed_at'', JFloat now),
        (''lease_id'', JStr (ls_lease_id l)), (''agent_id'', JStr (ls_agent_id l)), (''governance'', JObj governance)]"

text \<open>Before the transport: the lease, the target, the authorization, the readback to compare with.\<close>

definition prepare_injection ::
    "'w services \<Rightarrow> json_object \<Rightarrow> ('w, pystr \<times> lease \<times> json_object \<times> nat) act" where
  "prepare_injection sv args =
     bind_act (of_result (text_item args ''text'')) (\<lambda>t.
     bind_act (of_result (delivery_probe t)) (\<lambda>probe.
     bind_act (of_result (text_item args ''lease_id'')) (\<lambda>lease_id.
     bind_act (of_result (int_item args ''hwnd'')) (\<lambda>hwnd.
     bind_act (require_lease sv lease_id hwnd ''sc_inject_text'') (\<lambda>l.
     bind_act (verify_live_target sv hwnd (Some l)) (\<lambda>target.
     bind_act (require_execution_authorization sv l args target ''sc_inject_text'') (\<lambda>governance.
     bind_act (require (sv_router sv \<noteq> None) ''channel router unavailable'') (\<lambda>_.
     bind_act (require (sv_reader sv \<noteq> None)
         ''delivery cannot be confirmed because UIA TextPattern output is unavailable'') (\<lambda>_.
     bind_act (read_output_once sv (ls_hwnd l) l) (\<lambda>before.
     bind_act (verify_live_target sv (ls_hwnd l) (Some l)) (\<lambda>_.
       ret (probe, l, governance, str_count (normalise_terminal_text before) probe))))))))))))"

definition send_text :: "'w services \<Rightarrow> json_object \<Rightarrow> lease \<Rightarrow> ('w, json_object) act" where
  "send_text sv args l =
     (case sv_router sv of
        None \<Rightarrow> raise_error ''channel router unavailable''
      | Some router \<Rightarrow>
          bind_act (of_result (int_item args ''hwnd'')) (\<lambda>hwnd.
            call_exn (\<lambda>w. ro_route router w hwnd (kw args ''text'') (ls_lease_id l) (target_binding_of l))))"

text \<open>After the transport accepted the payload: the target again, then the echo.\<close>

definition confirm_delivery ::
    "'w services \<Rightarrow> json_object \<Rightarrow> lease \<Rightarrow> json_object \<Rightarrow> pystr \<Rightarrow> nat \<Rightarrow> ('w, pystr) act" where
  "confirm_delivery sv args l receipt probe before_count =
     bind_act (on_dispatch_error (bind_act (verify_live_target sv (ls_hwnd l) (Some l)) (\<lambda>_. ret ())) (\<lambda>t.
         bind_act (persist_delivery_disposition sv l receipt unknown_delivery t) (\<lambda>_.
           raise_error (''transport was enqueued but post-action target verification failed; ''
             @ ''delivery state is unknown and must not be retried automatically: '' @ t)))) (\<lambda>_.
     bind_act (of_result (int_arg args ''delivery_timeout_ms'' 3000)) (\<lambda>timeout_ms.
     bind_act (on_world (sv_monotonic_ms sv)) (\<lambda>start.
       on_dispatch_error (await_echo (sv_poll_limit sv) sv l probe before_count (start + timeout_ms)) (\<lambda>t.
         bind_act (persist_delivery_disposition sv l receipt enqueued_unconfirmed t) (\<lambda>_. raise_error t)))))"

definition sc_inject_text :: "'w services \<Rightarrow> json_object \<Rightarrow> verified_call option \<Rightarrow> ('w, json_object) act" where
  "sc_inject_text sv args0 authorization =
     bind_act (require_verified_delegated_call sv ''sc_inject_text'' args0 authorization) (\<lambda>args.
     bind_act (prepare_injection sv args) (\<lambda>(probe, l, governance, before_count).
     bind_act (send_text sv args l) (\<lambda>receipt.
       if \<not> bool_arg receipt ''success'' False then refuse_receipt sv l receipt
       else
         bind_act (confirm_delivery sv args l receipt probe before_count) (\<lambda>screen.
         bind_act (on_world (sv_now sv)) (\<lambda>now.
         bind_act (persist_delivery_disposition sv l receipt delivery_confirmed []) (\<lambda>_.
         bind_act (of_result (text_item args ''text'')) (\<lambda>t.
         bind_act (set_state (\<lambda>s. s\<lparr>di_injected_text := AList.update (ls_lease_id l) t (di_injected_text s),
                                   di_read_snapshots := AList.update (ls_lease_id l) screen (di_read_snapshots s)\<rparr>)) (\<lambda>_.
           ret (confirmed_result sv l receipt governance screen probe now)))))))))"

definition MAX_READ_CHARS :: nat where
  "MAX_READ_CHARS = 65536"

primrec await_output :: "nat \<Rightarrow> 'w services \<Rightarrow> lease \<Rightarrow> pystr \<Rightarrow> pystr \<Rightarrow> int \<Rightarrow> ('w, pystr) act" where
  "await_output 0 sv l previous current deadline = of_result (Inl Unfinished)"
| "await_output (Suc n) sv l previous current deadline =
     (if current \<noteq> previous then ret current
      else
        bind_act (on_world (sv_monotonic_ms sv)) (\<lambda>t.
          if deadline \<le> t then ret current
          else
            bind_act (sleep_until sv deadline) (\<lambda>_.
            bind_act (read_output_once sv (ls_hwnd l) l) (\<lambda>next1. await_output n sv l previous next1 deadline))))"

text \<open>The new part of the screen, without the echo of what was injected and without escape sequences.\<close>

definition raw_delta :: "pystr option \<Rightarrow> pystr \<Rightarrow> pystr" where
  "raw_delta previous current =
     (case previous of
        None \<Rightarrow> current
      | Some p \<Rightarrow> if startswith current p then drop (length p) current else current)"

definition clean_delta :: "json_object \<Rightarrow> pystr \<Rightarrow> pystr \<Rightarrow> pystr \<times> bool" where
  "clean_delta args injected delta =
     (let echo = injected \<noteq> [] \<and> has_substring injected delta;
          delta1 = (if echo then remove_first delta injected else delta);
          delta2 = (if bool_arg args ''strip_ansi'' True then strip_ansi delta1 else delta1) in
      (strip delta2, echo))"

definition sc_read_output :: "'w services \<Rightarrow> json_object \<Rightarrow> verified_call option \<Rightarrow> ('w, json_object) act" where
  "sc_read_output sv args0 authorization =
     bind_act (require_verified_delegated_call sv ''sc_read_output'' args0 authorization) (\<lambda>args.
     bind_act (of_result (text_item args ''lease_id'')) (\<lambda>lease_id.
     bind_act (of_result (int_item args ''hwnd'')) (\<lambda>hwnd.
     bind_act (require_lease sv lease_id hwnd ''sc_read_output'') (\<lambda>l.
     bind_act (verify_live_target sv hwnd (Some l)) (\<lambda>target.
     bind_act (require_execution_authorization sv l args target ''sc_read_output'') (\<lambda>governance.
     bind_act (require (sv_reader sv \<noteq> None) ''UIA TextPattern output reader is unavailable'') (\<lambda>_.
     bind_act (of_result (int_arg args ''timeout_ms'' 5000)) (\<lambda>timeout_ms.
     bind_act (on_world (sv_monotonic_ms sv)) (\<lambda>start.
     bind_act (get_state (\<lambda>s. map_of (di_read_snapshots s) (ls_lease_id l))) (\<lambda>previous.
     bind_act (read_output_once sv (ls_hwnd l) l) (\<lambda>first.
     bind_act (case previous of None \<Rightarrow> ret first
         | Some p \<Rightarrow> await_output (sv_poll_limit sv) sv l p first (start + timeout_ms)) (\<lambda>current.
     bind_act (get_state (\<lambda>s. dict_get (di_injected_text s) (ls_lease_id l) [])) (\<lambda>injected.
     bind_act (set_state (\<lambda>s. s\<lparr>di_read_snapshots := AList.update (ls_lease_id l) current (di_read_snapshots s),
                               di_injected_text := AList.delete (ls_lease_id l) (di_injected_text s)\<rparr>)) (\<lambda>_.
       (let (output, echo_removed) = clean_delta args injected (raw_delta previous current);
            truncated = MAX_READ_CHARS < length output; shown = keep_last MAX_READ_CHARS output in
        bind_act (verify_live_target sv (ls_hwnd l) (Some l)) (\<lambda>_.
          ret [(''lease_id'', JStr (ls_lease_id l)), (''hwnd'', JInt (ls_hwnd l)), (''method'', JStr ''uia_textpattern''),
               (''classification'', JStr (if shown = [] then ''no_signal'' else ''output'')), (''text'', JStr shown),
               (''text_hash'', JStr (hash_text sv shown)), (''snapshot_hash'', JStr (hash_text sv current)),
               (''echo_removed'', JBool echo_removed), (''truncated'', JBool truncated),
               (''governance'', JObj governance)]))))))))))))))))"

subsection \<open>Signing, stamping, routing\<close>

definition sign_payload :: "'w services \<Rightarrow> bytes \<Rightarrow> json_object" where
  "sign_payload sv payload =
     [(''signature_b64'', JStr (b64encode (sv_sign sv payload))), (''public_key_b64'', JStr (b64encode (sv_public_key sv))),
      (''payload_hash'', JStr (dc_sha256 (sv_crypto sv) payload))]"

definition hex_item :: "json_object \<Rightarrow> pystr \<Rightarrow> exn + bytes" where
  "hex_item d k =
     bind_result (item d k) (\<lambda>v.
       case v of
         JStr s \<Rightarrow> (case fromhex s of None \<Rightarrow> Inl (OtherError ''ValueError'') | Some b \<Rightarrow> Inr b)
       | _ \<Rightarrow> Inl (OtherError ''TypeError''))"

definition tpm_evidence :: "'w services \<Rightarrow> tpm_claim \<Rightarrow> json_object" where
  "tpm_evidence sv c =
     [(''supported'', JBool (tc_supported c)), (''verified_locally'', JBool True),
      (''identity_key_bound'', JBool (tc_identity_key_bound c)), (''algorithm'', JStr (tc_algorithm c)),
      (''nonce_hex'', JStr (tohex (tc_nonce c))), (''pubkey_hex'', JStr (tohex (tc_public_key_blob c))),
      (''claim_b64'', JStr (b64encode (tc_claim_blob c))), (''claim_sha256'', JStr (dc_sha256 (sv_crypto sv) (tc_claim_blob c))),
      (''claim_size'', JInt (int (length (tc_claim_blob c))))]"

definition sc_identity_sign :: "'w services \<Rightarrow> json_object \<Rightarrow> verified_call option \<Rightarrow> ('w, json_object) act" where
  "sc_identity_sign sv args0 authorization =
     bind_act (require_verified_delegated_call sv ''sc_identity_sign'' args0 authorization) (\<lambda>args.
       (let tpm = (dict_get args ''key_provider'' (JStr ''software'') = JStr ''tpm'') in
        bind_act (require (sv_profile sv \<noteq> ''government'' \<or> tpm)
            ''government profile requires a verified TPM platform claim alongside signing'') (\<lambda>_.
          if tpm then
            (case sv_tpm sv of
               None \<Rightarrow> raise_error ''TPM attestation not available on this machine''
             | Some ts \<Rightarrow>
                 bind_act (on_world (tpm_urandom ts)) (\<lambda>nonce.
                 bind_act (call_world (\<lambda>w. tpm_create ts w nonce)) (\<lambda>claim.
                 bind_act (require (tc_supported claim)
                     (''TPM attestation not available on this machine: '' @ str_of (tc_error claim))) (\<lambda>_.
                 bind_act (call_world (\<lambda>w. tpm_verify ts w claim)) (\<lambda>verified.
                 bind_act (require verified ''TPM platform claim failed local verification'') (\<lambda>_.
                 bind_act (of_result (hex_item args ''payload_hex'')) (\<lambda>payload.
                   ret ([(''algorithm'', JStr ''Ed25519''), (''signature_key_provider'', JStr ''software'')]
                        @ sign_payload sv payload @ [(''tpm_attestation'', JObj (tpm_evidence sv claim))]))))))))
          else
            bind_act (of_result (hex_item args ''payload_hex'')) (\<lambda>payload.
              ret ((''algorithm'', JStr ''Ed25519'') # sign_payload sv payload)))))"

definition session_stamp :: "'w services \<Rightarrow> int \<Rightarrow> pystr \<Rightarrow> time \<Rightarrow> json_object option \<Rightarrow> json_object" where
  "session_stamp sv hwnd fresh now tpm_info =
     (let stamp = [(''hwnd'', JInt hwnd), (''birth_id'', JStr (''birth-'' @ take 16 (filter (\<lambda>c. c \<noteq> CHR ''-'') fresh))),
            (''timestamp'', JFloat now)]
            @ (case tpm_info of
                 None \<Rightarrow> [(''provider'', JStr ''software'')]
               | Some info \<Rightarrow> [(''provider'', JStr (if truthy (kw info ''supported'') then ''tpm'' else ''software'')),
                              (''tpm'', JObj info)]) in
      stamp @ [(''stamp_hash'', JStr (hash_text sv (json_text (JObj stamp))))])"

definition probe_tpm :: "'w services \<Rightarrow> ('w, json_object) act" where
  "probe_tpm sv =
     (case sv_tpm sv of
        None \<Rightarrow> ret [(''available'', JBool False), (''error'', JStr ''TPM probe unavailable'')]
      | Some ts \<Rightarrow> catch_act (call_world (tpm_probe ts))
          (\<lambda>e. ret [(''available'', JBool False), (''error'', JStr (exn_text e))]))"

definition sc_session_stamp :: "'w services \<Rightarrow> json_object \<Rightarrow> verified_call option \<Rightarrow> ('w, json_object) act" where
  "sc_session_stamp sv args0 authorization =
     bind_act (require_verified_delegated_call sv ''sc_session_stamp'' args0 authorization) (\<lambda>args.
     bind_act (require (sv_profile sv \<noteq> ''government'' \<or> bool_arg args ''use_tpm'' False)
         ''government profile requires TPM-backed session stamping'') (\<lambda>_.
     bind_act (if bool_arg args ''use_tpm'' False then bind_act (probe_tpm sv) (\<lambda>info. ret (Some info)) else ret None) (\<lambda>tpm_info.
     bind_act (of_result (int_item args ''hwnd'')) (\<lambda>hwnd.
     bind_act (on_world (sv_uuid4 sv)) (\<lambda>fresh.
     bind_act (on_world (sv_now sv)) (\<lambda>now.
       ret (session_stamp sv hwnd fresh now tpm_info)))))))"

definition sc_channel_route :: "'w services \<Rightarrow> json_object \<Rightarrow> verified_call option \<Rightarrow> ('w, json_object) act" where
  "sc_channel_route sv args0 authorization =
     bind_act (require_verified_delegated_call sv ''sc_channel_route'' args0 authorization) (\<lambda>args.
       case sv_router sv of
         None \<Rightarrow> raise_error ''channel router unavailable''
       | Some router \<Rightarrow>
           bind_act (of_result (int_item args ''hwnd'')) (\<lambda>hwnd.
           bind_act (call_world (\<lambda>w. ro_classify router w hwnd)) (\<lambda>data.
             (let preferred = dict_get args ''preferred_channel'' (JStr ''auto'') in
              ret (if preferred \<noteq> JStr ''auto'' \<and> kw data ''channel'' \<noteq> preferred
                   then AList.update ''preferred_mismatch'' (JBool True) data else data)))))"

subsection \<open>Reading handlers\<close>

definition int_opt :: "json_object \<Rightarrow> pystr \<Rightarrow> int option" where
  "int_opt d k = (case kw d k of JInt n \<Rightarrow> Some n | _ \<Rightarrow> None)"

definition text_opt :: "json_object \<Rightarrow> pystr \<Rightarrow> pystr option" where
  "text_opt d k = as_text (kw d k)"

definition run_target_guard :: "'w services \<Rightarrow> json_object \<Rightarrow> ('w, json_object) act" where
  "run_target_guard sv args =
     (case sv_guard sv of
        Inl t \<Rightarrow> ret [(''ok'', JBool False), (''available'', JBool False), (''reason'', JStr (''target guard unavailable: '' @ t))]
      | Inr verify \<Rightarrow>
          bind_act (of_result (int_item args ''hwnd'')) (\<lambda>hwnd.
          bind_act (call_world (\<lambda>w. verify w hwnd
              \<lparr>te_pid = int_opt args ''expected_pid'', te_exe = text_opt args ''expected_exe'', te_exe_path = None,
               te_class = text_opt args ''expected_class'', te_title_sha256 = None, te_require_terminal = False\<rparr>)) (\<lambda>report.
          bind_act (of_result (as_mapping report)) (\<lambda>d.
            ret (AList.update ''available'' (JBool True) d)))))"

definition sc_verify_target where "sc_verify_target = run_target_guard"
definition sc_target_guard_check where "sc_target_guard_check = run_target_guard"

definition shown_events :: "int \<Rightarrow> audit_event list \<Rightarrow> json_object" where
  "shown_events n events =
     [(''events'', JArr (map (\<lambda>e. JObj (audit_to_dict e)) (neg_slice events n))),
      (''count'', JInt (min n (int (length events))))]"

definition sc_audit_tail :: "'w services \<Rightarrow> json_object \<Rightarrow> ('w, json_object) act" where
  "sc_audit_tail sv args =
     bind_act (of_result (int_arg args ''n'' 20)) (\<lambda>n.
     bind_act (get_state di_audit) (\<lambda>events.
       (let event_type = kw args ''event_type'' in
        ret (shown_events n (if truthy event_type then filter (\<lambda>e. JStr (av_event_type e) = event_type) events else events)))))"

definition sc_audit_search :: "'w services \<Rightarrow> json_object \<Rightarrow> ('w, json_object) act" where
  "sc_audit_search sv args =
     bind_act (of_result (int_arg args ''limit'' 100)) (\<lambda>limit.
     bind_act (get_state di_audit) (\<lambda>events.
       (let agent_id = kw args ''agent_id''; event_type = kw args ''event_type'' in
        ret (shown_events limit
          (filter (\<lambda>e. (truthy agent_id \<longrightarrow> JStr (av_agent_id e) = agent_id)
                     \<and> (truthy event_type \<longrightarrow> JStr (av_event_type e) = event_type)) events)))))"

definition sc_mesh_peers :: "'w services \<Rightarrow> json_object \<Rightarrow> ('w, json_object) act" where
  "sc_mesh_peers sv args =
     bind_act (catch_act (call_world (\<lambda>w. sv_mesh sv w (\<not> bool_arg args ''include_offline'' False))) (\<lambda>_. ret [])) (\<lambda>peers.
       ret [(''peers'', JArr peers), (''count'', JInt (int (length peers)))])"

definition sc_channel_status :: "'w services \<Rightarrow> json_object \<Rightarrow> ('w, json_object) act" where
  "sc_channel_status sv args =
     bind_act (call_world (sv_channels sv)) (\<lambda>data.
       ret (if bool_arg args ''check_etw'' True then data else AList.update ''etw'' (JStr ''SKIPPED'') data))"

definition normalise_b64 :: "json \<Rightarrow> bytes option" where
  "normalise_b64 v =
     (case v of
        JStr s \<Rightarrow>
          if list_all (\<lambda>c. char_code c < 128) s then b64decode (s @ replicate ((4 - length s mod 4) mod 4) (CHR ''='')) else None
      | _ \<Rightarrow> None)"

definition signature_checks :: "'w services \<Rightarrow> json_object \<Rightarrow> bool" where
  "signature_checks sv args =
     (case (as_text (kw args ''payload_hex''), normalise_b64 (kw args ''signature_b64''), normalise_b64 (kw args ''public_key_b64'')) of
        (Some h, Some sig, Some pub) \<Rightarrow>
          (case fromhex h of
             Some payload \<Rightarrow> length pub = 32 \<and> dc_ed25519 (sv_crypto sv) payload sig pub
           | None \<Rightarrow> False)
      | _ \<Rightarrow> False)"

definition identity_verify :: "'w services \<Rightarrow> json_object \<Rightarrow> json_object" where
  "identity_verify sv args =
     (let algorithm = dict_get args ''algorithm'' (JStr ''Ed25519'') in
      if algorithm \<noteq> JStr ''Ed25519''
      then [(''verified'', JBool False), (''algorithm'', JStr ''Ed25519''),
            (''reason'', JStr (''unsupported signature algorithm: '' @ str_of algorithm))]
      else [(''verified'', JBool (signature_checks sv args)), (''algorithm'', JStr ''Ed25519'')])"

definition sc_identity_verify :: "'w services \<Rightarrow> json_object \<Rightarrow> ('w, json_object) act" where
  "sc_identity_verify sv args = ret (identity_verify sv args)"

definition sc_receipt_verify :: "'w services \<Rightarrow> json_object \<Rightarrow> ('w, json_object) act" where
  "sc_receipt_verify sv args =
     bind_act (of_result (text_item args ''receipt_json'')) (\<lambda>t.
     bind_act (case sv_loads sv (utf8 t) of
         Inl e \<Rightarrow> raise_error (''receipt_json is not valid JSON: '' @ e) | Inr v \<Rightarrow> ret v) (\<lambda>v.
     bind_act (of_result (as_mapping v)) (\<lambda>receipt.
       (let sig_b64 = (if truthy (kw receipt ''signature_b64'') then kw receipt ''signature_b64'' else kw receipt ''sig_b64'');
            payload_hex = kw receipt ''payload_hex'' in
        if \<not> truthy sig_b64 \<or> \<not> truthy payload_hex
        then ret [(''verified'', JBool False), (''reason'', JStr ''receipt missing signature_b64/sig_b64 or payload_hex'')]
        else
          bind_act (of_result (item args ''expected_agent_pub_b64'')) (\<lambda>pub.
            ret (identity_verify sv [(''payload_hex'', payload_hex), (''signature_b64'', sig_b64), (''public_key_b64'', pub),
                                     (''algorithm'', dict_get receipt ''algorithm'' (JStr ''Ed25519''))]))))))"

definition sc_echo_filter :: "'w services \<Rightarrow> json_object \<Rightarrow> ('w, json_object) act" where
  "sc_echo_filter sv args =
     bind_act (of_result (text_item args ''raw_text'')) (\<lambda>raw.
     bind_act (of_result (text_item args ''injected_text'')) (\<lambda>injected.
       (let token = text_arg args ''probe_token'' []; cleaned = strip (remove_all (remove_all raw injected) token) in
        ret [(''clean_text'', JStr cleaned),
             (''classification'', JStr (if cleaned = [] then ''echo_only'' else ''mixed_echo_and_output'')),
             (''clean_hash'', JStr (hash_text sv cleaned))])))"

definition sc_pipe_ping :: "'w services \<Rightarrow> json_object \<Rightarrow> ('w, json_object) act" where
  "sc_pipe_ping sv args =
     catch_act
       (bind_act (on_world (sv_now sv)) (\<lambda>started.
        bind_act (of_result (item args ''pipe_name'')) (\<lambda>name.
        bind_act (call_world (\<lambda>w. sv_open_pipe sv w name)) (\<lambda>error.
        bind_act (on_world (sv_now sv)) (\<lambda>now.
          ret ([(''available'', JBool (error = None)), (''latency_ms'', JFloat ((now - started) * 1000))]
               @ (case error of None \<Rightarrow> [] | Some code \<Rightarrow> [(''win32_error'', JInt code)])))))))
       (\<lambda>e. ret [(''available'', JBool False), (''error'', JStr (exn_text e))])"

definition ACTION_MAP :: "(pystr \<times> pystr) list" where
  "ACTION_MAP = [(''inject'', ''sc_inject_text''), (''read'', ''sc_read_output''), (''lease'', ''sc_request_lease''),
     (''revoke'', ''sc_revoke_lease''), (''admin'', ''sc_admin'')]"

definition refused_check :: "'w services \<Rightarrow> json_object \<Rightarrow> pystr \<Rightarrow> json_object" where
  "refused_check sv args rule =
     [(''allowed'', JBool False), (''agent_id'', kw args ''agent_id''), (''action_type'', kw args ''action_type''),
      (''target_hwnd'', kw args ''target_hwnd''), (''governance_profile'', JStr (sv_profile sv)), (''rule'', JStr rule)]"

definition sc_policy_check :: "'w services \<Rightarrow> json_object \<Rightarrow> ('w, json_object) act" where
  "sc_policy_check sv args =
     bind_act (of_result (text_item args ''agent_id'')) (\<lambda>agent_id.
     bind_act (call_world (\<lambda>w. sv_is_active sv w agent_id)) (\<lambda>active.
     bind_act (of_result (bind_result (item args ''action_type'') (\<lambda>_. item args ''target_hwnd''))) (\<lambda>hwnd_value.
       if \<not> active then ret (refused_check sv args ''control_plane_not_active'')
       else case sv_policy sv of
         None \<Rightarrow> ret (refused_check sv args ''signed_policy_enforcer_not_configured'')
       | Some check \<Rightarrow>
           bind_act (of_result (py_int hwnd_value)) (\<lambda>hwnd.
           bind_act (verify_live_target sv hwnd None) (\<lambda>target.
           bind_act (of_result (text_item args ''action_type'')) (\<lambda>action_type.
           bind_act (of_result (case map_of ACTION_MAP action_type of
               None \<Rightarrow> Inl (OtherError (py_repr action_type)) | Some a \<Rightarrow> Inr a)) (\<lambda>requested_action.
           bind_act (of_result (item target ''exe'')) (\<lambda>exe.
           bind_act (call_world (\<lambda>w. check w agent_id requested_action (str_of exe)
               (dict_get args ''classification'' (JStr ''UNCLASSIFIED'')) (sv_identity_type sv))) (\<lambda>d.
           bind_act (of_result (bind_result (item target ''pid'') (\<lambda>pid. map_result (Pair pid) (item target ''class'')))) (\<lambda>(pid, window_class).
             ret [(''allowed'', JBool (de_allowed d)), (''agent_id'', JStr agent_id), (''action_type'', JStr action_type),
                  (''requested_action'', JStr requested_action), (''target_hwnd'', hwnd_value),
                  (''governance_profile'', JStr (sv_profile sv)), (''rule'', JStr (de_reason d)),
                  (''policy_id'', de_policy_id d), (''classification'', JStr (de_classification d)),
                  (''requires_approval'', JBool (de_requires_approval d)),
                  (''target'', JObj [(''pid'', pid), (''exe'', exe), (''class'', window_class)])]))))))))))"

end
