(* ===== verification/Dispatch.thy ===== *)
theory Dispatch
  imports DispatchHandlers Lifetime
begin

text \<open>
  The entry points of \<open>MCPDispatcher\<close>: \<open>call_tool\<close> and \<open>call_delegated_tool\<close>, the common
  execution under validation, audit and the optional policy adapter (\<open>AGTCedarAdapter\<close> of
  \<open>enterprise/agt_adapter.py\<close>), and the checks of the constructor. The policy engine behind the
  adapter is third-party: the record \<open>agt_control\<close> says what it does before the tool (effective
  arguments, or none when it does not run the tool) and after it; it runs the tool at most once.
\<close>

subsection \<open>The constructor\<close>

definition VALID_PROFILES :: "pystr list" where
  "VALID_PROFILES = [''normal'', ''enterprise'', ''government'']"

text \<open>The parts of the arguments the constructor checks: profile, exact durable queue, binding verifier, adapter.\<close>

datatype queue_kind = NoQueue | DurableQueue | OtherQueue

definition dispatcher_checks :: "pystr \<Rightarrow> queue_kind \<Rightarrow> bool \<Rightarrow> bool \<Rightarrow> pystr + unit" where
  "dispatcher_checks profile kind has_binding_verifier adapter_ok =
     (if profile \<notin> set VALID_PROFILES
      then Inl (''profile must be one of '' @ py_repr_list (sort VALID_PROFILES) @ '', got '' @ py_repr profile)
      else if profile = ''enterprise'' \<and> kind \<noteq> DurableQueue
      then Inl ''enterprise profile requires the exact durable operator queue''
      else if profile = ''enterprise'' \<and> \<not> has_binding_verifier
      then Inl ''enterprise profile requires a durable approval binding verifier''
      else if \<not> adapter_ok then Inl ''agt_policy_adapter must provide run_tool_sync()''
      else Inr ())"

text \<open>\<open>get_default_dispatcher\<close>: \<open>MCPDispatcher()\<close>, that is the enterprise profile without a queue.\<close>

definition get_default_dispatcher :: "pystr + unit" where
  "get_default_dispatcher = dispatcher_checks ''enterprise'' NoQueue False True"

lemma default_dispatcher_refused:
  "get_default_dispatcher = Inl ''enterprise profile requires the exact durable operator queue''"
  by (simp add: get_default_dispatcher_def dispatcher_checks_def VALID_PROFILES_def)

subsection \<open>Handlers by name\<close>

type_synonym 'w handler = "json_object \<Rightarrow> ('w, json_object) act"

definition protected_handlers :: "'w services \<Rightarrow> verified_call option \<Rightarrow> (pystr \<times> 'w handler) list" where
  "protected_handlers sv a =
     [(''sc_inject_text'', \<lambda>args. sc_inject_text sv args a), (''sc_read_output'', \<lambda>args. sc_read_output sv args a),
      (''sc_request_lease'', \<lambda>args. sc_request_lease sv args a),
      (''sc_request_target_lease'', \<lambda>args. sc_request_target_lease sv args a),
      (''sc_revoke_lease'', \<lambda>args. sc_revoke_lease sv args a), (''sc_identity_sign'', \<lambda>args. sc_identity_sign sv args a),
      (''sc_session_stamp'', \<lambda>args. sc_session_stamp sv args a), (''sc_channel_route'', \<lambda>args. sc_channel_route sv args a)]"

definition plain_handlers :: "'w services \<Rightarrow> (pystr \<times> 'w handler) list" where
  "plain_handlers sv =
     [(''sc_verify_target'', sc_verify_target sv), (''sc_list_leases'', sc_list_leases sv),
      (''sc_get_lease_info'', sc_get_lease_info sv), (''sc_audit_tail'', sc_audit_tail sv),
      (''sc_audit_search'', sc_audit_search sv), (''sc_mesh_peers'', sc_mesh_peers sv),
      (''sc_channel_status'', sc_channel_status sv), (''sc_target_guard_check'', sc_target_guard_check sv),
      (''sc_identity_verify'', sc_identity_verify sv), (''sc_echo_filter'', sc_echo_filter sv),
      (''sc_pipe_ping'', sc_pipe_ping sv), (''sc_policy_check'', sc_policy_check sv),
      (''sc_receipt_verify'', sc_receipt_verify sv)]"

definition handlers :: "'w services \<Rightarrow> verified_call option \<Rightarrow> (pystr \<times> 'w handler) list" where
  "handlers sv a = protected_handlers sv a @ plain_handlers sv"

subsection \<open>AGTCedarAdapter\<close>

record 'w agt_control =
  agt_before :: "'w \<Rightarrow> pystr \<Rightarrow> json_object \<Rightarrow> pystr \<Rightarrow> 'w \<times> (pystr + json option)"
  agt_after :: "'w \<Rightarrow> pystr \<Rightarrow> json_object \<Rightarrow> 'w \<times> (pystr + json)"

definition agt_run_tool ::
    "'w agt_control \<Rightarrow> pystr \<Rightarrow> pystr \<Rightarrow> json_object \<Rightarrow> 'w handler \<Rightarrow> ('w, json_object \<times> json_object) act" where
  "agt_run_tool agt profile tool_name args execute =
     bind_act (call_world (\<lambda>w. agt_before agt w tool_name args profile)) (\<lambda>effective.
       case effective of
         None \<Rightarrow> of_result (Inl (OtherError ''AGT returned without executing the protected tool''))
       | Some (JObj executed) \<Rightarrow>
           bind_act (execute executed) (\<lambda>result.
           bind_act (call_world (\<lambda>w. agt_after agt w tool_name result)) (\<lambda>v.
             case v of
               JObj shown \<Rightarrow> ret (shown, executed)
             | _ \<Rightarrow> of_result (Inl (OtherError ''AGT returned a non-object SelfConnect tool result''))))
       | Some _ \<Rightarrow> of_result (Inl (OtherError ''AGT produced non-object SelfConnect tool arguments'')))"

subsection \<open>Execution\<close>

definition run_handler ::
    "'w services \<Rightarrow> 'w agt_control option \<Rightarrow> verified_call option \<Rightarrow> pystr \<Rightarrow> json_object \<Rightarrow> ('w, json_object \<times> json_object) act" where
  "run_handler sv agt a name args =
     (case map_of (handlers sv a) name of
        None \<Rightarrow> of_result (Inl (OtherError (py_repr name)))
      | Some h \<Rightarrow>
          (case agt of
             None \<Rightarrow> bind_act (h args) (\<lambda>result. ret (result, args))
           | Some control \<Rightarrow> agt_run_tool control (sv_profile sv) name args h))"

definition execute_checked ::
    "'w services \<Rightarrow> 'w agt_control option \<Rightarrow> verified_call option \<Rightarrow> pystr \<Rightarrow> json \<Rightarrow> ('w, json_object) act" where
  "execute_checked sv agt a name args =
     bind_act (require (\<not> (governed_profile sv \<and> name \<in> set PROTECTED_DELEGATED_TOOLS \<and> a = None))
         ''final actuation requires an owner-signed delegation grant and agent-signed action proof'') (\<lambda>_.
     bind_act (if map_of (handlers sv a) name = None
         then (case get_tool name of Inl t \<Rightarrow> of_result (Inl (OtherError t)) | Inr _ \<Rightarrow> ret ()) else ret ()) (\<lambda>_.
     bind_act (case validate name args of Inl t \<Rightarrow> raise_error t | Inr v \<Rightarrow> ret v) (\<lambda>validated.
     bind_act (run_handler sv agt a name validated) (\<lambda>(result, effective).
       (let shown = (if map_of result ''profile'' = None then result @ [(''profile'', JStr (sv_profile sv))] else result) in
        bind_act (record_audit sv name True effective shown) (\<lambda>_.
          ret [(''ok'', JBool True), (''tool'', JStr name), (''result'', JObj shown)]))))))"

definition execute_tool ::
    "'w services \<Rightarrow> 'w agt_control option \<Rightarrow> verified_call option \<Rightarrow> pystr \<Rightarrow> json option \<Rightarrow> ('w, json_object) act" where
  "execute_tool sv agt a name arguments =
     (let args = (case arguments of None \<Rightarrow> JObj [] | Some v \<Rightarrow> v) in
      catch_act (execute_checked sv agt a name args) (\<lambda>e.
        if e = Unfinished then of_result (Inl Unfinished)
        else
          (let error = bound_error (exn_text e) in
           bind_act (record_audit sv name False (members args) [(''error'', JStr error)]) (\<lambda>_.
             ret [(''ok'', JBool False), (''tool'', JStr name), (''error'', JStr error)]))))"

definition call_tool :: "'w services \<Rightarrow> 'w agt_control option \<Rightarrow> pystr \<Rightarrow> json option \<Rightarrow> ('w, json_object) act" where
  "call_tool sv agt name arguments = execute_tool sv agt None name arguments"

subsection \<open>call_delegated_tool\<close>

text \<open>The checks on the signed objects, before anything is read: the isolated arguments, grant and proof.\<close>

definition read_delegated_call ::
    "'w services \<Rightarrow> pystr \<Rightarrow> json_object \<Rightarrow> grant \<Rightarrow> action_proof \<Rightarrow> bytes \<Rightarrow> pystr
     \<Rightarrow> exn + json_object \<times> grant \<times> action_proof" where
  "read_delegated_call sv name args g p payload session_id =
     (let dc = sv_crypto sv; bad = (\<lambda>t. Inl (DispatchError t)) in
      case sv_loads sv payload of
        Inl _ \<Rightarrow> bad ''delegated call payload is not canonical JSON''
      | Inr v \<Rightarrow>
          if canonical_bytes v \<noteq> payload then bad ''delegated call payload is not canonical JSON''
          else (case v of
            JObj signed_call \<Rightarrow>
              if kw signed_call ''tool'' \<noteq> JStr name then bad ''delegated payload does not bind the requested MCP tool''
              else if \<not> py_eq (kw signed_call ''arguments'') (JObj args) \<or> kw signed_call ''sessionId'' \<noteq> JStr session_id
              then bad ''delegated payload does not bind the MCP arguments and session''
              else (case (map_of signed_call ''arguments'', grant_from_dict dc (grant_to_dict dc g), proof_from_dict dc (proof_to_dict dc p)) of
                (Some (JObj d), Inr g', Inr p') \<Rightarrow>
                  if pr_action p' \<noteq> name then bad ''action proof does not name the requested MCP tool''
                  else if pr_payload_sha256 p' \<noteq> payload_digest dc payload
                  then bad ''action proof does not bind the delegated payload''
                  else Inr (isolated d, g', p')
              | (Some _, Inr _, Inr _) \<Rightarrow> bad ''delegated MCP arguments must be an object''
              | _ \<Rightarrow> bad ''delegated call contains invalid signed objects'')
          | _ \<Rightarrow> bad ''delegated payload does not bind the requested MCP tool''))"

text \<open>A completion already in the store is returned again, once everything it claims is checked.\<close>

definition recovered_expectation :: "'w services \<Rightarrow> signer \<Rightarrow> pystr \<Rightarrow> grant \<Rightarrow> action_proof \<Rightarrow> consumption \<Rightarrow> json_object \<Rightarrow> expectation" where
  "recovered_expectation sv identity name g p c core =
     \<lparr>ex_executor_public_key = sg_public_key identity, ex_grant_id = grant_id (sv_crypto sv) g,
      ex_proof_id = proof_id (sv_crypto sv) p, ex_action_id = pr_action_id p, ex_action = name,
      ex_delegated_agent_id = pr_agent_id p,
      ex_result_status = (if co_outcome c = Succeeded then ''succeeded'' else ''failed''),
      ex_target = pr_target p, ex_result = Some core,
      ex_ledger_head = Some (case co_ledger_head c of None \<Rightarrow> ''None'' | Some h \<Rightarrow> h)\<rparr>"

definition truthy_opt :: "json option \<Rightarrow> bool" where
  "truthy_opt v = (case v of None \<Rightarrow> False | Some x \<Rightarrow> truthy x)"

definition read_completion :: "'w services \<Rightarrow> consumption \<Rightarrow> (json_object \<times> receipt) option" where
  "read_completion sv c =
     (case (as_dict (the (co_result c)), as_dict (the (co_receipt c))) of
        (Some result, Some rd) \<Rightarrow> (case receipt_init (sv_crypto sv) rd of Inr r \<Rightarrow> Some (result, r) | Inl _ \<Rightarrow> None)
      | _ \<Rightarrow> None)"

definition recover_completion ::
    "'w services \<Rightarrow> 'w ledger_service \<Rightarrow> signer \<Rightarrow> pystr \<Rightarrow> grant \<Rightarrow> action_proof \<Rightarrow> pystr \<Rightarrow> consumption \<Rightarrow> ('w, json_object) act" where
  "recover_completion sv lg identity name g p session_id c =
     (let dc = sv_crypto sv in
      bind_act (require (admitted_for (grant_id dc g, proof_id dc p, session_id) c \<and> truthy_opt (co_receipt c) \<and> truthy_opt (co_result c))
          ''stored delegated completion tuple does not match'') (\<lambda>_.
        case read_completion sv c of
          None \<Rightarrow> raise_error ''stored delegated completion receipt is invalid''
        | Some (result, r) \<Rightarrow>
            (case verify_delegated_receipt dc r (recovered_expectation sv identity name g p c (AList.delete ''delegated_receipt'' result)) of
               Inl _ \<Rightarrow> raise_error ''stored delegated completion receipt is invalid''
             | Inr checked \<Rightarrow>
                 bind_act (require (dv_ok checked)
                     (''stored delegated completion receipt failed verification: '' @ reason_text (dv_reason checked))) (\<lambda>_.
                 bind_act (call_world (\<lambda>w. lgs_contains lg w (rc_ledger_head r))) (\<lambda>known.
                 bind_act (require known ''stored receipt ledger head is not in the verified ledger'') (\<lambda>_.
                 bind_act (require (py_eq (kw result ''delegated_receipt'') (JObj (receipt_to_dict r)))
                     ''stored result and delegated receipt disagree'') (\<lambda>_.
                   ret result)))))))"

text \<open>The fresh path: verify now, match the live target, consume the action, execute, sign, store.\<close>

definition authorize_fresh ::
    "'w services \<Rightarrow> 'w delegation_boundary \<Rightarrow> pystr \<Rightarrow> json_object \<Rightarrow> verified_call \<Rightarrow> bytes \<Rightarrow> ('w, unit) act" where
  "authorize_fresh sv bd name args a issuer_key =
     bind_act (verify_current sv bd (vc_grant a) (vc_proof a) (vc_payload a) issuer_key
         (\<lambda>_. DispatchError ''delegation revocation state is invalid'') ''delegation denied: '') (\<lambda>_.
     bind_act (delegation_target_for sv name args) (\<lambda>target.
     bind_act (require (py_eq (JObj (pr_target (vc_proof a))) (JObj target))
         ''action proof target does not match the live lease binding'') (\<lambda>_.
     bind_act (on_world (sv_now sv)) (\<lambda>now.
     bind_act (call_world (\<lambda>w. bd_claim bd w (pr_action_id (vc_proof a)) (admission_of sv a) now)) (\<lambda>claimed.
       require claimed ''delegation denied: action id has already been consumed'')))))"

definition verified_ledger :: "'w ledger_service \<Rightarrow> pystr \<Rightarrow> ('w, unit) act" where
  "verified_ledger lg message = bind_act (call_world (lgs_verify lg)) (\<lambda>ok. require ok message)"

definition finish_call ::
    "'w services \<Rightarrow> 'w delegation_boundary \<Rightarrow> 'w ledger_service \<Rightarrow> signer \<Rightarrow> verified_call \<Rightarrow> json_object \<Rightarrow> ('w, json_object) act" where
  "finish_call sv bd lg identity a result =
     (let succeeded = truthy (kw result ''ok'') in
      bind_act (verified_ledger lg ''delegated completion audit ledger failed verification'') (\<lambda>_.
      bind_act (call_world (lgs_head_hash lg)) (\<lambda>ledger_head.
      bind_act (on_world (sv_now sv)) (\<lambda>now.
      bind_act (of_result (of_delegation (sign_delegated_receipt (sv_crypto sv) (vc_grant a) (vc_proof a) identity result
          (if succeeded then ''succeeded'' else ''failed'') ledger_head (JFloat now)))) (\<lambda>r.
        (let receipt = receipt_to_dict r; final = AList.update ''delegated_receipt'' (JObj receipt) result in
         bind_act (catch_act (call_world (\<lambda>w. bd_finish bd w (pr_action_id (vc_proof a)) succeeded receipt ledger_head final))
             (\<lambda>_. raise_error ''delegation outcome could not be durably finalized'')) (\<lambda>_.
           ret final)))))))"

definition call_delegated_tool ::
    "'w services \<Rightarrow> 'w agt_control option \<Rightarrow> pystr \<Rightarrow> json_object \<Rightarrow> grant \<Rightarrow> action_proof \<Rightarrow> bytes \<Rightarrow> pystr \<Rightarrow> ('w, json_object) act" where
  "call_delegated_tool sv agt name args g0 p0 payload session_id =
     (case (sv_boundary sv, sv_identity sv) of
        (Some bd, Some identity) \<Rightarrow>
          bind_act (of_result (read_delegated_call sv name args g0 p0 payload session_id)) (\<lambda>(isolated_args, g, p).
          bind_act (trusted_issuer bd g) (\<lambda>issuer_key.
            case sv_ledger sv of
              None \<Rightarrow> raise_error ''delegated actuation requires a persistent audit ledger''
            | Some lg \<Rightarrow>
                bind_act (verified_ledger lg ''delegated actuation audit ledger failed preflight verification'') (\<lambda>_.
                bind_act (of_result (of_delegation (verify_historical_delegated_action (sv_crypto sv) g p (Some payload) (Some issuer_key)))) (\<lambda>past.
                bind_act (require (dv_ok past) (''delegation denied: '' @ reason_text (dv_reason past))) (\<lambda>_.
                bind_act (call_world (\<lambda>w. bd_get bd w (pr_action_id p))) (\<lambda>recovered.
                  if (case recovered of None \<Rightarrow> False | Some c \<Rightarrow> co_outcome c \<noteq> Admitted)
                  then recover_completion sv lg identity name g p session_id (the recovered)
                  else
                    (let a = \<lparr>vc_grant = g, vc_proof = p, vc_payload = payload, vc_session_id = session_id\<rparr> in
                     bind_act (authorize_fresh sv bd name isolated_args a issuer_key) (\<lambda>_.
                     bind_act (execute_tool sv agt (Some a) name (Some (JObj isolated_args))) (\<lambda>result.
                       finish_call sv bd lg identity a result)))))))))
      | _ \<Rightarrow> raise_error ''delegation boundary is not configured'')"

text \<open>Both entry points run inside one operation of the runtime's lifetime barrier.\<close>

definition governed_call_tool_op ::
    "lifetime option \<Rightarrow> nat \<Rightarrow> 'w services \<Rightarrow> 'w agt_control option \<Rightarrow> pystr \<Rightarrow> json option \<Rightarrow> 'w dispatcher
     \<Rightarrow> 'w dispatcher \<times> (lifetime_error + (exn + json_object))" where
  "governed_call_tool_op lt t sv agt name arguments s = governed lt t s (call_tool sv agt name arguments)"

end
