(* ===== verification/DispatchFrame.thy ===== *)
theory DispatchFrame
  imports Dispatch
begin

text \<open>
  How far an operation of the dispatcher can move the replay protocol. The locale
  \<open>quiet_services\<close> is what the dispatcher relies on of its services: claim, begin and finish
  are the transitions of the protocol, every other service leaves it alone. \<open>moves R m\<close> says
  that an operation relates the phases before and after by \<open>R\<close>; it is closed under the ways
  the operations are built, so each operation needs one line.
\<close>

definition quiet :: "('w \<Rightarrow> 'p) \<Rightarrow> ('w \<Rightarrow> 'w \<times> 'a) \<Rightarrow> bool" where
  "quiet ph f \<longleftrightarrow> (\<forall>w. ph (fst (f w)) = ph w)"

definition ledger_quiet :: "('w \<Rightarrow> 'p) \<Rightarrow> 'w ledger_service \<Rightarrow> bool" where
  "ledger_quiet ph lg \<longleftrightarrow> (\<forall>c. quiet ph (\<lambda>w. lgs_log lg w c)) \<and> quiet ph (lgs_verify lg) \<and> quiet ph (lgs_head_hash lg)
     \<and> (\<forall>h. quiet ph (\<lambda>w. lgs_contains lg w h))"

definition queue_quiet :: "('w \<Rightarrow> 'p) \<Rightarrow> 'w queue_service \<Rightarrow> bool" where
  "queue_quiet ph q \<longleftrightarrow> (\<forall>i a n c. quiet ph (\<lambda>w. qs_consume q w i a n c))
     \<and> (\<forall>f. qs_verify_binding q = Some f \<longrightarrow> (\<forall>x a n c. quiet ph (\<lambda>w. f w x a n c)))"

definition router_quiet :: "('w \<Rightarrow> 'p) \<Rightarrow> 'w router \<Rightarrow> bool" where
  "router_quiet ph r \<longleftrightarrow> (\<forall>h t l b. quiet ph (\<lambda>w. ro_route r w h t l b)) \<and> (\<forall>h. quiet ph (\<lambda>w. ro_classify r w h))"

definition tpm_quiet :: "('w \<Rightarrow> 'p) \<Rightarrow> 'w tpm_service \<Rightarrow> bool" where
  "tpm_quiet ph t \<longleftrightarrow> quiet ph (tpm_urandom t) \<and> (\<forall>n. quiet ph (\<lambda>w. tpm_create t w n))
     \<and> (\<forall>c. quiet ph (\<lambda>w. tpm_verify t w c)) \<and> quiet ph (tpm_probe t)"

definition verifier_quiet :: "('w \<Rightarrow> 'p) \<Rightarrow> 'w target_verifier \<Rightarrow> bool" where
  "verifier_quiet ph v \<longleftrightarrow> (\<forall>h x. quiet ph (\<lambda>w. v w h x))"

text \<open>The services, without the three calls of the protocol, do not move it.\<close>

definition services_quiet :: "('w \<Rightarrow> 'p) \<Rightarrow> 'w services \<Rightarrow> bool" where
  "services_quiet ph sv \<longleftrightarrow>
     quiet ph (sv_now sv) \<and> quiet ph (sv_monotonic_ms sv) \<and> (\<forall>w d. ph (sv_sleep_ms sv w d) = ph w) \<and> quiet ph (sv_uuid4 sv)
     \<and> (\<forall>lg. sv_ledger sv = Some lg \<longrightarrow> ledger_quiet ph lg)
     \<and> (\<forall>f. sv_policy sv = Some f \<longrightarrow> (\<forall>a n x c t. quiet ph (\<lambda>w. f w a n x c t)))
     \<and> (\<forall>a. quiet ph (\<lambda>w. sv_is_active sv w a)) \<and> (\<forall>a. quiet ph (\<lambda>w. sv_register sv w a))
     \<and> (\<forall>q. sv_queue sv = Some q \<longrightarrow> queue_quiet ph q)
     \<and> (\<forall>v. sv_verifier sv = Some v \<longrightarrow> verifier_quiet ph v)
     \<and> (\<forall>rs e. sv_resolver sv = Some (rs, e) \<longrightarrow> quiet ph e)
     \<and> (\<forall>r. sv_router sv = Some r \<longrightarrow> router_quiet ph r)
     \<and> (\<forall>f. sv_reader sv = Some f \<longrightarrow> (\<forall>h. quiet ph (\<lambda>w. f w h)))
     \<and> (\<forall>t. sv_tpm sv = Some t \<longrightarrow> tpm_quiet ph t)
     \<and> (\<forall>v. sv_guard sv = Inr v \<longrightarrow> verifier_quiet ph v)
     \<and> (\<forall>b. quiet ph (\<lambda>w. sv_mesh sv w b)) \<and> quiet ph (sv_channels sv) \<and> (\<forall>n. quiet ph (\<lambda>w. sv_open_pipe sv w n))"

definition agt_quiet :: "('w \<Rightarrow> 'p) \<Rightarrow> 'w agt_control option \<Rightarrow> bool" where
  "agt_quiet ph agt \<longleftrightarrow> (\<forall>c. agt = Some c \<longrightarrow>
     (\<forall>n d p. quiet ph (\<lambda>w. agt_before c w n d p)) \<and> (\<forall>n d. quiet ph (\<lambda>w. agt_after c w n d)))"

subsection \<open>Operations\<close>

definition moves :: "('w \<Rightarrow> 'p) \<Rightarrow> ('p \<Rightarrow> 'p \<Rightarrow> bool) \<Rightarrow> ('w, 'a) act \<Rightarrow> bool" where
  "moves ph R m \<longleftrightarrow> (\<forall>s. R (ph (di_world s)) (ph (di_world (fst (m s)))))"

lemma movesD: "moves ph R m \<Longrightarrow> m s = (s', r) \<Longrightarrow> R (ph (di_world s)) (ph (di_world s'))"
  unfolding moves_def by (metis fst_conv)

named_theorems moves_intros "closure of moves under the constructors of operations"

locale movement =
  fixes ph :: "'w \<Rightarrow> 'p" and R :: "'p \<Rightarrow> 'p \<Rightarrow> bool"
  assumes refl: "R p p" and trans: "R p q \<Longrightarrow> R q r \<Longrightarrow> R p r"
begin

lemma moves_ret [moves_intros]: "moves ph R (ret x)"
  by (simp add: moves_def ret_def refl)

lemma moves_raise [moves_intros]: "moves ph R (raise_error t)"
  by (simp add: moves_def raise_error_def refl)

lemma moves_of_result [moves_intros]: "moves ph R (of_result r)"
  by (simp add: moves_def of_result_def refl)

lemma moves_require [moves_intros]: "moves ph R (require b t)"
  by (simp add: require_def moves_ret moves_raise)

lemma moves_get_state [moves_intros]: "moves ph R (get_state f)"
  by (simp add: moves_def get_state_def refl)

lemma moves_set_state [moves_intros]: "(\<And>s. di_world (f s) = di_world s) \<Longrightarrow> moves ph R (set_state f)"
  by (simp add: moves_def set_state_def refl)

lemma moves_bind [moves_intros]:
  assumes "moves ph R m" "\<And>x. moves ph R (f x)"
  shows "moves ph R (bind_act m f)"
  unfolding moves_def
proof
  fix s
  obtain s1 r where m: "m s = (s1, r)" by fastforce
  show "R (ph (di_world s)) (ph (di_world (fst (bind_act m f s))))"
  proof (cases r)
    case (Inr x)
    then have "fst (bind_act m f s) = fst (f x s1)" by (simp add: bind_act_def m)
    with movesD[OF assms(1) m] assms(2)[of x] show ?thesis unfolding moves_def by (metis trans)
  qed (use movesD[OF assms(1) m] in \<open>simp add: bind_act_def m\<close>)
qed

lemma moves_catch [moves_intros]:
  assumes "moves ph R m" "\<And>e. moves ph R (h e)"
  shows "moves ph R (catch_act m h)"
  unfolding moves_def
proof
  fix s
  obtain s1 r where m: "m s = (s1, r)" by fastforce
  show "R (ph (di_world s)) (ph (di_world (fst (catch_act m h s))))"
  proof (cases r)
    case (Inl e)
    then have "fst (catch_act m h s) = fst (h e s1)" by (simp add: catch_act_def m)
    with movesD[OF assms(1) m] assms(2)[of e] show ?thesis unfolding moves_def by (metis trans)
  qed (use movesD[OF assms(1) m] in \<open>simp add: catch_act_def m\<close>)
qed

lemma moves_call_exn:
  assumes "\<And>w. R (ph w) (ph (fst (f w)))"
  shows "moves ph R (call_exn f)"
  unfolding moves_def call_exn_def
proof
  fix s
  show "R (ph (di_world s)) (ph (di_world (fst (case f (di_world s) of (w, r) \<Rightarrow> (s\<lparr>di_world := w\<rparr>, r)))))"
    using assms[of "di_world s"] by (cases "f (di_world s)") simp
qed

lemma moves_call_world:
  assumes "\<And>w. R (ph w) (ph (fst (f w)))"
  shows "moves ph R (call_world f)"
proof -
  have "fst (case f w of (w', r) \<Rightarrow> (w', as_exn r)) = fst (f w)" for w by (simp split: prod.split)
  with assms show ?thesis unfolding call_world_def by (intro moves_call_exn) simp
qed

lemma moves_call_exn_quiet [moves_intros]: "quiet ph f \<Longrightarrow> moves ph R (call_exn f)"
  by (rule moves_call_exn) (simp add: quiet_def refl)

lemma moves_call_world_quiet [moves_intros]: "quiet ph f \<Longrightarrow> moves ph R (call_world f)"
  by (rule moves_call_world) (simp add: quiet_def refl)

lemma moves_on_world_quiet [moves_intros]:
  assumes "quiet ph f"
  shows "moves ph R (on_world f)"
proof -
  have "ph (di_world (fst (on_world f s))) = ph (di_world s)" for s
    using assms by (cases "f (di_world s)") (auto simp: on_world_def quiet_def dest: spec[of _ "di_world s"])
  then show ?thesis by (simp add: moves_def refl)
qed

lemma moves_option [moves_intros]:
  "(x = None \<Longrightarrow> moves ph R m) \<Longrightarrow> (\<And>y. x = Some y \<Longrightarrow> moves ph R (f y)) \<Longrightarrow> moves ph R (case x of None \<Rightarrow> m | Some y \<Rightarrow> f y)"
  by (cases x) auto

lemma moves_sum [moves_intros]:
  "(\<And>y. x = Inl y \<Longrightarrow> moves ph R (f y)) \<Longrightarrow> (\<And>y. x = Inr y \<Longrightarrow> moves ph R (g y)) \<Longrightarrow> moves ph R (case x of Inl y \<Rightarrow> f y | Inr y \<Rightarrow> g y)"
  by (cases x) auto

lemma moves_prod [moves_intros]:
  "(\<And>y z. x = (y, z) \<Longrightarrow> moves ph R (f y z)) \<Longrightarrow> moves ph R (case x of (y, z) \<Rightarrow> f y z)"
  by (cases x) auto

lemma moves_if [moves_intros]:
  "(b \<Longrightarrow> moves ph R m) \<Longrightarrow> (\<not> b \<Longrightarrow> moves ph R n) \<Longrightarrow> moves ph R (if b then m else n)"
  by auto

lemma moves_json [moves_intros]:
  "moves ph R a \<Longrightarrow> (\<And>x. moves ph R (b x)) \<Longrightarrow> (\<And>x. moves ph R (c x)) \<Longrightarrow> (\<And>x. moves ph R (d x)) \<Longrightarrow> (\<And>x. moves ph R (e x))
     \<Longrightarrow> (\<And>x. moves ph R (f x)) \<Longrightarrow> (\<And>x. moves ph R (g x))
     \<Longrightarrow> moves ph R (case v of JNull \<Rightarrow> a | JBool x \<Rightarrow> b x | JInt x \<Rightarrow> c x | JFloat x \<Rightarrow> d x | JStr x \<Rightarrow> e x
          | JArr x \<Rightarrow> f x | JObj x \<Rightarrow> g x)"
  by (cases v) auto

lemma moves_exn [moves_intros]:
  "(\<And>t. moves ph R (f t)) \<Longrightarrow> (\<And>t. moves ph R (g t)) \<Longrightarrow> moves ph R m
     \<Longrightarrow> moves ph R (case e of DispatchError t \<Rightarrow> f t | OtherError t \<Rightarrow> g t | Unfinished \<Rightarrow> m)"
  by (cases e) auto

end

subsection \<open>The operations over quiet services\<close>

lemma match_candidates_quiet:
  "verifier_quiet ph v \<Longrightarrow> ph (fst (match_candidates np sha v sp i w found hs)) = ph w"
proof (induction hs arbitrary: w found)
  case (Cons h hs)
  obtain w1 r where v: "v w h (spec_expectation sp) = (w1, r)" by fastforce
  then have "ph w1 = ph w" using Cons.prems unfolding verifier_quiet_def quiet_def by (metis fst_conv)
  with v Cons show ?case by (auto split: sum.splits option.splits)
qed simp

lemma resolve_quiet:
  assumes "\<forall>v. verifier = Some v \<longrightarrow> verifier_quiet ph v" "quiet ph enum"
  shows "quiet ph (resolve np sha rs enum verifier i role)"
  unfolding quiet_def
proof
  fix w
  obtain w1 ys e where en: "enum w = (w1, ys, e)" by (cases "enum w") auto
  then have "ph w1 = ph w" using assms(2) unfolding quiet_def by (metis fst_conv)
  have m: "ph (fst (match_candidates np sha v sp i w1 [] hs)) = ph w1" if "verifier = Some v" for v sp hs
    by (rule match_candidates_quiet) (use assms(1) that in simp)
  show "ph (fst (resolve np sha rs enum verifier i role w)) = ph w"
  proof (cases "\<exists>v sp hs. verifier = Some v \<and> map_of rs i = Some sp \<and> role \<in> tg_allowed_roles sp \<and> read_candidates [] ys e = Inr hs")
    case True
    then obtain v sp hs where 1: "verifier = Some v" "map_of rs i = Some sp" "role \<in> tg_allowed_roles sp"
        "read_candidates [] ys e = Inr hs" by blast
    obtain w2 r where 2: "match_candidates np sha v sp i w1 [] hs = (w2, r)" by fastforce
    have "fst (resolve np sha rs enum verifier i role w) = w2"
      using 1 2 en by (simp add: resolve_def split: sum.split list.split)
    with m[OF 1(1), of sp hs] 2 \<open>ph w1 = ph w\<close> show ?thesis by simp
  next
    case False
    then have "fst (resolve np sha rs enum verifier i role w) \<in> {w, w1}"
      using en by (auto simp: resolve_def split: option.split sum.split)
    with \<open>ph w1 = ph w\<close> show ?thesis by auto
  qed
qed

definition PLAIN_TOOLS :: "pystr list" where
  "PLAIN_TOOLS = [''sc_verify_target'', ''sc_list_leases'', ''sc_get_lease_info'', ''sc_audit_tail'', ''sc_audit_search'',
     ''sc_mesh_peers'', ''sc_channel_status'', ''sc_target_guard_check'', ''sc_identity_verify'', ''sc_echo_filter'',
     ''sc_pipe_ping'', ''sc_policy_check'', ''sc_receipt_verify'']"

text \<open>A handler that is its gate, followed by steps that move by \<open>R\<close>.\<close>

definition gated ::
    "('w \<Rightarrow> 'p) \<Rightarrow> ('p \<Rightarrow> 'p \<Rightarrow> bool) \<Rightarrow> 'w services \<Rightarrow> pystr \<Rightarrow> verified_call option \<Rightarrow> 'w handler \<Rightarrow> bool" where
  "gated ph R sv name a h \<longleftrightarrow>
     (\<exists>rest. (\<forall>args. h args = bind_act (require_verified_delegated_call sv name args a) rest) \<and> (\<forall>x. moves ph R (rest x)))"

lemma gatedI:
  "(\<And>args. h args = bind_act (require_verified_delegated_call sv name args a) rest) \<Longrightarrow> (\<And>x. moves ph R (rest x))
     \<Longrightarrow> gated ph R sv name a h"
  unfolding gated_def by blast

locale quiet_services = movement ph R for ph :: "'w \<Rightarrow> 'p" and R +
  fixes sv :: "'w services"
  assumes quiet: "services_quiet ph sv"
begin

lemma quiet_facts [moves_intros]:
  "quiet ph (sv_now sv)" "quiet ph (sv_monotonic_ms sv)" "quiet ph (sv_uuid4 sv)"
  "quiet ph (\<lambda>w. (sv_sleep_ms sv w d, ()))"
  "quiet ph (\<lambda>w. sv_is_active sv w a)" "quiet ph (\<lambda>w. sv_register sv w a)"
  "quiet ph (\<lambda>w. sv_mesh sv w b)" "quiet ph (sv_channels sv)" "quiet ph (\<lambda>w. sv_open_pipe sv w n)"
  using quiet by (simp_all add: services_quiet_def quiet_def)

lemma quiet_optional [moves_intros]:
  "sv_ledger sv = Some lg \<Longrightarrow> quiet ph (\<lambda>w. lgs_log lg w c)"
  "sv_ledger sv = Some lg \<Longrightarrow> quiet ph (lgs_verify lg)"
  "sv_ledger sv = Some lg \<Longrightarrow> quiet ph (lgs_head_hash lg)"
  "sv_ledger sv = Some lg \<Longrightarrow> quiet ph (\<lambda>w. lgs_contains lg w h)"
  "sv_policy sv = Some f \<Longrightarrow> quiet ph (\<lambda>w. f w a' n' x c' t)"
  "sv_queue sv = Some q \<Longrightarrow> quiet ph (\<lambda>w. qs_consume q w i a1 n1 c1)"
  "sv_queue sv = Some q \<Longrightarrow> qs_verify_binding q = Some g \<Longrightarrow> quiet ph (\<lambda>w. g w y a2 n2 c2)"
  "sv_verifier sv = Some v \<Longrightarrow> quiet ph (\<lambda>w. v w hw te)"
  "sv_router sv = Some r \<Longrightarrow> quiet ph (\<lambda>w. ro_route r w hw tx li b)"
  "sv_router sv = Some r \<Longrightarrow> quiet ph (\<lambda>w. ro_classify r w hw)"
  "sv_reader sv = Some rd \<Longrightarrow> quiet ph (\<lambda>w. rd w hw)"
  "sv_tpm sv = Some ts \<Longrightarrow> quiet ph (tpm_urandom ts)"
  "sv_tpm sv = Some ts \<Longrightarrow> quiet ph (\<lambda>w. tpm_create ts w no)"
  "sv_tpm sv = Some ts \<Longrightarrow> quiet ph (\<lambda>w. tpm_verify ts w cl)"
  "sv_tpm sv = Some ts \<Longrightarrow> quiet ph (tpm_probe ts)"
  "sv_guard sv = Inr v \<Longrightarrow> quiet ph (\<lambda>w. v w hw te)"
  using quiet
  by (simp_all add: services_quiet_def ledger_quiet_def queue_quiet_def verifier_quiet_def router_quiet_def tpm_quiet_def)

lemma quiet_resolve [moves_intros]:
  "sv_resolver sv = Some (rs, enum) \<Longrightarrow> quiet ph (resolve np sha rs enum (sv_verifier sv) i role)"
  using quiet by (intro resolve_quiet) (simp_all add: services_quiet_def)

lemma moves_log_entry [moves_intros]: "moves ph R (log_entry sv action result metadata)"
  unfolding log_entry_def by (intro moves_intros) assumption

lemma moves_record_audit [moves_intros]: "moves ph R (record_audit sv tool ok args result)"
  unfolding record_audit_def Let_def by (intro moves_intros) simp

lemma moves_deny [moves_intros]: "moves ph R (deny_lease_role sv i tool r1 r2 reason)"
  unfolding deny_lease_role_def record_lease_role_denial_def by (intro moves_intros)

lemma moves_require_lease [moves_intros]: "moves ph R (require_lease sv i h tool)"
  unfolding require_lease_def by (intro moves_intros)

lemma moves_active_leases [moves_intros]: "moves ph R (active_leases sv)"
  unfolding active_leases_def by (intro moves_intros)

lemma moves_verify_live [moves_intros]: "moves ph R (verify_live_target sv h x)"
  unfolding verify_live_target_def by (intro moves_intros) assumption

lemma moves_resolve_target [moves_intros]: "moves ph R (resolve_target sv i role)"
  unfolding resolve_target_def by (intro moves_intros) simp

lemma moves_target_for [moves_intros]: "moves ph R (delegation_target_for sv name args)"
  unfolding delegation_target_for_def target_of_live_def target_of_logical_def target_of_revocation_def
  by (intro moves_intros)

lemma moves_approval_context [moves_intros]: "moves ph R (approval_context_for sv i args action)"
  unfolding approval_context_for_def by (intro moves_intros)

lemma moves_authorization [moves_intros]: "moves ph R (require_execution_authorization sv l args target action)"
  unfolding require_execution_authorization_def consume_approval_def by (intro moves_intros) assumption+

lemma moves_read_once [moves_intros]: "moves ph R (read_output_once sv h l)"
  unfolding read_output_once_def by (intro moves_intros) assumption

lemma moves_issue [moves_intros]: "moves ph R (issue_verified_lease sv args h role target i)"
  unfolding issue_verified_lease_def Let_def by (intro moves_intros) simp

lemma moves_persist [moves_intros]: "moves ph R (persist_delivery_disposition sv l rc d reason)"
  unfolding persist_delivery_disposition_def by (intro moves_intros)

lemma moves_refuse [moves_intros]: "moves ph R (refuse_receipt sv l rc)"
  unfolding refuse_receipt_def Let_def by (intro moves_intros)

lemma moves_on_dispatch_error [moves_intros]:
  "moves ph R m \<Longrightarrow> (\<And>t. moves ph R (h t)) \<Longrightarrow> moves ph R (on_dispatch_error m h)"
  unfolding on_dispatch_error_def by (intro moves_intros)

lemma moves_sleep [moves_intros]: "moves ph R (sleep_until sv d)"
  unfolding sleep_until_def by (intro moves_intros)

lemma moves_await_echo [moves_intros]: "moves ph R (await_echo n sv l probe b d)"
proof (induction n)
  case (Suc n)
  show ?case unfolding await_echo.simps by (intro moves_intros Suc.IH)
qed (simp add: moves_of_result)

lemma moves_await_output [moves_intros]: "moves ph R (await_output n sv l p c d)"
proof (induction n arbitrary: c)
  case (Suc n)
  show ?case unfolding await_output.simps by (intro moves_intros Suc.IH)
qed (simp add: moves_of_result)

lemma moves_injection_steps [moves_intros]:
  "moves ph R (prepare_injection sv args)" "moves ph R (send_text sv args l)" "moves ph R (confirm_delivery sv args l rc probe n)"
  unfolding prepare_injection_def send_text_def confirm_delivery_def by ((intro moves_intros)[1]; (assumption | simp)?)+

text \<open>Handlers: a protected one moves as far as its gate does.\<close>

lemma moves_plain [moves_intros]:
  "moves ph R (sc_list_leases sv args)" "moves ph R (sc_get_lease_info sv args)" "moves ph R (run_target_guard sv args)"
  "moves ph R (sc_audit_tail sv args)" "moves ph R (sc_audit_search sv args)" "moves ph R (sc_mesh_peers sv args)"
  "moves ph R (sc_channel_status sv args)" "moves ph R (sc_identity_verify sv args)" "moves ph R (sc_echo_filter sv args)"
  "moves ph R (sc_pipe_ping sv args)" "moves ph R (sc_receipt_verify sv args)"
  unfolding sc_list_leases_def sc_get_lease_info_def run_target_guard_def sc_audit_tail_def sc_audit_search_def
    sc_mesh_peers_def sc_channel_status_def sc_identity_verify_def sc_echo_filter_def sc_pipe_ping_def
    sc_receipt_verify_def Let_def
  by ((intro moves_intros)[1]; (assumption | simp)?)+

lemma moves_policy_check [moves_intros]: "moves ph R (sc_policy_check sv args)"
  unfolding sc_policy_check_def by (intro moves_intros) assumption+

lemma moves_plain_handler: "map_of (plain_handlers sv) name = Some h \<Longrightarrow> moves ph R (h args)"
  by (auto simp: plain_handlers_def sc_verify_target_def sc_target_guard_check_def split: if_splits intro: moves_intros)

lemma gated_injecting: "gated ph R sv ''sc_inject_text'' a (\<lambda>args. sc_inject_text sv args a)"
  unfolding sc_inject_text_def by (rule gatedI, rule HOL.refl) ((intro moves_intros)[1], simp)

lemma gated_reading: "gated ph R sv ''sc_read_output'' a (\<lambda>args. sc_read_output sv args a)"
  unfolding sc_read_output_def Let_def by (rule gatedI, rule HOL.refl) ((intro moves_intros)[1], simp)

lemma gated_leasing: "gated ph R sv ''sc_request_lease'' a (\<lambda>args. sc_request_lease sv args a)"
  unfolding sc_request_lease_def by (rule gatedI, rule HOL.refl) ((intro moves_intros)[1])

lemma gated_target_leasing: "gated ph R sv ''sc_request_target_lease'' a (\<lambda>args. sc_request_target_lease sv args a)"
  unfolding sc_request_target_lease_def by (rule gatedI, rule HOL.refl) ((intro moves_intros)[1])

lemma gated_revoking: "gated ph R sv ''sc_revoke_lease'' a (\<lambda>args. sc_revoke_lease sv args a)"
  unfolding sc_revoke_lease_def by (rule gatedI, rule HOL.refl) ((intro moves_intros)[1], simp)

lemma gated_signing: "gated ph R sv ''sc_identity_sign'' a (\<lambda>args. sc_identity_sign sv args a)"
  unfolding sc_identity_sign_def Let_def by (rule gatedI, rule HOL.refl) ((intro moves_intros)[1], assumption+)

lemma gated_stamping: "gated ph R sv ''sc_session_stamp'' a (\<lambda>args. sc_session_stamp sv args a)"
  unfolding sc_session_stamp_def probe_tpm_def by (rule gatedI, rule HOL.refl) ((intro moves_intros)[1], assumption)

lemma gated_routing: "gated ph R sv ''sc_channel_route'' a (\<lambda>args. sc_channel_route sv args a)"
  unfolding sc_channel_route_def Let_def by (rule gatedI, rule HOL.refl) ((intro moves_intros)[1], assumption)

lemma protected_gated:
  assumes "map_of (protected_handlers sv a) name = Some h"
  shows "gated ph R sv name a h"
  using assms gated_injecting gated_reading gated_leasing gated_target_leasing gated_revoking gated_signing gated_stamping gated_routing
  by (auto simp: protected_handlers_def split: if_splits)

lemma moves_gated:
  assumes "gated ph R sv name a h" "moves ph R (require_verified_delegated_call sv name args a)"
  shows "moves ph R (h args)"
proof -
  obtain rest where "h args = bind_act (require_verified_delegated_call sv name args a) rest" "\<forall>x. moves ph R (rest x)"
    using assms(1) by (auto simp: gated_def)
  then show ?thesis by (auto intro: moves_bind[OF assms(2)])
qed

lemma moves_handler:
  assumes "map_of (handlers sv a) name = Some h" "moves ph R (require_verified_delegated_call sv name args a)"
  shows "moves ph R (h args)"
proof (cases "map_of (protected_handlers sv a) name")
  case None
  with assms(1) show ?thesis by (intro moves_plain_handler) (auto simp: handlers_def map_add_def)
next
  case (Some k)
  with assms(1) have "h = k" by (simp add: handlers_def map_add_def protected_handlers_def plain_handlers_def split: if_splits)
  with moves_gated[OF protected_gated[OF Some] assms(2)] show ?thesis by simp
qed

lemma handler_gated:
  assumes "name \<in> set PROTECTED_DELEGATED_TOOLS" "map_of (handlers sv a) name = Some h"
  shows "gated ph R sv name a h"
proof -
  have "map fst (plain_handlers sv) = PLAIN_TOOLS" by (simp add: plain_handlers_def PLAIN_TOOLS_def)
  then have "fst ` set (plain_handlers sv) = set PLAIN_TOOLS" by (metis set_map)
  moreover have "list_all (\<lambda>n. n \<notin> set PLAIN_TOOLS) PROTECTED_DELEGATED_TOOLS" by code_simp
  ultimately have "map_of (plain_handlers sv) name = None" using assms(1) by (simp add: map_of_eq_None_iff list_all_iff)
  with assms(2) have "map_of (protected_handlers sv a) name = Some h"
    unfolding handlers_def map_of_append map_add_Some_iff by simp
  then show ?thesis by (rule protected_gated)
qed

lemma moves_run_handler:
  assumes "\<And>args. moves ph R (require_verified_delegated_call sv name args a)" "agt_quiet ph agt"
  shows "moves ph R (run_handler sv agt a name args)"
proof (cases "map_of (handlers sv a) name")
  case (Some h)
  note h = moves_handler[OF Some assms(1)]
  show ?thesis
  proof (cases agt)
    case None
    with Some show ?thesis by (auto simp: run_handler_def intro!: moves_intros h)
  next
    case (Some c)
    with assms(2) have c: "quiet ph (\<lambda>w. agt_before c w n d p)" "quiet ph (\<lambda>w. agt_after c w n d)" for n d p
      by (simp_all add: agt_quiet_def)
    have "moves ph R (agt_run_tool c (sv_profile sv) name args h)"
      unfolding agt_run_tool_def by (intro moves_intros h c)
    with Some \<open>map_of (handlers sv a) name = Some h\<close> show ?thesis by (simp add: run_handler_def)
  qed
qed (simp add: run_handler_def moves_of_result)

lemma moves_execute:
  assumes "\<And>args. moves ph R (require_verified_delegated_call sv name args a)" "agt_quiet ph agt"
  shows "moves ph R (execute_tool sv agt a name arguments)"
  unfolding execute_tool_def execute_checked_def Let_def by (intro moves_intros moves_run_handler assms)

end

end
