(* ===== verification/DispatchLocale.thy ===== *)
theory DispatchLocale
  imports DispatchFrame
begin

text \<open>
  The locale \<open>governed_dispatch\<close>: what \<open>MCPDispatcher\<close> relies on of the delegation boundary it is
  given, and what follows for every operation, whatever the other services do. A gate passes
  only from a claimed action to a started one; the protocol only ever advances; hence a handler
  that passed its gate is the last one that does for its action identifier.
\<close>

subsection \<open>Chains of steps\<close>

lemma bind_act_Inr:
  "bind_act m f s = (s', Inr y) \<longleftrightarrow> (\<exists>s1 x. m s = (s1, Inr x) \<and> f x s1 = (s', Inr y))"
  by (auto simp: bind_act_def split: prod.splits sum.splits)

lemma bind_act_InrE:
  assumes "bind_act m f s = (s', Inr y)"
  obtains s1 x where "m s = (s1, Inr x)" "f x s1 = (s', Inr y)"
  using assms unfolding bind_act_Inr by blast

lemma bind_act_Inl: "m s = (s', Inl e) \<Longrightarrow> bind_act m f s = (s', Inl e)"
  by (simp add: bind_act_def)

lemma ret_Inr [simp]: "ret x s = (s', Inr y) \<longleftrightarrow> s' = s \<and> y = x"
  by (auto simp: ret_def)

lemma ret_Inl [simp]: "ret x s \<noteq> (s', Inl e)"
  by (simp add: ret_def)

lemma raise_Inr [simp]: "raise_error t s \<noteq> (s', Inr y)"
  by (simp add: raise_error_def)

lemma of_result_Inr [simp]: "of_result r s = (s', Inr y) \<longleftrightarrow> s' = s \<and> r = Inr y"
  by (auto simp: of_result_def)

lemma require_Inr [simp]: "require b t s = (s', Inr u) \<longleftrightarrow> b \<and> s' = s"
  by (auto simp: require_def)

lemma get_state_Inr [simp]: "get_state f s = (s', Inr y) \<longleftrightarrow> s' = s \<and> y = f s"
  by (auto simp: get_state_def)

lemma set_state_Inr [simp]: "set_state f s = (s', Inr u) \<longleftrightarrow> s' = f s"
  by (auto simp: set_state_def)

lemma on_world_Inr: "on_world f s = (s', Inr y) \<longleftrightarrow> (\<exists>w. f (di_world s) = (w, y) \<and> s' = s\<lparr>di_world := w\<rparr>)"
  by (auto simp: on_world_def split: prod.splits)

lemma call_world_Inr: "call_world f s = (s', Inr y) \<longleftrightarrow> (\<exists>w. f (di_world s) = (w, Inr y) \<and> s' = s\<lparr>di_world := w\<rparr>)"
  by (auto simp: call_world_def call_exn_def as_exn_def split: prod.splits sum.splits)

lemma of_delegation_Inr [simp]: "of_delegation r = Inr x \<longleftrightarrow> r = Inr x"
  by (cases r) (auto simp: of_delegation_def)

lemmas step_simps = bind_act_Inr on_world_Inr call_world_Inr

subsection \<open>Relations on the protocol\<close>

text \<open>The events of every action identifier are extended.\<close>

definition advances :: "(pystr \<Rightarrow> phase) \<Rightarrow> (pystr \<Rightarrow> phase) \<Rightarrow> bool" where
  "advances p q \<longleftrightarrow> (\<forall>i. \<exists>es. ReplayStore.history (q i) = ReplayStore.history (p i) @ es)"

text \<open>At most the step that starts one claimed action.\<close>

definition starts :: "pystr \<Rightarrow> admission \<Rightarrow> (pystr \<Rightarrow> phase) \<Rightarrow> (pystr \<Rightarrow> phase) \<Rightarrow> bool" where
  "starts i adm p q \<longleftrightarrow> q = p \<or> p i = Claimed adm \<and> q = p(i := Started adm)"

lemma advances_refl: "advances p p"
  by (simp add: advances_def)

lemma advances_trans: "advances p q \<Longrightarrow> advances q r \<Longrightarrow> advances p r"
  unfolding advances_def by (metis append_assoc)

lemma starts_refl: "starts i adm p p"
  by (simp add: starts_def)

lemma starts_trans: "starts i adm p q \<Longrightarrow> starts i adm q r \<Longrightarrow> starts i adm p r"
  by (auto simp: starts_def)

lemma starts_advances: "starts i adm p q \<Longrightarrow> advances p q"
  by (auto simp: starts_def advances_def)

lemma advances_not_claimed:
  assumes "advances p q" "p i = Started adm \<or> p i = Finished adm ok"
  shows "q i \<noteq> Claimed adm'" "q i \<noteq> Unclaimed"
proof -
  from assms(1) obtain es where "ReplayStore.history (q i) = ReplayStore.history (p i) @ es"
    unfolding advances_def by blast
  with assms(2) show "q i \<noteq> Claimed adm'" "q i \<noteq> Unclaimed" by auto
qed

text \<open>The grant and proof of a call verify: for the key of a trusted issuer, under revocations that were just read.\<close>

definition verified_now :: "'w services \<Rightarrow> 'w delegation_boundary \<Rightarrow> verified_call \<Rightarrow> bool" where
  "verified_now sv bd a \<longleftrightarrow> (\<exists>w0 w0' w1 w1' key revocations now v.
     bd_issuer bd w0 (gr_issuer_key_fingerprint (vc_grant a)) = (w0', Inr (Some key))
     \<and> bd_revocations bd w1 = (w1', Inr (Inr revocations))
     \<and> verify_delegated_action (sv_crypto sv) (vc_grant a) (vc_proof a) (Finite now) (Some (vc_payload a)) (Some key)
         (verification_state_of revocations) = Inr v \<and> dv_ok v)"

subsection \<open>Operations over a boundary\<close>

text \<open>Whatever relation the three calls of the boundary respect, every operation of the dispatcher respects.\<close>

locale boundary_reads = quiet_services ph R sv for ph :: "'w \<Rightarrow> 'p" and R and sv :: "'w services" +
  fixes bd :: "'w delegation_boundary" and agt :: "'w agt_control option"
  assumes quiet_agt: "agt_quiet ph agt" and boundary: "sv_boundary sv = Some bd"
    and quiet_issuer: "quiet ph (\<lambda>w. bd_issuer bd w k)" and quiet_revocations: "quiet ph (bd_revocations bd)"
    and quiet_get: "quiet ph (\<lambda>w. bd_get bd w i)"
begin

lemma before_begin_moves:
  "moves ph R (trusted_issuer bd g)" "moves ph R (verify_current sv bd g p payload key f t)"
  unfolding trusted_issuer_def verify_current_def by ((intro moves_intros quiet_issuer quiet_revocations)[1])+

lemma recover_moves: "sv_ledger sv = Some lg \<Longrightarrow> moves ph R (recover_completion sv lg identity name g p sid c)"
  unfolding recover_completion_def Let_def by (intro moves_intros)

lemma verified_ledger_moves: "sv_ledger sv = Some lg \<Longrightarrow> moves ph R (verified_ledger lg t)"
  unfolding verified_ledger_def by (intro moves_intros)

end

locale boundary_moves = boundary_reads ph R sv bd agt for ph :: "'w \<Rightarrow> 'p" and R and sv :: "'w services" and bd agt +
  assumes claim_moves: "R (ph w) (ph (fst (bd_claim bd w i adm t)))"
    and begin_moves: "R (ph w) (ph (fst (bd_begin bd w i adm)))"
    and finish_moves: "R (ph w) (ph (fst (bd_finish bd w i ok rc head res)))"
begin

lemma gate_moves: "moves ph R (require_verified_delegated_call sv name args a)"
proof (cases a)
  case (Some v)
  show ?thesis
    unfolding require_verified_delegated_call_def boundary Some option.case prod.case admit_call_def
    by (intro moves_intros before_begin_moves moves_call_world begin_moves)
qed (auto simp: require_verified_delegated_call_def intro: moves_intros)

lemma execute_moves: "moves ph R (execute_tool sv agt a name arguments)"
  by (intro moves_execute gate_moves quiet_agt)

lemma authorize_moves: "moves ph R (authorize_fresh sv bd name args v key)"
  unfolding authorize_fresh_def by (intro moves_intros before_begin_moves moves_call_world claim_moves)

lemma finish_call_moves: "sv_ledger sv = Some lg \<Longrightarrow> moves ph R (finish_call sv bd lg identity v result)"
  unfolding finish_call_def Let_def by (intro moves_intros verified_ledger_moves moves_call_world finish_moves)

lemma call_delegated_moves: "moves ph R (call_delegated_tool sv agt name args g p payload sid)"
proof (cases "sv_identity sv")
  case (Some identity)
  then show ?thesis
    unfolding call_delegated_tool_def boundary Some option.case prod.case Let_def
    by (intro moves_intros before_begin_moves verified_ledger_moves quiet_get recover_moves authorize_moves execute_moves
        finish_call_moves)
qed (simp add: call_delegated_tool_def boundary moves_raise)

lemma call_moves: "moves ph R (call_tool sv agt name arguments)"
  unfolding call_tool_def by (rule execute_moves)

end

subsection \<open>The boundary\<close>

locale governed_dispatch =
  fixes ph :: "'w \<Rightarrow> pystr \<Rightarrow> phase" and sv :: "'w services" and bd :: "'w delegation_boundary" and agt :: "'w agt_control option"
  assumes quiet_services: "services_quiet ph sv" and quiet_agt: "agt_quiet ph agt"
    and boundary: "sv_boundary sv = Some bd"
    and quiet_issuer: "quiet ph (\<lambda>w. bd_issuer bd w k)" and quiet_revocations: "quiet ph (bd_revocations bd)"
    and quiet_get: "quiet ph (\<lambda>w. bd_get bd w i)"
    and claim_won: "bd_claim bd w i adm t = (w', Inr True) \<Longrightarrow> ph w i = Unclaimed \<and> ph w' = (ph w)(i := Claimed adm)"
    and claim_lost: "bd_claim bd w i adm t = (w', r) \<Longrightarrow> r \<noteq> Inr True \<Longrightarrow> ph w' = ph w"
    and begin_won: "bd_begin bd w i adm = (w', Inr True) \<Longrightarrow> ph w i = Claimed adm \<and> ph w' = (ph w)(i := Started adm)"
    and begin_lost: "bd_begin bd w i adm = (w', r) \<Longrightarrow> r \<noteq> Inr True \<Longrightarrow> ph w' = ph w"
    and finish_won: "bd_finish bd w i ok rc head res = (w', Inr ())
      \<Longrightarrow> \<exists>adm. ph w i = Started adm \<and> ph w' = (ph w)(i := Finished adm ok)"
    and finish_lost: "bd_finish bd w i ok rc head res = (w', Inl e) \<Longrightarrow> ph w' = ph w"

sublocale governed_dispatch \<subseteq> keep: boundary_reads ph "(=)" sv bd agt
  by unfold_locales (auto intro: quiet_services quiet_agt boundary quiet_issuer quiet_revocations quiet_get)

sublocale governed_dispatch \<subseteq> gate: quiet_services ph "starts i adm" sv for i adm
  by unfold_locales (auto intro: quiet_services starts_refl starts_trans)

context governed_dispatch
begin

lemma begin_starts: "starts i adm (ph w) (ph (fst (bd_begin bd w i adm)))"
proof -
  obtain w' r where "bd_begin bd w i adm = (w', r)" by fastforce
  with begin_won[of w i adm w'] begin_lost[of w i adm w' r] show ?thesis by (cases "r = Inr True") (auto simp: starts_def)
qed

lemma claim_advances: "advances (ph w) (ph (fst (bd_claim bd w i adm t)))"
proof -
  obtain w' r where "bd_claim bd w i adm t = (w', r)" by fastforce
  with claim_won[of w i adm t w'] claim_lost[of w i adm t w' r] show ?thesis
    by (cases "r = Inr True") (auto simp: advances_def)
qed

lemma finish_advances: "advances (ph w) (ph (fst (bd_finish bd w i ok rc head res)))"
proof -
  obtain w' r where f: "bd_finish bd w i ok rc head res = (w', r)" by fastforce
  show ?thesis
  proof (cases r)
    case (Inr u)
    with f finish_won[of w i ok rc head res w'] show ?thesis by (auto simp: advances_def)
  qed (use f finish_lost[of w i ok rc head res w'] in \<open>simp add: advances_refl\<close>)
qed

lemma gate_starts: "moves ph (starts (pr_action_id (vc_proof a)) (admission_of sv a)) (require_verified_delegated_call sv name args (Some a))"
  unfolding require_verified_delegated_call_def boundary option.case prod.case
    admit_call_def trusted_issuer_def verify_current_def
  by (intro moves_intros gate.moves_call_world begin_starts quiet_issuer quiet_revocations)

lemma begin_advances: "advances (ph w) (ph (fst (bd_begin bd w i adm)))"
  by (rule starts_advances[OF begin_starts])

end

sublocale governed_dispatch \<subseteq> hist: boundary_moves ph advances sv bd agt
  by unfold_locales (auto intro: quiet_services advances_refl advances_trans quiet_agt boundary quiet_issuer quiet_revocations
      quiet_get claim_advances begin_advances finish_advances)

context governed_dispatch
begin

text \<open>A gate that lets a governed call through has started its action.\<close>

lemma trusted_issuer_Inr:
  "trusted_issuer bd g s = (s', Inr key) \<Longrightarrow> \<exists>w w'. bd_issuer bd w (gr_issuer_key_fingerprint g) = (w', Inr (Some key))"
  by (auto simp: trusted_issuer_def step_simps split: option.splits) (intro exI, assumption)

lemma verify_current_Inr:
  assumes "verify_current sv bd g p payload key f t s = (s', Inr u)"
  shows "\<exists>w w' revocations now v. bd_revocations bd w = (w', Inr (Inr revocations))
       \<and> verify_delegated_action (sv_crypto sv) g p (Finite now) (Some payload) (Some key) (verification_state_of revocations) = Inr v
       \<and> dv_ok v"
proof -
  obtain s1 ans where 1: "call_world (bd_revocations bd) s = (s1, Inr ans)"
    and 2: "(case ans of Inl t \<Rightarrow> of_result (Inl (f t)) | Inr revocations \<Rightarrow> bind_act (on_world (sv_now sv)) (\<lambda>now.
        bind_act (of_result (of_delegation (verify_delegated_action (sv_crypto sv) g p (Finite now) (Some payload)
            (Some key) (verification_state_of revocations)))) (\<lambda>checked.
          require (dv_ok checked) (t @ reason_text (dv_reason checked))))) s1 = (s', Inr u)"
    using assms unfolding verify_current_def by (rule bind_act_InrE)
  then obtain revocations where r: "ans = Inr revocations" by (cases ans) auto
  from 1 r obtain w' where "bd_revocations bd (di_world s) = (w', Inr (Inr revocations))" by (auto simp: call_world_Inr)
  moreover from 2 r obtain now v where "verify_delegated_action (sv_crypto sv) g p (Finite now) (Some payload) (Some key)
      (verification_state_of revocations) = Inr v" "dv_ok v" by (auto simp: step_simps)
  ultimately show ?thesis by blast
qed

lemma admit_passes:
  assumes "admit_call sv bd a name args s = (s', Inr x)"
  shows "x = isolated args \<and> pr_action (vc_proof a) = name \<and> verified_now sv bd a
    \<and> (\<exists>signed_call. sv_loads sv (vc_payload a) = Inr signed_call \<and> canonical_bytes signed_call = vc_payload a
         \<and> py_eq (kw (members signed_call) ''arguments'') (JObj args))
    \<and> (\<exists>s1 s2 target. delegation_target_for sv name args s1 = (s2, Inr target)
         \<and> py_eq (JObj (pr_target (vc_proof a))) (JObj target) \<and> ph (di_world s1) = ph (di_world s))
    \<and> ph (di_world s) (pr_action_id (vc_proof a)) = Claimed (admission_of sv a)
    \<and> ph (di_world s') = (ph (di_world s))(pr_action_id (vc_proof a) := Started (admission_of sv a))"
proof -
  from assms obtain signed_call key u1 u2 target where 1: "pr_action (vc_proof a) = name" "sv_loads sv (vc_payload a) = Inr signed_call"
      "canonical_bytes signed_call = vc_payload a" "py_eq (kw (members signed_call) ''arguments'') (JObj args)"
      "x = isolated args" "py_eq (JObj (pr_target (vc_proof a))) (JObj target)"
    and 2: "trusted_issuer bd (vc_grant a) s = (u1, Inr key)"
      "verify_current sv bd (vc_grant a) (vc_proof a) (vc_payload a) key OtherError ''delegation denied at actuator: '' u1 = (u2, Inr ())"
    and 3: "\<exists>u3 w. delegation_target_for sv name args u2 = (u3, Inr target)
      \<and> bd_begin bd (di_world u3) (pr_action_id (vc_proof a)) (admission_of sv a) = (w, Inr True) \<and> s' = u3\<lparr>di_world := w\<rparr>"
    unfolding admit_call_def by (auto simp: step_simps split: sum.splits if_splits)
  from 3 obtain u3 w where 4: "delegation_target_for sv name args u2 = (u3, Inr target)"
      "bd_begin bd (di_world u3) (pr_action_id (vc_proof a)) (admission_of sv a) = (w, Inr True)" "s' = u3\<lparr>di_world := w\<rparr>" by blast
  have same: "ph (di_world u1) = ph (di_world s)" "ph (di_world u2) = ph (di_world u1)" "ph (di_world u3) = ph (di_world u2)"
    using movesD[OF keep.before_begin_moves(1) 2(1)] movesD[OF keep.before_begin_moves(2) 2(2)] movesD[OF keep.moves_target_for 4(1)] by simp_all
  have "verified_now sv bd a"
    using trusted_issuer_Inr[OF 2(1)] verify_current_Inr[OF 2(2)] unfolding verified_now_def by blast
  moreover have "\<exists>s1 s2 target. delegation_target_for sv name args s1 = (s2, Inr target)
      \<and> py_eq (JObj (pr_target (vc_proof a))) (JObj target) \<and> ph (di_world s1) = ph (di_world s)"
    using 1(6) 4(1) same by (intro exI[of _ u2] exI[of _ u3] exI[of _ target]) simp
  moreover have "ph (di_world s) (pr_action_id (vc_proof a)) = Claimed (admission_of sv a)"
    "ph (di_world s') = (ph (di_world s))(pr_action_id (vc_proof a) := Started (admission_of sv a))"
    using begin_won[OF 4(2)] same 4(3) by simp_all
  ultimately show ?thesis using 1 by blast
qed

lemma gate_passes:
  assumes "require_verified_delegated_call sv name args a s = (s', Inr x)" "governed_profile sv"
  obtains v where "a = Some v" "admit_call sv bd v name args s = (s', Inr x)"
  using assms boundary by (auto simp: require_verified_delegated_call_def split: option.splits)

subsection \<open>Calls\<close>

lemma execute_starts:
  "moves ph (starts (pr_action_id (vc_proof v)) (admission_of sv v)) (execute_tool sv agt (Some v) name arguments)"
  by (intro gate.moves_execute gate_starts quiet_agt)

lemma execute_unauthorized_keeps:
  assumes "governed_profile sv"
  shows "moves ph (=) (execute_tool sv agt None name arguments)"
  by (rule keep.moves_execute) (auto simp: require_verified_delegated_call_def assms intro: quiet_agt moves_intros)

subsection \<open>What a returned delegated call has done\<close>

lemma verified_ledger_Inr: "verified_ledger lg t s = (s', Inr u) \<Longrightarrow> \<exists>w w'. lgs_verify lg w = (w', Inr True)"
  by (auto simp: verified_ledger_def step_simps) (intro exI, assumption)

lemma finish_call_Inr:
  assumes "finish_call sv bd lg identity v result s = (s', Inr final)" "sv_ledger sv = Some lg"
  shows "\<exists>adm head now r. ph (di_world s) (pr_action_id (vc_proof v)) = Started adm
      \<and> ph (di_world s') = (ph (di_world s))(pr_action_id (vc_proof v) := Finished adm (truthy (kw result ''ok'')))
      \<and> sign_delegated_receipt (sv_crypto sv) (vc_grant v) (vc_proof v) identity result
          (if truthy (kw result ''ok'') then ''succeeded'' else ''failed'') head (JFloat now) = Inr r
      \<and> final = AList.update ''delegated_receipt'' (JObj (receipt_to_dict r)) result
      \<and> (\<exists>w w'. lgs_verify lg w = (w', Inr True))"
proof -
  let ?ok = "truthy (kw result ''ok'')" and ?i = "pr_action_id (vc_proof v)"
  from assms(1) obtain u1 u2 u3 head now r where 1: "verified_ledger lg ''delegated completion audit ledger failed verification'' s = (u1, Inr ())"
      "call_world (lgs_head_hash lg) u1 = (u2, Inr head)" "on_world (sv_now sv) u2 = (u3, Inr now)"
      "sign_delegated_receipt (sv_crypto sv) (vc_grant v) (vc_proof v) identity result
          (if ?ok then ''succeeded'' else ''failed'') head (JFloat now) = Inr r"
      "final = AList.update ''delegated_receipt'' (JObj (receipt_to_dict r)) result"
    and 2: "catch_act (call_world (\<lambda>w. bd_finish bd w ?i ?ok (receipt_to_dict r) head final))
        (\<lambda>_. raise_error ''delegation outcome could not be durably finalized'') u3 = (s', Inr ())"
    unfolding finish_call_def Let_def by (auto elim!: bind_act_InrE)
  from 2 obtain w where 3: "bd_finish bd (di_world u3) ?i ?ok (receipt_to_dict r) head final = (w, Inr ())" "s' = u3\<lparr>di_world := w\<rparr>"
    by (auto simp: catch_act_def call_world_def call_exn_def as_exn_def raise_error_def split: prod.splits sum.splits)
  have "ph (di_world u1) = ph (di_world s)" using movesD[OF keep.verified_ledger_moves[OF assms(2)] 1(1)] by simp
  moreover have "ph (di_world u2) = ph (di_world u1)"
    using movesD[OF keep.moves_call_world_quiet[OF keep.quiet_optional(3)[OF assms(2)]] 1(2)] by simp
  moreover have "ph (di_world u3) = ph (di_world u2)"
    using movesD[OF keep.moves_on_world_quiet[OF keep.quiet_facts(1)] 1(3)] by simp
  ultimately obtain adm where "ph (di_world s) ?i = Started adm" "ph (di_world s') = (ph (di_world s))(?i := Finished adm ?ok)"
    using finish_won[OF 3(1)] 3(2) by auto
  with 1 verified_ledger_Inr[OF 1(1)] show ?thesis by blast
qed

lemma authorize_fresh_Inr:
  assumes "authorize_fresh sv bd name args v key s = (s', Inr u)"
  shows "ph (di_world s) (pr_action_id (vc_proof v)) = Unclaimed
    \<and> ph (di_world s') = (ph (di_world s))(pr_action_id (vc_proof v) := Claimed (admission_of sv v))"
proof -
  from assms obtain u1 u2 u3 w target now where
      1: "verify_current sv bd (vc_grant v) (vc_proof v) (vc_payload v) key
        (\<lambda>_. DispatchError ''delegation revocation state is invalid'') ''delegation denied: '' s = (u1, Inr ())"
      "delegation_target_for sv name args u1 = (u2, Inr target)" "on_world (sv_now sv) u2 = (u3, Inr now)"
      "bd_claim bd (di_world u3) (pr_action_id (vc_proof v)) (admission_of sv v) now = (w, Inr True)" "s' = u3\<lparr>di_world := w\<rparr>"
    unfolding authorize_fresh_def by (auto elim!: bind_act_InrE simp: call_world_Inr)
  have "ph (di_world u1) = ph (di_world s)" "ph (di_world u2) = ph (di_world u1)" "ph (di_world u3) = ph (di_world u2)"
    using movesD[OF keep.before_begin_moves(2) 1(1)] movesD[OF keep.moves_target_for 1(2)]
      movesD[OF keep.moves_on_world_quiet[OF keep.quiet_facts(1)] 1(3)] by simp_all
  with claim_won[OF 1(4)] 1(5) show ?thesis by simp
qed

text \<open>A fresh call that returns has taken its action through the whole protocol.\<close>

lemma fresh_call_completes:
  assumes "authorize_fresh sv bd name args v key s = (s1, Inr ())"
    and "execute_tool sv agt (Some v) name arguments s1 = (s2, Inr result)"
    and "finish_call sv bd lg identity v result s2 = (s3, Inr final)" "sv_ledger sv = Some lg"
  shows "ph (di_world s) (pr_action_id (vc_proof v)) = Unclaimed
    \<and> ph (di_world s2) = (ph (di_world s))(pr_action_id (vc_proof v) := Started (admission_of sv v))
    \<and> ph (di_world s3) = (ph (di_world s))(pr_action_id (vc_proof v) := Finished (admission_of sv v) (truthy (kw result ''ok'')))"
  using authorize_fresh_Inr[OF assms(1)] movesD[OF execute_starts assms(2)] finish_call_Inr[OF assms(3,4)]
  by (auto simp: starts_def)

lemma call_delegated_Inr:
  assumes "call_delegated_tool sv agt name args g0 p0 payload sid s = (s', Inr final)"
  obtains (recovered) lg identity isolated_args g p c u1 u2 s1 key where
      "sv_ledger sv = Some lg" "sv_identity sv = Some identity"
      "read_delegated_call sv name args g0 p0 payload sid = Inr (isolated_args, g, p)"
      "trusted_issuer bd g s = (u1, Inr key)"
      "verified_ledger lg ''delegated actuation audit ledger failed preflight verification'' u1 = (u2, Inr ())"
      "call_world (\<lambda>w. bd_get bd w (pr_action_id p)) u2 = (s1, Inr (Some c))" "co_outcome c \<noteq> Admitted"
      "recover_completion sv lg identity name g p sid c s1 = (s', Inr final)"
  | (fresh) lg identity isolated_args g p key s1 s2 s3 result where
      "sv_ledger sv = Some lg" "sv_identity sv = Some identity"
      "read_delegated_call sv name args g0 p0 payload sid = Inr (isolated_args, g, p)"
      "ph (di_world s1) = ph (di_world s)"
      "authorize_fresh sv bd name isolated_args \<lparr>vc_grant = g, vc_proof = p, vc_payload = payload, vc_session_id = sid\<rparr> key s1 = (s2, Inr ())"
      "execute_tool sv agt (Some \<lparr>vc_grant = g, vc_proof = p, vc_payload = payload, vc_session_id = sid\<rparr>) name (Some (JObj isolated_args)) s2 = (s3, Inr result)"
      "finish_call sv bd lg identity \<lparr>vc_grant = g, vc_proof = p, vc_payload = payload, vc_session_id = sid\<rparr> result s3 = (s', Inr final)"
proof -
  obtain identity where id: "sv_identity sv = Some identity"
    using assms by (cases "sv_identity sv") (auto simp: call_delegated_tool_def boundary)
  from assms obtain isolated_args g p where rd: "read_delegated_call sv name args g0 p0 payload sid = Inr (isolated_args, g, p)"
    unfolding call_delegated_tool_def boundary id by (auto simp: bind_act_Inr)
  obtain lg where lg: "sv_ledger sv = Some lg"
    using assms by (cases "sv_ledger sv") (auto simp: call_delegated_tool_def boundary id rd bind_act_Inr)
  let ?v = "\<lparr>vc_grant = g, vc_proof = p, vc_payload = payload, vc_session_id = sid\<rparr>"
  from assms obtain key u1 u2 u3 c where
      1: "trusted_issuer bd g s = (u1, Inr key)"
      "verified_ledger lg ''delegated actuation audit ledger failed preflight verification'' u1 = (u2, Inr ())"
      "call_world (\<lambda>w. bd_get bd w (pr_action_id p)) u2 = (u3, Inr c)"
    and 2: "(if (case c of None \<Rightarrow> False | Some c \<Rightarrow> co_outcome c \<noteq> Admitted)
             then recover_completion sv lg identity name g p sid (the c)
             else (bind_act (authorize_fresh sv bd name isolated_args ?v key) (\<lambda>_.
                   bind_act (execute_tool sv agt (Some ?v) name (Some (JObj isolated_args))) (\<lambda>result.
                     finish_call sv bd lg identity ?v result)))) u3 = (s', Inr final)"
    unfolding call_delegated_tool_def boundary id option.case prod.case Let_def
    by (auto elim!: bind_act_InrE simp: rd lg)
  have same: "ph (di_world u3) = ph (di_world s)"
    using movesD[OF keep.before_begin_moves(1) 1(1)] movesD[OF keep.verified_ledger_moves[OF lg] 1(2)]
      movesD[OF keep.moves_call_world_quiet[OF quiet_get] 1(3)] by simp
  show ?thesis
  proof (cases "\<exists>k. c = Some k \<and> co_outcome k \<noteq> Admitted")
    case True
    then obtain k where k: "c = Some k" "co_outcome k \<noteq> Admitted" by blast
    with 2 have "recover_completion sv lg identity name g p sid k u3 = (s', Inr final)" by simp
    with 1 k lg id rd show ?thesis by (intro recovered) simp_all
  next
    case False
    then have "\<not> (case c of None \<Rightarrow> False | Some c \<Rightarrow> co_outcome c \<noteq> Admitted)" by (auto split: option.splits)
    with 2 have "bind_act (authorize_fresh sv bd name isolated_args ?v key) (\<lambda>_.
                   bind_act (execute_tool sv agt (Some ?v) name (Some (JObj isolated_args))) (\<lambda>result.
                     finish_call sv bd lg identity ?v result)) u3 = (s', Inr final)" by simp
    then show ?thesis using same lg id rd by (auto elim!: bind_act_InrE intro!: fresh)
  qed
qed

end

subsection \<open>Actions that are known already\<close>

text \<open>Nothing moves as long as the action is known to the store.\<close>

definition moves_only_new :: "pystr \<Rightarrow> (pystr \<Rightarrow> phase) \<Rightarrow> (pystr \<Rightarrow> phase) \<Rightarrow> bool" where
  "moves_only_new i p q \<longleftrightarrow> p i \<noteq> Unclaimed \<longrightarrow> q = p"

sublocale governed_dispatch \<subseteq> known: boundary_reads ph "moves_only_new i" sv bd agt for i
  by unfold_locales (auto simp: moves_only_new_def intro: quiet_services quiet_agt boundary quiet_issuer quiet_revocations quiet_get)

context governed_dispatch
begin

lemma authorize_only_new: "moves ph (moves_only_new (pr_action_id (vc_proof v))) (authorize_fresh sv bd name args v key)"
proof -
  have "moves_only_new i (ph w) (ph (fst (bd_claim bd w i adm t)))" for w i adm t
  proof -
    obtain w' r where "bd_claim bd w i adm t = (w', r)" by fastforce
    with claim_won[of w i adm t w'] claim_lost[of w i adm t w' r] show ?thesis
      by (cases "r = Inr True") (auto simp: moves_only_new_def)
  qed
  then show ?thesis
    unfolding authorize_fresh_def by (intro moves_intros known.before_begin_moves known.moves_call_world)
qed

lemma authorize_known:
  assumes "ph (di_world s) (pr_action_id (vc_proof v)) \<noteq> Unclaimed" "authorize_fresh sv bd name args v key s = (s', r)"
  shows "ph (di_world s') = ph (di_world s) \<and> (\<exists>e. r = Inl e)"
  using movesD[OF authorize_only_new assms(2)] authorize_fresh_Inr[of name args v key s s'] assms
  by (cases r) (auto simp: moves_only_new_def)

end

end
