(* ===== verification/GovernedHost.thy ===== *)
theory GovernedHost
  imports DispatchLocale
begin

text \<open>
  The dispatcher beside the real replay store. The world of a host is an outside world of any
  kind, on which the injected services act, and the table of consumed actions
  (\<open>SQLiteActionReplayStore\<close>), which only the three calls of the delegation boundary change.
  Every service of the outside is lifted to the host; the interpretation \<open>host\<close> discharges the
  laws of \<open>governed_dispatch\<close> for all of them at once, by the proofs about the store.
\<close>

record 'o host =
  ho_outside :: 'o
  ho_replay :: replay_store

definition host_phase :: "'o host \<Rightarrow> pystr \<Rightarrow> phase" where
  "host_phase w = store_phase (ho_replay w)"

definition outside :: "('o \<Rightarrow> 'o \<times> 'a) \<Rightarrow> 'o host \<Rightarrow> 'o host \<times> 'a" where
  "outside f w = (case f (ho_outside w) of (x, r) \<Rightarrow> (w\<lparr>ho_outside := x\<rparr>, r))"

subsection \<open>Services\<close>

definition host_ledger :: "'o ledger_service \<Rightarrow> 'o host ledger_service" where
  "host_ledger lg =
     \<lparr>lgs_log = (\<lambda>w c. outside (\<lambda>x. lgs_log lg x c) w), lgs_verify = outside (lgs_verify lg),
      lgs_head_hash = outside (lgs_head_hash lg), lgs_contains = (\<lambda>w h. outside (\<lambda>x. lgs_contains lg x h) w)\<rparr>"

definition host_policy :: "'o policy_service \<Rightarrow> 'o host policy_service" where
  "host_policy check = (\<lambda>w agent action app classification identity_type.
     outside (\<lambda>x. check x agent action app classification identity_type) w)"

definition host_queue :: "'o queue_service \<Rightarrow> 'o host queue_service" where
  "host_queue q =
     \<lparr>qs_consume = (\<lambda>w i a n c. outside (\<lambda>x. qs_consume q x i a n c) w),
      qs_verify_binding = map_option (\<lambda>f w p a n c. outside (\<lambda>x. f x p a n c) w) (qs_verify_binding q)\<rparr>"

definition host_verifier :: "'o target_verifier \<Rightarrow> 'o host target_verifier" where
  "host_verifier v = (\<lambda>w h e. outside (\<lambda>x. v x h e) w)"

definition host_router :: "'o router \<Rightarrow> 'o host router" where
  "host_router r =
     \<lparr>ro_route = (\<lambda>w h t l b. outside (\<lambda>x. ro_route r x h t l b) w), ro_classify = (\<lambda>w h. outside (\<lambda>x. ro_classify r x h) w)\<rparr>"

definition host_tpm :: "'o tpm_service \<Rightarrow> 'o host tpm_service" where
  "host_tpm t =
     \<lparr>tpm_urandom = outside (tpm_urandom t), tpm_create = (\<lambda>w n. outside (\<lambda>x. tpm_create t x n) w),
      tpm_verify = (\<lambda>w c. outside (\<lambda>x. tpm_verify t x c) w), tpm_probe = outside (tpm_probe t)\<rparr>"

definition host_agt :: "'o agt_control \<Rightarrow> 'o host agt_control" where
  "host_agt c =
     \<lparr>agt_before = (\<lambda>w n d p. outside (\<lambda>x. agt_before c x n d p) w), agt_after = (\<lambda>w n d. outside (\<lambda>x. agt_after c x n d) w)\<rparr>"

subsection \<open>The delegation boundary\<close>

definition map_error :: "('e \<Rightarrow> 'f) \<Rightarrow> 'e + 'a \<Rightarrow> 'f + 'a" where
  "map_error f r = (case r of Inl e \<Rightarrow> Inl (f e) | Inr x \<Rightarrow> Inr x)"

text \<open>The trust store and the revocation provider, whether a statement of the store raises, and the text it raises with.\<close>

record 'o boundary_inputs =
  bi_issuer :: "'o \<Rightarrow> pystr \<Rightarrow> 'o \<times> (pystr + bytes option)"
  bi_revocations :: "'o \<Rightarrow> 'o \<times> (pystr + (pystr + revocation_state))"
  bi_fault :: "'o \<Rightarrow> 'o \<times> bool"
  bi_text :: "replay_error \<Rightarrow> pystr"

definition on_store ::
    "'o boundary_inputs \<Rightarrow> (replay_store \<Rightarrow> bool \<Rightarrow> replay_store \<times> (replay_error + 'a)) \<Rightarrow> 'o host \<Rightarrow> 'o host \<times> (pystr + 'a)" where
  "on_store bi f w =
     (case outside (bi_fault bi) w of
        (w1, fault) \<Rightarrow> case f (ho_replay w1) fault of (st, r) \<Rightarrow> (w1\<lparr>ho_replay := st\<rparr>, map_error (bi_text bi) r))"

definition host_boundary :: "'o boundary_inputs \<Rightarrow> 'o host delegation_boundary" where
  "host_boundary bi =
     \<lparr>bd_issuer = (\<lambda>w k. outside (\<lambda>x. bi_issuer bi x k) w), bd_revocations = outside (bi_revocations bi),
      bd_claim = (\<lambda>w i adm t. on_store bi (\<lambda>st fault. store_claim st i adm (Finite t) fault) w),
      bd_begin = (\<lambda>w i adm. on_store bi (\<lambda>st fault. store_begin st i adm fault) w),
      bd_finish = (\<lambda>w i ok rc head res. on_store bi (\<lambda>st fault. store_finish st i ok (Some rc) head (Some res) fault) w),
      bd_get = (\<lambda>w i. on_store bi (\<lambda>st fault. (st, if fault then Inl ReplayDatabaseError else Inr (store_get st i))) w)\<rparr>"

definition host_services :: "'o services \<Rightarrow> 'o boundary_inputs \<Rightarrow> 'o host services" where
  "host_services sv bi =
     \<lparr>sv_profile = sv_profile sv, sv_identity_type = sv_identity_type sv, sv_crypto = sv_crypto sv, sv_paths = sv_paths sv,
      sv_loads = sv_loads sv, sv_lease_keys = sv_lease_keys sv, sv_sign = sv_sign sv, sv_public_key = sv_public_key sv,
      sv_now = outside (sv_now sv), sv_monotonic_ms = outside (sv_monotonic_ms sv),
      sv_sleep_ms = (\<lambda>w d. w\<lparr>ho_outside := sv_sleep_ms sv (ho_outside w) d\<rparr>), sv_poll_limit = sv_poll_limit sv,
      sv_uuid4 = outside (sv_uuid4 sv), sv_ledger = map_option host_ledger (sv_ledger sv),
      sv_policy = map_option host_policy (sv_policy sv),
      sv_is_active = (\<lambda>w a. outside (\<lambda>x. sv_is_active sv x a) w), sv_register = (\<lambda>w a. outside (\<lambda>x. sv_register sv x a) w),
      sv_queue = map_option host_queue (sv_queue sv), sv_verifier = map_option host_verifier (sv_verifier sv),
      sv_resolver = map_option (\<lambda>(rs, enumerate_windows). (rs, outside enumerate_windows)) (sv_resolver sv),
      sv_router = map_option host_router (sv_router sv),
      sv_reader = map_option (\<lambda>f w h. outside (\<lambda>x. f x h) w) (sv_reader sv), sv_tpm = map_option host_tpm (sv_tpm sv),
      sv_boundary = Some (host_boundary bi), sv_identity = sv_identity sv,
      sv_guard = map_result host_verifier (sv_guard sv),
      sv_mesh = (\<lambda>w b. outside (\<lambda>x. sv_mesh sv x b) w), sv_channels = outside (sv_channels sv),
      sv_open_pipe = (\<lambda>w n. outside (\<lambda>x. sv_open_pipe sv x n) w)\<rparr>"

lemma host_services_sel [simp]:
  "sv_profile (host_services sv bi) = sv_profile sv"
  "sv_identity_type (host_services sv bi) = sv_identity_type sv"
  "sv_crypto (host_services sv bi) = sv_crypto sv"
  "sv_paths (host_services sv bi) = sv_paths sv"
  "sv_loads (host_services sv bi) = sv_loads sv"
  "sv_lease_keys (host_services sv bi) = sv_lease_keys sv"
  "sv_sign (host_services sv bi) = sv_sign sv"
  "sv_public_key (host_services sv bi) = sv_public_key sv"
  "sv_now (host_services sv bi) = outside (sv_now sv)"
  "sv_monotonic_ms (host_services sv bi) = outside (sv_monotonic_ms sv)"
  "sv_sleep_ms (host_services sv bi) = (\<lambda>w d. w\<lparr>ho_outside := sv_sleep_ms sv (ho_outside w) d\<rparr>)"
  "sv_poll_limit (host_services sv bi) = sv_poll_limit sv"
  "sv_uuid4 (host_services sv bi) = outside (sv_uuid4 sv)"
  "sv_ledger (host_services sv bi) = map_option host_ledger (sv_ledger sv)"
  "sv_policy (host_services sv bi) = map_option host_policy (sv_policy sv)"
  "sv_is_active (host_services sv bi) = (\<lambda>w a. outside (\<lambda>x. sv_is_active sv x a) w)"
  "sv_register (host_services sv bi) = (\<lambda>w a. outside (\<lambda>x. sv_register sv x a) w)"
  "sv_queue (host_services sv bi) = map_option host_queue (sv_queue sv)"
  "sv_verifier (host_services sv bi) = map_option host_verifier (sv_verifier sv)"
  "sv_resolver (host_services sv bi) = map_option (\<lambda>(rs, enumerate_windows). (rs, outside enumerate_windows)) (sv_resolver sv)"
  "sv_router (host_services sv bi) = map_option host_router (sv_router sv)"
  "sv_reader (host_services sv bi) = map_option (\<lambda>f w h. outside (\<lambda>x. f x h) w) (sv_reader sv)"
  "sv_tpm (host_services sv bi) = map_option host_tpm (sv_tpm sv)"
  "sv_boundary (host_services sv bi) = Some (host_boundary bi)"
  "sv_identity (host_services sv bi) = sv_identity sv"
  "sv_guard (host_services sv bi) = map_result host_verifier (sv_guard sv)"
  "sv_mesh (host_services sv bi) = (\<lambda>w b. outside (\<lambda>x. sv_mesh sv x b) w)"
  "sv_channels (host_services sv bi) = outside (sv_channels sv)"
  "sv_open_pipe (host_services sv bi) = (\<lambda>w n. outside (\<lambda>x. sv_open_pipe sv x n) w)"
  by (simp_all add: host_services_def)

subsection \<open>The laws\<close>

lemma quiet_outside [simp]: "quiet host_phase (outside f)"
  by (simp add: quiet_def host_phase_def outside_def split: prod.split)

lemma quiet_outside_of [simp]: "quiet host_phase (\<lambda>w. outside (f a) w)"
  by (simp add: quiet_def host_phase_def outside_def split: prod.split)

lemma host_services_quiet: "services_quiet host_phase (host_services sv bi)"
proof -
  have sleep: "host_phase (w\<lparr>ho_outside := x\<rparr>) = host_phase w" for w :: "'o host" and x by (simp add: host_phase_def)
  show ?thesis
    unfolding services_quiet_def
    by (auto simp: host_services_def sleep host_ledger_def ledger_quiet_def host_policy_def host_queue_def queue_quiet_def
        host_verifier_def verifier_quiet_def host_router_def router_quiet_def host_tpm_def tpm_quiet_def map_result_Inr_iff
        split: prod.splits)
qed

lemma host_agt_quiet: "agt_quiet host_phase (map_option host_agt agt)"
  by (auto simp: agt_quiet_def host_agt_def)

lemma on_store_phase:
  assumes "on_store bi f w = (w', r)"
  obtains fault st' r' where "f (ho_replay w) fault = (ho_replay w', r')" "r = map_error (bi_text bi) r'"
  using assms by (auto simp: on_store_def outside_def split: prod.splits)

lemma map_error_Inr [simp]: "map_error f r = Inr x \<longleftrightarrow> r = Inr x" "Inr x = map_error f r \<longleftrightarrow> r = Inr x"
  by (cases r; auto simp: map_error_def)+

interpretation host: governed_dispatch host_phase "host_services sv bi" "host_boundary bi" "map_option host_agt agt"
  for sv :: "'o services" and bi agt
proof (unfold_locales, goal_cases)
  case 1
  then show ?case by (rule host_services_quiet)
next
  case 2
  then show ?case by (rule host_agt_quiet)
next
  case 3
  then show ?case by (simp add: host_services_def)
next
  case (4 k)
  then show ?case by (simp add: host_boundary_def)
next
  case 5
  then show ?case by (simp add: host_boundary_def)
next
  case (6 i)
  then show ?case
    by (auto simp: host_boundary_def quiet_def host_phase_def on_store_def outside_def split: prod.split)
next
  case (7 w i adm t w')
  then obtain fault where "store_claim (ho_replay w) i adm (Finite t) fault = (ho_replay w', Inr True)"
    by (auto simp: host_boundary_def elim!: on_store_phase)
  from acp.claim_won[OF this] show ?case by (simp add: host_phase_def)
next
  case (8 w i adm t w' r)
  then obtain fault r' where "store_claim (ho_replay w) i adm (Finite t) fault = (ho_replay w', r')" "r' \<noteq> Inr True"
    by (auto simp: host_boundary_def elim!: on_store_phase)
  from acp.claim_lost[OF this] show ?case by (simp add: host_phase_def)
next
  case (9 w i adm w')
  then obtain fault where "store_begin (ho_replay w) i adm fault = (ho_replay w', Inr True)"
    by (auto simp: host_boundary_def elim!: on_store_phase)
  from acp.start_won[OF this] show ?case by (simp add: host_phase_def)
next
  case (10 w i adm w' r)
  then obtain fault r' where "store_begin (ho_replay w) i adm fault = (ho_replay w', r')" "r' \<noteq> Inr True"
    by (auto simp: host_boundary_def elim!: on_store_phase)
  from acp.start_lost[OF this] show ?case by (simp add: host_phase_def)
next
  case (11 w i ok rc head res w')
  then obtain fault where "store_finish (ho_replay w) i ok (Some rc) head (Some res) fault = (ho_replay w', Inr ())"
    by (auto simp: host_boundary_def elim!: on_store_phase)
  from acp.finish_won[OF this] show ?case by (simp add: host_phase_def)
next
  case (12 w i ok rc head res w' e)
  then obtain fault e' where "store_finish (ho_replay w) i ok (Some rc) head (Some res) fault = (ho_replay w', Inl e')"
    by (auto simp: host_boundary_def map_error_def elim!: on_store_phase split: sum.splits)
  from acp.finish_lost[OF this] show ?case by (simp add: host_phase_def)
qed

subsection \<open>Rows of the store\<close>

text \<open>A row that records an outcome is never written again; reading writes nothing.\<close>

definition keeps_outcomes :: "replay_store \<Rightarrow> replay_store \<Rightarrow> bool" where
  "keeps_outcomes st st' \<longleftrightarrow> (\<forall>i c. map_of st i = Some c \<and> co_outcome c \<noteq> Admitted \<longrightarrow> map_of st' i = Some c)"

lemma keeps_outcomes_refl: "keeps_outcomes st st"
  by (simp add: keeps_outcomes_def)

lemma keeps_outcomes_trans: "keeps_outcomes st st' \<Longrightarrow> keeps_outcomes st' st'' \<Longrightarrow> keeps_outcomes st st''"
  by (auto simp: keeps_outcomes_def)

lemma update_where_keeps:
  assumes "update_where P f i st = (st', b)" "\<And>c. P c \<Longrightarrow> co_outcome c = Admitted"
  shows "keeps_outcomes st st'"
  using assms by (auto simp: update_where_def keeps_outcomes_def split: option.splits if_splits)

lemma store_keeps_outcomes:
  "keeps_outcomes st (fst (store_claim st i adm t fault))" "keeps_outcomes st (fst (store_begin st i adm fault))"
  "keeps_outcomes st (fst (store_finish st i ok rc head res fault))"
proof -
  show "keeps_outcomes st (fst (store_claim st i adm t fault))"
    by (auto simp: store_claim_def keeps_outcomes_def map_add_def split: pyfloat.split option.split)
  show "keeps_outcomes st (fst (store_begin st i adm fault))" "keeps_outcomes st (fst (store_finish st i ok rc head res fault))"
    by (auto simp: store_begin_def store_finish_def keeps_outcomes_refl split: prod.split elim!: update_where_keeps)
qed

lemma on_store_keeps:
  assumes "\<And>st fault. keeps_outcomes st (fst (f st fault))"
  shows "keeps_outcomes (ho_replay w) (ho_replay (fst (on_store bi f w)))"
proof -
  obtain w' r where "on_store bi f w = (w', r)" by fastforce
  with assms[of "ho_replay w"] show ?thesis by (auto elim!: on_store_phase) (metis fst_conv)
qed

lemma quiet_outside_store [simp]: "quiet ho_replay (outside f)" "quiet ho_replay (\<lambda>w. outside (g a) w)"
  by (simp_all add: quiet_def outside_def split: prod.split)

lemma host_services_quiet_store: "services_quiet ho_replay (host_services sv bi)"
  unfolding services_quiet_def
  by (auto simp: host_services_def host_ledger_def ledger_quiet_def host_policy_def host_queue_def queue_quiet_def
      host_verifier_def verifier_quiet_def host_router_def router_quiet_def host_tpm_def tpm_quiet_def map_result_Inr_iff
      split: prod.splits)

lemma host_boundary_quiet_store:
  "quiet ho_replay (\<lambda>w. bd_issuer (host_boundary bi) w k)" "quiet ho_replay (bd_revocations (host_boundary bi))"
  "quiet ho_replay (\<lambda>w. bd_get (host_boundary bi) w i)"
  by (auto simp: host_boundary_def quiet_def on_store_def outside_def split: prod.split)

lemma host_agt_quiet_store: "agt_quiet ho_replay (map_option host_agt agt)"
  by (auto simp: agt_quiet_def host_agt_def)

interpretation read: boundary_reads ho_replay "(=)" "host_services sv bi" "host_boundary bi" "map_option host_agt agt"
  for sv :: "'o services" and bi agt
  by unfold_locales (auto simp: host_services_def intro: host_services_quiet_store[unfolded host_services_def] host_agt_quiet_store host_boundary_quiet_store)

interpretation row: boundary_moves ho_replay keeps_outcomes "host_services sv bi" "host_boundary bi" "map_option host_agt agt"
  for sv :: "'o services" and bi agt
proof (unfold_locales, goal_cases)
  case 1
  then show ?case by (rule keeps_outcomes_refl)
next
  case 2
  then show ?case by (rule keeps_outcomes_trans)
next
  case 3
  then show ?case by (rule host_services_quiet_store)
next
  case 4
  then show ?case by (rule host_agt_quiet_store)
next
  case 5
  then show ?case by (simp add: host_services_def)
qed (auto simp: host_boundary_def intro: host_boundary_quiet_store[unfolded host_boundary_def, simplified] on_store_keeps store_keeps_outcomes)

end
