(* ===== verification/DispatchDemo.thy ===== *)
theory DispatchDemo
  imports GovernedHost ReceiptSpec McpToolsSpec
begin

text \<open>
  A deployment of the dispatcher on which the properties of DispatchSpec are exercised: an
  enterprise host at time 7 with one trusted issuer and nothing revoked, a grant for
  \<open>sc_identity_sign\<close> with the software key, and one action signed under it.
\<close>

definition sign_arguments :: json_object where
  "sign_arguments = [(''payload_hex'', JStr ''00'')]"

definition sign_target :: json_object where
  "sign_target = [(''payload_sha256'', JStr (dc_sha256 demo_delegation [CHR 0x00])), (''key_provider'', JStr ''software'')]"

definition signed_text :: json_object where
  "signed_text = [(''arguments'', JObj sign_arguments), (''sessionId'', JStr ''s''), (''tool'', JStr ''sc_identity_sign'')]"

definition sign_grant :: "delegation_error + grant" where
  "sign_grant = issue_delegation_grant demo_delegation (demo_signer CHR ''i'') ''owner'' (replicate 32 (CHR ''a''))
     [''sc_identity_sign''] [(''key_provider'', JStr ''software'')] ''m'' ''CUI'' (JInt 0) (JInt 1) (JInt 9) (JInt 0) ''n''"

definition sign_proof :: "grant \<Rightarrow> delegation_error + action_proof" where
  "sign_proof g = sign_delegated_action demo_delegation g (demo_signer CHR ''a'') ''id'' ''sc_identity_sign'' sign_target
     (canonical_bytes (JObj signed_text)) ''m'' ''CUI'' (JInt 5)"

definition sign_call :: "grant \<Rightarrow> action_proof \<Rightarrow> verified_call" where
  "sign_call g p = \<lparr>vc_grant = g, vc_proof = p, vc_payload = canonical_bytes (JObj signed_text), vc_session_id = ''s''\<rparr>"

definition quiet_ledger :: "'w ledger_service" where
  "quiet_ledger = \<lparr>lgs_log = (\<lambda>w c. (w, Inr [])), lgs_verify = (\<lambda>w. (w, Inr True)),
     lgs_head_hash = (\<lambda>w. (w, Inr (replicate 64 (CHR ''0'')))), lgs_contains = (\<lambda>w h. (w, Inr True))\<rparr>"

definition demo_host :: "unit services" where
  "demo_host =
     \<lparr>sv_profile = ''enterprise'', sv_identity_type = ''software'', sv_crypto = demo_delegation, sv_paths = demo_paths,
      sv_loads = (\<lambda>_. Inr (JObj signed_text)), sv_lease_keys = demo_keys, sv_sign = (\<lambda>m. CHR ''s'' # m),
      sv_public_key = replicate 32 (CHR ''e''), sv_now = (\<lambda>w. (w, 7)), sv_monotonic_ms = (\<lambda>w. (w, 0)),
      sv_sleep_ms = (\<lambda>w d. w), sv_poll_limit = 1, sv_uuid4 = (\<lambda>w. (w, ''u'')), sv_ledger = Some quiet_ledger,
      sv_policy = None, sv_is_active = (\<lambda>w a. (w, Inr True)), sv_register = (\<lambda>w a. (w, Inr ())), sv_queue = None,
      sv_verifier = None, sv_resolver = None, sv_router = None, sv_reader = None, sv_tpm = None, sv_boundary = None,
      sv_identity = Some (demo_signer CHR ''e''), sv_guard = Inl ''unavailable'', sv_mesh = (\<lambda>w b. (w, Inr [])),
      sv_channels = (\<lambda>w. (w, Inr [])), sv_open_pipe = (\<lambda>w n. (w, Inr None))\<rparr>"

lemma demo_host_sel [simp]:
  "sv_profile demo_host = ''enterprise''"
  "sv_identity_type demo_host = ''software''"
  "sv_crypto demo_host = demo_delegation"
  "sv_paths demo_host = demo_paths"
  "sv_loads demo_host = (\<lambda>_. Inr (JObj signed_text))"
  "sv_lease_keys demo_host = demo_keys"
  "sv_sign demo_host = (\<lambda>m. CHR ''s'' # m)"
  "sv_public_key demo_host = replicate 32 (CHR ''e'')"
  "sv_now demo_host = (\<lambda>w. (w, 7))"
  "sv_monotonic_ms demo_host = (\<lambda>w. (w, 0))"
  "sv_sleep_ms demo_host = (\<lambda>w d. w)"
  "sv_poll_limit demo_host = 1"
  "sv_uuid4 demo_host = (\<lambda>w. (w, ''u''))"
  "sv_ledger demo_host = Some quiet_ledger"
  "sv_policy demo_host = None"
  "sv_is_active demo_host = (\<lambda>w a. (w, Inr True))"
  "sv_register demo_host = (\<lambda>w a. (w, Inr ()))"
  "sv_queue demo_host = None"
  "sv_verifier demo_host = None"
  "sv_resolver demo_host = None"
  "sv_router demo_host = None"
  "sv_reader demo_host = None"
  "sv_tpm demo_host = None"
  "sv_boundary demo_host = None"
  "sv_identity demo_host = Some (demo_signer CHR ''e'')"
  "sv_guard demo_host = Inl ''unavailable''"
  "sv_mesh demo_host = (\<lambda>w b. (w, Inr []))"
  "sv_channels demo_host = (\<lambda>w. (w, Inr []))"
  "sv_open_pipe demo_host = (\<lambda>w n. (w, Inr None))"
  by (simp_all add: demo_host_def)

definition demo_revocations :: revocation_state where
  "demo_revocations = \<lparr>rs_epoch = 0, rs_revoked_agent_key_ids = {}, rs_revoked_grant_ids = {}\<rparr>"

definition demo_inputs :: "unit boundary_inputs" where
  "demo_inputs = \<lparr>bi_issuer = (\<lambda>w k. (w, Inr (Some (replicate 32 (CHR ''i''))))), bi_revocations = (\<lambda>w. (w, Inr (Inr demo_revocations))),
     bi_fault = (\<lambda>w. (w, False)), bi_text = (\<lambda>_. [])\<rparr>"

definition demo_world :: "replay_store \<Rightarrow> unit host dispatcher" where
  "demo_world st = dispatcher_init \<lparr>ho_outside = (), ho_replay = st\<rparr>"

definition claimed_row :: "grant \<Rightarrow> action_proof \<Rightarrow> consumption" where
  "claimed_row g p = \<lparr>co_grant_id = grant_id demo_delegation g, co_proof_id = proof_id demo_delegation p, co_session_id = ''s'',
     co_consumed_at = 7, co_outcome = Admitted, co_receipt = None, co_ledger_head = None, co_result = None,
     co_actuator_started = False\<rparr>"

lemma small_sign_target: "small_object sign_target"
  by (simp add: sign_target_def demo_delegation_def small_object_def canonical_bytes_def dumps_def member_text_def quoted_def
      escape_char_def char_code_def show_int_def show_nat.simps utf8_def utf8_char_def digit_def tohex_def hex_digit_def hex_digits_def)

lemma sign_granted: "\<exists>g p. sign_grant = Inr g \<and> sign_proof g = Inr p"
proof -
  have t: "ok_text ''sc_identity_sign''" by (simp add: ok_text_def has_control_def char_code_def)
  have c: "small_object [(''key_provider'', JStr ''software'')]"
    by (simp add: small_object_def canonical_bytes_def dumps_def member_text_def quoted_def escape_char_def char_code_def utf8_def
        utf8_char_def)
  have "ok_actions [''sc_identity_sign'']" using t by (simp add: ok_actions_def)
  from demo_issues[OF this c] demo_action_signs[OF t small_sign_target] show ?thesis unfolding sign_grant_def sign_proof_def by metis
qed

text \<open>The signed action verifies on the deployment.\<close>

lemma sign_verifies:
  assumes g: "sign_grant = Inr g" and p: "sign_proof g = Inr p"
  shows "\<exists>v. verify_delegated_action demo_delegation g p (Finite 7) (Some (canonical_bytes (JObj signed_text)))
      (Some (replicate 32 (CHR ''i''))) (verification_state_of demo_revocations) = Inr v \<and> dv_ok v" (is ?now)
    and sign_verified_then: "\<exists>v. verify_historical_delegated_action demo_delegation g p (Some (canonical_bytes (JObj signed_text)))
      (Some (replicate 32 (CHR ''i''))) = Inr v \<and> dv_ok v" (is ?past)
proof -
  let ?i = "replicate 32 (CHR ''i'')" and ?a = "replicate 32 (CHR ''a'')"
  obtain alg where alg: "signer_algorithm (sg_public_key (demo_signer CHR ''i'')) = Inr alg" and
    gf: "gr_signature_algorithm g = alg" "gr_issuer_public_key_hex g = tohex (sg_public_key (demo_signer CHR ''i''))"
    "gr_subject_agent_id g = short_agent_id demo_delegation ?a" "gr_subject_public_key_hex g = tohex ?a"
    "gr_allowed_actions g = [''sc_identity_sign'']" "gr_target_constraints g = members (key_sorted (JObj [(''key_provider'', JStr ''software'')]))"
    "gr_governance_mode g = ''m''" "gr_classification_ceiling g = ''CUI''" "gr_not_before g = JInt 1" "gr_expires_at g = JInt 9"
    "gr_revocation_epoch g = JInt 0"
    "gr_signature_hex g = JStr (tohex (sg_sign (demo_signer CHR ''i'') (grant_signing_bytes g)))"
    using g[unfolded sign_grant_def] by (rule issued_grant)
  note pf = signed_action[OF p[unfolded sign_proof_def]]
  have auth: "authentic demo_delegation g p ?i (CHR ''s'' # grant_signing_bytes g) ?a (CHR ''s'' # proof_signing_bytes p)"
    using alg gf pf by (simp add: authentic_def demo_signer_def signer_algorithm_def verify_signature_def demo_delegation_def)
  have scope: "in_scope g p" "in_time g p 7" "in_time g p (number_of (pr_occurred_at p))"
    using gf pf by (simp_all add: in_scope_def in_time_def number_of_def sign_target_def)
  have unrevoked: "not_revoked demo_delegation g p ?a (verification_state_of demo_revocations)" "not_revoked demo_delegation g p ?a fresh_state"
    using gf by (simp_all add: not_revoked_def verification_state_of_def demo_revocations_def fresh_state_def number_of_def)
  have payload: "pr_payload_sha256 p = payload_digest demo_delegation (canonical_bytes (JObj signed_text))" using pf by simp
  show ?now using auth scope unrevoked payload unfolding verify_ok_iff action_reason_Ok by blast
  show ?past using auth scope unrevoked payload unfolding verify_historical_delegated_action_def verify_ok_iff action_reason_Ok by blast
qed

subsection \<open>The steps of a call\<close>

lemma sign_hex: "fromhex ''00'' = Some [CHR 0x00]"
  by code_simp

lemma sign_target_read: "delegation_target_for (host_services demo_host demo_inputs) ''sc_identity_sign'' sign_arguments s = (s, Inr sign_target)"
  by (simp add: delegation_target_for_def LEASE_TOOL_ROLES_def target_of_signing_def text_arg_def dict_get_def
      sign_arguments_def sign_hex sign_target_def of_result_def del: fromhex.simps)

lemma sign_target_same: "sign_proof g = Inr p \<Longrightarrow> py_eq (JObj (pr_target p)) (JObj sign_target)"
  by (auto simp: sign_proof_def sign_target_def py_eq_def dest: signed_action(6))

lemma sign_arguments_isolated: "isolated sign_arguments = sign_arguments"
  by (simp add: isolated_def sign_arguments_def)

text \<open>Calls of the world, on a state of the dispatcher with any audit record.\<close>

definition demo_state :: "audit_event list \<Rightarrow> replay_store \<Rightarrow> unit host dispatcher" where
  "demo_state au st = (demo_world st)\<lparr>di_audit := au\<rparr>"

lemmas demo_steps = demo_state_def demo_world_def dispatcher_init_def host_boundary_def demo_inputs_def outside_def bind_act_def ret_def
  call_world_def call_exn_def as_exn_def on_world_def of_result_def of_delegation_def require_def

lemma sign_issuer: "trusted_issuer (host_boundary demo_inputs) g (demo_state au st) = (demo_state au st, Inr (replicate 32 (CHR ''i'')))"
  by (simp add: trusted_issuer_def demo_steps)

lemma sign_current:
  assumes "sign_grant = Inr g" "sign_proof g = Inr p"
  shows "verify_current (host_services demo_host demo_inputs) (host_boundary demo_inputs) g p (canonical_bytes (JObj signed_text))
      (replicate 32 (CHR ''i'')) f t (demo_state au st) = (demo_state au st, Inr ())"
proof -
  obtain v where "verify_delegated_action demo_delegation g p (Finite 7) (Some (canonical_bytes (JObj signed_text)))
      (Some (replicate 32 (CHR ''i''))) (verification_state_of demo_revocations) = Inr v" "dv_ok v"
    using sign_verifies[OF assms] by blast
  then show ?thesis by (simp add: verify_current_def demo_steps)
qed

lemma signed_text_fields:
  "kw signed_text ''arguments'' = JObj sign_arguments" "map_of signed_text ''arguments'' = Some (JObj sign_arguments)"
  "kw signed_text ''tool'' = JStr ''sc_identity_sign''" "kw signed_text ''sessionId'' = JStr ''s''"
  by (simp_all add: kw_def dict_get_def signed_text_def)

text \<open>A claimed action passes the gate there, and is then started.\<close>

lemma sign_gate_passes:
  assumes g: "sign_grant = Inr g" and p: "sign_proof g = Inr p"
  shows "require_verified_delegated_call (host_services demo_host demo_inputs) ''sc_identity_sign'' sign_arguments (Some (sign_call g p))
      (demo_state au [(''id'', claimed_row g p)])
    = (demo_state au [(''id'', (claimed_row g p)\<lparr>co_actuator_started := True\<rparr>)], Inr sign_arguments)"
proof -
  let ?sv = "host_services demo_host demo_inputs" and ?bd = "host_boundary demo_inputs"
  note pf = signed_action[OF p[unfolded sign_proof_def]]
  have "call_world (\<lambda>w. bd_begin ?bd w (pr_action_id p) (admission_of ?sv (sign_call g p))) (demo_state au [(''id'', claimed_row g p)])
      = (demo_state au [(''id'', (claimed_row g p)\<lparr>co_actuator_started := True\<rparr>)], Inr True)"
    using pf(2) by (simp add: demo_steps on_store_def store_begin_def update_where_def admitted_for_def claimed_row_def
        admission_of_def sign_call_def map_error_def)
  with pf(5) show ?thesis
    by (simp add: require_verified_delegated_call_def governed_profile_def admit_call_def sign_issuer sign_current[OF g p]
        sign_target_read sign_target_same[OF p] sign_arguments_isolated signed_text_fields
        sign_call_def bind_act_def require_def ret_def of_result_def as_mapping_def)
qed

lemma sign_handler_returns:
  assumes "sign_grant = Inr g" "sign_proof g = Inr p"
  shows "\<exists>result. sc_identity_sign (host_services demo_host demo_inputs) sign_arguments (Some (sign_call g p)) (demo_state au [(''id'', claimed_row g p)])
      = (demo_state au [(''id'', (claimed_row g p)\<lparr>co_actuator_started := True\<rparr>)], Inr result)"
  using sign_gate_passes[OF assms]
  by (simp add: sc_identity_sign_def bind_act_def Let_def dict_get_def sign_arguments_def require_def ret_def of_result_def hex_item_def
      item_def sign_hex del: fromhex.simps)

lemma sign_handler_named: "map_of (handlers sv a) ''sc_identity_sign'' = Some (\<lambda>args. sc_identity_sign sv args a)"
  by (simp add: handlers_def protected_handlers_def plain_handlers_def)

subsection \<open>A whole call\<close>

lemma sign_read:
  assumes g: "sign_grant = Inr g" and p: "sign_proof g = Inr p"
  shows "read_delegated_call (host_services demo_host demo_inputs) ''sc_identity_sign'' sign_arguments g p
      (canonical_bytes (JObj signed_text)) ''s'' = Inr (sign_arguments, g, p)"
proof -
  have "grant_valid demo_delegation g" using g
    by (auto simp: sign_grant_def issue_delegation_grant_def bind_result_Inr_iff Let_def intro: grant_init_valid)
  moreover have "proof_valid demo_delegation p" using p
    by (auto simp: sign_proof_def sign_delegated_action_def bind_result_Inr_iff Let_def intro: proof_init_valid)
  ultimately show ?thesis
    using grant_roundtrip[THEN iffD2] proof_roundtrip[THEN iffD2] signed_action[OF p[unfolded sign_proof_def]]
    by (simp add: read_delegated_call_def Let_def signed_text_fields sign_arguments_isolated)
qed

lemma sign_authorized:
  assumes g: "sign_grant = Inr g" and p: "sign_proof g = Inr p"
  shows "authorize_fresh (host_services demo_host demo_inputs) (host_boundary demo_inputs) ''sc_identity_sign'' sign_arguments (sign_call g p)
      (replicate 32 (CHR ''i'')) (demo_state au []) = (demo_state au [(''id'', claimed_row g p)], Inr ())"
proof -
  have "pr_action_id p = ''id''" using signed_action[OF p[unfolded sign_proof_def]] by simp
  then have "call_world (\<lambda>w. bd_claim (host_boundary demo_inputs) w (pr_action_id p) (admission_of (host_services demo_host demo_inputs) (sign_call g p)) 7)
      (demo_state au []) = (demo_state au [(''id'', claimed_row g p)], Inr True)"
    by (simp add: demo_steps on_store_def store_claim_def valid_action_id_def has_control_def char_code_def admission_of_def sign_call_def
        claimed_row_def map_error_def)
  moreover have "on_world (sv_now (host_services demo_host demo_inputs)) s = (s, Inr 7)" for s
    by (simp add: on_world_def outside_def)
  ultimately show ?thesis
    by (simp add: authorize_fresh_def sign_current[OF g p] sign_target_read sign_target_same[OF p] sign_call_def bind_act_def require_def
        ret_def)
qed

lemma sign_arguments_valid: "validate ''sc_identity_sign'' (JObj sign_arguments) = Inr sign_arguments"
proof -
  have "fullmatch HEX_PATTERN ''00''"
    by (simp add: HEX_PATTERN_def fullmatch_single piece_of_def DIGITS_def)
  then show ?thesis
    by (simp add: validate_iff get_tool_simps conforms_def tool_sc_identity_sign_def property_of_def sign_arguments_def inhabits_def
        has_type_def HEX_MAX_def fullmatch_pieces[symmetric])
qed

lemma demo_audit: "\<exists>au'. record_audit (host_services demo_host demo_inputs) tool ok args result (demo_state au st) = (demo_state au' st, Inr ())"
  by (simp add: record_audit_def log_entry_def host_ledger_def quiet_ledger_def demo_steps Let_def set_state_def)

lemma sign_executes:
  assumes "sign_grant = Inr g" "sign_proof g = Inr p"
  shows "\<exists>au' result. execute_tool (host_services demo_host demo_inputs) (map_option host_agt None) (Some (sign_call g p)) ''sc_identity_sign''
      (Some (JObj sign_arguments)) (demo_state au [(''id'', claimed_row g p)])
    = (demo_state au' [(''id'', (claimed_row g p)\<lparr>co_actuator_started := True\<rparr>)],
       Inr [(''ok'', JBool True), (''tool'', JStr ''sc_identity_sign''), (''result'', result)])"
proof -
  let ?sv = "host_services demo_host demo_inputs"
  obtain result where h: "sc_identity_sign ?sv sign_arguments (Some (sign_call g p)) (demo_state au [(''id'', claimed_row g p)])
      = (demo_state au [(''id'', (claimed_row g p)\<lparr>co_actuator_started := True\<rparr>)], Inr result)"
    using sign_handler_returns[OF assms] by blast
  define shown where "shown = (if map_of result ''profile'' = None then result @ [(''profile'', JStr ''enterprise'')] else result)"
  obtain au' where a: "record_audit ?sv ''sc_identity_sign'' True sign_arguments shown
      (demo_state au [(''id'', (claimed_row g p)\<lparr>co_actuator_started := True\<rparr>)])
    = (demo_state au' [(''id'', (claimed_row g p)\<lparr>co_actuator_started := True\<rparr>)], Inr ())" using demo_audit by blast
  have m: "map_of (handlers ?sv (Some (sign_call g p))) ''sc_identity_sign'' = Some (\<lambda>args. sc_identity_sign ?sv args (Some (sign_call g p)))"
    by (simp add: handlers_def protected_handlers_def plain_handlers_def)
  have "execute_checked ?sv None (Some (sign_call g p)) ''sc_identity_sign'' (JObj sign_arguments) (demo_state au [(''id'', claimed_row g p)])
    = (demo_state au' [(''id'', (claimed_row g p)\<lparr>co_actuator_started := True\<rparr>)],
       Inr [(''ok'', JBool True), (''tool'', JStr ''sc_identity_sign''), (''result'', JObj shown)])"
    using h a m unfolding shown_def
    by (cases "map_of result ''profile''") (simp_all add: execute_checked_def run_handler_def sign_arguments_valid bind_act_def
        require_def ret_def Let_def of_result_def)
  then show ?thesis by (auto simp: execute_tool_def catch_act_def Let_def)
qed

lemma sign_finishes:
  assumes g: "sign_grant = Inr g" and p: "sign_proof g = Inr p" and "kw result ''ok'' = JBool True"
  shows "\<exists>s' final. finish_call (host_services demo_host demo_inputs) (host_boundary demo_inputs) (host_ledger quiet_ledger) (demo_signer CHR ''e'')
      (sign_call g p) result (demo_state au [(''id'', (claimed_row g p)\<lparr>co_actuator_started := True\<rparr>)]) = (s', Inr final)"
proof -
  let ?head = "replicate 64 (CHR ''0'')"
  note pf = signed_action[OF p[unfolded sign_proof_def]]
  have texts: "list_all ok_text [pr_action_id p, pr_agent_id p, pr_action p, ''succeeded'']"
    using pf ok_short_id[OF demo_digest, of "replicate 32 (CHR ''a'')"]
    by (simp add: demo_signer_def ok_text_def[of "''id''"] ok_text_def[of "''sc_identity_sign''"] ok_text_def[of "''succeeded''"]
        has_control_def char_code_def)
  have small: "small_object (pr_target p)" using pf(6) small_sign_target by (simp add: small_sorted del: key_sorted.simps)
  obtain r where "sign_delegated_receipt demo_delegation g p (demo_signer CHR ''e'') result ''succeeded'' ?head (JFloat 7) = Inr r"
    using demo_receipt[OF small texts _ zero_digest, of "JFloat 7"] by auto
  then show ?thesis
    using assms(3) pf(2)
    by (simp add: finish_call_def verified_ledger_def host_ledger_def quiet_ledger_def demo_steps sign_call_def Let_def catch_act_def
        on_store_def store_finish_def update_where_def claimed_row_def map_error_def raise_error_def)
qed

text \<open>The whole call returns on an empty store.\<close>

lemma sign_call_returns:
  assumes g: "sign_grant = Inr g" and p: "sign_proof g = Inr p"
  shows "\<exists>s' final. call_delegated_tool (host_services demo_host demo_inputs) (map_option host_agt None) ''sc_identity_sign'' sign_arguments g p
      (canonical_bytes (JObj signed_text)) ''s'' (demo_world []) = (s', Inr final)"
proof -
  let ?sv = "host_services demo_host demo_inputs" and ?bd = "host_boundary demo_inputs" and ?row = "[(''id'', (claimed_row g p)\<lparr>co_actuator_started := True\<rparr>)]"
  have w: "demo_world [] = demo_state [] []" by (simp add: demo_state_def demo_world_def dispatcher_init_def)
  obtain au result where ex: "execute_tool ?sv (map_option host_agt None) (Some (sign_call g p)) ''sc_identity_sign''
      (Some (JObj sign_arguments)) (demo_state [] [(''id'', claimed_row g p)])
    = (demo_state au ?row, Inr [(''ok'', JBool True), (''tool'', JStr ''sc_identity_sign''), (''result'', result)])"
    using sign_executes[OF g p] by blast
  obtain s' final where fin: "finish_call ?sv ?bd (host_ledger quiet_ledger) (demo_signer CHR ''e'') (sign_call g p)
      [(''ok'', JBool True), (''tool'', JStr ''sc_identity_sign''), (''result'', result)] (demo_state au ?row) = (s', Inr final)"
    using sign_finishes[OF g p, of "[(''ok'', JBool True), (''tool'', JStr ''sc_identity_sign''), (''result'', result)]" au]
    by (auto simp: kw_def dict_get_def)
  obtain v where past: "verify_historical_delegated_action demo_delegation g p (Some (canonical_bytes (JObj signed_text)))
      (Some (replicate 32 (CHR ''i''))) = Inr v" "dv_ok v" using sign_verified_then[OF g p] by blast
  have ledger: "verified_ledger (host_ledger quiet_ledger) t (demo_state au st) = (demo_state au st, Inr ())" for t au st
    by (simp add: verified_ledger_def host_ledger_def quiet_ledger_def demo_steps)
  have lookup: "call_world (\<lambda>w. bd_get ?bd w (pr_action_id p)) (demo_state [] []) = (demo_state [] [], Inr None)"
    by (simp add: demo_steps on_store_def store_get_def map_error_def)
  have call: "\<lparr>vc_grant = g, vc_proof = p, vc_payload = canonical_bytes (JObj signed_text), vc_session_id = ''s''\<rparr> = sign_call g p"
    by (simp add: sign_call_def)
  show ?thesis
    using ex fin past
    by (simp add: call_delegated_tool_def sign_read[OF g p] sign_issuer ledger lookup call Let_def sign_authorized[OF g p] w
        bind_act_def of_result_def ret_def require_def of_delegation_def)
qed

end
