(* ===== verification/DispatchSpec.thy ===== *)
theory DispatchSpec
  imports DispatchDemo
begin

text \<open>
  What \<open>MCPDispatcher\<close> guarantees beside the real replay store, whatever the services of the
  outside world do: no protected handler acts before its gate, the gate admits exactly a claimed,
  owner-authorised and agent-signed action, at most one handler runs per action identifier, and a
  delegated call that returns has either completed the protocol or repeats a recorded completion.
\<close>

subsection \<open>Operations in any order\<close>

text \<open>A host moves by calls of either entry point, by whatever happens outside, and by other users of the store.\<close>

datatype 'o dispatch_op =
    CallTool pystr "json option"
  | CallDelegated pystr json_object grant action_proof bytes pystr
  | OutsideMoves "'o \<Rightarrow> 'o"
  | OtherProcess replay_op

definition run_dispatch ::
    "'o services \<Rightarrow> 'o boundary_inputs \<Rightarrow> 'o agt_control option \<Rightarrow> 'o host dispatcher \<Rightarrow> 'o dispatch_op \<Rightarrow> 'o host dispatcher" where
  "run_dispatch sv bi agt s c =
     (case c of
        CallTool name arguments \<Rightarrow> fst (call_tool (host_services sv bi) (map_option host_agt agt) name arguments s)
      | CallDelegated name args g p payload sid \<Rightarrow>
          fst (call_delegated_tool (host_services sv bi) (map_option host_agt agt) name args g p payload sid s)
      | OutsideMoves f \<Rightarrow> s\<lparr>di_world := (di_world s)\<lparr>ho_outside := f (ho_outside (di_world s))\<rparr>\<rparr>
      | OtherProcess rc \<Rightarrow> s\<lparr>di_world := (di_world s)\<lparr>ho_replay := fst (perform sqlite_calls (ho_replay (di_world s)) rc)\<rparr>\<rparr>)"

definition run_dispatches where
  "run_dispatches sv bi agt s cs = foldl (run_dispatch sv bi agt) s cs"

lemma perform_advances: "advances (store_phase st) (store_phase (fst (perform sqlite_calls st rc)))"
proof -
  obtain st' es where "perform sqlite_calls st rc = (st', es)" by fastforce
  with acp.perform_history[unfolded acp_calls, OF this] show ?thesis by (auto simp: advances_def)
qed

lemma perform_keeps: "keeps_outcomes st (fst (perform sqlite_calls st rc))"
proof (cases rc)
  case (OpClaim i adm t f)
  then show ?thesis using store_keeps_outcomes(1)[of st i adm t f] by (auto simp: sqlite_calls_def split: prod.splits)
next
  case (OpBegin i adm f)
  then show ?thesis using store_keeps_outcomes(2)[of st i adm f] by (auto simp: sqlite_calls_def split: prod.splits)
next
  case (OpFinish i ok receipt head res f)
  then show ?thesis using store_keeps_outcomes(3)[of st i ok receipt head res f] by (auto simp: sqlite_calls_def split: prod.splits)
qed

lemma moves_fst: "moves ph R m \<Longrightarrow> R (ph (di_world s)) (ph (di_world (fst (m s))))"
  by (simp add: moves_def)

lemma run_dispatch_advances: "advances (host_phase (di_world s)) (host_phase (di_world (run_dispatch sv bi agt s c)))"
proof (cases c)
  case (CallTool name arguments)
  then show ?thesis by (simp add: run_dispatch_def moves_fst[OF host.hist.call_moves])
next
  case (CallDelegated name args g p payload sid)
  then show ?thesis by (simp add: run_dispatch_def moves_fst[OF host.hist.call_delegated_moves])
next
  case (OtherProcess rc)
  with perform_advances show ?thesis by (simp add: run_dispatch_def host_phase_def[abs_def])
qed (simp add: run_dispatch_def host_phase_def[abs_def] advances_refl)

lemma run_dispatches_advances: "advances (host_phase (di_world s)) (host_phase (di_world (run_dispatches sv bi agt s cs)))"
  unfolding run_dispatches_def
proof (induction cs rule: rev_induct)
  case (snoc c cs)
  then show ?case using advances_trans[OF _ run_dispatch_advances] by simp
qed (simp add: advances_refl)

lemma run_dispatch_keeps: "keeps_outcomes (ho_replay (di_world s)) (ho_replay (di_world (run_dispatch sv bi agt s c)))"
proof (cases c)
  case (CallTool name arguments)
  then show ?thesis by (simp add: run_dispatch_def moves_fst[OF row.call_moves])
next
  case (CallDelegated name args g p payload sid)
  then show ?thesis by (simp add: run_dispatch_def moves_fst[OF row.call_delegated_moves])
next
  case (OtherProcess rc)
  with perform_keeps show ?thesis by (simp add: run_dispatch_def)
qed (simp add: run_dispatch_def keeps_outcomes_refl)

lemma run_dispatches_keeps: "keeps_outcomes (ho_replay (di_world s)) (ho_replay (di_world (run_dispatches sv bi agt s cs)))"
  unfolding run_dispatches_def
proof (induction cs rule: rev_induct)
  case (snoc c cs)
  then show ?case using keeps_outcomes_trans[OF _ run_dispatch_keeps] by simp
qed (simp add: keeps_outcomes_refl)

subsection \<open>The gate\<close>

text \<open>A protected handler is its gate, and what follows the gate leaves the protocol alone.\<close>

lemma handler_cases:
  assumes "name \<in> set PROTECTED_DELEGATED_TOOLS" "map_of (handlers (host_services sv bi) a) name = Some h" "h args s = (s', r)"
  obtains (stopped) e where "r = Inl e" "require_verified_delegated_call (host_services sv bi) name args a s = (s', Inl e)"
  | (passed) s1 x where "require_verified_delegated_call (host_services sv bi) name args a s = (s1, Inr x)"
      "host_phase (di_world s') = host_phase (di_world s1)"
proof -
  let ?gate = "require_verified_delegated_call (host_services sv bi) name args a"
  have "gated host_phase (=) (host_services sv bi) name a h" by (rule host.keep.handler_gated[OF assms(1,2)])
  then obtain rest where h: "h args = bind_act ?gate rest" and rest: "\<And>x. moves host_phase (=) (rest x)"
    by (auto simp: gated_def)
  show thesis
  proof (cases "snd (?gate s)")
    case (Inl e)
    then have g: "?gate s = (fst (?gate s), Inl e)" by (simp add: prod_eq_iff)
    then have "h args s = (fst (?gate s), Inl e)" unfolding h by (rule bind_act_Inl)
    with assms(3) have "s' = fst (?gate s)" "r = Inl e" by auto
    with g show thesis by (intro stopped[of e]) simp_all
  next
    case (Inr x)
    then have g: "?gate s = (fst (?gate s), Inr x)" by (simp add: prod_eq_iff)
    then have "rest x (fst (?gate s)) = (s', r)" using assms(3) unfolding h by (simp add: bind_act_def split: prod.splits)
    from movesD[OF rest this] show thesis using passed[OF g] by simp
  qed
qed

lemma outside_Inr: "outside f w = (w', r) \<Longrightarrow> \<exists>x. f (ho_outside w) = (x, r)"
  by (auto simp: outside_def split: prod.splits)

lemma verified_on_host:
  assumes "verified_now (host_services sv bi) (host_boundary bi) v"
  shows "\<exists>x x' y y' key revocations now. bi_issuer bi x (gr_issuer_key_fingerprint (vc_grant v)) = (x', Inr (Some key))
    \<and> bi_revocations bi y = (y', Inr (Inr revocations))
    \<and> (\<exists>u. verify_delegated_action (sv_crypto sv) (vc_grant v) (vc_proof v) (Finite now) (Some (vc_payload v)) (Some key)
         (verification_state_of revocations) = Inr u \<and> dv_ok u)"
proof -
  from assms obtain w0 w0' w1 w1' key revocations now u where
      "bd_issuer (host_boundary bi) w0 (gr_issuer_key_fingerprint (vc_grant v)) = (w0', Inr (Some key))"
      "bd_revocations (host_boundary bi) w1 = (w1', Inr (Inr revocations))"
      "verify_delegated_action (sv_crypto sv) (vc_grant v) (vc_proof v) (Finite now) (Some (vc_payload v)) (Some key)
         (verification_state_of revocations) = Inr u" "dv_ok u"
    unfolding verified_now_def by auto
  then show ?thesis by (fastforce simp: host_boundary_def dest: outside_Inr)
qed



subsection \<open>At most once\<close>

lemma gate_needs_claim:
  assumes "require_verified_delegated_call (host_services sv bi) name args (Some v) s = (s1, Inr x)" "governed_profile sv"
  shows "host_phase (di_world s) (pr_action_id (vc_proof v)) = Claimed (admission_of sv v)
    \<and> host_phase (di_world s1) (pr_action_id (vc_proof v)) = Started (admission_of sv v)"
proof -
  have gp: "governed_profile (host_services sv bi)" using assms(2) by (simp add: governed_profile_def)
  from host.gate_passes[OF assms(1) gp] have "admit_call (host_services sv bi) (host_boundary bi) v name args s = (s1, Inr x)" by auto
  from host.admit_passes[OF this] show ?thesis by (simp add: admission_of_def)
qed

text \<open>
  C10. At most one handler acts for an action identifier: once a protected handler has passed its gate for an
  action (whether it returned or failed afterwards), then whatever calls, outside events and
  calls of other processes on the same store follow, any protected handler called for an action with
  the same identifier, with any tool, arguments, grant, proof and session, stops at its gate.
\<close>

theorem one_actuation_per_action:
  assumes "governed_profile sv" "name' \<in> set PROTECTED_DELEGATED_TOOLS"
    and "map_of (handlers (host_services sv bi) (Some v)) name = Some h" "h args s = (s1, r)"
    and "name \<in> set PROTECTED_DELEGATED_TOOLS" "require_verified_delegated_call (host_services sv bi) name args (Some v) s = (s0, Inr x)"
    and "map_of (handlers (host_services sv bi) (Some v')) name' = Some h'" "pr_action_id (vc_proof v') = pr_action_id (vc_proof v)"
    and "h' args' (run_dispatches sv bi agt s1 cs) = (s2, r')"
  shows "\<exists>e. r' = Inl e
    \<and> require_verified_delegated_call (host_services sv bi) name' args' (Some v') (run_dispatches sv bi agt s1 cs) = (s2, Inl e)"
proof (rule handler_cases[OF assms(2,7,9)])
  let ?i = "pr_action_id (vc_proof v)" and ?s = "run_dispatches sv bi agt s1 cs"
  fix s3 y
  assume "require_verified_delegated_call (host_services sv bi) name' args' (Some v') ?s = (s3, Inr y)"
  from gate_needs_claim[OF this assms(1)] have "host_phase (di_world ?s) ?i = Claimed (admission_of sv v')" using assms(8) by simp
  moreover have "host_phase (di_world s1) ?i = Started (admission_of sv v)"
  proof (rule handler_cases[OF assms(5,3,4)])
    fix u z
    assume "require_verified_delegated_call (host_services sv bi) name args (Some v) s = (u, Inr z)"
      and "host_phase (di_world s1) = host_phase (di_world u)"
    with assms(6) gate_needs_claim[OF assms(6,1)] show ?thesis by simp
  qed (use assms(6) in simp)
  ultimately show ?thesis using advances_not_claimed(1)[OF run_dispatches_advances] by blast
qed blast

theorem one_actuation_per_action_witness:
  "\<exists>g p s1 e. sign_grant = Inr g \<and> sign_proof g = Inr p
     \<and> sc_identity_sign (host_services demo_host demo_inputs) sign_arguments (Some (sign_call g p)) (demo_state [] [(''id'', claimed_row g p)])
       = (s1, Inr e)
     \<and> (\<exists>s2 e. sc_identity_sign (host_services demo_host demo_inputs) sign_arguments (Some (sign_call g p))
         (run_dispatches demo_host demo_inputs None s1 [CallTool ''sc_mesh_peers'' None, OutsideMoves id]) = (s2, Inl e))"
proof -
  obtain g p where g: "sign_grant = Inr g" and p: "sign_proof g = Inr p" using sign_granted by blast
  let ?sv = "host_services demo_host demo_inputs" and ?cs = "[CallTool ''sc_mesh_peers'' None, OutsideMoves id]"
  obtain s1 result where h: "sc_identity_sign ?sv sign_arguments (Some (sign_call g p)) (demo_state [] [(''id'', claimed_row g p)]) = (s1, Inr result)"
    using sign_handler_returns[OF g p] by blast
  obtain s2 r where h2: "sc_identity_sign ?sv sign_arguments (Some (sign_call g p)) (run_dispatches demo_host demo_inputs None s1 ?cs) = (s2, r)"
    by fastforce
  have gov: "governed_profile demo_host" and prot: "''sc_identity_sign'' \<in> set PROTECTED_DELEGATED_TOOLS"
    by (simp_all add: governed_profile_def PROTECTED_DELEGATED_TOOLS_def)
  obtain e where "r = Inl e"
    using one_actuation_per_action[OF gov prot sign_handler_named h prot sign_gate_passes[OF g p] sign_handler_named refl h2] by auto
  with g p h h2 show ?thesis by (intro exI conjI) auto
qed

lemma on_world_state: "on_world f s = (s', r) \<Longrightarrow> \<exists>w. s' = s\<lparr>di_world := w\<rparr>"
  by (auto simp: on_world_def split: prod.splits)

lemma record_audit_state:
  assumes "record_audit sv tool ok args result s = (s', r)"
  shows "di_leases s' = di_leases s \<and> di_authority s' = di_authority s \<and> di_injected_text s' = di_injected_text s
    \<and> di_read_snapshots s' = di_read_snapshots s"
  using assms
  by (auto simp: record_audit_def bind_act_def on_world_def set_state_def log_entry_def call_world_def call_exn_def as_exn_def ret_def Let_def
      split: prod.splits sum.splits option.splits)

subsection \<open>Completion and recovery\<close>

lemma recover_completion_Inr:
  assumes "recover_completion sv lg identity name g p sid c s = (s', Inr final)"
  shows "admitted_for (grant_id (sv_crypto sv) g, proof_id (sv_crypto sv) p, sid) c \<and> Option.bind (co_result c) as_dict = Some final
    \<and> (\<exists>r u. verify_delegated_receipt (sv_crypto sv) r
             (recovered_expectation sv identity name g p c (AList.delete ''delegated_receipt'' final)) = Inr u \<and> dv_ok u
           \<and> py_eq (kw final ''delegated_receipt'') (JObj (receipt_to_dict r)))"
proof -
  from assms obtain result r where 1: "read_completion sv c = Some (result, r)"
    and 2: "admitted_for (grant_id (sv_crypto sv) g, proof_id (sv_crypto sv) p, sid) c" "truthy_opt (co_result c)"
    by (auto simp: recover_completion_def Let_def bind_act_Inr split: option.splits)
  with assms have "result = final" "\<exists>u. verify_delegated_receipt (sv_crypto sv) r
             (recovered_expectation sv identity name g p c (AList.delete ''delegated_receipt'' result)) = Inr u \<and> dv_ok u"
      "py_eq (kw result ''delegated_receipt'') (JObj (receipt_to_dict r))"
    by (auto simp: recover_completion_def Let_def bind_act_Inr split: sum.splits)
  moreover have "Option.bind (co_result c) as_dict = Some result"
    using 1 2(2) by (cases "co_result c") (auto simp: read_completion_def truthy_opt_def split: option.splits sum.splits)
  ultimately show ?thesis using 2(1) by blast
qed

text \<open>Reading the store: the row the boundary returns is the row that is there.\<close>

lemma looked_up:
  assumes "call_world (\<lambda>w. bd_get (host_boundary bi) w i) s = (s', Inr c)"
  shows "c = map_of (ho_replay (di_world s)) i" "ho_replay (di_world s') = ho_replay (di_world s)"
proof -
  from assms obtain w where "bd_get (host_boundary bi) (di_world s) i = (w, Inr c)" "s' = s\<lparr>di_world := w\<rparr>"
    by (auto simp: call_world_Inr)
  then show "c = map_of (ho_replay (di_world s)) i" "ho_replay (di_world s') = ho_replay (di_world s)"
    by (auto simp: host_boundary_def store_get_def elim!: on_store_phase split: if_splits)
qed

lemma recovered_row:
  assumes "trusted_issuer (host_boundary bi) g s = (u1, Inr key)" "verified_ledger lg t u1 = (u2, Inr ())"
    and "call_world (\<lambda>w. bd_get (host_boundary bi) w i) u2 = (u3, Inr c)" "sv_ledger (host_services sv bi) = Some lg"
  shows "c = map_of (ho_replay (di_world s)) i" "ho_replay (di_world u3) = ho_replay (di_world s)"
  using movesD[OF read.before_begin_moves(1) assms(1)] movesD[OF read.verified_ledger_moves[OF assms(4)] assms(2)]
    looked_up[OF assms(3)] by simp_all

lemma finished_row:
  assumes "finish_call (host_services sv bi) (host_boundary bi) lg identity v result s = (s', Inr final)"
  shows "\<exists>c. map_of (ho_replay (di_world s')) (pr_action_id (vc_proof v)) = Some c \<and> co_result c = Some (key_sorted (JObj final))
    \<and> co_outcome c \<noteq> Admitted"
proof -
  let ?i = "pr_action_id (vc_proof v)" and ?ok = "truthy (kw result ''ok'')"
  from assms obtain u rc head where
    "catch_act (call_world (\<lambda>w. bd_finish (host_boundary bi) w ?i ?ok rc head final))
        (\<lambda>_. raise_error ''delegation outcome could not be durably finalized'') u = (s', Inr ())"
    unfolding finish_call_def Let_def by (auto elim!: bind_act_InrE)
  then obtain w where w: "bd_finish (host_boundary bi) (di_world u) ?i ?ok rc head final = (w, Inr ())" "s' = u\<lparr>di_world := w\<rparr>"
    by (auto simp: catch_act_def call_world_def call_exn_def as_exn_def raise_error_def split: prod.splits sum.splits)
  then obtain fault where "store_finish (ho_replay (di_world u)) ?i ?ok (Some rc) head (Some final) fault = (ho_replay w, Inr ())"
    by (auto simp: host_boundary_def elim!: on_store_phase)
  with w(2) show ?thesis
    by (auto simp: store_finish_def update_where_def stored_json_def split: if_splits prod.splits option.splits
        dest!: sym[where t = "ho_replay w"])
qed

text \<open>
  C33. A delegated call that returns has done one of two things, for the action its signed objects name. Either the action was
  unknown to the store, was claimed for this grant, proof and session, ran (the tool executed under
  this authorization) and is now recorded as finished, with the status of the result; the returned object is that result with a
  receipt the executor signed for this grant, proof, result and a ledger head. Or a
  completed outcome for this very grant, proof and session was in the store: then the store is
  unchanged, and the returned object is the recorded one, carrying a receipt that verifies.
\<close>

theorem delegated_call_completes_or_repeats:
  assumes "call_delegated_tool (host_services sv bi) (map_option host_agt agt) name args g0 p0 payload sid s = (s', Inr final)"
  shows "\<exists>ia g p identity. read_delegated_call (host_services sv bi) name args g0 p0 payload sid = Inr (ia, g, p) \<and> sv_identity sv = Some identity
    \<and> ((\<exists>result receipt head now s1 s2.
          store_phase (ho_replay (di_world s)) (pr_action_id p) = Unclaimed
        \<and> execute_tool (host_services sv bi) (map_option host_agt agt)
            (Some \<lparr>vc_grant = g, vc_proof = p, vc_payload = payload, vc_session_id = sid\<rparr>) name (Some (JObj ia)) s1 = (s2, Inr result)
        \<and> store_phase (ho_replay (di_world s')) = (store_phase (ho_replay (di_world s)))
            (pr_action_id p := Finished (grant_id (sv_crypto sv) g, proof_id (sv_crypto sv) p, sid) (truthy (kw result ''ok'')))
        \<and> sign_delegated_receipt (sv_crypto sv) g p identity result (if truthy (kw result ''ok'') then ''succeeded'' else ''failed'')
            head (JFloat now) = Inr receipt
        \<and> final = AList.update ''delegated_receipt'' (JObj (receipt_to_dict receipt)) result)
     \<or> (\<exists>c r u. ho_replay (di_world s') = ho_replay (di_world s)
        \<and> map_of (ho_replay (di_world s)) (pr_action_id p) = Some c \<and> co_outcome c \<noteq> Admitted
        \<and> admitted_for (grant_id (sv_crypto sv) g, proof_id (sv_crypto sv) p, sid) c \<and> Option.bind (co_result c) as_dict = Some final
        \<and> verify_delegated_receipt (sv_crypto sv) r
             (recovered_expectation sv identity name g p c (AList.delete ''delegated_receipt'' final)) = Inr u \<and> dv_ok u
        \<and> py_eq (kw final ''delegated_receipt'') (JObj (receipt_to_dict r))))"
proof (rule host.call_delegated_Inr[OF assms], goal_cases)
  case (1 lg identity ia g p c u1 u2 s1 key)
  note row = recovered_row[OF 1(4-6,1)]
  have same: "ho_replay (di_world s') = ho_replay (di_world s)"
    using movesD[OF read.recover_moves[OF 1(1)] 1(8)] row(2) by simp
  have id: "sv_identity sv = Some identity" and cr: "sv_crypto (host_services sv bi) = sv_crypto sv"
    and ex: "recovered_expectation (host_services sv bi) = recovered_expectation sv"
    using 1(2) by (simp_all add: recovered_expectation_def fun_eq_iff)
  from recover_completion_Inr[OF 1(8), unfolded cr ex] obtain r u where
      "admitted_for (grant_id (sv_crypto sv) g, proof_id (sv_crypto sv) p, sid) c" "Option.bind (co_result c) as_dict = Some final"
      "verify_delegated_receipt (sv_crypto sv) r (recovered_expectation sv identity name g p c (AList.delete ''delegated_receipt'' final)) = Inr u"
      "dv_ok u" "py_eq (kw final ''delegated_receipt'') (JObj (receipt_to_dict r))" by blast
  with 1(3,7) same row(1) id show ?thesis by metis
next
  case (2 lg identity ia g p key s1 s2 s3 result)
  from host.fresh_call_completes[OF 2(5-7,1)] 2(4)
  have "store_phase (ho_replay (di_world s)) (pr_action_id p) = Unclaimed"
    "store_phase (ho_replay (di_world s')) = (store_phase (ho_replay (di_world s)))
       (pr_action_id p := Finished (grant_id (sv_crypto sv) g, proof_id (sv_crypto sv) p, sid) (truthy (kw result ''ok'')))"
    by (simp_all add: host_phase_def[abs_def] admission_of_def)
  moreover from host.finish_call_Inr[OF 2(7,1)] obtain head now receipt where
    "sign_delegated_receipt (sv_crypto sv) g p identity result (if truthy (kw result ''ok'') then ''succeeded'' else ''failed'')
       head (JFloat now) = Inr receipt" "final = AList.update ''delegated_receipt'' (JObj (receipt_to_dict receipt)) result" by auto
  moreover have "sv_identity sv = Some identity" using 2(2) by simp
  ultimately show ?thesis using 2(3,6) by metis
qed

theorem delegated_call_completes_or_repeats_witness:
  "\<exists>g p s' final. sign_grant = Inr g \<and> sign_proof g = Inr p
     \<and> call_delegated_tool (host_services demo_host demo_inputs) (map_option host_agt None) ''sc_identity_sign'' sign_arguments g p
        (canonical_bytes (JObj signed_text)) ''s'' (demo_world []) = (s', Inr final)
     \<and> (\<exists>adm ok. store_phase (ho_replay (di_world s')) ''id'' = Finished adm ok)"
proof -
  obtain g p where g: "sign_grant = Inr g" and p: "sign_proof g = Inr p" using sign_granted by blast
  obtain s' final where c: "call_delegated_tool (host_services demo_host demo_inputs) (map_option host_agt None) ''sc_identity_sign'' sign_arguments g p
        (canonical_bytes (JObj signed_text)) ''s'' (demo_world []) = (s', Inr final)" using sign_call_returns[OF g p] by blast
  have i: "pr_action_id p = ''id''" using signed_action[OF p[unfolded sign_proof_def]] by simp
  from delegated_call_completes_or_repeats[OF c] have "\<exists>adm ok. store_phase (ho_replay (di_world s')) ''id'' = Finished adm ok"
    by (auto simp: sign_read[OF g p] i demo_world_def dispatcher_init_def)
  with g p c show ?thesis by blast
qed

text \<open>What a returned call leaves in the store.\<close>

lemma returned_row:
  assumes "call_delegated_tool (host_services sv bi) (map_option host_agt agt) name args g0 p0 payload sid s = (s', Inr final)"
    and "read_delegated_call (host_services sv bi) name args g0 p0 payload sid = Inr (ia, g, p)"
  shows "\<exists>c. map_of (ho_replay (di_world s')) (pr_action_id p) = Some c \<and> co_outcome c \<noteq> Admitted
    \<and> admitted_for (grant_id (sv_crypto sv) g, proof_id (sv_crypto sv) p, sid) c
    \<and> (co_result c = Some (key_sorted (JObj final)) \<or> Option.bind (co_result c) as_dict = Some final)"
proof (rule host.call_delegated_Inr[OF assms(1)], goal_cases)
  case (1 lg identity ia' g' p' c u1 u2 s1 key)
  then have same: "g' = g" "p' = p" using assms(2) by simp_all
  note row = recovered_row[OF 1(4-6,1)]
  have "ho_replay (di_world s') = ho_replay (di_world s)"
    using movesD[OF read.recover_moves[OF 1(1)] 1(8)] row(2) by simp
  with row(1) recover_completion_Inr[OF 1(8)] 1(7) same show ?case by (intro exI[of _ c]) auto
next
  case (2 lg identity ia' g' p' key s1 s2 s3 result)
  then have same: "g' = g" "p' = p" using assms(2) by simp_all
  obtain c where c: "map_of (ho_replay (di_world s')) (pr_action_id p) = Some c" "co_result c = Some (key_sorted (JObj final))"
      "co_outcome c \<noteq> Admitted" using finished_row[OF 2(7)] same by auto
  have "store_phase (ho_replay (di_world s')) (pr_action_id p)
      = Finished (grant_id (sv_crypto sv) g, proof_id (sv_crypto sv) p, sid) (truthy (kw result ''ok''))"
    using host.fresh_call_completes[OF 2(5-7,1)] same by (simp add: host_phase_def admission_of_def)
  then have "admitted_for (grant_id (sv_crypto sv) g, proof_id (sv_crypto sv) p, sid) c"
    using c(1) by (auto simp: store_phase_def phase_in_def admitted_for_def Let_def split: outcome.splits if_splits)
  with c show ?case by blast
qed

lemma bind_keeps:
  assumes "moves ph (=) m" "ph (di_world s) = w"
    and "\<And>s1 x. m s = (s1, Inr x) \<Longrightarrow> ph (di_world s1) = w \<Longrightarrow> ph (di_world (fst (f x s1))) = w"
  shows "ph (di_world (fst (bind_act m f s))) = w"
proof -
  obtain s1 r where m: "m s = (s1, r)" by fastforce
  with movesD[OF assms(1) m] assms(2,3) show ?thesis by (cases r) (auto simp: bind_act_def)
qed

lemma read_Inr: "bind_act (of_result (Inr x)) f = f x"
  by (simp add: bind_act_def of_result_def)

text \<open>A recorded action is looked up and nothing else.\<close>

lemma known_action_kept:
  assumes "read_delegated_call (host_services sv bi) name args g0 p0 payload sid = Inr (ia, g, p)"
    and "map_of (ho_replay (di_world s)) (pr_action_id p) = Some c" "co_outcome c \<noteq> Admitted"
  shows "ho_replay (di_world (fst (call_delegated_tool (host_services sv bi) (map_option host_agt agt) name args g0 p0 payload sid s)))
    = ho_replay (di_world s)" (is "?kept (call_delegated_tool _ _ _ _ _ _ _ _ s)")
proof (cases "sv_identity sv")
  case (Some identity)
  then have id: "sv_identity (host_services sv bi) = Some identity" by simp
  show ?thesis
    unfolding call_delegated_tool_def host.boundary id option.case prod.case assms(1) read_Inr
    apply (rule bind_keeps[OF read.before_begin_moves(1) refl])
    apply (cases "sv_ledger (host_services sv bi)")
     apply (simp add: raise_error_def)
    apply (simp only: option.case)
    apply (rule bind_keeps[OF read.verified_ledger_moves], assumption, assumption)
    apply (rule bind_keeps[OF read.moves_of_result], assumption)
    apply (rule bind_keeps[OF read.moves_require], assumption)
    apply (rule bind_keeps[OF read.moves_call_world_quiet[OF read.quiet_get]], assumption)
    subgoal premises prems for s1 key lg s2 u s3 past s4 v s5 found
    proof -
      have "ho_replay (di_world s4) = ho_replay (di_world s)" using prems by simp
      then have "found = Some c" using looked_up(1)[OF prems(10)] assms(2) by simp
      then show ?thesis
        using moves_fst[OF read.recover_moves[OF prems(3)], of s5] assms(3) prems by simp
    qed
    done
qed (simp add: call_delegated_tool_def raise_error_def)



subsection \<open>Calls without a delegation\<close>

text \<open>
  Without a delegation nothing is actuated: in a governed profile \<open>call_tool\<close> leaves the replay store as it is for
  every tool and any arguments; for a protected tool it gives the refusal (an error object, or the exception
  of the ledger the refusal is recorded in), before the arguments are even validated.
\<close>

theorem undelegated_calls_are_refused:
  assumes "governed_profile sv" "name \<in> set PROTECTED_DELEGATED_TOOLS"
    and "call_tool (host_services sv bi) (map_option host_agt agt) name arguments s = (s', r)"
    and "call_tool (host_services sv bi) (map_option host_agt agt) other arguments' s = (u, q)"
  shows "host_phase (di_world u) = host_phase (di_world s)
    \<and> (r = Inr [(''ok'', JBool False), (''tool'', JStr name),
          (''error'', JStr ''final actuation requires an owner-signed delegation grant and agent-signed action proof'')] \<or> (\<exists>e. r = Inl e))
    \<and> di_leases s' = di_leases s \<and> di_authority s' = di_authority s \<and> di_injected_text s' = di_injected_text s"
proof -
  have gp: "governed_profile (host_services sv bi)" using assms(1) by (simp add: governed_profile_def)
  have 1: "host_phase (di_world u) = host_phase (di_world s)"
    using movesD[OF host.execute_unauthorized_keeps[OF gp] assms(4)[unfolded call_tool_def]] by simp
  let ?t = "''final actuation requires an owner-signed delegation grant and agent-signed action proof''"
  have short: "bound_error ?t = ?t" by (simp add: bound_error_def MAX_ERROR_LEN_def)
  have refuse: "execute_checked (host_services sv bi) (map_option host_agt agt) None name args s = (s, Inl (DispatchError ?t))" for args
    using gp assms(2) by (simp add: execute_checked_def require_def raise_error_def bind_act_def)
  obtain args where e: "call_tool (host_services sv bi) (map_option host_agt agt) name arguments s
      = bind_act (record_audit (host_services sv bi) name False args [(''error'', JStr ?t)])
         (\<lambda>_. ret [(''ok'', JBool False), (''tool'', JStr name), (''error'', JStr ?t)]) s"
    by (auto simp: call_tool_def execute_tool_def catch_act_def refuse Let_def short)
  obtain s1 r1 where a: "record_audit (host_services sv bi) name False args [(''error'', JStr ?t)] s = (s1, r1)" by fastforce
  have "di_leases s1 = di_leases s \<and> di_authority s1 = di_authority s \<and> di_injected_text s1 = di_injected_text s"
    using record_audit_state[OF a] by simp
  with 1 e a assms(3) show ?thesis by (cases r1) (auto simp: bind_act_def ret_def)
qed

theorem undelegated_calls_are_refused_witness:
  "\<exists>s' r. call_tool (host_services demo_host demo_inputs) (map_option host_agt None) ''sc_inject_text'' None (demo_world []) = (s', r)
     \<and> di_leases s' = [] \<and> di_injected_text s' = []"
proof -
  have gov: "governed_profile demo_host" and prot: "''sc_inject_text'' \<in> set PROTECTED_DELEGATED_TOOLS"
    by (simp_all add: governed_profile_def PROTECTED_DELEGATED_TOOLS_def)
  obtain s' r where c: "call_tool (host_services demo_host demo_inputs) (map_option host_agt None) ''sc_inject_text'' None (demo_world []) = (s', r)"
    by fastforce
  from undelegated_calls_are_refused[OF gov prot c c] c show ?thesis by (auto simp: demo_world_def dispatcher_init_def)
qed

subsection \<open>Interrupted actions\<close>

lemma interrupted_kept:
  assumes "read_delegated_call (host_services sv bi) name args g0 p0 payload sid = Inr (ia, g, p)"
    and "host_phase (di_world s) (pr_action_id p) \<noteq> Unclaimed"
  shows "host_phase (di_world (fst (call_delegated_tool (host_services sv bi) (map_option host_agt agt) name args g0 p0 payload sid s)))
    = host_phase (di_world s)"
proof (cases "sv_identity sv")
  case (Some identity)
  then have id: "sv_identity (host_services sv bi) = Some identity" by simp
  show ?thesis
    unfolding call_delegated_tool_def host.boundary id option.case prod.case assms(1) read_Inr
    apply (rule bind_keeps[OF host.keep.before_begin_moves(1) refl])
    apply (cases "sv_ledger (host_services sv bi)")
     apply (simp add: raise_error_def)
    apply (simp only: option.case)
    apply (rule bind_keeps[OF host.keep.verified_ledger_moves], assumption, assumption)
    apply (rule bind_keeps[OF host.keep.moves_of_result], assumption)
    apply (rule bind_keeps[OF host.keep.moves_require], assumption)
    apply (rule bind_keeps[OF host.keep.moves_call_world_quiet[OF host.quiet_get]], assumption)
    subgoal premises prems for s1 key lg s2 u s3 past s4 v s5 found
    proof -
      obtain s6 q where a: "authorize_fresh (host_services sv bi) (host_boundary bi) name ia
              \<lparr>vc_grant = g, vc_proof = p, vc_payload = payload, vc_session_id = sid\<rparr> key s5 = (s6, q)" by fastforce
      have "host_phase (di_world s5) (pr_action_id (vc_proof
            \<lparr>vc_grant = g, vc_proof = p, vc_payload = payload, vc_session_id = sid\<rparr>)) \<noteq> Unclaimed" using prems(11) assms(2) by simp
      from host.authorize_known[OF this a] prems(11) obtain e where "q = Inl e" "host_phase (di_world s6) = host_phase (di_world s)" by auto
      moreover have "host_phase (di_world (fst (recover_completion (host_services sv bi) lg identity name g p sid c s5))) = host_phase (di_world s)" for c
        using moves_fst[OF host.keep.recover_moves[OF prems(3)], of s5] prems(11) by simp
      ultimately show ?thesis using a by (simp add: Let_def bind_act_def)
    qed
    done
qed (simp add: call_delegated_tool_def raise_error_def)

text \<open>
  C40. An action interrupted between its claim and its completion stays interrupted: when the store holds it as claimed or
  started (a crash, a handler that failed before its gate, or a completion that could not be
  stored), every delegated call for its identifier ends with an exception and moves no action, so
  that no retry completes it.
\<close>

theorem interrupted_actions_stay:
  assumes "call_delegated_tool (host_services sv bi) (map_option host_agt agt) name args g0 p0 payload sid s = (s', r)"
    and "read_delegated_call (host_services sv bi) name args g0 p0 payload sid = Inr (ia, g, p)"
    and "store_phase (ho_replay (di_world s)) (pr_action_id p) \<in> {Claimed adm, Started adm}"
  shows "store_phase (ho_replay (di_world s')) = store_phase (ho_replay (di_world s)) \<and> (\<exists>e. r = Inl e)"
proof -
  have err: "\<exists>e. r = Inl e"
  proof (rule ccontr)
    assume "\<not> ?thesis"
    then obtain final where "r = Inr final" by (cases r) auto
    with assms(1) have c: "call_delegated_tool (host_services sv bi) (map_option host_agt agt) name args g0 p0 payload sid s = (s', Inr final)"
      by simp
    show False
    proof (rule host.call_delegated_Inr[OF c], goal_cases)
      case (1 lg identity ia' g' p' c u1 u2 s1 key)
      from recovered_row(1)[OF 1(4-6,1)] 1(3,7) assms(2,3) show ?case
        by (auto simp: store_phase_def phase_in_def Let_def split: outcome.splits if_splits dest: sym)
    next
      case (2 lg identity ia' g' p' key s1 s2 s3 result)
      from host.authorize_fresh_Inr[OF 2(5)] 2(3,4) assms(2,3) show ?case by (auto simp: host_phase_def)
    qed
  qed
  have "host_phase (di_world s) (pr_action_id p) \<noteq> Unclaimed" using assms(3) by (auto simp: host_phase_def)
  from interrupted_kept[OF assms(2) this, of agt] err assms(1) show ?thesis by (simp add: host_phase_def[abs_def])
qed

theorem interrupted_actions_stay_witness:
  "\<exists>g p s' e. sign_grant = Inr g \<and> sign_proof g = Inr p
     \<and> call_delegated_tool (host_services demo_host demo_inputs) (map_option host_agt None) ''sc_identity_sign'' sign_arguments g p
        (canonical_bytes (JObj signed_text)) ''s'' (demo_world [(''id'', claimed_row g p)]) = (s', Inl e)"
proof -
  obtain g p where g: "sign_grant = Inr g" and p: "sign_proof g = Inr p" using sign_granted by blast
  obtain s' r where c: "call_delegated_tool (host_services demo_host demo_inputs) (map_option host_agt None) ''sc_identity_sign'' sign_arguments g p
        (canonical_bytes (JObj signed_text)) ''s'' (demo_world [(''id'', claimed_row g p)]) = (s', r)" by fastforce
  have i: "pr_action_id p = ''id''" using signed_action[OF p[unfolded sign_proof_def]] by simp
  have "store_phase (ho_replay (di_world (demo_world [(''id'', claimed_row g p)]))) (pr_action_id p)
      \<in> {Claimed (grant_id demo_delegation g, proof_id demo_delegation p, ''s''), Started (grant_id demo_delegation g, proof_id demo_delegation p, ''s'')}"
    by (simp add: demo_world_def dispatcher_init_def store_phase_def phase_in_def claimed_row_def i)
  from interrupted_actions_stay[OF c sign_read[OF g p] this] g p c show ?thesis by blast
qed

end
