(* ===== verification/DeliverySpec.thy ===== *)
theory DeliverySpec
  imports DispatchDemo
begin

text \<open>
  What \<open>sc_inject_text\<close> and its steps guarantee, whatever the services do: a lease that passes
  confines its agent, an authorization that passes was decided by the policy and approved where the
  policy asks for it, a delivery that is reported as confirmed was sent once and seen on the
  screen, and the polling loops end within the time they are given.
\<close>

subsection \<open>Leases\<close>

lemma authority_verify_lease: "authority_verify lk au i l b = Inr l' \<Longrightarrow> l' = l \<and> ls_lease_id l = i"
  by (auto simp: authority_verify_def Let_def split: option.splits if_splits)

lemma deny_lease_role_Inr: "deny_lease_role sv i tool r1 r2 reason s \<noteq> (s', Inr x)"
  by (auto simp: deny_lease_role_def bind_act_Inr)

lemma require_lease_Inr:
  assumes "require_lease sv i hwnd tool s = (s', Inr l)"
  shows "map_of (di_leases s) i = Some l \<and> ls_hwnd l = hwnd \<and> authority_verify (sv_lease_keys sv) (di_authority s) i l False = Inr l
    \<and> ls_role l \<in> set (allowed_roles tool) \<and> (\<exists>w now. sv_now sv (di_world s) = (w, now) \<and> lease_is_active l now \<and> s' = s\<lparr>di_world := w\<rparr>)"
proof -
  obtain l0 where l0: "map_of (di_leases s) i = Some l0"
    using assms by (cases "map_of (di_leases s) i") (auto simp: require_lease_def bind_act_Inr)
  then obtain w now where w: "sv_now sv (di_world s) = (w, now)" "lease_is_active l0 now" "hwnd = ls_hwnd l0"
    and rest: "(case authority_verify (sv_lease_keys sv) (di_authority s) i l0 False of
        Inl e \<Rightarrow> deny_lease_role sv i tool (ls_role l0) (ae_issued_role e) (ae_reason e)
      | Inr authority \<Rightarrow> (case map_of LEASE_TOOL_ROLES tool of
          None \<Rightarrow> deny_lease_role sv i tool (ls_role l0) (ls_role authority)
            (''tool '' @ py_repr tool @ '' has no lease-role authorization contract'')
        | Some roles \<Rightarrow> if ls_role authority \<notin> set roles
            then deny_lease_role sv i tool (ls_role l0) (ls_role authority)
              (''lease role '' @ py_repr (ls_role authority) @ '' is not authorized for '' @ tool)
            else ret l0)) (s\<lparr>di_world := w\<rparr>) = (s', Inr l)"
    using assms by (auto simp: require_lease_def step_simps)
  obtain l1 where l1: "authority_verify (sv_lease_keys sv) (di_authority s) i l0 False = Inr l1" and rest1: "(case map_of LEASE_TOOL_ROLES tool of
          None \<Rightarrow> deny_lease_role sv i tool (ls_role l0) (ls_role l1)
            (''tool '' @ py_repr tool @ '' has no lease-role authorization contract'')
        | Some roles \<Rightarrow> if ls_role l1 \<notin> set roles
            then deny_lease_role sv i tool (ls_role l0) (ls_role l1)
              (''lease role '' @ py_repr (ls_role l1) @ '' is not authorized for '' @ tool)
            else ret l0) (s\<lparr>di_world := w\<rparr>) = (s', Inr l)"
    using rest by (cases "authority_verify (sv_lease_keys sv) (di_authority s) i l0 False") (simp_all add: deny_lease_role_Inr)
  obtain roles where roles: "map_of LEASE_TOOL_ROLES tool = Some roles" "ls_role l1 \<in> set roles" "l = l0" "s' = s\<lparr>di_world := w\<rparr>"
    using rest1 by (cases "map_of LEASE_TOOL_ROLES tool") (auto simp: deny_lease_role_Inr split: if_splits)
  show ?thesis
    using l0 w l1 roles authority_verify_lease[OF l1] by (auto simp: allowed_roles_def dict_get_def)
qed

subsection \<open>Policy and approval\<close>

definition asked_classification :: "json_object \<Rightarrow> json" where
  "asked_classification args = (if truthy (kw args ''classification'') then kw args ''classification'' else JStr ''UNCLASSIFIED'')"

text \<open>
  An authorization: the agent was active, the policy allowed the action on the program of the
  target, the decision went to the ledger, and where an approval is required one was consumed
  for exactly this context and, where the queue can tell, its binding verified.
\<close>

definition authorized :: "'w services \<Rightarrow> lease \<Rightarrow> json_object \<Rightarrow> json_object \<Rightarrow> pystr \<Rightarrow> bool" where
  "authorized sv l args target action \<longleftrightarrow>
     (\<exists>check lg w w1 x x1 d y y1 metadata entry.
        sv_policy sv = Some check \<and> sv_ledger sv = Some lg
      \<and> sv_is_active sv w (ls_agent_id l) = (w1, Inr True)
      \<and> (\<exists>exe. item target ''exe'' = Inr exe
           \<and> check x (ls_agent_id l) action (str_of exe) (asked_classification args) (sv_identity_type sv) = (x1, Inr d))
      \<and> de_allowed d
      \<and> decision_entry l d target action = Inr metadata \<and> lgs_log lg y (mk_call ''policy_decision'' ''allowed'' metadata) = (y1, Inr entry)
      \<and> (de_requires_approval d \<longrightarrow>
          (\<exists>q context z z1 approval. sv_queue sv = Some q \<and> build_approval_context sv l args target action = Inr context
             \<and> qs_consume q z (kw args ''approval_id'') (ls_agent_id l) action context = (z1, Inr (Some approval))
             \<and> (\<forall>verify. qs_verify_binding q = Some verify \<longrightarrow>
                  (\<exists>v v1. verify v approval (ls_agent_id l) action context = (v1, Inr True))))))"

lemma consume_approval_Inr:
  assumes "consume_approval sv l args target action s = (s', Inr operator_id)"
  shows "\<exists>q context z z1 approval. sv_queue sv = Some q \<and> build_approval_context sv l args target action = Inr context
    \<and> qs_consume q z (kw args ''approval_id'') (ls_agent_id l) action context = (z1, Inr (Some approval))
    \<and> (\<forall>verify. qs_verify_binding q = Some verify \<longrightarrow> (\<exists>v v1. verify v approval (ls_agent_id l) action context = (v1, Inr True)))"
proof -
  obtain q where q: "sv_queue sv = Some q" using assms by (cases "sv_queue sv") (auto simp: consume_approval_def bind_act_Inr)
  from assms obtain ctx s1 s2 approval where 1: "build_approval_context sv l args target action = Inr ctx"
    and 2: "call_world (\<lambda>w. qs_consume q w (kw args ''approval_id'') (ls_agent_id l) action ctx) s = (s1, Inr (Some approval))"
    and 3: "(case qs_verify_binding q of None \<Rightarrow> ret True
       | Some verify \<Rightarrow> call_world (\<lambda>w. verify w approval (ls_agent_id l) action ctx)) s1 = (s2, Inr True)"
    unfolding consume_approval_def q option.case by (auto elim!: bind_act_InrE split: option.splits)
  from 3 have "\<exists>v v1. verify v approval (ls_agent_id l) action ctx = (v1, Inr True)" if "qs_verify_binding q = Some verify" for verify
    using that by (auto simp: call_world_Inr)
  moreover from 2 obtain z z1 where "qs_consume q z (kw args ''approval_id'') (ls_agent_id l) action ctx = (z1, Inr (Some approval))"
    by (auto simp: call_world_Inr)
  ultimately show ?thesis using q 1 by blast
qed

lemma call_world_InrE:
  assumes "call_world f s = (s', Inr x)"
  obtains w w' where "f w = (w', Inr x)"
  using assms by (auto simp: call_world_Inr)

lemma require_execution_authorization_Inr:
  assumes "require_execution_authorization sv l args target action s = (s', Inr governance)"
  shows "authorized sv l args target action"
proof -
  obtain lg where lg: "sv_ledger sv = Some lg"
    using assms by (cases "sv_ledger sv") (auto simp: require_execution_authorization_def bind_act_Inr)
  obtain check where check: "sv_policy sv = Some check"
    using assms by (cases "sv_policy sv") (auto simp: require_execution_authorization_def bind_act_Inr)
  from assms obtain s1 s2 s3 s4 exe d metadata operator_id where 1: "call_world (\<lambda>w. sv_is_active sv w (ls_agent_id l)) s = (s1, Inr True)"
      "item target ''exe'' = Inr exe"
      "call_world (\<lambda>w. check w (ls_agent_id l) action (str_of exe) (asked_classification args) (sv_identity_type sv)) s1 = (s2, Inr d)"
      "decision_entry l d target action = Inr metadata" "de_allowed d"
      "log_entry sv ''policy_decision'' (if de_allowed d then ''allowed'' else ''denied'') metadata s2 = (s3, Inr ())"
      "(if de_requires_approval d then consume_approval sv l args target action else ret []) s3 = (s4, Inr operator_id)"
    unfolding require_execution_authorization_def check option.case asked_classification_def by (auto elim!: bind_act_InrE)
  obtain w w1 where w: "sv_is_active sv w (ls_agent_id l) = (w1, Inr True)" using call_world_InrE[OF 1(1)] .
  obtain x x1 where x: "check x (ls_agent_id l) action (str_of exe) (asked_classification args) (sv_identity_type sv) = (x1, Inr d)"
    using call_world_InrE[OF 1(3)] .
  obtain y y1 entry where y: "lgs_log lg y (mk_call ''policy_decision'' ''allowed'' metadata) = (y1, Inr entry)"
    using 1(5,6) by (auto simp: log_entry_def lg elim!: bind_act_InrE call_world_InrE)
  have "de_requires_approval d \<Longrightarrow> consume_approval sv l args target action s3 = (s4, Inr operator_id)" using 1(7) by simp
  note approval = consume_approval_Inr[OF this]
  show ?thesis
    unfolding authorized_def using check lg w 1(2) x 1(5,4) y approval by blast
qed

subsection \<open>Sending and seeing\<close>

lemma read_output_once_Inr:
  assumes "read_output_once sv hwnd l s = (s', Inr screen)"
  shows "\<exists>reader w w'. sv_reader sv = Some reader \<and> reader w hwnd = (w', Inr (JStr screen))"
proof -
  from assms obtain s1 s2 s3 v where 1: "(case sv_reader sv of None \<Rightarrow> ret JNull
       | Some reader \<Rightarrow> catch_act (call_world (\<lambda>w. reader w hwnd))
           (\<lambda>e. raise_error (''UIA TextPattern output read failed: '' @ exn_text e))) s1 = (s2, Inr v)"
    and 2: "(case v of JStr t \<Rightarrow> ret t | _ \<Rightarrow> raise_error ''UIA TextPattern output reader returned no text value'') s2 = (s3, Inr screen)"
    unfolding read_output_once_def by (auto elim!: bind_act_InrE)
  from 2 have v: "v = JStr screen" by (cases v) simp_all
  with 1 show ?thesis
    by (cases "sv_reader sv") (auto simp: catch_act_def raise_error_def call_world_Inr split: prod.splits sum.splits)
qed

lemma await_echo_Inr:
  "await_echo n sv l probe b deadline s = (s', Inr screen)
     \<Longrightarrow> b < str_count (normalise_terminal_text screen) probe \<and> (\<exists>reader w w'. sv_reader sv = Some reader \<and> reader w (ls_hwnd l) = (w', Inr (JStr screen)))"
proof (induction n arbitrary: s)
  case (Suc n)
  then obtain s1 current where 1: "read_output_once sv (ls_hwnd l) l s = (s1, Inr current)"
    and 2: "(if b < str_count (normalise_terminal_text current) probe
       then bind_act (verify_live_target sv (ls_hwnd l) (Some l)) (\<lambda>_. ret current)
       else bind_act (on_world (sv_monotonic_ms sv)) (\<lambda>t.
           if deadline \<le> t
           then raise_error ''delivery unconfirmed by UIA readback; the target may have received the payload, so do not retry automatically''
           else bind_act (sleep_until sv deadline) (\<lambda>_. await_echo n sv l probe b deadline))) s1 = (s', Inr screen)"
    by (auto elim!: bind_act_InrE)
  show ?case
  proof (cases "b < str_count (normalise_terminal_text current) probe")
    case True
    with 2 have "current = screen" by (auto elim!: bind_act_InrE)
    with True read_output_once_Inr[OF 1] show ?thesis by blast
  next
    case False
    with 2 obtain s2 where "await_echo n sv l probe b deadline s2 = (s', Inr screen)"
      by (auto elim!: bind_act_InrE split: if_splits)
    then show ?thesis by (rule Suc.IH)
  qed
qed simp

lemma on_dispatch_error_Inr:
  assumes "on_dispatch_error m h s = (s', Inr x)" "\<And>t u. h t u \<noteq> (s', Inr x)"
  shows "m s = (s', Inr x)"
  using assms by (auto simp: on_dispatch_error_def catch_act_def of_result_def split: prod.splits sum.splits exn.splits)

lemma verify_live_target_Inr:
  assumes "verify_live_target sv hwnd expected s = (s', Inr d)"
  shows "\<exists>verify w w'. sv_verifier sv = Some verify
    \<and> verify w hwnd (case expected of None \<Rightarrow> expect_terminal | Some l \<Rightarrow> lease_expectation l) = (w', Inr (JObj d)) \<and> truthy (kw d ''ok'')
    \<and> (\<forall>l. expected = Some l \<longrightarrow> hash_text sv (str_of (dict_get d ''title'' (JStr []))) = ls_target_title_hash l)"
proof -
  obtain verify where v: "sv_verifier sv = Some verify" using assms by (cases "sv_verifier sv") (auto simp: verify_live_target_def)
  from assms obtain s1 report where
    1: "call_world (\<lambda>w. verify w hwnd (case expected of None \<Rightarrow> expect_terminal | Some l \<Rightarrow> lease_expectation l)) s = (s1, Inr report)"
    "as_mapping report = Inr d" "truthy (kw d ''ok'')"
    "case expected of None \<Rightarrow> True | Some l \<Rightarrow> hash_text sv (str_of (dict_get d ''title'' (JStr []))) = ls_target_title_hash l"
    unfolding verify_live_target_def v option.case by (auto elim!: bind_act_InrE split: if_splits)
  have "report = JObj d" using 1(2) by (cases report) (simp_all add: as_mapping_def)
  with v 1 show ?thesis by (auto simp: call_world_Inr)
qed

lemma prepare_injection_Inr:
  assumes "prepare_injection sv args s = (s', Inr (probe, l, governance, n))"
  shows "\<exists>t i hwnd s1 target before w w'. text_item args ''text'' = Inr t \<and> delivery_probe t = Inr probe \<and> text_item args ''lease_id'' = Inr i
    \<and> int_item args ''hwnd'' = Inr hwnd \<and> require_lease sv i hwnd ''sc_inject_text'' s = (s1, Inr l)
    \<and> (\<exists>u u'. verify_live_target sv hwnd (Some l) u = (u', Inr target)) \<and> authorized sv l args target ''sc_inject_text''
    \<and> (\<exists>reader. sv_reader sv = Some reader \<and> reader w (ls_hwnd l) = (w', Inr (JStr before)))
    \<and> n = str_count (normalise_terminal_text before) probe"
proof -
  from assms obtain t i hwnd s1 s2 s3 s4 s5 target before where
    1: "text_item args ''text'' = Inr t" "delivery_probe t = Inr probe" "text_item args ''lease_id'' = Inr i" "int_item args ''hwnd'' = Inr hwnd"
    "require_lease sv i hwnd ''sc_inject_text'' s = (s1, Inr l)" "verify_live_target sv hwnd (Some l) s1 = (s2, Inr target)"
    "require_execution_authorization sv l args target ''sc_inject_text'' s2 = (s3, Inr governance)"
    "read_output_once sv (ls_hwnd l) l s4 = (s5, Inr before)" "n = str_count (normalise_terminal_text before) probe"
    unfolding prepare_injection_def by (auto elim!: bind_act_InrE)
  obtain reader w w' where "sv_reader sv = Some reader" "reader w (ls_hwnd l) = (w', Inr (JStr before))"
    using read_output_once_Inr[OF 1(8)] by blast
  with 1 require_execution_authorization_Inr[OF 1(7)] show ?thesis by blast
qed

lemma send_text_Inr:
  assumes "send_text sv args l s = (s', Inr receipt)"
  shows "\<exists>router hwnd w w'. sv_router sv = Some router \<and> int_item args ''hwnd'' = Inr hwnd
    \<and> ro_route router w hwnd (kw args ''text'') (ls_lease_id l) (target_binding_of l) = (w', Inr receipt)"
proof -
  obtain router where r: "sv_router sv = Some router" using assms by (cases "sv_router sv") (auto simp: send_text_def)
  with assms obtain hwnd where h: "int_item args ''hwnd'' = Inr hwnd"
    "call_exn (\<lambda>w. ro_route router w hwnd (kw args ''text'') (ls_lease_id l) (target_binding_of l)) s = (s', Inr receipt)"
    by (auto simp: send_text_def bind_act_Inr)
  obtain w q where "ro_route router (di_world s) hwnd (kw args ''text'') (ls_lease_id l) (target_binding_of l) = (w, q)" by fastforce
  with r h show ?thesis by (auto simp: call_exn_def)
qed

lemma confirm_delivery_Inr:
  assumes "confirm_delivery sv args l receipt probe n s = (s', Inr screen)"
  shows "n < str_count (normalise_terminal_text screen) probe
    \<and> (\<exists>reader w w'. sv_reader sv = Some reader \<and> reader w (ls_hwnd l) = (w', Inr (JStr screen)))"
proof -
  from assms obtain s1 deadline where
    "on_dispatch_error (await_echo (sv_poll_limit sv) sv l probe n deadline) (\<lambda>t.
         bind_act (persist_delivery_disposition sv l receipt enqueued_unconfirmed t) (\<lambda>_. raise_error t)) s1 = (s', Inr screen)"
    unfolding confirm_delivery_def by (auto elim!: bind_act_InrE)
  then have "await_echo (sv_poll_limit sv) sv l probe n deadline s1 = (s', Inr screen)"
    by (rule on_dispatch_error_Inr) (auto simp: bind_act_Inr)
  then show ?thesis by (rule await_echo_Inr)
qed


text \<open>A desk: one terminal, a world that counts the texts sent to it, and a lease to send.\<close>

definition desk_lease :: lease where
  "desk_lease = demo_lease\<lparr>ls_role := ''sender'', ls_issued_at := 0, ls_expires_at := 9, ls_revoked := False, ls_target_title_hash := ''h''\<rparr>"

definition desk_target :: json_object where
  "desk_target = [(''ok'', JBool True), (''title'', JStr ''T''), (''pid'', JInt 7), (''exe'', JStr ''cmd.exe''), (''class'', JStr ''K'')]"

definition desk :: "nat services" where
  "desk =
     \<lparr>sv_profile = ''normal'', sv_identity_type = ''software'',
      sv_crypto = \<lparr>dc_sha256 = (\<lambda>_. ''h''), dc_ed25519 = (\<lambda>_ _ _. False), dc_p384 = (\<lambda>_ _ _. False)\<rparr>, sv_paths = demo_paths,
      sv_loads = (\<lambda>_. Inl []), sv_lease_keys = demo_keys, sv_sign = id, sv_public_key = [], sv_now = (\<lambda>w. (w, 1)),
      sv_monotonic_ms = (\<lambda>w. (w, 0)), sv_sleep_ms = (\<lambda>w d. w), sv_poll_limit = 1, sv_uuid4 = (\<lambda>w. (w, [])),
      sv_ledger = Some quiet_ledger,
      sv_policy = Some (\<lambda>w _ _ _ _ _. (w, Inr \<lparr>de_allowed = True, de_reason = [], de_requires_approval = False, de_policy_id = JNull,
        de_classification = ''CUI'', de_approval_mode = ''autonomous''\<rparr>)),
      sv_is_active = (\<lambda>w a. (w, Inr True)), sv_register = (\<lambda>w a. (w, Inr ())), sv_queue = None,
      sv_verifier = Some (\<lambda>w _ _. (w, Inr (JObj desk_target))), sv_resolver = None,
      sv_router = Some \<lparr>ro_route = (\<lambda>w _ _ _ _. (Suc w, Inr [(''success'', JBool True)])), ro_classify = (\<lambda>w _. (w, Inr []))\<rparr>,
      sv_reader = Some (\<lambda>w _. (w, Inr (JStr (if w = 0 then ''>'' else ''>x'')))), sv_tpm = None, sv_boundary = None,
      sv_identity = None, sv_guard = Inl [], sv_mesh = (\<lambda>w b. (w, Inr [])), sv_channels = (\<lambda>w. (w, Inr [])),
      sv_open_pipe = (\<lambda>w n. (w, Inr None))\<rparr>"

definition desk_state :: "nat dispatcher" where
  "desk_state = (dispatcher_init 0)\<lparr>di_leases := [(ls_lease_id desk_lease, desk_lease)],
     di_authority := (case authority_issue demo_keys authority_init desk_lease of Inr au \<Rightarrow> au | Inl _ \<Rightarrow> authority_init)\<rparr>"

definition desk_arguments :: json_object where
  "desk_arguments = [(''lease_id'', JStr (ls_lease_id desk_lease)), (''hwnd'', JInt (ls_hwnd desk_lease)), (''text'', JStr ''x'')]"

lemma desk_delivers: "is_ok (snd (sc_inject_text desk desk_arguments None desk_state))"
  by code_simp


subsection \<open>The polling loops end\<close>

text \<open>
  What is documented of the monotonic clock and of \<open>time.sleep\<close>: the clock never goes back, and a
  sleep lasts at least as long as asked. The reader and the verifier take time, and raise nothing
  but their own exceptions.
\<close>

definition clock_laws :: "'w services \<Rightarrow> ('w \<Rightarrow> int) \<Rightarrow> bool" where
  "clock_laws sv clock \<longleftrightarrow>
     (\<forall>w w' t. sv_monotonic_ms sv w = (w', t) \<longrightarrow> clock w \<le> t \<and> t \<le> clock w')
     \<and> (\<forall>w d. 0 \<le> d \<longrightarrow> clock w + d \<le> clock (sv_sleep_ms sv w d))
     \<and> (\<forall>v w h e. sv_verifier sv = Some v \<longrightarrow> clock w \<le> clock (fst (v w h e)))
     \<and> (\<forall>r w h. sv_reader sv = Some r \<longrightarrow> clock w \<le> clock (fst (r w h)))"

interpretation time: movement clock "(\<le>)" for clock :: "'w \<Rightarrow> int"
  by unfold_locales auto

lemma time_verify: "clock_laws sv clock \<Longrightarrow> moves clock (\<le>) (verify_live_target sv h e)"
  unfolding verify_live_target_def
  by (cases "sv_verifier sv") (auto simp: clock_laws_def intro!: time.moves_raise time.moves_bind time.moves_call_world time.moves_of_result
      time.moves_if time.moves_require time.moves_ret)

lemma time_read: "clock_laws sv clock \<Longrightarrow> moves clock (\<le>) (read_output_once sv h l)"
  unfolding read_output_once_def
  by (cases "sv_reader sv") (auto simp: clock_laws_def intro!: time_verify[unfolded clock_laws_def] time.moves_raise time.moves_bind
      time.moves_call_world time.moves_catch time.moves_ret time.moves_json)

text \<open>An operation that is not a loop is never cut off.\<close>

definition ends :: "('w, 'a) act \<Rightarrow> bool" where
  "ends m \<longleftrightarrow> (\<forall>s. snd (m s) \<noteq> Inl Unfinished)"

lemma ends_intros:
  "ends (ret x)" "ends (raise_error t)" "ends (require b t)" "r \<noteq> Inl Unfinished \<Longrightarrow> ends (of_result r)" "ends (on_world f)"
  "ends (call_world g)"
  by (auto simp: ends_def ret_def raise_error_def require_def of_result_def on_world_def call_world_def call_exn_def as_exn_def
      split: prod.splits sum.splits)

lemma ends_bind: "ends m \<Longrightarrow> (\<And>x. ends (f x)) \<Longrightarrow> ends (bind_act m f)"
  by (auto simp: ends_def bind_act_def split: prod.splits sum.splits) (metis snd_conv)

lemma ends_catch: "(\<And>e. ends (h e)) \<Longrightarrow> ends (catch_act m h)"
  by (auto simp: ends_def catch_act_def split: prod.splits sum.splits)

lemma ends_verify: "ends (verify_live_target sv h e)"
proof -
  have "unsafe_reasons d \<noteq> Unfinished" for d by (auto simp: unsafe_reasons_def Let_def split: sum.splits json.splits)
  moreover have "as_mapping v \<noteq> Inl Unfinished" for v by (cases v) (simp_all add: as_mapping_def)
  ultimately show ?thesis
    unfolding verify_live_target_def by (cases "sv_verifier sv") (auto intro!: ends_bind ends_intros)
qed

lemma ends_read: "ends (read_output_once sv h l)"
  unfolding read_output_once_def
  by (cases "sv_reader sv") (auto intro!: ends_bind ends_intros ends_catch ends_verify split: json.split)

text \<open>One pass of a loop that is not its last brings the deadline 50 ms closer, or reaches it.\<close>

lemma pass_advances:
  assumes "clock_laws sv clock" "on_world (sv_monotonic_ms sv) s1 = (s2, Inr t)" "\<not> deadline \<le> t"
    and "sleep_until sv deadline s2 = (s3, Inr u)" "deadline \<le> clock (di_world s1) + 50 * int (Suc n)"
  shows "deadline \<le> clock (di_world s3) + 50 * int n"
proof -
  obtain w where w: "sv_monotonic_ms sv (di_world s1) = (w, t)" "s2 = s1\<lparr>di_world := w\<rparr>" using assms(2) by (auto simp: on_world_Inr)
  obtain w' t' where w': "sv_monotonic_ms sv w = (w', t')" by fastforce
  let ?d = "min 50 (max 0 (deadline - t'))"
  have s3: "di_world s3 = sv_sleep_ms sv w' ?d"
    using assms(4) w' w(2) by (auto simp: sleep_until_def bind_act_Inr on_world_Inr)
  have "clock (di_world s1) \<le> clock w" "clock w \<le> t'" "t' \<le> clock w'" "clock w' + ?d \<le> clock (di_world s3)"
    using assms(1) w(1) w' s3 unfolding clock_laws_def by (fastforce, fastforce, fastforce, simp)
  then show ?thesis using assms(5) by (simp add: min_def max_def split: if_splits)
qed

lemma sleep_returns: "\<exists>s'. sleep_until sv d s = (s', Inr ())"
  by (simp add: sleep_until_def bind_act_def on_world_def split: prod.split)

text \<open>A loop that is cut off has made such a pass.\<close>

definition another_pass :: "'w services \<Rightarrow> ('w \<Rightarrow> int) \<Rightarrow> int \<Rightarrow> 'w dispatcher \<Rightarrow> 'w dispatcher \<Rightarrow> bool" where
  "another_pass sv clock deadline s s3 \<longleftrightarrow> (\<exists>s1 s2 t. clock (di_world s) \<le> clock (di_world s1)
     \<and> on_world (sv_monotonic_ms sv) s1 = (s2, Inr t) \<and> \<not> deadline \<le> t \<and> sleep_until sv deadline s2 = (s3, Inr ()))"

lemma another_pass_later:
  assumes "clock_laws sv clock" "another_pass sv clock deadline s s3" "deadline \<le> clock (di_world s) + 50 * int n"
  shows "\<exists>m. n = Suc m \<and> deadline \<le> clock (di_world s3) + 50 * int m"
proof -
  from assms(2) obtain s1 s2 t where 1: "clock (di_world s) \<le> clock (di_world s1)" "on_world (sv_monotonic_ms sv) s1 = (s2, Inr t)"
    "\<not> deadline \<le> t" "sleep_until sv deadline s2 = (s3, Inr ())" unfolding another_pass_def by blast
  have "clock (di_world s1) \<le> t" using assms(1) 1(2) by (fastforce simp: clock_laws_def on_world_Inr)
  with 1 assms(3) obtain m where m: "n = Suc m" by (cases n) auto
  with assms(3) 1(1) have "deadline \<le> clock (di_world s1) + 50 * int (Suc m)" by simp
  from pass_advances[OF assms(1) 1(2-4) this] m show ?thesis by blast
qed

lemma unfinished_bind:
  assumes "snd (bind_act m f s) = Inl Unfinished" "ends m"
  obtains s1 x where "m s = (s1, Inr x)" "snd (f x s1) = Inl Unfinished"
  using assms by (auto simp: bind_act_def ends_def split: prod.splits sum.splits) (metis snd_conv)

lemma on_world_returns: "\<exists>s' x. on_world f s = (s', Inr x)"
  by (cases "f (di_world s)") (simp add: on_world_def)

lemma await_echo_pass:
  assumes "clock_laws sv clock" "snd (await_echo (Suc n) sv l probe b deadline s) = Inl Unfinished"
  shows "\<exists>s3. another_pass sv clock deadline s s3 \<and> snd (await_echo n sv l probe b deadline s3) = Inl Unfinished"
proof -
  let ?rest = "\<lambda>current. if b < str_count (normalise_terminal_text current) probe
       then bind_act (verify_live_target sv (ls_hwnd l) (Some l)) (\<lambda>_. ret current)
       else bind_act (on_world (sv_monotonic_ms sv)) (\<lambda>t. if deadline \<le> t
           then raise_error ''delivery unconfirmed by UIA readback; the target may have received the payload, so do not retry automatically''
           else bind_act (sleep_until sv deadline) (\<lambda>_. await_echo n sv l probe b deadline))"
  obtain s1 current where 1: "read_output_once sv (ls_hwnd l) l s = (s1, Inr current)" "snd (?rest current s1) = Inl Unfinished"
    using assms(2) by (auto elim!: unfinished_bind[OF _ ends_read])
  have seen: "snd (bind_act (verify_live_target sv (ls_hwnd l) (Some l)) (\<lambda>_. ret current) s1) \<noteq> Inl Unfinished"
  proof -
    have "ends (bind_act (verify_live_target sv (ls_hwnd l) (Some l)) (\<lambda>_. ret current))"
      by (intro ends_bind ends_verify ends_intros)
    then show ?thesis unfolding ends_def by blast
  qed
  obtain s2 t s3 where 2: "on_world (sv_monotonic_ms sv) s1 = (s2, Inr t)" "\<not> deadline \<le> t" "sleep_until sv deadline s2 = (s3, Inr ())"
    "snd (await_echo n sv l probe b deadline s3) = Inl Unfinished"
  proof -
    obtain s2 t where t: "on_world (sv_monotonic_ms sv) s1 = (s2, Inr t)" using on_world_returns[of "sv_monotonic_ms sv" s1] by blast
    obtain s3 where "sleep_until sv deadline s2 = (s3, Inr ())" using sleep_returns by blast
    with 1(2) t seen that show thesis by (auto simp: bind_act_def raise_error_def split: if_splits)
  qed
  have "clock (di_world s) \<le> clock (di_world s1)" using movesD[OF time_read[OF assms(1)] 1(1)] .
  with 2 show ?thesis unfolding another_pass_def by blast
qed

lemma await_output_pass:
  assumes "clock_laws sv clock" "snd (await_output (Suc n) sv l previous current deadline s) = Inl Unfinished"
  shows "\<exists>s3 s4 next1. another_pass sv clock deadline s s3 \<and> clock (di_world s3) \<le> clock (di_world s4)
    \<and> snd (await_output n sv l previous next1 deadline s4) = Inl Unfinished"
proof -
  obtain s2 t where t: "on_world (sv_monotonic_ms sv) s = (s2, Inr t)" using on_world_returns[of "sv_monotonic_ms sv" s] by blast
  obtain s3 where s3: "sleep_until sv deadline s2 = (s3, Inr ())" using sleep_returns by blast
  from assms(2) t s3 have 1: "\<not> deadline \<le> t" and
    2: "snd (bind_act (read_output_once sv (ls_hwnd l) l) (\<lambda>next1. await_output n sv l previous next1 deadline) s3) = Inl Unfinished"
    by (simp_all add: bind_act_def[of "on_world _"] bind_act_def[of "sleep_until _ _"] ret_def split: if_splits)
  obtain s4 next1 where 3: "read_output_once sv (ls_hwnd l) l s3 = (s4, Inr next1)"
    "snd (await_output n sv l previous next1 deadline s4) = Inl Unfinished"
    using 2 by (auto elim!: unfinished_bind[OF _ ends_read])
  have "another_pass sv clock deadline s s3" unfolding another_pass_def using t 1 s3 by blast
  with 3 movesD[OF time_read[OF assms(1)] 3(1)] show ?thesis by blast
qed

lemma await_echo_ends:
  assumes "clock_laws sv clock" "deadline \<le> clock (di_world s) + 50 * int n"
  shows "snd (await_echo (Suc n) sv l probe b deadline s) \<noteq> Inl Unfinished"
  using assms(2)
proof (induction n arbitrary: s)
  case (Suc n)
  show ?case
  proof
    assume "snd (await_echo (Suc (Suc n)) sv l probe b deadline s) = Inl Unfinished"
    then obtain s3 where "another_pass sv clock deadline s s3" "snd (await_echo (Suc n) sv l probe b deadline s3) = Inl Unfinished"
      using await_echo_pass[OF assms(1)] by blast
    with Suc.IH another_pass_later[OF assms(1) _ Suc.prems] show False by blast
  qed
qed (use await_echo_pass[OF assms(1), of 0] another_pass_later[OF assms(1), of deadline _ _ 0] in blast)

lemma await_output_ends:
  assumes "clock_laws sv clock" "deadline \<le> clock (di_world s) + 50 * int n"
  shows "snd (await_output (Suc n) sv l previous current deadline s) \<noteq> Inl Unfinished"
  using assms(2)
proof (induction n arbitrary: s current)
  case (Suc n)
  show ?case
  proof
    assume "snd (await_output (Suc (Suc n)) sv l previous current deadline s) = Inl Unfinished"
    then obtain s3 s4 next1 where 1: "another_pass sv clock deadline s s3" "clock (di_world s3) \<le> clock (di_world s4)"
      "snd (await_output (Suc n) sv l previous next1 deadline s4) = Inl Unfinished"
      using await_output_pass[OF assms(1)] by blast
    with another_pass_later[OF assms(1) 1(1) Suc.prems] have "deadline \<le> clock (di_world s4) + 50 * int n" by auto
    with Suc.IH 1(3) show False by blast
  qed
qed (use await_output_pass[OF assms(1), of 0] another_pass_later[OF assms(1), of deadline _ _ 0] in blast)

text \<open>More passes than a loop needs change nothing.\<close>

lemma bind_cong_at: "(\<And>s1 x. m s = (s1, Inr x) \<Longrightarrow> f x s1 = g x s1) \<Longrightarrow> bind_act m f s = bind_act m g s"
  by (auto simp: bind_act_def split: prod.splits sum.splits)

lemma await_echo_more:
  "snd (await_echo n sv l probe b deadline s) \<noteq> Inl Unfinished
     \<Longrightarrow> await_echo (n + k) sv l probe b deadline s = await_echo n sv l probe b deadline s"
proof (induction n arbitrary: s)
  case (Suc n)
  have *: "await_echo (n + k) sv l probe b deadline s3 = await_echo n sv l probe b deadline s3"
    if "read_output_once sv (ls_hwnd l) l s = (s1, Inr current)" "\<not> b < str_count (normalise_terminal_text current) probe"
      "on_world (sv_monotonic_ms sv) s1 = (s2, Inr t)" "\<not> deadline \<le> t" "sleep_until sv deadline s2 = (s3, Inr u)" for s1 current s2 t s3 u
    using Suc.prems that by (intro Suc.IH) (simp add: bind_act_def)
  show ?case
    unfolding add_Suc await_echo.simps by (intro bind_cong_at) (auto intro!: bind_cong_at *)
qed (simp add: of_result_def)

lemma await_output_more:
  "snd (await_output n sv l previous current deadline s) \<noteq> Inl Unfinished
     \<Longrightarrow> await_output (n + k) sv l previous current deadline s = await_output n sv l previous current deadline s"
proof (induction n arbitrary: s current)
  case (Suc n)
  have *: "await_output (n + k) sv l previous next1 deadline s3 = await_output n sv l previous next1 deadline s3"
    if "current = previous" "on_world (sv_monotonic_ms sv) s = (s1, Inr t)" "\<not> deadline \<le> t" "sleep_until sv deadline s1 = (s2, Inr u)"
      "read_output_once sv (ls_hwnd l) l s2 = (s3, Inr next1)" for s1 t s2 u s3 next1
    using Suc.prems that by (intro Suc.IH) (simp add: bind_act_def)
  show ?case
    unfolding add_Suc await_output.simps by (auto intro!: bind_cong_at *)
qed (simp add: of_result_def)

text \<open>A validated integer argument, or its default, is at most the maximum of its schema.\<close>

lemma validated_int:
  assumes "validate name (JObj args) = Inr args" "get_tool name = Inr t" "map_of (tl_properties t) k = Some ps"
    and "ps_type ps = ''integer''" "ps_maximum ps = Some m" "d \<le> m" "int_arg args k d = Inr x"
  shows "x \<le> m"
proof (cases "map_of args k")
  case None
  with assms(6,7) show ?thesis by (simp add: int_arg_def dict_get_def py_int_def as_exn_def)
next
  case (Some v)
  from validated_member[OF assms(1-3) Some] assms(4,5) obtain n where "v = JInt n" "n \<le> m"
    by (auto simp: inhabits_def has_type_def)
  with Some assms(7) show ?thesis by (simp add: int_arg_def dict_get_def py_int_def as_exn_def)
qed

text \<open>
  C36. The waiting loops of \<open>sc_inject_text\<close> and \<open>sc_read_output\<close> end: with a clock that never goes back and sleeps that last as
  long as asked, a deadline \<open>timeout\<close> milliseconds away is met within \<open>timeout / 50 + 1\<close> passes, so
  that 201 and 601 passes are enough for every timeout the schemas of the two tools admit; any greater limit gives the same.
\<close>

theorem waiting_ends:
  assumes "clock_laws sv clock"
    and "validate ''sc_inject_text'' (JObj args) = Inr args" "int_arg args ''delivery_timeout_ms'' 3000 = Inr echo_ms"
    and "validate ''sc_read_output'' (JObj args') = Inr args'" "int_arg args' ''timeout_ms'' 5000 = Inr output_ms"
    and "echo_deadline \<le> clock (di_world s) + echo_ms" "output_deadline \<le> clock (di_world s) + output_ms"
  shows "snd (await_echo (201 + k) sv l probe b echo_deadline s) \<noteq> Inl Unfinished
    \<and> await_echo (201 + k) sv l probe b echo_deadline s = await_echo 201 sv l probe b echo_deadline s
    \<and> snd (await_output (601 + k) sv l previous current output_deadline s) \<noteq> Inl Unfinished
    \<and> await_output (601 + k) sv l previous current output_deadline s = await_output 601 sv l previous current output_deadline s"
proof -
  note in_ms = validated_int[OF assms(2) get_tool_simps(1) _ _ _ _ assms(3)]
    and out_ms = validated_int[OF assms(4) get_tool_simps(2) _ _ _ _ assms(5)]
  have ms: "echo_ms \<le> 10000" "output_ms \<le> 30000"
    using in_ms[of "(property_of ''integer'')\<lparr>ps_minimum := Some 100, ps_maximum := Some 10000, ps_default := Some (JInt 3000)\<rparr>" 10000]
      out_ms[of "(property_of ''integer'')\<lparr>ps_minimum := Some 100, ps_maximum := Some 30000, ps_default := Some (JInt 5000)\<rparr>" 30000]
    by (simp_all add: tool_sc_inject_text_def tool_sc_read_output_def property_of_def)
  have 1: "snd (await_echo (Suc 200) sv l probe b echo_deadline s) \<noteq> Inl Unfinished"
    by (rule await_echo_ends[OF assms(1)]) (use ms(1) assms(6) in simp)
  have 2: "snd (await_output (Suc 600) sv l previous current output_deadline s) \<noteq> Inl Unfinished"
    by (rule await_output_ends[OF assms(1)]) (use ms(2) assms(7) in simp)
  have n: "(201::nat) = Suc 200" "(601::nat) = Suc 600" by simp_all
  show ?thesis
    unfolding n using await_echo_more[OF 1, of k] await_output_more[OF 2, of k] 1 2 by (simp only: simp_thms)
qed

text \<open>A host whose world is its clock, and on which nothing is ever echoed.\<close>

definition silent :: "int services" where
  "silent =
     \<lparr>sv_profile = ''normal'', sv_identity_type = [], sv_crypto = sv_crypto desk, sv_paths = demo_paths, sv_loads = (\<lambda>_. Inl []),
      sv_lease_keys = demo_keys, sv_sign = id, sv_public_key = [], sv_now = (\<lambda>w. (w, 1)), sv_monotonic_ms = (\<lambda>w. (w, w)),
      sv_sleep_ms = (\<lambda>w d. w + d), sv_poll_limit = 601, sv_uuid4 = (\<lambda>w. (w, [])), sv_ledger = None, sv_policy = None,
      sv_is_active = (\<lambda>w a. (w, Inr True)), sv_register = (\<lambda>w a. (w, Inr ())), sv_queue = None,
      sv_verifier = Some (\<lambda>w _ _. (w + 3, Inr (JObj desk_target))), sv_resolver = None, sv_router = None,
      sv_reader = Some (\<lambda>w _. (w + 2, Inr (JStr []))), sv_tpm = None, sv_boundary = None, sv_identity = None, sv_guard = Inl [],
      sv_mesh = (\<lambda>w b. (w, Inr [])), sv_channels = (\<lambda>w. (w, Inr [])), sv_open_pipe = (\<lambda>w n. (w, Inr None))\<rparr>"

theorem waiting_ends_witness:
  "snd (await_echo 300 silent desk_lease ''x'' 0 3000 (dispatcher_init 0)) \<noteq> Inl Unfinished"
proof -
  let ?a = "[(''lease_id'', JStr ''lease-1''), (''hwnd'', JInt 66), (''text'', JStr ''x'')]"
    and ?b = "[(''lease_id'', JStr ''lease-1''), (''hwnd'', JInt 66)]"
  have laws: "clock_laws silent id" by (simp add: clock_laws_def silent_def)
  have id: "fullmatch LEASE_ID_PATTERN ''lease-1''"
    by (simp add: LEASE_ID_PATTERN_def fullmatch_single piece_of_def UPPER_def LOWER_def DIGITS_def)
  have a: "validate ''sc_inject_text'' (JObj ?a) = Inr ?a"
    using id by (simp add: validate_iff conforms_def tool_sc_inject_text_def property_of_def inhabits_def has_type_def LEASE_ID_MAX_def
        HWND_MAX_def TEXT_MAX_def fullmatch_pieces[symmetric])
  have b: "validate ''sc_read_output'' (JObj ?b) = Inr ?b"
    using id by (simp add: validate_iff conforms_def tool_sc_read_output_def property_of_def inhabits_def has_type_def LEASE_ID_MAX_def
        HWND_MAX_def fullmatch_pieces[symmetric])
  have ms: "int_arg ?a ''delivery_timeout_ms'' 3000 = Inr 3000" "int_arg ?b ''timeout_ms'' 5000 = Inr 5000"
    by (simp_all add: int_arg_def dict_get_def py_int_def as_exn_def)
  have w: "(3000::int) \<le> id (di_world (dispatcher_init 0)) + 3000" "(5000::int) \<le> id (di_world (dispatcher_init 0)) + 5000"
    by (simp_all add: dispatcher_init_def)
  have "(300::nat) = 201 + 99" by simp
  from conjunct1[OF waiting_ends[OF laws a ms(1) b ms(2) w, of 99]] show ?thesis
    unfolding \<open>(300::nat) = 201 + 99\<close> .
qed

end
