(* ===== verification/JsonReader.thy ===== *)
theory JsonReader
  imports PyValues
begin

text \<open>
  \<open>json.loads\<close>: a reader of JSON texts, and the proof that it reads back what \<open>json.dumps\<close> writes.
  The reader recurses on a number that bounds the nesting of its calls; the length of the text is
  enough. Numbers with an exponent or a fraction other than zero and escapes above \<open>\u00ff\<close> have no
  value in the model and read as \<open>None\<close>, like the texts Python refuses.
\<close>

subsection \<open>Tokens\<close>

definition is_blank :: "char \<Rightarrow> bool" where
  "is_blank c = (char_code c \<in> {32, 9, 10, 13})"

definition skip_blanks :: "pystr \<Rightarrow> pystr" where
  "skip_blanks s = dropWhile is_blank s"

text \<open>The character an escape letter other than \<open>u\<close> stands for.\<close>

definition escape_of :: "char \<Rightarrow> char option" where
  "escape_of e =
     (let n = char_code e in
      if n = 34 \<or> n = 92 \<or> n = 47 then Some e
      else if e = CHR ''b'' then Some (char_of (8::nat))
      else if e = CHR ''f'' then Some (char_of (12::nat))
      else if e = CHR ''n'' then Some (char_of (10::nat))
      else if e = CHR ''r'' then Some (char_of (13::nat))
      else if e = CHR ''t'' then Some (char_of (9::nat))
      else None)"

definition hex_pair :: "char \<Rightarrow> char \<Rightarrow> char option" where
  "hex_pair h l =
     (case (hex_of_char h, hex_of_char l) of (Some a, Some b) \<Rightarrow> Some (char_of (16 * a + b)) | _ \<Rightarrow> None)"

text \<open>The rest of a string after its opening quote.\<close>

fun read_text :: "pystr \<Rightarrow> (pystr \<times> pystr) option" where
  "read_text [] = None"
| "read_text (c # s) =
     (if c = CHR 0x22 then Some ([], s)
      else if char_code c < 32 then None
      else if c \<noteq> CHR 0x5C then map_option (map_prod (Cons c) id) (read_text s)
      else (case s of
          [] \<Rightarrow> None
        | e # s' \<Rightarrow>
            if e \<noteq> CHR ''u'' then
              (case escape_of e of None \<Rightarrow> None | Some d \<Rightarrow> map_option (map_prod (Cons d) id) (read_text s'))
            else (case s' of
                z # z' # h # l # r \<Rightarrow>
                  (if z \<noteq> CHR ''0'' \<or> z' \<noteq> CHR ''0'' then None
                   else case hex_pair h l of None \<Rightarrow> None | Some d \<Rightarrow> map_option (map_prod (Cons d) id) (read_text r))
              | _ \<Rightarrow> None)))"

definition read_number :: "pystr \<Rightarrow> (json \<times> pystr) option" where
  "read_number s =
     (let negative = startswith s ''-'';
          s1 = (if negative then tl s else s);
          ds = takeWhile is_digit s1;
          r = dropWhile is_digit s1;
          n = (if negative then - decimal_value ds else decimal_value ds) in
      if ds = [] \<or> (hd ds = CHR ''0'' \<and> 1 < length ds) then None
      else if startswith r ''.'' then
        (let fs = takeWhile is_digit (tl r); r' = dropWhile is_digit (tl r) in
         if fs = [] \<or> set fs \<noteq> {CHR ''0''} \<or> startswith r' ''e'' \<or> startswith r' ''E'' then None else Some (JFloat n, r'))
      else if startswith r ''e'' \<or> startswith r ''E'' then None
      else Some (JInt n, r))"

text \<open>A dictionary keeps the place of the first and the value of the last of equal keys.\<close>

definition dict_of :: "json_object \<Rightarrow> json_object" where
  "dict_of kvs = fold (\<lambda>kv d. AList.update (fst kv) (snd kv) d) kvs []"

subsection \<open>Values\<close>

fun read_value :: "nat \<Rightarrow> pystr \<Rightarrow> (json \<times> pystr) option"
  and read_items :: "nat \<Rightarrow> pystr \<Rightarrow> (json list \<times> pystr) option"
  and read_members :: "nat \<Rightarrow> pystr \<Rightarrow> (json_object \<times> pystr) option"
where
  "read_value 0 s = None"
| "read_value (Suc n) s =
     (if s = [] then None
      else if hd s = CHR 0x22 then map_option (map_prod JStr id) (read_text (tl s))
      else if hd s = CHR ''['' then
        (let r = skip_blanks (tl s) in
         if startswith r '']'' then Some (JArr [], tl r) else map_option (map_prod JArr id) (read_items n r))
      else if hd s = CHR ''{'' then
        (let r = skip_blanks (tl s) in
         if startswith r ''}'' then Some (JObj [], tl r)
         else map_option (map_prod (\<lambda>kvs. JObj (dict_of kvs)) id) (read_members n r))
      else if startswith s ''null'' then Some (JNull, drop 4 s)
      else if startswith s ''true'' then Some (JBool True, drop 4 s)
      else if startswith s ''false'' then Some (JBool False, drop 5 s)
      else read_number s)"
| "read_items 0 s = None"
| "read_items (Suc n) s =
     (case read_value n s of
        None \<Rightarrow> None
      | Some (v, r) \<Rightarrow>
          (let r' = skip_blanks r in
           if startswith r' '','' then map_option (map_prod (Cons v) id) (read_items n (skip_blanks (tl r')))
           else if startswith r' '']'' then Some ([v], tl r') else None))"
| "read_members 0 s = None"
| "read_members (Suc n) s =
     (if \<not> startswith s [CHR 0x22] then None
      else case read_text (tl s) of
        None \<Rightarrow> None
      | Some (k, q) \<Rightarrow>
          (let q' = skip_blanks q in
           if \<not> startswith q' '':'' then None
           else case read_value n (skip_blanks (tl q')) of
             None \<Rightarrow> None
           | Some (v, r) \<Rightarrow>
               (let r' = skip_blanks r in
                if startswith r' '','' then map_option (map_prod (Cons (k, v)) id) (read_members n (skip_blanks (tl r')))
                else if startswith r' ''}'' then Some ([(k, v)], tl r') else None)))"

definition json_loads :: "pystr \<Rightarrow> json option" where
  "json_loads s =
     (case read_value (Suc (2 * length s)) (skip_blanks s) of
        Some (v, r) \<Rightarrow> if skip_blanks r = [] then Some v else None
      | None \<Rightarrow> None)"

subsection \<open>Reading back\<close>

lemma startswith_Cons [simp]: "startswith (c # s) [d] \<longleftrightarrow> c = d" "\<not> startswith [] [d]"
  by (auto simp: startswith_def)

lemma zero_char: "char_of (48::nat) = CHR ''0''"
  by (simp add: char_of_eq_iff char_code_def)

lemma escape_of_simps [simp]:
  "escape_of (CHR ''n'') = Some (char_of (10::nat))" "escape_of (CHR ''r'') = Some (char_of (13::nat))"
  "escape_of (CHR ''t'') = Some (char_of (9::nat))" "escape_of (CHR ''f'') = Some (char_of (12::nat))"
  "escape_of (CHR ''b'') = Some (char_of (8::nat))"
  by (simp_all add: escape_of_def char_code_def)

lemma read_text_escape: "read_text (escape_char a c @ t) = map_option (map_prod (Cons c) id) (read_text t)"
proof -
  let ?n = "char_code c"
  have q: "?n \<noteq> 34 \<Longrightarrow> c \<noteq> CHR 0x22" "?n \<noteq> 92 \<Longrightarrow> c \<noteq> CHR 0x5C" by (auto simp: char_code_def)
  have hex: "hex_pair (hex_digit (?n div 16)) (hex_digit ?n) = Some c"
    using char_code_less[of c] by (simp add: hex_pair_def) (simp add: char_code_def)
  have k: "?n = k \<Longrightarrow> c = char_of k" for k by (auto simp: char_code_def)
  consider (special) "?n = 34 \<or> ?n = 92" | (n) "?n = 10" | (r) "?n = 13" | (t) "?n = 9" | (f) "?n = 12"
    | (b) "?n = 8" | (u) "?n \<noteq> 34" "?n \<noteq> 92" "?n \<notin> {8, 9, 10, 12, 13}" "?n < 32 \<or> (a \<and> 126 < ?n)"
    | (plain) "?n \<noteq> 34" "?n \<noteq> 92" "?n \<notin> {8, 9, 10, 12, 13}" "\<not> (?n < 32 \<or> (a \<and> 126 < ?n))"
    by blast
  then show ?thesis
  proof cases
    case special
    then show ?thesis using short_escape_special[OF special]
      by (auto simp: escape_char_def escape_of_def char_code_0x5C)
  next
    case u
    then show ?thesis by (simp add: escape_char_def Let_def hex char_code_0x5C)
  next
    case plain
    then show ?thesis using q by (auto simp: escape_char_def Let_def)
  qed (drule k, simp add: escape_char_def Let_def char_code_0x5C char_code_char_of)+
qed

lemma read_text_quoted: "read_text (concat (map (escape_char a) xs) @ CHR 0x22 # s) = Some (xs, s)"
  by (induction xs) (simp_all add: read_text_escape)

lemma read_text_tl: "read_text (tl (quoted a xs @ s)) = Some (xs, s)"
  by (simp add: quoted_def read_text_quoted)

lemma decimal_digits: "list_all is_digit ds \<Longrightarrow> decimal_value (ds @ [digit d]) = 10 * decimal_value ds + int d" if "d < 10"
  using that by (simp add: decimal_value_def is_digit_digit digit_code list_all_iff)

lemma decimal_show_nat: "decimal_value (show_nat n) = int n"
proof (induction n rule: show_nat.induct)
  case (1 n)
  show ?case
  proof (cases "n < 10")
    case True
    then show ?thesis by (subst show_nat.simps) (simp add: decimal_value_def is_digit_digit digit_code)
  next
    case False
    then have "decimal_value (show_nat n) = 10 * int (n div 10) + int (n mod 10)"
      using 1 show_nat_digits by (subst show_nat.simps) (simp add: decimal_digits)
    then show ?thesis by (simp add: zdiv_int zmod_int)
  qed
qed

lemma show_nat_zero: "hd (show_nat n) = CHR ''0'' \<Longrightarrow> n = 0"
proof (induction n rule: show_nat.induct)
  case (1 n)
  have d: "digit m = CHR ''0'' \<Longrightarrow> m = 0" if "m < 10" for m
    using digit_inj[OF that, of 0] by (simp add: digit_def[of 0] zero_char)
  show ?case
  proof (cases "n < 10")
    case True
    with "1.prems" d show ?thesis by (simp add: show_nat.simps[of n])
  next
    case False
    with "1.prems" have "hd (show_nat (n div 10)) = CHR ''0''"
      using show_nat_nonempty by (simp add: show_nat.simps[of n])
    with 1 False show ?thesis by simp
  qed
qed

lemma take_drop_digits:
  assumes "no_digit s" shows "takeWhile is_digit (show_nat n @ s) = show_nat n" "dropWhile is_digit (show_nat n @ s) = s"
proof -
  have "\<forall>c\<in>set (show_nat n). is_digit c" using show_nat_digits[of n] by (simp add: list_all_iff)
  moreover have "takeWhile is_digit s = []" "dropWhile is_digit s = s" using assms by (cases s; simp add: no_digit_def)+
  ultimately show "takeWhile is_digit (show_nat n @ s) = show_nat n" "dropWhile is_digit (show_nat n @ s) = s"
    by (simp_all add: takeWhile_append2 dropWhile_append2)
qed

lemma not_minus: "\<not> startswith (show_nat n @ s) ''-''"
  using show_nat_digits[of n] show_nat_nonempty[of n] by (cases "show_nat n") auto

lemma read_number_show:
  assumes "delimited s"
  shows "read_number (show_int i @ s) = Some (JInt i, s)" "read_number (show_int i @ CHR ''.'' # CHR ''0'' # s) = Some (JFloat i, s)"
proof -
  have start: "\<not> startswith s ''.''" "\<not> startswith s ''e''" "\<not> startswith s ''E''"
    using assms by (cases s; auto simp: delimited_def)+
  have zero: "is_digit (CHR ''0'')" by (simp add: is_digit_def char_code_def)
  have f: "takeWhile is_digit s = []" "dropWhile is_digit s = s"
    using delimited_no_digit[OF assms] by (cases s; simp add: no_digit_def)+
  note step = take_drop_digits[OF delimited_no_digit[OF assms]] take_drop_digits[OF no_digit_dot]
    decimal_show_nat show_nat_nonempty not_minus start f zero
  have plain: "read_number (show_nat n @ s) = Some (JInt (int n), s)"
    "read_number (CHR ''-'' # show_nat n @ s) = Some (JInt (- int n), s)"
    "read_number (show_nat n @ CHR ''.'' # CHR ''0'' # s) = Some (JFloat (int n), s)"
    "read_number (CHR ''-'' # show_nat n @ CHR ''.'' # CHR ''0'' # s) = Some (JFloat (- int n), s)" for n
  proof -
    have lead: "hd (show_nat n) = CHR ''0'' \<Longrightarrow> length (show_nat n) = Suc 0"
      using show_nat_zero[of n] by (auto simp: show_nat.simps[of 0])
    show "read_number (show_nat n @ s) = Some (JInt (int n), s)"
      "read_number (CHR ''-'' # show_nat n @ s) = Some (JInt (- int n), s)"
      "read_number (show_nat n @ CHR ''.'' # CHR ''0'' # s) = Some (JFloat (int n), s)"
      "read_number (CHR ''-'' # show_nat n @ CHR ''.'' # CHR ''0'' # s) = Some (JFloat (- int n), s)"
      unfolding read_number_def Let_def by (simp_all add: step lead cong: conj_cong)
  qed
  show "read_number (show_int i @ s) = Some (JInt i, s)" "read_number (show_int i @ CHR ''.'' # CHR ''0'' # s) = Some (JFloat i, s)"
    by (cases "i < 0"; simp add: show_int_def plain)+
qed

lemma skip_dumps: "skip_blanks (plain_dumps a v @ s) = plain_dumps a v @ s"
proof -
  obtain c cs where "plain_dumps a v = c # cs" "starts_as v c" using plain_dumps_first by blast
  then show ?thesis by (cases v) (auto simp: skip_blanks_def is_blank_def char_code_def is_digit_def split: if_splits)
qed

lemma skip_closers [simp]: "skip_blanks (CHR '']'' # s) = CHR '']'' # s" "skip_blanks (CHR ''}'' # s) = CHR ''}'' # s"
  "skip_blanks (CHR '','' # s) = CHR '','' # s" "skip_blanks (CHR '':'' # s) = CHR '':'' # s"
  "skip_blanks (CHR 0x22 # s) = CHR 0x22 # s" "skip_blanks (CHR ''['' # s) = CHR ''['' # s"
  "skip_blanks (CHR ''{'' # s) = CHR ''{'' # s" "skip_blanks [] = []"
  by (simp_all add: skip_blanks_def is_blank_def char_code_def)

lemma read_items_join:
  assumes "\<And>x n t. x \<in> set xs \<Longrightarrow> delimited t \<Longrightarrow> length (plain_dumps a x) \<le> n \<Longrightarrow> read_value n (plain_dumps a x @ t) = Some (x, t)"
    and "xs \<noteq> []" "length (join (map (plain_dumps a) xs)) < n"
  shows "read_items n (join (map (plain_dumps a) xs) @ CHR '']'' # s) = Some (xs, s)"
  using assms
proof (induction xs arbitrary: n)
  case (Cons x xs)
  obtain m where n: "n = Suc m" using Cons.prems(3) by (cases n) auto
  show ?case
  proof (cases xs)
    case Nil
    with Cons.prems n show ?thesis by simp
  next
    case (Cons y ys)
    have len: "length (plain_dumps a x) \<le> m" "length (join (map (plain_dumps a) xs)) < m"
      using Cons.prems(3) n plain_dumps_first[of a x] unfolding Cons by auto
    have "read_value m (plain_dumps a x @ CHR '','' # t) = Some (x, CHR '','' # t)" for t
      using Cons.prems(1)[of x "CHR '','' # t" m] len(1) by simp
    moreover have "read_items m (join (map (plain_dumps a) xs) @ CHR '']'' # s) = Some (xs, s)"
      using Cons.prems(1) len(2) Cons by (intro Cons.IH) auto
    moreover have "skip_blanks (join (map (plain_dumps a) xs) @ t) = join (map (plain_dumps a) xs) @ t" for t
      by (simp add: Cons join_Cons skip_dumps)
    ultimately show ?thesis by (simp add: n Cons)
  qed
qed simp

lemma read_members_join:
  assumes "\<And>kv n t. kv \<in> set kvs \<Longrightarrow> delimited t \<Longrightarrow> length (plain_dumps a (snd kv)) \<le> n \<Longrightarrow>
      read_value n (plain_dumps a (snd kv) @ t) = Some (snd kv, t)"
    and "kvs \<noteq> []" "length (join (map (\<lambda>kv. member_text a (map_prod id (plain_dumps a) kv)) kvs)) < n"
  shows "read_members n (join (map (\<lambda>kv. member_text a (map_prod id (plain_dumps a) kv)) kvs) @ CHR ''}'' # s) = Some (kvs, s)"
  using assms
proof (induction kvs arbitrary: n)
  case (Cons kv kvs)
  let ?f = "\<lambda>kv. member_text a (map_prod id (plain_dumps a) kv)"
  obtain m where n: "n = Suc m" using Cons.prems(3) by (cases n) auto
  obtain k v where kv: "kv = (k, v)" by fastforce
  obtain q where q: "quoted a k = CHR 0x22 # q" using quoted_first by blast
  have shown: "member_text a (k, plain_dumps a v) @ t = CHR 0x22 # q @ CHR '':'' # plain_dumps a v @ t" for t
    by (simp add: member_text_def q)
  have rt: "read_text (q @ t) = Some (k, t)" for t using read_text_tl[of a k t] by (simp add: q)
  show ?case
  proof (cases kvs)
    case Nil
    have "length (plain_dumps a v) \<le> m" using Cons.prems(3) n Nil by (simp add: kv member_text_def q)
    with Cons.prems(1)[of kv "CHR ''}'' # s" m] show ?thesis by (simp add: n Nil shown rt skip_dumps kv)
  next
    case (Cons kv' kvs')
    have len: "length (plain_dumps a v) \<le> m" "length (join (map ?f kvs)) < m"
      using Cons.prems(3) n unfolding Cons by (auto simp: kv member_text_def q)
    have "read_value m (plain_dumps a v @ CHR '','' # t) = Some (v, CHR '','' # t)" for t
      using Cons.prems(1)[of kv "CHR '','' # t" m] len(1) by (simp add: kv)
    moreover have "read_members m (join (map ?f kvs) @ CHR ''}'' # s) = Some (kvs, s)"
      by (rule Cons.IH[OF _ _ len(2)]) (use Cons.prems(1) Cons in auto)
    moreover have "skip_blanks (join (map ?f kvs) @ t) = join (map ?f kvs) @ t" for t
      using quoted_first[of a "fst kv'"] by (auto simp: Cons join_Cons member_text_def)
    moreover have "join (map ?f (kv # kvs)) @ CHR ''}'' # s
        = CHR 0x22 # q @ CHR '':'' # plain_dumps a v @ CHR '','' # join (map ?f kvs) @ CHR ''}'' # s"
      by (simp add: Cons kv shown)
    ultimately show ?thesis by (simp only: n read_members.simps) (simp add: rt skip_dumps kv)
  qed
qed simp

lemma dict_of_wf: "wf_dict kvs \<Longrightarrow> dict_of kvs = kvs"
proof -
  have "wf_dict (d @ kvs) \<Longrightarrow> fold (\<lambda>kv d. AList.update (fst kv) (snd kv) d) kvs d = d @ kvs" for d
  proof (induction kvs arbitrary: d)
    case (Cons kv kvs)
    have "fst kv \<notin> set (map fst d)" using Cons.prems by (auto simp: wf_dict_def)
    then show ?case using Cons.IH[of "d @ [kv]"] Cons.prems by (simp add: update_fresh)
  qed simp
  from this[of "[]"] show "wf_dict kvs \<Longrightarrow> dict_of kvs = kvs" by (simp add: dict_of_def)
qed

lemma read_value_dumps:
  "wf_json v \<Longrightarrow> delimited s \<Longrightarrow> length (plain_dumps a v) \<le> n \<Longrightarrow> read_value n (plain_dumps a v @ s) = Some (v, s)"
proof (induction v arbitrary: n s)
  case (JArr xs)
  then obtain m where n: "n = Suc m" by (cases n) auto
  show ?case
  proof (cases "xs = []")
    case False
    then obtain x ys where xs: "xs = x # ys" by (cases xs) auto
    obtain d ds where d: "plain_dumps a x = d # ds" "d \<noteq> CHR '']''" using not_close_bracket by blast
    have "read_items m (join (map (plain_dumps a) xs) @ CHR '']'' # s) = Some (xs, s)"
      by (rule read_items_join) (use JArr n False in \<open>auto simp: list_all_iff\<close>)
    moreover have "skip_blanks (join (map (plain_dumps a) xs) @ t) = join (map (plain_dumps a) xs) @ t" for t
      by (simp add: xs join_Cons skip_dumps)
    ultimately show ?thesis by (simp add: n) (simp add: xs join_Cons d)
  qed (simp add: n)
next
  case (JObj kvs)
  then obtain m where n: "n = Suc m" by (cases n) auto
  let ?f = "\<lambda>kv. member_text a (map_prod id (plain_dumps a) kv)"
  show ?case
  proof (cases "kvs = []")
    case False
    then obtain kv ys where kvs: "kvs = kv # ys" by (cases kvs) auto
    have d: "\<exists>q. ?f kv = CHR 0x22 # q" using quoted_first[of a "fst kv"] by (auto simp: member_text_def)
    have "read_members m (join (map ?f kvs) @ CHR ''}'' # s) = Some (kvs, s)"
      by (rule read_members_join) (use JObj n False in \<open>auto simp: list_all_iff comp_def elim!: snds.cases\<close>)
    moreover have "dict_of kvs = kvs" using JObj.prems(1) by (simp add: dict_of_wf)
    ultimately show ?thesis using d by (auto simp: n comp_def) (auto simp: kvs join_Cons)
  qed (simp add: n)
next
  case (JStr x)
  then show ?case using quoted_first[of a x] read_text_tl[of a x s] by (cases n) auto
next
  case (JInt i)
  obtain c cs where c: "show_int i = c # cs" "c = CHR ''-'' \<or> is_digit c" using show_int_first by blast
  then have "c \<notin> {CHR 0x22, CHR ''['', CHR ''{'', CHR ''n'', CHR ''t'', CHR ''f''}" by auto
  with c(1) JInt read_number_show(1)[OF JInt.prems(2), of i] show ?case by (cases n) (auto simp: startswith_def)
next
  case (JFloat i)
  obtain c cs where c: "show_int i = c # cs" "c = CHR ''-'' \<or> is_digit c" using show_int_first by blast
  then have "c \<notin> {CHR 0x22, CHR ''['', CHR ''{'', CHR ''n'', CHR ''t'', CHR ''f''}" by auto
  with c(1) JFloat read_number_show(2)[OF JFloat.prems(2), of i] show ?case by (cases n) (auto simp: startswith_def)
qed (auto simp: startswith_def gr0_conv_Suc dest!: Suc_le_D split: if_splits)

subsection \<open>The bound is enough\<close>

lemma skip_blanks_length: "length (skip_blanks s) \<le> length s"
  by (simp add: skip_blanks_def length_dropWhile_le)

lemma read_text_shorter: "read_text s = Some (x, r) \<Longrightarrow> length r < length s"
  by (induction s arbitrary: x rule: read_text.induct)
    (auto split: if_splits list.splits option.splits dest!: less_imp_le_nat simp: less_Suc_eq_le Suc_le_eq, fastforce+)

lemma read_number_shorter: "read_number s = Some (v, r) \<Longrightarrow> length r < length s"
proof -
  assume a: "read_number s = Some (v, r)"
  let ?s1 = "if startswith s ''-'' then tl s else s"
  have "length (dropWhile is_digit ?s1) < length ?s1" using a
    by (cases ?s1) (auto simp: read_number_def Let_def less_Suc_eq_le length_dropWhile_le split: if_splits)
  moreover have "length r \<le> length (dropWhile is_digit ?s1)" using a length_dropWhile_le[of is_digit "tl (dropWhile is_digit ?s1)"]
    by (auto simp: read_number_def Let_def split: if_splits)
  ultimately show ?thesis by (auto split: if_splits)
qed

lemma skipped_tl: "startswith (skip_blanks r) [c] \<Longrightarrow> length (tl (skip_blanks r)) < length r"
  using skip_blanks_length[of r] by (cases "skip_blanks r") auto

lemma reader_shorter:
  shows value_shorter: "read_value n s = Some (v, r) \<Longrightarrow> length r < length s"
    and items_shorter: "read_items n s = Some (vs, r) \<Longrightarrow> length r < length s"
    and members_shorter: "read_members n s = Some (kvs, r) \<Longrightarrow> length r < length s"
proof (induction n arbitrary: s v vs kvs r)
  case (Suc n)
  {
    case 1
    then obtain c t where s: "s = c # t" by (cases s) auto
    have "read_items n (skip_blanks t) = Some (x, r) \<Longrightarrow> length r < Suc (length t)"
      "read_members n (skip_blanks t) = Some (y, r) \<Longrightarrow> length r < Suc (length t)"
      "read_text t = Some (z, r) \<Longrightarrow> length r < Suc (length t)"
      "read_number (c # t) = Some (w, r) \<Longrightarrow> length r < Suc (length t)"
      "startswith (skip_blanks t) [d] \<Longrightarrow> length (tl (skip_blanks t)) < Suc (length t)" for x y z w d
      using Suc.IH(2,3)[of "skip_blanks t"] skip_blanks_length[of t] skipped_tl[of t d] read_text_shorter[of t z r]
        read_number_shorter[of "c # t" w r] by force+
    with 1 show ?case by (auto simp: s Let_def split: if_splits)
  next
    case 2
    then obtain v q where v: "read_value n s = Some (v, q)" by (auto split: option.splits)
    let ?q = "tl (skip_blanks q)"
    from Suc.IH(1)[OF v] skipped_tl[of q] skip_blanks_length[of ?q] Suc.IH(2)[of "skip_blanks ?q"] 2 v show ?case
      by (fastforce simp: Let_def split: if_splits)
  next
    case 3
    then obtain k q where k: "read_text (tl s) = Some (k, q)" and s: "startswith s [CHR 0x22]"
      by (auto split: option.splits if_splits)
    let ?q = "skip_blanks (tl (skip_blanks q))"
    from 3 k s obtain v p where v: "read_value n ?q = Some (v, p)" and c: "startswith (skip_blanks q) '':''"
      by (auto simp: Let_def split: option.splits if_splits)
    let ?p = "tl (skip_blanks p)"
    have "length q < length s" using read_text_shorter[OF k] by (cases s) auto
    moreover have "length p < length q"
      using Suc.IH(1)[OF v] skipped_tl[OF c] skip_blanks_length[of "tl (skip_blanks q)"] by linarith
    ultimately show ?case
      using skipped_tl[of p] skip_blanks_length[of ?p] Suc.IH(3)[of "skip_blanks ?p"] 3 k s v c
      by (fastforce simp: Let_def split: if_splits)
  }
qed simp_all

text \<open>Any bound above twice the length of the text gives the same result.\<close>

lemma reader_bound:
  shows value_bound: "2 * length s < m \<Longrightarrow> 2 * length s < n \<Longrightarrow> read_value m s = read_value n s"
    and items_bound: "2 * length s + 1 < m \<Longrightarrow> 2 * length s + 1 < n \<Longrightarrow> read_items m s = read_items n s"
    and members_bound: "2 * length s + 1 < m \<Longrightarrow> 2 * length s + 1 < n \<Longrightarrow> read_members m s = read_members n s"
proof (induction m arbitrary: s n)
  case (Suc m)
  {
    case 1
    then obtain k where n: "n = Suc k" by (cases n) auto
    show ?case
    proof (cases s)
      case (Cons c t)
      then have "2 * length (skip_blanks t) + 1 < m" "2 * length (skip_blanks t) + 1 < k"
        using 1 n skip_blanks_length[of t] by simp_all
      from Suc.IH(2,3)[OF this] show ?thesis by (simp add: n Cons Let_def)
    qed (simp add: n)
  next
    case 2
    then obtain k where n: "n = Suc k" by (cases n) auto
    have v: "read_value m s = read_value k s" using 2 n by (intro Suc.IH(1)) simp_all
    have "read_items m (skip_blanks (tl (skip_blanks r))) = read_items k (skip_blanks (tl (skip_blanks r)))"
      if "read_value k s = Some (x, r)" "startswith (skip_blanks r) '',''" for x r
      using 2 n value_shorter[OF that(1)] skipped_tl[OF that(2)] skip_blanks_length[of "tl (skip_blanks r)"]
      by (intro Suc.IH(2)) linarith+
    then show ?case by (auto simp: n v Let_def split: option.split)
  next
    case 3
    then obtain k where n: "n = Suc k" by (cases n) auto
    have short: "length (skip_blanks (tl (skip_blanks q))) < length s - 1"
      if "read_text (tl s) = Some (x, q)" "startswith (skip_blanks q) '':''" for x q
      using read_text_shorter[OF that(1)] skipped_tl[OF that(2)] skip_blanks_length[of "tl (skip_blanks q)"] by simp
    have v: "read_value m (skip_blanks (tl (skip_blanks q))) = read_value k (skip_blanks (tl (skip_blanks q)))"
      if "read_text (tl s) = Some (x, q)" "startswith (skip_blanks q) '':''" for x q
      using short[OF that] 3 n by (intro Suc.IH(1)) linarith+
    have "read_members m (skip_blanks (tl (skip_blanks r))) = read_members k (skip_blanks (tl (skip_blanks r)))"
      if "read_text (tl s) = Some (x, q)" "startswith (skip_blanks q) '':''"
        "read_value k (skip_blanks (tl (skip_blanks q))) = Some (y, r)" "startswith (skip_blanks r) '',''" for x q y r
      using short[OF that(1,2)] 3 n value_shorter[OF that(3)] skipped_tl[OF that(4)] skip_blanks_length[of "tl (skip_blanks r)"]
      by (intro Suc.IH(3)) linarith+
    then show ?case using v by (fastforce simp: n Let_def split: option.split)
  }
qed simp_all

text \<open>Writing with either setting of \<open>ensure_ascii\<close>, keys in any order, reads back as the same value.\<close>

lemma json_loads_dumps [simp]: "wf_json v \<Longrightarrow> json_loads (plain_dumps a v) = Some v"
  using read_value_dumps[of v "[]" a "Suc (2 * length (plain_dumps a v))"] skip_dumps[of a v "[]"]
  by (simp add: json_loads_def del: read_value.simps)

lemma json_loads_bound:
  "json_loads s = (case read_value (Suc (2 * length s) + k) (skip_blanks s) of
       Some (w, r) \<Rightarrow> if skip_blanks r = [] then Some w else None | None \<Rightarrow> None)"
proof -
  have "read_value (Suc (2 * length s)) (skip_blanks s) = read_value (Suc (2 * length s) + k) (skip_blanks s)"
    using skip_blanks_length[of s] by (intro value_bound) linarith+
  then show ?thesis by (simp add: json_loads_def del: read_value.simps)
qed

end
