(* ===== verification/Exec.thy ===== *)
theory Exec
  imports Prelude
begin

text \<open>
  Operations that change a state and may raise: a raise keeps the state it happened in, as an
  exception of the code does.
\<close>

type_synonym ('s, 'e, 'a) exec = "'s \<Rightarrow> 's \<times> ('e + 'a)"

definition exec_ret :: "'a \<Rightarrow> ('s, 'e, 'a) exec" where
  "exec_ret x s = (s, Inr x)"

definition exec_raise :: "'e \<Rightarrow> ('s, 'e, 'a) exec" where
  "exec_raise e s = (s, Inl e)"

definition exec_bind :: "('s, 'e, 'a) exec \<Rightarrow> ('a \<Rightarrow> ('s, 'e, 'b) exec) \<Rightarrow> ('s, 'e, 'b) exec" where
  "exec_bind m f s = (case m s of (s1, Inl e) \<Rightarrow> (s1, Inl e) | (s1, Inr x) \<Rightarrow> f x s1)"

definition exec_get :: "('s \<Rightarrow> 'a) \<Rightarrow> ('s, 'e, 'a) exec" where
  "exec_get f s = (s, Inr (f s))"

definition exec_modify :: "('s \<Rightarrow> 's) \<Rightarrow> ('s, 'e, unit) exec" where
  "exec_modify f s = (f s, Inr ())"

definition exec_check :: "bool \<Rightarrow> 'e \<Rightarrow> ('s, 'e, unit) exec" where
  "exec_check b e = (if b then exec_ret () else exec_raise e)"

definition exec_of :: "'e + 'a \<Rightarrow> ('s, 'e, 'a) exec" where
  "exec_of r s = (s, r)"

named_theorems exec_simps "one step of an operation, unfolded on a state"

lemma exec_steps [exec_simps]:
  "exec_ret x s = (s, Inr x)" "exec_raise e s = (s, Inl e)" "exec_get f s = (s, Inr (f s))"
  "exec_modify g s = (g s, Inr ())" "exec_of r s = (s, r)"
  "exec_check b e s = (s, if b then Inr () else Inl e)"
  by (simp_all add: exec_ret_def exec_raise_def exec_get_def exec_modify_def exec_of_def exec_check_def)

lemma exec_bind_Inr [exec_simps]: "m s = (s1, Inr x) \<Longrightarrow> exec_bind m f s = f x s1"
  by (simp add: exec_bind_def)

lemma exec_bind_Inl [exec_simps]: "m s = (s1, Inl e) \<Longrightarrow> exec_bind m f s = (s1, Inl e)"
  by (simp add: exec_bind_def)

lemma exec_get_bind: "exec_bind (exec_get g) f s = f (g s) s"
  by (simp add: exec_bind_def exec_simps)

lemma exec_bind_InrE:
  assumes "exec_bind m f s = (s2, Inr y)"
  obtains s1 x where "m s = (s1, Inr x)" "f x s1 = (s2, Inr y)"
  using assms by (auto simp: exec_bind_def split: prod.splits sum.splits)

lemma exec_bindE:
  assumes "exec_bind m f s = (s2, r)"
  obtains (raised) e where "m s = (s2, Inl e)" "r = Inl e"
    | (went_on) s1 x where "m s = (s1, Inr x)" "f x s1 = (s2, r)"
  using assms by (auto simp: exec_bind_def split: prod.splits sum.splits)

subsection \<open>Invariants\<close>

text \<open>An operation keeps an invariant whether it returns or raises.\<close>

definition keeps :: "('s \<Rightarrow> bool) \<Rightarrow> ('s, 'e, 'a) exec \<Rightarrow> bool" where
  "keeps I m \<longleftrightarrow> (\<forall>s. I s \<longrightarrow> I (fst (m s)))"

named_theorems keep_intros "operations keep invariants"

lemma keepsI: "(\<And>s. I s \<Longrightarrow> I (fst (m s))) \<Longrightarrow> keeps I m"
  by (simp add: keeps_def)

lemma keepsD: "keeps I m \<Longrightarrow> I s \<Longrightarrow> I (fst (m s))"
  by (simp add: keeps_def)

lemma keeps_result: "keeps I m \<Longrightarrow> I s \<Longrightarrow> m s = (s', x) \<Longrightarrow> I s'"
  by (auto simp: keeps_def dest: spec[of _ s])

lemma keeps_steps [keep_intros]:
  "keeps I (exec_ret x)" "keeps I (exec_raise e)" "keeps I (exec_get g)" "keeps I (exec_of r)" "keeps I (exec_check b e)"
  by (auto simp: keeps_def exec_simps)

lemma keeps_modify: "(\<And>s. I s \<Longrightarrow> I (f s)) \<Longrightarrow> keeps I (exec_modify f)"
  by (simp add: keeps_def exec_simps)

lemma keeps_bind: "keeps I m \<Longrightarrow> (\<And>x. keeps I (f x)) \<Longrightarrow> keeps I (exec_bind m f)"
  unfolding keeps_def exec_bind_def by (auto split: prod.splits sum.splits)

lemma keeps_get_bind: "(\<And>s. keeps I (f (g s))) \<Longrightarrow> keeps I (exec_bind (exec_get g) f)"
  by (simp add: keeps_def exec_bind_def exec_simps)

lemma keeps_get_bind_if: "(\<And>s. I s \<Longrightarrow> I (fst (f (g s) s))) \<Longrightarrow> keeps I (exec_bind (exec_get g) f)"
  by (simp add: keeps_def exec_bind_def exec_simps)

lemma keeps_if [keep_intros]: "(b \<Longrightarrow> keeps I m) \<Longrightarrow> (\<not> b \<Longrightarrow> keeps I n) \<Longrightarrow> keeps I (if b then m else n)"
  by simp

lemma keeps_option [keep_intros]:
  "(y = None \<Longrightarrow> keeps I n) \<Longrightarrow> (\<And>x. y = Some x \<Longrightarrow> keeps I (f x)) \<Longrightarrow> keeps I (case y of None \<Rightarrow> n | Some x \<Rightarrow> f x)"
  by (cases y) simp_all

lemma keeps_sum [keep_intros]:
  "(\<And>x. keeps I (f x)) \<Longrightarrow> (\<And>x. keeps I (g x)) \<Longrightarrow> keeps I (case y of Inl x \<Rightarrow> f x | Inr x \<Rightarrow> g x)"
  by (cases y) simp_all

lemma keeps_prod [keep_intros]: "(\<And>a b. keeps I (f a b)) \<Longrightarrow> keeps I (case y of (a, b) \<Rightarrow> f a b)"
  by (cases y) simp

text \<open>From one condition to another: the step that ends a sequence of steps which keep the first.\<close>

definition leads :: "('s \<Rightarrow> bool) \<Rightarrow> ('s \<Rightarrow> bool) \<Rightarrow> ('s, 'e, 'a) exec \<Rightarrow> bool" where
  "leads P Q m \<longleftrightarrow> (\<forall>s. P s \<longrightarrow> Q (fst (m s)))"

lemma leadsD: "leads P Q m \<Longrightarrow> P s \<Longrightarrow> m s = (s', x) \<Longrightarrow> Q s'"
  by (auto simp: leads_def dest: spec[of _ s])

lemma leads_keeps: "keeps P m \<Longrightarrow> (\<And>s. P s \<Longrightarrow> Q s) \<Longrightarrow> leads P Q m"
  by (simp add: leads_def keeps_def)

lemma leads_bind:
  assumes "keeps P m" "\<And>x. leads P Q (f x)" "\<And>s. P s \<Longrightarrow> Q s"
  shows "leads P Q (exec_bind m f)"
  unfolding leads_def
proof (intro allI impI)
  fix s assume s: "P s"
  obtain s1 r where m: "m s = (s1, r)" by force
  with keepsD[OF assms(1) s] have "P s1" by simp
  with assms(2,3) m show "Q (fst (exec_bind m f s))" by (cases r) (auto simp: exec_bind_def leads_def)
qed

lemma leads_then:
  assumes "leads P Q m" "\<And>x. keeps Q (f x)"
  shows "leads P Q (exec_bind m f)"
  unfolding leads_def
proof (intro allI impI)
  fix s assume s: "P s"
  obtain s1 r where m: "m s = (s1, r)" by force
  with assms(1) s have "Q s1" by (auto simp: leads_def dest: spec[of _ s])
  with assms(2) m show "Q (fst (exec_bind m f s))" by (cases r) (auto simp: exec_bind_def keeps_def)
qed

lemma leads_get_bind: "(\<And>s. leads P Q (f (g s))) \<Longrightarrow> leads P Q (exec_bind (exec_get g) f)"
  by (simp add: leads_def exec_get_bind)

lemma leads_cases:
  "(b \<Longrightarrow> leads P Q m) \<Longrightarrow> (\<not> b \<Longrightarrow> leads P Q n) \<Longrightarrow> leads P Q (if b then m else n)"
  "(y = None \<Longrightarrow> leads P Q n) \<Longrightarrow> (\<And>x. y = Some x \<Longrightarrow> leads P Q (h x)) \<Longrightarrow> leads P Q (case y of None \<Rightarrow> n | Some x \<Rightarrow> h x)"
  "(\<And>x y. leads P Q (k x y)) \<Longrightarrow> leads P Q (case q of (x, y) \<Rightarrow> k x y)"
  by (simp_all split: option.split prod.split)

end
