(* ===== verification/Provenance.thy ===== *)
theory Provenance
  imports JsonReader Exec Delegation
begin

text \<open>
  \<open>enterprise/provenance.py\<close>: \<open>ProvenanceRecorder\<close>, the hash-chained session log. The state of a
  recorder is the record \<open>prov\<close>: its configuration, its position in the chain, the content of
  its log file and the outside world. Clock, signing identity, file system and replication sink
  act on the world (\<open>prov_services\<close>); a failing write leaves a prefix of the line in the file.
  The content is the text Python reads and writes. The heartbeat thread is one operation per round.
\<close>

subsection \<open>Enumerations\<close>

datatype session_state = OPEN | SEALED | INTERRUPTED | RECONSTRUCTED

primrec state_value :: "session_state \<Rightarrow> pystr" where
  "state_value OPEN = ''open''"
| "state_value SEALED = ''sealed''"
| "state_value INTERRUPTED = ''interrupted''"
| "state_value RECONSTRUCTED = ''reconstructed''"

datatype session_event =
    SESSION_OPEN | SESSION_CLOSE | SESSION_RESUME | SESSION_INTERRUPT | SESSION_RECONSTRUCTED
  | HEARTBEAT
  | TOOL_CALL | TOOL_RESULT | SHELL_EXEC | FILE_WRITE | FILE_READ | NETWORK_REQUEST
  | AGENT_SPAWN | AGENT_HANDOFF | MESH_MESSAGE
  | APPROVAL_REQUEST | APPROVAL_GRANTED | APPROVAL_DENIED | POLICY_LOADED | AUDIT_MODE_CHANGE
  | AUTH_SUCCESS | AUTH_FAILURE | POLICY_VIOLATION
  | TELEMETRY_GAP | OS_EVENT
  | CHECKPOINT | MERKLE_SEAL | SEGMENT_SEALED | REPLICATION_ACK

definition EVENT_VALUES :: "(session_event \<times> pystr) list" where
  "EVENT_VALUES =
     [(SESSION_OPEN, ''session_open''), (SESSION_CLOSE, ''session_close''), (SESSION_RESUME, ''session_resume''),
      (SESSION_INTERRUPT, ''session_interrupt''), (SESSION_RECONSTRUCTED, ''session_reconstructed''),
      (HEARTBEAT, ''heartbeat''), (TOOL_CALL, ''tool_call''), (TOOL_RESULT, ''tool_result''), (SHELL_EXEC, ''shell_exec''),
      (FILE_WRITE, ''file_write''), (FILE_READ, ''file_read''), (NETWORK_REQUEST, ''network_request''),
      (AGENT_SPAWN, ''agent_spawn''), (AGENT_HANDOFF, ''agent_handoff''), (MESH_MESSAGE, ''mesh_message''),
      (APPROVAL_REQUEST, ''approval_request''), (APPROVAL_GRANTED, ''approval_granted''),
      (APPROVAL_DENIED, ''approval_denied''), (POLICY_LOADED, ''policy_loaded''), (AUDIT_MODE_CHANGE, ''audit_mode_change''),
      (AUTH_SUCCESS, ''auth_success''), (AUTH_FAILURE, ''auth_failure''), (POLICY_VIOLATION, ''policy_violation''),
      (TELEMETRY_GAP, ''telemetry_gap''), (OS_EVENT, ''os_event''), (CHECKPOINT, ''checkpoint''),
      (MERKLE_SEAL, ''merkle_seal''), (SEGMENT_SEALED, ''segment_sealed''), (REPLICATION_ACK, ''replication_ack'')]"

definition event_value :: "session_event \<Rightarrow> pystr" where
  "event_value e = the (map_of EVENT_VALUES e)"

text \<open>\<open>SessionEventType(value)\<close>; \<open>None\<close> is its \<open>ValueError\<close>.\<close>

definition event_of :: "json \<Rightarrow> session_event option" where
  "event_of v = (case v of JStr s \<Rightarrow> map_option fst (find (\<lambda>ev. snd ev = s) EVENT_VALUES) | _ \<Rightarrow> None)"

datatype audit_mode = CONSUMER | ENTERPRISE | MILITARY

primrec mode_value :: "audit_mode \<Rightarrow> pystr" where
  "mode_value CONSUMER = ''consumer''"
| "mode_value ENTERPRISE = ''enterprise''"
| "mode_value MILITARY = ''military''"

primrec mode_tier :: "audit_mode \<Rightarrow> nat" where
  "mode_tier CONSUMER = 0"
| "mode_tier ENTERPRISE = 1"
| "mode_tier MILITARY = 2"

definition allows_downgrade_to :: "audit_mode \<Rightarrow> audit_mode \<Rightarrow> bool" where
  "allows_downgrade_to m target \<longleftrightarrow> mode_tier m \<le> mode_tier target"

definition PRIVILEGED_EVENT_TYPES :: "pystr list" where
  "PRIVILEGED_EVENT_TYPES = [''approval_granted'', ''policy_loaded'', ''audit_mode_change'', ''session_close'']"

subsection \<open>The environment and the state\<close>

definition GENESIS_HASH_384 :: pystr where
  "GENESIS_HASH_384 = replicate 96 CHR ''0''"

definition RECORD_VERSION_V2 :: pystr where
  "RECORD_VERSION_V2 = ''selfconnect.provenance.record.v2''"

text \<open>What a sink raises: \<open>NotImplementedError\<close>, a \<open>ReplicationError\<close> with its text, anything else.\<close>

datatype push_error = NotImplemented | ReplicationError pystr | OtherPush pystr

datatype prov_error = RecorderError pystr | Escaped pystr

record 'w prov_services =
  ps_sha384 :: "bytes \<Rightarrow> pystr"
  ps_sha256 :: "bytes \<Rightarrow> pystr"
  ps_ed25519 :: "bytes \<Rightarrow> bytes \<Rightarrow> bytes \<Rightarrow> bool"
  ps_p384 :: "bytes \<Rightarrow> bytes \<Rightarrow> bytes \<Rightarrow> bool"
  ps_now :: "'w \<Rightarrow> 'w \<times> pystr"
  ps_open :: "'w \<Rightarrow> 'w \<times> pystr option"
  ps_write :: "'w \<Rightarrow> 'w \<times> (pystr \<times> nat) option"
  ps_read :: "'w \<Rightarrow> 'w \<times> pystr option"
  ps_public_key :: "bytes option"
  ps_sign :: "'w \<Rightarrow> bytes \<Rightarrow> 'w \<times> (pystr + bytes)"
  ps_push :: "('w \<Rightarrow> pystr \<Rightarrow> int \<Rightarrow> json_object \<Rightarrow> 'w \<times> (push_error + pystr)) option"

record 'w prov =
  pv_session_id :: pystr
  pv_agent_id :: pystr
  pv_mode :: audit_mode
  pv_seal_interval :: int
  pv_supervisor_id :: "pystr option"
  pv_token :: "pystr option"
  pv_seq :: int
  pv_segment_no :: int
  pv_prev_hash :: pystr
  pv_first_hash :: "pystr option"
  pv_since_seal :: int
  pv_state :: session_state
  pv_started :: bool
  pv_closed :: bool
  pv_stop_heartbeat :: bool
  pv_agents :: "(pystr \<times> (bytes \<Rightarrow> bytes \<Rightarrow> bool) option) list"
  pv_log :: "pystr option"
  pv_world :: 'w

type_synonym ('w, 'a) prov_op = "('w prov, prov_error, 'a) exec"

definition recorder_init ::
    "pystr \<Rightarrow> pystr \<Rightarrow> audit_mode \<Rightarrow> int \<Rightarrow> pystr option \<Rightarrow> pystr option \<Rightarrow> pystr option \<Rightarrow> 'w \<Rightarrow> 'w prov" where
  "recorder_init session_id agent_id mode seal_interval supervisor token log w =
     \<lparr>pv_session_id = session_id, pv_agent_id = agent_id, pv_mode = mode, pv_seal_interval = seal_interval,
      pv_supervisor_id = supervisor, pv_token = token, pv_seq = 0, pv_segment_no = 0, pv_prev_hash = GENESIS_HASH_384,
      pv_first_hash = None, pv_since_seal = 0, pv_state = OPEN, pv_started = False, pv_closed = False,
      pv_stop_heartbeat = False, pv_agents = [], pv_log = log, pv_world = w\<rparr>"

definition outside_op :: "('w \<Rightarrow> 'w \<times> 'a) \<Rightarrow> ('w, 'a) prov_op" where
  "outside_op f s = (case f (pv_world s) of (w, x) \<Rightarrow> (s\<lparr>pv_world := w\<rparr>, Inr x))"

definition recorder_raise :: "pystr \<Rightarrow> ('w, 'a) prov_op" where
  "recorder_raise t = exec_raise (RecorderError t)"

definition fail_closed :: "audit_mode \<Rightarrow> bool" where
  "fail_closed m \<longleftrightarrow> m \<in> {ENTERPRISE, MILITARY}"

subsection \<open>Lines of a file\<close>

fun split_lines :: "(char \<Rightarrow> bool) \<Rightarrow> pystr \<Rightarrow> pystr \<Rightarrow> pystr list" where
  "split_lines P acc [] = (if acc = [] then [] else [rev acc])"
| "split_lines P acc (c # s) = (if P c then rev acc # split_lines P [] s else split_lines P (c # acc) s)"

text \<open>Iterating over a text file, and \<open>str.splitlines\<close>.\<close>

definition file_lines :: "pystr \<Rightarrow> pystr list" where
  "file_lines s = split_lines (\<lambda>c. c = CHR 0x0A) [] (unix_newlines s)"

definition is_line_boundary :: "char \<Rightarrow> bool" where
  "is_line_boundary c \<longleftrightarrow> char_code c \<in> {10, 11, 12, 13, 28, 29, 30, 133}"

definition text_lines :: "pystr \<Rightarrow> pystr list" where
  "text_lines s = split_lines is_line_boundary [] (unix_newlines s)"

text \<open>\<open>[ln.strip() for ln in lines if ln.strip()]\<close>.\<close>

definition stripped :: "pystr list \<Rightarrow> pystr list" where
  "stripped ls = filter (\<lambda>l. l \<noteq> []) (map strip ls)"

definition log_text :: "'w prov \<Rightarrow> pystr" where
  "log_text s = (case pv_log s of None \<Rightarrow> [] | Some t \<Rightarrow> t)"

subsection \<open>Canonical bytes and the Merkle root\<close>

definition record_bytes :: "json_object \<Rightarrow> bytes" where
  "record_bytes r =
     dumps True (JObj (filter (\<lambda>kv. fst kv \<noteq> ''recorder_sig''
       \<and> (kw r ''record_version'' = JStr RECORD_VERSION_V2 \<or> fst kv \<noteq> ''agent_sig'')) r))"

definition canonical_hash :: "'w prov_services \<Rightarrow> json_object \<Rightarrow> pystr" where
  "canonical_hash sv r = ps_sha384 sv (record_bytes r)"

fun pair_up :: "('a \<Rightarrow> 'a \<Rightarrow> 'a) \<Rightarrow> 'a list \<Rightarrow> 'a list" where
  "pair_up f [] = []"
| "pair_up f [a] = [f a a]"
| "pair_up f (a # b # r) = f a b # pair_up f r"

lemma length_pair_up: "length (pair_up f xs) = (length xs + 1) div 2"
  by (induction f xs rule: pair_up.induct) simp_all

text \<open>The layers of the tree, until one hash is left; an odd layer repeats its last hash.\<close>

function merkle_top :: "('a \<Rightarrow> 'a \<Rightarrow> 'a) \<Rightarrow> 'a list \<Rightarrow> 'a" where
  "merkle_top f layer = (if 1 < length layer then merkle_top f (pair_up f layer) else hd layer)"
  by auto
termination
  by (relation "measure (\<lambda>(f, layer). length layer)") (auto simp: length_pair_up)

declare merkle_top.simps [simp del]

definition merkle_root :: "'w prov_services \<Rightarrow> pystr list \<Rightarrow> pystr" where
  "merkle_root sv hashes =
     (if hashes = [] then ps_sha384 sv [] else merkle_top (\<lambda>a b. ps_sha384 sv (a @ b)) hashes)"

subsection \<open>Appending a record\<close>

definition record_line :: "json_object \<Rightarrow> pystr" where
  "record_line r = plain_dumps True (JObj r) @ [CHR 0x0A]"

text \<open>
  Opening the log for appending, writing a line, flushing and syncing it. The world either takes
  the whole line or raises an \<open>OSError\<close> with its text after a number of characters.
\<close>

definition write_line :: "'w prov_services \<Rightarrow> json_object \<Rightarrow> ('w, pystr option) prov_op" where
  "write_line sv r = exec_bind (outside_op (ps_write sv)) (\<lambda>f. exec_bind (exec_get log_text) (\<lambda>old.
     case f of
       None \<Rightarrow> exec_bind (exec_modify (\<lambda>s. s\<lparr>pv_log := Some (old @ record_line r)\<rparr>)) (\<lambda>_. exec_ret None)
     | Some (e, n) \<Rightarrow>
         exec_bind (exec_modify (\<lambda>s. if n = 0 then s else s\<lparr>pv_log := Some (old @ take n (record_line r))\<rparr>))
           (\<lambda>_. exec_ret (Some e))))"

definition handle_sink_failure :: "pystr \<Rightarrow> ('w, unit) prov_op" where
  "handle_sink_failure e = exec_bind (exec_get pv_mode) (\<lambda>m.
     if fail_closed m then recorder_raise (''Provenance sink write failed (fail-closed): '' @ e) else exec_ret ())"

definition ack_record :: "'w prov \<Rightarrow> pystr \<Rightarrow> pystr \<Rightarrow> json_object" where
  "ack_record s now receipt =
     [(''seq'', JStr (''ack-'' @ show_int (pv_seq s))), (''ts'', JStr now), (''session_id'', JStr (pv_session_id s)),
      (''event_type'', JStr (event_value REPLICATION_ACK)), (''receipt'', JStr receipt), (''prev_hash'', JStr (pv_prev_hash s))]"

definition replicate_ack :: "'w prov_services \<Rightarrow> pystr \<Rightarrow> ('w, bool) prov_op" where
  "replicate_ack sv receipt =
     (if receipt = [] then exec_ret False
      else exec_bind (outside_op (ps_now sv)) (\<lambda>now. exec_bind (exec_get (\<lambda>s. ack_record s now receipt)) (\<lambda>ack.
        exec_bind (write_line sv ack) (\<lambda>e. exec_bind (exec_get pv_mode) (\<lambda>m.
          if e \<noteq> None \<and> m = MILITARY
          then recorder_raise ''replication succeeded but its local receipt could not be persisted''
          else exec_ret True)))))"

definition replicate_refused :: "push_error \<Rightarrow> ('w, bool) prov_op" where
  "replicate_refused e = exec_bind (exec_get pv_mode) (\<lambda>m.
     case e of
       NotImplemented \<Rightarrow>
         if m = MILITARY then recorder_raise ''replication sink is not implemented in military mode'' else exec_ret False
     | ReplicationError t \<Rightarrow>
         if 0 < str_count t ''fork_detected''
         then (if fail_closed m then recorder_raise (''Fork detected -- session integrity compromised: '' @ t) else exec_ret False)
         else (if m = MILITARY then recorder_raise (''Replication failed in military mode: '' @ t) else exec_ret False)
     | OtherPush t \<Rightarrow> exec_raise (Escaped t))"

definition replicate_record ::
    "'w prov_services \<Rightarrow> ('w \<Rightarrow> pystr \<Rightarrow> int \<Rightarrow> json_object \<Rightarrow> 'w \<times> (push_error + pystr)) \<Rightarrow> json_object \<Rightarrow> ('w, bool) prov_op" where
  "replicate_record sv push r = exec_bind (exec_get (\<lambda>s. (pv_session_id s, pv_segment_no s))) (\<lambda>(sid, seg).
     exec_bind (outside_op (\<lambda>w. push w sid seg r)) (\<lambda>x.
       case x of Inl e \<Rightarrow> replicate_refused e | Inr receipt \<Rightarrow> replicate_ack sv receipt))"

definition payload_of :: "json_object option \<Rightarrow> json_object" where
  "payload_of payload = (case payload of Some p \<Rightarrow> p | None \<Rightarrow> [])"

definition build_record ::
    "'w prov \<Rightarrow> pystr \<Rightarrow> session_event \<Rightarrow> json_object option \<Rightarrow> pystr option \<Rightarrow> json option \<Rightarrow> json option \<Rightarrow> json_object" where
  "build_record s now ev payload agent_id signature corroboration =
     [(''record_version'', JStr RECORD_VERSION_V2), (''seq'', JInt (pv_seq s)), (''ts'', JStr now),
      (''session_id'', JStr (pv_session_id s)),
      (''agent_id'', JStr (case agent_id of Some a \<Rightarrow> if a = [] then pv_agent_id s else a | None \<Rightarrow> pv_agent_id s)),
      (''event_type'', JStr (event_value ev)),
      (''payload'', JObj (payload_of payload)),
      (''prev_hash'', JStr (pv_prev_hash s))]
     @ (case corroboration of Some c \<Rightarrow> [(''os_corroboration'', c)] | None \<Rightarrow> [])
     @ (case signature of Some g \<Rightarrow> [(''agent_sig'', g)] | None \<Rightarrow> [])"

definition sign_record :: "'w prov_services \<Rightarrow> json_object \<Rightarrow> ('w, json_object) prov_op" where
  "sign_record sv r =
     (if ps_public_key sv = None then exec_ret r
      else exec_bind (outside_op (\<lambda>w. ps_sign sv w (record_bytes r))) (\<lambda>x. exec_bind (exec_get pv_mode) (\<lambda>m.
        case x of
          Inr g \<Rightarrow> exec_ret (r @ [(''recorder_sig'', JStr (tohex g))])
        | Inl e \<Rightarrow> if fail_closed m then recorder_raise (''Recorder signing failed: '' @ e) else exec_ret r)))"

definition advance_chain :: "pystr \<Rightarrow> 'w prov \<Rightarrow> 'w prov" where
  "advance_chain h s = s\<lparr>pv_prev_hash := h, pv_first_hash := (if pv_seq s = 1 then Some h else pv_first_hash s)\<rparr>"

text \<open>\<open>_append_record\<close> up to the test for a Merkle seal: \<open>None\<close> when the line could not be written.\<close>

definition append_core ::
    "'w prov_services \<Rightarrow> session_event \<Rightarrow> json_object option \<Rightarrow> pystr option \<Rightarrow> json option \<Rightarrow> json option
      \<Rightarrow> ('w, json_object option) prov_op" where
  "append_core sv ev payload agent_id signature corroboration =
     exec_bind (exec_modify (\<lambda>s. s\<lparr>pv_seq := pv_seq s + 1\<rparr>)) (\<lambda>_.
     exec_bind (outside_op (ps_now sv)) (\<lambda>now.
     exec_bind (exec_get (\<lambda>s. build_record s now ev payload agent_id signature corroboration)) (\<lambda>r0.
     exec_bind (sign_record sv r0) (\<lambda>r.
     exec_bind (exec_modify (advance_chain (canonical_hash sv r))) (\<lambda>_.
     exec_bind (write_line sv r) (\<lambda>f.
       case f of
         Some e \<Rightarrow> exec_bind (handle_sink_failure e) (\<lambda>_. exec_ret None)
       | None \<Rightarrow>
           exec_bind (case ps_push sv of None \<Rightarrow> exec_ret True | Some push \<Rightarrow> replicate_record sv push r) (\<lambda>_.
           exec_bind (exec_modify (\<lambda>s. s\<lparr>pv_since_seal := pv_since_seal s + 1\<rparr>)) (\<lambda>_.
           exec_ret (Some r)))))))))"

text \<open>The seal's own append never seals again: \<open>append_core\<close> is \<open>_append_record\<close> for it.\<close>

definition seal_payload :: "pystr \<Rightarrow> nat \<Rightarrow> int \<Rightarrow> bool \<Rightarrow> json_object" where
  "seal_payload root sealed segment final =
     [(''merkle_root'', JStr root), (''sealed_events'', JInt (int sealed)), (''segment_no'', JInt segment), (''final'', JBool final)]"

definition sealed_lines :: "int \<Rightarrow> pystr \<Rightarrow> pystr list" where
  "sealed_lines since content =
     (let lines = stripped (file_lines content) in drop (nat (max 0 (int (length lines) - since))) lines)"

definition write_merkle_seal :: "'w prov_services \<Rightarrow> bool \<Rightarrow> ('w, unit) prov_op" where
  "write_merkle_seal sv final =
     exec_bind (outside_op (ps_read sv)) (\<lambda>f. exec_bind (exec_get pv_mode) (\<lambda>m.
       case f of
         Some e \<Rightarrow>
           if fail_closed m
           then recorder_raise (''Merkle seal failed -- cannot read provenance log (fail-closed in ''
                  @ mode_value m @ '' mode): '' @ e)
           else exec_ret ()
       | None \<Rightarrow>
           exec_bind (exec_get (\<lambda>s. sealed_lines (pv_since_seal s) (log_text s))) (\<lambda>chunk.
           exec_bind (exec_modify (\<lambda>s. s\<lparr>pv_segment_no := pv_segment_no s + 1, pv_since_seal := 0\<rparr>)) (\<lambda>_.
           exec_bind (exec_get pv_segment_no) (\<lambda>segment.
           exec_bind (append_core sv MERKLE_SEAL
               (Some (seal_payload (merkle_root sv (map (\<lambda>l. ps_sha384 sv (utf8 l)) chunk)) (length chunk) segment final))
               None None None) (\<lambda>_. exec_ret ()))))))"

definition append_record ::
    "'w prov_services \<Rightarrow> session_event \<Rightarrow> json_object option \<Rightarrow> pystr option \<Rightarrow> json option \<Rightarrow> json option
      \<Rightarrow> ('w, json_object option) prov_op" where
  "append_record sv ev payload agent_id signature corroboration =
     exec_bind (append_core sv ev payload agent_id signature corroboration) (\<lambda>x.
       case x of
         None \<Rightarrow> exec_ret None
       | Some r \<Rightarrow> exec_bind (exec_get (\<lambda>s. pv_seal_interval s \<le> pv_since_seal s)) (\<lambda>due.
           if due \<and> ev \<noteq> MERKLE_SEAL then exec_bind (write_merkle_seal sv False) (\<lambda>_. exec_ret (Some r))
           else exec_ret (Some r)))"

subsection \<open>Starting and resuming\<close>

text \<open>\<open>record.get("seq")\<close> of a line that is no object is an \<open>AttributeError\<close>; \<open>True\<close> is an \<open>int\<close>.\<close>

fun chain_records :: "json list \<Rightarrow> prov_error + json_object list" where
  "chain_records [] = Inr []"
| "chain_records (JObj r # vs) =
     map_result (\<lambda>rs. if is_integer (kw r ''seq'') then r # rs else rs) (chain_records vs)"
| "chain_records (v # vs) = Inl (Escaped ''AttributeError'')"

definition seq_of :: "json_object \<Rightarrow> int" where
  "seq_of r = (case int_of (kw r ''seq'') of Inr n \<Rightarrow> n | Inl e \<Rightarrow> 0)"

fun parse_lines :: "pystr list \<Rightarrow> json list option" where
  "parse_lines [] = Some []"
| "parse_lines (l # ls) =
     (case json_loads l of None \<Rightarrow> None | Some v \<Rightarrow> map_option (Cons v) (parse_lines ls))"

definition log_records :: "pystr \<Rightarrow> prov_error + json_object list" where
  "log_records content =
     (let lines = stripped (text_lines content) in
      if lines = [] then Inr []
      else case parse_lines lines of
        None \<Rightarrow> Inl (RecorderError ''cannot resume a provenance log containing malformed JSON'')
      | Some vs \<Rightarrow> bind_result (chain_records vs) (\<lambda>rs.
          if rs = [] then Inl (RecorderError ''cannot resume a provenance log with no integer-sequence events'')
          else Inr rs))"

definition resume_at :: "'w prov_services \<Rightarrow> json_object list \<Rightarrow> 'w prov \<Rightarrow> 'w prov" where
  "resume_at sv rs s =
     (if rs = [] then s
      else s\<lparr>pv_seq := seq_of (last rs), pv_prev_hash := canonical_hash sv (last rs),
             pv_first_hash := Some (canonical_hash sv (hd rs))\<rparr>)"

definition load_chain_state :: "'w prov_services \<Rightarrow> ('w, unit) prov_op" where
  "load_chain_state sv =
     exec_bind (exec_get pv_log) (\<lambda>log.
       case log of
         None \<Rightarrow> exec_ret ()
       | Some _ \<Rightarrow>
           exec_bind (outside_op (ps_read sv)) (\<lambda>f. exec_bind (exec_check (f = None) (Escaped (the f))) (\<lambda>_.
           exec_bind (exec_get log_text) (\<lambda>content.
           exec_bind (exec_of (log_records content)) (\<lambda>rs. exec_modify (resume_at sv rs))))))"

definition start_payload :: "audit_mode \<Rightarrow> pystr \<Rightarrow> session_state \<Rightarrow> json_object" where
  "start_payload m agent st =
     [(''audit_mode'', JStr (mode_value m)), (''agent_id'', JStr agent), (''session_state'', JStr (state_value st))]"

definition session_begins :: "'w prov_services \<Rightarrow> bool \<Rightarrow> ('w, unit) prov_op" where
  "session_begins sv resume =
     exec_bind (exec_get (\<lambda>s. log_text s \<noteq> [])) (\<lambda>had_existing.
     exec_bind (load_chain_state sv) (\<lambda>_.
     exec_bind (exec_check (\<not> resume \<or> had_existing)
       (RecorderError ''cannot resume a provenance session with no existing events'')) (\<lambda>_.
     exec_bind (exec_modify (\<lambda>s. if resume then s\<lparr>pv_started := True, pv_state := RECONSTRUCTED\<rparr> else s\<lparr>pv_started := True\<rparr>)) (\<lambda>_.
     exec_bind (exec_get (\<lambda>s. (pv_mode s, pv_agent_id s))) (\<lambda>(m, agent).
     exec_bind (append_record sv (if resume then SESSION_RECONSTRUCTED else SESSION_OPEN)
         (Some (start_payload m agent (if resume then RECONSTRUCTED else OPEN))) (Some agent) None None)
       (\<lambda>_. exec_ret ()))))))"

definition start :: "'w prov_services \<Rightarrow> bool \<Rightarrow> ('w, unit) prov_op" where
  "start sv resume =
     exec_bind (exec_get (\<lambda>s. (pv_started s, pv_mode s))) (\<lambda>(started, m).
       if started then exec_ret ()
       else if m = MILITARY \<and> ps_push sv = None
       then recorder_raise (''military audit mode requires a ReplicationSink. Configure S3ObjectLockSink, CloudflareR2Sink, or ''
              @ ''InMemoryWitnessSink (testing only).'')
       else exec_bind (outside_op (ps_open sv)) (\<lambda>f.
         case f of
           Some e \<Rightarrow>
             if fail_closed m
             then recorder_raise (''Provenance sink unavailable -- cannot start session in '' @ mode_value m @ '' mode: '' @ e)
             else exec_ret ()
         | None \<Rightarrow>
             exec_bind (exec_modify (\<lambda>s. s\<lparr>pv_log := Some (log_text s)\<rparr>)) (\<lambda>_. session_begins sv resume)))"

subsection \<open>Recording\<close>

definition register_agent :: "pystr \<Rightarrow> (bytes \<Rightarrow> bytes \<Rightarrow> bool) option \<Rightarrow> ('w, unit) prov_op" where
  "register_agent agent_id key = exec_modify (\<lambda>s. s\<lparr>pv_agents := AList.update agent_id key (pv_agents s)\<rparr>)"

definition violation :: "'w prov_services \<Rightarrow> json_object \<Rightarrow> pystr \<Rightarrow> ('w, unit) prov_op" where
  "violation sv p message =
     exec_bind (exec_get pv_agent_id) (\<lambda>agent.
     exec_bind (append_record sv POLICY_VIOLATION (Some p) (Some agent) None None) (\<lambda>_. recorder_raise message))"

definition check_event_authority :: "'w prov_services \<Rightarrow> session_event \<Rightarrow> pystr \<Rightarrow> ('w, unit) prov_op" where
  "check_event_authority sv ev submitter =
     exec_bind (exec_get (\<lambda>s. (pv_mode s, pv_supervisor_id s))) (\<lambda>(m, sup).
       if event_value ev \<notin> set PRIVILEGED_EVENT_TYPES then exec_ret ()
       else if m = CONSUMER then exec_ret ()
       else case sup of
         None \<Rightarrow>
           if m = MILITARY
           then recorder_raise (''Privileged event '' @ py_repr (event_value ev)
                  @ '' requires a supervisor_id to be configured in military mode.'')
           else exec_ret ()
       | Some who \<Rightarrow>
           if submitter = who then exec_ret ()
           else violation sv
             [(''violation'', JStr ''unauthorized_privileged_event''), (''event_type'', JStr (event_value ev)),
              (''submitter'', JStr submitter), (''required_supervisor'', JStr who)]
             (''Event type '' @ py_repr (event_value ev) @ '' may only be submitted by supervisor '' @ py_repr who
               @ '', not '' @ py_repr submitter @ ''.''))"

definition event_bytes :: "session_event \<Rightarrow> json_object option \<Rightarrow> bytes" where
  "event_bytes ev payload =
     dumps True (JObj [(''event_type'', JStr (event_value ev)), (''payload'', JObj (payload_of payload))])"

text \<open>A registered key is its \<open>verify\<close> method: arguments signature and data, \<open>False\<close> where it raises.\<close>

definition check_signature :: "session_event \<Rightarrow> pystr \<Rightarrow> json_object option \<Rightarrow> bytes option \<Rightarrow> ('w, unit) prov_op" where
  "check_signature ev submitter payload signature =
     exec_bind (exec_get (\<lambda>s. (pv_mode s, map_of (pv_agents s) submitter))) (\<lambda>(m, key).
       case key of
         None \<Rightarrow> exec_ret ()
       | Some None \<Rightarrow> exec_ret ()
       | Some (Some verify) \<Rightarrow>
           (case signature of
              None \<Rightarrow>
                if fail_closed m
                then recorder_raise (''Registered agent '' @ py_repr submitter @ '' must provide a signature for event ''
                       @ py_repr (event_value ev) @ '' in '' @ mode_value m @ '' mode.'')
                else exec_ret ()
            | Some g \<Rightarrow>
                exec_check (verify g (event_bytes ev payload))
                  (RecorderError (''Signature verification failed for agent '' @ py_repr submitter))))"

definition record_event ::
    "'w prov_services \<Rightarrow> json \<Rightarrow> json_object option \<Rightarrow> pystr option \<Rightarrow> bytes option \<Rightarrow> json option
      \<Rightarrow> ('w, json_object option) prov_op" where
  "record_event sv event_type payload agent_id signature corroboration =
     exec_bind (exec_get (\<lambda>s. (pv_closed s, pv_started s, pv_mode s, pv_agent_id s))) (\<lambda>(closed, started, m, own).
       if closed then recorder_raise ''Recorder is closed.''
       else if \<not> started
       then (if fail_closed m then recorder_raise ''start() must be called before record().'' else exec_ret None)
       else case event_of event_type of
         None \<Rightarrow> exec_raise (Escaped ''is not a valid SessionEventType'')
       | Some ev \<Rightarrow>
           (let submitter = (case agent_id of Some a \<Rightarrow> if a = [] then own else a | None \<Rightarrow> own) in
            exec_bind (check_event_authority sv ev submitter) (\<lambda>_.
            exec_bind (check_signature ev submitter payload signature) (\<lambda>_.
            append_record sv ev payload (Some submitter) (map_option (\<lambda>g. JStr (tohex g)) signature) corroboration))))"

subsection \<open>Closing, interrupting, changing the mode\<close>

definition seal_session :: "'w prov_services \<Rightarrow> json_object option \<Rightarrow> ('w, unit) prov_op" where
  "seal_session sv summary =
     exec_bind (exec_modify (\<lambda>s. s\<lparr>pv_stop_heartbeat := True, pv_state := SEALED\<rparr>)) (\<lambda>_.
     exec_bind (exec_get (\<lambda>s. ([(''summary'', JObj (payload_of summary)), (''total_events'', JInt (pv_seq s)),
         (''session_state'', JStr (state_value SEALED))], pv_agent_id s))) (\<lambda>(p, agent).
     exec_bind (append_record sv SESSION_CLOSE (Some p) (Some agent) None None) (\<lambda>_. write_merkle_seal sv True)))"

definition close_recorder :: "'w prov_services \<Rightarrow> json_object option \<Rightarrow> pystr option \<Rightarrow> ('w, unit) prov_op" where
  "close_recorder sv summary token =
     exec_bind (exec_get (\<lambda>s. (pv_closed s, pv_token s, pv_mode s, pv_started s))) (\<lambda>(closed, required, m, started).
       if closed then exec_ret ()
       else if required \<noteq> None \<and> fail_closed m \<and> token \<noteq> required
       then violation sv [(''violation'', JStr ''unauthorized_close_attempt''), (''submitter'', JStr ''unknown'')]
              (''close() requires the orchestrator_token in '' @ mode_value m @ '' mode.'')
       else exec_bind (if started then seal_session sv summary else exec_ret ()) (\<lambda>_.
         exec_modify (\<lambda>s. s\<lparr>pv_closed := True\<rparr>)))"

definition interrupt_session :: "'w prov_services \<Rightarrow> pystr \<Rightarrow> ('w, unit) prov_op" where
  "interrupt_session sv reason =
     exec_bind (exec_modify (\<lambda>s. s\<lparr>pv_state := INTERRUPTED\<rparr>)) (\<lambda>_.
     exec_bind (exec_get pv_agent_id) (\<lambda>agent.
     exec_bind (append_record sv SESSION_INTERRUPT
       (Some [(''reason'', JStr reason), (''session_state'', JStr (state_value INTERRUPTED))])
       (Some agent) None None) (\<lambda>_. write_merkle_seal sv False)))"

definition interrupt :: "'w prov_services \<Rightarrow> pystr \<Rightarrow> ('w, unit) prov_op" where
  "interrupt sv reason =
     exec_bind (exec_get (\<lambda>s. (pv_closed s, pv_started s))) (\<lambda>(closed, started).
       if closed then exec_ret ()
       else exec_bind (exec_modify (\<lambda>s. s\<lparr>pv_stop_heartbeat := True\<rparr>)) (\<lambda>_.
         exec_bind (if started then interrupt_session sv reason else exec_ret ()) (\<lambda>_.
         exec_modify (\<lambda>s. s\<lparr>pv_closed := True\<rparr>))))"

definition change_audit_mode :: "'w prov_services \<Rightarrow> audit_mode \<Rightarrow> pystr option \<Rightarrow> pystr \<Rightarrow> ('w, unit) prov_op" where
  "change_audit_mode sv new_mode token reason =
     exec_bind (exec_get (\<lambda>s. (pv_mode s, pv_token s, pv_agent_id s))) (\<lambda>(old_mode, required, agent).
       let is_downgrade = (\<not> allows_downgrade_to old_mode new_mode) in
       if is_downgrade \<and> required \<noteq> None \<and> token \<noteq> required
       then violation sv
         [(''violation'', JStr ''unauthorized_audit_mode_downgrade''), (''from'', JStr (mode_value old_mode)),
          (''to'', JStr (mode_value new_mode))]
         (''Audit mode downgrade from '' @ mode_value old_mode @ '' to '' @ mode_value new_mode @ '' requires orchestrator_token.'')
       else exec_bind (exec_modify (\<lambda>s. s\<lparr>pv_mode := new_mode\<rparr>)) (\<lambda>_.
         exec_bind (append_record sv AUDIT_MODE_CHANGE
           (Some [(''from'', JStr (mode_value old_mode)), (''to'', JStr (mode_value new_mode)),
                  (''is_downgrade'', JBool is_downgrade), (''reason'', JStr reason)])
           (Some agent) None None) (\<lambda>_. exec_ret ())))"

definition report_telemetry_gap :: "'w prov_services \<Rightarrow> pystr \<Rightarrow> pystr \<Rightarrow> ('w, unit) prov_op" where
  "report_telemetry_gap sv sensor detail =
     exec_bind (record_event sv (JStr (event_value TELEMETRY_GAP))
       (Some [(''sensor'', JStr sensor), (''detail'', JStr detail)]) None None None) (\<lambda>_. exec_ret ())"

definition ensure_replicated :: "'w prov_services \<Rightarrow> json_object \<Rightarrow> ('w, bool) prov_op" where
  "ensure_replicated sv r =
     (case ps_push sv of
        None \<Rightarrow> exec_bind (exec_get pv_mode) (\<lambda>m.
          if m = MILITARY then recorder_raise ''military recovery cannot acknowledge without a replication sink''
          else exec_ret False)
      | Some push \<Rightarrow> replicate_record sv push r)"

text \<open>One round of the heartbeat thread: \<open>False\<close> when the loop ends. It swallows what the append raises.\<close>

definition heartbeat_round :: "'w prov_services \<Rightarrow> 'w prov \<Rightarrow> 'w prov \<times> bool" where
  "heartbeat_round sv s =
     (if pv_stop_heartbeat s \<or> pv_closed s \<or> \<not> pv_started s then (s, False)
      else (fst (append_record sv HEARTBEAT
              (Some [(''seq_at_heartbeat'', JInt (pv_seq s)), (''session_state'', JStr (state_value (pv_state s)))])
              None None None s), True))"

definition tail_lines :: "int \<Rightarrow> 'a list \<Rightarrow> 'a list" where
  "tail_lines n ls =
     (if n = 0 then ls
      else if 0 < n then drop (length ls - nat n) ls
      else drop (nat (- n)) ls)"

definition tail_records :: "'w prov_services \<Rightarrow> int \<Rightarrow> ('w, json list) prov_op" where
  "tail_records sv n =
     exec_bind (exec_get pv_log) (\<lambda>log.
       case log of
         None \<Rightarrow> exec_ret []
       | Some content \<Rightarrow>
           exec_bind (outside_op (ps_read sv)) (\<lambda>f. exec_bind (exec_check (f = None) (Escaped (the f))) (\<lambda>_.
           exec_ret (List.map_filter json_loads
             (tail_lines n (filter (\<lambda>l. strip l \<noteq> []) (text_lines content)))))))"

subsection \<open>The in-memory witness\<close>

record witness =
  wt_seals :: "((pystr \<times> int) \<times> json) list"
  wt_receipts :: "(pystr \<times> json_object) list"

definition is_fork :: "witness \<Rightarrow> pystr \<Rightarrow> int \<Rightarrow> json \<Rightarrow> bool" where
  "is_fork wt sid segment root = (case map_of (wt_seals wt) (sid, segment) of Some old \<Rightarrow> \<not> py_eq old root | None \<Rightarrow> False)"

text \<open>The message of a detected fork; \<open>root[:16]\<close> of what is no text raises.\<close>

definition fork_error :: "pystr \<Rightarrow> int \<Rightarrow> json option \<Rightarrow> json \<Rightarrow> push_error" where
  "fork_error sid segment old root =
     (case (old, root) of
        (Some (JStr a), JStr b) \<Rightarrow>
          ReplicationError (''fork_detected: session='' @ sid @ '' segment='' @ show_int segment
            @ '' existing_root='' @ take 16 a @ ''... new_root='' @ take 16 b @ ''...'')
      | _ \<Rightarrow> OtherPush ''TypeError'')"

definition witness_push ::
    "'w prov_services \<Rightarrow> pystr \<Rightarrow> pystr \<Rightarrow> witness \<Rightarrow> pystr \<Rightarrow> int \<Rightarrow> json_object \<Rightarrow> witness \<times> (push_error + pystr)" where
  "witness_push sv now receipt_id wt sid segment r =
     (let payload = members (dict_get r ''payload'' (JObj []));
          is_seal = (map_of payload ''merkle_root'' \<noteq> None);
          root = dict_get payload ''merkle_root'' (JStr (canonical_hash sv r)) in
      if is_seal \<and> is_fork wt sid segment root
      then (wt, Inl (fork_error sid segment (map_of (wt_seals wt) (sid, segment)) root))
      else (\<lparr>wt_seals = (if is_seal then AList.update (sid, segment) root (wt_seals wt) else wt_seals wt),
             wt_receipts = AList.update sid
               [(''session_id'', JStr sid), (''segment_no'', JInt segment), (''seq'', kw r ''seq''), (''root'', root),
                (''is_seal'', JBool is_seal), (''ts'', JStr now), (''receipt_id'', JStr receipt_id)] (wt_receipts wt)\<rparr>,
            Inr receipt_id))"

definition get_latest_receipt :: "witness \<Rightarrow> pystr \<Rightarrow> json_object option" where
  "get_latest_receipt wt sid = map_of (wt_receipts wt) sid"

end
