(* ===== verification/ProvenanceVerify.thy ===== *)
theory ProvenanceVerify
  imports Provenance
begin

text \<open>
  \<open>enterprise/provenance.py\<close>: the verification of a session log (\<open>_verify_chain\<close>), of the
  recorder's signature and of the persisted attestation of a service request. An exception that
  escapes (a field of a type the code does not expect) is \<open>Inl\<close>. A failure carries the check that
  failed in place of its message.
\<close>

subsection \<open>Python's \<open><\<close> on JSON values\<close>

text \<open>\<open>None\<close> is its \<open>TypeError\<close>. Lists compare by their first unequal elements.\<close>

definition number_of :: "json \<Rightarrow> int option" where
  "number_of v = (case v of JInt n \<Rightarrow> Some n | JFloat n \<Rightarrow> Some n | JBool b \<Rightarrow> Some (if b then 1 else 0) | _ \<Rightarrow> None)"

fun py_less :: "json \<Rightarrow> json \<Rightarrow> bool option" and list_less :: "json list \<Rightarrow> json list \<Rightarrow> bool option" where
  "py_less (JStr a) (JStr b) = Some (a < b)"
| "py_less (JArr xs) (JArr ys) = list_less xs ys"
| "py_less v w =
     (case number_of v of None \<Rightarrow> None | Some m \<Rightarrow> map_option (\<lambda>n. m < n) (number_of w))"
| "list_less [] ys = Some (ys \<noteq> [])"
| "list_less (x # xs) [] = Some False"
| "list_less (x # xs) (y # ys) = (if py_eq x y then list_less xs ys else py_less x y)"

subsection \<open>Signatures of a record\<close>

definition hex_field :: "json_object \<Rightarrow> pystr \<Rightarrow> bytes option" where
  "hex_field d k = fromhex (str_of (dict_get d k (JStr [])))"

text \<open>Both curves' verifications never raise: \<open>False\<close> where the code catches an exception.\<close>

definition verify_recorder_signature :: "'w prov_services \<Rightarrow> json_object \<Rightarrow> bytes \<Rightarrow> bool" where
  "verify_recorder_signature sv r key =
     (case hex_field r ''recorder_sig'' of
        None \<Rightarrow> False
      | Some g \<Rightarrow>
          if g = [] then False
          else if length key = 32 then ps_ed25519 sv key (record_bytes r) g
          else if length key = 96 then ps_p384 sv key (record_bytes r) g
          else False)"

definition ATTESTATION_FIELDS :: "pystr list" where
  "ATTESTATION_FIELDS =
     [''agent_algorithm'', ''agent_key_version'', ''agent_public_key_hex'', ''caller_sid'', ''issued_at_ms'', ''nonce'',
      ''operation'', ''protocol_version'', ''request_hash'', ''request_id'', ''request_signature'']"

definition same_keys :: "json_object \<Rightarrow> pystr list \<Rightarrow> bool" where
  "same_keys d ks \<longleftrightarrow> set (map fst d) = set ks"

definition attested_request :: "json_object \<Rightarrow> json_object \<Rightarrow> json_object \<Rightarrow> json_object" where
  "attested_request r corroboration metadata =
     [(''agent_id'', kw r ''agent_id''), (''event_signature'', kw r ''agent_sig''), (''event_type'', kw r ''event_type''),
      (''issued_at_ms'', kw metadata ''issued_at_ms''), (''nonce'', kw metadata ''nonce''),
      (''operation'', kw metadata ''operation''), (''os_corroboration'', kw corroboration ''client''),
      (''payload'', kw r ''payload''), (''request_id'', kw metadata ''request_id''), (''session_id'', kw r ''session_id''),
      (''version'', kw metadata ''protocol_version'')]"

definition agent_id_of :: "'w prov_services \<Rightarrow> pystr \<Rightarrow> bytes \<Rightarrow> pystr" where
  "agent_id_of sv algorithm key =
     ''SC-'' @ upper (take 8 (if algorithm = ''ed25519'' then ps_sha256 sv key else ps_sha384 sv key))"

definition agent_verify :: "'w prov_services \<Rightarrow> pystr \<Rightarrow> bytes \<Rightarrow> bytes \<Rightarrow> bytes \<Rightarrow> bool" where
  "agent_verify sv algorithm key data g = (if algorithm = ''ed25519'' then ps_ed25519 sv key data g else ps_p384 sv key data g)"

definition attested_event :: "json_object \<Rightarrow> bytes" where
  "attested_event r = dumps True (JObj [(''event_type'', kw r ''event_type''), (''payload'', kw r ''payload'')])"

definition attestation_holds :: "'w prov_services \<Rightarrow> json_object \<Rightarrow> json_object \<Rightarrow> json_object \<Rightarrow> pystr \<Rightarrow> bool" where
  "attestation_holds sv r corroboration metadata algorithm =
     (case (hex_field metadata ''agent_public_key_hex'', hex_field r ''agent_sig'', hex_field metadata ''request_signature'') of
        (Some key, Some event_sig, Some request_sig) \<Rightarrow>
          (let key_bytes = (if algorithm = ''ed25519'' then 32 else 96);
               sig_bytes = (if algorithm = ''ed25519'' then 64 else 96);
               request = dumps True (JObj (attested_request r corroboration metadata)) in
           length key = key_bytes \<and> length event_sig = sig_bytes \<and> length request_sig = sig_bytes
           \<and> kw metadata ''request_hash'' = JStr (ps_sha384 sv request)
           \<and> agent_verify sv algorithm key (attested_event r) event_sig
           \<and> agent_verify sv algorithm key request request_sig
           \<and> kw r ''agent_id'' = JStr (agent_id_of sv algorithm key))
      | _ \<Rightarrow> False)"

text \<open>\<open>Inr None\<close>: no dedicated-service record. An unhashable algorithm is a \<open>TypeError\<close>.\<close>

definition verify_attestation :: "'w prov_services \<Rightarrow> json_object \<Rightarrow> prov_error + bool option" where
  "verify_attestation sv r =
     (case kw r ''os_corroboration'' of
        JObj c \<Rightarrow>
          (case map_of c ''provenance_service'' of
             None \<Rightarrow> Inr None
           | Some (JObj m) \<Rightarrow>
               if \<not> same_keys m ATTESTATION_FIELDS then Inr (Some False)
               else if kw r ''record_version'' \<noteq> JStr RECORD_VERSION_V2 then Inr (Some False)
               else (case kw m ''agent_algorithm'' of
                   JStr a \<Rightarrow>
                     Inr (Some (a \<in> {''ed25519'', ''ecdsa-p384-cng''} \<and> py_eq (kw m ''agent_key_version'') (JInt 1)
                       \<and> attestation_holds sv r c m a))
                 | JArr _ \<Rightarrow> Inl (Escaped ''TypeError'')
                 | JObj _ \<Rightarrow> Inl (Escaped ''TypeError'')
                 | _ \<Rightarrow> Inr (Some False))
           | Some _ \<Rightarrow> Inr (Some False))
      | _ \<Rightarrow> Inr None)"

subsection \<open>The chain\<close>

datatype chain_failure =
  KeyMissing | BadJson | ChainBreak | RecorderSignature | Attestation | TimestampRegression | ReadError pystr

record verification =
  vr_failure :: "chain_failure option"
  vr_count :: nat
  vr_session_state :: json
  vr_high_water_seq :: int
  vr_last_heartbeat_ts :: json
  vr_signatures_verified :: bool
  vr_attestations :: nat
  vr_legacy :: nat

definition vr_ok :: "verification \<Rightarrow> bool" where
  "vr_ok v \<longleftrightarrow> vr_failure v = None"

text \<open>The local variables of the loop.\<close>

record chain_scan =
  sc_prev :: pystr
  sc_count :: nat
  sc_last_ts :: json
  sc_state :: json
  sc_high_water :: int
  sc_heartbeat_ts :: json
  sc_has_close :: bool
  sc_attestations :: nat
  sc_legacy :: nat

definition scan_start :: chain_scan where
  "scan_start = \<lparr>sc_prev = GENESIS_HASH_384, sc_count = 0, sc_last_ts = JNull, sc_state = JNull, sc_high_water = 0,
     sc_heartbeat_ts = JNull, sc_has_close = False, sc_attestations = 0, sc_legacy = 0\<rparr>"

definition is_ack :: "json_object \<Rightarrow> bool" where
  "is_ack r = (case kw r ''seq'' of JStr s \<Rightarrow> startswith s ''ack-'' | _ \<Rightarrow> False)"

text \<open>The slice \<open>stored_prev[:16]\<close> of the message raises on what is neither text nor list.\<close>

definition check_link :: "pystr \<Rightarrow> json_object \<Rightarrow> prov_error + bool" where
  "check_link prev r =
     (case dict_get r ''prev_hash'' (JStr []) of
        JStr s \<Rightarrow> Inr (s = prev)
      | JArr _ \<Rightarrow> Inr False
      | _ \<Rightarrow> Inl (Escaped ''TypeError''))"

definition check_ts :: "json \<Rightarrow> json \<Rightarrow> prov_error + bool" where
  "check_ts previous ts =
     (if \<not> truthy previous then Inr True
      else case py_less ts previous of None \<Rightarrow> Inl (Escaped ''TypeError'') | Some b \<Rightarrow> Inr (\<not> b))"

definition payload_get :: "json_object \<Rightarrow> pystr \<Rightarrow> json \<Rightarrow> prov_error + json" where
  "payload_get r k dflt =
     (case dict_get r ''payload'' (JObj []) of JObj p \<Rightarrow> Inr (dict_get p k dflt) | _ \<Rightarrow> Inl (Escaped ''AttributeError''))"

definition higher :: "int \<Rightarrow> json \<Rightarrow> int" where
  "higher n v = (case v of JInt m \<Rightarrow> max n m | JBool b \<Rightarrow> max n (if b then 1 else 0) | _ \<Rightarrow> n)"

text \<open>\<open># Track session state\<close>: the close and heartbeat events.\<close>

definition track_state :: "json_object \<Rightarrow> chain_scan \<Rightarrow> prov_error + chain_scan" where
  "track_state r sc =
     (if kw r ''event_type'' = JStr (event_value SESSION_CLOSE)
      then map_result (\<lambda>st. sc\<lparr>sc_has_close := True, sc_state := st\<rparr>)
             (payload_get r ''session_state'' (JStr (state_value SEALED)))
      else if kw r ''event_type'' = JStr (event_value HEARTBEAT)
      then map_result (\<lambda>hw. sc\<lparr>sc_heartbeat_ts := dict_get r ''ts'' (JStr []), sc_high_water := higher (sc_high_water sc) hw\<rparr>)
             (payload_get r ''seq_at_heartbeat'' (JInt 0))
      else Inr sc)"

definition count_attestation :: "json_object \<Rightarrow> bool option \<Rightarrow> chain_scan \<Rightarrow> chain_scan" where
  "count_attestation r att sc =
     (if att = Some True then sc\<lparr>sc_attestations := Suc (sc_attestations sc)\<rparr>
      else if truthy (kw r ''agent_sig'') \<and> kw r ''record_version'' \<noteq> JStr RECORD_VERSION_V2
      then sc\<lparr>sc_legacy := Suc (sc_legacy sc)\<rparr> else sc)"

definition link_record :: "'w prov_services \<Rightarrow> json_object \<Rightarrow> chain_scan \<Rightarrow> chain_scan" where
  "link_record sv r sc =
     sc\<lparr>sc_last_ts := dict_get r ''ts'' (JStr []), sc_prev := canonical_hash sv r, sc_count := Suc (sc_count sc)\<rparr>"

text \<open>
  One record of the chain: a failed check is on the left inside. The key is that of the recorder when its
  signatures are required.
\<close>

definition scan_record ::
    "'w prov_services \<Rightarrow> bytes option \<Rightarrow> json_object \<Rightarrow> chain_scan \<Rightarrow> prov_error + chain_failure + chain_scan" where
  "scan_record sv key r sc =
     bind_result (check_link (sc_prev sc) r) (\<lambda>linked.
       if \<not> linked then Inr (Inl ChainBreak)
       else if (case key of Some k \<Rightarrow> \<not> verify_recorder_signature sv r k | None \<Rightarrow> False) then Inr (Inl RecorderSignature)
       else bind_result (verify_attestation sv r) (\<lambda>att.
         if att = Some False then Inr (Inl Attestation)
         else bind_result (check_ts (sc_last_ts sc) (dict_get r ''ts'' (JStr []))) (\<lambda>ordered.
           if \<not> ordered then Inr (Inl TimestampRegression)
           else map_result (\<lambda>sc'. Inr (sc'\<lparr>sc_high_water := higher (sc_high_water sc') (kw r ''seq'')\<rparr>))
                  (track_state r (link_record sv r (count_attestation r att sc))))))"

definition stop_scan :: "chain_scan \<Rightarrow> chain_failure \<Rightarrow> verification" where
  "stop_scan sc f =
     \<lparr>vr_failure = Some f, vr_count = sc_count sc, vr_session_state = sc_state sc, vr_high_water_seq = 0,
      vr_last_heartbeat_ts = JNull, vr_signatures_verified = False, vr_attestations = 0, vr_legacy = 0\<rparr>"

definition end_scan :: "bool \<Rightarrow> chain_scan \<Rightarrow> verification" where
  "end_scan required sc =
     \<lparr>vr_failure = None, vr_count = sc_count sc,
      vr_session_state = (if sc_has_close sc then sc_state sc else JStr (state_value INTERRUPTED)),
      vr_high_water_seq = sc_high_water sc, vr_last_heartbeat_ts = sc_heartbeat_ts sc, vr_signatures_verified = required,
      vr_attestations = sc_attestations sc, vr_legacy = sc_legacy sc\<rparr>"

fun scan_lines ::
    "'w prov_services \<Rightarrow> bytes option \<Rightarrow> bool \<Rightarrow> pystr list \<Rightarrow> chain_scan \<Rightarrow> prov_error + verification" where
  "scan_lines sv key required [] sc = Inr (end_scan required sc)"
| "scan_lines sv key required (l # ls) sc =
     (if strip l = [] then scan_lines sv key required ls sc
      else case json_loads (strip l) of
        None \<Rightarrow> Inr (stop_scan sc BadJson)
      | Some (JObj r) \<Rightarrow>
          if is_ack r then scan_lines sv key required ls sc
          else (case scan_record sv key r sc of
                  Inl e \<Rightarrow> Inl e
                | Inr (Inl f) \<Rightarrow> Inr (stop_scan sc f)
                | Inr (Inr sc') \<Rightarrow> scan_lines sv key required ls sc')
      | Some _ \<Rightarrow> Inl (Escaped ''AttributeError''))"

text \<open>\<open>verify_log\<close> on the content of the log, \<open>None\<close> where the file does not exist.\<close>

definition verify_chain ::
    "'w prov_services \<Rightarrow> bytes option \<Rightarrow> bool \<Rightarrow> pystr option \<Rightarrow> prov_error + verification" where
  "verify_chain sv key required log =
     (case log of
        None \<Rightarrow> Inr ((end_scan False scan_start)\<lparr>vr_session_state := JNull\<rparr>)
      | Some content \<Rightarrow>
          if required \<and> key = None then Inr (stop_scan scan_start KeyMissing)
          else scan_lines sv (if required then key else None) required (file_lines content) scan_start)"

text \<open>\<open>ProvenanceRecorder.verify\<close>: with the recorder's own key where it has an identity.\<close>

definition verify_recorder :: "'w prov_services \<Rightarrow> ('w, verification) prov_op" where
  "verify_recorder sv =
     exec_bind (exec_get pv_log) (\<lambda>log.
       if log = None then exec_of (verify_chain sv (ps_public_key sv) (ps_public_key sv \<noteq> None) None)
       else exec_bind (outside_op (ps_read sv)) (\<lambda>f.
         case f of
           Some e \<Rightarrow> exec_ret (stop_scan scan_start (ReadError e))
         | None \<Rightarrow> exec_of (verify_chain sv (ps_public_key sv) (ps_public_key sv \<noteq> None) log)))"

end
