(* ===== verification/ProvenanceIpc.thy ===== *)
theory ProvenanceIpc
  imports ProvenanceVerify
begin

text \<open>
  \<open>enterprise/provenance_ipc.py\<close>: the signed request protocol of the provenance service. A
  \<open>ProvenanceProtocolError\<close> is its code (\<open>Rejected\<close>); what else escapes is \<open>Crashed\<close> with the name
  of the exception. Decoded frames are texts; a byte above 127 is no ASCII.
\<close>

datatype ipc_error = Rejected pystr | Crashed pystr

definition PROTOCOL_VERSION :: pystr where
  "PROTOCOL_VERSION = ''selfconnect.provenance.v1''"

definition MAX_FRAME_BYTES :: int where
  "MAX_FRAME_BYTES = 65536"

definition DEFAULT_FRESHNESS_MS :: int where
  "DEFAULT_FRESHNESS_MS = 60000"

definition REQUEST_FIELDS :: "pystr list" where
  "REQUEST_FIELDS =
     [''agent_id'', ''event_signature'', ''event_type'', ''issued_at_ms'', ''nonce'', ''operation'', ''os_corroboration'',
      ''payload'', ''request_id'', ''request_signature'', ''session_id'', ''version'']"

definition demand :: "bool \<Rightarrow> pystr \<Rightarrow> ipc_error + unit" where
  "demand b code = (if b then Inr () else Inl (Rejected code))"

lemma demand_simps [simp]: "demand b code = Inr u \<longleftrightarrow> b" "demand True code = Inr ()"
  by (simp_all add: demand_def)

subsection \<open>Patterns\<close>

definition is_upper_hex :: "char \<Rightarrow> bool" where
  "is_upper_hex c \<longleftrightarrow> is_digit c \<or> in_range 65 70 c"

definition is_agent_id :: "pystr \<Rightarrow> bool" where
  "is_agent_id s \<longleftrightarrow> length s = 11 \<and> take 3 s = ''SC-'' \<and> list_all is_upper_hex (drop 3 s)"

definition is_nonce :: "pystr \<Rightarrow> bool" where
  "is_nonce s \<longleftrightarrow> 22 \<le> length s \<and> length s \<le> 86
     \<and> list_all (\<lambda>c. is_digit c \<or> in_range 65 90 c \<or> in_range 97 122 c \<or> c \<in> {CHR ''_'', CHR ''-''}) s"

fun split_at :: "char \<Rightarrow> pystr \<Rightarrow> pystr list" where
  "split_at c [] = [[]]"
| "split_at c (d # s) =
     (if d = c then [] # split_at c s
      else case split_at c s of p # ps \<Rightarrow> (d # p) # ps | [] \<Rightarrow> [[d]])"

text \<open>The SID pattern: two to fifteen groups of digits after the prefix.\<close>

definition is_sid :: "pystr \<Rightarrow> bool" where
  "is_sid s \<longleftrightarrow>
     (let groups = split_at CHR ''-'' (drop 4 s) in
      take 4 s = ''S-1-'' \<and> 2 \<le> length groups \<and> length groups \<le> 15 \<and> list_all (\<lambda>g. g \<noteq> [] \<and> list_all is_digit g) groups)"

text \<open>The texts \<open>str(uuid.UUID(value))\<close> is equal to: lower-case digits in five groups.\<close>

definition is_uuid :: "pystr \<Rightarrow> bool" where
  "is_uuid s \<longleftrightarrow>
     (let groups = split_at CHR ''-'' s in
      map length groups = [8, 4, 4, 4, 12] \<and> list_all all_hex groups)"

subsection \<open>Canonical JSON\<close>

fun validate_json :: "nat \<Rightarrow> json \<Rightarrow> ipc_error + unit"
  and validate_items :: "nat \<Rightarrow> json list \<Rightarrow> ipc_error + unit"
  and validate_members :: "nat \<Rightarrow> json_object \<Rightarrow> ipc_error + unit"
where
  "validate_json depth v =
     (if 32 < depth then Inl (Rejected ''json_too_deep'')
      else case v of
        JNull \<Rightarrow> Inr ()
      | JStr s \<Rightarrow> Inr ()
      | JBool b \<Rightarrow> Inr ()
      | JInt n \<Rightarrow> demand (- (2 ^ 63) \<le> n \<and> n < 2 ^ 63) ''integer_out_of_range''
      | JFloat n \<Rightarrow> Inl (Rejected ''float_not_allowed'')
      | JArr xs \<Rightarrow> validate_items (Suc depth) xs
      | JObj kvs \<Rightarrow> validate_members (Suc depth) kvs)"
| "validate_items depth [] = Inr ()"
| "validate_items depth (x # xs) = bind_result (validate_json depth x) (\<lambda>_. validate_items depth xs)"
| "validate_members depth [] = Inr ()"
| "validate_members depth ((k, v) # kvs) = bind_result (validate_json depth v) (\<lambda>_. validate_members depth kvs)"

declare validate_json.simps [simp del]

definition canonical_json_bytes :: "json \<Rightarrow> ipc_error + bytes" where
  "canonical_json_bytes v = map_result (\<lambda>_. dumps True v) (validate_json 0 v)"

definition event_signing_bytes :: "pystr \<Rightarrow> json_object \<Rightarrow> ipc_error + bytes" where
  "event_signing_bytes event payload =
     canonical_json_bytes (JObj [(''event_type'', JStr event), (''payload'', JObj payload)])"

definition without :: "pystr \<Rightarrow> json_object \<Rightarrow> json_object" where
  "without k d = filter (\<lambda>kv. fst kv \<noteq> k) d"

definition request_signing_bytes :: "json_object \<Rightarrow> ipc_error + bytes" where
  "request_signing_bytes request = canonical_json_bytes (JObj (without ''request_signature'' request))"

definition request_hash :: "'w prov_services \<Rightarrow> json_object \<Rightarrow> ipc_error + pystr" where
  "request_hash sv request = map_result (ps_sha384 sv) (request_signing_bytes request)"

definition response_signing_bytes :: "json_object \<Rightarrow> ipc_error + bytes" where
  "response_signing_bytes response = canonical_json_bytes (JObj (without ''service_signature'' response))"

definition encode_frame :: "json_object \<Rightarrow> ipc_error + bytes" where
  "encode_frame value = bind_result (canonical_json_bytes (JObj value)) (\<lambda>data.
     if MAX_FRAME_BYTES < int (length data) then Inl (Rejected ''frame_too_large'') else Inr data)"

definition decode_frame :: "bytes \<Rightarrow> ipc_error + json_object" where
  "decode_frame data =
     (if data = [] \<or> MAX_FRAME_BYTES < int (length data) then Inl (Rejected ''invalid_frame_size'')
      else if \<not> list_all (\<lambda>c. char_code c < 128) data then Inl (Rejected ''invalid_json'')
      else case json_loads data of
        None \<Rightarrow> Inl (Rejected ''invalid_json'')
      | Some (JObj value) \<Rightarrow> bind_result (canonical_json_bytes (JObj value)) (\<lambda>canonical.
          if canonical \<noteq> data then Inl (Rejected ''noncanonical_frame'') else Inr value)
      | Some _ \<Rightarrow> Inl (Rejected ''invalid_frame_shape''))"

definition parse_uuid :: "json \<Rightarrow> pystr \<Rightarrow> ipc_error + pystr" where
  "parse_uuid value name =
     (case value of JStr s \<Rightarrow> if is_uuid s then Inr s else Inl (Rejected (''invalid_'' @ name)) | _ \<Rightarrow> Inl (Rejected (''invalid_'' @ name)))"

definition signature_size :: "pystr \<Rightarrow> nat" where
  "signature_size algorithm = (if algorithm = ''ed25519'' then 64 else 96)"

definition signature_bytes :: "json \<Rightarrow> pystr \<Rightarrow> pystr \<Rightarrow> ipc_error + bytes" where
  "signature_bytes value algorithm field =
     (case value of
        JStr s \<Rightarrow>
          if length s \<noteq> signature_size algorithm * 2 then Inl (Rejected (''invalid_'' @ field))
          else (case fromhex s of
              None \<Rightarrow> Inl (Rejected (''invalid_'' @ field))
            | Some raw \<Rightarrow> if length raw \<noteq> signature_size algorithm then Inl (Rejected (''invalid_'' @ field)) else Inr raw)
      | _ \<Rightarrow> Inl (Rejected (''invalid_'' @ field)))"

subsection \<open>Enrollment\<close>

record agent_enrollment =
  en_agent_id :: pystr
  en_algorithm :: pystr
  en_public_key :: bytes
  en_sid :: pystr
  en_supervisor :: bool
  en_enabled :: bool

definition ENROLLMENT_FIELDS :: "pystr list" where
  "ENROLLMENT_FIELDS = [''agent_id'', ''algorithm'', ''public_key_hex'', ''sid'', ''supervisor'', ''enabled'']"

definition text_matching :: "(pystr \<Rightarrow> bool) \<Rightarrow> json \<Rightarrow> pystr \<Rightarrow> ipc_error + pystr" where
  "text_matching P v code = (case v of JStr s \<Rightarrow> if P s then Inr s else Inl (Rejected code) | _ \<Rightarrow> Inl (Rejected code))"

definition enrolled_algorithm :: "json \<Rightarrow> ipc_error + pystr" where
  "enrolled_algorithm v =
     (case v of
        JStr s \<Rightarrow> if s \<in> {''ed25519'', ''ecdsa-p384-cng''} then Inr s else Inl (Rejected ''invalid_algorithm'')
      | JArr _ \<Rightarrow> Inl (Crashed ''TypeError'')
      | JObj _ \<Rightarrow> Inl (Crashed ''TypeError'')
      | _ \<Rightarrow> Inl (Rejected ''invalid_algorithm''))"

definition enrolled_key :: "json \<Rightarrow> pystr \<Rightarrow> ipc_error + bytes" where
  "enrolled_key v algorithm =
     (let size = (if algorithm = ''ed25519'' then 32 else 96) in
      case v of
        JStr s \<Rightarrow>
          if length s \<noteq> size * 2 then Inl (Rejected ''invalid_public_key'')
          else (case fromhex s of None \<Rightarrow> Inl (Rejected ''invalid_public_key'') | Some k \<Rightarrow> Inr k)
      | _ \<Rightarrow> Inl (Rejected ''invalid_public_key''))"

definition flag_of :: "json \<Rightarrow> ipc_error + bool" where
  "flag_of v = (case v of JBool b \<Rightarrow> Inr b | _ \<Rightarrow> Inl (Rejected ''invalid_enrollment_flag''))"

definition enrollment_from_dict :: "'w prov_services \<Rightarrow> json_object \<Rightarrow> ipc_error + agent_enrollment" where
  "enrollment_from_dict sv d =
     bind_result (demand (set (map fst d) \<subseteq> set ENROLLMENT_FIELDS) ''unexpected_enrollment_field'') (\<lambda>_.
     bind_result (text_matching is_agent_id (kw d ''agent_id'') ''invalid_agent_id'') (\<lambda>agent_id.
     bind_result (enrolled_algorithm (kw d ''algorithm'')) (\<lambda>algorithm.
     bind_result (text_matching is_sid (kw d ''sid'') ''invalid_sid'') (\<lambda>sid.
     bind_result (enrolled_key (kw d ''public_key_hex'') algorithm) (\<lambda>key.
     bind_result (demand (agent_id_of sv algorithm key = agent_id) ''agent_key_mismatch'') (\<lambda>_.
     bind_result (flag_of (dict_get d ''supervisor'' (JBool False))) (\<lambda>supervisor.
     bind_result (flag_of (dict_get d ''enabled'' (JBool True))) (\<lambda>enabled.
     Inr \<lparr>en_agent_id = agent_id, en_algorithm = algorithm, en_public_key = key, en_sid = sid,
          en_supervisor = supervisor, en_enabled = enabled\<rparr>))))))))"

definition enrollment_verify :: "'w prov_services \<Rightarrow> agent_enrollment \<Rightarrow> bytes \<Rightarrow> bytes \<Rightarrow> bool" where
  "enrollment_verify sv en data g = agent_verify sv (en_algorithm en) (en_public_key en) data g"

text \<open>\<open>recorder_public_key\<close>: the registered key's \<open>verify(signature, data)\<close>.\<close>

definition recorder_public_key :: "'w prov_services \<Rightarrow> agent_enrollment \<Rightarrow> bytes \<Rightarrow> bytes \<Rightarrow> bool" where
  "recorder_public_key sv en g data = enrollment_verify sv en data g"

record enrollment_registry =
  er_by_id :: "(pystr \<times> agent_enrollment) list"
  er_supervisor_id :: "pystr option"

fun index_enrollments :: "agent_enrollment list \<Rightarrow> (pystr \<times> agent_enrollment) list \<Rightarrow> ipc_error + (pystr \<times> agent_enrollment) list" where
  "index_enrollments [] by_id = Inr by_id"
| "index_enrollments (en # ens) by_id =
     (if map_of by_id (en_agent_id en) \<noteq> None then Inl (Rejected ''duplicate_agent'')
      else index_enrollments ens (by_id @ [(en_agent_id en, en)]))"

definition registry_init :: "agent_enrollment list \<Rightarrow> ipc_error + enrollment_registry" where
  "registry_init ens =
     bind_result (index_enrollments ens []) (\<lambda>by_id.
       let supervisors = map en_agent_id (filter (\<lambda>en. en_enabled en \<and> en_supervisor en) ens) in
       if 1 < length supervisors then Inl (Rejected ''multiple_supervisors'')
       else Inr \<lparr>er_by_id = by_id, er_supervisor_id = (if supervisors = [] then None else Some (hd supervisors))\<rparr>)"

fun enrollments_from :: "'w prov_services \<Rightarrow> json list \<Rightarrow> ipc_error + agent_enrollment list" where
  "enrollments_from sv [] = Inr []"
| "enrollments_from sv (v # vs) =
     bind_result (enrollment_from_dict sv (members v)) (\<lambda>en. map_result (Cons en) (enrollments_from sv vs))"

text \<open>\<open>load\<close> of a file: its size in bytes and its text, \<open>None\<close> when it is no UTF-8.\<close>

definition registry_load :: "'w prov_services \<Rightarrow> nat \<Rightarrow> pystr option \<Rightarrow> ipc_error + enrollment_registry" where
  "registry_load sv bytes_read content =
     (if 1048576 < bytes_read then Inl (Rejected ''enrollment_file_too_large'')
      else case Option.bind content json_loads of
        Some (JObj d) \<Rightarrow>
          if \<not> same_keys d [''agents'', ''version''] \<or> \<not> py_eq (kw d ''version'') (JInt 1)
          then Inl (Rejected ''invalid_enrollment_file'')
          else (case kw d ''agents'' of
              JArr vs \<Rightarrow>
                if list_all (\<lambda>v. case v of JObj _ \<Rightarrow> True | _ \<Rightarrow> False) vs
                then bind_result (enrollments_from sv vs) registry_init
                else Inl (Rejected ''invalid_enrollment_file'')
            | _ \<Rightarrow> Inl (Rejected ''invalid_enrollment_file''))
      | _ \<Rightarrow> Inl (Rejected ''invalid_enrollment_file''))"

definition registry_get :: "enrollment_registry \<Rightarrow> pystr \<Rightarrow> agent_enrollment option" where
  "registry_get er agent_id = (case map_of (er_by_id er) agent_id of Some en \<Rightarrow> if en_enabled en then Some en else None | None \<Rightarrow> None)"

definition registry_enrollments :: "enrollment_registry \<Rightarrow> agent_enrollment list" where
  "registry_enrollments er = filter en_enabled (map snd (er_by_id er))"

definition allowed_sids :: "enrollment_registry \<Rightarrow> pystr set" where
  "allowed_sids er = set (map en_sid (registry_enrollments er))"

subsection \<open>Requests\<close>

text \<open>The identity's two signatures, each of which may raise; clock, nonce and id are the caller's.\<close>

definition sign_with :: "(bytes \<Rightarrow> pystr + bytes) \<Rightarrow> ipc_error + bytes \<Rightarrow> ipc_error + json" where
  "sign_with sign data = bind_result data (\<lambda>b. case sign b of Inl e \<Rightarrow> Inl (Crashed e) | Inr g \<Rightarrow> Inr (JStr (tohex g)))"

definition record_request ::
    "pystr \<Rightarrow> pystr \<Rightarrow> session_event \<Rightarrow> json_object \<Rightarrow> json_object option \<Rightarrow> int \<Rightarrow> pystr \<Rightarrow> pystr \<Rightarrow> json_object" where
  "record_request agent_id session_id ev body corroboration issued_at_ms nonce request_id =
     [(''agent_id'', JStr agent_id), (''event_type'', JStr (event_value ev)), (''issued_at_ms'', JInt issued_at_ms),
      (''nonce'', JStr nonce), (''operation'', JStr ''record''),
      (''os_corroboration'', case corroboration of Some c \<Rightarrow> JObj c | None \<Rightarrow> JNull), (''payload'', JObj body),
      (''request_id'', JStr request_id), (''session_id'', JStr session_id), (''version'', JStr PROTOCOL_VERSION)]"

definition build_record_request ::
    "(bytes \<Rightarrow> pystr + bytes) \<Rightarrow> pystr \<Rightarrow> pystr \<Rightarrow> json \<Rightarrow> json_object \<Rightarrow> json_object option \<Rightarrow> int \<Rightarrow> pystr \<Rightarrow> pystr
      \<Rightarrow> ipc_error + json_object" where
  "build_record_request sign agent_id session_id event_type body corroboration issued_at_ms nonce request_id =
     (case event_of event_type of
        None \<Rightarrow> Inl (Crashed ''ValueError'')
      | Some ev \<Rightarrow>
          bind_result (validate_json 0 (JObj body)) (\<lambda>_.
          let r0 = record_request agent_id session_id ev body corroboration issued_at_ms nonce request_id in
          bind_result (sign_with sign (event_signing_bytes (event_value ev) body)) (\<lambda>event_signature.
          let r1 = r0 @ [(''event_signature'', event_signature)] in
          bind_result (sign_with sign (request_signing_bytes r1)) (\<lambda>request_signature.
          let r2 = r1 @ [(''request_signature'', request_signature)] in
          map_result (\<lambda>_. r2) (encode_frame r2)))))"

record verified_request =
  vq_enrollment :: agent_enrollment
  vq_event_signature :: bytes
  vq_event_type :: session_event
  vq_issued_at_ms :: int
  vq_nonce :: pystr
  vq_os_corroboration :: "json_object option"
  vq_payload :: json_object
  vq_request_hash :: pystr
  vq_request_id :: pystr
  vq_request_signature :: bytes
  vq_session_id :: pystr
  vq_stale :: bool

definition enrolled :: "enrollment_registry \<Rightarrow> json \<Rightarrow> ipc_error + agent_enrollment" where
  "enrolled er v =
     (case v of
        JStr a \<Rightarrow> (case registry_get er a of None \<Rightarrow> Inl (Rejected ''unknown_agent'') | Some en \<Rightarrow> Inr en)
      | _ \<Rightarrow> Inl (Rejected ''invalid_agent_id''))"

definition issued_at :: "json \<Rightarrow> ipc_error + int" where
  "issued_at v = (case v of JInt n \<Rightarrow> Inr n | _ \<Rightarrow> Inl (Rejected ''invalid_timestamp''))"

definition event_type_of :: "json \<Rightarrow> ipc_error + session_event" where
  "event_type_of v = (case event_of v of None \<Rightarrow> Inl (Rejected ''invalid_event_type'') | Some ev \<Rightarrow> Inr ev)"

definition object_of :: "json \<Rightarrow> pystr \<Rightarrow> ipc_error + json_object" where
  "object_of v code = (case v of JObj d \<Rightarrow> Inr d | _ \<Rightarrow> Inl (Rejected code))"

definition optional_object :: "json \<Rightarrow> pystr \<Rightarrow> ipc_error + json_object option" where
  "optional_object v code = (case v of JNull \<Rightarrow> Inr None | JObj d \<Rightarrow> Inr (Some d) | _ \<Rightarrow> Inl (Rejected code))"

definition check_signed :: "'w prov_services \<Rightarrow> agent_enrollment \<Rightarrow> ipc_error + bytes \<Rightarrow> bytes \<Rightarrow> pystr \<Rightarrow> ipc_error + unit" where
  "check_signed sv en data g code = bind_result data (\<lambda>b. demand (enrollment_verify sv en b g) code)"

definition verify_record_request ::
    "'w prov_services \<Rightarrow> json_object \<Rightarrow> enrollment_registry \<Rightarrow> pystr \<Rightarrow> int \<Rightarrow> int \<Rightarrow> bool \<Rightarrow> ipc_error + verified_request" where
  "verify_record_request sv request er caller_sid now freshness allow_stale =
     bind_result (demand (same_keys request REQUEST_FIELDS) ''invalid_request_fields'') (\<lambda>_.
     bind_result (encode_frame request) (\<lambda>_.
     bind_result (demand (kw request ''version'' = JStr PROTOCOL_VERSION \<and> kw request ''operation'' = JStr ''record'')
       ''unsupported_protocol'') (\<lambda>_.
     bind_result (enrolled er (kw request ''agent_id'')) (\<lambda>en.
     bind_result (demand (caller_sid = en_sid en) ''caller_sid_mismatch'') (\<lambda>_.
     bind_result (parse_uuid (kw request ''session_id'') ''session_id'') (\<lambda>session_id.
     bind_result (parse_uuid (kw request ''request_id'') ''request_id'') (\<lambda>request_id.
     bind_result (text_matching is_nonce (kw request ''nonce'') ''invalid_nonce'') (\<lambda>nonce.
     bind_result (issued_at (kw request ''issued_at_ms'')) (\<lambda>issued.
     let stale = (freshness < abs (now - issued)) in
     bind_result (demand (\<not> stale \<or> allow_stale) ''stale_request'') (\<lambda>_.
     bind_result (event_type_of (kw request ''event_type'')) (\<lambda>ev.
     bind_result (object_of (kw request ''payload'') ''invalid_payload'') (\<lambda>payload.
     bind_result (optional_object (kw request ''os_corroboration'') ''invalid_os_corroboration'') (\<lambda>os_data.
     bind_result (signature_bytes (kw request ''event_signature'') (en_algorithm en) ''event_signature'') (\<lambda>event_sig.
     bind_result (signature_bytes (kw request ''request_signature'') (en_algorithm en) ''request_signature'') (\<lambda>request_sig.
     bind_result (check_signed sv en (event_signing_bytes (event_value ev) payload) event_sig ''invalid_event_signature'') (\<lambda>_.
     bind_result (check_signed sv en (request_signing_bytes request) request_sig ''invalid_request_signature'') (\<lambda>_.
     map_result (\<lambda>h. \<lparr>vq_enrollment = en, vq_event_signature = event_sig, vq_event_type = ev, vq_issued_at_ms = issued,
         vq_nonce = nonce, vq_os_corroboration = os_data, vq_payload = payload, vq_request_hash = h, vq_request_id = request_id,
         vq_request_signature = request_sig, vq_session_id = session_id, vq_stale = stale\<rparr>)
       (request_hash sv request))))))))))))))))))"

subsection \<open>Responses\<close>

definition sign_service_response :: "pystr \<Rightarrow> (bytes \<Rightarrow> pystr + bytes) \<Rightarrow> json_object \<Rightarrow> ipc_error + json_object" where
  "sign_service_response agent_id sign response =
     (let r = AList.update ''service_agent_id'' (JStr agent_id) response in
      bind_result (sign_with sign (response_signing_bytes r)) (\<lambda>g.
      let r' = AList.update ''service_signature'' g r in map_result (\<lambda>_. r') (encode_frame r')))"

definition verify_service_response :: "'w prov_services \<Rightarrow> json_object \<Rightarrow> pystr \<Rightarrow> bytes \<Rightarrow> pystr \<Rightarrow> bool" where
  "verify_service_response sv response algorithm key expected =
     (case signature_bytes (kw response ''service_signature'') algorithm ''service_signature'' of
        Inl e \<Rightarrow> False
      | Inr g \<Rightarrow> kw response ''service_agent_id'' = JStr expected
          \<and> (case response_signing_bytes response of Inl e \<Rightarrow> False | Inr b \<Rightarrow> agent_verify sv algorithm key b g))"

end
