(* ===== verification/ProvenanceChain.thy ===== *)
theory ProvenanceChain
  imports ProvenanceVerify
begin

text \<open>
  What a recorder leaves in its log: lines of printable characters, one per record, that read back
  as the records; and what the verifier finds when the records are linked.
\<close>

subsection \<open>Lines of records\<close>

definition printable_ascii :: "char \<Rightarrow> bool" where
  "printable_ascii c \<longleftrightarrow> 32 \<le> char_code c \<and> char_code c \<le> 126"

lemma hex_digit_printable: "printable_ascii (hex_digit n)"
proof -
  have "\<forall>k\<in>{0..<16}. printable_ascii (hex_digits ! k)"
    by (simp add: printable_ascii_def hex_digits_def char_code_def atLeast0_lessThan_Suc eval_nat_numeral)
  then show ?thesis by (simp add: hex_digit_def)
qed

lemma literal_printable:
  "printable_ascii (CHR 0x5C)" "printable_ascii (CHR 0x22)" "printable_ascii (CHR ''n'')" "printable_ascii (CHR ''r'')"
  "printable_ascii (CHR ''t'')" "printable_ascii (CHR ''f'')" "printable_ascii (CHR ''b'')" "printable_ascii (CHR ''u'')"
  "printable_ascii (CHR ''0'')" "printable_ascii (CHR ''-'')" "printable_ascii (CHR '','')" "printable_ascii (CHR '':'')"
  "printable_ascii (CHR ''['')" "printable_ascii (CHR '']'')" "printable_ascii (CHR ''{'')" "printable_ascii (CHR ''}'')"
  "printable_ascii (CHR ''.'')" "printable_ascii (CHR ''l'')" "printable_ascii (CHR ''e'')" "printable_ascii (CHR ''a'')"
  "printable_ascii (CHR ''s'')"
  by (simp_all add: printable_ascii_def char_code_def)

lemma escape_printable: "list_all printable_ascii (escape_char True c)"
proof -
  consider "char_code c = 34 \<or> char_code c = 92" | "char_code c \<in> {8, 9, 10, 12, 13}"
    | "char_code c \<notin> {8, 9, 10, 12, 13, 34, 92}" by auto
  then show ?thesis
  proof cases
    case 1
    then have "printable_ascii c" by (auto simp: printable_ascii_def)
    with 1 show ?thesis by (simp add: escape_char_def literal_printable)
  next
    case 2
    then show ?thesis by (auto simp: escape_char_def literal_printable)
  next
    case 3
    then show ?thesis
      by (simp add: escape_char_def Let_def literal_printable hex_digit_printable) (simp add: printable_ascii_def not_less)
  qed
qed

lemma quoted_printable: "list_all printable_ascii (quoted True s)"
  using escape_printable by (auto simp: quoted_def literal_printable list_all_iff)

lemma digits_printable: "list_all is_digit s \<Longrightarrow> list_all printable_ascii s"
  by (auto simp: list_all_iff is_digit_def printable_ascii_def)

lemma show_int_printable: "list_all printable_ascii (show_int n)"
  using digits_printable[OF show_nat_digits] by (simp add: show_int_def literal_printable)

lemma join_printable: "list_all (list_all printable_ascii) xs \<Longrightarrow> list_all printable_ascii (join xs)"
  by (induction xs rule: join.induct) (simp_all add: literal_printable)

lemma dumps_printable: "list_all printable_ascii (plain_dumps True v)"
proof (induction v)
  case (JArr xs)
  then have "list_all (list_all printable_ascii) (map (plain_dumps True) xs)" by (auto simp: list_all_iff)
  from join_printable[OF this] show ?case by (simp add: literal_printable)
next
  case (JObj kvs)
  have "list_all (list_all printable_ascii) (map (member_text True) (map (map_prod id (plain_dumps True)) kvs))"
    using JObj quoted_printable
    by (auto simp: list_all_iff member_text_def literal_printable; fastforce)
  from join_printable[OF this] show ?case by (simp add: literal_printable)
qed (auto simp: literal_printable show_int_printable quoted_printable)

lemma unix_newlines_printable:
  "list_all (\<lambda>c. c \<noteq> CHR 0x0D) s \<Longrightarrow> unix_newlines s = s"
  by (induction s rule: unix_newlines.induct) auto

lemma split_lines_line:
  "list_all (\<lambda>c. \<not> P c) l \<Longrightarrow> P c \<Longrightarrow> split_lines P acc (l @ c # s) = (rev acc @ l) # split_lines P [] s"
  by (induction l arbitrary: acc) auto

definition log_of :: "json_object list \<Rightarrow> pystr" where
  "log_of rs = concat (map record_line rs)"

lemma log_of_simps [simp]: "log_of [] = []" "log_of (rs @ qs) = log_of rs @ log_of qs" "log_of [r] = record_line r"
  by (simp_all add: log_of_def)

definition line_of :: "json_object \<Rightarrow> pystr" where
  "line_of r = plain_dumps True (JObj r)"

lemma printable_boundaries:
  "printable_ascii c \<Longrightarrow> c \<noteq> CHR 0x0A \<and> c \<noteq> CHR 0x0D \<and> \<not> is_line_boundary c"
  by (auto simp: printable_ascii_def is_line_boundary_def) (simp_all add: char_code_def)

lemma line_clean:
  "list_all (\<lambda>c. \<not> (c = CHR 0x0A)) (line_of r)" "list_all (\<lambda>c. c \<noteq> CHR 0x0D) (line_of r)"
  "list_all (\<lambda>c. \<not> is_line_boundary c) (line_of r)"
  using dumps_printable[of "JObj r"] by (auto simp: line_of_def list_all_iff dest: printable_boundaries)

lemma log_of_clean: "list_all (\<lambda>c. c \<noteq> CHR 0x0D) (log_of rs)"
  using line_clean(2) by (induction rs) (auto simp: log_of_def record_line_def line_of_def list_all_iff simp del: plain_dumps.simps)

lemma split_log:
  fixes rs :: "json_object list"
  assumes "\<And>r. list_all (\<lambda>c. \<not> P c) (line_of r)" "P (CHR 0x0A)"
  shows "split_lines P [] (log_of rs) = map line_of rs"
proof (induction rs)
  case (Cons r rs)
  have "split_lines P [] (log_of (r # rs)) = split_lines P [] (line_of r @ CHR 0x0A # log_of rs)"
    by (simp add: log_of_def record_line_def line_of_def del: plain_dumps.simps)
  with Cons split_lines_line[OF assms(1)[of r] assms(2)] show ?case by simp
qed simp

lemma file_lines_log [simp]: "file_lines (log_of rs) = map line_of rs"
  unfolding file_lines_def by (simp add: unix_newlines_printable log_of_clean split_log line_clean)

lemma text_lines_log [simp]: "text_lines (log_of rs) = map line_of rs"
  unfolding text_lines_def
  by (simp add: unix_newlines_printable log_of_clean) (rule split_log[OF line_clean(3)], simp add: is_line_boundary_def char_code_def)

lemma strip_line [simp]: "strip (line_of r) = line_of r" "line_of r \<noteq> []"
proof -
  obtain m where m: "line_of r = CHR ''{'' # m @ ''}''" by (simp add: line_of_def)
  have "\<not> is_unicode_space (CHR ''{'')" "\<not> is_unicode_space (CHR ''}'')"
    by (simp_all add: is_unicode_space_def is_space_def char_code_def)
  then show "strip (line_of r) = line_of r" "line_of r \<noteq> []" by (simp_all add: m strip_def)
qed

lemma stripped_log [simp]: "stripped (map line_of rs) = map line_of rs"
  by (simp add: stripped_def comp_def filter_id_conv)

lemma loads_line [simp]: "wf_json (JObj r) \<Longrightarrow> json_loads (line_of r) = Some (JObj r)"
  unfolding line_of_def by (rule json_loads_dumps)

lemma parse_log: "list_all (\<lambda>r. wf_json (JObj r)) rs \<Longrightarrow> parse_lines (map line_of rs) = Some (map JObj rs)"
  by (induction rs) (simp_all del: wf_json.simps)

lemma chain_records_objects: "chain_records (map JObj rs) = Inr (filter (\<lambda>r. is_integer (kw r ''seq'')) rs)"
  by (induction rs) simp_all

lemma log_records_log:
  assumes "list_all (\<lambda>r. wf_json (JObj r)) rs"
  shows "log_records (log_of rs) =
     (let cs = filter (\<lambda>r. is_integer (kw r ''seq'')) rs in
      if rs \<noteq> [] \<and> cs = []
      then Inl (RecorderError ''cannot resume a provenance log with no integer-sequence events'') else Inr cs)"
  unfolding log_records_def by (simp add: Let_def parse_log[OF assms] chain_records_objects)

subsection \<open>Linked records\<close>

lemma kw_get: "kw r k \<noteq> JNull \<Longrightarrow> dict_get r k x = kw r k"
  by (auto simp: kw_def dict_get_def split: option.splits)

definition sound_record :: "'w prov_services \<Rightarrow> bytes option \<Rightarrow> json_object \<Rightarrow> bool" where
  "sound_record sv key r \<longleftrightarrow>
     (case key of Some k \<Rightarrow> verify_recorder_signature sv r k | None \<Rightarrow> True)
     \<and> verify_attestation sv r \<in> {Inr None, Inr (Some True)}
     \<and> (case kw r ''payload'' of JObj p \<Rightarrow> True | _ \<Rightarrow> False) \<and> is_integer (kw r ''seq'')"

text \<open>
  The hash and time stamp a chain of sound records ends with, from those it starts with; \<open>None\<close> when
  a link is broken. Replication receipts are no members of the chain.
\<close>

fun chain_from :: "'w prov_services \<Rightarrow> bytes option \<Rightarrow> pystr \<times> pystr \<Rightarrow> json_object list \<Rightarrow> (pystr \<times> pystr) option" where
  "chain_from sv key (prev, ts) [] = Some (prev, ts)"
| "chain_from sv key (prev, ts) (r # rs) =
     (if is_ack r then chain_from sv key (prev, ts) rs
      else if sound_record sv key r \<and> kw r ''prev_hash'' = JStr prev
      then (case kw r ''ts'' of
          JStr t \<Rightarrow> if ts \<le> t then chain_from sv key (canonical_hash sv r, t) rs else None
        | _ \<Rightarrow> None)
      else None)"

lemma record_chain_append:
  "chain_from sv key pt (rs @ qs) = Option.bind (chain_from sv key pt rs) (\<lambda>pt'. chain_from sv key pt' qs)"
proof (induction rs arbitrary: pt)
  case Nil
  show ?case by (cases pt) simp
next
  case (Cons r rs)
  show ?case by (cases pt; cases "kw r ''ts''") (simp_all add: Cons)
qed

definition chain_members :: "json_object list \<Rightarrow> json_object list" where
  "chain_members rs = filter (\<lambda>r. \<not> is_ack r) rs"

lemma scan_sound_record:
  assumes "sound_record sv key r" "kw r ''prev_hash'' = JStr (sc_prev sc)" "kw r ''ts'' = JStr t"
    "sc_last_ts sc = JStr ts \<or> ts = [] \<and> sc_last_ts sc = JNull" "ts \<le> t"
  obtains sc' where "scan_record sv key r sc = Inr (Inr sc')" "sc_prev sc' = canonical_hash sv r"
    "sc_last_ts sc' = JStr t" "sc_count sc' = Suc (sc_count sc)"
proof -
  obtain p where p: "kw r ''payload'' = JObj p" using assms(1) by (auto simp: sound_record_def split: json.splits)
  have link: "check_link (sc_prev sc) r = Inr True" using assms(2) by (simp add: check_link_def kw_get)
  have order: "check_ts (sc_last_ts sc) (dict_get r ''ts'' (JStr [])) = Inr True"
    using assms(3-5) by (auto simp: check_ts_def kw_get not_less)
  obtain att where att: "verify_attestation sv r = Inr att" "att \<noteq> Some False"
    using assms(1) by (auto simp: sound_record_def)
  let ?sc = "link_record sv r (count_attestation r att sc)"
  have "\<exists>sc1. track_state r ?sc = Inr sc1 \<and> sc_prev sc1 = sc_prev ?sc \<and> sc_last_ts sc1 = sc_last_ts ?sc \<and> sc_count sc1 = sc_count ?sc"
    using p by (simp add: track_state_def payload_get_def kw_get)
  then obtain sc1 where sc1: "track_state r ?sc = Inr sc1" "sc_prev sc1 = canonical_hash sv r" "sc_last_ts sc1 = JStr t"
      "sc_count sc1 = Suc (sc_count sc)"
    using assms(3) by (auto simp: link_record_def kw_get count_attestation_def)
  have "scan_record sv key r sc = Inr (Inr (sc1\<lparr>sc_high_water := higher (sc_high_water sc1) (kw r ''seq'')\<rparr>))"
    using assms(1) by (simp add: scan_record_def link order att sc1(1) sound_record_def split: option.splits)
  then show thesis by (rule that) (simp_all add: sc1)
qed

lemma scan_log:
  assumes "chain_from sv key (sc_prev sc, ts) rs = Some (p', t')" "list_all (\<lambda>r. wf_json (JObj r)) rs"
    "sc_last_ts sc = JStr ts \<or> ts = [] \<and> sc_last_ts sc = JNull"
  shows "\<exists>sc'. scan_lines sv key required (map line_of rs @ ls) sc = scan_lines sv key required ls sc'
    \<and> sc_prev sc' = p' \<and> sc_count sc' = sc_count sc + length (chain_members rs)"
  using assms
proof (induction rs arbitrary: sc ts)
  case Nil
  then show ?case by (auto simp: chain_members_def)
next
  case (Cons r rs)
  have wf: "wf_json (JObj r)" and wfs: "list_all (\<lambda>r. wf_json (JObj r)) rs" using Cons.prems(2) by simp_all
  show ?case
  proof (cases "is_ack r")
    case True
    then have "chain_from sv key (sc_prev sc, ts) rs = Some (p', t')" using Cons.prems(1) by simp
    from Cons.IH[OF this wfs Cons.prems(3)] True wf show ?thesis by (simp add: chain_members_def del: wf_json.simps)
  next
    case False
    then obtain t where r: "sound_record sv key r" "kw r ''prev_hash'' = JStr (sc_prev sc)" "kw r ''ts'' = JStr t" "ts \<le> t"
      and rs: "chain_from sv key (canonical_hash sv r, t) rs = Some (p', t')"
      using Cons.prems(1) by (auto split: if_splits json.splits)
    obtain sc' where sc': "scan_record sv key r sc = Inr (Inr sc')" "sc_prev sc' = canonical_hash sv r"
      "sc_last_ts sc' = JStr t" "sc_count sc' = Suc (sc_count sc)"
      using scan_sound_record[OF r(1,2,3) Cons.prems(3) r(4)] by blast
    from Cons.IH[of sc' t] rs wfs sc' False wf show ?thesis
      by (simp add: chain_members_def del: wf_json.simps)
  qed
qed

text \<open>A log of linked sound records is intact.\<close>

lemma intact_log:
  assumes "chain_from sv (if required then key else None) (GENESIS_HASH_384, []) rs = Some pt"
    "list_all (\<lambda>r. wf_json (JObj r)) rs" "required \<Longrightarrow> key \<noteq> None"
  shows "\<exists>v. verify_chain sv key required (Some (log_of rs)) = Inr v \<and> vr_ok v \<and> vr_count v = length (chain_members rs)
    \<and> vr_signatures_verified v = required"
proof -
  obtain p' t' where "pt = (p', t')" by force
  with assms(1) have "chain_from sv (if required then key else None) (sc_prev scan_start, []) rs = Some (p', t')"
    by (simp add: scan_start_def)
  from scan_log[OF this assms(2), of required "[]"] assms(3) show ?thesis
    by (auto simp: scan_start_def verify_chain_def end_scan_def vr_ok_def)
qed

text \<open>A record that does not link to the chain before it breaks the log, whatever follows.\<close>

lemma broken_log:
  fixes qs :: "json_object list"
  assumes "chain_from sv (if required then key else None) (GENESIS_HASH_384, []) rs = Some (h, t)"
    "list_all (\<lambda>r. wf_json (JObj r)) rs" "required \<Longrightarrow> key \<noteq> None"
    "wf_json (JObj r)" "\<not> is_ack r" "kw r ''prev_hash'' = JStr p" "p \<noteq> h"
  shows "\<exists>v. verify_chain sv key required (Some (log_of (rs @ r # qs))) = Inr v
    \<and> vr_failure v = Some ChainBreak \<and> vr_count v = length (chain_members rs)"
proof -
  have "chain_from sv (if required then key else None) (sc_prev scan_start, []) rs = Some (h, t)"
    using assms(1) by (simp add: scan_start_def)
  from scan_log[OF this assms(2), of required "line_of r # map line_of qs"] obtain sc' where
    "scan_lines sv (if required then key else None) required (map line_of (rs @ r # qs)) scan_start
       = scan_lines sv (if required then key else None) required (line_of r # map line_of qs) sc'"
    "sc_prev sc' = h" "sc_count sc' = length (chain_members rs)"
    by (auto simp: scan_start_def)
  moreover have "scan_record sv k r sc' = Inr (Inl ChainBreak)" if "sc_prev sc' = h" for k
    using assms(6,7) that by (simp add: scan_record_def check_link_def kw_get)
  ultimately show ?thesis
    using assms(3-5) by (auto simp: verify_chain_def file_lines_log stop_scan_def simp del: wf_json.simps log_of_simps)
qed

end
