(* ===== verification/ProvenanceRuns.thy ===== *)
theory ProvenanceRuns
  imports ProvenanceChain
begin

text \<open>
  The recorder keeps its log intact. \<open>dependable\<close> states what the outside is relied on for: a clock
  that does not run backwards, a disk that takes every line whole, an identity whose signatures its
  public key verifies.
\<close>

definition signed_by :: "'w prov_services \<Rightarrow> bytes \<Rightarrow> bytes \<Rightarrow> bytes \<Rightarrow> bool" where
  "signed_by sv key data g \<longleftrightarrow>
     g \<noteq> [] \<and> (if length key = 32 then ps_ed25519 sv key data g else length key = 96 \<and> ps_p384 sv key data g)"

definition steady :: "('w \<Rightarrow> pystr) \<Rightarrow> ('w \<Rightarrow> 'w) \<Rightarrow> bool" where
  "steady clk f \<longleftrightarrow> (\<forall>w. clk w \<le> clk (f w))"

definition dependable :: "'w prov_services \<Rightarrow> ('w \<Rightarrow> pystr) \<Rightarrow> bool" where
  "dependable sv clk \<longleftrightarrow>
     (\<forall>w. clk w \<le> snd (ps_now sv w) \<and> snd (ps_now sv w) \<le> clk (fst (ps_now sv w)))
     \<and> steady clk (\<lambda>w. fst (ps_open sv w)) \<and> steady clk (\<lambda>w. fst (ps_write sv w)) \<and> steady clk (\<lambda>w. fst (ps_read sv w))
     \<and> (\<forall>d. steady clk (\<lambda>w. fst (ps_sign sv w d)))
     \<and> (\<forall>push. ps_push sv = Some push \<longrightarrow> (\<forall>sid seg r. steady clk (\<lambda>w. fst (push w sid seg r))))
     \<and> (\<forall>w. snd (ps_write sv w) = None)
     \<and> (\<forall>key. ps_public_key sv = Some key \<longrightarrow> (\<forall>w d g. snd (ps_sign sv w d) = Inr g \<longrightarrow> signed_by sv key d g))"

lemma dependableD:
  assumes "dependable sv clk"
  shows "clk w \<le> snd (ps_now sv w)" "snd (ps_now sv w) \<le> clk (fst (ps_now sv w))"
    "steady clk (\<lambda>w. fst (ps_open sv w))" "steady clk (\<lambda>w. fst (ps_write sv w))" "steady clk (\<lambda>w. fst (ps_read sv w))"
    "steady clk (\<lambda>w. fst (ps_sign sv w d))"
    "ps_push sv = Some push \<Longrightarrow> steady clk (\<lambda>w. fst (push w name seg r))"
    "snd (ps_write sv w) = None"
    "ps_public_key sv = Some key \<Longrightarrow> snd (ps_sign sv w d) = Inr g \<Longrightarrow> signed_by sv key d g"
  using assms unfolding dependable_def by blast+

text \<open>The log is a chain of sound records that ends where the recorder goes on.\<close>

definition chained :: "'w prov_services \<Rightarrow> ('w \<Rightarrow> pystr) \<Rightarrow> 'w prov \<Rightarrow> bool" where
  "chained sv clk s \<longleftrightarrow>
     (\<exists>rs t. pv_log s = Some (log_of rs) \<and> list_all (\<lambda>r. wf_json (JObj r)) rs
        \<and> chain_from sv (ps_public_key sv) (GENESIS_HASH_384, []) rs = Some (pv_prev_hash s, t)
        \<and> t \<le> clk (pv_world s))"

definition going_on :: "'w prov_services \<Rightarrow> ('w \<Rightarrow> pystr) \<Rightarrow> pystr \<Rightarrow> 'w prov \<Rightarrow> bool" where
  "going_on sv clk sid s \<longleftrightarrow> chained sv clk s \<and> fail_closed (pv_mode s) \<and> pv_started s \<and> pv_session_id s = sid"

lemma going_on_cong:
  "going_on sv clk sid s \<Longrightarrow> pv_log s' = pv_log s \<Longrightarrow> pv_prev_hash s' = pv_prev_hash s \<Longrightarrow> clk (pv_world s) \<le> clk (pv_world s')
    \<Longrightarrow> pv_mode s' = pv_mode s \<Longrightarrow> pv_started s' = pv_started s
    \<Longrightarrow> pv_session_id s' = pv_session_id s \<Longrightarrow> going_on sv clk sid s'"
  unfolding going_on_def chained_def by (metis order.trans)

lemma keeps_outside: "steady clk (\<lambda>w. fst (f w)) \<Longrightarrow> keeps (going_on sv clk sid) (outside_op f)"
  by (rule keepsI, erule going_on_cong) (simp_all add: outside_op_def steady_def split_beta)

lemmas keeps_world [keep_intros] = keeps_outside[OF dependableD(3)] keeps_outside[OF dependableD(5)]

text \<open>What a successful write of a line makes of the log.\<close>

lemma chained_write:
  assumes "chained sv clk s" "wf_json (JObj r)" "pv_log s' = Some (log_text s @ record_line r)"
    "\<And>t. t \<le> clk (pv_world s) \<Longrightarrow> \<exists>t'. chain_from sv (ps_public_key sv) (pv_prev_hash s, t) [r] = Some (pv_prev_hash s', t')
       \<and> t' \<le> clk (pv_world s')"
  shows "chained sv clk s'"
proof -
  obtain rs t where rs: "pv_log s = Some (log_of rs)" "list_all (\<lambda>r. wf_json (JObj r)) rs"
    "chain_from sv (ps_public_key sv) (GENESIS_HASH_384, []) rs = Some (pv_prev_hash s, t)" "t \<le> clk (pv_world s)"
    using assms(1) unfolding chained_def by blast
  obtain t' where t': "chain_from sv (ps_public_key sv) (pv_prev_hash s, t) [r] = Some (pv_prev_hash s', t')" "t' \<le> clk (pv_world s')"
    using assms(4)[OF rs(4)] by blast
  have "chain_from sv (ps_public_key sv) (GENESIS_HASH_384, []) (rs @ [r]) = Some (pv_prev_hash s', t')"
    by (simp only: record_chain_append rs(3) bind.bind_lunit t'(1))
  moreover have "pv_log s' = Some (log_of (rs @ [r]))" using rs(1) assms(3) by (simp add: log_text_def)
  moreover have "list_all (\<lambda>r. wf_json (JObj r)) (rs @ [r])" using rs(2) assms(2) by (simp del: wf_json.simps)
  ultimately show ?thesis using t'(2) unfolding chained_def by blast
qed

lemma write_line_durable:
  assumes "dependable sv clk"
  shows "write_line sv r s = (s\<lparr>pv_world := fst (ps_write sv (pv_world s)), pv_log := Some (log_text s @ record_line r)\<rparr>, Inr None)"
  using dependableD(8)[OF assms, of "pv_world s"]
  by (simp add: write_line_def exec_bind_def exec_simps outside_op_def split_beta log_text_def)

lemma write_ack:
  assumes "dependable sv clk" "is_ack r" "wf_json (JObj r)"
  shows "keeps (going_on sv clk sid) (write_line sv r)"
proof (rule keepsI)
  fix s assume s: "going_on sv clk sid s"
  have w: "clk (pv_world s) \<le> clk (fst (ps_write sv (pv_world s)))"
    using dependableD(4)[OF assms(1)] by (simp add: steady_def)
  have "chained sv clk (fst (write_line sv r s))"
    by (rule chained_write[of _ _ s r]) (use s w assms in \<open>auto simp: going_on_def write_line_durable[OF assms(1)] simp del: wf_json.simps\<close>)
  then show "going_on sv clk sid (fst (write_line sv r s))" using s by (simp add: going_on_def write_line_durable[OF assms(1)])
qed

lemma ack_record_is_ack: "is_ack (ack_record s now receipt)" "wf_json (JObj (ack_record s now receipt))"
  by (simp_all add: is_ack_def ack_record_def kw_def dict_get_def startswith_def wf_dict_def)

lemma keeps_raise [keep_intros]: "keeps I (recorder_raise t)"
  by (simp add: recorder_raise_def keep_intros)

lemma keeps_replicate:
  assumes "dependable sv clk" "ps_push sv = Some push"
  shows "keeps (going_on sv clk sid) (replicate_record sv push r)"
proof -
  have push: "keeps (going_on sv clk sid) (outside_op (\<lambda>w. push w name seg r))" for name seg
    by (rule keeps_outside, rule dependableD(7)[OF assms])
  have now: "keeps (going_on sv clk sid) (outside_op (ps_now sv))"
    by (rule keeps_outside) (use dependableD(1,2)[OF assms(1)] in \<open>auto simp: steady_def intro: order.trans\<close>)
  show ?thesis
    unfolding replicate_record_def replicate_refused_def replicate_ack_def
    by (intro keeps_get_bind keeps_bind keep_intros push now write_ack[OF assms(1)] ack_record_is_ack)
       (auto intro!: keeps_get_bind keeps_bind keep_intros split: push_error.split)
qed

subsection \<open>One record\<close>

definition attested_ok :: "'w prov_services \<Rightarrow> json_object \<Rightarrow> bool" where
  "attested_ok sv r \<longleftrightarrow> verify_attestation sv r \<in> {Inr None, Inr (Some True)}"

definition wf_arguments :: "json_object option \<Rightarrow> json option \<Rightarrow> json option \<Rightarrow> bool" where
  "wf_arguments payload signature corroboration \<longleftrightarrow>
     wf_json (JObj (payload_of payload)) \<and> (case signature of Some v \<Rightarrow> wf_json v | None \<Rightarrow> True)
     \<and> (case corroboration of Some v \<Rightarrow> wf_json v | None \<Rightarrow> True)"

lemma build_record_fields:
  "kw (build_record s now ev p a g c) ''seq'' = JInt (pv_seq s)"
  "kw (build_record s now ev p a g c) ''ts'' = JStr now"
  "kw (build_record s now ev p a g c) ''prev_hash'' = JStr (pv_prev_hash s)"
  "kw (build_record s now ev p a g c) ''payload'' = JObj (payload_of p)"
  "kw (build_record s now ev p a g c) ''record_version'' = JStr RECORD_VERSION_V2"
  "kw (build_record s now ev p a g c) ''event_type'' = JStr (event_value ev)"
  "kw (build_record s now ev p a g c) ''session_id'' = JStr (pv_session_id s)"
  "kw (build_record s now ev p (Some who) g c) ''agent_id'' = JStr (if who = [] then pv_agent_id s else who)"
  "kw (build_record s now ev p a g c) ''os_corroboration'' = (case c of Some v \<Rightarrow> v | None \<Rightarrow> JNull)"
  "kw (build_record s now ev p a g c) ''agent_sig'' = (case g of Some v \<Rightarrow> v | None \<Rightarrow> JNull)"
  by (simp_all add: build_record_def kw_def dict_get_def split: option.split)

lemma build_record_wf: "wf_arguments p g c \<Longrightarrow> wf_json (JObj (build_record s now ev p a g c))"
  by (auto simp: wf_arguments_def build_record_def wf_dict_def split: option.splits)

lemma build_record_unsigned: "map_of (build_record s now ev p a g c) ''recorder_sig'' = None"
  by (simp add: build_record_def split: option.split)

text \<open>The recorder's signature is the last field and nothing but its own check reads it.\<close>

lemma kw_signed: "k \<noteq> ''recorder_sig'' \<Longrightarrow> kw (r @ [(''recorder_sig'', v)]) k = kw r k"
  by (simp add: kw_def dict_get_def map_add_def split: option.split)

lemma kw_signature: "map_of r ''recorder_sig'' = None \<Longrightarrow> kw (r @ [(''recorder_sig'', v)]) ''recorder_sig'' = v"
  by (simp add: kw_def dict_get_def map_add_def)

lemma record_bytes_signed: "record_bytes (r @ [(''recorder_sig'', v)]) = record_bytes r"
  by (simp add: record_bytes_def kw_signed)

lemma dict_get_signed: "k \<noteq> ''recorder_sig'' \<Longrightarrow> dict_get (r @ [(''recorder_sig'', v)]) k x = dict_get r k x"
  by (simp add: dict_get_def map_add_def split: option.split)

lemma attestation_signed: "verify_attestation sv (r @ [(''recorder_sig'', v)]) = verify_attestation sv r"
proof -
  let ?q = "r @ [(''recorder_sig'', v)]"
  have q: "attested_request ?q x y = attested_request r x y" "attested_event ?q = attested_event r"
      "hex_field ?q ''agent_sig'' = hex_field r ''agent_sig''" "kw ?q ''agent_id'' = kw r ''agent_id''" for x y
    by (simp_all add: attested_request_def attested_event_def kw_signed hex_field_def dict_get_signed)
  have a: "attestation_holds sv ?q x y z = attestation_holds sv r x y z" for x y z
    unfolding attestation_holds_def q ..
  have f: "kw ?q ''os_corroboration'' = kw r ''os_corroboration''" "kw ?q ''record_version'' = kw r ''record_version''"
    by (simp_all add: kw_signed)
  show ?thesis unfolding verify_attestation_def a f ..
qed

lemma wf_signed: "wf_json (JObj r) \<Longrightarrow> map_of r ''recorder_sig'' = None \<Longrightarrow> wf_json (JObj (r @ [(''recorder_sig'', JStr x)]))"
  by (simp add: wf_dict_append)

lemma sign_record_cases:
  assumes "dependable sv clk" "fail_closed (pv_mode s)"
  obtains (failed) w e where "sign_record sv r s = (s\<lparr>pv_world := w\<rparr>, Inl e)" "clk (pv_world s) \<le> clk w"
    | (unsigned) "sign_record sv r s = (s, Inr r)" "ps_public_key sv = None"
    | (signed) w g key where "sign_record sv r s = (s\<lparr>pv_world := w\<rparr>, Inr (r @ [(''recorder_sig'', JStr (tohex g))]))"
        "clk (pv_world s) \<le> clk w" "ps_public_key sv = Some key" "signed_by sv key (record_bytes r) g"
proof (cases "ps_public_key sv")
  case None
  then show ?thesis by (intro unsigned) (simp_all add: sign_record_def exec_simps)
next
  case (Some key)
  have clk: "clk (pv_world s) \<le> clk (fst (ps_sign sv (pv_world s) (record_bytes r)))"
    using dependableD(6)[OF assms(1)] by (simp add: steady_def)
  show ?thesis
  proof (cases "ps_sign sv (pv_world s) (record_bytes r)")
    case (Pair w x)
    show ?thesis
    proof (cases x)
      case (Inl e)
      with Pair Some clk assms(2) show ?thesis
        by (intro failed) (auto simp: sign_record_def exec_bind_def exec_simps outside_op_def recorder_raise_def)
    next
      case (Inr g)
      with Pair have "signed_by sv key (record_bytes r) g"
        using dependableD(9)[OF assms(1) Some, of "pv_world s" "record_bytes r" g] by simp
      with Pair Some clk Inr show ?thesis
        by (intro signed) (auto simp: sign_record_def exec_bind_def exec_simps outside_op_def)
    qed
  qed
qed

text \<open>A signed record continues the chain.\<close>

lemma signed_record_links:
  assumes r0: "r0 = build_record s now ev p a g c" and att: "attested_ok sv r0"
    and r: "r = r0 \<and> ps_public_key sv = None
        \<or> (\<exists>sig key. r = r0 @ [(''recorder_sig'', JStr (tohex sig))] \<and> ps_public_key sv = Some key \<and> signed_by sv key (record_bytes r0) sig)"
    and "t \<le> now"
  shows "chain_from sv (ps_public_key sv) (pv_prev_hash s, t) [r] = Some (canonical_hash sv r, now)"
proof -
  have f: "kw r k = kw r0 k" if "k \<noteq> ''recorder_sig''" for k using r that by (auto simp: kw_signed)
  have "verify_attestation sv r = verify_attestation sv r0" using r by (auto simp: attestation_signed)
  moreover have "case ps_public_key sv of Some k \<Rightarrow> verify_recorder_signature sv r k | None \<Rightarrow> True"
    using r by (auto simp: verify_recorder_signature_def hex_field_def signed_by_def record_bytes_signed kw_get kw_signature
        build_record_unsigned r0 split: if_splits)
  ultimately have "sound_record sv (ps_public_key sv) r"
    using att by (simp add: sound_record_def attested_ok_def f r0 build_record_fields)
  then show ?thesis using \<open>t \<le> now\<close> by (simp add: is_ack_def f r0 build_record_fields)
qed

definition acceptable ::
    "'w prov_services \<Rightarrow> pystr \<Rightarrow> session_event \<Rightarrow> json_object option \<Rightarrow> pystr option \<Rightarrow> json option \<Rightarrow> json option \<Rightarrow> bool" where
  "acceptable sv sid ev p a g c \<longleftrightarrow>
     wf_arguments p g c
     \<and> (\<forall>(s :: 'w prov) now. pv_session_id s = sid \<longrightarrow> attested_ok sv (build_record s now ev p a g c))"

lemma append_core_keeps:
  assumes dep: "dependable sv clk" and ok: "acceptable sv sid ev p a g c"
  shows "keeps (going_on sv clk sid) (append_core sv ev p a g c)"
proof (rule keepsI)
  fix s assume s: "going_on sv clk sid s"
  let ?J = "going_on sv clk sid" and ?w = "fst (ps_now sv (pv_world s))" and ?now = "snd (ps_now sv (pv_world s))"
  let ?s2 = "s\<lparr>pv_seq := pv_seq s + 1, pv_world := ?w\<rparr>"
  let ?r0 = "build_record ?s2 ?now ev p a g c"
  define rest where "rest = (\<lambda>r. exec_bind (exec_modify (advance_chain (canonical_hash sv r))) (\<lambda>_.
     exec_bind (write_line sv r) (\<lambda>f.
       case f of
         Some e \<Rightarrow> exec_bind (handle_sink_failure e) (\<lambda>_. exec_ret None)
       | None \<Rightarrow>
           exec_bind (case ps_push sv of None \<Rightarrow> exec_ret True | Some push \<Rightarrow> replicate_record sv push r) (\<lambda>_.
           exec_bind (exec_modify (\<lambda>s. s\<lparr>pv_since_seal := pv_since_seal s + 1\<rparr>)) (\<lambda>_.
           exec_ret (Some r))))))"
  have clk: "clk (pv_world s) \<le> ?now" "?now \<le> clk ?w" using dependableD(1,2)[OF dep] by blast+
  then have mono: "clk (pv_world s) \<le> clk ?w" by simp
  have s2: "?J ?s2" by (rule going_on_cong[OF s]) (simp_all add: mono)
  have ok0: "attested_ok sv ?r0" "wf_json (JObj ?r0)"
    using ok s build_record_wf[of p g c] unfolding acceptable_def going_on_def by (simp_all del: wf_json.simps)
  have eq: "append_core sv ev p a g c s = exec_bind (sign_record sv ?r0) rest ?s2"
    by (simp add: append_core_def rest_def exec_bind_def exec_simps outside_op_def split_beta)
  have after: "keeps ?J (exec_bind (case ps_push sv of None \<Rightarrow> exec_ret True | Some push \<Rightarrow> replicate_record sv push r) (\<lambda>_.
           exec_bind (exec_modify (\<lambda>s. s\<lparr>pv_since_seal := pv_since_seal s + 1\<rparr>)) (\<lambda>_. exec_ret (Some r))))" for r
    by (cases "ps_push sv") (auto intro!: keeps_bind keep_intros keeps_replicate[OF dep] keeps_modify elim: going_on_cong)
  have wrote: "?J (fst (rest r (?s2\<lparr>pv_world := w\<rparr>)))"
    if r: "r = ?r0 \<and> ps_public_key sv = None
        \<or> (\<exists>sig key. r = ?r0 @ [(''recorder_sig'', JStr (tohex sig))] \<and> ps_public_key sv = Some key \<and> signed_by sv key (record_bytes ?r0) sig)"
      and w: "clk ?w \<le> clk w" for r w
  proof -
    let ?s4 = "advance_chain (canonical_hash sv r) (?s2\<lparr>pv_world := w\<rparr>)"
    let ?s5 = "?s4\<lparr>pv_world := fst (ps_write sv w), pv_log := Some (log_text s @ record_line r)\<rparr>"
    have w5: "clk w \<le> clk (fst (ps_write sv w))" using dependableD(4)[OF dep] by (simp add: steady_def)
    have wf: "wf_json (JObj r)" using r ok0(2) wf_signed build_record_unsigned by blast
    have c: "chained sv clk s" using s by (simp add: going_on_def)
    have link: "\<exists>t'. chain_from sv (ps_public_key sv) (pv_prev_hash s, t) [r] = Some (pv_prev_hash ?s5, t') \<and> t' \<le> clk (pv_world ?s5)"
      if "t \<le> clk (pv_world s)" for t
    proof (intro exI conjI)
      show "chain_from sv (ps_public_key sv) (pv_prev_hash s, t) [r] = Some (pv_prev_hash ?s5, ?now)"
        using signed_record_links[OF refl ok0(1) r, of t] that clk(1) by (simp add: advance_chain_def del: chain_from.simps)
      show "?now \<le> clk (pv_world ?s5)" using clk(2) w w5 by simp
    qed
    have "pv_log ?s5 = Some (log_text s @ record_line r)" by (simp add: advance_chain_def)
    then have "chained sv clk ?s5" by (rule chained_write[OF c wf _ link])
    then have "?J ?s5" using s by (simp add: going_on_def advance_chain_def)
    moreover have "fst (rest r (?s2\<lparr>pv_world := w\<rparr>)) = fst (exec_bind (case ps_push sv of None \<Rightarrow> exec_ret True | Some push \<Rightarrow> replicate_record sv push r) (\<lambda>_.
           exec_bind (exec_modify (\<lambda>s. s\<lparr>pv_since_seal := pv_since_seal s + 1\<rparr>)) (\<lambda>_. exec_ret (Some r))) ?s5)"
      by (simp add: rest_def exec_bind_Inr[OF exec_steps(4)] exec_bind_Inr[OF write_line_durable[OF dep]] advance_chain_def log_text_def)
    ultimately show ?thesis using keepsD[OF after] by simp
  qed
  have fc: "fail_closed (pv_mode ?s2)" using s by (simp add: going_on_def)
  show "?J (fst (append_core sv ev p a g c s))"
  proof (cases rule: sign_record_cases[OF dep fc, of ?r0, case_names failed unsigned signed])
    case (failed w e)
    then show ?thesis unfolding eq using s by (auto simp: exec_bind_def elim!: going_on_cong intro: order.trans[OF mono])
  next
    case unsigned
    then show ?thesis unfolding eq using wrote[of ?r0 ?w] by (simp add: exec_bind_def)
  next
    case (signed w sig key)
    then show ?thesis unfolding eq using wrote[of _ w] by (auto simp: exec_bind_def)
  qed
qed

subsection \<open>Every operation of a started recorder\<close>

text \<open>Records without a service attestation are acceptable whatever else they hold.\<close>

definition plain_corroboration :: "json option \<Rightarrow> bool" where
  "plain_corroboration c \<longleftrightarrow>
     (case c of Some (JObj d) \<Rightarrow> map_of d ''provenance_service'' = None | _ \<Rightarrow> True)"

lemma plain_attestation: "plain_corroboration c \<Longrightarrow> attested_ok sv (build_record s now ev p a g c)"
  by (auto simp: plain_corroboration_def attested_ok_def verify_attestation_def build_record_fields split: option.splits json.splits)

lemma plain_acceptable: "plain_corroboration c \<Longrightarrow> wf_arguments p g c \<Longrightarrow> acceptable sv sid ev p a g c"
  by (simp add: acceptable_def plain_attestation)

lemma internal_acceptable: "wf_json (JObj (payload_of p)) \<Longrightarrow> acceptable sv sid ev p a None None"
  by (rule plain_acceptable) (simp_all add: plain_corroboration_def wf_arguments_def)

lemma payload_wf [simp]: "payload_of None = []" "payload_of (Some p) = p" "wf_dict []"
  by (simp_all add: payload_of_def)

lemma keeps_going_modify:
  "(\<And>s. pv_log (f s) = pv_log s \<and> pv_prev_hash (f s) = pv_prev_hash s \<and> pv_world (f s) = pv_world s \<and> pv_mode (f s) = pv_mode s
      \<and> pv_started (f s) = pv_started s \<and> pv_session_id (f s) = pv_session_id s)
   \<Longrightarrow> keeps (going_on sv clk sid) (exec_modify f)"
  by (rule keeps_modify, erule going_on_cong) simp_all

lemma seal_keeps:
  assumes "dependable sv clk"
  shows "keeps (going_on sv clk sid) (write_merkle_seal sv final)"
  unfolding write_merkle_seal_def
  by (intro keeps_get_bind keeps_bind keep_intros append_core_keeps internal_acceptable keeps_going_modify assms)
     (simp_all add: seal_payload_def wf_dict_def)

lemma append_keeps:
  assumes "dependable sv clk" "acceptable sv sid ev p a g c"
  shows "keeps (going_on sv clk sid) (append_record sv ev p a g c)"
  unfolding append_record_def
  by (intro keeps_get_bind keeps_bind keep_intros append_core_keeps seal_keeps assms)

lemma violation_keeps:
  "dependable sv clk \<Longrightarrow> wf_json (JObj p) \<Longrightarrow> keeps (going_on sv clk sid) (violation sv p message)"
  unfolding violation_def
  by (intro keeps_get_bind keeps_bind keep_intros append_keeps internal_acceptable) simp_all

lemma authority_keeps: "dependable sv clk \<Longrightarrow> keeps (going_on sv clk sid) (check_event_authority sv ev who)"
  unfolding check_event_authority_def
  by (intro keeps_get_bind keeps_bind keep_intros violation_keeps) (simp_all add: wf_dict_def)

lemma signature_keeps: "keeps (going_on sv clk sid) (check_signature ev who p g)"
  unfolding check_signature_def by (intro keeps_get_bind keeps_bind keep_intros)

lemma record_keeps:
  assumes "dependable sv clk" "\<And>ev who. event_of event_type = Some ev \<Longrightarrow>
     acceptable sv sid ev p (Some who) (map_option (\<lambda>g. JStr (tohex g)) signature) c"
  shows "keeps (going_on sv clk sid) (record_event sv event_type p agent_id signature c)"
  unfolding record_event_def Let_def
  by (intro keeps_get_bind keeps_bind keep_intros authority_keeps signature_keeps append_keeps assms)

lemma heartbeat_keeps:
  assumes "dependable sv clk" "going_on sv clk sid s"
  shows "going_on sv clk sid (fst (heartbeat_round sv s))"
proof -
  have "keeps (going_on sv clk sid) (append_record sv HEARTBEAT
      (Some [(''seq_at_heartbeat'', JInt (pv_seq s)), (''session_state'', JStr (state_value (pv_state s)))]) None None None)"
    by (intro append_keeps internal_acceptable assms) (simp add: wf_dict_def)
  from keepsD[OF this assms(2)] assms(2) show ?thesis by (simp add: heartbeat_round_def)
qed

lemma gap_keeps: "dependable sv clk \<Longrightarrow> keeps (going_on sv clk sid) (report_telemetry_gap sv sensor detail)"
  unfolding report_telemetry_gap_def
  by (intro keeps_bind keep_intros record_keeps plain_acceptable)
     (simp_all add: plain_corroboration_def wf_arguments_def wf_dict_def)

lemma seal_session_keeps:
  "dependable sv clk \<Longrightarrow> wf_json (JObj (payload_of summary)) \<Longrightarrow> keeps (going_on sv clk sid) (seal_session sv summary)"
  unfolding seal_session_def case_prod_beta
  by (intro keeps_get_bind keeps_bind append_keeps seal_keeps internal_acceptable keeps_going_modify)
     (simp_all add: wf_dict_def)

lemma close_keeps:
  "dependable sv clk \<Longrightarrow> wf_json (JObj (payload_of summary)) \<Longrightarrow> keeps (going_on sv clk sid) (close_recorder sv summary token)"
  unfolding close_recorder_def
  by (intro keeps_get_bind keeps_bind keep_intros seal_session_keeps violation_keeps keeps_going_modify)
     (simp_all add: wf_dict_def)

lemma interrupt_keeps: "dependable sv clk \<Longrightarrow> keeps (going_on sv clk sid) (interrupt sv reason)"
  unfolding interrupt_def interrupt_session_def
  by (intro keeps_get_bind keeps_bind keep_intros append_keeps seal_keeps internal_acceptable keeps_going_modify)
     (simp_all add: wf_dict_def)

lemma register_keeps: "keeps (going_on sv clk sid) (register_agent agent_id key)"
  unfolding register_agent_def by (rule keeps_going_modify) simp

text \<open>A change to another fail-closed mode.\<close>

lemma change_mode_keeps:
  assumes "dependable sv clk" "fail_closed m"
  shows "keeps (going_on sv clk sid) (change_audit_mode sv m token reason)"
proof -
  have "keeps (going_on sv clk sid) (exec_modify (\<lambda>s. s\<lparr>pv_mode := m\<rparr>))"
    by (rule keeps_modify) (use assms(2) in \<open>auto simp: going_on_def chained_def\<close>)
  then show ?thesis
    unfolding change_audit_mode_def Let_def using assms(1)
    by (auto intro!: keeps_get_bind keeps_bind keep_intros violation_keeps append_keeps internal_acceptable simp: wf_dict_def)
qed

subsection \<open>Starting on a log\<close>

lemma chain_end_hash:
  assumes "chain_from sv key (prev, ts) rs = Some (h, t)"
  shows "filter (\<lambda>r. is_integer (kw r ''seq'')) rs = chain_members rs
    \<and> h = (if chain_members rs = [] then prev else canonical_hash sv (last (chain_members rs)))"
  using assms
proof (induction rs arbitrary: prev ts)
  case (Cons r rs)
  show ?case
  proof (cases "is_ack r")
    case True
    then have "\<not> is_integer (kw r ''seq'')" by (auto simp: is_ack_def split: json.splits)
    moreover have "chain_from sv key (prev, ts) rs = Some (h, t)" using Cons.prems True by simp
    ultimately show ?thesis using Cons.IH[of prev ts] True by (auto simp: chain_members_def)
  next
    case False
    then obtain t1 where "sound_record sv key r" "chain_from sv key (canonical_hash sv r, t1) rs = Some (h, t)"
      using Cons.prems by (auto split: if_splits json.splits)
    with Cons.IH[of "canonical_hash sv r" t1] False show ?thesis
      by (auto simp: chain_members_def sound_record_def)
  qed
qed (auto simp: chain_members_def)

text \<open>A recorder that has not started, on an intact log.\<close>

definition resting :: "'w prov_services \<Rightarrow> ('w \<Rightarrow> pystr) \<Rightarrow> pystr \<Rightarrow> 'w prov \<Rightarrow> bool" where
  "resting sv clk sid s \<longleftrightarrow>
     (\<exists>rs h t. (pv_log s = Some (log_of rs) \<or> pv_log s = None \<and> rs = []) \<and> list_all (\<lambda>r. wf_json (JObj r)) rs
        \<and> chain_from sv (ps_public_key sv) (GENESIS_HASH_384, []) rs = Some (h, t) \<and> t \<le> clk (pv_world s)
        \<and> (rs = [] \<longrightarrow> pv_prev_hash s = GENESIS_HASH_384))
     \<and> fail_closed (pv_mode s) \<and> \<not> pv_started s \<and> pv_session_id s = sid"

lemma resting_cong:
  "resting sv clk sid s \<Longrightarrow> pv_log s' = pv_log s \<Longrightarrow> pv_prev_hash s' = pv_prev_hash s \<Longrightarrow> clk (pv_world s) \<le> clk (pv_world s')
    \<Longrightarrow> pv_mode s' = pv_mode s \<Longrightarrow> pv_started s' = pv_started s \<Longrightarrow> pv_session_id s' = pv_session_id s \<Longrightarrow> resting sv clk sid s'"
  unfolding resting_def by (metis order.trans)

lemma resting_world: "resting sv clk sid s \<Longrightarrow> clk (pv_world s) \<le> clk w \<Longrightarrow> resting sv clk sid (s\<lparr>pv_world := w\<rparr>)"
  by (rule resting_cong) simp_all

lemma load_resting:
  assumes "dependable sv clk" "resting sv clk sid s" "pv_log s \<noteq> None"
  obtains (failed) e where "load_chain_state sv s = (s\<lparr>pv_world := fst (ps_read sv (pv_world s))\<rparr>, Inl e)"
    | (loaded) s1 where "load_chain_state sv s = (s1, Inr ())" "resting sv clk sid s1" "chained sv clk s1"
proof -
  let ?w = "fst (ps_read sv (pv_world s))"
  obtain rs h t where rs: "pv_log s = Some (log_of rs)" "list_all (\<lambda>r. wf_json (JObj r)) rs"
    "chain_from sv (ps_public_key sv) (GENESIS_HASH_384, []) rs = Some (h, t)" "t \<le> clk (pv_world s)"
    "rs = [] \<longrightarrow> pv_prev_hash s = GENESIS_HASH_384" "fail_closed (pv_mode s)" "\<not> pv_started s" "pv_session_id s = sid"
    using assms(2,3) unfolding resting_def by blast
  have w: "t \<le> clk ?w" using dependableD(5)[OF assms(1)] rs(4) by (auto simp: steady_def intro: order.trans)
  note ends = chain_end_hash[OF rs(3)]
  have read: "load_chain_state sv s = (case snd (ps_read sv (pv_world s)) of
      Some e \<Rightarrow> (s\<lparr>pv_world := ?w\<rparr>, Inl (Escaped e))
    | None \<Rightarrow> exec_bind (exec_of (log_records (log_of rs))) (\<lambda>rs. exec_modify (resume_at sv rs)) (s\<lparr>pv_world := ?w\<rparr>))"
    by (simp add: load_chain_state_def exec_bind_def exec_simps outside_op_def split_beta rs(1) log_text_def split: option.split)
  show thesis
  proof (cases "snd (ps_read sv (pv_world s))")
    case (Some e)
    with read failed show thesis by simp
  next
    case None
    show thesis
    proof (cases "rs \<noteq> [] \<and> chain_members rs = []")
      case True
      with None read failed ends show thesis by (simp add: exec_bind_def exec_simps log_records_log[OF rs(2)])
    next
      case False
      let ?s1 = "resume_at sv (chain_members rs) (s\<lparr>pv_world := ?w\<rparr>)"
      have "load_chain_state sv s = (?s1, Inr ())"
        using None read False ends by (auto simp: exec_bind_def exec_simps log_records_log[OF rs(2)])
      moreover have eq: "pv_prev_hash ?s1 = h" "pv_log ?s1 = Some (log_of rs)" "pv_world ?s1 = ?w" "pv_mode ?s1 = pv_mode s"
          "pv_started ?s1 = pv_started s" "pv_session_id ?s1 = pv_session_id s"
        using False ends rs(1,5) by (auto simp: resume_at_def chain_members_def)
      moreover have "chained sv clk ?s1" unfolding chained_def eq using rs(2,3) w by blast
      moreover have "rs = [] \<longrightarrow> h = GENESIS_HASH_384" using ends by (auto simp: chain_members_def)
      then have "resting sv clk sid ?s1" unfolding resting_def eq using rs w by blast
      ultimately show thesis using loaded by blast
    qed
  qed
qed

definition live :: "'w prov_services \<Rightarrow> ('w \<Rightarrow> pystr) \<Rightarrow> pystr \<Rightarrow> 'w prov \<Rightarrow> bool" where
  "live sv clk sid s \<longleftrightarrow> going_on sv clk sid s \<or> resting sv clk sid s"

lemma begins_live:
  assumes dep: "dependable sv clk" and s: "resting sv clk sid s" "pv_log s \<noteq> None"
  shows "live sv clk sid (fst (session_begins sv resume s))"
proof -
  define rest where "rest = (\<lambda>had_existing.
     exec_bind (exec_check (\<not> resume \<or> had_existing)
       (RecorderError ''cannot resume a provenance session with no existing events'')) (\<lambda>_.
     exec_bind (exec_modify (\<lambda>s. if resume then s\<lparr>pv_started := True, pv_state := RECONSTRUCTED\<rparr> else s\<lparr>pv_started := True\<rparr>)) (\<lambda>_.
     exec_bind (exec_get (\<lambda>s. (pv_mode s, pv_agent_id s))) (\<lambda>(m, agent).
     exec_bind (append_record sv (if resume then SESSION_RECONSTRUCTED else SESSION_OPEN)
         (Some (start_payload m agent (if resume then RECONSTRUCTED else OPEN))) (Some agent) None None) (\<lambda>_. exec_ret ())))))"
  have begins: "session_begins sv resume s = exec_bind (load_chain_state sv) (\<lambda>_. rest (log_text s \<noteq> [])) s"
    unfolding session_begins_def rest_def exec_get_bind ..
  show ?thesis
  proof (cases rule: load_resting[OF dep s, case_names failed loaded])
    case (failed e)
    then show ?thesis unfolding begins
      using resting_world[OF s(1)] dependableD(5)[OF dep] by (simp add: exec_bind_def live_def steady_def)
  next
    case (loaded s1)
    let ?s2 = "if resume then s1\<lparr>pv_started := True, pv_state := RECONSTRUCTED\<rparr> else s1\<lparr>pv_started := True\<rparr>"
    have "keeps (going_on sv clk sid) (append_record sv ev (Some (start_payload m agent st)) (Some agent) None None)" for ev m agent st
      by (intro append_keeps internal_acceptable dep) (simp add: start_payload_def wf_dict_def)
    then have k: "keeps (going_on sv clk sid) (exec_bind (exec_get (\<lambda>s. (pv_mode s, pv_agent_id s))) (\<lambda>(m, agent).
     exec_bind (append_record sv (if resume then SESSION_RECONSTRUCTED else SESSION_OPEN)
         (Some (start_payload m agent (if resume then RECONSTRUCTED else OPEN))) (Some agent) None None) (\<lambda>_. exec_ret ())))"
      by (intro keeps_get_bind keeps_bind keep_intros)
    have "going_on sv clk sid ?s2" using loaded(2,3) by (auto simp: going_on_def resting_def chained_def)
    from keepsD[OF k this] loaded show ?thesis
      unfolding begins rest_def live_def
      by (simp add: exec_bind_def exec_simps split: if_splits prod.splits sum.splits)
  qed
qed

lemma start_live:
  assumes dep: "dependable sv clk" and s: "live sv clk sid s"
  shows "live sv clk sid (fst (start sv resume s))"
proof (cases "pv_started s")
  case True
  with s show ?thesis by (simp add: start_def exec_bind_def exec_simps)
next
  case False
  with s have r: "resting sv clk sid s" by (auto simp: live_def going_on_def)
  let ?w = "fst (ps_open sv (pv_world s))"
  have rw: "resting sv clk sid (s\<lparr>pv_world := ?w\<rparr>)"
    using resting_world[OF r] dependableD(3)[OF dep] by (simp add: steady_def)
  let ?s1 = "s\<lparr>pv_world := ?w, pv_log := Some (log_text s)\<rparr>"
  have s1: "resting sv clk sid ?s1"
  proof -
    obtain rs h t where rs: "pv_log s = Some (log_of rs) \<or> pv_log s = None \<and> rs = []" "list_all (\<lambda>r. wf_json (JObj r)) rs"
      "chain_from sv (ps_public_key sv) (GENESIS_HASH_384, []) rs = Some (h, t)" "t \<le> clk ?w"
      "rs = [] \<longrightarrow> pv_prev_hash s = GENESIS_HASH_384"
      using rw unfolding resting_def by auto
    moreover from rs(1) have "pv_log ?s1 = Some (log_of rs)" by (auto simp: log_text_def)
    moreover have "pv_world ?s1 = ?w" "pv_prev_hash ?s1 = pv_prev_hash s" "fail_closed (pv_mode ?s1) \<and> \<not> pv_started ?s1 \<and> pv_session_id ?s1 = sid"
      using r by (simp_all add: resting_def)
    ultimately show ?thesis unfolding resting_def by metis
  qed
  from begins_live[OF dep s1, of resume] rw r False show ?thesis
    unfolding start_def live_def
    by (auto simp: exec_bind_def exec_simps outside_op_def recorder_raise_def split_beta log_text_def split: option.splits)
qed

end
