(* ===== verification/ProvenanceLog.thy ===== *)
theory ProvenanceLog
  imports ProvenanceRuns
begin

text \<open>
  What the recorder's operations do to the text of the log, whatever the disk, the clock, the
  identity and the sink do. A property of the text that every line the recorder writes preserves is
  preserved by every operation: the locale \<open>log_invariant\<close>, interpreted on two such properties.
\<close>

definition taken :: "'w prov_services \<Rightarrow> 'w \<Rightarrow> json_object \<Rightarrow> pystr" where
  "taken sv w r = (case snd (ps_write sv w) of None \<Rightarrow> record_line r | Some (e, n) \<Rightarrow> take n (record_line r))"

lemma write_line_text:
  "log_text (fst (write_line sv r s)) = log_text s @ taken sv (pv_world s) r"
  by (cases "ps_write sv (pv_world s)")
     (auto simp: write_line_def exec_bind_def exec_simps outside_op_def taken_def log_text_def split: option.splits)

lemma write_line_returned:
  "write_line sv r s = (s', Inr None) \<Longrightarrow> log_text s' = log_text s @ record_line r"
  by (cases "ps_write sv (pv_world s)")
     (auto simp: write_line_def exec_bind_def exec_simps outside_op_def log_text_def split: option.splits)

lemma outside_text: "log_text (fst (outside_op f s)) = log_text s"
  by (simp add: outside_op_def log_text_def split_beta)

text \<open>The records \<open>append_core\<close> may write.\<close>

definition built :: "session_event \<Rightarrow> json_object option \<Rightarrow> pystr option \<Rightarrow> json option \<Rightarrow> json option \<Rightarrow> json_object \<Rightarrow> bool" where
  "built ev p a g c r \<longleftrightarrow>
     (\<exists>(s :: unit prov) now x. r \<in> {build_record s now ev p a g c, build_record s now ev p a g c @ [(''recorder_sig'', JStr x)]})"

lemma build_record_any: "\<exists>s' :: unit prov. build_record (s :: 'w prov) now ev p a g c = build_record s' now ev p a g c"
proof
  let ?s = "(recorder_init (pv_session_id s) (pv_agent_id s) CONSUMER 0 None None None ())\<lparr>pv_seq := pv_seq s, pv_prev_hash := pv_prev_hash s\<rparr>"
  show "build_record s now ev p a g c = build_record ?s now ev p a g c"
    unfolding build_record_def by (cases a) (simp_all add: recorder_init_def)
qed

lemma sign_record_built:
  assumes "sign_record sv (build_record s0 now ev p a g c) s = (s', x)"
  shows "log_text s' = log_text s \<and> (\<forall>r. x = Inr r \<longrightarrow> built ev p a g c r)"
proof -
  obtain s1 :: "unit prov" where s1: "build_record s0 now ev p a g c = build_record s1 now ev p a g c"
    using build_record_any by blast
  have "log_text s' = log_text s \<and> (\<forall>r. x = Inr r \<longrightarrow>
      (\<exists>y. r \<in> {build_record s1 now ev p a g c, build_record s1 now ev p a g c @ [(''recorder_sig'', JStr y)]}))"
    using assms unfolding s1
    by (auto simp: sign_record_def exec_bind_def exec_simps outside_op_def recorder_raise_def log_text_def
        split: if_splits prod.splits sum.splits)
  then show ?thesis unfolding built_def by blast
qed

text \<open>An invariant of the text, and the records that keep it.\<close>

locale log_invariant =
  fixes sv :: "'w prov_services" and J :: "pystr \<Rightarrow> bool" and ok :: "json_object \<Rightarrow> bool"
  assumes write_ok: "J t \<Longrightarrow> ok r \<Longrightarrow> J (t @ taken sv w r)"
    and ack_ok: "ok (ack_record (s :: 'w prov) now receipt)"
    and built_ok: "built ev p a g c r \<Longrightarrow> wf_arguments p g c \<Longrightarrow> plain_corroboration c \<Longrightarrow> ok r"
begin

definition kept :: "('w, 'a) prov_op \<Rightarrow> bool" where
  "kept m \<longleftrightarrow> keeps (\<lambda>s. J (log_text s)) m"

lemma kept_modify: "(\<And>s. pv_log (f s) = pv_log s) \<Longrightarrow> kept (exec_modify f)"
  by (simp add: kept_def keeps_def exec_simps log_text_def)

lemma kept_outside: "kept (outside_op f)"
  by (simp add: kept_def keeps_def outside_text)

lemma kept_write: "ok r \<Longrightarrow> kept (write_line sv r)"
  by (simp add: kept_def keeps_def write_line_text write_ok)

lemma kept_bind: "kept m \<Longrightarrow> (\<And>x. kept (f x)) \<Longrightarrow> kept (exec_bind m f)"
  unfolding kept_def by (rule keeps_bind)

lemma kept_get_bind: "(\<And>s. kept (f (g s))) \<Longrightarrow> kept (exec_bind (exec_get g) f)"
  unfolding kept_def by (rule keeps_get_bind)

lemma kept_steps:
  "kept (exec_ret x)" "kept (exec_raise e)" "kept (exec_get g)" "kept (exec_of r)" "kept (exec_check b e)" "kept (recorder_raise t)"
  "(b \<Longrightarrow> kept m) \<Longrightarrow> (\<not> b \<Longrightarrow> kept n) \<Longrightarrow> kept (if b then m else n)"
  "(y = None \<Longrightarrow> kept n) \<Longrightarrow> (\<And>x. y = Some x \<Longrightarrow> kept (h x)) \<Longrightarrow> kept (case y of None \<Rightarrow> n | Some x \<Rightarrow> h x)"
  "(\<And>x. kept (h1 x)) \<Longrightarrow> (\<And>x. kept (h2 x)) \<Longrightarrow> kept (case z of Inl x \<Rightarrow> h1 x | Inr x \<Rightarrow> h2 x)"
  "(\<And>x y. kept (k x y)) \<Longrightarrow> kept (case q of (x, y) \<Rightarrow> k x y)"
  unfolding kept_def by (intro keep_intros; blast)+

lemmas kept_intros = kept_get_bind kept_bind kept_steps kept_outside

lemma kept_replicate: "kept (replicate_record sv push r)"
  unfolding replicate_record_def replicate_refused_def replicate_ack_def
  by (intro kept_intros kept_write ack_ok) (auto intro!: kept_intros split: push_error.split)

lemma kept_after_write:
  "kept (exec_bind (case ps_push sv of None \<Rightarrow> exec_ret True | Some push \<Rightarrow> replicate_record sv push r) (\<lambda>_.
     exec_bind (exec_modify (\<lambda>s. s\<lparr>pv_since_seal := pv_since_seal s + 1\<rparr>)) (\<lambda>_. exec_ret (Some r))))"
  by (intro kept_intros kept_modify kept_replicate) simp

text \<open>One record, whatever it is, from a text where each of its outcomes satisfies the invariant.\<close>

lemma append_core_after:
  assumes "\<And>r w. built ev p a g c r \<Longrightarrow> J (log_text s @ taken sv w r)" "J (log_text s)"
  shows "J (log_text (fst (append_core sv ev p a g c s)))"
proof -
  let ?w = "fst (ps_now sv (pv_world s))" and ?now = "snd (ps_now sv (pv_world s))"
  let ?s2 = "s\<lparr>pv_seq := pv_seq s + 1, pv_world := ?w\<rparr>"
  let ?r0 = "build_record ?s2 ?now ev p a g c"
  define rest where "rest = (\<lambda>r. exec_bind (exec_modify (advance_chain (canonical_hash sv r))) (\<lambda>_.
     exec_bind (write_line sv r) (\<lambda>f.
       case f of
         Some e \<Rightarrow> exec_bind (handle_sink_failure e) (\<lambda>_. exec_ret None)
       | None \<Rightarrow>
           exec_bind (case ps_push sv of None \<Rightarrow> exec_ret True | Some push \<Rightarrow> replicate_record sv push r) (\<lambda>_.
           exec_bind (exec_modify (\<lambda>s. s\<lparr>pv_since_seal := pv_since_seal s + 1\<rparr>)) (\<lambda>_.
           exec_ret (Some r))))))"
  have eq: "append_core sv ev p a g c s = exec_bind (sign_record sv ?r0) rest ?s2"
    by (simp add: append_core_def rest_def exec_bind_def exec_simps outside_op_def split_beta)
  obtain s3 x where s3: "sign_record sv ?r0 ?s2 = (s3, x)" by force
  note sb = sign_record_built[OF s3]
  have s3text: "log_text s3 = log_text s" using sb by (simp add: log_text_def)
  show ?thesis
  proof (cases x)
    case (Inl e)
    with s3 s3text assms(2) show ?thesis by (simp add: eq exec_bind_def)
  next
    case (Inr r)
    let ?s4 = "advance_chain (canonical_hash sv r) s3"
    have "log_text ?s4 = log_text s" using s3text by (simp add: advance_chain_def log_text_def)
    then have w: "J (log_text (fst (write_line sv r ?s4)))"
      using assms(1)[of r] sb Inr by (simp add: write_line_text)
    obtain s5 f where s5: "write_line sv r ?s4 = (s5, f)" by force
    have k: "kept (case y of Some e \<Rightarrow> exec_bind (handle_sink_failure e) (\<lambda>_. exec_ret None)
       | None \<Rightarrow> exec_bind (case ps_push sv of None \<Rightarrow> exec_ret True | Some push \<Rightarrow> replicate_record sv push r) (\<lambda>_.
           exec_bind (exec_modify (\<lambda>s. s\<lparr>pv_since_seal := pv_since_seal s + 1\<rparr>)) (\<lambda>_. exec_ret (Some r))))" for y
      unfolding handle_sink_failure_def by (cases y) (auto intro!: kept_intros kept_modify kept_replicate)
    have "append_core sv ev p a g c s = rest r s3" using s3 Inr by (simp add: eq exec_bind_def)
    also have "J (log_text (fst (rest r s3)))"
      using w k unfolding rest_def s5 kept_def keeps_def
      by (cases f) (auto simp: exec_bind_def exec_simps s5)
    finally show ?thesis .
  qed
qed

lemma kept_append_core:
  assumes "\<And>r. built ev p a g c r \<Longrightarrow> ok r"
  shows "kept (append_core sv ev p a g c)"
  unfolding kept_def by (rule keepsI, rule append_core_after) (auto intro: write_ok assms)

lemma kept_internal: "wf_json (JObj (payload_of p)) \<Longrightarrow> kept (append_core sv ev p a None None)"
  by (rule kept_append_core, erule built_ok) (simp_all add: wf_arguments_def plain_corroboration_def)

lemma kept_seal: "kept (write_merkle_seal sv final)"
  unfolding write_merkle_seal_def
  by (intro kept_intros kept_internal kept_modify) (simp_all add: seal_payload_def wf_dict_def)

lemma append_record_leads:
  assumes "leads P (\<lambda>s. J (log_text s)) (append_core sv ev p a g c)"
  shows "leads P (\<lambda>s. J (log_text s)) (append_record sv ev p a g c)"
  unfolding append_record_def
  by (rule leads_then[OF assms]) (fold kept_def, intro kept_intros kept_seal)

lemma kept_append:
  assumes "kept (append_core sv ev p a g c)"
  shows "kept (append_record sv ev p a g c)"
  using assms append_record_leads[of "\<lambda>s. J (log_text s)"] unfolding kept_def keeps_def leads_def by simp

lemma kept_violation: "wf_json (JObj p) \<Longrightarrow> kept (violation sv p message)"
  unfolding violation_def by (intro kept_intros kept_append kept_internal) simp

lemma kept_authority: "kept (check_event_authority sv ev who)"
  unfolding check_event_authority_def by (intro kept_intros kept_violation) (simp_all add: wf_dict_def)

lemma kept_signature: "kept (check_signature ev who p g)"
  unfolding check_signature_def by (intro kept_intros)

lemma kept_load: "kept (load_chain_state sv)"
  unfolding load_chain_state_def by (intro kept_intros kept_modify) (simp add: resume_at_def)

lemma kept_begins: "kept (session_begins sv resume)"
  unfolding session_begins_def
  by (intro kept_intros kept_modify kept_load kept_append kept_internal) (simp_all add: start_payload_def wf_dict_def)

lemma kept_start: "kept (start sv resume)"
proof -
  have "kept (exec_modify (\<lambda>s. s\<lparr>pv_log := Some (log_text s)\<rparr>))"
    by (simp add: kept_def keeps_def exec_simps log_text_def)
  then show ?thesis unfolding start_def by (intro kept_intros kept_begins)
qed

lemma kept_register: "kept (register_agent agent_id key)"
  unfolding register_agent_def by (rule kept_modify) simp

lemma kept_ensure: "kept (ensure_replicated sv r)"
  unfolding ensure_replicated_def by (intro kept_intros kept_replicate)

lemma kept_verify: "kept (verify_recorder sv)"
  unfolding verify_recorder_def by (intro kept_intros)

end

text \<open>
  A record submitted to the recorder: what the checks may write keeps the first condition, and the
  record itself ends in the second.
\<close>

lemma record_event_leads:
  assumes inv: "log_invariant sv J0 ok" and weaker: "\<And>t. J0 t \<Longrightarrow> J t"
    and step: "\<And>ev who. leads (\<lambda>s. J0 (log_text s)) (\<lambda>s. J (log_text s))
       (append_record sv ev p (Some who) (map_option (\<lambda>g. JStr (tohex g)) signature) c)"
  shows "leads (\<lambda>s. J0 (log_text s)) (\<lambda>s. J (log_text s)) (record_event sv event_type p agent_id signature c)"
proof -
  note kept = log_invariant.kept_authority[OF inv] log_invariant.kept_signature[OF inv]
  note kept' = kept[unfolded log_invariant.kept_def[OF inv]]
  show ?thesis
    unfolding record_event_def Let_def
    by (intro leads_get_bind leads_cases leads_bind kept' step weaker)
       (auto intro!: leads_keeps keep_intros keeps_raise intro: weaker)
qed

subsection \<open>The log only grows\<close>

interpretation grows: log_invariant sv "\<lambda>t. \<exists>u. t = t0 @ u" "\<lambda>r. True" for sv :: "'w prov_services" and t0
  by unfold_locales (auto simp: append_assoc)

lemma append_core_prev:
  assumes "append_core sv ev p a g c s = (s', Inr (Some r))"
  shows "kw r ''prev_hash'' = JStr (pv_prev_hash s) \<and> kw r ''seq'' = JInt (pv_seq s + 1)"
proof -
  let ?s2 = "s\<lparr>pv_seq := pv_seq s + 1, pv_world := fst (ps_now sv (pv_world s))\<rparr>"
  let ?r0 = "build_record ?s2 (snd (ps_now sv (pv_world s))) ev p a g c"
  obtain s1 r1 f s3 s4 where sign: "sign_record sv ?r0 ?s2 = (s1, Inr r1)"
    and rest: "(case f of
         Some e \<Rightarrow> exec_bind (handle_sink_failure e) (\<lambda>_. exec_ret None)
       | None \<Rightarrow> exec_bind (case ps_push sv of None \<Rightarrow> exec_ret True | Some push \<Rightarrow> replicate_record sv push r1) (\<lambda>_.
           exec_bind (exec_modify (\<lambda>s. s\<lparr>pv_since_seal := pv_since_seal s + 1\<rparr>)) (\<lambda>_. exec_ret (Some r1)))) s3 = (s4, Inr (Some r))"
    using assms unfolding append_core_def
    by (elim exec_bind_InrE) (auto simp: exec_simps outside_op_def split_beta)
  have "r1 = r" using rest by (auto simp: exec_simps split: option.splits elim!: exec_bind_InrE)
  moreover have "\<exists>x. r1 \<in> {?r0, ?r0 @ [(''recorder_sig'', JStr x)]}"
    using sign by (auto simp: sign_record_def exec_bind_def exec_simps outside_op_def recorder_raise_def split: if_splits prod.splits sum.splits)
  ultimately show ?thesis by (auto simp: kw_signed build_record_fields)
qed

text \<open>A record the recorder returns is the first line added to the log.\<close>

definition added_line :: "json_object \<Rightarrow> pystr \<Rightarrow> pystr \<Rightarrow> bool" where
  "added_line r t t' \<longleftrightarrow> (\<exists>post. t' = t @ record_line r @ post)"

lemma keeps_line:
  assumes "\<And>t0. keeps (\<lambda>s. \<exists>u. log_text s = t0 @ u) m" "m s = (s', x)" "added_line r t (log_text s)"
  shows "added_line r t (log_text s')"
proof -
  have "\<exists>u. log_text (fst (m s)) = log_text s @ u" using keepsD[OF assms(1)[of "log_text s"]] by simp
  with assms(2,3) show ?thesis unfolding added_line_def by (metis append_assoc fst_conv)
qed

lemma append_core_line:
  assumes "append_core sv ev p a g c s = (s', Inr (Some r))"
  shows "added_line r (log_text s) (log_text s') \<and> built ev p a g c r"
proof -
  obtain r0 s0 s1 f s2 s3 where sign: "r0 = build_record s0 (snd (ps_now sv (pv_world s))) ev p a g c"
      "sign_record sv r0 s0 = (s1, Inr r)" "write_line sv r s2 = (s3, Inr f)" "log_text s0 = log_text s" "log_text s2 = log_text s1"
    and rest: "(case f of
         Some e \<Rightarrow> exec_bind (handle_sink_failure e) (\<lambda>_. exec_ret None)
       | None \<Rightarrow> exec_bind (case ps_push sv of None \<Rightarrow> exec_ret True | Some push \<Rightarrow> replicate_record sv push r) (\<lambda>_.
           exec_bind (exec_modify (\<lambda>s. s\<lparr>pv_since_seal := pv_since_seal s + 1\<rparr>)) (\<lambda>_. exec_ret (Some r)))) s3 = (s', Inr (Some r))"
    using assms unfolding append_core_def
    by (elim exec_bind_InrE)
       (auto simp: exec_simps outside_op_def split_beta advance_chain_def log_text_def split: option.splits
         elim!: exec_bind_InrE)
  have "built ev p a g c r" using sign_record_built sign(1,2) by blast
  moreover have "f = None" using rest by (auto simp: exec_simps split: option.splits elim!: exec_bind_InrE)
  moreover from this have "added_line r (log_text s) (log_text s3)"
    using write_line_returned[of sv r s2 s3] sign sign_record_built[of sv s0 _ ev p a g c s0 s1] unfolding added_line_def
    by (metis append_Nil2)
  ultimately show ?thesis
    using rest keeps_line[OF grows.kept_after_write[unfolded grows.kept_def]] by auto
qed

lemma append_record_line:
  assumes "append_record sv ev p a g c s = (s', Inr (Some r))"
  shows "added_line r (log_text s) (log_text s') \<and> built ev p a g c r"
proof -
  obtain s1 r1 where core: "append_core sv ev p a g c s = (s1, Inr (Some r1))"
    and rest: "exec_bind (exec_get (\<lambda>s. pv_seal_interval s \<le> pv_since_seal s)) (\<lambda>due.
           if due \<and> ev \<noteq> MERKLE_SEAL then exec_bind (write_merkle_seal sv False) (\<lambda>_. exec_ret (Some r1))
           else exec_ret (Some r1)) s1 = (s', Inr (Some r))"
    using assms unfolding append_record_def
    by (elim exec_bind_InrE) (auto simp: exec_simps split: option.splits)
  have "r1 = r" using rest by (auto simp: exec_get_bind exec_simps split: if_splits elim!: exec_bind_InrE)
  have "keeps (\<lambda>s. \<exists>u. log_text s = t0 @ u) (exec_bind (exec_get (\<lambda>s. pv_seal_interval s \<le> pv_since_seal s)) (\<lambda>due.
           if due \<and> ev \<noteq> MERKLE_SEAL then exec_bind (write_merkle_seal sv False) (\<lambda>_. exec_ret (Some r1))
           else exec_ret (Some r1)))" for t0
    by (intro keep_intros keeps_get_bind keeps_bind grows.kept_seal[unfolded grows.kept_def])
  from keeps_line[of _ s1 s' _ r, OF this rest] append_core_line[OF core] \<open>r1 = r\<close> show ?thesis by simp
qed

lemma check_unwritten:
  "check_event_authority sv ev who s = (s', Inr u) \<Longrightarrow> s' = s" "check_signature ev who p g s = (s', Inr u) \<Longrightarrow> s' = s"
  unfolding check_event_authority_def check_signature_def violation_def exec_get_bind recorder_raise_def
  by (auto simp: exec_simps exec_get_bind split: if_splits option.splits elim!: exec_bind_InrE)

lemma record_event_line:
  assumes "record_event sv event_type p agent_id signature c s = (s', Inr (Some r))"
  obtains ev who where "event_of event_type = Some ev" "added_line r (log_text s) (log_text s')"
    "built ev p (Some who) (map_option (\<lambda>g. JStr (tohex g)) signature) c r"
    "who = (case agent_id of Some a \<Rightarrow> if a = [] then pv_agent_id s else a | None \<Rightarrow> pv_agent_id s)"
  using assms unfolding record_event_def Let_def exec_get_bind
  by (auto simp: exec_simps recorder_raise_def split: if_splits option.splits elim!: exec_bind_InrE
      dest!: append_record_line check_unwritten)

lemma append_record_prev:
  "append_record sv ev p a g c s = (s', Inr (Some r)) \<Longrightarrow> kw r ''prev_hash'' = JStr (pv_prev_hash s) \<and> kw r ''seq'' = JInt (pv_seq s + 1)"
  unfolding append_record_def
  by (auto simp: exec_simps exec_get_bind split: option.splits if_splits elim!: exec_bind_InrE dest!: append_core_prev)

subsection \<open>Service records\<close>

text \<open>The request a record carries, and that of the corroboration it was built with.\<close>

definition corroboration_id :: "json \<Rightarrow> json option" where
  "corroboration_id c =
     (case c of
        JObj d \<Rightarrow> (case map_of d ''provenance_service'' of Some (JObj m) \<Rightarrow> Some (kw m ''request_id'') | _ \<Rightarrow> None)
      | _ \<Rightarrow> None)"

definition service_id :: "json_object \<Rightarrow> json option" where
  "service_id r = corroboration_id (kw r ''os_corroboration'')"

definition service_ids :: "json_object list \<Rightarrow> json list" where
  "service_ids rs = List.map_filter service_id rs"

lemma service_ids_simps [simp]:
  "service_ids [] = []" "service_ids (r # rs) = (case service_id r of Some i \<Rightarrow> i # service_ids rs | None \<Rightarrow> service_ids rs)"
  "service_ids (rs @ qs) = service_ids rs @ service_ids qs"
  by (simp_all add: service_ids_def map_filter_def split: option.split)

definition given_id :: "json option \<Rightarrow> json list" where
  "given_id c = (case c of Some v \<Rightarrow> (case corroboration_id v of Some i \<Rightarrow> [i] | None \<Rightarrow> []) | None \<Rightarrow> [])"

lemma built_service:
  assumes "built ev p a g c r"
  shows "service_ids [r] = given_id c" "wf_arguments p g c \<Longrightarrow> wf_json (JObj r)"
proof -
  obtain s now x where "r \<in> {build_record (s :: unit prov) now ev p a g c, build_record s now ev p a g c @ [(''recorder_sig'', JStr x)]}"
    using assms unfolding built_def by blast
  then have "kw r ''os_corroboration'' = (case c of Some v \<Rightarrow> v | None \<Rightarrow> JNull)" "wf_arguments p g c \<Longrightarrow> wf_json (JObj r)"
    by (auto simp: kw_signed build_record_fields build_record_unsigned intro: build_record_wf wf_signed simp del: wf_json.simps)
  then show "service_ids [r] = given_id c" "wf_arguments p g c \<Longrightarrow> wf_json (JObj r)"
    by (auto simp: service_id_def given_id_def corroboration_id_def split: option.split simp del: wf_json.simps)
qed

lemma plain_given: "plain_corroboration c \<Longrightarrow> given_id c = []"
  by (auto simp: plain_corroboration_def given_id_def corroboration_id_def split: option.splits json.splits)

text \<open>A disk that takes lines whole or not at all.\<close>

definition whole_lines :: "'w prov_services \<Rightarrow> bool" where
  "whole_lines sv \<longleftrightarrow> (\<forall>w e n. snd (ps_write sv w) = Some (e, n) \<longrightarrow> n = 0)"

definition adds :: "json_object list \<Rightarrow> json list set \<Rightarrow> pystr \<Rightarrow> bool" where
  "adds rs X t \<longleftrightarrow> (\<exists>more. t = log_of (rs @ more) \<and> list_all (\<lambda>r. wf_json (JObj r)) more \<and> service_ids more \<in> X)"

lemma adds_start: "[] \<in> X \<Longrightarrow> adds rs X (log_of rs)"
  unfolding adds_def by (intro exI[of _ "[]"]) simp

lemma taken_whole: "whole_lines sv \<Longrightarrow> taken sv w r = record_line r \<or> taken sv w r = []"
  by (cases "snd (ps_write sv w)") (auto simp: whole_lines_def taken_def)

lemma adds_write:
  assumes "adds rs {xs} t" "whole_lines sv" "wf_json (JObj r)"
  shows "adds rs {xs, xs @ service_ids [r]} (t @ taken sv w r)"
proof -
  obtain more where more: "t = log_of (rs @ more)" "list_all (\<lambda>r. wf_json (JObj r)) more" "service_ids more = xs"
    using assms(1) by (auto simp: adds_def)
  from taken_whole[OF assms(2), of w r] show ?thesis
  proof
    assume "taken sv w r = record_line r"
    with more assms(3) show ?thesis
      unfolding adds_def by (intro exI[of _ "more @ [r]"]) (simp del: wf_json.simps service_ids_simps(2))
  next
    assume "taken sv w r = []"
    with more show ?thesis unfolding adds_def by (intro exI[of _ more]) (simp del: wf_json.simps)
  qed
qed

lemma adds_cases: "adds rs X t \<longleftrightarrow> (\<exists>xs\<in>X. adds rs {xs} t)"
  by (auto simp: adds_def)

interpretation services: log_invariant sv "\<lambda>t. whole_lines sv \<longrightarrow> adds rs X t" "\<lambda>r. wf_json (JObj r) \<and> service_ids [r] = []"
  for sv :: "'w prov_services" and rs X
proof
  fix t r and w :: 'w
  assume "whole_lines sv \<longrightarrow> adds rs X t" "wf_json (JObj r) \<and> service_ids [r] = []"
  then show "whole_lines sv \<longrightarrow> adds rs X (t @ taken sv w r)"
    using adds_write[of rs _ t sv r w] adds_cases[of rs X] adds_cases[of rs X t]
    by (metis append_Nil2 insert_absorb2)
next
  fix s :: "'w prov" and now receipt
  show "wf_json (JObj (ack_record s now receipt)) \<and> service_ids [ack_record s now receipt] = []"
    using ack_record_is_ack(2)[of s now receipt]
    by (simp add: service_id_def ack_record_def kw_def dict_get_def corroboration_id_def)
next
  fix ev p a g c r
  assume "built ev p a g c r" "wf_arguments p g c" "plain_corroboration c"
  then show "wf_json (JObj r) \<and> service_ids [r] = []" using built_service plain_given by metis
qed

lemma service_append_leads:
  fixes sv :: "'w prov_services"
  assumes "wf_arguments p g c"
  shows "leads (\<lambda>s. whole_lines sv \<longrightarrow> adds rs {[]} (log_text s)) (\<lambda>s. whole_lines sv \<longrightarrow> adds rs {[], given_id c} (log_text s))
    (append_record sv ev p a g c)"
proof (rule services.append_record_leads, unfold leads_def, intro allI impI)
  fix s :: "'w prov" assume s: "whole_lines sv \<longrightarrow> adds rs {[]} (log_text s)" and w: "whole_lines sv"
  have "whole_lines sv \<longrightarrow> adds rs {[], given_id c} (log_text (fst (append_core sv ev p a g c s)))"
  proof (rule services.append_core_after)
    fix r w assume "built ev p a g c r"
    with s built_service assms show "whole_lines sv \<longrightarrow> adds rs {[], given_id c} (log_text s @ taken sv w r)"
      using adds_write[of rs "[]" "log_text s" sv r w] by fastforce
  next
    show "whole_lines sv \<longrightarrow> adds rs {[], given_id c} (log_text s)" using s by (auto simp: adds_def)
  qed
  with w show "adds rs {[], given_id c} (log_text (fst (append_core sv ev p a g c s)))" by simp
qed

lemma service_record_leads:
  assumes "wf_json (JObj (payload_of p))" "case c of Some v \<Rightarrow> wf_json v | None \<Rightarrow> True"
  shows "leads (\<lambda>s. whole_lines sv \<longrightarrow> adds rs {[]} (log_text s)) (\<lambda>s. whole_lines sv \<longrightarrow> adds rs {[], given_id c} (log_text s))
    (record_event sv event_type p agent_id signature c)"
proof (rule record_event_leads[OF services.log_invariant_axioms])
  have "wf_arguments p (map_option (\<lambda>g. JStr (tohex g)) signature) c"
    using assms by (simp add: wf_arguments_def split: option.split)
  then show "leads (\<lambda>s. whole_lines sv \<longrightarrow> adds rs {[]} (log_text s)) (\<lambda>s. whole_lines sv \<longrightarrow> adds rs {[], given_id c} (log_text s))
     (append_record sv ev p (Some who) (map_option (\<lambda>g. JStr (tohex g)) signature) c)" for ev who
    by (rule service_append_leads)
qed (auto simp: adds_def)

text \<open>Lines determine their records.\<close>

lemma first_line:
  assumes "record_line r @ post = log_of qs" "wf_json (JObj r)" "list_all (\<lambda>r. wf_json (JObj r)) qs"
  shows "\<exists>ms. qs = r # ms"
proof (cases qs)
  case Nil
  with assms(1) show ?thesis by (simp add: record_line_def)
next
  case (Cons m ms)
  have "line_of r @ CHR 0x0A # post = line_of m @ CHR 0x0A # log_of ms"
    using assms(1) Cons by (simp add: log_of_def record_line_def line_of_def del: plain_dumps.simps)
  then have "takeWhile (\<lambda>c. c \<noteq> CHR 0x0A) (line_of r @ CHR 0x0A # post) = takeWhile (\<lambda>c. c \<noteq> CHR 0x0A) (line_of m @ CHR 0x0A # log_of ms)"
    by simp
  moreover have "takeWhile (\<lambda>c. c \<noteq> CHR 0x0A) (line_of x @ CHR 0x0A # y) = line_of x" for x y
    using line_clean(1)[of x] by (simp add: takeWhile_append2 list_all_iff)
  ultimately have "line_of r = line_of m" by simp
  with assms(2,3) Cons have "JObj r = JObj m" by (metis list.pred_inject(2) loads_line option.inject)
  then show ?thesis using Cons by simp
qed

end
