(* ===== verification/ProvenanceCore.thy ===== *)
theory ProvenanceCore
  imports ProvenanceIpc
begin

text \<open>
  \<open>enterprise/provenance_service_core.py\<close>: the service that authorises a signed request, appends it
  to the ledger of its session and remembers the receipt. The state is the two tables of the
  request store, the recorders in memory, the session files and the outside world; a restart keeps
  all but the recorders. A transaction that raises, or whose \<open>COMMIT\<close> fails, leaves the tables as
  they were. The recorder factory, the commit callback and SQLite's own failures are services.
\<close>

datatype core_error = Protocol ipc_error | Unavailable pystr | RecorderFailed prov_error | OutsideFailed pystr

record 'w core_services =
  cs_prov :: "'w prov_services"
  cs_factory :: "pystr \<Rightarrow> pystr option \<Rightarrow> pystr option \<Rightarrow> 'w \<Rightarrow> 'w \<times> (pystr + 'w prov)"
  cs_now_ms :: "'w \<Rightarrow> 'w \<times> int"
  cs_begin :: "'w \<Rightarrow> 'w \<times> pystr option"
  cs_commit :: "'w \<Rightarrow> 'w \<times> pystr option"
  cs_on_commit :: "('w \<Rightarrow> pystr \<Rightarrow> 'w \<times> pystr option) option"
  cs_agent_id :: pystr
  cs_sign :: "bytes \<Rightarrow> pystr + bytes"
  cs_freshness :: int
  cs_registry :: enrollment_registry

record 'w core =
  co_nonces :: "((pystr \<times> pystr) \<times> int) list"
  co_receipts :: "(pystr \<times> pystr \<times> pystr \<times> int) list"
  co_recorders :: "(pystr \<times> 'w prov) list"
  co_files :: "(pystr \<times> pystr) list"
  co_world :: 'w

type_synonym ('w, 'a) core_op = "('w core, core_error, 'a) exec"

definition AGENT_EVENTS :: "session_event list" where
  "AGENT_EVENTS =
     [TOOL_CALL, TOOL_RESULT, SHELL_EXEC, FILE_WRITE, FILE_READ, NETWORK_REQUEST, AGENT_SPAWN, AGENT_HANDOFF, MESH_MESSAGE,
      APPROVAL_REQUEST]"

definition SUPERVISOR_EVENTS :: "session_event list" where
  "SUPERVISOR_EVENTS = [APPROVAL_GRANTED, APPROVAL_DENIED, POLICY_LOADED, AUDIT_MODE_CHANGE, TELEMETRY_GAP, OS_EVENT]"

definition core_outside :: "('w \<Rightarrow> 'w \<times> 'a) \<Rightarrow> ('w, 'a) core_op" where
  "core_outside f s = (case f (co_world s) of (w, x) \<Rightarrow> (s\<lparr>co_world := w\<rparr>, Inr x))"

definition as_protocol :: "ipc_error + 'a \<Rightarrow> core_error + 'a" where
  "as_protocol r = (case r of Inl e \<Rightarrow> Inl (Protocol e) | Inr x \<Rightarrow> Inr x)"

definition rejected :: "pystr \<Rightarrow> core_error" where
  "rejected code = Protocol (Rejected code)"

text \<open>The service over empty tables and no files.\<close>

definition core_init :: "'w \<Rightarrow> 'w core" where
  "core_init w = \<lparr>co_nonces = [], co_receipts = [], co_recorders = [], co_files = [], co_world = w\<rparr>"

subsection \<open>The request store\<close>

definition load_receipt :: "core_error \<Rightarrow> (pystr \<times> pystr \<times> int) option \<Rightarrow> core_error + (pystr \<times> json_object) option" where
  "load_receipt corrupt row =
     (case row of
        None \<Rightarrow> Inr None
      | Some (digest, response, at) \<Rightarrow>
          (case json_loads response of
             None \<Rightarrow> Inl corrupt
           | Some (JObj d) \<Rightarrow> Inr (Some (digest, d))
           | Some _ \<Rightarrow> Inl (Unavailable ''stored provenance receipt has invalid shape'')))"

definition store_receipt :: "pystr \<Rightarrow> ('w, (pystr \<times> json_object) option) core_op" where
  "store_receipt request_id = exec_bind (exec_get (\<lambda>s. map_of (co_receipts s) request_id)) (\<lambda>row.
     exec_of (load_receipt (Unavailable ''stored provenance receipt is corrupt'') row))"

definition transaction :: "'w core_services \<Rightarrow> ('w, 'a) core_op \<Rightarrow> ('w, 'a) core_op" where
  "transaction cs m s =
     (case core_outside (cs_begin cs) s of
        (s1, Inl e) \<Rightarrow> (s1, Inl e)
      | (s1, Inr (Some e)) \<Rightarrow> (s1, Inl (OutsideFailed e))
      | (s1, Inr None) \<Rightarrow>
          (let rollback = (\<lambda>s'. s'\<lparr>co_nonces := co_nonces s1, co_receipts := co_receipts s1\<rparr>) in
           case m s1 of
             (s2, Inl e) \<Rightarrow> (rollback s2, Inl e)
           | (s2, Inr x) \<Rightarrow>
               (case cs_commit cs (co_world s2) of
                  (w, Some e) \<Rightarrow> (rollback (s2\<lparr>co_world := w\<rparr>), Inl (OutsideFailed e))
                | (w, None) \<Rightarrow> (s2\<lparr>co_world := w\<rparr>, Inr x))))"

definition prune :: "int \<Rightarrow> ('w, unit) core_op" where
  "prune now = exec_modify (\<lambda>s. s\<lparr>co_nonces := filter (\<lambda>row. now \<le> snd row) (co_nonces s)\<rparr>)"

definition transaction_receipt :: "pystr \<Rightarrow> ('w, (pystr \<times> json_object) option) core_op" where
  "transaction_receipt request_id = exec_bind (exec_get (\<lambda>s. map_of (co_receipts s) request_id)) (\<lambda>row.
     exec_of (load_receipt (OutsideFailed ''JSONDecodeError'') row))"

definition consume_nonce :: "pystr \<Rightarrow> pystr \<Rightarrow> int \<Rightarrow> ('w, bool) core_op" where
  "consume_nonce agent_id nonce expires =
     exec_bind (exec_get (\<lambda>s. map_of (co_nonces s) (agent_id, nonce) = None)) (\<lambda>fresh.
     exec_bind (exec_modify (\<lambda>s. if fresh then s\<lparr>co_nonces := co_nonces s @ [((agent_id, nonce), expires)]\<rparr> else s)) (\<lambda>_.
     exec_ret fresh))"

definition save_receipt :: "pystr \<Rightarrow> pystr \<Rightarrow> json_object \<Rightarrow> int \<Rightarrow> ('w, unit) core_op" where
  "save_receipt request_id digest response committed_at =
     exec_modify (\<lambda>s.
       if map_of (co_receipts s) request_id = None
       then s\<lparr>co_receipts := co_receipts s @ [(request_id, digest, dumps True (JObj response), committed_at)]\<rparr> else s)"

subsection \<open>Recorders\<close>

text \<open>A call of a recorder's method: the recorder reads and writes its session's file and the world.\<close>

definition run_on :: "pystr \<Rightarrow> ('w, 'a) prov_op \<Rightarrow> 'w prov \<Rightarrow> 'w core \<Rightarrow> 'w core \<times> 'w prov \<times> (core_error + 'a)" where
  "run_on sid m r s =
     (case m (r\<lparr>pv_log := map_of (co_files s) sid, pv_world := co_world s\<rparr>) of
        (r', x) \<Rightarrow>
          (s\<lparr>co_files := (case pv_log r' of None \<Rightarrow> AList.delete sid (co_files s) | Some t \<Rightarrow> AList.update sid t (co_files s)),
             co_world := pv_world r'\<rparr>,
           r', case x of Inl e \<Rightarrow> Inl (RecorderFailed e) | Inr y \<Rightarrow> Inr y))"

definition on_recorder :: "pystr \<Rightarrow> ('w, 'a) prov_op \<Rightarrow> ('w, 'a) core_op" where
  "on_recorder sid m s =
     (case map_of (co_recorders s) sid of
        None \<Rightarrow> (s, Inl (Unavailable ''no recorder''))
      | Some r \<Rightarrow>
          (case run_on sid m r s of
             (s', r', x) \<Rightarrow> (s'\<lparr>co_recorders := AList.update sid r' (co_recorders s')\<rparr>, x)))"

fun register_all :: "'w prov_services \<Rightarrow> agent_enrollment list \<Rightarrow> ('w, unit) prov_op" where
  "register_all sv [] = exec_ret ()"
| "register_all sv (en # ens) =
     exec_bind (register_agent (en_agent_id en) (Some (recorder_public_key sv en))) (\<lambda>_. register_all sv ens)"

definition prepare_recorder :: "'w prov_services \<Rightarrow> enrollment_registry \<Rightarrow> ('w, unit) prov_op" where
  "prepare_recorder sv er =
     exec_bind (exec_get pv_started) (\<lambda>started.
     exec_bind (if started then exec_ret () else start sv False) (\<lambda>_. register_all sv (registry_enrollments er)))"

definition new_recorder :: "'w core_services \<Rightarrow> pystr \<Rightarrow> ('w, unit) core_op" where
  "new_recorder cs sid =
     exec_bind (exec_get (\<lambda>s. map_of (co_files s) sid)) (\<lambda>file.
     exec_bind (core_outside (cs_factory cs sid (er_supervisor_id (cs_registry cs)) file)) (\<lambda>made.
       case made of
         Inl e \<Rightarrow> exec_raise (OutsideFailed e)
       | Inr r \<Rightarrow>
           if \<not> fail_closed (pv_mode r)
           then exec_raise (Unavailable ''dedicated service requires enterprise or military audit mode'')
           else (\<lambda>s. case run_on sid (prepare_recorder (cs_prov cs) (cs_registry cs)) r s of
               (s', r', Inl e) \<Rightarrow> (s', Inl e)
             | (s', r', Inr _) \<Rightarrow> (s'\<lparr>co_recorders := AList.update sid r' (co_recorders s')\<rparr>, Inr ()))))"

definition recorder_for :: "'w core_services \<Rightarrow> pystr \<Rightarrow> ('w, unit) core_op" where
  "recorder_for cs sid =
     exec_bind (exec_get (\<lambda>s. map_of (co_recorders s) sid = None)) (\<lambda>missing.
       if missing then new_recorder cs sid else exec_ret ())"

subsection \<open>Receipts\<close>

definition stored_receipt :: "(pystr \<times> json_object) option \<Rightarrow> verified_request \<Rightarrow> core_error + json_object option" where
  "stored_receipt stored vq =
     (case stored of
        None \<Rightarrow> Inr None
      | Some (digest, response) \<Rightarrow>
          if digest \<noteq> vq_request_hash vq then Inl (rejected ''idempotency_conflict'')
          else Inr (Some (AList.update ''status'' (JStr ''already_committed'') response)))"

definition receipt_from_record :: "'w prov_services \<Rightarrow> json_object \<Rightarrow> pystr \<Rightarrow> int \<Rightarrow> json_object" where
  "receipt_from_record sv r request_id now =
     [(''ok'', JBool True),
      (''receipt'', JObj [(''event_type'', kw r ''event_type''), (''record_hash'', JStr (canonical_hash sv r)),
          (''seq'', kw r ''seq''), (''session_id'', kw r ''session_id'')]),
      (''request_id'', JStr request_id), (''server_ts_ms'', JInt now), (''status'', JStr ''committed''),
      (''version'', JStr PROTOCOL_VERSION)]"

text \<open>\<open>d.get(k, {})\<close> that must be a dictionary: anything else has no \<open>get\<close>.\<close>

definition sub_object :: "json_object \<Rightarrow> pystr \<Rightarrow> core_error + json_object" where
  "sub_object d k = (case dict_get d k (JObj []) of JObj m \<Rightarrow> Inr m | _ \<Rightarrow> Inl (OutsideFailed ''AttributeError''))"

definition request_metadata :: "json \<Rightarrow> core_error + json_object" where
  "request_metadata v =
     (case v of
        JObj r \<Rightarrow> bind_result (sub_object r ''os_corroboration'') (\<lambda>c. sub_object c ''provenance_service'')
      | _ \<Rightarrow> Inl (OutsideFailed ''AttributeError''))"

fun find_request :: "verified_request \<Rightarrow> pystr list \<Rightarrow> json_object option \<Rightarrow> core_error + json_object option" where
  "find_request vq [] found = Inr found"
| "find_request vq (l # ls) found =
     (if strip l = [] then find_request vq ls found
      else case json_loads l of
        None \<Rightarrow> Inl (Unavailable ''provenance chain contains malformed JSON'')
      | Some v \<Rightarrow> bind_result (request_metadata v) (\<lambda>m.
          if kw m ''request_id'' \<noteq> JStr (vq_request_id vq) then find_request vq ls found
          else if kw m ''request_hash'' \<noteq> JStr (vq_request_hash vq) then Inl (rejected ''idempotency_conflict'')
          else if found \<noteq> None then Inl (Unavailable ''duplicate request_id exists in authoritative ledger'')
          else find_request vq ls (Some (members v))))"

definition recover_record :: "'w core_services \<Rightarrow> verified_request \<Rightarrow> ('w, json_object option) core_op" where
  "recover_record cs vq =
     (let sid = vq_session_id vq; sv = cs_prov cs in
      exec_bind (on_recorder sid (verify_recorder sv)) (\<lambda>v.
      exec_bind (exec_check (vr_ok v) (Unavailable ''cannot reconcile against an invalid provenance chain'')) (\<lambda>_.
      exec_bind (on_recorder sid (outside_op (ps_read sv))) (\<lambda>f.
      exec_bind (exec_get (\<lambda>s. map_of (co_files s) sid)) (\<lambda>file.
        case (f, file) of
          (None, Some content) \<Rightarrow> exec_of (find_request vq (text_lines content) None)
        | _ \<Rightarrow> exec_raise (Unavailable ''cannot read provenance chain for reconciliation''))))))"

subsection \<open>One request\<close>

definition service_metadata :: "verified_request \<Rightarrow> pystr \<Rightarrow> json_object" where
  "service_metadata vq caller_sid =
     [(''agent_algorithm'', JStr (en_algorithm (vq_enrollment vq))), (''agent_key_version'', JInt 1),
      (''agent_public_key_hex'', JStr (tohex (en_public_key (vq_enrollment vq)))), (''caller_sid'', JStr caller_sid),
      (''issued_at_ms'', JInt (vq_issued_at_ms vq)), (''nonce'', JStr (vq_nonce vq)), (''operation'', JStr ''record''),
      (''protocol_version'', JStr PROTOCOL_VERSION), (''request_hash'', JStr (vq_request_hash vq)),
      (''request_id'', JStr (vq_request_id vq)), (''request_signature'', JStr (tohex (vq_request_signature vq)))]"

definition service_corroboration :: "verified_request \<Rightarrow> pystr \<Rightarrow> json" where
  "service_corroboration vq caller_sid =
     JObj ([(''provenance_service'', JObj (service_metadata vq caller_sid))]
       @ (case vq_os_corroboration vq of Some c \<Rightarrow> [(''client'', JObj c)] | None \<Rightarrow> []))"

definition run_on_commit :: "'w core_services \<Rightarrow> pystr \<Rightarrow> ('w, unit) core_op" where
  "run_on_commit cs sid =
     (case cs_on_commit cs of
        None \<Rightarrow> exec_ret ()
      | Some f \<Rightarrow> exec_bind (core_outside (\<lambda>w. f w sid)) (\<lambda>e.
          case e of None \<Rightarrow> exec_ret () | Some t \<Rightarrow> exec_raise (OutsideFailed t)))"

definition respond :: "'w core_services \<Rightarrow> json_object \<Rightarrow> ('w, json_object) core_op" where
  "respond cs response = exec_of (as_protocol (sign_service_response (cs_agent_id cs) (cs_sign cs) response))"

definition commit_recovered :: "'w core_services \<Rightarrow> verified_request \<Rightarrow> int \<Rightarrow> json_object \<Rightarrow> ('w, json_object) core_op" where
  "commit_recovered cs vq now r =
     (let sid = vq_session_id vq; sv = cs_prov cs; response = receipt_from_record sv r (vq_request_id vq) now in
      exec_bind (on_recorder sid (ensure_replicated sv r)) (\<lambda>_.
      exec_bind (run_on_commit cs sid) (\<lambda>_.
      exec_bind (save_receipt (vq_request_id vq) (vq_request_hash vq) response now) (\<lambda>_.
      respond cs (AList.update ''status'' (JStr ''already_committed'') response)))))"

definition commit_new :: "'w core_services \<Rightarrow> verified_request \<Rightarrow> pystr \<Rightarrow> int \<Rightarrow> ('w, json_object) core_op" where
  "commit_new cs vq caller_sid now =
     (let sid = vq_session_id vq; sv = cs_prov cs in
      exec_bind (consume_nonce (en_agent_id (vq_enrollment vq)) (vq_nonce vq) (vq_issued_at_ms vq + cs_freshness cs)) (\<lambda>fresh.
      exec_bind (exec_check fresh (rejected ''replayed_nonce'')) (\<lambda>_.
      exec_bind (on_recorder sid (record_event sv (JStr (event_value (vq_event_type vq))) (Some (vq_payload vq))
          (Some (en_agent_id (vq_enrollment vq))) (Some (vq_event_signature vq)) (Some (service_corroboration vq caller_sid)))) (\<lambda>x.
      case x of
        None \<Rightarrow> exec_raise (Unavailable ''recorder did not return a committed record'')
      | Some r \<Rightarrow>
          exec_bind (run_on_commit cs sid) (\<lambda>_.
          let response = receipt_from_record sv r (vq_request_id vq) now in
          exec_bind (save_receipt (vq_request_id vq) (vq_request_hash vq) response now) (\<lambda>_. exec_ret response))))))"

text \<open>The body of the transaction: \<open>Inl\<close> a response signed inside it, \<open>Inr\<close> one to be signed after it.\<close>

definition commit_body :: "'w core_services \<Rightarrow> verified_request \<Rightarrow> pystr \<Rightarrow> int \<Rightarrow> ('w, json_object + json_object) core_op" where
  "commit_body cs vq caller_sid now =
     exec_bind (prune now) (\<lambda>_.
     exec_bind (transaction_receipt (vq_request_id vq)) (\<lambda>row.
     exec_bind (exec_of (stored_receipt row vq)) (\<lambda>stored.
       case stored of
         Some replay \<Rightarrow> exec_bind (respond cs replay) (\<lambda>x. exec_ret (Inl x))
       | None \<Rightarrow>
           exec_bind (recover_record cs vq) (\<lambda>recovered.
             case recovered of
               Some r \<Rightarrow> exec_bind (commit_recovered cs vq now r) (\<lambda>x. exec_ret (Inl x))
             | None \<Rightarrow> exec_bind (commit_new cs vq caller_sid now) (\<lambda>x. exec_ret (Inr x))))))"

definition authorise :: "'w core_services \<Rightarrow> verified_request \<Rightarrow> core_error + unit" where
  "authorise cs vq =
     (if vq_stale vq then Inl (rejected ''stale_request'')
      else if vq_event_type vq \<notin> set AGENT_EVENTS \<union> set SUPERVISOR_EVENTS then Inl (rejected ''service_internal_event'')
      else if vq_event_type vq \<in> set SUPERVISOR_EVENTS \<and> \<not> en_supervisor (vq_enrollment vq)
      then Inl (rejected ''supervisor_required'')
      else Inr ())"

definition handle_record :: "'w core_services \<Rightarrow> json_object \<Rightarrow> pystr \<Rightarrow> ('w, json_object) core_op" where
  "handle_record cs request caller_sid =
     exec_bind (core_outside (cs_now_ms cs)) (\<lambda>now.
     exec_bind (exec_of (as_protocol (verify_record_request (cs_prov cs) request (cs_registry cs) caller_sid now
         (cs_freshness cs) True))) (\<lambda>vq.
     exec_bind (store_receipt (vq_request_id vq)) (\<lambda>row.
     exec_bind (exec_of (stored_receipt row vq)) (\<lambda>stored.
       case stored of
         Some replay \<Rightarrow> respond cs replay
       | None \<Rightarrow>
           exec_bind (exec_of (authorise cs vq)) (\<lambda>_.
           exec_bind (recorder_for cs (vq_session_id vq)) (\<lambda>_.
           exec_bind (transaction cs (commit_body cs vq caller_sid now)) (\<lambda>x.
             case x of Inl signed \<Rightarrow> exec_ret signed | Inr response \<Rightarrow> respond cs response)))))))"

subsection \<open>Stopping\<close>

definition core_close :: "'w core \<Rightarrow> 'w core" where
  "core_close s = s\<lparr>co_recorders := map (map_prod id (\<lambda>r.
     if pv_started r \<and> \<not> pv_closed r then r\<lparr>pv_stop_heartbeat := True\<rparr> else r)) (co_recorders s)\<rparr>"

text \<open>The process ends, at any moment, and starts again: memory is lost, tables and files are kept.\<close>

definition core_restart :: "'w core \<Rightarrow> 'w core" where
  "core_restart s = s\<lparr>co_recorders := []\<rparr>"

end
