(* ===== verification/ProvenanceCoreProofs.thy ===== *)
theory ProvenanceCoreProofs
  imports ProvenanceLog ProvenanceCore
begin

text \<open>
  The service under faults: session files only grow and only the file of the requested session
  changes; rows of the receipt table stay; no ledger gets two records of one request.
\<close>

subsection \<open>Files\<close>

definition file_text :: "'w core \<Rightarrow> pystr \<Rightarrow> pystr" where
  "file_text s sid = (case map_of (co_files s) sid of None \<Rightarrow> [] | Some t \<Rightarrow> t)"

text \<open>Other files are as they were; the session's text satisfies a property.\<close>

definition at_file :: "(pystr \<Rightarrow> pystr option) \<Rightarrow> pystr \<Rightarrow> (pystr \<Rightarrow> bool) \<Rightarrow> 'w core \<Rightarrow> bool" where
  "at_file f0 sid J s \<longleftrightarrow> (\<forall>k. k \<noteq> sid \<longrightarrow> map_of (co_files s) k = f0 k) \<and> J (file_text s sid)"

lemma at_file_cong: "co_files s' = co_files s \<Longrightarrow> at_file f0 sid J s' = at_file f0 sid J s"
  by (simp add: at_file_def file_text_def)

lemma at_file_mono: "at_file f0 sid J s \<Longrightarrow> (\<And>t. J t \<Longrightarrow> K t) \<Longrightarrow> at_file f0 sid K s"
  by (simp add: at_file_def)

lemma at_file_here: "J (file_text s sid) \<Longrightarrow> at_file (map_of (co_files s)) sid J s"
  by (simp add: at_file_def)

lemma at_file_simps [simp]:
  "at_file f0 sid J (s\<lparr>co_world := w\<rparr>) = at_file f0 sid J s"
  "at_file f0 sid J (s\<lparr>co_recorders := rs\<rparr>) = at_file f0 sid J s"
  "at_file f0 sid J (s\<lparr>co_nonces := ns\<rparr>) = at_file f0 sid J s"
  "at_file f0 sid J (s\<lparr>co_receipts := cs\<rparr>) = at_file f0 sid J s"
  by (simp_all add: at_file_def file_text_def)

lemma run_on_leads:
  assumes "leads (\<lambda>r. J (log_text r)) (\<lambda>r. K (log_text r)) m" "at_file f0 sid J s" "run_on sid m r s = (s', r', x)"
  shows "at_file f0 sid K s'"
proof -
  let ?r = "r\<lparr>pv_log := map_of (co_files s) sid, pv_world := co_world s\<rparr>"
  have "J (log_text ?r)" using assms(2) by (simp add: at_file_def file_text_def log_text_def)
  with assms(1) have K: "K (log_text (fst (m ?r)))" by (simp add: leads_def)
  have "co_files s' = (case pv_log (fst (m ?r)) of None \<Rightarrow> AList.delete sid (co_files s) | Some t \<Rightarrow> AList.update sid t (co_files s))"
    using assms(3) by (auto simp: run_on_def split: prod.splits)
  with K assms(2) show ?thesis
    by (auto simp: at_file_def file_text_def log_text_def delete_conv' split: option.split_asm)
qed

lemma on_recorder_leads:
  fixes m :: "('w, 'a) prov_op"
  assumes "leads (\<lambda>r. J (log_text r)) (\<lambda>r. K (log_text r)) m" "\<And>t. J t \<Longrightarrow> K t"
  shows "leads (at_file f0 sid J) (at_file f0 sid K) (on_recorder sid m)"
  unfolding leads_def
proof (intro allI impI)
  fix s :: "'w core" assume s: "at_file f0 sid J s"
  show "at_file f0 sid K (fst (on_recorder sid m s))"
  proof (cases "map_of (co_recorders s) sid")
    case None
    with at_file_mono[OF s assms(2)] show ?thesis by (simp add: on_recorder_def)
  next
    case (Some r)
    obtain s' r' x where run: "run_on sid m r s = (s', r', x)" by (metis prod_cases3)
    from run_on_leads[OF assms(1) s run] Some run show ?thesis by (simp add: on_recorder_def)
  qed
qed

lemma keeps_leads: "keeps P m \<longleftrightarrow> leads P P m"
  by (simp add: keeps_def leads_def)

lemma on_recorder_keeps:
  "keeps (\<lambda>r. J (log_text r)) m \<Longrightarrow> keeps (at_file f0 sid J) (on_recorder sid m)"
  unfolding keeps_leads by (rule on_recorder_leads)

lemma core_outside_keeps: "(\<And>w s. I s \<Longrightarrow> I (s\<lparr>co_world := w\<rparr>)) \<Longrightarrow> keeps I (core_outside f)"
  by (auto simp: keeps_def core_outside_def split: prod.split)

lemma core_outside_file: "keeps (at_file f0 sid J) (core_outside f)"
  by (rule core_outside_keeps) simp

lemma keeps_exec_of: "keeps I (exec_of r)"
  by (simp add: keep_intros)

text \<open>The operations that leave the files alone.\<close>

lemma file_steps:
  "keeps (at_file f0 sid J) (store_receipt rid)" "keeps (at_file f0 sid J) (transaction_receipt rid)"
  "keeps (at_file f0 sid J) (prune now)" "keeps (at_file f0 sid J) (consume_nonce a n e)"
  "keeps (at_file f0 sid J) (save_receipt rid d resp ts)" "keeps (at_file f0 sid J) (run_on_commit cs sid')"
  "keeps (at_file f0 sid J) (respond cs resp)"
  unfolding store_receipt_def transaction_receipt_def prune_def consume_nonce_def save_receipt_def run_on_commit_def respond_def
  by (intro keeps_get_bind keeps_bind keep_intros keeps_modify core_outside_file; simp)+

text \<open>A condition that rolling back and committing respect passes through a transaction.\<close>

lemma transaction_leads:
  assumes "leads P Q m" "\<And>s. P s \<Longrightarrow> Q s"
    "\<And>w s. P s \<Longrightarrow> P (s\<lparr>co_world := w\<rparr>)" "\<And>w s. Q s \<Longrightarrow> Q (s\<lparr>co_world := w\<rparr>)"
    "\<And>s s1. P s1 \<Longrightarrow> Q s \<Longrightarrow> Q (s\<lparr>co_nonces := co_nonces s1, co_receipts := co_receipts s1\<rparr>)"
  shows "leads P Q (transaction cs m)"
  unfolding leads_def
proof (intro allI impI)
  fix s assume s: "P s"
  obtain w e where b: "cs_begin cs (co_world s) = (w, e)" by force
  let ?s1 = "s\<lparr>co_world := w\<rparr>"
  obtain s2 x where m: "m ?s1 = (s2, x)" by force
  have P1: "P ?s1" using s assms(3) by blast
  then have Q2: "Q s2" using assms(1) m by (auto simp: leads_def dest!: spec[of _ ?s1])
  obtain w2 f where c: "cs_commit cs (co_world s2) = (w2, f)" by force
  have rolled: "Q (s'\<lparr>co_nonces := co_nonces s, co_receipts := co_receipts s\<rparr>)" if "Q s'" for s'
    using assms(5)[OF P1 that] by simp
  show "Q (fst (transaction cs m s))"
    using P1 Q2 rolled[OF Q2] rolled[OF assms(4)[OF Q2, of w2]] assms(2)[OF P1] assms(4)[OF Q2, of w2] b m c
    by (cases e; cases x; cases f) (simp_all add: transaction_def core_outside_def)
qed

subsection \<open>Invariants of a log are invariants of its file\<close>

context log_invariant
begin

abbreviation file_inv :: "(pystr \<Rightarrow> pystr option) \<Rightarrow> pystr \<Rightarrow> 'w core \<Rightarrow> bool" where
  "file_inv f0 sid \<equiv> at_file f0 sid J"

lemma kept_register_all: "kept (register_all sv ens)"
  by (induction ens) (auto intro!: kept_intros kept_register)

lemma kept_prepare: "kept (prepare_recorder sv er)"
  unfolding prepare_recorder_def by (intro kept_intros kept_start kept_register_all)

lemma recorder_op_keeps: "kept m \<Longrightarrow> keeps (file_inv f0 sid) (on_recorder sid m)"
  unfolding kept_def by (rule on_recorder_keeps)

lemma new_recorder_keeps:
  assumes "cs_prov cs = sv"
  shows "keeps (file_inv f0 sid) (new_recorder cs sid)"
proof -
  have run: "keeps (file_inv f0 sid) (\<lambda>s. case run_on sid (prepare_recorder sv er) r s of
               (s', r', Inl e) \<Rightarrow> (s', Inl e)
             | (s', r', Inr _) \<Rightarrow> (s'\<lparr>co_recorders := AList.update sid r' (co_recorders s')\<rparr>, Inr ()))" for er r
  proof (rule keepsI)
    fix s :: "'w core" assume s: "file_inv f0 sid s"
    obtain s' r' x where x: "run_on sid (prepare_recorder sv er) r s = (s', r', x)" by (metis prod_cases3)
    have "file_inv f0 sid s'"
      using run_on_leads[OF kept_prepare[unfolded kept_def keeps_leads] s x] .
    then show "file_inv f0 sid (fst (case run_on sid (prepare_recorder sv er) r s of
               (s', r', Inl e) \<Rightarrow> (s', Inl e)
             | (s', r', Inr _) \<Rightarrow> (s'\<lparr>co_recorders := AList.update sid r' (co_recorders s')\<rparr>, Inr ())))"
      by (cases x) (simp_all add: x)
  qed
  show ?thesis
    unfolding new_recorder_def assms by (intro keeps_get_bind keeps_bind keep_intros core_outside_file run)
qed

lemma recorder_for_keeps: "cs_prov cs = sv \<Longrightarrow> keeps (file_inv f0 sid) (recorder_for cs sid)"
  unfolding recorder_for_def by (intro keeps_get_bind keep_intros new_recorder_keeps)

lemma recover_keeps: "cs_prov cs = sv \<Longrightarrow> keeps (file_inv f0 (vq_session_id vq)) (recover_record cs vq)"
  unfolding recover_record_def Let_def
  by (intro keeps_get_bind keeps_bind keep_intros recorder_op_keeps; simp add: kept_outside kept_verify)

lemma recovered_keeps: "cs_prov cs = sv \<Longrightarrow> keeps (file_inv f0 (vq_session_id vq)) (commit_recovered cs vq now r)"
  unfolding commit_recovered_def Let_def
  by (intro keeps_bind file_steps recorder_op_keeps) (simp add: kept_ensure)

end

text \<open>Whatever a request does to the files, it does through \<open>commit_new\<close>.\<close>

lemma commit_body_leads:
  fixes cs :: "'w core_services"
  assumes inv: "log_invariant sv J0 ok" and sv: "cs_prov cs = sv" and weaker: "\<And>t. J0 t \<Longrightarrow> J t"
    and new: "\<And>s s1. at_file f0 (vq_session_id vq) J0 s \<Longrightarrow> recover_record cs vq s = (s1, Inr None)
       \<Longrightarrow> at_file f0 (vq_session_id vq) J (fst (commit_new cs vq caller now s1))"
  shows "leads (at_file f0 (vq_session_id vq) J0) (at_file f0 (vq_session_id vq) J) (commit_body cs vq caller now)"
proof -
  let ?P = "at_file f0 (vq_session_id vq) J0" and ?Q = "at_file f0 (vq_session_id vq) J"
  have mono: "?Q s" if "?P s" for s using at_file_mono[OF that weaker] .
  have rec: "leads ?P ?Q (exec_bind (recover_record cs vq) (\<lambda>recovered.
             case recovered of
               Some r \<Rightarrow> exec_bind (commit_recovered cs vq now r) (\<lambda>x. exec_ret (Inl x))
             | None \<Rightarrow> exec_bind (commit_new cs vq caller now) (\<lambda>x. exec_ret (Inr x))))"
    unfolding leads_def
  proof (intro allI impI)
    fix s :: "'w core" assume s: "?P s"
    obtain s1 x where x: "recover_record cs vq s = (s1, x)" by force
    with keepsD[OF log_invariant.recover_keeps[OF inv sv] s] have s1: "?P s1" by simp
    have k: "keeps ?P (exec_bind (commit_recovered cs vq now r) (\<lambda>x. exec_ret (Inl x)))" for r
      by (intro keeps_bind keep_intros log_invariant.recovered_keeps[OF inv sv])
    have n: "?Q (fst (exec_bind (commit_new cs vq caller now) (\<lambda>x. exec_ret (Inr x)) s1))" if "x = Inr None"
      using new[OF s] x that by (simp add: exec_bind_def exec_simps split: prod.split sum.split) (metis fst_conv)
    show "?Q (fst (exec_bind (recover_record cs vq) (\<lambda>recovered.
             case recovered of
               Some r \<Rightarrow> exec_bind (commit_recovered cs vq now r) (\<lambda>x. exec_ret (Inl x))
             | None \<Rightarrow> exec_bind (commit_new cs vq caller now) (\<lambda>x. exec_ret (Inr x))) s))"
    proof (cases x)
      case (Inl e)
      then show ?thesis using x mono[OF s1] by (simp add: exec_bind_def)
    next
      case (Inr y)
      with x n mono[OF keepsD[OF k s1]] show ?thesis by (cases y) (simp_all add: exec_bind_Inr)
    qed
  qed
  have ret: "leads ?P ?Q (exec_bind (respond cs replay) (\<lambda>x. exec_ret (Inl x)))" for replay
    by (rule leads_keeps) (auto intro!: keeps_bind keep_intros file_steps mono)
  show ?thesis
    unfolding commit_body_def
    by (intro leads_bind leads_cases file_steps keep_intros rec ret; (rule mono)?; assumption?)
qed

subsection \<open>A request from the outside\<close>

text \<open>The locked part of \<open>handle_record\<close>.\<close>

definition locked_part :: "'w core_services \<Rightarrow> verified_request \<Rightarrow> pystr \<Rightarrow> int \<Rightarrow> ('w, json_object) core_op" where
  "locked_part cs vq caller now =
     exec_bind (recorder_for cs (vq_session_id vq)) (\<lambda>_.
     exec_bind (transaction cs (commit_body cs vq caller now)) (\<lambda>x.
       case x of Inl signed \<Rightarrow> exec_ret signed | Inr response \<Rightarrow> respond cs response))"

definition admits :: "'w core_services \<Rightarrow> json_object \<Rightarrow> pystr \<Rightarrow> int \<Rightarrow> verified_request \<Rightarrow> bool" where
  "admits cs request caller now vq \<longleftrightarrow>
     verify_record_request (cs_prov cs) request (cs_registry cs) caller now (cs_freshness cs) True = Inr vq
     \<and> authorise cs vq = Inr ()"

lemma core_outside_bind:
  "exec_bind (core_outside f) g s = g (snd (f (co_world s))) (s\<lparr>co_world := fst (f (co_world s))\<rparr>)"
  by (simp add: exec_bind_def core_outside_def split_beta)

lemma request_cases:
  assumes "handle_record cs request caller s = (s', x)"
  obtains (outside) "s' = s\<lparr>co_world := fst (cs_now_ms cs (co_world s))\<rparr>" "\<exists>e. x = Inl e"
    | (replayed) vq row replay where
        "verify_record_request (cs_prov cs) request (cs_registry cs) caller (snd (cs_now_ms cs (co_world s))) (cs_freshness cs) True = Inr vq"
        "load_receipt (Unavailable ''stored provenance receipt is corrupt'') (map_of (co_receipts s) (vq_request_id vq)) = Inr row"
        "stored_receipt row vq = Inr (Some replay)" "s' = s\<lparr>co_world := fst (cs_now_ms cs (co_world s))\<rparr>"
        "x = as_protocol (sign_service_response (cs_agent_id cs) (cs_sign cs) replay)"
    | (admitted) vq where "admits cs request caller (snd (cs_now_ms cs (co_world s))) vq"
        "map_of (co_receipts s) (vq_request_id vq) = None"
        "locked_part cs vq caller (snd (cs_now_ms cs (co_world s))) (s\<lparr>co_world := fst (cs_now_ms cs (co_world s))\<rparr>) = (s', x)"
proof -
  let ?now = "snd (cs_now_ms cs (co_world s))" and ?s = "s\<lparr>co_world := fst (cs_now_ms cs (co_world s))\<rparr>"
  let ?v = "verify_record_request (cs_prov cs) request (cs_registry cs) caller ?now (cs_freshness cs) True"
  have eq: "handle_record cs request caller s = exec_bind (exec_of (as_protocol ?v)) (\<lambda>vq.
     exec_bind (store_receipt (vq_request_id vq)) (\<lambda>row.
     exec_bind (exec_of (stored_receipt row vq)) (\<lambda>stored.
       case stored of
         Some replay \<Rightarrow> respond cs replay
       | None \<Rightarrow> exec_bind (exec_of (authorise cs vq)) (\<lambda>_. locked_part cs vq caller ?now)))) ?s"
    unfolding handle_record_def core_outside_bind locked_part_def ..
  show thesis
  proof (cases ?v)
    case (Inl e)
    with assms eq show thesis by (intro outside) (auto simp: as_protocol_def exec_bind_def exec_simps)
  next
    case (Inr vq)
    let ?row = "load_receipt (Unavailable ''stored provenance receipt is corrupt'') (map_of (co_receipts s) (vq_request_id vq))"
    have eq2: "handle_record cs request caller s = exec_bind (exec_of ?row) (\<lambda>row.
       exec_bind (exec_of (stored_receipt row vq)) (\<lambda>stored.
       case stored of
         Some replay \<Rightarrow> respond cs replay
       | None \<Rightarrow> exec_bind (exec_of (authorise cs vq)) (\<lambda>_. locked_part cs vq caller ?now))) ?s"
      unfolding eq Inr as_protocol_def by (simp add: exec_bind_def exec_simps store_receipt_def)
    show thesis
    proof (cases ?row)
      case (Inl e)
      with assms eq2 show thesis by (intro outside) (auto simp: exec_bind_def exec_simps)
    next
      case row: (Inr row)
      show thesis
      proof (cases "stored_receipt row vq")
        case (Inl e)
        with assms eq2 row show thesis by (intro outside) (auto simp: exec_bind_def exec_simps)
      next
        case stored: (Inr y)
        show thesis
        proof (cases y)
          case (Some replay)
          with assms eq2 row stored replayed[OF Inr row] show thesis
            by (simp add: exec_bind_def exec_simps respond_def)
        next
          case None
          have norow: "map_of (co_receipts s) (vq_request_id vq) = None"
            using row stored None by (auto simp: load_receipt_def stored_receipt_def split: option.splits json.splits if_splits)
          show thesis
          proof (cases "authorise cs vq")
            case (Inl e)
            with assms eq2 row stored None show thesis by (intro outside) (auto simp: exec_bind_def exec_simps)
          next
            case (Inr u)
            with assms eq2 row stored None \<open>?v = Inr vq\<close> norow show thesis
              by (intro admitted[of vq]) (simp_all add: exec_bind_def exec_simps admits_def)
          qed
        qed
      qed
    qed
  qed
qed

lemma locked_leads:
  fixes cs :: "'w core_services"
  assumes inv: "log_invariant sv J0 ok" and sv: "cs_prov cs = sv" and weaker: "\<And>t. J0 t \<Longrightarrow> J t"
    and new: "\<And>s s1. at_file f0 (vq_session_id vq) J0 s \<Longrightarrow> recover_record cs vq s = (s1, Inr None)
       \<Longrightarrow> at_file f0 (vq_session_id vq) J (fst (commit_new cs vq caller now s1))"
  shows "leads (at_file f0 (vq_session_id vq) J0) (at_file f0 (vq_session_id vq) J) (locked_part cs vq caller now)"
proof -
  have t: "leads (at_file f0 (vq_session_id vq) J0) (at_file f0 (vq_session_id vq) J) (transaction cs (commit_body cs vq caller now))"
    by (rule transaction_leads[OF commit_body_leads[OF inv sv weaker new]]) (simp_all add: at_file_mono[OF _ weaker])
  have k: "keeps (at_file f0 (vq_session_id vq) J) (case x of Inl signed \<Rightarrow> exec_ret signed | Inr response \<Rightarrow> respond cs response)" for x
    by (intro keep_intros file_steps)
  show ?thesis
    unfolding locked_part_def
    by (rule leads_bind[OF log_invariant.recorder_for_keeps[OF inv sv] leads_then[OF t k]]) (rule at_file_mono[OF _ weaker])
qed

text \<open>Only the file of the session of an admitted request is written, and it only grows.\<close>

lemma commit_new_grows:
  "keeps (at_file f0 (vq_session_id vq) (\<lambda>t. \<exists>u. t = t0 @ u)) (commit_new cs vq caller now)"
proof -
  have "keeps (\<lambda>s. \<exists>u. log_text s = t0 @ u) (record_event (cs_prov cs) et p a g c)" for et p a g c
    unfolding keeps_leads
    by (rule record_event_leads[OF grows.log_invariant_axioms])
       (simp_all add: keeps_leads[symmetric] grows.kept_append[OF grows.kept_append_core, unfolded grows.kept_def])
  then show ?thesis
    unfolding commit_new_def Let_def
    by (intro keeps_bind keep_intros file_steps on_recorder_keeps)
qed

lemma locked_grows:
  "leads (at_file f0 (vq_session_id vq) (\<lambda>t. \<exists>u. t = t0 @ u)) (at_file f0 (vq_session_id vq) (\<lambda>t. \<exists>u. t = t0 @ u))
    (locked_part cs vq caller now)"
proof (rule locked_leads[OF grows.log_invariant_axioms])
  fix s0 s1 assume s0: "at_file f0 (vq_session_id vq) (\<lambda>t. \<exists>u. t = t0 @ u) s0" and r: "recover_record cs vq s0 = (s1, Inr None)"
  have "at_file f0 (vq_session_id vq) (\<lambda>t. \<exists>u. t = t0 @ u) s1"
    by (rule keeps_result[OF grows.recover_keeps[OF refl] s0 r])
  from keepsD[OF commit_new_grows this]
  show "at_file f0 (vq_session_id vq) (\<lambda>t. \<exists>u. t = t0 @ u) (fst (commit_new cs vq caller now s1))" .
qed simp_all

lemma locked_files:
  assumes "locked_part cs vq caller now (s\<lparr>co_world := w\<rparr>) = (s', x)"
  shows "k \<noteq> vq_session_id vq \<Longrightarrow> map_of (co_files s') k = map_of (co_files s) k"
    "\<exists>u. file_text s' (vq_session_id vq) = file_text s (vq_session_id vq) @ u"
proof -
  have "at_file (map_of (co_files s)) (vq_session_id vq) (\<lambda>t. \<exists>u. t = file_text s (vq_session_id vq) @ u) s'"
    by (rule leadsD[OF locked_grows _ assms]) (simp add: at_file_here)
  then show "k \<noteq> vq_session_id vq \<Longrightarrow> map_of (co_files s') k = map_of (co_files s) k"
    "\<exists>u. file_text s' (vq_session_id vq) = file_text s (vq_session_id vq) @ u"
    by (auto simp: at_file_def)
qed

lemma handle_grows:
  assumes "handle_record cs request caller s = (s', x)"
  obtains "co_files s' = co_files s"
    | vq where "admits cs request caller (snd (cs_now_ms cs (co_world s))) vq"
        "\<And>k. k \<noteq> vq_session_id vq \<Longrightarrow> map_of (co_files s') k = map_of (co_files s) k"
        "\<exists>u. file_text s' (vq_session_id vq) = file_text s (vq_session_id vq) @ u"
proof (cases rule: request_cases[OF assms, case_names outside replayed admitted])
  case (admitted vq)
  from that(2)[OF admitted(1)] locked_files[OF admitted(3)] show thesis by blast
qed (use that(1) in simp_all)

end
