(* ===== verification/ProvenanceOnce.thy ===== *)
theory ProvenanceOnce
  imports ProvenanceCoreProofs
begin

text \<open>
  Exactly one ledger record for a request, under every fault but a torn line: the ids of the requests
  in a ledger are distinct, every receipt is backed by a record, and receipts are never lost.
\<close>

subsection \<open>Receipts stay\<close>

definition receipt_row :: "pystr \<Rightarrow> pystr \<times> pystr \<times> int \<Rightarrow> 'w core \<Rightarrow> bool" where
  "receipt_row rid row s \<longleftrightarrow> map_of (co_receipts s) rid = Some row"

lemma receipt_row_simps [simp]:
  "receipt_row rid row (s\<lparr>co_world := w\<rparr>) = receipt_row rid row s"
  "receipt_row rid row (s\<lparr>co_recorders := rs\<rparr>) = receipt_row rid row s"
  "receipt_row rid row (s\<lparr>co_nonces := ns\<rparr>) = receipt_row rid row s"
  "receipt_row rid row (s\<lparr>co_files := fs\<rparr>) = receipt_row rid row s"
  by (simp_all add: receipt_row_def)

text \<open>Recorders do not reach the tables.\<close>

lemma run_on_tables: "run_on sid m r s = (s', r', x) \<Longrightarrow> co_receipts s' = co_receipts s \<and> co_nonces s' = co_nonces s"
  by (auto simp: run_on_def split: prod.splits)

lemma on_recorder_tables: "co_receipts (fst (on_recorder sid m s)) = co_receipts s"
  by (auto simp: on_recorder_def split: option.split prod.split dest: run_on_tables)

lemma keeps_tables:
  assumes "\<And>s. co_receipts (fst (m s)) = co_receipts s" "\<And>s s'. I s \<Longrightarrow> co_receipts s' = co_receipts s \<Longrightarrow> I s'"
  shows "keeps I m"
  by (rule keepsI) (use assms in blast)

lemma outside_tables: "co_receipts (fst (core_outside f s)) = co_receipts s"
  by (simp add: core_outside_def split_beta)

lemma tables_steps:
  assumes "\<And>s s'. I s \<Longrightarrow> co_receipts s' = co_receipts s \<Longrightarrow> I s'"
  shows "keeps I (on_recorder sid m)" "keeps I (core_outside f)" "keeps I (prune now)" "keeps I (consume_nonce a n e)"
    "keeps I (store_receipt rid)" "keeps I (transaction_receipt rid)" "keeps I (run_on_commit cs sid)" "keeps I (respond cs resp)"
  unfolding prune_def consume_nonce_def store_receipt_def transaction_receipt_def respond_def run_on_commit_def
  by (intro keeps_get_bind keeps_bind keep_intros keeps_modify keeps_tables[OF on_recorder_tables assms]
      keeps_tables[OF outside_tables assms]; (erule assms)?; simp)+

lemma new_recorder_tables: "co_receipts (fst (new_recorder cs sid s)) = co_receipts s"
proof -
  have "keeps (\<lambda>s'. co_receipts s' = co_receipts s) (new_recorder cs sid)"
    unfolding new_recorder_def
    by (intro keeps_get_bind keeps_bind keep_intros tables_steps)
       (auto intro!: keepsI split: prod.split sum.split dest!: run_on_tables)
  from keepsD[OF this refl] show ?thesis .
qed

lemma row_respected: "receipt_row rid row s \<Longrightarrow> co_receipts s' = co_receipts s \<Longrightarrow> receipt_row rid row s'"
  by (simp add: receipt_row_def)

lemma save_keeps_row: "keeps (receipt_row rid row) (save_receipt rid' d resp ts)"
  unfolding save_receipt_def by (rule keeps_modify) (auto simp: receipt_row_def map_add_def split: option.split)

lemmas row_steps = tables_steps[OF row_respected] save_keeps_row

lemma recover_keeps_row: "keeps (receipt_row rid row) (recover_record cs vq)"
  unfolding recover_record_def Let_def
  by (intro keeps_get_bind keeps_bind keep_intros row_steps) (auto intro!: keep_intros split: option.split)

lemma commit_keeps_row: "keeps (receipt_row rid row) (commit_body cs vq caller now)"
  unfolding commit_body_def commit_recovered_def commit_new_def Let_def
  by (intro keeps_get_bind keeps_bind keep_intros row_steps recover_keeps_row)

lemma locked_keeps_row: "keeps (receipt_row rid row) (locked_part cs vq caller now)"
proof -
  have "keeps (receipt_row rid row) (transaction cs (commit_body cs vq caller now))"
    unfolding keeps_leads
    by (rule transaction_leads) (simp_all add: keeps_leads[symmetric] commit_keeps_row receipt_row_def)
  moreover have "keeps (receipt_row rid row) (recorder_for cs sid)" for sid
    unfolding recorder_for_def
    by (intro keeps_get_bind keep_intros keeps_tables[OF new_recorder_tables]) (erule row_respected)
  ultimately show ?thesis unfolding locked_part_def by (intro keeps_bind keep_intros row_steps)
qed

lemma handle_keeps_row:
  "receipt_row rid row s \<Longrightarrow> receipt_row rid row (fst (handle_record cs request caller s))"
proof -
  assume r: "receipt_row rid row s"
  obtain s' x where h: "handle_record cs request caller s = (s', x)" by force
  from keepsD[OF locked_keeps_row, of rid row "s\<lparr>co_world := w\<rparr>" for w] r
  show ?thesis unfolding h by (cases rule: request_cases[OF h]) (auto, metis fst_conv)
qed

subsection \<open>Looking a request up in the ledger\<close>

definition service_meta :: "json_object \<Rightarrow> json_object option" where
  "service_meta r =
     (case kw r ''os_corroboration'' of
        JObj d \<Rightarrow> (case map_of d ''provenance_service'' of Some (JObj m) \<Rightarrow> Some m | _ \<Rightarrow> None)
      | _ \<Rightarrow> None)"

lemma service_id_meta: "service_id r = map_option (\<lambda>m. kw m ''request_id'') (service_meta r)"
  by (auto simp: service_id_def corroboration_id_def service_meta_def split: json.split option.split)

lemma meta_request:
  assumes "request_metadata (JObj r) = Inr m" "kw m ''request_id'' = JStr i"
  shows "service_meta r = Some m"
proof -
  have "m \<noteq> []" using assms(2) by (auto simp: kw_def dict_get_def)
  then have nonempty: "dict_get d k (JObj []) = JObj m \<Longrightarrow> map_of d k = Some (JObj m)" for d k
    by (auto simp: dict_get_def split: option.splits)
  from assms(1) obtain c where c: "sub_object r ''os_corroboration'' = Inr c" "sub_object c ''provenance_service'' = Inr m"
    by (auto simp: request_metadata_def elim: bind_resultE)
  then have "dict_get r ''os_corroboration'' (JObj []) = JObj c" "map_of c ''provenance_service'' = Some (JObj m)"
    by (auto simp: sub_object_def split: json.splits intro: nonempty)
  moreover from this have "kw r ''os_corroboration'' = JObj c" by (auto simp: kw_def dict_get_def split: option.splits)
  ultimately show ?thesis by (simp add: service_meta_def)
qed

lemma request_meta:
  assumes "service_meta r = Some m"
  shows "request_metadata (JObj r) = Inr m"
proof -
  obtain d where "kw r ''os_corroboration'' = JObj d" "map_of d ''provenance_service'' = Some (JObj m)"
    using assms by (auto simp: service_meta_def split: json.splits option.splits)
  then show ?thesis by (simp add: request_metadata_def sub_object_def kw_get) (simp add: dict_get_def)
qed

definition carries :: "json_object \<Rightarrow> pystr \<Rightarrow> pystr \<Rightarrow> bool" where
  "carries r rid digest \<longleftrightarrow>
     (\<exists>m. service_meta r = Some m \<and> kw m ''request_id'' = JStr rid \<and> kw m ''request_hash'' = JStr digest)"

lemma find_request_log:
  assumes "find_request vq (map line_of rs) found = Inr x" "list_all (\<lambda>r. wf_json (JObj r)) rs"
  shows "x = None \<longrightarrow> found = None \<and> JStr (vq_request_id vq) \<notin> set (service_ids rs)"
    and "x = Some r \<longrightarrow> found = Some r \<or> r \<in> set rs \<and> carries r (vq_request_id vq) (vq_request_hash vq)"
  using assms
proof (induction rs arbitrary: found)
  case Nil
  { case 1 then show ?case by simp next case 2 then show ?case by simp }
next
  case (Cons q rs)
  have wf: "wf_json (JObj q)" "list_all (\<lambda>r. wf_json (JObj r)) rs"
    if "list_all (\<lambda>r. wf_json (JObj r)) (q # rs)" using that by simp_all
  have step: "(\<exists>m found'. request_metadata (JObj q) = Inr m \<and> find_request vq (map line_of rs) found' = Inr x
      \<and> (if kw m ''request_id'' = JStr (vq_request_id vq)
         then kw m ''request_hash'' = JStr (vq_request_hash vq) \<and> found = None \<and> found' = Some q else found' = found))"
    if "find_request vq (map line_of (q # rs)) found = Inr x" "list_all (\<lambda>r. wf_json (JObj r)) (q # rs)" for found
    using that(1) wf(1)[OF that(2)] by (auto split: if_splits elim!: bind_resultE simp del: wf_json.simps)
  { case 1
    from step[OF this] obtain m found' where m: "request_metadata (JObj q) = Inr m" "find_request vq (map line_of rs) found' = Inr x"
      "if kw m ''request_id'' = JStr (vq_request_id vq)
         then kw m ''request_hash'' = JStr (vq_request_hash vq) \<and> found = None \<and> found' = Some q else found' = found"
      by blast
    have "service_id q = Some j \<Longrightarrow> j = kw m ''request_id''" for j
      using m(1) request_meta by (fastforce simp: service_id_meta)
    with Cons.IH(1)[OF m(2) wf(2)[OF 1(2)]] m(3) show ?case
      by (cases "service_id q") (auto split: if_splits)
  next
    case 2
    from step[OF this] obtain m found' where m: "request_metadata (JObj q) = Inr m" "find_request vq (map line_of rs) found' = Inr x"
      "if kw m ''request_id'' = JStr (vq_request_id vq)
         then kw m ''request_hash'' = JStr (vq_request_hash vq) \<and> found = None \<and> found' = Some q else found' = found"
      by blast
    with Cons.IH(2)[OF m(2) wf(2)[OF 2(2)]] meta_request[OF m(1)] show ?case
      by (auto simp: carries_def split: if_splits) }
qed

text \<open>Recovery answers from the ledger as it is.\<close>

lemma outside_unwritten: "keeps (\<lambda>s. log_text s = t) (outside_op f)"
  by (rule keepsI) (simp add: outside_text)

lemma verify_unwritten: "keeps (\<lambda>s. log_text s = t) (verify_recorder sv)"
  unfolding verify_recorder_def by (intro keeps_get_bind keeps_bind keep_intros outside_unwritten)

lemma recover_result:
  assumes "recover_record cs vq s = (s1, Inr x)" "file_text s (vq_session_id vq) = log_of rs" "list_all (\<lambda>r. wf_json (JObj r)) rs"
  shows "find_request vq (map line_of rs) None = Inr x"
proof -
  let ?sid = "vq_session_id vq" and ?P = "at_file (map_of (co_files s)) (vq_session_id vq) (\<lambda>t. t = log_of rs)"
  obtain sa sb v u f where a: "on_recorder ?sid (verify_recorder (cs_prov cs)) s = (sa, Inr v)"
      "exec_check (vr_ok v) (Unavailable ''cannot reconcile against an invalid provenance chain'') sa = (sb, Inr u)"
      "on_recorder ?sid (outside_op (ps_read (cs_prov cs))) sb = (s1, Inr f)"
    and r: "(case (f, map_of (co_files s1) ?sid) of
          (None, Some content) \<Rightarrow> exec_of (find_request vq (text_lines content) None)
        | _ \<Rightarrow> exec_raise (Unavailable ''cannot read provenance chain for reconciliation'')) s1 = (s1, Inr x)"
    using assms(1) unfolding recover_record_def Let_def
    by (elim exec_bind_InrE) (auto simp: exec_simps split: option.splits elim!: exec_bind_InrE)
  have "?P s" using assms(2) by (simp add: at_file_def)
  then have "?P sa" by (rule keeps_result[OF on_recorder_keeps[OF verify_unwritten] _ a(1)])
  moreover have "sb = sa" using a(2) by (simp add: exec_simps)
  ultimately have "?P sb" by simp
  then have "?P s1" by (rule keeps_result[OF on_recorder_keeps[OF outside_unwritten] _ a(3)])
  then have "file_text s1 ?sid = log_of rs" by (simp add: at_file_def)
  with r show ?thesis by (auto simp: exec_simps file_text_def split: option.splits)
qed

subsection \<open>One record per request\<close>

definition well_formed_request :: "verified_request \<Rightarrow> bool" where
  "well_formed_request vq \<longleftrightarrow>
     wf_json (JObj (vq_payload vq)) \<and> (case vq_os_corroboration vq of Some c \<Rightarrow> wf_json (JObj c) | None \<Rightarrow> True)"

lemma service_corroboration_facts:
  "given_id (Some (service_corroboration vq caller)) = [JStr (vq_request_id vq)]"
  "well_formed_request vq \<Longrightarrow> wf_json (service_corroboration vq caller)"
  by (auto simp: given_id_def corroboration_id_def service_corroboration_def service_metadata_def kw_def dict_get_def
      well_formed_request_def wf_dict_def split: option.splits)

definition once_added :: "'w prov_services \<Rightarrow> json_object list \<Rightarrow> pystr \<Rightarrow> pystr \<Rightarrow> bool" where
  "once_added sv rs rid t \<longleftrightarrow>
     (whole_lines sv \<longrightarrow> adds rs {xs. xs = [] \<or> xs = [JStr rid] \<and> JStr rid \<notin> set (service_ids rs)} t)"

lemma commit_new_adds:
  assumes "well_formed_request vq" and s1: "at_file f0 (vq_session_id vq) (\<lambda>t. whole_lines (cs_prov cs) \<longrightarrow> adds rs {[]} t) s1"
  shows "at_file f0 (vq_session_id vq) (\<lambda>t. whole_lines (cs_prov cs) \<longrightarrow> adds rs {[], [JStr (vq_request_id vq)]} t)
    (fst (commit_new cs vq caller now s1))"
proof -
  let ?P = "at_file f0 (vq_session_id vq) (\<lambda>t. whole_lines (cs_prov cs) \<longrightarrow> adds rs {[]} t)"
  let ?Q = "at_file f0 (vq_session_id vq) (\<lambda>t. whole_lines (cs_prov cs) \<longrightarrow> adds rs {[], [JStr (vq_request_id vq)]} t)"
  have "leads ?P ?Q (on_recorder (vq_session_id vq) (record_event (cs_prov cs) et (Some (vq_payload vq)) a g
      (Some (service_corroboration vq caller))))" for et a g
    by (rule on_recorder_leads, rule service_record_leads[where c = "Some (service_corroboration vq caller)", unfolded service_corroboration_facts])
       (use assms(1) in \<open>auto simp: service_corroboration_facts well_formed_request_def adds_def simp del: wf_json.simps\<close>)
  then have "leads ?P ?Q (commit_new cs vq caller now)"
    unfolding commit_new_def Let_def
    by (intro leads_bind leads_then keeps_bind keep_intros file_steps) (auto intro: at_file_mono simp: adds_def)
  with s1 show ?thesis by (simp add: leads_def)
qed

lemma locked_once:
  assumes "well_formed_request vq" "list_all (\<lambda>r. wf_json (JObj r)) rs"
  shows "leads (at_file f0 (vq_session_id vq) (\<lambda>t. whole_lines (cs_prov cs) \<longrightarrow> adds rs {[]} t))
    (at_file f0 (vq_session_id vq) (once_added (cs_prov cs) rs (vq_request_id vq))) (locked_part cs vq caller now)"
proof (rule locked_leads[OF services.log_invariant_axioms refl])
  fix t assume "whole_lines (cs_prov cs) \<longrightarrow> adds rs {[]} t"
  then show "once_added (cs_prov cs) rs (vq_request_id vq) t" by (auto simp: once_added_def adds_def)
next
  fix s s1 assume s: "at_file f0 (vq_session_id vq) (\<lambda>t. whole_lines (cs_prov cs) \<longrightarrow> adds rs {[]} t) s"
    and r: "recover_record cs vq s = (s1, Inr None)"
  have s1: "at_file f0 (vq_session_id vq) (\<lambda>t. whole_lines (cs_prov cs) \<longrightarrow> adds rs {[]} t) s1"
    by (rule keeps_result[OF services.recover_keeps[OF refl] s r])
  have new: "JStr (vq_request_id vq) \<notin> set (service_ids rs)" if w: "whole_lines (cs_prov cs)"
  proof -
    obtain qs where q: "file_text s (vq_session_id vq) = log_of (rs @ qs)" "list_all (\<lambda>r. wf_json (JObj r)) (rs @ qs)"
      using s w assms(2) by (auto simp: at_file_def adds_def simp del: wf_json.simps)
    from find_request_log(1)[OF recover_result[OF r q] q(2)] show ?thesis by simp
  qed
  have weaken: "once_added (cs_prov cs) rs (vq_request_id vq) t"
    if "whole_lines (cs_prov cs) \<longrightarrow> adds rs {[], [JStr (vq_request_id vq)]} t" for t
    using that new by (auto simp: once_added_def adds_def)
  show "at_file f0 (vq_session_id vq) (once_added (cs_prov cs) rs (vq_request_id vq)) (fst (commit_new cs vq caller now s1))"
    by (rule at_file_mono[OF commit_new_adds[OF assms(1) s1] weaken])
qed

text \<open>Ledgers with distinct request ids.\<close>

definition sound_ledger :: "json_object list \<Rightarrow> bool" where
  "sound_ledger rs \<longleftrightarrow> list_all (\<lambda>r. wf_json (JObj r)) rs \<and> distinct (service_ids rs)"

definition is_ledger :: "json_object list \<Rightarrow> 'w core \<Rightarrow> pystr \<Rightarrow> bool" where
  "is_ledger rs s sid \<longleftrightarrow> file_text s sid = log_of rs \<and> sound_ledger rs"

lemma verified_well_formed:
  assumes "verify_record_request sv request er caller now fresh stale = Inr vq" "wf_json (JObj request)"
  shows "well_formed_request vq"
proof -
  have obj: "kw request k = JObj d \<Longrightarrow> wf_json (JObj d)" for k d
    using wf_json_get[OF assms(2), of JNull k] by (simp add: kw_def)
  show ?thesis
    using assms(1) obj unfolding verify_record_request_def Let_def
    by (auto elim!: bind_resultE simp: map_result_Inr_iff well_formed_request_def object_of_def optional_object_def
        split: json.splits option.splits if_splits simp del: wf_json.simps)
qed

lemma handle_ledgers:
  assumes whole: "whole_lines (cs_prov cs)" and wf: "wf_json (JObj request)"
    and h: "handle_record cs request caller s = (s', x)" and rs: "is_ledger rs s sid"
  shows "\<exists>qs. is_ledger (rs @ qs) s' sid"
proof (cases rule: request_cases[OF h, case_names outside replayed admitted])
  case (admitted vq)
  have wf0: "list_all (\<lambda>r. wf_json (JObj r)) rs" and d0: "distinct (service_ids rs)"
    using rs by (simp_all add: is_ledger_def sound_ledger_def del: wf_json.simps)
  have vq: "well_formed_request vq" using verified_well_formed admitted(1) wf unfolding admits_def by blast
  show ?thesis
  proof (cases "sid = vq_session_id vq")
    case True
    have "at_file (map_of (co_files s)) (vq_session_id vq) (\<lambda>t. whole_lines (cs_prov cs) \<longrightarrow> adds rs {[]} t)
        (s\<lparr>co_world := fst (cs_now_ms cs (co_world s))\<rparr>)"
      using rs True by (auto simp: at_file_def is_ledger_def file_text_def adds_def intro!: exI[of _ "[]"])
    from leadsD[OF locked_once[OF vq wf0] this admitted(3)] True
    have "at_file (map_of (co_files s)) sid (once_added (cs_prov cs) rs (vq_request_id vq)) s'" by simp
    with whole wf0 d0 show ?thesis
      by (auto simp: at_file_def once_added_def adds_def is_ledger_def sound_ledger_def simp del: wf_json.simps)
  next
    case False
    with locked_files(1)[OF admitted(3)] rs show ?thesis
      by (auto simp: is_ledger_def file_text_def intro!: exI[of _ "[]"])
  qed
qed (use rs in \<open>auto simp: is_ledger_def file_text_def intro!: exI[of _ "[]"]\<close>)

subsection \<open>Every receipt is backed by a record\<close>

lemma log_of_inject:
  assumes "log_of rs = log_of qs" "list_all (\<lambda>r. wf_json (JObj r)) rs" "list_all (\<lambda>r. wf_json (JObj r)) qs"
  shows "rs = qs"
proof -
  have "map line_of rs = map line_of qs" using assms(1) file_lines_log by metis
  then have "parse_lines (map line_of rs) = parse_lines (map line_of qs)" by simp
  then have "map JObj rs = map JObj qs" using assms(2,3) by (simp add: parse_log)
  then show ?thesis by (simp add: inj_map_eq_map[of JObj] inj_def)
qed

definition backed :: "'w core_services \<Rightarrow> 'w core \<Rightarrow> pystr \<times> pystr \<times> pystr \<times> int \<Rightarrow> bool" where
  "backed cs s row \<longleftrightarrow>
     (case row of (rid, digest, response, ts) \<Rightarrow>
        \<exists>sid rs r. file_text s sid = log_of rs \<and> list_all (\<lambda>r. wf_json (JObj r)) rs \<and> r \<in> set rs \<and> carries r rid digest
          \<and> response = dumps True (JObj (receipt_from_record (cs_prov cs) r rid ts)))"

definition new_rows_backed :: "'w core_services \<Rightarrow> (pystr \<times> pystr \<times> pystr \<times> int) set \<Rightarrow> 'w core \<Rightarrow> bool" where
  "new_rows_backed cs R0 s \<longleftrightarrow> (\<forall>row\<in>set (co_receipts s). row \<in> R0 \<or> backed cs s row)"

text \<open>The session's ledger holds the record, and no row is new.\<close>

definition holds_record :: "(pystr \<times> pystr \<times> pystr \<times> int) set \<Rightarrow> pystr \<Rightarrow> json_object \<Rightarrow> 'w core \<Rightarrow> bool" where
  "holds_record R0 sid r s \<longleftrightarrow> set (co_receipts s) \<subseteq> R0
     \<and> (\<exists>qs. file_text s sid = log_of qs \<and> list_all (\<lambda>r. wf_json (JObj r)) qs \<and> r \<in> set qs)"

lemma holds_record_weaker: "holds_record R0 sid r s \<Longrightarrow> new_rows_backed cs R0 s"
  by (auto simp: holds_record_def new_rows_backed_def)

lemma holds_record_world: "holds_record R0 sid r s \<Longrightarrow> holds_record R0 sid r (s\<lparr>co_world := w\<rparr>)"
  by (simp add: holds_record_def file_text_def)

lemma run_on_commit_holds: "keeps (holds_record R0 sid r) (run_on_commit cs sid')"
  unfolding run_on_commit_def by (intro keeps_bind keep_intros core_outside_keeps holds_record_world)

lemma save_backed:
  fixes cs :: "'w core_services"
  assumes "carries r (vq_request_id vq) (vq_request_hash vq)"
  shows "leads (holds_record R0 sid r) (new_rows_backed cs R0)
    (save_receipt (vq_request_id vq) (vq_request_hash vq) (receipt_from_record (cs_prov cs) r (vq_request_id vq) now) now)"
  unfolding leads_def save_receipt_def exec_steps
proof (intro allI impI)
  fix s :: "'w core" assume s: "holds_record R0 sid r s"
  let ?row = "(vq_request_id vq, vq_request_hash vq, dumps True (JObj (receipt_from_record (cs_prov cs) r (vq_request_id vq) now)), now)"
  have "backed cs (s\<lparr>co_receipts := co_receipts s @ [?row]\<rparr>) ?row"
    using s assms unfolding backed_def holds_record_def by (auto simp: file_text_def simp del: wf_json.simps)
  moreover have "set (co_receipts s) \<subseteq> R0" using s by (simp add: holds_record_def)
  ultimately show "new_rows_backed cs R0 (fst (if map_of (co_receipts s) (vq_request_id vq) = None
       then s\<lparr>co_receipts := co_receipts s @ [?row]\<rparr> else s, Inr ()))"
    by (auto simp: new_rows_backed_def)
qed

lemma on_recorder_result:
  assumes "on_recorder sid m s = (s', Inr y)"
  obtains r r' where "m r = (r', Inr y)" "log_text r = file_text s sid" "log_text r' = file_text s' sid" "co_receipts s' = co_receipts s"
proof -
  obtain r0 where r0: "map_of (co_recorders s) sid = Some r0" using assms by (auto simp: on_recorder_def split: option.splits)
  let ?r = "r0\<lparr>pv_log := map_of (co_files s) sid, pv_world := co_world s\<rparr>"
  obtain r' x where m: "m ?r = (r', x)" by force
  have "x = Inr y" "log_text r' = file_text s' sid" "co_receipts s' = co_receipts s"
    using assms m r0
    by (auto simp: on_recorder_def run_on_def file_text_def log_text_def delete_conv' split: sum.splits option.splits)
  with m that show thesis by (simp add: log_text_def file_text_def)
qed

lemma built_carries:
  assumes "built ev p a g (Some (service_corroboration vq caller)) r"
  shows "carries r (vq_request_id vq) (vq_request_hash vq)"
proof -
  have "kw r ''os_corroboration'' = service_corroboration vq caller"
    using assms by (auto simp: built_def build_record_fields kw_signed)
  then have "service_meta r = Some (service_metadata vq caller)" by (simp add: service_meta_def service_corroboration_def)
  then show ?thesis by (simp add: carries_def service_metadata_def kw_def dict_get_def)
qed

lemma commit_new_rows:
  fixes cs :: "'w core_services"
  assumes whole: "whole_lines (cs_prov cs)" and vq: "well_formed_request vq"
    and s1: "file_text s1 (vq_session_id vq) = log_of qs" "list_all (\<lambda>r. wf_json (JObj r)) qs" "set (co_receipts s1) \<subseteq> R0"
  shows "new_rows_backed cs R0 (fst (commit_new cs vq caller now s1))"
proof -
  let ?sid = "vq_session_id vq"
  let ?rec = "record_event (cs_prov cs) (JStr (event_value (vq_event_type vq))) (Some (vq_payload vq))
          (Some (en_agent_id (vq_enrollment vq))) (Some (vq_event_signature vq)) (Some (service_corroboration vq caller))"
  let ?I = "\<lambda>s. file_text s ?sid = log_of qs \<and> set (co_receipts s) \<subseteq> R0"
  have weak: "new_rows_backed cs R0 s" if "set (co_receipts s) \<subseteq> R0" for s using that by (auto simp: new_rows_backed_def)
  let ?rest = "\<lambda>x. case x of
        None \<Rightarrow> exec_raise (Unavailable ''recorder did not return a committed record'')
      | Some r \<Rightarrow>
          exec_bind (run_on_commit cs ?sid) (\<lambda>_.
          exec_bind (save_receipt (vq_request_id vq) (vq_request_hash vq) (receipt_from_record (cs_prov cs) r (vq_request_id vq) now) now)
            (\<lambda>_. exec_ret (receipt_from_record (cs_prov cs) r (vq_request_id vq) now)))"
  have after: "new_rows_backed cs R0 (fst (exec_bind (on_recorder ?sid ?rec) ?rest s))" if s: "?I s" for s
  proof -
    obtain s2 x where o: "on_recorder ?sid ?rec s = (s2, x)" by force
    have r2: "set (co_receipts s2) \<subseteq> R0" using s on_recorder_tables[of ?sid ?rec s] o by simp
    consider e where "x = Inl e" | "x = Inr None" | r where "x = Inr (Some r)" by (metis option.exhaust sum.exhaust)
    then show ?thesis
    proof cases
      case 3
      obtain a b where ab: "?rec a = (b, Inr (Some r))" "log_text a = file_text s ?sid" "log_text b = file_text s2 ?sid"
        using on_recorder_result[OF o[unfolded 3]] by blast
      obtain ev who where line: "added_line r (log_text a) (log_text b)"
        and bt: "built ev (Some (vq_payload vq)) (Some who) (map_option (\<lambda>g. JStr (tohex g)) (Some (vq_event_signature vq)))
          (Some (service_corroboration vq caller)) r"
        using record_event_line[OF ab(1)] by blast
      have wa: "wf_arguments (Some (vq_payload vq)) (map_option (\<lambda>g. JStr (tohex g)) (Some (vq_event_signature vq)))
          (Some (service_corroboration vq caller))"
        using vq service_corroboration_facts(2)[OF vq] by (auto simp: wf_arguments_def well_formed_request_def simp del: wf_json.simps(7))
      have start: "whole_lines (cs_prov cs) \<longrightarrow> adds qs {[]} (log_text a)" using s ab adds_start by simp
      have "leads (\<lambda>s. whole_lines (cs_prov cs) \<longrightarrow> adds qs {[]} (log_text s)) (\<lambda>s. whole_lines (cs_prov cs) \<longrightarrow> adds qs {[], given_id (Some (service_corroboration vq caller))} (log_text s)) ?rec"
        by (rule service_record_leads) (use vq service_corroboration_facts(2)[OF vq] in \<open>simp_all add: well_formed_request_def del: wf_json.simps\<close>)
      from leadsD[OF this start ab(1)] whole have "adds qs {[], given_id (Some (service_corroboration vq caller))} (file_text s2 ?sid)"
        using ab by simp
      then obtain more where more: "file_text s2 ?sid = log_of (qs @ more)" "list_all (\<lambda>r. wf_json (JObj r)) more"
        by (auto simp: adds_def)
      obtain post where "file_text s2 ?sid = log_of qs @ record_line r @ post" using line s ab by (auto simp: added_line_def)
      with more have "record_line r @ post = log_of more" by simp
      from first_line[OF this built_service(2)[OF bt wa] more(2)] have "r \<in> set (qs @ more)" by auto
      with more s1(2) r2 have "holds_record R0 ?sid r s2"
        unfolding holds_record_def by (auto simp del: wf_json.simps intro!: exI[of _ "qs @ more"])
      moreover have "leads (holds_record R0 ?sid r) (new_rows_backed cs R0) (?rest (Some r))"
        unfolding option.case
        by (rule leads_bind[OF run_on_commit_holds leads_then[OF save_backed[OF built_carries[OF bt]]]])
           (auto intro: keep_intros holds_record_weaker)
      moreover have "exec_bind (on_recorder ?sid ?rec) ?rest s = ?rest (Some r) s2"
        by (rule exec_bind_Inr) (use o 3 in simp)
      ultimately show ?thesis by (simp only: leads_def)
    qed (use o weak[OF r2] in \<open>simp_all add: exec_bind_def exec_simps\<close>)
  qed
  have rest: "leads ?I (new_rows_backed cs R0) (exec_bind (on_recorder ?sid ?rec) ?rest)"
    unfolding leads_def using after by blast
  have nonce: "keeps ?I (consume_nonce a n e)" for a n e
    unfolding consume_nonce_def
    by (intro keeps_get_bind keeps_bind keep_intros keeps_modify) (auto simp: file_text_def)
  have "leads ?I (new_rows_backed cs R0) (commit_new cs vq caller now)"
    unfolding commit_new_def Let_def
    by (intro leads_bind[OF nonce leads_bind[OF keeps_steps(5) rest]] weak) simp_all
  with s1 show ?thesis by (simp add: leads_def)
qed

text \<open>The session's file is some ledger, and no row is new.\<close>

definition has_ledger :: "(pystr \<times> pystr \<times> pystr \<times> int) set \<Rightarrow> pystr \<Rightarrow> 'w core \<Rightarrow> bool" where
  "has_ledger R0 sid s \<longleftrightarrow> set (co_receipts s) \<subseteq> R0
     \<and> (\<exists>qs. file_text s sid = log_of qs \<and> list_all (\<lambda>r. wf_json (JObj r)) qs)"

lemma has_ledger_weaker: "has_ledger R0 sid s \<Longrightarrow> new_rows_backed cs R0 s"
  by (auto simp: has_ledger_def new_rows_backed_def)

lemma has_ledger_cong:
  "has_ledger R0 sid s \<Longrightarrow> co_receipts s' = co_receipts s \<Longrightarrow> co_files s' = co_files s \<Longrightarrow> has_ledger R0 sid s'"
  by (simp add: has_ledger_def file_text_def)

lemma ledger_after:
  fixes m :: "('w core, 'e, 'b) exec"
  assumes "whole_lines sv" "\<And>f0 qs. keeps (at_file f0 sid (\<lambda>t. whole_lines sv \<longrightarrow> adds qs {[]} t)) m"
    "\<And>s. co_receipts (fst (m s)) = co_receipts s"
  shows "keeps (has_ledger R0 sid) m" "keeps (holds_record R0 sid r) m"
proof -
  have step: "\<exists>more. file_text (fst (m s)) sid = log_of (qs @ more) \<and> list_all (\<lambda>r. wf_json (JObj r)) more"
    if "file_text s sid = log_of qs" for s :: "'w core" and qs
  proof -
    have "at_file (map_of (co_files s)) sid (\<lambda>t. whole_lines sv \<longrightarrow> adds qs {[]} t) s"
      using that adds_start by (simp add: at_file_def)
    from keepsD[OF assms(2) this] assms(1) show ?thesis by (auto simp: at_file_def adds_def)
  qed
  show "keeps (has_ledger R0 sid) m"
  proof (rule keepsI)
    fix s :: "'w core" assume "has_ledger R0 sid s"
    then obtain qs where qs: "file_text s sid = log_of qs" "list_all (\<lambda>r. wf_json (JObj r)) qs" "set (co_receipts s) \<subseteq> R0"
      by (auto simp: has_ledger_def)
    from step[OF qs(1)] obtain more where "file_text (fst (m s)) sid = log_of (qs @ more)" "list_all (\<lambda>r. wf_json (JObj r)) more"
      by blast
    then show "has_ledger R0 sid (fst (m s))" using qs assms(3)
      unfolding has_ledger_def by (auto simp del: wf_json.simps intro!: exI[of _ "qs @ more"])
  qed
  show "keeps (holds_record R0 sid r) m"
  proof (rule keepsI)
    fix s :: "'w core" assume "holds_record R0 sid r s"
    then obtain qs where qs: "file_text s sid = log_of qs" "list_all (\<lambda>r. wf_json (JObj r)) qs" "set (co_receipts s) \<subseteq> R0" "r \<in> set qs"
      by (auto simp: holds_record_def)
    from step[OF qs(1)] obtain more where "file_text (fst (m s)) sid = log_of (qs @ more)" "list_all (\<lambda>r. wf_json (JObj r)) more"
      by blast
    then show "holds_record R0 sid r (fst (m s))" using qs assms(3)
      unfolding holds_record_def by (auto simp del: wf_json.simps intro!: exI[of _ "qs @ more"])
  qed
qed

lemma recorder_for_tables: "co_receipts (fst (recorder_for cs sid s)) = co_receipts s"
  by (simp add: recorder_for_def exec_get_bind exec_simps new_recorder_tables)

lemma recover_tables: "co_receipts (fst (recover_record cs vq s)) = co_receipts s"
proof -
  have "keeps (\<lambda>s'. co_receipts s' = co_receipts s) (recover_record cs vq)"
    unfolding recover_record_def Let_def
    by (intro keeps_get_bind keeps_bind keep_intros tables_steps) (auto intro!: keep_intros split: option.split)
  from keepsD[OF this refl] show ?thesis .
qed

lemma commit_recovered_rows:
  assumes "whole_lines (cs_prov cs)" "carries r (vq_request_id vq) (vq_request_hash vq)"
  shows "leads (holds_record R0 (vq_session_id vq) r) (new_rows_backed cs R0) (commit_recovered cs vq now r)"
proof -
  have "keeps (holds_record R0 (vq_session_id vq) r) (on_recorder (vq_session_id vq) (ensure_replicated (cs_prov cs) r))"
    by (rule ledger_after[OF assms(1) services.recorder_op_keeps[OF services.kept_ensure] on_recorder_tables])
  moreover have "keeps (new_rows_backed cs R0) (respond cs x)" for x unfolding respond_def by (intro keep_intros)
  ultimately show ?thesis
    unfolding commit_recovered_def Let_def
    by (intro leads_bind[OF _ leads_bind[OF run_on_commit_holds leads_then[OF save_backed[OF assms(2)]]]])
       (assumption | erule holds_record_weaker)+
qed

lemma commit_body_rows:
  fixes cs :: "'w core_services"
  assumes whole: "whole_lines (cs_prov cs)" and vq: "well_formed_request vq"
  shows "leads (has_ledger R0 (vq_session_id vq)) (new_rows_backed cs R0) (commit_body cs vq caller now)"
proof -
  let ?P = "has_ledger R0 (vq_session_id vq)" and ?N = "new_rows_backed cs R0"
  have rec: "leads ?P ?N (exec_bind (recover_record cs vq) (\<lambda>recovered.
             case recovered of
               Some r \<Rightarrow> exec_bind (commit_recovered cs vq now r) (\<lambda>x. exec_ret (Inl x))
             | None \<Rightarrow> exec_bind (commit_new cs vq caller now) (\<lambda>x. exec_ret (Inr x))))" (is "leads _ _ ?m")
    unfolding leads_def
  proof (intro allI impI)
    fix s :: "'w core" assume s: "?P s"
    then obtain qs where qs: "file_text s (vq_session_id vq) = log_of qs" "list_all (\<lambda>r. wf_json (JObj r)) qs" "set (co_receipts s) \<subseteq> R0"
      by (auto simp: has_ledger_def)
    obtain s1 x where x: "recover_record cs vq s = (s1, x)" by force
    have s1: "?P s1"
      by (rule keeps_result[OF ledger_after(1)[OF whole services.recover_keeps[OF refl] recover_tables] s x])
    consider e where "x = Inl e" | "x = Inr None" | r where "x = Inr (Some r)" by (metis option.exhaust sum.exhaust)
    then show "?N (fst (?m s))"
    proof cases
      case 1
      then show ?thesis using x has_ledger_weaker[OF s1] by (simp add: exec_bind_def)
    next
      case 2
      from s1 obtain qs1 where "file_text s1 (vq_session_id vq) = log_of qs1" "list_all (\<lambda>r. wf_json (JObj r)) qs1" "set (co_receipts s1) \<subseteq> R0"
        by (auto simp: has_ledger_def)
      from commit_new_rows[OF whole vq this, of caller now] 2 x show ?thesis
        by (simp add: exec_bind_Inr) (simp add: exec_bind_def exec_simps split: prod.split sum.split, metis fst_conv)
    next
      case (3 r)
      from find_request_log(2)[OF recover_result[OF x[unfolded 3] qs(1,2)] qs(2), of r]
      have r: "r \<in> set qs" "carries r (vq_request_id vq) (vq_request_hash vq)" by simp_all
      have "holds_record R0 (vq_session_id vq) r s" using qs r by (auto simp: holds_record_def simp del: wf_json.simps)
      then have "holds_record R0 (vq_session_id vq) r s1"
        by (rule keeps_result[OF ledger_after(2)[OF whole services.recover_keeps[OF refl] recover_tables] _ x])
      then have "?N (fst (exec_bind (commit_recovered cs vq now r) (\<lambda>x. exec_ret (Inl x)) s1))"
        using leads_then[where f = "\<lambda>x. exec_ret (Inl x)", OF commit_recovered_rows[OF whole r(2)]] by (auto simp: leads_def keep_intros)
      with 3 x show ?thesis by (simp add: exec_bind_Inr)
    qed
  qed
  have k: "keeps ?P (prune now)" "keeps ?P (transaction_receipt rid)" "keeps ?P (respond cs resp)" for rid resp
    unfolding prune_def transaction_receipt_def respond_def
    by (intro keeps_get_bind keep_intros keeps_modify; erule has_ledger_cong; simp)+
  have ret: "leads ?P ?N (exec_bind (respond cs replay) (\<lambda>x. exec_ret (Inl x)))" for replay
    by (rule leads_keeps) (auto intro!: keeps_bind keep_intros k has_ledger_weaker)
  show ?thesis
    unfolding commit_body_def by (intro leads_bind leads_cases keep_intros k rec ret has_ledger_weaker)
qed

lemma locked_rows:
  assumes whole: "whole_lines (cs_prov cs)" and vq: "well_formed_request vq"
  shows "leads (has_ledger R0 (vq_session_id vq)) (new_rows_backed cs R0) (locked_part cs vq caller now)"
proof -
  have t: "leads (has_ledger R0 (vq_session_id vq)) (new_rows_backed cs R0) (transaction cs (commit_body cs vq caller now))"
    by (rule transaction_leads[OF commit_body_rows[OF assms]])
       (auto simp: has_ledger_def new_rows_backed_def backed_def file_text_def)
  have k: "keeps (new_rows_backed cs R0) (case x of Inl signed \<Rightarrow> exec_ret signed | Inr response \<Rightarrow> respond cs response)" for x
    unfolding respond_def by (intro keep_intros)
  show ?thesis
    unfolding locked_part_def
    by (rule leads_bind[OF ledger_after(1)[OF whole services.recorder_for_keeps[OF refl] recorder_for_tables] leads_then[OF t k]])
       (rule has_ledger_weaker)
qed

end
