(* ===== verification/ProvenanceIpcProofs.thy ===== *)
theory ProvenanceIpcProofs
  imports ProvenanceIpc ProvenanceOnce
begin

text \<open>The canonical form of requests: frames, signing bytes, and the attestation a record keeps of its request.\<close>

subsection \<open>Sorted objects\<close>

lemma same_dict_sorted:
  assumes "wf_dict A" "wf_dict B" "map_of A = map_of B"
  shows "key_sorted (JObj A) = key_sorted (JObj B)"
proof -
  let ?g = "map_prod id key_sorted"
  have "set A = set B" using assms by (simp add: wf_dict_def map_of_inject_set)
  then have sets: "set (sort_key fst (map ?g A)) = set (sort_key fst (map ?g B))" by simp
  have d: "distinct (map fst (sort_key fst (map ?g X)))" if "wf_dict X" for X
    using that by (intro distinct_keys_sorted) (simp add: wf_dict_def comp_def)
  have "inj_on fst (set (sort_key fst (map ?g A)) \<union> set (sort_key fst (map ?g B)))"
    using d[OF assms(1)] by (simp only: sets[symmetric] Un_absorb distinct_map)
  from map_sorted_distinct_set_unique[OF this _ d[OF assms(1)] _ d[OF assms(2)] sets]
  show ?thesis by simp
qed

lemma wf_key_sorted: "wf_json v \<Longrightarrow> wf_json (key_sorted v)"
proof (induction v)
  case (JArr xs)
  then show ?case by (auto simp: list_all_iff)
next
  case (JObj kvs)
  let ?kvs = "sort_key fst (map (map_prod id key_sorted) kvs)"
  have "wf_dict ?kvs" using JObj.prems unfolding wf_dict_def by (intro distinct_keys_sorted) (simp add: wf_dict_def comp_def)
  moreover have "list_all snd (map (map_prod id wf_json) ?kvs)"
    using JObj by (auto simp: list_all_iff; fastforce)
  ultimately show ?case by simp
qed simp_all

subsection \<open>Validation\<close>

lemma validate_items_iff: "validate_items d xs = Inr () \<longleftrightarrow> (\<forall>x\<in>set xs. validate_json d x = Inr ())"
  by (induction xs) (auto simp: bind_result_Inr_iff)

lemma validate_members_iff: "validate_members d kvs = Inr () \<longleftrightarrow> (\<forall>kv\<in>set kvs. validate_json d (snd kv) = Inr ())"
  by (induction kvs) (auto simp: bind_result_Inr_iff)

lemma validate_sorted: "validate_json d v = Inr () \<Longrightarrow> validate_json d (key_sorted v) = Inr ()"
proof (induction v arbitrary: d)
  case (JArr xs)
  then show ?case by (auto simp: validate_json.simps[of d] validate_items_iff split: if_splits)
next
  case (JObj kvs)
  then show ?case by (auto simp: validate_json.simps[of d] validate_members_iff split: if_splits; fastforce)
qed simp_all

lemma canonical_json_Inr: "canonical_json_bytes v = Inr b \<longleftrightarrow> validate_json 0 v = Inr () \<and> b = dumps True v"
  by (auto simp: canonical_json_bytes_def map_result_Inr_iff)

lemma dumps_sorted: "dumps True (key_sorted v) = dumps True v"
  by (simp add: dumps_def)

subsection \<open>Frames\<close>

lemma dumps_ascii: "list_all (\<lambda>c. char_code c < 128) (dumps True v)"
  using dumps_printable[of "key_sorted v"] by (auto simp: dumps_def list_all_iff printable_ascii_def; fastforce)

lemma decode_encoded:
  assumes "wf_json (JObj v)" "encode_frame v = Inr d"
  shows "decode_frame d = Inr (members (key_sorted (JObj v)))"
proof -
  have valid: "validate_json 0 (JObj v) = Inr ()" and d: "d = dumps True (JObj v)" "int (length d) \<le> MAX_FRAME_BYTES"
    using assms(2) by (auto simp: encode_frame_def canonical_json_Inr elim!: bind_resultE split: if_splits)
  obtain kvs where kvs: "key_sorted (JObj v) = JObj kvs" by simp
  have "json_loads d = Some (JObj kvs)"
    using json_loads_dumps[OF wf_key_sorted[OF assms(1)]] d(1) kvs by (simp add: dumps_def)
  moreover have "canonical_json_bytes (JObj kvs) = Inr d"
    using validate_sorted[OF valid] d(1) dumps_sorted[of "JObj v"] kvs by (simp add: canonical_json_Inr)
  moreover have "d \<noteq> []" using d(1) kvs by (simp add: dumps_def)
  ultimately show ?thesis using d dumps_ascii[of "JObj v"] kvs by (simp add: decode_frame_def)
qed

lemma encode_decoded:
  assumes "decode_frame d = Inr v"
  shows "encode_frame v = Inr d"
  using assms by (auto simp: decode_frame_def encode_frame_def elim!: bind_resultE split: if_splits option.splits json.splits)

subsection \<open>What a verified request has shown\<close>

lemma event_of_Some: "event_of v = Some ev \<Longrightarrow> v = JStr (event_value ev)"
proof (cases v)
  case (JStr s)
  assume "event_of v = Some ev"
  with JStr obtain s' where s': "find (\<lambda>x. snd x = s) EVENT_VALUES = Some (ev, s')" by (auto simp: event_of_def)
  then have "(ev, s') \<in> set EVENT_VALUES" "s' = s" by (auto simp: find_Some_iff) (metis snd_conv)
  moreover have "distinct (map fst EVENT_VALUES)" by (simp add: EVENT_VALUES_def)
  ultimately show ?thesis using JStr by (simp add: event_value_def)
qed (simp_all add: event_of_def)

definition sound_enrollment :: "'w prov_services \<Rightarrow> agent_enrollment \<Rightarrow> bool" where
  "sound_enrollment sv en \<longleftrightarrow>
     en_agent_id en = agent_id_of sv (en_algorithm en) (en_public_key en)
     \<and> en_algorithm en \<in> {''ed25519'', ''ecdsa-p384-cng''}
     \<and> length (en_public_key en) = (if en_algorithm en = ''ed25519'' then 32 else 96)"

definition sound_registry :: "'w prov_services \<Rightarrow> enrollment_registry \<Rightarrow> bool" where
  "sound_registry sv er \<longleftrightarrow>
     list_all (\<lambda>(a, en). a = en_agent_id en \<and> sound_enrollment sv en) (er_by_id er)"

lemma fromhex_length: "fromhex s = Some b \<Longrightarrow> 2 * length b \<le> length s"
  by (induction s arbitrary: b rule: fromhex.induct) (auto split: if_splits list.splits option.splits)

lemma enrollment_from_dict_sound:
  assumes "enrollment_from_dict sv d = Inr en"
  shows "en_agent_id en = agent_id_of sv (en_algorithm en) (en_public_key en)
    \<and> en_algorithm en \<in> {''ed25519'', ''ecdsa-p384-cng''}"
  using assms unfolding enrollment_from_dict_def
  by (auto simp: enrolled_algorithm_def elim!: bind_resultE split: json.splits if_splits)

definition verified_facts ::
    "'w prov_services \<Rightarrow> json_object \<Rightarrow> enrollment_registry \<Rightarrow> pystr \<Rightarrow> int \<Rightarrow> int \<Rightarrow> verified_request \<Rightarrow> bool" where
  "verified_facts sv request er caller now freshness vq \<longleftrightarrow>
     same_keys request REQUEST_FIELDS \<and> kw request ''version'' = JStr PROTOCOL_VERSION \<and> kw request ''operation'' = JStr ''record''
     \<and> (\<exists>a. kw request ''agent_id'' = JStr a \<and> registry_get er a = Some (vq_enrollment vq))
     \<and> caller = en_sid (vq_enrollment vq)
     \<and> kw request ''session_id'' = JStr (vq_session_id vq) \<and> kw request ''request_id'' = JStr (vq_request_id vq)
     \<and> kw request ''nonce'' = JStr (vq_nonce vq) \<and> kw request ''issued_at_ms'' = JInt (vq_issued_at_ms vq)
     \<and> vq_stale vq = (freshness < abs (now - vq_issued_at_ms vq))
     \<and> kw request ''event_type'' = JStr (event_value (vq_event_type vq)) \<and> kw request ''payload'' = JObj (vq_payload vq)
     \<and> kw request ''os_corroboration'' = (case vq_os_corroboration vq of Some c \<Rightarrow> JObj c | None \<Rightarrow> JNull)
     \<and> (\<exists>e. kw request ''event_signature'' = JStr e \<and> fromhex e = Some (vq_event_signature vq))
     \<and> length (vq_event_signature vq) = signature_size (en_algorithm (vq_enrollment vq))
     \<and> length (vq_request_signature vq) = signature_size (en_algorithm (vq_enrollment vq))
     \<and> enrollment_verify sv (vq_enrollment vq)
         (dumps True (JObj [(''event_type'', JStr (event_value (vq_event_type vq))), (''payload'', JObj (vq_payload vq))])) (vq_event_signature vq)
     \<and> enrollment_verify sv (vq_enrollment vq) (dumps True (JObj (without ''request_signature'' request))) (vq_request_signature vq)
     \<and> vq_request_hash vq = ps_sha384 sv (dumps True (JObj (without ''request_signature'' request)))"

lemma parse_uuid_Inr: "parse_uuid v n = Inr s \<Longrightarrow> v = JStr s"
  by (auto simp: parse_uuid_def split: json.splits if_splits)

lemma text_matching_Inr: "text_matching P v c = Inr s \<Longrightarrow> v = JStr s \<and> P s"
  by (auto simp: text_matching_def split: json.splits if_splits)

lemma issued_at_Inr: "issued_at v = Inr n \<Longrightarrow> v = JInt n"
  by (auto simp: issued_at_def split: json.splits)

lemma object_of_Inr: "object_of v c = Inr d \<Longrightarrow> v = JObj d"
  by (auto simp: object_of_def split: json.splits)

lemma optional_object_Inr: "optional_object v c = Inr d \<Longrightarrow> v = (case d of Some x \<Rightarrow> JObj x | None \<Rightarrow> JNull)"
  by (auto simp: optional_object_def split: json.splits)

lemma signature_bytes_Inr:
  "signature_bytes v a f = Inr g \<Longrightarrow> (\<exists>s. v = JStr s \<and> fromhex s = Some g) \<and> length g = signature_size a"
  by (auto simp: signature_bytes_def split: json.splits if_splits option.splits)

lemma enrolled_Inr: "enrolled er v = Inr en \<Longrightarrow> \<exists>a. v = JStr a \<and> registry_get er a = Some en"
  by (auto simp: enrolled_def split: json.splits option.splits)

lemma event_type_of_Inr: "event_type_of v = Inr ev \<Longrightarrow> v = JStr (event_value ev)"
  by (auto simp: event_type_of_def event_of_Some split: option.splits)

lemma check_signed_Inr: "check_signed sv en data g c = Inr u \<Longrightarrow> \<exists>b. data = Inr b \<and> enrollment_verify sv en b g"
  by (auto simp: check_signed_def elim: bind_resultE)

lemmas reader_facts = parse_uuid_Inr text_matching_Inr issued_at_Inr object_of_Inr optional_object_Inr signature_bytes_Inr
  enrolled_Inr event_type_of_Inr check_signed_Inr

lemma verified_request_facts:
  assumes "verify_record_request sv request er caller now freshness stale = Inr vq"
  shows "verified_facts sv request er caller now freshness vq"
  using assms unfolding verify_record_request_def Let_def
  by (elim bind_resultE)
     (auto simp: map_result_Inr_iff verified_facts_def request_hash_def event_signing_bytes_def request_signing_bytes_def
      canonical_json_Inr dest!: reader_facts)

subsection \<open>The attestation a record keeps\<close>

text \<open>The record the service appends for a verified request, in any state of the session's recorder.\<close>

definition service_record :: "verified_request \<Rightarrow> pystr \<Rightarrow> 'w prov \<Rightarrow> pystr \<Rightarrow> json_object" where
  "service_record vq caller s now =
     build_record s now (vq_event_type vq) (Some (vq_payload vq)) (Some (en_agent_id (vq_enrollment vq)))
       (Some (JStr (tohex (vq_event_signature vq)))) (Some (service_corroboration vq caller))"

lemma service_metadata_fields:
  "same_keys (service_metadata vq caller) ATTESTATION_FIELDS"
  "kw (service_metadata vq caller) ''agent_algorithm'' = JStr (en_algorithm (vq_enrollment vq))"
  "kw (service_metadata vq caller) ''agent_key_version'' = JInt 1"
  "hex_field (service_metadata vq caller) ''agent_public_key_hex'' = Some (en_public_key (vq_enrollment vq))"
  "hex_field (service_metadata vq caller) ''request_signature'' = Some (vq_request_signature vq)"
  "kw (service_metadata vq caller) ''request_hash'' = JStr (vq_request_hash vq)"
  by (simp_all add: service_metadata_def same_keys_def ATTESTATION_FIELDS_def kw_def dict_get_def hex_field_def)

lemma service_corroboration_client:
  "kw ((''provenance_service'', x) # (case vq_os_corroboration vq of Some c \<Rightarrow> [(''client'', JObj c)] | None \<Rightarrow> [])) ''client''
     = (case vq_os_corroboration vq of Some c \<Rightarrow> JObj c | None \<Rightarrow> JNull)"
  by (simp add: kw_def dict_get_def split: option.split)

definition seen_request :: "verified_request \<Rightarrow> pystr \<Rightarrow> json \<Rightarrow> json_object" where
  "seen_request vq agent_id event_signature =
     [(''agent_id'', JStr agent_id), (''event_signature'', event_signature), (''event_type'', JStr (event_value (vq_event_type vq))),
      (''issued_at_ms'', JInt (vq_issued_at_ms vq)), (''nonce'', JStr (vq_nonce vq)), (''operation'', JStr ''record''),
      (''os_corroboration'', case vq_os_corroboration vq of Some c \<Rightarrow> JObj c | None \<Rightarrow> JNull), (''payload'', JObj (vq_payload vq)),
      (''request_id'', JStr (vq_request_id vq)), (''session_id'', JStr (vq_session_id vq)), (''version'', JStr PROTOCOL_VERSION)]"

lemma unsigned_request:
  assumes facts: "verified_facts sv request er caller now freshness vq" and wf: "wf_json (JObj request)"
    and agent: "kw request ''agent_id'' = JStr a"
  shows "key_sorted (JObj (without ''request_signature'' request))
    = key_sorted (JObj (seen_request vq a (kw request ''event_signature'')))"
proof (rule same_dict_sorted)
  have wd: "wf_dict request" using wf by simp
  then show wfu: "wf_dict (without ''request_signature'' request)" by (auto simp: without_def)
  show "wf_dict (seen_request vq a (kw request ''event_signature''))" by (simp add: seen_request_def wf_dict_def)
  have keys: "k \<in> set REQUEST_FIELDS \<longleftrightarrow> map_of request k \<noteq> None" for k
    using facts by (auto simp: verified_facts_def same_keys_def map_of_eq_None_iff)
  then have get: "k \<in> set REQUEST_FIELDS \<Longrightarrow> map_of request k = Some (kw request k)" for k
    by (auto simp: kw_def dict_get_def split: option.split)
  have f: "map_of (without ''request_signature'' request) k = (if k = ''request_signature'' then None else map_of request k)" for k
    unfolding without_def map_of_filter_wf[OF wd] by (simp split: option.split)
  have vals: "kw request ''agent_id'' = JStr a" "kw request ''event_type'' = JStr (event_value (vq_event_type vq))"
      "kw request ''issued_at_ms'' = JInt (vq_issued_at_ms vq)" "kw request ''nonce'' = JStr (vq_nonce vq)"
      "kw request ''operation'' = JStr ''record''" "kw request ''payload'' = JObj (vq_payload vq)"
      "kw request ''os_corroboration'' = (case vq_os_corroboration vq of Some c \<Rightarrow> JObj c | None \<Rightarrow> JNull)"
      "kw request ''request_id'' = JStr (vq_request_id vq)" "kw request ''session_id'' = JStr (vq_session_id vq)"
      "kw request ''version'' = JStr PROTOCOL_VERSION"
    using facts agent by (auto simp: verified_facts_def)
  have same: "\<forall>k\<in>set REQUEST_FIELDS. (if k = ''request_signature'' then None else Some (kw request k))
      = map_of (seen_request vq a (kw request ''event_signature'')) k"
    unfolding REQUEST_FIELDS_def seen_request_def by (simp add: vals)
  show "map_of (without ''request_signature'' request) = map_of (seen_request vq a (kw request ''event_signature''))"
  proof
    fix k
    show "map_of (without ''request_signature'' request) k = map_of (seen_request vq a (kw request ''event_signature'')) k"
    proof (cases "k \<in> set REQUEST_FIELDS")
      case True
      from bspec[OF same True] get[OF True] show ?thesis
        unfolding f by (cases "k = ''request_signature''") simp_all
    next
      case False
      moreover from False have "k \<notin> set (map fst (seen_request vq a (kw request ''event_signature'')))"
        by (simp add: seen_request_def REQUEST_FIELDS_def)
      then have "map_of (seen_request vq a (kw request ''event_signature'')) k = None" by (simp add: map_of_eq_None_iff)
      moreover have "map_of request k = None" using keys False by blast
      ultimately show ?thesis unfolding f by simp
    qed
  qed
qed

lemma attested_service_record:
  assumes facts: "verified_facts sv request er caller now freshness vq" and sound: "sound_enrollment sv (vq_enrollment vq)"
    and wf: "wf_json (JObj request)" and agent: "kw request ''agent_id'' = JStr (en_agent_id (vq_enrollment vq))"
    and inj: "inj (ps_sha384 sv)" and sid: "pv_session_id s = vq_session_id vq"
  shows "verify_attestation sv (service_record vq caller s ts)
    = Inr (Some (kw request ''event_signature'' = JStr (tohex (vq_event_signature vq))))"
proof -
  let ?en = "vq_enrollment vq" and ?r = "service_record vq caller s ts" and ?m = "service_metadata vq caller"
  let ?c = "(''provenance_service'', JObj ?m) # (case vq_os_corroboration vq of Some c \<Rightarrow> [(''client'', JObj c)] | None \<Rightarrow> [])"
  let ?sig = "JStr (tohex (vq_event_signature vq))"
  let ?seen = "seen_request vq (en_agent_id ?en)"
  have who: "en_agent_id ?en \<noteq> []" using sound by (simp add: sound_enrollment_def agent_id_of_def)
  have kws: "kw ?r ''os_corroboration'' = JObj ?c" "kw ?r ''record_version'' = JStr RECORD_VERSION_V2"
      "kw ?r ''agent_id'' = JStr (en_agent_id ?en)" "kw ?r ''agent_sig'' = ?sig"
      "kw ?r ''event_type'' = JStr (event_value (vq_event_type vq))" "kw ?r ''payload'' = JObj (vq_payload vq)"
      "kw ?r ''session_id'' = JStr (vq_session_id vq)"
    using who sid by (simp_all add: service_record_def build_record_fields service_corroboration_def payload_of_def)
  have att: "attested_request ?r ?c ?m = ?seen ?sig"
    unfolding attested_request_def kws service_corroboration_client seen_request_def
    by (simp add: service_metadata_def kw_def dict_get_def)
  have hex: "hex_field ?r ''agent_sig'' = Some (vq_event_signature vq)"
    using kws(4) by (simp add: hex_field_def kw_get)
  have hash: "vq_request_hash vq = ps_sha384 sv (dumps True (JObj (?seen (kw request ''event_signature''))))"
    using facts unsigned_request[OF facts wf agent] by (simp add: verified_facts_def dumps_def)
  have same: "ps_sha384 sv (dumps True (JObj (?seen (kw request ''event_signature'')))) = ps_sha384 sv (dumps True (JObj (?seen ?sig)))
      \<longleftrightarrow> kw request ''event_signature'' = ?sig"
  proof
    assume "ps_sha384 sv (dumps True (JObj (?seen (kw request ''event_signature'')))) = ps_sha384 sv (dumps True (JObj (?seen ?sig)))"
    from injD[OF inj this] have "key_sorted (JObj (?seen (kw request ''event_signature''))) = key_sorted (JObj (?seen ?sig))"
      by (simp only: dumps_inject)
    from key_sorted_members[OF this, of "''event_signature''"] obtain e where "key_sorted (kw request ''event_signature'') = key_sorted ?sig"
      by (simp add: seen_request_def wf_dict_def)
    moreover obtain e where "kw request ''event_signature'' = JStr e" using facts by (auto simp: verified_facts_def)
    ultimately show "kw request ''event_signature'' = ?sig" by simp
  qed simp
  have signed: "agent_verify sv (en_algorithm ?en) (en_public_key ?en) (attested_event ?r) (vq_event_signature vq)"
    unfolding attested_event_def kws using facts by (simp add: verified_facts_def enrollment_verify_def)
  have req: "agent_verify sv (en_algorithm ?en) (en_public_key ?en) (dumps True (JObj (?seen (kw request ''event_signature'')))) (vq_request_signature vq)"
    using facts unsigned_request[OF facts wf agent] by (simp add: verified_facts_def enrollment_verify_def dumps_def)
  have len: "length (vq_event_signature vq) = signature_size (en_algorithm ?en)" "length (vq_request_signature vq) = signature_size (en_algorithm ?en)"
    using facts by (simp_all add: verified_facts_def)
  have "attestation_holds sv ?r ?c ?m (en_algorithm ?en) = (kw request ''event_signature'' = ?sig)"
    unfolding attestation_holds_def service_metadata_fields hex att hash kws
    using sound signed req same len by (auto simp: sound_enrollment_def signature_size_def)
  then show ?thesis
    using sound by (simp add: verify_attestation_def kws service_metadata_fields sound_enrollment_def)
qed

end
