(* ===== verification/ProvenanceDemo.thy ===== *)
theory ProvenanceDemo
  imports ProvenanceCore "HOL-Library.Code_Target_Numeral"
begin

text \<open>
  Concrete recorders and services on which the properties of the provenance theories are instantiated,
  and the evaluation of the calls their instances need.
\<close>

subsection \<open>A recorder\<close>

definition demo_prov :: "unit prov_services" where
  "demo_prov = \<lparr>ps_sha384 = (\<lambda>b. b), ps_sha256 = (\<lambda>b. b), ps_ed25519 = (\<lambda>key data g. g = ''s''), ps_p384 = (\<lambda>key data g. False),
     ps_now = (\<lambda>w. (w, ''2026'')), ps_open = (\<lambda>w. (w, None)), ps_write = (\<lambda>w. (w, None)), ps_read = (\<lambda>w. (w, None)),
     ps_public_key = Some (replicate 32 CHR ''A''), ps_sign = (\<lambda>w d. (w, Inr ''s'')), ps_push = None\<rparr>"

definition demo_started :: "unit prov" where
  "demo_started = fst (start demo_prov False (recorder_init ''s'' ''a'' ENTERPRISE 100 None None None ()))"

definition demo_lost :: "unit prov" where
  "demo_lost = fst (append_record (demo_prov\<lparr>ps_write := (\<lambda>w. (w, Some (''full'', 0)))\<rparr>) HEARTBEAT None None None None demo_started)"

lemma demo_hashes: "pv_started demo_started \<and> pv_prev_hash demo_lost \<noteq> pv_prev_hash demo_started"
  by code_simp

lemma demo_later: "\<exists>r. snd (append_record demo_prov HEARTBEAT None None None None demo_lost) = Inr (Some r)"
proof -
  have "case snd (append_record demo_prov HEARTBEAT None None None None demo_lost) of Inr (Some r) \<Rightarrow> True | _ \<Rightarrow> False"
    by code_simp
  then show ?thesis by (auto split: sum.splits option.splits)
qed
subsection \<open>A service\<close>

lemma demo_frame: "\<exists>data. encode_frame [(''b'', JNull), (''a'', JArr [])] = Inr data"
proof -
  have "case encode_frame [(''b'', JNull), (''a'', JArr [])] of Inr d \<Rightarrow> True | Inl e \<Rightarrow> False" by code_simp
  then show ?thesis by (auto split: sum.splits)
qed

definition demo_core :: "unit core_services" where
  "demo_core = \<lparr>cs_prov = demo_prov,
     cs_factory = (\<lambda>sid sup file w. (w, Inr (recorder_init sid ''svc'' ENTERPRISE 100 sup None file w))),
     cs_now_ms = (\<lambda>w. (w, 0)), cs_begin = (\<lambda>w. (w, None)), cs_commit = (\<lambda>w. (w, None)), cs_on_commit = None,
     cs_agent_id = ''svc'', cs_sign = (\<lambda>b. Inr ''s''), cs_freshness = 60000,
     cs_registry = \<lparr>er_by_id = [], er_supervisor_id = None\<rparr>\<rparr>"

text \<open>A request of an enrolled agent, with upper-case signatures.\<close>

definition demo_enrollment :: agent_enrollment where
  "demo_enrollment = \<lparr>en_agent_id = ''SC-AAAAAAAA'', en_algorithm = ''ed25519'', en_public_key = replicate 32 CHR ''A'',
     en_sid = ''S-1-5-18'', en_supervisor = False, en_enabled = True\<rparr>"

definition demo_registry :: enrollment_registry where
  "demo_registry = \<lparr>er_by_id = [(''SC-AAAAAAAA'', demo_enrollment)], er_supervisor_id = None\<rparr>"

definition demo_request :: json_object where
  "demo_request =
     [(''agent_id'', JStr ''SC-AAAAAAAA''), (''event_signature'', JStr (replicate 128 CHR ''A'')),
      (''event_type'', JStr ''tool_call''), (''issued_at_ms'', JInt 0), (''nonce'', JStr (replicate 22 CHR ''n'')),
      (''operation'', JStr ''record''), (''os_corroboration'', JNull), (''payload'', JObj []),
      (''request_id'', JStr ''00000000-0000-0000-0000-000000000000''), (''request_signature'', JStr (replicate 128 CHR ''A'')),
      (''session_id'', JStr ''11111111-0000-0000-0000-000000000000''), (''version'', JStr PROTOCOL_VERSION)]"

definition demo_lenient :: "unit prov_services" where
  "demo_lenient = demo_prov\<lparr>ps_ed25519 := (\<lambda>key data g. length g = 64 \<or> g = ''s'')\<rparr>"

definition short_hash :: "bytes \<Rightarrow> pystr" where
  "short_hash b = ''h''"

definition demo_service :: "unit core_services" where
  "demo_service = demo_core\<lparr>cs_prov := demo_lenient\<lparr>ps_sha384 := short_hash\<rparr>, cs_registry := demo_registry,
     cs_sign := (\<lambda>b. Inr (replicate 64 CHR ''s''))\<rparr>"

lemma demo_verified:
  "\<exists>vq. verify_record_request demo_lenient demo_request demo_registry ''S-1-5-18'' 0 60000 True = Inr vq"
proof -
  have "case verify_record_request demo_lenient demo_request demo_registry ''S-1-5-18'' 0 60000 True of Inr vq \<Rightarrow> True | Inl e \<Rightarrow> False"
    by code_simp
  then show ?thesis by (auto split: sum.splits)
qed

lemma demo_answered:
  "\<exists>y. snd (handle_record demo_service demo_request ''S-1-5-18'' (core_init ())) = Inr y"
proof -
  have "case snd (handle_record demo_service demo_request ''S-1-5-18'' (core_init ())) of Inr y \<Rightarrow> True | Inl e \<Rightarrow> False"
    by code_simp
  then show ?thesis by (auto split: sum.splits)
qed

end
