(* ===== verification/ProvenanceSpec.thy ===== *)
theory ProvenanceSpec
  imports ProvenanceIpcProofs ProvenanceDemo
begin

text \<open>
  What the provenance recorder and the provenance service promise: an intact log as long as the disk
  takes whole lines, and what one failed write does to it; only admitted requests reach a ledger; one
  record per request and a receipt that is backed and final; frames and attestations.
\<close>

subsection \<open>Runs of a recorder\<close>

datatype recorder_call =
    StartCall bool
  | RecordCall json "json_object option" "pystr option" "bytes option" "json option"
  | HeartbeatCall
  | GapCall pystr pystr
  | CloseCall "json_object option" "pystr option"
  | InterruptCall pystr
  | ModeCall audit_mode "pystr option" pystr
  | RegisterCall pystr "(bytes \<Rightarrow> bytes \<Rightarrow> bool) option"
  | RestartCall audit_mode int "pystr option" "pystr option"

text \<open>
  Calls a client may make: arguments from JSON, no forged service attestation, fail-closed modes only.
  A restart is a new recorder of the session on the same file.
\<close>

fun proper_call :: "recorder_call \<Rightarrow> bool" where
  "proper_call (RecordCall et p a g c) \<longleftrightarrow>
     wf_json (JObj (payload_of p)) \<and> plain_corroboration c \<and> (case c of Some v \<Rightarrow> wf_json v | None \<Rightarrow> True)"
| "proper_call (CloseCall summary token) \<longleftrightarrow> wf_json (JObj (payload_of summary))"
| "proper_call (ModeCall m token reason) \<longleftrightarrow> fail_closed m"
| "proper_call (RestartCall m interval supervisor token) \<longleftrightarrow> fail_closed m"
| "proper_call _ \<longleftrightarrow> True"

fun recorder_step :: "'w prov_services \<Rightarrow> recorder_call \<Rightarrow> 'w prov \<Rightarrow> 'w prov" where
  "recorder_step sv (StartCall resume) s = fst (start sv resume s)"
| "recorder_step sv (RestartCall m interval supervisor token) s =
     recorder_init (pv_session_id s) (pv_agent_id s) m interval supervisor token (pv_log s) (pv_world s)"
| "recorder_step sv call s =
     (if \<not> pv_started s then s
      else case call of
        RecordCall et p a g c \<Rightarrow> fst (record_event sv et p a g c s)
      | HeartbeatCall \<Rightarrow> fst (heartbeat_round sv s)
      | GapCall sensor detail \<Rightarrow> fst (report_telemetry_gap sv sensor detail s)
      | CloseCall summary token \<Rightarrow> fst (close_recorder sv summary token s)
      | InterruptCall reason \<Rightarrow> fst (interrupt sv reason s)
      | ModeCall m token reason \<Rightarrow> fst (change_audit_mode sv m token reason s)
      | RegisterCall a key \<Rightarrow> fst (register_agent a key s)
      | _ \<Rightarrow> s)"

lemma restart_live:
  assumes "live sv clk sid s" "fail_closed m"
  shows "live sv clk sid (recorder_init (pv_session_id s) agent m interval supervisor token (pv_log s) (pv_world s))"
  using assms unfolding live_def going_on_def resting_def chained_def recorder_init_def
  by (auto intro!: exI)

lemma call_live:
  assumes dep: "dependable sv clk" and s: "live sv clk sid s" and ok: "proper_call call"
  shows "live sv clk sid (recorder_step sv call s)"
proof (cases "pv_started s")
  case False
  then show ?thesis using s ok start_live[OF dep s] restart_live[OF s] by (cases call) simp_all
next
  case True
  with s have g: "going_on sv clk sid s" by (auto simp: live_def resting_def)
  show ?thesis
  proof (cases call)
    case (RecordCall et p a g c)
    have "keeps (going_on sv clk sid) (record_event sv et p a g c)"
      by (rule record_keeps[OF dep], rule plain_acceptable)
         (use ok RecordCall in \<open>auto simp: wf_arguments_def split: option.splits\<close>)
    from keepsD[OF this \<open>going_on sv clk sid s\<close>] True RecordCall show ?thesis by (simp add: live_def)
  next
    case HeartbeatCall
    then show ?thesis using heartbeat_keeps[OF dep g] True by (simp add: live_def)
  next
    case (GapCall sensor detail)
    then show ?thesis using keepsD[OF gap_keeps[OF dep] g] True by (simp add: live_def)
  next
    case (CloseCall summary token)
    then show ?thesis using keepsD[OF close_keeps[OF dep] g] True ok by (simp add: live_def)
  next
    case (InterruptCall reason)
    then show ?thesis using keepsD[OF interrupt_keeps[OF dep] g] True by (simp add: live_def)
  next
    case (ModeCall m token reason)
    then show ?thesis using keepsD[OF change_mode_keeps[OF dep] g] True ok by (simp add: live_def)
  next
    case (RegisterCall a key)
    then show ?thesis using keepsD[OF register_keeps g] True by (simp add: live_def)
  qed (use s ok start_live[OF dep s] restart_live[OF s] in simp_all)
qed

lemma run_live:
  assumes "dependable sv clk" "fail_closed mode" "list_all proper_call calls"
  shows "live sv clk sid (fold (recorder_step sv) calls (recorder_init sid agent mode interval supervisor token None w))"
proof -
  have "live sv clk sid (fold (recorder_step sv) calls s)" if "live sv clk sid s" for s
    using that assms(3) by (induction calls arbitrary: s) (simp_all add: call_live[OF assms(1)])
  moreover have "live sv clk sid (recorder_init sid agent mode interval supervisor token None w)"
    using assms(2) by (simp add: live_def resting_def recorder_init_def)
  ultimately show ?thesis by blast
qed

lemma live_intact:
  assumes "live sv clk sid s"
  shows "\<exists>v. verify_chain sv (ps_public_key sv) (ps_public_key sv \<noteq> None) (pv_log s) = Inr v \<and> vr_ok v"
proof -
  have key: "(if ps_public_key sv \<noteq> None then ps_public_key sv else None) = ps_public_key sv" by simp
  obtain rs pt where "pv_log s = Some (log_of rs) \<or> pv_log s = None" "list_all (\<lambda>r. wf_json (JObj r)) rs"
    "chain_from sv (ps_public_key sv) (GENESIS_HASH_384, []) rs = Some pt"
    using assms unfolding live_def going_on_def chained_def resting_def by blast
  then show ?thesis
    using intact_log[of sv "ps_public_key sv \<noteq> None" "ps_public_key sv" rs pt] key
    by (auto simp: verify_chain_def end_scan_def vr_ok_def)
qed

subsection \<open>The recorder's log\<close>

lemma demo_dependable: "dependable demo_prov (\<lambda>w. ''2026'')" "whole_lines demo_prov"
  by (simp_all add: dependable_def steady_def demo_prov_def signed_by_def whole_lines_def)



lemma full_disk_append:
  assumes "append_record (sv\<lparr>ps_write := (\<lambda>w. (w, Some (e, 0)))\<rparr>) ev p a g c s = (s1, x)" "fail_closed (pv_mode s)"
  shows "(\<exists>t. x = Inl (RecorderError t)) \<and> pv_log s1 = pv_log s"
proof -
  let ?sv = "sv\<lparr>ps_write := (\<lambda>w. (w, Some (e, 0)))\<rparr>"
  have sign: "sign_record ?sv r s0 = (s0', y) \<Longrightarrow> pv_mode s0' = pv_mode s0 \<and> pv_log s0' = pv_log s0
      \<and> (fail_closed (pv_mode s0) \<longrightarrow> (\<forall>er. y = Inl er \<longrightarrow> (\<exists>t. er = RecorderError t)))" for r s0 s0' y
    by (auto simp: sign_record_def exec_bind_def exec_simps outside_op_def recorder_raise_def split: if_splits prod.splits sum.splits)
  have refused: "write_line ?sv r s0 = (s0, Inr (Some e))" for r s0
    by (simp add: write_line_def exec_bind_def exec_simps outside_op_def)
  let ?s2 = "s\<lparr>pv_seq := pv_seq s + 1, pv_world := fst (ps_now sv (pv_world s))\<rparr>"
  let ?r0 = "build_record ?s2 (snd (ps_now sv (pv_world s))) ev p a g c"
  obtain s3 y where s3: "sign_record ?sv ?r0 ?s2 = (s3, y)" by force
  note f = sign[OF s3]
  have eq: "append_record ?sv ev p a g c s =
      (case y of Inl er \<Rightarrow> (s3, Inl er)
       | Inr r \<Rightarrow> (advance_chain (canonical_hash ?sv r) s3, Inl (RecorderError (''Provenance sink write failed (fail-closed): '' @ e))))"
    using f assms(2) s3
    by (cases y) (simp_all add: append_record_def append_core_def exec_bind_def exec_simps outside_op_def split_beta
        refused handle_sink_failure_def advance_chain_def recorder_raise_def)
  show ?thesis using assms eq f by (cases y) (auto simp: advance_chain_def)
qed

lemma later_append_breaks:
  assumes dep: "dependable sv clk" and s: "chained sv clk s" and log: "pv_log s1 = pv_log s"
    and hash: "pv_prev_hash s1 \<noteq> pv_prev_hash s"
    and later: "append_record sv ev p a g c s1 = (s2, Inr (Some r))" and wf: "wf_arguments p g c"
  shows "\<exists>v. verify_chain sv (ps_public_key sv) (ps_public_key sv \<noteq> None) (pv_log s2) = Inr v \<and> vr_failure v = Some ChainBreak"
proof -
  obtain rs t where rs: "pv_log s = Some (log_of rs)" "list_all (\<lambda>r. wf_json (JObj r)) rs"
    "chain_from sv (ps_public_key sv) (GENESIS_HASH_384, []) rs = Some (pv_prev_hash s, t)"
    using s unfolding chained_def by blast
  have whole: "whole_lines sv" using dependableD(8)[OF dep] by (simp add: whole_lines_def)
  have t1: "log_text s1 = log_of rs" using rs(1) log by (simp add: log_text_def)
  have "adds rs {[], given_id c} (log_text s2)"
    using leadsD[OF service_append_leads[OF wf] _ later, of rs] whole adds_start[of "{[]}" rs] t1 by simp
  then obtain qs where qs: "log_text s2 = log_of (rs @ qs)" "list_all (\<lambda>r. wf_json (JObj r)) qs" by (auto simp: adds_def)
  from append_record_line[OF later] obtain post where post: "log_text s2 = log_of rs @ record_line r @ post" "built ev p a g c r"
    by (auto simp: added_line_def t1)
  have wr: "wf_json (JObj r)" by (rule built_service(2)[OF post(2) wf])
  from qs(1) post(1) have "record_line r @ post = log_of qs" by simp
  from first_line[OF this wr qs(2)] obtain ms where ms: "qs = r # ms" by blast
  have log2: "pv_log s2 = Some (log_of (rs @ r # ms))"
    using qs(1) ms by (auto simp: log_text_def log_of_def record_line_def split: option.splits)
  note r = append_record_prev[OF later]
  have key: "(if ps_public_key sv \<noteq> None then ps_public_key sv else None) = ps_public_key sv" by simp
  have "chain_from sv (if ps_public_key sv \<noteq> None then ps_public_key sv else None) (GENESIS_HASH_384, []) rs = Some (pv_prev_hash s, t)"
    unfolding key by (rule rs(3))
  from broken_log[OF this rs(2) _ wr _ conjunct1[OF r] hash, of ms] r show ?thesis
    unfolding log2 by (auto simp: is_ack_def)
qed



subsection \<open>The service\<close>

lemma authorise_iff:
  "authorise cs vq = Inr u \<longleftrightarrow> \<not> vq_stale vq
     \<and> (vq_event_type vq \<in> set AGENT_EVENTS \<or> vq_event_type vq \<in> set SUPERVISOR_EVENTS \<and> en_supervisor (vq_enrollment vq))"
  by (auto simp: authorise_def AGENT_EVENTS_def SUPERVISOR_EVENTS_def)

text \<open>
  C16. Nothing but an admitted request reaches a ledger. Whatever a caller sends, either no session file
  changes, or the request has the exact fields, comes from the caller SID of an enrolled and enabled
  agent, carries that agent's two valid signatures over the event and over the request, is fresh and of
  an event class the agent may submit, a privileged one only as the supervisor; and then only the file of
  its session changes, by appending.
\<close>

theorem only_admitted_requests_write:
  shows "let (s', x) = handle_record cs request caller s; now = snd (cs_now_ms cs (co_world s)) in
    co_files s' = co_files s
    \<or> (\<exists>vq. verified_facts (cs_prov cs) request (cs_registry cs) caller now (cs_freshness cs) vq
        \<and> \<not> vq_stale vq
        \<and> (vq_event_type vq \<in> set AGENT_EVENTS \<or> vq_event_type vq \<in> set SUPERVISOR_EVENTS \<and> en_supervisor (vq_enrollment vq))
        \<and> map_of (co_files s') = (map_of (co_files s))(vq_session_id vq := map_of (co_files s') (vq_session_id vq))
        \<and> (\<exists>u. file_text s' (vq_session_id vq) = file_text s (vq_session_id vq) @ u))"
proof -
  obtain s' x where h: "handle_record cs request caller s = (s', x)" by force
  show ?thesis unfolding h Let_def prod.case
  proof (cases rule: handle_grows[OF h, case_names same grown])
    case (grown vq)
    have "map_of (co_files s') = (map_of (co_files s))(vq_session_id vq := map_of (co_files s') (vq_session_id vq))"
      using grown(2) by (auto simp: fun_eq_iff)
    with grown verified_request_facts show
      "co_files s' = co_files s
      \<or> (\<exists>vq. verified_facts (cs_prov cs) request (cs_registry cs) caller (snd (cs_now_ms cs (co_world s))) (cs_freshness cs) vq
        \<and> \<not> vq_stale vq
        \<and> (vq_event_type vq \<in> set AGENT_EVENTS \<or> vq_event_type vq \<in> set SUPERVISOR_EVENTS \<and> en_supervisor (vq_enrollment vq))
        \<and> map_of (co_files s') = (map_of (co_files s))(vq_session_id vq := map_of (co_files s') (vq_session_id vq))
        \<and> (\<exists>u. file_text s' (vq_session_id vq) = file_text s (vq_session_id vq) @ u))"
      unfolding admits_def authorise_iff by blast
  qed simp
qed

datatype service_call = RequestCall json_object pystr | RestartService | StopService

fun service_step :: "'w core_services \<Rightarrow> service_call \<Rightarrow> 'w core \<Rightarrow> 'w core" where
  "service_step cs (RequestCall request caller) s = fst (handle_record cs request caller s)"
| "service_step cs RestartService s = core_restart s"
| "service_step cs StopService s = core_close s"

fun parsed_call :: "service_call \<Rightarrow> bool" where
  "parsed_call (RequestCall request caller) \<longleftrightarrow> wf_json (JObj request)"
| "parsed_call _ \<longleftrightarrow> True"

definition service_sound :: "'w core_services \<Rightarrow> 'w core \<Rightarrow> bool" where
  "service_sound cs s \<longleftrightarrow> (\<forall>sid. \<exists>rs. is_ledger rs s sid) \<and> (\<forall>row\<in>set (co_receipts s). backed cs s row)"

lemma backed_grows:
  assumes "backed cs s row" "\<And>rs sid. is_ledger rs s sid \<Longrightarrow> \<exists>qs. is_ledger (rs @ qs) s' sid" "\<And>sid. \<exists>rs. is_ledger rs s sid"
  shows "backed cs s' row"
proof -
  obtain rid digest response ts where row: "row = (rid, digest, response, ts)" by (metis prod_cases4)
  obtain sid rs r where r: "file_text s sid = log_of rs" "list_all (\<lambda>r. wf_json (JObj r)) rs" "r \<in> set rs" "carries r rid digest"
      "response = dumps True (JObj (receipt_from_record (cs_prov cs) r rid ts))"
    using assms(1) unfolding backed_def row prod.case by blast
  obtain rs' where rs': "is_ledger rs' s sid" using assms(3) by blast
  then have "rs' = rs" using r(1,2) by (intro log_of_inject) (simp_all add: is_ledger_def sound_ledger_def)
  with assms(2)[OF rs'] obtain qs where "is_ledger (rs @ qs) s' sid" by blast
  then have "file_text s' sid = log_of (rs @ qs)" "list_all (\<lambda>r. wf_json (JObj r)) (rs @ qs)"
    by (simp_all add: is_ledger_def sound_ledger_def)
  moreover have "r \<in> set (rs @ qs)" using r(3) by simp
  ultimately show ?thesis using r(4,5) unfolding backed_def row prod.case by blast
qed

lemma service_step_sound:
  assumes whole: "whole_lines (cs_prov cs)" and ok: "parsed_call call" and s: "service_sound cs s"
  shows "service_sound cs (service_step cs call s)"
proof (cases call)
  case (RequestCall request caller)
  obtain s' x where h: "handle_record cs request caller s = (s', x)" by force
  have ledgers: "\<exists>rs. is_ledger rs s sid" for sid using s by (simp add: service_sound_def)
  have wf: "wf_json (JObj request)" using ok RequestCall by simp
  note grow = handle_ledgers[OF whole wf h]
  have "\<exists>rs. is_ledger rs s' sid" for sid using ledgers grow by blast
  moreover have "backed cs s' row" if "row \<in> set (co_receipts s')" for row
  proof -
    have "new_rows_backed cs (set (co_receipts s)) s'"
    proof (cases rule: request_cases[OF h, case_names outside replayed admitted])
      case (admitted vq)
      have "well_formed_request vq" using verified_well_formed admitted(1) wf unfolding admits_def by blast
      moreover have "has_ledger (set (co_receipts s)) (vq_session_id vq) (s\<lparr>co_world := fst (cs_now_ms cs (co_world s))\<rparr>)"
        using ledgers[of "vq_session_id vq"] by (auto simp: has_ledger_def is_ledger_def sound_ledger_def file_text_def)
      ultimately show ?thesis using leadsD[OF locked_rows[OF whole] _ admitted(3)] by blast
    qed (auto simp: new_rows_backed_def)
    with that have "row \<in> set (co_receipts s) \<or> backed cs s' row" by (auto simp: new_rows_backed_def)
    moreover have "backed cs s row \<Longrightarrow> backed cs s' row" by (rule backed_grows[OF _ grow ledgers])
    ultimately show ?thesis using s unfolding service_sound_def by blast
  qed
  ultimately show ?thesis using RequestCall h by (simp add: service_sound_def)
qed (use s in \<open>simp_all add: service_sound_def is_ledger_def backed_def file_text_def core_restart_def core_close_def\<close>)

lemma service_run_sound:
  assumes "whole_lines (cs_prov cs)" "list_all parsed_call calls"
  shows "service_sound cs (fold (service_step cs) calls (core_init w))"
proof -
  have "service_sound cs (fold (service_step cs) calls s)" if "service_sound cs s" for s
    using that assms(2) by (induction calls arbitrary: s) (simp_all add: service_step_sound[OF assms(1)])
  moreover have "is_ledger [] (core_init w) sid" for sid
    by (simp add: is_ledger_def sound_ledger_def core_init_def file_text_def)
  then have "service_sound cs (core_init w)" by (auto simp: service_sound_def core_init_def)
  ultimately show ?thesis by blast
qed



subsection \<open>Receipts are final\<close>

text \<open>The row a successful request leaves.\<close>

definition committed_row :: "verified_request \<Rightarrow> 'w core \<Rightarrow> bool" where
  "committed_row vq s \<longleftrightarrow> (\<exists>response ts. receipt_row (vq_request_id vq) (vq_request_hash vq, response, ts) s)"

lemma committed_row_cong: "committed_row vq s \<Longrightarrow> co_receipts s' = co_receipts s \<Longrightarrow> committed_row vq s'"
  by (simp add: committed_row_def receipt_row_def)

lemma save_commits:
  "map_of (co_receipts s) (vq_request_id vq) = None \<Longrightarrow>
     committed_row vq (fst (save_receipt (vq_request_id vq) (vq_request_hash vq) response ts s))"
  by (auto simp: save_receipt_def exec_simps committed_row_def receipt_row_def map_add_def)

lemma same_tables:
  assumes "on_recorder sid m s = (s', x)" shows "co_receipts s' = co_receipts s"
  using on_recorder_tables[of sid m s] assms by simp

lemma run_on_commit_tables: "run_on_commit cs sid s = (s', x) \<Longrightarrow> co_receipts s' = co_receipts s"
  by (cases "cs_on_commit cs")
     (auto simp: run_on_commit_def exec_bind_def core_outside_def exec_simps split: prod.splits option.splits)

lemma consume_tables: "consume_nonce a n e s = (s', x) \<Longrightarrow> co_receipts s' = co_receipts s"
  by (auto simp: consume_nonce_def exec_bind_def exec_simps)

lemmas table_facts = same_tables run_on_commit_tables consume_tables

lemma commit_new_row:
  assumes "commit_new cs vq caller now s = (s', Inr y)" "map_of (co_receipts s) (vq_request_id vq) = None"
  shows "committed_row vq s'"
  using assms unfolding commit_new_def Let_def
  by (auto simp: exec_simps dest!: table_facts split: if_splits option.splits elim!: exec_bind_InrE)
     (metis fst_conv save_commits)+

lemma commit_recovered_row:
  assumes "commit_recovered cs vq now r s = (s', Inr y)" "map_of (co_receipts s) (vq_request_id vq) = None"
  shows "committed_row vq s'"
  using assms unfolding commit_recovered_def Let_def
  by (auto simp: exec_simps respond_def dest!: table_facts elim!: exec_bind_InrE) (metis fst_conv save_commits)+

lemma commit_body_row:
  assumes "commit_body cs vq caller now s = (s', Inr y)" "map_of (co_receipts s) (vq_request_id vq) = None"
  shows "committed_row vq s'"
proof -
  obtain s1 u where p: "prune now s = (s1, Inr u)"
    and rest: "exec_bind (transaction_receipt (vq_request_id vq)) (\<lambda>row.
     exec_bind (exec_of (stored_receipt row vq)) (\<lambda>stored.
       case stored of
         Some replay \<Rightarrow> exec_bind (respond cs replay) (\<lambda>x. exec_ret (Inl x))
       | None \<Rightarrow>
           exec_bind (recover_record cs vq) (\<lambda>recovered.
             case recovered of
               Some r \<Rightarrow> exec_bind (commit_recovered cs vq now r) (\<lambda>x. exec_ret (Inl x))
             | None \<Rightarrow> exec_bind (commit_new cs vq caller now) (\<lambda>x. exec_ret (Inr x))))) s1 = (s', Inr y)"
    by (rule exec_bind_InrE[OF assms(1)[unfolded commit_body_def]])
  have r1: "map_of (co_receipts s1) (vq_request_id vq) = None" using p assms(2) by (auto simp: prune_def exec_simps)
  have "exec_bind (recover_record cs vq) (\<lambda>recovered.
       case recovered of
         Some r \<Rightarrow> exec_bind (commit_recovered cs vq now r) (\<lambda>x. exec_ret (Inl x))
       | None \<Rightarrow> exec_bind (commit_new cs vq caller now) (\<lambda>x. exec_ret (Inr x))) s1 = (s', Inr y)"
    using rest r1 by (simp add: exec_bind_def exec_simps transaction_receipt_def load_receipt_def stored_receipt_def)
  then obtain s2 recovered where r: "recover_record cs vq s1 = (s2, Inr recovered)"
    and c: "(case recovered of
         Some r \<Rightarrow> exec_bind (commit_recovered cs vq now r) (\<lambda>x. exec_ret (Inl x))
       | None \<Rightarrow> exec_bind (commit_new cs vq caller now) (\<lambda>x. exec_ret (Inr x))) s2 = (s', Inr y)"
    by (elim exec_bind_InrE)
  have r2: "map_of (co_receipts s2) (vq_request_id vq) = None" using recover_tables[of cs vq s1] r r1 by simp
  show ?thesis
    using c r2 by (auto split: option.splits elim!: exec_bind_InrE simp: exec_simps intro: commit_new_row commit_recovered_row)
qed

lemma transaction_Inr:
  assumes "transaction cs m s = (s', Inr x)"
  shows "\<exists>w s2 w'. m (s\<lparr>co_world := w\<rparr>) = (s2, Inr x) \<and> s' = s2\<lparr>co_world := w'\<rparr>"
  using assms unfolding transaction_def Let_def core_outside_def
  by (auto split: prod.splits sum.splits option.splits)

lemma locked_row:
  assumes "locked_part cs vq caller now s = (s', Inr y)" "map_of (co_receipts s) (vq_request_id vq) = None"
  shows "committed_row vq s'"
proof -
  obtain s1 s2 u x where a: "recorder_for cs (vq_session_id vq) s = (s1, Inr u)"
      "transaction cs (commit_body cs vq caller now) s1 = (s2, Inr x)"
    and b: "(case x of Inl signed \<Rightarrow> exec_ret signed | Inr response \<Rightarrow> respond cs response) s2 = (s', Inr y)"
    using assms(1) unfolding locked_part_def by (elim exec_bind_InrE) blast
  have "co_receipts s1 = co_receipts s"
    using a(1) new_recorder_tables[of cs "vq_session_id vq" s]
    by (auto simp: recorder_for_def exec_bind_def exec_simps split: if_splits)
  with assms(2) have r1: "map_of (co_receipts s1) (vq_request_id vq) = None" by simp
  from transaction_Inr[OF a(2)] obtain w s3 w' where t: "commit_body cs vq caller now (s1\<lparr>co_world := w\<rparr>) = (s3, Inr x)"
    "s2 = s3\<lparr>co_world := w'\<rparr>" by blast
  have "committed_row vq s3" by (rule commit_body_row[OF t(1)]) (simp add: r1)
  then have "committed_row vq s2" using t(2) by (simp add: committed_row_def)
  moreover have "s' = s2" using b by (auto simp: respond_def exec_simps split: sum.splits)
  ultimately show ?thesis by simp
qed

lemma handle_commits:
  assumes "handle_record cs request caller s = (s', Inr y)"
  shows "\<exists>vq. verify_record_request (cs_prov cs) request (cs_registry cs) caller (snd (cs_now_ms cs (co_world s)))
      (cs_freshness cs) True = Inr vq \<and> committed_row vq s'"
proof (cases rule: request_cases[OF assms, case_names outside replayed admitted])
  case (replayed vq row replay)
  then have "committed_row vq s"
    by (auto simp: committed_row_def receipt_row_def load_receipt_def stored_receipt_def split: option.splits json.splits if_splits)
  with replayed show ?thesis by (auto simp: committed_row_def)
next
  case (admitted vq)
  then show ?thesis using locked_row[OF admitted(3)] by (auto simp: admits_def)
qed simp

lemma verified_hash:
  "verify_record_request sv request er caller now freshness stale = Inr vq \<Longrightarrow> request_hash sv request = Inr (vq_request_hash vq)"
  unfolding verify_record_request_def Let_def by (elim bind_resultE) (auto simp: map_result_Inr_iff)

lemma sign_fields:
  assumes "sign_service_response a sign d = Inr z" "k \<noteq> ''service_agent_id''" "k \<noteq> ''service_signature''"
  shows "kw z k = kw d k"
  using assms unfolding sign_service_response_def Let_def
  by (elim bind_resultE) (auto simp: map_result_Inr_iff kw_def dict_get_def map_of_update)

lemma handle_replays:
  assumes "handle_record cs request caller s = (s', x)" "kw request ''request_id'' = JStr rid" "receipt_row rid (digest, response, ts) s"
  shows "(\<exists>w. s' = s\<lparr>co_world := w\<rparr>)
    \<and> (case x of Inl e \<Rightarrow> True | Inr z \<Rightarrow> request_hash (cs_prov cs) request = Inr digest
        \<and> (\<exists>d. json_loads response = Some (JObj d)
            \<and> sign_service_response (cs_agent_id cs) (cs_sign cs) (AList.update ''status'' (JStr ''already_committed'') d) = Inr z))"
proof -
  have id: "verify_record_request (cs_prov cs) request (cs_registry cs) caller now (cs_freshness cs) True = Inr vq
      \<Longrightarrow> vq_request_id vq = rid" for now vq
    using verified_request_facts[of "cs_prov cs" request "cs_registry cs" caller now "cs_freshness cs" True vq] assms(2)
    by (simp add: verified_facts_def)
  show ?thesis
  proof (cases rule: request_cases[OF assms(1), case_names outside replayed admitted])
    case (replayed vq row replay)
    have "map_of (co_receipts s) (vq_request_id vq) = Some (digest, response, ts)"
      using id[OF replayed(1)] assms(3) by (simp add: receipt_row_def)
    then obtain d where "json_loads response = Some (JObj d)" "replay = AList.update ''status'' (JStr ''already_committed'') d"
      "digest = vq_request_hash vq"
      using replayed(2,3) by (auto simp: load_receipt_def stored_receipt_def split: option.splits json.splits if_splits)
    then show ?thesis using replayed(4,5) verified_hash[OF replayed(1)]
      by (auto simp: as_protocol_def split: sum.splits)
  next
    case (admitted vq)
    have "vq_request_id vq = rid" using id admitted(1) by (auto simp: admits_def)
    then show ?thesis using admitted(2) assms(3) by (simp add: receipt_row_def)
  qed auto
qed

lemma run_keeps_row: "receipt_row rid row s \<Longrightarrow> receipt_row rid row (fold (service_step cs) calls s)"
proof (induction calls arbitrary: s)
  case (Cons call calls)
  have "receipt_row rid row (service_step cs call s)"
    using Cons.prems handle_keeps_row[of rid row s cs] by (cases call) (auto simp: core_restart_def core_close_def)
  from Cons.IH[OF this] show ?case by simp
qed simp

lemma loaded_receipt:
  assumes "wf_json (JObj r)" "json_loads (dumps True (JObj (receipt_from_record sv r rid ts))) = Some (JObj d)"
  shows "kw d ''receipt'' = key_sorted (kw (receipt_from_record sv r rid ts) ''receipt'')"
proof -
  let ?R = "receipt_from_record sv r rid ts"
  have wf: "wf_json (JObj ?R)"
    using wf_json_get[OF assms(1), of JNull] by (simp add: receipt_from_record_def wf_dict_def kw_def)
  from json_loads_dumps[OF wf_key_sorted[OF wf]] assms(2) have "JObj d = key_sorted (JObj ?R)" by (simp add: dumps_def)
  then show ?thesis using dict_get_sorted[OF wf, of "''receipt''" JNull] by (simp add: kw_def)
qed

text \<open>
  C15. Receipts are final. Once a request has been answered, whatever calls, stops and restarts follow, no
  request with its id ever touches a ledger or a receipt again; it is either refused, or it carries the
  same signed content (the same request hash) and is answered \<open>already_committed\<close> with the receipt of a
  record that is on a ledger and carries that id and hash.
\<close>

theorem receipts_are_final:
  assumes "whole_lines (cs_prov cs)" "list_all parsed_call (calls @ later)" "wf_json (JObj request)"
    and first: "handle_record cs request caller (fold (service_step cs) calls (core_init w)) = (s1, Inr y)"
    and again: "handle_record cs request' caller' (fold (service_step cs) later s1) = (s3, x)"
    and same: "kw request ''request_id'' = JStr rid" "kw request' ''request_id'' = JStr rid"
  shows "let s2 = fold (service_step cs) later s1 in co_files s3 = co_files s2 \<and> co_receipts s3 = co_receipts s2
    \<and> (case x of Inl e \<Rightarrow> True | Inr z \<Rightarrow> kw z ''status'' = JStr ''already_committed''
        \<and> (\<exists>h sid rs r ts. request_hash (cs_prov cs) request = Inr h \<and> request_hash (cs_prov cs) request' = Inr h
            \<and> file_text s2 sid = log_of rs \<and> r \<in> set rs \<and> carries r rid h
            \<and> kw z ''receipt'' = key_sorted (kw (receipt_from_record (cs_prov cs) r rid ts) ''receipt'')))"
proof -
  let ?s2 = "fold (service_step cs) later s1"
  obtain now vq where vq: "verify_record_request (cs_prov cs) request (cs_registry cs) caller now (cs_freshness cs) True = Inr vq"
    "committed_row vq s1" using handle_commits[OF first] by blast
  have rid: "vq_request_id vq = rid" using verified_request_facts[OF vq(1)] same(1) by (simp add: verified_facts_def)
  obtain response ts where row: "receipt_row rid (vq_request_hash vq, response, ts) ?s2"
    using vq(2) rid run_keeps_row by (fastforce simp: committed_row_def)
  have run: "?s2 = fold (service_step cs) (calls @ RequestCall request caller # later) (core_init w)" using first by simp
  have "service_sound cs ?s2" unfolding run by (rule service_run_sound) (use assms(1-3) in simp_all)
  moreover have "(rid, vq_request_hash vq, response, ts) \<in> set (co_receipts ?s2)"
    using row by (auto simp: receipt_row_def dest: map_of_SomeD)
  ultimately obtain sid rs r where r: "file_text ?s2 sid = log_of rs" "wf_json (JObj r)" "r \<in> set rs" "carries r rid (vq_request_hash vq)"
    "response = dumps True (JObj (receipt_from_record (cs_prov cs) r rid ts))"
    unfolding service_sound_def backed_def by (force simp: list_all_iff simp del: wf_json.simps)
  note replay = handle_replays[OF again same(2) row]
  show ?thesis
  proof (cases x)
    case (Inr z)
    with replay obtain d where d: "request_hash (cs_prov cs) request' = Inr (vq_request_hash vq)" "json_loads response = Some (JObj d)"
      "sign_service_response (cs_agent_id cs) (cs_sign cs) (AList.update ''status'' (JStr ''already_committed'') d) = Inr z" by auto
    have "kw z ''status'' = JStr ''already_committed''" "kw z ''receipt'' = kw d ''receipt''"
      using sign_fields[OF d(3)] by (simp_all add: kw_def dict_get_def map_of_update)
    moreover from this loaded_receipt[OF r(2) d(2)[unfolded r(5)]]
    have "kw z ''receipt'' = key_sorted (kw (receipt_from_record (cs_prov cs) r rid ts) ''receipt'')" by simp
    with d(1) r(1,3,4) verified_hash[OF vq(1)]
    have "\<exists>h sid rs r ts. request_hash (cs_prov cs) request = Inr h \<and> request_hash (cs_prov cs) request' = Inr h
        \<and> file_text ?s2 sid = log_of rs \<and> r \<in> set rs \<and> carries r rid h
        \<and> kw z ''receipt'' = key_sorted (kw (receipt_from_record (cs_prov cs) r rid ts) ''receipt'')" by blast
    ultimately show ?thesis using replay Inr by (auto simp: Let_def)
  qed (use replay in auto)
qed

lemma receipts_are_final_witness:
  "let s1 = fst (handle_record demo_service demo_request ''S-1-5-18'' (core_init ()));
       s2 = core_restart s1;
       s3 = fst (handle_record demo_service demo_request ''S-1-5-18'' s2) in
   co_files s3 = co_files s2 \<and> co_receipts s3 = co_receipts s2"
proof -
  let ?h = "handle_record demo_service demo_request ''S-1-5-18''" and ?id = "''00000000-0000-0000-0000-000000000000''"
  obtain y where "snd (?h (core_init ())) = Inr y" using demo_answered by blast
  then have first: "?h (fold (service_step demo_service) [] (core_init ())) = (fst (?h (core_init ())), Inr y)"
    by (simp add: prod_eq_iff)
  let ?s2 = "fold (service_step demo_service) [RestartService] (fst (?h (core_init ())))"
  have again: "?h ?s2 = (fst (?h ?s2), snd (?h ?s2))" by simp
  have "whole_lines (cs_prov demo_service)"
    by (simp add: demo_service_def demo_core_def demo_lenient_def demo_prov_def whole_lines_def)
  moreover have "wf_json (JObj demo_request)" by (simp add: demo_request_def wf_dict_def)
  moreover have "kw demo_request ''request_id'' = JStr ?id" by (simp add: demo_request_def kw_def dict_get_def)
  ultimately show ?thesis using receipts_are_final[OF _ _ _ first again, of ?id] by (simp add: Let_def)
qed

subsection \<open>Frames and attestations\<close>

text \<open>
  C20. Frames have one encoding. What \<open>encode_frame\<close> makes of a value is decoded to that value with its keys in
  order, and every frame that \<open>decode_frame\<close> accepts is, byte for byte, the frame of the value it returns.
\<close>

theorem frame_roundtrip:
  shows "(wf_json (JObj v) \<longrightarrow> encode_frame v = Inr data \<longrightarrow> decode_frame data = Inr (members (key_sorted (JObj v))))
    \<and> (decode_frame data = Inr v \<longrightarrow> encode_frame v = Inr data)"
  using decode_encoded encode_decoded by blast

lemma frame_roundtrip_witness:
  "\<exists>data. encode_frame [(''b'', JNull), (''a'', JArr [])] = Inr data \<and> decode_frame data = Inr [(''a'', JArr []), (''b'', JNull)]"
proof -
  have wf: "wf_json (JObj [(''b'', JNull), (''a'', JArr [])])" by (simp add: wf_dict_def)
  obtain data where data: "encode_frame [(''b'', JNull), (''a'', JArr [])] = Inr data" by (auto intro: demo_frame[THEN exE])
  then show ?thesis using frame_roundtrip[of "[(''b'', JNull), (''a'', JArr [])]" data] wf by simp
qed



end
