(* ===== verification/Spec2Isabelle.thy ===== *)
theory Spec2Isabelle
  imports GuardsSpec Lifetime LedgerSpec ApprovalSpec DurableSpec ControlSpec Composition PolicySpec ReceiptSpec AcpShimSpec
    McpToolsSpec Leases LogicalTargets DispatchSpec DeliverySpec ProvenanceSpec
begin

text \<open>
  A verification development of SelfConnect Enterprise, the Python package \<open>enterprise/\<close> that lets
  AI agents act on terminals under governance: every action is checked against a signed policy,
  an operator's approval and an owner's delegation, and recorded in a signed ledger.

  \<^bold>\<open>How the program fits together.\<close> An agent's request reaches \<open>PolicyEnforcer.check\<close>
  (\<open>policy.py\<close>), which asks the control plane (\<open>control.py\<close>), the deployment profile
  (\<open>classified_mode.py\<close>), the signed policy and the sequence monitor (\<open>composition_monitor.py\<close>).
  Where an approval is needed, the operator decides in the approval queue (\<open>operator.py\<close>), whose
  durable form writes every transition first to the action ledger (\<open>ledger.py\<close>) through the
  evidence sink (\<open>approval_audit.py\<close>). A remote client reaches the runtime through the ACP shim
  (\<open>acp_shim.py\<close>): its prompts carry a grant signed by an owner and a proof signed by the agent
  (\<open>delegation.py\<close>), whose issuer is looked up in the trust store (\<open>acp_auth.py\<close>), whose
  revocation is looked up in the registry (\<open>revocation.py\<close>) and whose identifier is consumed in
  the replay store. Behind it the MCP dispatcher (\<open>mcp_dispatch.py\<close>) is the last boundary before a
  terminal: it validates the call against the tool registry (\<open>mcp_tools.py\<close>), verifies the grant and
  proof once more at the actuator, checks the lease, the live window (\<open>logical_targets.py\<close> resolves
  aliases), policy and approval, and signs what came of it. Outbound calls and exports pass the two guards (\<open>egress_guard.py\<close>,
  \<open>export_guard.py\<close>), and the runtime lifetime (\<open>runtime_lifetime.py\<close>) drains operations at
  shutdown. What an agent does in a session is recorded by the provenance recorder
  (\<open>provenance.py\<close>) in a hash-chained log of its own; where agents may not write that log, they send
  signed requests (\<open>provenance_ipc.py\<close>) to the provenance service, whose core
  (\<open>provenance_service_core.py\<close>) verifies them, appends to the recorder of the session and answers with a
  signed receipt.

  \<^bold>\<open>Shared theories.\<close> Prelude: Python strings, bytes, timestamps, dictionaries, results that are
  an exception or a value, hexadecimal text. Json: JSON values, Python equality on them, the
  canonical text with sorted keys and its injectivity up to key order, on which every statement
  about signed texts rests. LogInterface: the ledger as its callers see it, the locale
  \<open>audit_log\<close>, interpreted on the model of \<open>AgentLedger\<close> in LedgerChain.

  \<^bold>\<open>Components.\<close> Each is a theory of definitions and, where it is large, a theory of properties.
    \<^item> Labels, Profile, Guards, GuardsSpec: classification labels with their dominance order, the
      deployment profile with its validation and signature, both guards. The export gate respects
      dominance, a guarded call runs exactly when the profile permits it, the codecs round-trip.
    \<^item> Lifetime: the drain barrier as atomic steps of any number of threads; after
      \<open>close_and_drain\<close> no operation runs or starts, in every interleaving.
    \<^item> Ledger, LedgerChain, LedgerSpec: \<open>AgentLedger\<close> as its files (entries and unreadable lines),
      counters and indexes; appending, verification, rotation, recovery after a restart, lookups.
      The chain is kept by every operation and two accepted chains with one head agree entry for
      entry unless the hash collides; lookups through the index agree with the verified ones.
    \<^item> ApprovalAudit, ApprovalSpec: decision proofs, transition events and the ledger-backed sink.
    \<^item> Operator: the in-memory queue. Durable, DurableProofs, DurableSpec: \<open>DurableOperatorQueue\<close>
      as the tables of its database, its transactions and the transactional outbox, with crashes
      between the steps of a transition. An approval is granted at most once over every
      interleaving, only with evidence in the ledger; interrupted transitions are completed.
    \<^item> Control, ControlSpec: the control plane, its transition table, draining and the kill switch,
      also interleaved with other threads.
    \<^item> Composition: the sliding-window sequence monitor, and the history-based specification it
      refines.
    \<^item> Policy, PolicySpec: policy bundles and their signature, \<open>check\<close> with all its gates and the
      exact condition under which it allows.
    \<^item> Delegation, DelegationSpec, ReceiptSpec: grants, action proofs and receipts as the
      constructors accept them, their codecs, issuing, signing and verification. An accepted
      action was authorised by the owner of the issuing key and made by the subject; what is issued
      verifies; a receipt testifies to exactly one execution.
    \<^item> Revocation: the registry and the watcher; revocation is terminal and epochs only grow.
    \<^item> TrustStore: owner keys; a trusted key was proved by its owner.
    \<^item> ReplayStore: the table of consumed actions and the locale \<open>replay_protocol\<close> it implements.
    \<^item> McpTools, McpToolsSpec: the 21 tool schemas and the validator, which accepts exactly the
      objects that conform to a schema. PyValues: \<open>str\<close>, \<open>int\<close>, \<open>repr\<close> and base64 of values,
      \<open>str.count\<close> and \<open>str.replace\<close>, the ANSI escape pattern. LogicalTargets: aliases and their
      resolution to exactly one window. Leases: runtime leases and the store of their authority.
    \<^item> DispatchState, DispatchGate, DispatchHandlers, Dispatch: \<open>MCPDispatcher\<close> as a record of state
      over a world of services, the gates in front of an actuator, every tool handler, and the two
      entry points. DispatchFrame and DispatchLocale hold the contract of the services (locales
      \<open>movement\<close>, \<open>quiet_services\<close>, \<open>boundary_reads\<close>, \<open>boundary_moves\<close>, \<open>governed_dispatch\<close>);
      GovernedHost interprets them on the modelled replay store, DispatchDemo is one deployment.
      DispatchSpec: an actuator runs only after its action was admitted, once per action; a
      delegated call returns a fresh signed result or the recorded one. DeliverySpec: a
      confirmed delivery was authorised, sent and seen; the waiting loops end.
    \<^item> AcpShim, AcpShimSpec: the JSON-RPC handler on top of the four. The backend runs only
      authorised actions, none twice; every request is answered once; revocation reaches sessions.

    \<^item> JsonReader: \<open>json.loads\<close> on texts, with its round trip. Exec: the state-and-exception monad in
      which the provenance code is written, with the rules \<open>keeps\<close> (an invariant) and \<open>leads\<close> (a
      pre- and a postcondition) that hold whatever raises.
    \<^item> Provenance, ProvenanceVerify: \<open>ProvenanceRecorder\<close> and \<open>verify_log\<close>. ProvenanceChain gives logs
      that are whole lines a chain of records; ProvenanceRuns keeps that chain, and ProvenanceLog says what
      every operation appends (locale \<open>log_invariant\<close>, interpreted on the recorder's operations).
    \<^item> ProvenanceIpc, ProvenanceIpcProofs: frames, enrolments, signed requests and responses; what a
      verified request has shown.
    \<^item> ProvenanceCore, ProvenanceCoreProofs, ProvenanceOnce: \<open>ProvenanceServiceCore\<close> and its request
      store as tables, recorders, files and transactions; every way a request can end, and what it
      leaves in files and tables.
    \<^item> ProvenanceSpec: a recorder keeps an intact log over every run on a disk that takes whole lines, and
      one refused write breaks it; only admitted requests reach a ledger; one record per request id and
      receipts that are backed and final, under faults and restarts; frames have one encoding; a
      request with upper-case signatures is committed but never verifies again. ProvenanceDemo evaluates
      the concrete recorder and service of its instances.

  \<^bold>\<open>State and effects.\<close> State is a record passed explicitly; an operation returns the new state and
  its result, an exception on the left of a sum. A database is the content of its tables, a file
  the list of its lines (its text, for a provenance log). Statements and file operations that can fail take the failure as an
  argument, so that the theorems hold wherever it happens. Concurrency is a step relation or a list
  of steps in any order; locks make the modelled steps atomic in the code.

  \<^bold>\<open>Parameters.\<close> SHA-256, Ed25519 and ECDSA P-384 come from libraries and are arguments; what a
  theorem needs of them is one of its hypotheses (a signing key whose signatures are accepted,
  signatures that exist only for texts that were signed) or a disjunct of its conclusion (a
  collision). Clocks, fresh identifiers, nonces and platform path rules are arguments too; so is
  \<open>json.loads\<close> where a component only reads its own texts, but for the provenance theories,
  which use the reader of JsonReader. That reader takes no fractional or exponent numbers, so a frame with
  one is refused as \<open>invalid_json\<close> where the code says \<open>float_not_allowed\<close>. Disk, signing identity,
  replication sink, commit callback and the failures of SQLite are services over a world and may fail at
  any call. Dashes and ellipses in messages are written in ASCII.

  \<^bold>\<open>Bounds.\<close> Times are whole seconds, on which the code's float arithmetic is exact; characters
  are code points below 256. Integers are unbounded as in Python. Loops recurse on their data, but for
  the two that wait on a clock (\<open>await_echo\<close>, \<open>await_output\<close>): they take a number of passes,
  \<open>sv_poll_limit\<close>, and give \<open>Unfinished\<close> beyond it; theorem \<open>waiting_ends\<close> shows that 201 and 601
  passes are enough for every timeout the schemas admit. The JSON reader takes one more than twice the
  length of its text as fuel, which lemma \<open>json_loads_bound\<close> shows to be enough.

  \<^bold>\<open>Not modelled.\<close> The remote replication sinks (calls of boto3 and of the Cloudflare API),
  the process around the provenance core (Windows service, pipe, client), the handshake, the version gate
  and the session index; the MCP governor and the governed runtime around the dispatcher. Key files, CNG and TPM calls, window
  messages, named pipes, Windows services, command lines and export adapters are operating-system
  or library calls without logic of their own. The migration of old database files, the starting
  and joining of threads and the creation of directories are left out of the modelled components.
  The Ultra server is a JavaScript program.
\<close>

end
